(* ===== verification/Plex86_Prelude.thy ===== *)
theory Plex86_Prelude
  imports "HOL-Library.Word"
begin

text \<open>
  The prelude of the development: names for the machine integers of the sources, the computations
  of the C code as a state monad with the ways a run can fail to return, a weakest-precondition
  calculus and a preservation calculus over that monad, and the facts on words that the components
  share.

  \<^item> \<open>Ret v s\<close>: the C function returned \<open>v\<close> in state \<open>s\<close>.
  \<^item> \<open>Panic msg s\<close>: the code called \<^verbatim>\<open>monpanic\<close> (or the host refused to resume the
    monitor); control never comes back to the caller.
  \<^item> \<open>Undef msg\<close>: the code performed an access the C language gives no meaning to (an array
    index out of range, a division by zero). No source function is meant to reach it.
  \<^item> \<open>Hang\<close>: a loop of the code never ends.
\<close>

unbundle bit_operations_syntax

type_synonym Bit8u = "8 word"
type_synonym Bit16u = "16 word"
type_synonym Bit32u = "32 word"
type_synonym Bit64u = "64 word"

section \<open>Computations\<close>

datatype ('s, 'a) outcome = Ret 'a 's | Panic string 's | Undef string | Hang

type_synonym ('s, 'a) comp = "'s \<Rightarrow> ('s, 'a) outcome"

definition ret :: "'a \<Rightarrow> ('s, 'a) comp" where
  "ret x s = Ret x s"

definition bnd :: "('s, 'a) comp \<Rightarrow> ('a \<Rightarrow> ('s, 'b) comp) \<Rightarrow> ('s, 'b) comp" where
  "bnd m f s = (case m s of Ret x s' \<Rightarrow> f x s' | Panic e s' \<Rightarrow> Panic e s' | Undef e \<Rightarrow> Undef e
     | Hang \<Rightarrow> Hang)"

definition thn :: "('s, 'a) comp \<Rightarrow> ('s, 'b) comp \<Rightarrow> ('s, 'b) comp" where
  "thn m k = bnd m (\<lambda>_. k)"

definition gets :: "('s \<Rightarrow> 'a) \<Rightarrow> ('s, 'a) comp" where
  "gets f s = Ret (f s) s"

definition modify :: "('s \<Rightarrow> 's) \<Rightarrow> ('s, unit) comp" where
  "modify f s = Ret () (f s)"

definition undef :: "string \<Rightarrow> ('s, 'a) comp" where
  "undef e s = Undef e"

definition halt :: "string \<Rightarrow> ('s, 'a) comp" where
  "halt e s = Panic e s"

definition whenM :: "bool \<Rightarrow> ('s, unit) comp \<Rightarrow> ('s, unit) comp" where
  "whenM b m = (if b then m else ret ())"

definition inBounds :: "string \<Rightarrow> bool \<Rightarrow> ('s, unit) comp" where
  "inBounds e b = (if b then ret () else undef e)"

fun forM :: "'i list \<Rightarrow> ('i \<Rightarrow> ('s, unit) comp) \<Rightarrow> ('s, unit) comp" where
  "forM [] f = ret ()"
| "forM (i # is) f = thn (f i) (forM is f)"

text \<open>What a run leaves behind, for statements about one returned state.\<close>

fun returns :: "('s, 'a) outcome \<Rightarrow> bool" where
  "returns (Ret _ _) = True"
| "returns _ = False"

fun panics :: "('s, 'a) outcome \<Rightarrow> bool" where
  "panics (Panic _ _) = True"
| "panics _ = False"

section \<open>Weakest preconditions\<close>

text \<open>
  \<open>wp m Q s\<close>: from \<open>s\<close>, the computation \<open>m\<close> never meets undefined behaviour, and if it
  returns then \<open>Q\<close> holds of the value and the state. A panic stops the virtual machine, so it
  satisfies every postcondition, as does a run that never ends; \<open>twp\<close> is the same with the return demanded.
\<close>

definition wp :: "('s, 'a) comp \<Rightarrow> ('a \<Rightarrow> 's \<Rightarrow> bool) \<Rightarrow> 's \<Rightarrow> bool" where
  "wp m Q s = (case m s of Ret x s' \<Rightarrow> Q x s' | Panic _ _ \<Rightarrow> True | Undef _ \<Rightarrow> False | Hang \<Rightarrow> True)"

definition twp :: "('s, 'a) comp \<Rightarrow> ('a \<Rightarrow> 's \<Rightarrow> bool) \<Rightarrow> 's \<Rightarrow> bool" where
  "twp m Q s = (case m s of Ret x s' \<Rightarrow> Q x s' | Panic _ _ \<Rightarrow> False | Undef _ \<Rightarrow> False | Hang \<Rightarrow> False)"

named_theorems wp_rules \<open>weakest preconditions of the operations\<close>
named_theorems pres_rules \<open>operations that preserve an invariant\<close>
named_theorems keeps_rules \<open>operations that leave a part of the state alone\<close>
named_theorems mon_defs \<open>definitions of the primitive computations\<close>

declare ret_def [mon_defs] bnd_def [mon_defs] thn_def [mon_defs] gets_def [mon_defs]
  modify_def [mon_defs] undef_def [mon_defs] halt_def [mon_defs] whenM_def [mon_defs] inBounds_def [mon_defs]

lemma wp_ret [simp, wp_rules]: "wp (ret x) Q = Q x"
  by (simp add: fun_eq_iff wp_def ret_def)

lemma wp_bnd [simp, wp_rules]: "wp (bnd m f) Q s = wp m (\<lambda>x. wp (f x) Q) s"
  by (simp add: wp_def bnd_def split: outcome.splits)

lemma wp_thn [simp, wp_rules]: "wp (thn m k) Q s = wp m (\<lambda>_. wp k Q) s"
  by (simp add: thn_def)

lemma wp_gets [simp, wp_rules]: "wp (gets f) Q s = Q (f s) s"
  by (simp add: wp_def gets_def)

lemma wp_modify [simp, wp_rules]: "wp (modify f) Q s = Q () (f s)"
  by (simp add: wp_def modify_def)

lemma wp_undef [simp, wp_rules]: "wp (undef e) Q s = False"
  by (simp add: wp_def undef_def)

lemma wp_halt [simp, wp_rules]: "wp (halt e) Q s"
  by (simp add: wp_def halt_def)

lemma wp_whenM [simp, wp_rules]: "wp (whenM b m) Q s = (if b then wp m Q s else Q () s)"
  by (simp add: whenM_def)

lemma wp_inBounds [simp, wp_rules]: "wp (inBounds e b) Q s = (b \<and> Q () s)"
  by (simp add: inBounds_def)

lemma wp_if: "wp (if b then m else m') Q s = (if b then wp m Q s else wp m' Q s)"
  by simp

lemma wp_mono: "wp m P s \<Longrightarrow> (\<And>x t. P x t \<Longrightarrow> Q x t) \<Longrightarrow> wp m Q s"
  by (simp add: wp_def split: outcome.splits)

lemma wp_bndI: "wp m P s \<Longrightarrow> (\<And>x t. P x t \<Longrightarrow> wp (f x) Q t) \<Longrightarrow> wp (bnd m f) Q s"
  unfolding wp_bnd by (rule wp_mono)

lemma wp_thnI: "wp m P s \<Longrightarrow> (\<And>x t. P x t \<Longrightarrow> wp k Q t) \<Longrightarrow> wp (thn m k) Q s"
  unfolding wp_thn by (rule wp_mono)

lemma wp_conj: "wp m P s \<Longrightarrow> wp m Q s \<Longrightarrow> wp m (\<lambda>x t. P x t \<and> Q x t) s"
  by (simp add: wp_def split: outcome.splits)

text \<open>The same for total correctness.\<close>

lemma twp_iff: "twp m Q s = (\<exists>x t. m s = Ret x t \<and> Q x t)"
  by (simp add: twp_def split: outcome.splits)

lemma twp_ret [simp]: "twp (ret x) Q = Q x"
  by (simp add: fun_eq_iff twp_def ret_def)

lemma twp_bnd [simp]: "twp (bnd m f) Q s = twp m (\<lambda>x. twp (f x) Q) s"
  by (simp add: twp_def bnd_def split: outcome.splits)

lemma twp_thn [simp]: "twp (thn m k) Q s = twp m (\<lambda>_. twp k Q) s"
  by (simp add: thn_def)

lemma twp_fun: "twp (bnd m f) Q = twp m (\<lambda>x. twp (f x) Q)" "twp (thn m k) Q = twp m (\<lambda>_. twp k Q)"
  by (simp_all add: fun_eq_iff)

lemma twp_gets [simp]: "twp (gets f) Q s = Q (f s) s"
  by (simp add: twp_def gets_def)

lemma twp_modify [simp]: "twp (modify f) Q s = Q () (f s)"
  by (simp add: twp_def modify_def)

lemma twp_undef [simp]: "\<not> twp (undef e) Q s"
  by (simp add: twp_def undef_def)

lemma twp_halt [simp]: "\<not> twp (halt e) Q s"
  by (simp add: twp_def halt_def)

lemma twp_whenM [simp]: "twp (whenM b m) Q s = (if b then twp m Q s else Q () s)"
  by (simp add: whenM_def)

lemma twp_inBounds [simp]: "twp (inBounds e b) Q s = (b \<and> Q () s)"
  by (simp add: inBounds_def)

lemma twp_mono: "twp m P s \<Longrightarrow> (\<And>x t. P x t \<Longrightarrow> Q x t) \<Longrightarrow> twp m Q s"
  by (simp add: twp_def split: outcome.splits)

lemma twp_False [simp]: "twp m (\<lambda>_ _. False) = (\<lambda>_. False)"
  by (simp add: fun_eq_iff twp_def split: outcome.splits)

lemma twp_Ret_eq: "m s = Ret x t \<Longrightarrow> twp m Q s = Q x t"
  by (simp add: twp_def)

text \<open>Invariants of the \<open>i\<close>-th turn of a loop that must end.\<close>

lemma twp_forM:
  assumes "I 0 s" "\<And>i t. i < length is \<Longrightarrow> I i t \<Longrightarrow> twp (f (is ! i)) (\<lambda>_. I (Suc i)) t"
  shows "twp (forM is f) (\<lambda>_. I (length is)) s"
  using assms
proof (induction "is" arbitrary: s I)
  case (Cons x xs)
  have "twp (f x) (\<lambda>_ t. twp (forM xs f) (\<lambda>_ t. I (Suc (length xs)) t) t) s"
  proof (rule twp_mono)
    show "twp (f x) (\<lambda>_. I (Suc 0)) s" using Cons.prems(2) [of 0 s] Cons.prems(1) by simp
    show "twp (forM xs f) (\<lambda>_ t. I (Suc (length xs)) t) t" if "I (Suc 0) t" for t
      using Cons.IH [of "\<lambda>i. I (Suc i)", OF that] Cons.prems(2) [of "Suc i" for i] by fastforce
  qed
  then show ?case by simp
qed simp

lemma twp_forM_upt:
  assumes "I 0 s" "\<And>i t. i < n \<Longrightarrow> I i t \<Longrightarrow> twp (f i) (\<lambda>_. I (Suc i)) t"
  shows "twp (forM [0..<n] f) (\<lambda>_. I n) s"
  using twp_forM [of I s "[0..<n]" f] assms by simp

lemma twp_wp: "twp m Q s \<Longrightarrow> wp m Q s"
  by (simp add: twp_def wp_def split: outcome.splits)

lemma wpI: "(\<And>x t. m s = Ret x t \<Longrightarrow> Q x t) \<Longrightarrow> (\<And>e. m s \<noteq> Undef e) \<Longrightarrow> wp m Q s"
  by (simp add: wp_def split: outcome.splits)

lemma wpD: "wp m Q s \<Longrightarrow> m s = Ret x t \<Longrightarrow> Q x t"
  by (simp add: wp_def)

lemma wp_not_Undef: "wp m Q s \<Longrightarrow> m s \<noteq> Undef e"
  by (auto simp: wp_def)

lemma bnd_Ret: "(bnd m f s = Ret y t) = (\<exists>x u. m s = Ret x u \<and> f x u = Ret y t)"
  by (simp add: bnd_def split: outcome.splits)

lemma thn_assoc: "thn (thn a b) c = thn a (thn b c)"
  by (simp add: fun_eq_iff thn_def bnd_def split: outcome.splits)

lemma forM_append: "forM (xs @ ys) f s = thn (forM xs f) (forM ys f) s"
  by (induction xs arbitrary: s) (simp_all add: thn_def bnd_def ret_def split: outcome.splits)

text \<open>A loop over \<open>[0..<n]\<close> whose \<open>i\<close>-th turn leads from state \<open>g i\<close> to \<open>g (i + 1)\<close>.\<close>

lemma forM_upt_Ret:
  assumes "\<And>i. i < n \<Longrightarrow> f i (g i) = Ret () (g (Suc i))"
  shows "forM [0..<n] f (g 0) = Ret () (g n)"
  using assms by (induction n) (simp_all add: forM_append thn_def bnd_def ret_def)

lemma ret_app [simp]: "ret x s = Ret x s"
  by (simp add: ret_def)

text \<open>As rewrite rules these two reach \<open>ret\<close> and \<open>halt\<close> without a state as well.\<close>

lemma wp_Ret [simp]: "wp (Ret x) Q = Q x" "wp (Panic e) Q s"
  by (simp_all add: fun_eq_iff wp_def)

lemma twp_Ret [simp]: "twp (Ret x) Q = Q x" "\<not> twp (Panic e) Q s"
  by (simp_all add: fun_eq_iff twp_def)

lemma gets_app [simp]: "gets f s = Ret (f s) s"
  by (simp add: gets_def)

lemma modify_app [simp]: "modify f s = Ret () (f s)"
  by (simp add: modify_def)

lemma undef_app [simp]: "undef e s = Undef e"
  by (simp add: undef_def)

lemma halt_app [simp]: "halt e s = Panic e s"
  by (simp add: halt_def)

lemma inBounds_app [simp]: "inBounds e b s = (if b then Ret () s else Undef e)"
  by (simp add: inBounds_def)

lemma whenM_app [simp]: "whenM b m s = (if b then m s else Ret () s)"
  by (simp add: whenM_def)

lemma bnd_app [simp]:
  "m s = Ret x t \<Longrightarrow> bnd m f s = f x t"
  "m s = Panic e t \<Longrightarrow> bnd m f s = Panic e t"
  "m s = Undef e \<Longrightarrow> bnd m f s = Undef e"
  "m s = Hang \<Longrightarrow> bnd m f s = Hang"
  by (simp_all add: bnd_def)

lemma thn_app [simp]:
  "m s = Ret x t \<Longrightarrow> thn m k s = k t"
  "m s = Panic e t \<Longrightarrow> thn m k s = Panic e t"
  "m s = Undef e \<Longrightarrow> thn m k s = Undef e"
  "m s = Hang \<Longrightarrow> thn m k s = Hang"
  by (simp_all add: thn_def)

section \<open>Preservation of an invariant\<close>

text \<open>
  \<open>pres I m\<close>: the computation keeps \<open>I\<close> and, started in a state that satisfies \<open>I\<close>, never
  meets undefined behaviour. The rules follow the shape of the computation, so the proof for a
  handler is a walk over its text with the lemma of every operation it calls.
\<close>

definition pres :: "('s \<Rightarrow> bool) \<Rightarrow> ('s, 'a) comp \<Rightarrow> bool" where
  "pres I m = (\<forall>s. I s \<longrightarrow> wp m (\<lambda>_. I) s)"

lemma presI: "(\<And>s. I s \<Longrightarrow> wp m (\<lambda>_. I) s) \<Longrightarrow> pres I m"
  by (simp add: pres_def)

lemma presD: "pres I m \<Longrightarrow> I s \<Longrightarrow> wp m (\<lambda>_. I) s"
  by (simp add: pres_def)

lemma pres_Ret: "pres I m \<Longrightarrow> I s \<Longrightarrow> m s = Ret x t \<Longrightarrow> I t"
  by (blast dest: presD wpD)

lemma pres_not_Undef: "pres I m \<Longrightarrow> I s \<Longrightarrow> m s \<noteq> Undef e"
  by (blast dest: presD wp_not_Undef)

lemma pres_wp_True: "pres (\<lambda>_. True) m \<Longrightarrow> (\<And>x t. Q x t) \<Longrightarrow> wp m Q s"
  by (auto simp: pres_def intro: wp_mono)

lemma pres_ret [pres_rules]: "pres I (ret x)"
  by (simp add: pres_def)

lemma pres_halt [pres_rules]: "pres I (halt e)"
  by (simp add: pres_def)

lemma pres_gets [pres_rules]: "pres I (gets f)"
  by (simp add: pres_def)

lemma pres_bnd [pres_rules]: "pres I m \<Longrightarrow> (\<And>x. pres I (f x)) \<Longrightarrow> pres I (bnd m f)"
  by (auto simp: pres_def intro: wp_mono)

lemma pres_thn [pres_rules]: "pres I m \<Longrightarrow> pres I k \<Longrightarrow> pres I (thn m k)"
  by (auto simp: pres_def intro: wp_mono)

lemma pres_if [pres_rules]: "(b \<Longrightarrow> pres I m) \<Longrightarrow> (\<not> b \<Longrightarrow> pres I k) \<Longrightarrow> pres I (if b then m else k)"
  by simp

lemma pres_whenM [pres_rules]: "(b \<Longrightarrow> pres I m) \<Longrightarrow> pres I (whenM b m)"
  by (simp add: pres_def)

lemma pres_let [pres_rules]: "(\<And>x. x = e \<Longrightarrow> pres I (f x)) \<Longrightarrow> pres I (let x = e in f x)"
  by simp

lemma pres_inBounds: "b \<Longrightarrow> pres I (inBounds e b)"
  by (simp add: pres_def)

lemma pres_modify: "(\<And>s. I s \<Longrightarrow> I (f s)) \<Longrightarrow> pres I (modify f)"
  by (simp add: pres_def)

lemma pres_case_option [pres_rules]:
  "(x = None \<Longrightarrow> pres I m) \<Longrightarrow> (\<And>y. x = Some y \<Longrightarrow> pres I (f y)) \<Longrightarrow>
   pres I (case x of None \<Rightarrow> m | Some y \<Rightarrow> f y)"
  by (cases x) auto

lemma pres_case_prod [pres_rules]:
  "(\<And>a b. p = (a, b) \<Longrightarrow> pres I (f a b)) \<Longrightarrow> pres I (case p of (a, b) \<Rightarrow> f a b)"
  by (cases p) auto

lemma pres_forM [pres_rules]:
  "(\<And>i. i \<in> set is \<Longrightarrow> pres I (f i)) \<Longrightarrow> pres I (forM is f)"
  by (induction "is") (auto intro: pres_ret pres_thn)

lemma pres_conj: "pres I m \<Longrightarrow> pres J m \<Longrightarrow> pres (\<lambda>s. I s \<and> J s) m"
  by (auto simp: pres_def intro: wp_conj)

section \<open>Frames\<close>

text \<open>\<open>keeps f m\<close>: when the computation returns, the part \<open>f\<close> of the state is what it was.\<close>

definition keeps :: "('s \<Rightarrow> 'c) \<Rightarrow> ('s, 'a) comp \<Rightarrow> bool" where
  "keeps f m = (\<forall>s x t. m s = Ret x t \<longrightarrow> f t = f s)"

lemma keepsI: "(\<And>s x t. m s = Ret x t \<Longrightarrow> f t = f s) \<Longrightarrow> keeps f m"
  by (simp add: keeps_def)

lemma keepsD: "keeps f m \<Longrightarrow> m s = Ret x t \<Longrightarrow> f t = f s"
  by (simp add: keeps_def)

lemma keeps_ret [keeps_rules]: "keeps f (ret x)"
  by (simp add: keeps_def)

lemma keeps_halt [keeps_rules]: "keeps f (halt e)"
  by (simp add: keeps_def)

lemma keeps_gets [keeps_rules]: "keeps f (gets g)"
  by (simp add: keeps_def)

lemma keeps_inBounds [keeps_rules]: "keeps f (inBounds e b)"
  by (simp add: keeps_def inBounds_def ret_def undef_def)

lemma keeps_modify: "(\<And>s. f (g s) = f s) \<Longrightarrow> keeps f (modify g)"
  by (simp add: keeps_def)

lemma keeps_bnd [keeps_rules]: "keeps f m \<Longrightarrow> (\<And>x. keeps f (k x)) \<Longrightarrow> keeps f (bnd m k)"
  unfolding keeps_def bnd_Ret by metis

lemma keeps_thn [keeps_rules]: "keeps f m \<Longrightarrow> keeps f k \<Longrightarrow> keeps f (thn m k)"
  unfolding thn_def by (rule keeps_bnd)

lemma keeps_if [keeps_rules]: "(b \<Longrightarrow> keeps f m) \<Longrightarrow> (\<not> b \<Longrightarrow> keeps f k) \<Longrightarrow> keeps f (if b then m else k)"
  by simp

lemma keeps_whenM [keeps_rules]: "(b \<Longrightarrow> keeps f m) \<Longrightarrow> keeps f (whenM b m)"
  by (simp add: whenM_def keeps_ret)

lemma keeps_let [keeps_rules]: "(\<And>x. x = e \<Longrightarrow> keeps f (k x)) \<Longrightarrow> keeps f (let x = e in k x)"
  by simp

lemma keeps_case_option [keeps_rules]:
  "keeps f m \<Longrightarrow> (\<And>y. x = Some y \<Longrightarrow> keeps f (k y)) \<Longrightarrow> keeps f (case x of None \<Rightarrow> m | Some y \<Rightarrow> k y)"
  by (cases x) auto

lemma keeps_case_sum [keeps_rules]:
  "(\<And>y. x = Inl y \<Longrightarrow> keeps f (k y)) \<Longrightarrow> (\<And>y. x = Inr y \<Longrightarrow> keeps f (k' y)) \<Longrightarrow>
   keeps f (case x of Inl y \<Rightarrow> k y | Inr y \<Rightarrow> k' y)"
  by (cases x) auto

lemma keeps_case_prod [keeps_rules]:
  "(\<And>a b. p = (a, b) \<Longrightarrow> keeps f (k a b)) \<Longrightarrow> keeps f (case p of (a, b) \<Rightarrow> k a b)"
  by (cases p) auto

lemma keeps_forM [keeps_rules]: "(\<And>i. keeps f (k i)) \<Longrightarrow> keeps f (forM is k)"
  by (induction "is") (auto intro: keeps_ret keeps_thn)

lemma keeps_never: "(\<And>s Q. \<not> twp m Q s) \<Longrightarrow> keeps f m"
  by (force simp: keeps_def twp_iff)

lemma pres_keeps: "pres I m \<Longrightarrow> keeps f m \<Longrightarrow> pres (\<lambda>s. I s \<and> P (f s)) m"
  by (auto simp: pres_def keeps_def wp_def split: outcome.splits)

section \<open>What a run that returns has done\<close>

text \<open>Where the code may be undefined, only the runs that return say something.\<close>

definition post :: "('s, 'a) comp \<Rightarrow> ('a \<Rightarrow> 's \<Rightarrow> bool) \<Rightarrow> 's \<Rightarrow> bool" where
  "post m Q s \<longleftrightarrow> (\<forall>x t. m s = Ret x t \<longrightarrow> Q x t)"

lemma postD: "post m Q s \<Longrightarrow> m s = Ret x t \<Longrightarrow> Q x t"
  by (simp add: post_def)

lemma post_mono: "post m P s \<Longrightarrow> (\<And>x t. P x t \<Longrightarrow> Q x t) \<Longrightarrow> post m Q s"
  by (auto simp: post_def)

lemma post_ret [simp]: "post (ret x) Q s = Q x s"
  by (simp add: post_def)

lemma post_Ret [simp]: "post (Ret x) Q s = Q x s"
  by (simp add: post_def)

lemma post_gets [simp]: "post (gets f) Q s = Q (f s) s"
  by (simp add: post_def)

lemma post_modify [simp]: "post (modify g) Q s = Q () (g s)"
  by (simp add: post_def)

lemma post_undef [simp]: "post (undef e) Q s"
  by (simp add: post_def)

lemma post_inBounds [simp]: "post (inBounds e b) Q s = (b \<longrightarrow> Q () s)"
  by (auto simp: post_def)

lemma post_bnd [simp]: "post (bnd m f) Q s = post m (\<lambda>x. post (f x) Q) s"
  by (simp add: post_def bnd_Ret) blast

lemma post_thn [simp]: "post (thn m k) Q s = post m (\<lambda>_. post k Q) s"
  unfolding thn_def by simp

lemma post_whenM [simp]: "post (whenM b m) Q s = (if b then post m Q s else Q () s)"
  by (simp add: post_def)

lemma post_if: "post (if b then m else m') Q s = (if b then post m Q s else post m' Q s)"
  by simp

lemma post_forM: "(\<And>i s. i \<in> set is \<Longrightarrow> I s \<Longrightarrow> post (f i) (\<lambda>_. I) s) \<Longrightarrow> I s \<Longrightarrow> post (forM is f) (\<lambda>_. I) s"
proof (induction "is" arbitrary: s)
  case (Cons i "is")
  have "post (f i) (\<lambda>_. I) s" using Cons.prems by simp
  then show ?case using Cons.IH Cons.prems(1) by (auto elim!: post_mono)
qed simp

lemma post_wp: "wp m Q s \<Longrightarrow> post m Q s"
  by (auto simp: post_def dest: wpD)

lemma post_conj: "post m P s \<Longrightarrow> post m Q s \<Longrightarrow> post m (\<lambda>x t. P x t \<and> Q x t) s"
  by (simp add: post_def)

lemma post_keeps: "keeps f m \<Longrightarrow> (\<And>x t. f t = f s \<Longrightarrow> Q x t) \<Longrightarrow> post m Q s"
  by (auto simp: post_def dest: keepsD)

lemma twp_post: "twp m P s \<Longrightarrow> post m Q s \<Longrightarrow> twp m (\<lambda>x t. P x t \<and> Q x t) s"
  by (auto simp: post_def twp_iff)

section \<open>Words\<close>

lemma drop_push_bit_32: "drop_bit k (push_bit k (w :: 32 word)) = take_bit (32 - k) w"
  by (rule bit_word_eqI) (auto simp: bit_simps)

text \<open>Bit fields: reading \<open>n\<close> bits at position \<open>k\<close>, and writing one bit.\<close>

definition bits_at :: "nat \<Rightarrow> nat \<Rightarrow> 'a::len word \<Rightarrow> 'a word" where
  "bits_at k n w = take_bit n (drop_bit k w)"

definition put_bit :: "nat \<Rightarrow> bool \<Rightarrow> 'a::len word \<Rightarrow> 'a word" where
  "put_bit n b w = (if b then set_bit n w else unset_bit n w)"

definition flag :: "bool \<Rightarrow> 'a::len word" where
  "flag b = (if b then 1 else 0)"

lemma flag_simps [simp]: "flag True = 1" "flag False = 0" "(flag b = 0) = (\<not> b)" "(flag b = 1) = b"
  by (simp_all add: flag_def)

lemma bit_put_bit [simp]:
  "bit (put_bit n b (w :: 'a::len word)) m = (if m = n \<and> n < LENGTH('a) then b else bit w m)"
  by (auto simp: put_bit_def bit_set_bit_iff bit_unset_bit_iff dest: bit_imp_le_length)

lemma word_0_iff: "(w :: 'a::len word) = 0 \<longleftrightarrow> (\<forall>n. \<not> bit w n)"
  by (auto intro: bit_word_eqI)

lemma and_bit_0 [simp]: "((w :: 'a::len word) AND 2 ^ n = 0) = (\<not> bit w n)"
  by (rule and_exp_eq_0_iff_not_bit)

lemma bit_beyond: "LENGTH('a) \<le> n \<Longrightarrow> \<not> bit (w :: 'a::len word) n"
  by (auto dest: bit_imp_le_length)

lemma unat_take_bit_less: "unat (take_bit n (w :: 'a::len word)) < 2 ^ n"
  by (simp add: unsigned_take_bit_eq)

lemma mask_and_eq:
  "(w :: 'a::len word) AND 1 = take_bit 1 w"
  "w AND 3 = take_bit 2 w"
  "w AND 7 = take_bit 3 w"
  "w AND 0xff = take_bit 8 w"
  "w AND 0x3ff = take_bit 10 w"
  "w AND 0xfff = take_bit 12 w"
  "w AND 0xffff = take_bit 16 w"
  by (simp_all add: take_bit_eq_mask mask_eq_exp_minus_1)

lemma and_mask_word_bound [simp]:
  "unat ((w :: 32 word) AND 0x3ff) < 1024"
  "unat (w AND 0xfff) < 4096"
  "unat (w AND 3) < 4"
  "unat (w AND 7) < 8"
  "unat (w AND 0xff) < 256"
proof -
  show "unat (w AND 0x3ff) < 1024" using unat_take_bit_less [of 10 w] by (simp add: mask_and_eq)
  show "unat (w AND 0xfff) < 4096" using unat_take_bit_less [of 12 w] by (simp add: mask_and_eq)
  show "unat (w AND 3) < 4" using unat_take_bit_less [of 2 w] by (simp add: mask_and_eq)
  show "unat (w AND 7) < 8" using unat_take_bit_less [of 3 w] by (simp add: mask_and_eq)
  show "unat (w AND 0xff) < 256" using unat_take_bit_less [of 8 w] by (simp add: mask_and_eq)
qed

lemma unat_drop_bit_less: "unat (drop_bit k (w :: 'a::len word)) < 2 ^ (LENGTH('a) - k)"
proof (cases "k \<le> LENGTH('a)")
  case True
  have "unat (drop_bit k w) = unat w div 2 ^ k"
    by (simp only: unat_drop_bit_eq flip: drop_bit_eq_div)
  moreover have "unat w < 2 ^ (LENGTH('a) - k) * 2 ^ k"
    using unsigned_less [of w] True by (simp flip: power_add)
  ultimately show ?thesis
    by (simp add: less_mult_imp_div_less)
next
  case False
  then have "drop_bit k w = 0"
    by (intro bit_eqI) (auto simp: bit_drop_bit_eq dest: bit_imp_le_length)
  then show ?thesis by simp
qed

lemma unat_eq_unat [simp]: "(unat (a :: 'a::len word) = unat b) = (a = b)"
  by (simp add: word_unat_eq_iff)

lemma unat_minus_1_32 [simp]: "unat (- 1 :: 32 word) = 4294967295"
  by (simp add: unsigned_minus_1_eq_mask mask_eq_exp_minus_1)

lemma bit_below:
  assumes "unat (w :: 'a::len word) < 2 ^ k" "bit w n"
  shows "n < k"
proof -
  have "unat (take_bit k w) = unat w"
    using assms(1) by (simp add: unsigned_take_bit_eq take_bit_nat_eq_self)
  then have "take_bit k w = w" by (simp only: unat_eq_unat)
  with assms(2) show ?thesis by (metis bit_take_bit_iff)
qed

lemma unat_less_32: "unat (w :: 32 word) < 4294967296"
  using unsigned_less [of w, where 'a = nat] by simp

lemma drop_bit_22_bound [simp]: "unat (drop_bit 22 (w :: 32 word)) < 1024"
  using unat_drop_bit_less [of 22 w] by simp

lemma drop_bit_12_10 [simp]: "drop_bit 10 (drop_bit 12 (w :: 32 word)) = drop_bit 22 w"
  by simp

end
