(* ===== verification/Nexus_Util.thy ===== *)
theory Nexus_Util
  imports Plex86_Prelude
begin

text \<open>
  The utilities shared by the host module and the monitor,
  \<^verbatim>\<open>host-kernel/vmm/nexus-space/util-nexus.c\<close>: the memory loops and the formatter
  \<^verbatim>\<open>nexusVsnprintf\<close>.

  The formatter writes through a pointer it only ever advances, so a run is described by the
  characters it has stored and its \<^verbatim>\<open>count\<close>. \<open>VOk out n\<close> is a return of \<open>n\<close> after storing
  \<open>out\<close> and the terminating null character; \<open>VErr out\<close> is the return of -1, with \<open>out\<close> stored
  already. The variable arguments are a list; an argument the caller did not pass is read as 0, one
  value among those an unspecified read may yield.
\<close>

section \<open>Memory loops\<close>

text \<open>Each loop runs on the byte array as a function of the address, \<open>sz\<close> times.\<close>

fun nexusMemZero :: "(nat \<Rightarrow> 'b::zero) \<Rightarrow> nat \<Rightarrow> nat \<Rightarrow> (nat \<Rightarrow> 'b)" where
  "nexusMemZero m p 0 = m"
| "nexusMemZero m p (Suc sz) = nexusMemZero (m(p := 0)) (Suc p) sz"

fun nexusMemCpy :: "(nat \<Rightarrow> 'b) \<Rightarrow> nat \<Rightarrow> (nat \<Rightarrow> 'b) \<Rightarrow> nat \<Rightarrow> nat \<Rightarrow> (nat \<Rightarrow> 'b)" where
  "nexusMemCpy dst d src s 0 = dst"
| "nexusMemCpy dst d src s (Suc sz) = nexusMemCpy (dst(d := src s)) (Suc d) src (Suc s) sz"

fun nexusMemSet :: "(nat \<Rightarrow> Bit8u) \<Rightarrow> nat \<Rightarrow> Bit32u \<Rightarrow> nat \<Rightarrow> (nat \<Rightarrow> Bit8u)" where
  "nexusMemSet m d c 0 = m"
| "nexusMemSet m d c (Suc n) = nexusMemSet (m(d := ucast c)) (Suc d) c n"

section \<open>The formatter\<close>

datatype fmtarg = ArgU Bit32u | ArgS string

datatype vsn = VOk string nat | VErr string

definition vbind :: "vsn \<Rightarrow> (string \<Rightarrow> nat \<Rightarrow> vsn) \<Rightarrow> vsn" where
  "vbind r f = (case r of VOk out count \<Rightarrow> f out count | VErr out \<Rightarrow> VErr out)"

text \<open>\<^verbatim>\<open>if ((count+2) >= size) goto error; *str++ = ch; count++;\<close>\<close>

definition vput :: "nat \<Rightarrow> char \<Rightarrow> string \<Rightarrow> nat \<Rightarrow> vsn" where
  "vput sz ch out count = (if count + 2 \<ge> sz then VErr out else VOk (out @ [ch]) (count + 1))"

definition hexChar :: "nat \<Rightarrow> char" where
  "hexChar nibble = (if nibble \<le> 9 then char_of (nibble + 48) else char_of (nibble - 10 + 65))"

text \<open>Is digit \<open>j\<close> skipped: a zero before the first printed digit, not the last one, and outside
  the field width when there is one.\<close>

definition skipDigit :: "Bit32u \<Rightarrow> bool \<Rightarrow> nat \<Rightarrow> bool \<Rightarrow> bool" where
  "skipDigit format_width leadin j isZero \<longleftrightarrow>
     leadin \<and> j \<noteq> 0 \<and> isZero \<and> (format_width = 0 \<or> j + 1 > unat format_width)"

fun fmtHex :: "nat \<Rightarrow> Bit32u \<Rightarrow> Bit32u \<Rightarrow> bool \<Rightarrow> nat \<Rightarrow> string \<Rightarrow> nat \<Rightarrow> vsn" where
  "fmtHex sz format_width val leadin 0 out count = VOk out count"
| "fmtHex sz format_width val leadin (Suc j) out count =
     (let nibble = unat (drop_bit (4 * j) val AND 0x0f) in
      if skipDigit format_width leadin j (nibble = 0)
      then fmtHex sz format_width val leadin j out count
      else vbind (vput sz (hexChar nibble) out count) (fmtHex sz format_width val False j))"

fun fmtDec :: "nat \<Rightarrow> Bit32u \<Rightarrow> nat \<Rightarrow> bool \<Rightarrow> nat \<Rightarrow> string \<Rightarrow> nat \<Rightarrow> vsn" where
  "fmtDec sz format_width val leadin 0 out count = VOk out count"
| "fmtDec sz format_width val leadin (Suc j) out count =
     (if skipDigit format_width leadin j (val < 10 ^ j)
      then fmtDec sz format_width val leadin j out count
      else let digit = val div 10 ^ j in
        vbind (vput sz (char_of (digit + 48)) out count)
          (fmtDec sz format_width (val - digit * 10 ^ j) False j))"

fun fmtBin :: "nat \<Rightarrow> Bit32u \<Rightarrow> Bit32u \<Rightarrow> bool \<Rightarrow> nat \<Rightarrow> string \<Rightarrow> nat \<Rightarrow> vsn" where
  "fmtBin sz format_width val leadin 0 out count = VOk out count"
| "fmtBin sz format_width val leadin (Suc j) out count =
     (let b = unat (drop_bit j val AND 1) in
      if skipDigit format_width leadin j (b = 0)
      then fmtBin sz format_width val leadin j out count
      else vbind (vput sz (char_of (b + 48)) out count) (fmtBin sz format_width val False j))"

fun fmtStrLoop :: "nat \<Rightarrow> string \<Rightarrow> string \<Rightarrow> nat \<Rightarrow> vsn" where
  "fmtStrLoop sz [] out count = VOk out count"
| "fmtStrLoop sz (c # s) out count = vbind (vput sz c out count) (fmtStrLoop sz s)"

text \<open>The \<^verbatim>\<open>%s\<close> conversion counts one before the copy loop.\<close>

definition fmtStr :: "nat \<Rightarrow> string \<Rightarrow> string \<Rightarrow> nat \<Rightarrow> vsn" where
  "fmtStr sz s out count = (if count + 2 \<ge> sz then VErr out else fmtStrLoop sz s out (count + 1))"

definition isDigit :: "char \<Rightarrow> bool" where
  "isDigit c \<longleftrightarrow> (48 :: nat) \<le> of_char c \<and> (of_char c :: nat) \<le> 57"

text \<open>The optional field width, an unsigned accumulator that wraps.\<close>

fun fmtWidth :: "Bit32u \<Rightarrow> string \<Rightarrow> Bit32u \<times> string" where
  "fmtWidth w [] = (w, [])"
| "fmtWidth w (c # cs) =
     (if isDigit c then fmtWidth (w * 10 + of_nat (of_char c - 48)) cs else (w, c # cs))"

fun argU :: "fmtarg list \<Rightarrow> Bit32u \<times> fmtarg list" where
  "argU (ArgU v # as) = (v, as)"
| "argU (ArgS s # as) = (0, as)"
| "argU [] = (0, [])"

fun argS :: "fmtarg list \<Rightarrow> string \<times> fmtarg list" where
  "argS (ArgS s # as) = (s, as)"
| "argS (ArgU v # as) = ([], as)"
| "argS [] = ([], [])"

text \<open>One conversion, and the arguments it leaves.\<close>

definition fmtConv :: "nat \<Rightarrow> Bit32u \<Rightarrow> char \<Rightarrow> fmtarg list \<Rightarrow> string \<Rightarrow> nat \<Rightarrow> vsn \<times> fmtarg list" where
  "fmtConv sz w c args out count =
     (if c = CHR ''x'' then (fmtHex sz w (fst (argU args)) True 8 out count, snd (argU args))
      else if c = CHR ''c'' then (vput sz (char_of (unat (fst (argU args)))) out count, snd (argU args))
      else if c = CHR ''s'' then (fmtStr sz (fst (argS args)) out count, snd (argS args))
      else if c = CHR ''u'' then (fmtDec sz w (unat (fst (argU args))) True 10 out count, snd (argU args))
      else if c = CHR ''b'' then (fmtBin sz w (fst (argU args)) True 32 out count, snd (argU args))
      else (VErr out, args))"

lemma vbind_cong [fundef_cong]:
  "r = r' \<Longrightarrow> (\<And>out count. r' = VOk out count \<Longrightarrow> f out count = g out count) \<Longrightarrow> vbind r f = vbind r' g"
  by (simp add: vbind_def split: vsn.splits)

lemma fmtWidth_length: "length (snd (fmtWidth w cs)) \<le> length cs"
  by (induction w cs rule: fmtWidth.induct) auto

function vsnLoop :: "nat \<Rightarrow> string \<Rightarrow> fmtarg list \<Rightarrow> string \<Rightarrow> nat \<Rightarrow> vsn" where
  "vsnLoop sz [] args out count = VOk out count"
| "vsnLoop sz (c # cs) args out count =
     (if c \<noteq> CHR ''%'' then vbind (vput sz c out count) (vsnLoop sz cs args)
      else case fmtWidth 0 cs of
          (w, []) \<Rightarrow> VErr out
        | (w, d # ds) \<Rightarrow>
            vbind (fst (fmtConv sz w d args out count))
              (vsnLoop sz ds (snd (fmtConv sz w d args out count))))"
  by pat_completeness auto

termination
proof (relation "measure (\<lambda>(sz, fmt, args, out, count). length fmt)", goal_cases)
  case (3 sz c cs args out count x1 x2 d ds)
  then show ?case
    using fmtWidth_length [of 0 cs] by (cases "fmtWidth 0 cs") auto
qed auto

definition nexusVsnprintf :: "nat \<Rightarrow> string \<Rightarrow> fmtarg list \<Rightarrow> vsn" where
  "nexusVsnprintf sz fmt args = vsnLoop sz fmt args [] 0"

section \<open>The memory loops do what they say\<close>

lemma nexusMemZero_apply:
  "nexusMemZero m p sz a = (if p \<le> a \<and> a < p + sz then 0 else m a)"
  by (induction sz arbitrary: m p) auto

lemma nexusMemCpy_apply:
  "nexusMemCpy dst d src s sz a = (if d \<le> a \<and> a < d + sz then src (s + (a - d)) else dst a)"
  by (induction sz arbitrary: dst d s) (auto intro!: arg_cong [where f = src])

lemma nexusMemSet_apply:
  "nexusMemSet m d c n a = (if d \<le> a \<and> a < d + n then ucast c else m a)"
  by (induction n arbitrary: m d) auto

section \<open>The formatter never writes past the buffer\<close>

text \<open>\<open>vfits sz r\<close>: what has been stored, and the null character of a normal return, lie inside
  \<open>sz\<close> bytes, and the returned count is at least the number of characters stored.\<close>

fun vfits :: "nat \<Rightarrow> vsn \<Rightarrow> bool" where
  "vfits sz (VOk out count) \<longleftrightarrow> length out \<le> count \<and> count < sz"
| "vfits sz (VErr out) \<longleftrightarrow> length out < sz"

lemma vfits_vbind:
  "vfits sz r \<Longrightarrow> (\<And>out count. vfits sz (VOk out count) \<Longrightarrow> vfits sz (f out count)) \<Longrightarrow>
   vfits sz (vbind r f)"
  by (cases r) (auto simp: vbind_def)

lemma vfits_vput: "vfits sz (VOk out count) \<Longrightarrow> vfits sz (vput sz c out count)"
  by (auto simp: vput_def)

lemma vfits_fmtHex: "vfits sz (VOk out count) \<Longrightarrow> vfits sz (fmtHex sz w val l j out count)"
  by (induction j arbitrary: l out count) (auto simp: Let_def intro!: vfits_vbind vfits_vput)

lemma vfits_fmtDec: "vfits sz (VOk out count) \<Longrightarrow> vfits sz (fmtDec sz w val l j out count)"
  by (induction j arbitrary: val l out count) (auto simp: Let_def intro!: vfits_vbind vfits_vput)

lemma vfits_fmtBin: "vfits sz (VOk out count) \<Longrightarrow> vfits sz (fmtBin sz w val l j out count)"
  by (induction j arbitrary: l out count) (auto simp: Let_def intro!: vfits_vbind vfits_vput)

lemma vfits_fmtStr: "vfits sz (VOk out count) \<Longrightarrow> vfits sz (fmtStr sz s out count)"
proof -
  have "vfits sz (VOk out count) \<Longrightarrow> vfits sz (fmtStrLoop sz s out count)" for out count
    by (induction s arbitrary: out count) (auto intro!: vfits_vbind vfits_vput)
  then show "vfits sz (VOk out count) \<Longrightarrow> ?thesis"
    by (auto simp: fmtStr_def)
qed

lemma vfits_fmtConv:
  "vfits sz (VOk out count) \<Longrightarrow> vfits sz (fst (fmtConv sz w c args out count))"
  by (auto simp: fmtConv_def
      intro: vfits_fmtHex vfits_fmtDec vfits_fmtBin vfits_fmtStr vfits_vput simp del: vfits.simps)
    simp

lemma vfits_vsnLoop: "vfits sz (VOk out count) \<Longrightarrow> vfits sz (vsnLoop sz fmt args out count)"
proof (induction sz fmt args out count rule: vsnLoop.induct)
  case (2 sz c cs args out count)
  show ?case
  proof (cases "c = CHR ''%''")
    case False
    moreover from this have "vfits sz (vsnLoop sz cs args out' count')"
      if "vput sz c out count = VOk out' count'" for out' count'
      using 2(1) that vfits_vput [OF 2(3), of c] by simp
    ultimately show ?thesis
      using vfits_vput [OF 2(3), of c] by (cases "vput sz c out count") (simp_all add: vbind_def)
  next
    case True
    obtain w ds' where w: "fmtWidth 0 cs = (w, ds')" by fastforce
    show ?thesis
    proof (cases ds')
      case Nil
      then show ?thesis using True w 2(3) by simp
    next
      case (Cons d ds)
      let ?r = "fmtConv sz w d args out count"
      have "vfits sz (vsnLoop sz ds (snd ?r) out' count')" if "fst ?r = VOk out' count'" for out' count'
        using 2(2) that True w Cons vfits_fmtConv [OF 2(3), of w d args] by simp
      then show ?thesis
        using vfits_fmtConv [OF 2(3), of w d args] True w Cons
        by (cases "fst ?r") (simp_all add: vbind_def)
    qed
  qed
qed simp

section \<open>The digits printed are the number passed\<close>

definition digitVal :: "char \<Rightarrow> nat" where
  "digitVal c = (if of_char c \<le> (57 :: nat) then of_char c - 48 else of_char c - 55)"

fun digitsVal :: "nat \<Rightarrow> string \<Rightarrow> nat" where
  "digitsVal b [] = 0"
| "digitsVal b (c # cs) = digitVal c * b ^ length cs + digitsVal b cs"

lemma digitVal_hexChar: "n < 16 \<Longrightarrow> digitVal (hexChar n) = n"
  by (auto simp: digitVal_def hexChar_def)

lemma digitVal_dec: "n < 10 \<Longrightarrow> digitVal (char_of (n + 48 :: nat)) = n"
  by (auto simp: digitVal_def)

lemma unat_nibble: "unat (drop_bit (4 * j) (v :: Bit32u) AND 0x0f) = unat v div 16 ^ j mod 16"
proof -
  have "drop_bit (4 * j) v AND 0x0f = take_bit 4 (drop_bit (4 * j) v)"
    by (simp add: take_bit_eq_mask mask_eq_exp_minus_1)
  then show ?thesis
    by (simp only: unsigned_take_bit_eq unat_drop_bit_eq)
      (simp add: drop_bit_eq_div take_bit_eq_mod power_mult)
qed

lemma fmtHex_digits:
  assumes "count + j + 1 < sz"
  shows "\<exists>ds. fmtHex sz w val l j out count = VOk (out @ ds) (count + length ds) \<and>
           (\<not> l \<longrightarrow> length ds = j) \<and> length ds \<le> j \<and> digitsVal 16 ds = unat val mod 16 ^ j"
  using assms
proof (induction j arbitrary: l out count)
  case (Suc j)
  let ?n = "unat (drop_bit (4 * j) val AND 0x0f)"
  have n: "?n = unat val div 16 ^ j mod 16"
    by (rule unat_nibble)
  have split: "unat val mod 16 ^ Suc j = ?n * 16 ^ j + unat val mod 16 ^ j"
    unfolding n using mod_mult2_eq [of "unat val" "16 ^ j" 16] by (simp add: ac_simps)
  show ?case
  proof (cases "skipDigit w l j (?n = 0)")
    case True
    then have "l" "?n = 0" by (auto simp: skipDigit_def)
    with Suc.IH [of count l out] Suc.prems True split show ?thesis
      by (auto simp: Let_def)
  next
    case False
    have "count + 2 < sz" using Suc.prems by simp
    moreover obtain ds where
      "fmtHex sz w val False j (out @ [hexChar ?n]) (count + 1) =
         VOk ((out @ [hexChar ?n]) @ ds) (count + 1 + length ds)"
      "length ds = j" "digitsVal 16 ds = unat val mod 16 ^ j"
      using Suc.IH [of "count + 1" False "out @ [hexChar ?n]"] Suc.prems by auto
    moreover have "digitVal (hexChar ?n) = ?n" by (rule digitVal_hexChar) (simp add: n)
    ultimately show ?thesis
      using False split by (intro exI [of _ "hexChar ?n # ds"]) (simp add: Let_def vput_def vbind_def)
  qed
qed simp

lemma fmtDec_digits:
  assumes "count + j + 1 < sz" "val < 10 ^ j"
  shows "\<exists>ds. fmtDec sz w val l j out count = VOk (out @ ds) (count + length ds) \<and>
           (\<not> l \<longrightarrow> length ds = j) \<and> length ds \<le> j \<and> digitsVal 10 ds = val"
  using assms
proof (induction j arbitrary: l out count val)
  case (Suc j)
  show ?case
  proof (cases "skipDigit w l j (val < 10 ^ j)")
    case True
    then have "l" "val < 10 ^ j" by (auto simp: skipDigit_def)
    with Suc.IH [of count val l out] Suc.prems True show ?thesis
      by auto
  next
    case False
    let ?d = "val div 10 ^ j"
    let ?c = "char_of (?d + 48 :: nat) :: char"
    have rest: "val - ?d * 10 ^ j = val mod 10 ^ j"
      by (simp add: minus_div_mult_eq_mod)
    have "?d < 10" using Suc.prems by (simp add: less_mult_imp_div_less)
    then have d: "digitVal ?c = ?d" by (rule digitVal_dec)
    obtain ds where
      "fmtDec sz w (val mod 10 ^ j) False j (out @ [?c]) (count + 1) =
         VOk ((out @ [?c]) @ ds) (count + 1 + length ds)"
      "length ds = j" "digitsVal 10 ds = val mod 10 ^ j"
      using Suc.IH [of "count + 1" "val mod 10 ^ j" False "out @ [?c]"] Suc.prems by auto
    moreover have "count + 2 < sz" using Suc.prems by simp
    ultimately show ?thesis
      using False d rest div_mult_mod_eq [of val "10 ^ j"]
      by (intro exI [of _ "?c # ds"]) (simp add: Let_def vput_def vbind_def)
  qed
qed simp

lemma nexusVsnprintf_hex:
  assumes "10 \<le> sz"
  shows "\<exists>out. nexusVsnprintf sz ''%x'' [ArgU v] = VOk out (length out) \<and> digitsVal 16 out = unat v"
proof -
  obtain ds where "fmtHex sz 0 v True 8 [] 0 = VOk ds (length ds)" "digitsVal 16 ds = unat v mod 16 ^ 8"
    using fmtHex_digits [of 0 8 sz 0 v True "[]"] assms by auto
  moreover have "unat v mod 16 ^ 8 = unat v"
    using unsigned_less [of v, where 'a = nat] by simp
  ultimately show ?thesis
    by (auto simp: nexusVsnprintf_def isDigit_def fmtConv_def vbind_def)
qed

lemma nexusVsnprintf_dec:
  assumes "12 \<le> sz"
  shows "\<exists>out. nexusVsnprintf sz ''%u'' [ArgU v] = VOk out (length out) \<and> digitsVal 10 out = unat v"
proof -
  have "unat v < 10 ^ 10"
    using unsigned_less [of v, where 'a = nat] by simp
  then obtain ds where "fmtDec sz 0 (unat v) True 10 [] 0 = VOk ds (length ds)" "digitsVal 10 ds = unat v"
    using fmtDec_digits [of 0 10 sz "unat v" 0 True "[]"] assms by auto
  then show ?thesis
    by (auto simp: nexusVsnprintf_def isDigit_def fmtConv_def vbind_def)
qed

end
