(* ===== verification/X86_Types.thy ===== *)
theory X86_Types
  imports Plex86_Prelude
begin

text \<open>
  The data of the x86 architecture as the headers declare it: descriptors, gates and selectors
  (\<^verbatim>\<open>include/descriptor.h\<close>, \<^verbatim>\<open>host-kernel/include/descriptor2.h\<close>), page entries
  (\<^verbatim>\<open>host-kernel/include/paging.h\<close>), EFLAGS masks (\<^verbatim>\<open>include/eflags.h\<close>). A packed C
  struct is a record of its fields at their widths, with its 8-byte image in memory as a 64-bit
  little-endian word; a union of a raw word and bit fields is the raw word with accessors.
\<close>

section \<open>Descriptors\<close>

record descriptor_t =
  d_limit_low :: "16 word"
  d_base_low :: "16 word"
  d_base_med :: "8 word"
  d_type :: "5 word"
  d_dpl :: "2 word"
  d_p :: "1 word"
  d_limit_high :: "4 word"
  d_avl :: "1 word"
  d_reserved :: "1 word"
  d_d_b :: "1 word"
  d_g :: "1 word"
  d_base_high :: "8 word"

definition desc_of_word :: "Bit64u \<Rightarrow> descriptor_t" where
  "desc_of_word w = \<lparr>
     d_limit_low = ucast w, d_base_low = ucast (drop_bit 16 w), d_base_med = ucast (drop_bit 32 w),
     d_type = ucast (drop_bit 40 w), d_dpl = ucast (drop_bit 45 w), d_p = ucast (drop_bit 47 w),
     d_limit_high = ucast (drop_bit 48 w), d_avl = ucast (drop_bit 52 w),
     d_reserved = ucast (drop_bit 53 w), d_d_b = ucast (drop_bit 54 w),
     d_g = ucast (drop_bit 55 w), d_base_high = ucast (drop_bit 56 w)\<rparr>"

definition word_of_desc :: "descriptor_t \<Rightarrow> Bit64u" where
  "word_of_desc d =
     ucast (d_limit_low d) OR push_bit 16 (ucast (d_base_low d)) OR push_bit 32 (ucast (d_base_med d))
     OR push_bit 40 (ucast (d_type d)) OR push_bit 45 (ucast (d_dpl d)) OR push_bit 47 (ucast (d_p d))
     OR push_bit 48 (ucast (d_limit_high d)) OR push_bit 52 (ucast (d_avl d))
     OR push_bit 53 (ucast (d_reserved d)) OR push_bit 54 (ucast (d_d_b d))
     OR push_bit 55 (ucast (d_g d)) OR push_bit 56 (ucast (d_base_high d))"

definition null_desc :: descriptor_t where
  "null_desc = desc_of_word 0"

definition SET_DESCRIPTOR ::
  "Bit32u \<Rightarrow> Bit32u \<Rightarrow> 1 word \<Rightarrow> 1 word \<Rightarrow> 1 word \<Rightarrow> 1 word \<Rightarrow> 2 word \<Rightarrow> 5 word \<Rightarrow> descriptor_t" where
  "SET_DESCRIPTOR B L G DB AVL P DPL T = \<lparr>
     d_limit_low = ucast (L AND 0x0ffff), d_base_low = ucast (B AND 0xffff),
     d_base_med = ucast (drop_bit 16 B AND 0xff), d_type = T, d_dpl = DPL, d_p = P,
     d_limit_high = ucast (drop_bit 16 (L AND 0xf0000)), d_avl = AVL, d_reserved = 0, d_d_b = DB,
     d_g = G, d_base_high = ucast (drop_bit 24 B)\<rparr>"

definition BaseOfDescriptor :: "descriptor_t \<Rightarrow> Bit32u" where
  "BaseOfDescriptor d =
     ucast (d_base_low d) OR push_bit 16 (ucast (d_base_med d)) OR push_bit 24 (ucast (d_base_high d))"

definition LimitOfDataDescriptor :: "descriptor_t \<Rightarrow> Bit32u" where
  "LimitOfDataDescriptor d =
     (let lim = push_bit 16 (ucast (d_limit_high d)) OR ucast (d_limit_low d) in
      if d_g d \<noteq> 0 then
        (if d_type d AND 0xc = 0x4 then push_bit 12 lim else push_bit 12 lim OR 0xfff)
      else lim)"

text \<open>The descriptor type constants used by the monitor.\<close>

abbreviation D_CODE_READ :: "5 word" where "D_CODE_READ \<equiv> 0x1a"
abbreviation D_DATA_WRITE :: "5 word" where "D_DATA_WRITE \<equiv> 0x12"
abbreviation D_TSS :: "5 word" where "D_TSS \<equiv> 9"

section \<open>Gates\<close>

record gate_t =
  g_offset_low :: "16 word"
  g_selector :: "16 word"
  g_count :: "5 word"
  g_RESERVED :: "3 word"
  g_type :: "5 word"
  g_dpl :: "2 word"
  g_p :: "1 word"
  g_offset_high :: "16 word"

definition gate_of_word :: "Bit64u \<Rightarrow> gate_t" where
  "gate_of_word w = \<lparr>
     g_offset_low = ucast w, g_selector = ucast (drop_bit 16 w), g_count = ucast (drop_bit 32 w),
     g_RESERVED = ucast (drop_bit 37 w), g_type = ucast (drop_bit 40 w),
     g_dpl = ucast (drop_bit 45 w), g_p = ucast (drop_bit 47 w), g_offset_high = ucast (drop_bit 48 w)\<rparr>"

definition word_of_gate :: "gate_t \<Rightarrow> Bit64u" where
  "word_of_gate g =
     ucast (g_offset_low g) OR push_bit 16 (ucast (g_selector g)) OR push_bit 32 (ucast (g_count g))
     OR push_bit 37 (ucast (g_RESERVED g)) OR push_bit 40 (ucast (g_type g))
     OR push_bit 45 (ucast (g_dpl g)) OR push_bit 47 (ucast (g_p g))
     OR push_bit 48 (ucast (g_offset_high g))"

definition SET_INT_GATE :: "gate_t \<Rightarrow> 16 word \<Rightarrow> Bit32u \<Rightarrow> 1 word \<Rightarrow> 2 word \<Rightarrow> 5 word \<Rightarrow> gate_t" where
  "SET_INT_GATE d S Off P DPL D = d\<lparr>
     g_selector := S, g_offset_high := ucast (drop_bit 16 Off), g_offset_low := ucast (Off AND 0xffff),
     g_RESERVED := 0, g_type := push_bit 3 D OR 0x6, g_dpl := DPL, g_p := P\<rparr>"

definition gate_offset :: "gate_t \<Rightarrow> Bit32u" where
  "gate_offset g = push_bit 16 (ucast (g_offset_high g)) OR ucast (g_offset_low g)"

section \<open>Selectors\<close>

type_synonym selector_t = "16 word"

definition sel_rpl :: "selector_t \<Rightarrow> Bit32u" where
  "sel_rpl s = ucast (s AND 3)"

definition sel_ti :: "selector_t \<Rightarrow> bool" where
  "sel_ti s = bit s 2"

definition sel_index :: "selector_t \<Rightarrow> nat" where
  "sel_index s = unat (drop_bit 3 s)"

definition Selector :: "Bit32u \<Rightarrow> Bit32u \<Rightarrow> Bit32u \<Rightarrow> Bit32u" where
  "Selector sel ti rpl = push_bit 3 sel OR push_bit 2 ti OR rpl"

section \<open>Page entries\<close>

type_synonym pageEntry_t = Bit32u

definition pe_P :: "pageEntry_t \<Rightarrow> bool" where "pe_P e = bit e 0"
definition pe_RW :: "pageEntry_t \<Rightarrow> bool" where "pe_RW e = bit e 1"
definition pe_US :: "pageEntry_t \<Rightarrow> bool" where "pe_US e = bit e 2"
definition pe_A :: "pageEntry_t \<Rightarrow> bool" where "pe_A e = bit e 5"
definition pe_D :: "pageEntry_t \<Rightarrow> bool" where "pe_D e = bit e 6"
definition pe_base :: "pageEntry_t \<Rightarrow> Bit32u" where "pe_base e = drop_bit 12 e"

definition pe_set_base :: "Bit32u \<Rightarrow> pageEntry_t \<Rightarrow> pageEntry_t" where
  "pe_set_base b e = (e AND 0xfff) OR push_bit 12 b"

text \<open>An entry with every flag written, as the host initialisation code writes it.\<close>

definition pe_make :: "Bit32u \<Rightarrow> bool \<Rightarrow> bool \<Rightarrow> bool \<Rightarrow> pageEntry_t" where
  "pe_make base us rw p =
     push_bit 12 base OR push_bit 2 (flag us) OR push_bit 1 (flag rw) OR flag p"

section \<open>EFLAGS\<close>

definition FlgMaskID :: Bit32u where "FlgMaskID = 0x200000"
definition FlgMaskVIP :: Bit32u where "FlgMaskVIP = 0x100000"
definition FlgMaskVIF :: Bit32u where "FlgMaskVIF = 0x80000"
definition FlgMaskAC :: Bit32u where "FlgMaskAC = 0x40000"
definition FlgMaskVM :: Bit32u where "FlgMaskVM = 0x20000"
definition FlgMaskRF :: Bit32u where "FlgMaskRF = 0x10000"
definition FlgMaskNT :: Bit32u where "FlgMaskNT = 0x4000"
definition FlgMaskOF :: Bit32u where "FlgMaskOF = 0x800"
definition FlgMaskDF :: Bit32u where "FlgMaskDF = 0x400"
definition FlgMaskIF :: Bit32u where "FlgMaskIF = 0x200"
definition FlgMaskTF :: Bit32u where "FlgMaskTF = 0x100"
definition FlgMaskSF :: Bit32u where "FlgMaskSF = 0x80"
definition FlgMaskZF :: Bit32u where "FlgMaskZF = 0x40"
definition FlgMaskAF :: Bit32u where "FlgMaskAF = 0x10"
definition FlgMaskPF :: Bit32u where "FlgMaskPF = 4"
definition FlgMaskCF :: Bit32u where "FlgMaskCF = 1"

lemmas flg_masks [simp] =
  FlgMaskID_def FlgMaskVIP_def FlgMaskVIF_def FlgMaskAC_def FlgMaskVM_def FlgMaskRF_def FlgMaskNT_def FlgMaskOF_def FlgMaskDF_def FlgMaskIF_def FlgMaskTF_def FlgMaskSF_def FlgMaskZF_def FlgMaskAF_def FlgMaskPF_def FlgMaskCF_def

definition ef_if :: "Bit32u \<Rightarrow> bool" where "ef_if e = bit e 9"
definition ef_iopl :: "Bit32u \<Rightarrow> Bit32u" where "ef_iopl e = drop_bit 12 e AND 3"
definition ef_nt :: "Bit32u \<Rightarrow> bool" where "ef_nt e = bit e 14"
definition ef_vm :: "Bit32u \<Rightarrow> bool" where "ef_vm e = bit e 17"
definition ef_vif :: "Bit32u \<Rightarrow> bool" where "ef_vif e = bit e 19"
definition ef_vip :: "Bit32u \<Rightarrow> bool" where "ef_vip e = bit e 20"

section \<open>Lemmas\<close>

lemma desc_of_word_of_desc [simp]: "desc_of_word (word_of_desc d) = d"
proof -
  have "d_limit_low (desc_of_word (word_of_desc d)) = d_limit_low d"
       "d_base_low (desc_of_word (word_of_desc d)) = d_base_low d"
       "d_base_med (desc_of_word (word_of_desc d)) = d_base_med d"
       "d_type (desc_of_word (word_of_desc d)) = d_type d"
       "d_dpl (desc_of_word (word_of_desc d)) = d_dpl d"
       "d_p (desc_of_word (word_of_desc d)) = d_p d"
       "d_limit_high (desc_of_word (word_of_desc d)) = d_limit_high d"
       "d_avl (desc_of_word (word_of_desc d)) = d_avl d"
       "d_reserved (desc_of_word (word_of_desc d)) = d_reserved d"
       "d_d_b (desc_of_word (word_of_desc d)) = d_d_b d"
       "d_g (desc_of_word (word_of_desc d)) = d_g d"
       "d_base_high (desc_of_word (word_of_desc d)) = d_base_high d"
    by (auto simp: desc_of_word_def word_of_desc_def bit_simps bit_beyond intro!: bit_word_eqI)
  then show ?thesis by simp
qed

lemma gate_of_word_of_gate [simp]: "gate_of_word (word_of_gate g) = g"
proof -
  have "g_offset_low (gate_of_word (word_of_gate g)) = g_offset_low g"
       "g_selector (gate_of_word (word_of_gate g)) = g_selector g"
       "g_count (gate_of_word (word_of_gate g)) = g_count g"
       "g_RESERVED (gate_of_word (word_of_gate g)) = g_RESERVED g"
       "g_type (gate_of_word (word_of_gate g)) = g_type g"
       "g_dpl (gate_of_word (word_of_gate g)) = g_dpl g"
       "g_p (gate_of_word (word_of_gate g)) = g_p g"
       "g_offset_high (gate_of_word (word_of_gate g)) = g_offset_high g"
    by (auto simp: gate_of_word_def word_of_gate_def bit_simps bit_beyond intro!: bit_word_eqI)
  then show ?thesis by simp
qed

lemma ef_bits: "ef_if e = bit e 9" "ef_nt e = bit e 14" "ef_vm e = bit e 17"
  "ef_vif e = bit e 19" "ef_vip e = bit e 20"
  by (simp_all add: ef_if_def ef_nt_def ef_vm_def ef_vif_def ef_vip_def)

lemma ef_iopl_0: "(ef_iopl e = 0) = (\<not> bit e 12 \<and> \<not> bit e 13)"
proof -
  have "(ef_iopl e = 0) = (\<forall>n. \<not> bit (ef_iopl e) n)"
    by (metis bit_0_eq bit_word_eqI bot_apply bot_bool_def)
  also have "\<dots> = (\<forall>n. n < 2 \<longrightarrow> \<not> bit e (12 + n))"
    unfolding ef_iopl_def mask_and_eq by (auto simp: bit_take_bit_iff bit_drop_bit_eq)
  also have "\<dots> = (\<not> bit e 12 \<and> \<not> bit e 13)"
    by (auto simp: less_2_cases_iff)
  finally show ?thesis .
qed

lemma pe_set_base_flags [simp]:
  "pe_P (pe_set_base b e) = pe_P e" "pe_RW (pe_set_base b e) = pe_RW e"
  "pe_US (pe_set_base b e) = pe_US e" "pe_A (pe_set_base b e) = pe_A e"
  "pe_D (pe_set_base b e) = pe_D e"
  by (simp_all add: pe_P_def pe_RW_def pe_US_def pe_A_def pe_D_def pe_set_base_def
      mask_and_eq bit_simps)

lemma pe_base_set_base: "pe_base (pe_set_base b e) = take_bit 20 b"
  by (rule bit_word_eqI)
    (auto simp: pe_base_def pe_set_base_def mask_and_eq bit_simps bit_beyond)

lemma pe_base_bound: "unat (pe_base e) < 2 ^ 20"
  using unat_drop_bit_less [of 12 e] by (simp add: pe_base_def)

lemma pe_make_fields [simp]:
  "pe_P (pe_make b us rw p) = p" "pe_RW (pe_make b us rw p) = rw" "pe_US (pe_make b us rw p) = us"
  by (simp_all add: pe_P_def pe_RW_def pe_US_def pe_make_def flag_def bit_simps)

lemma pe_base_make [simp]: "pe_base (pe_make b us rw p) = take_bit 20 b"
  by (rule bit_word_eqI)
    (auto simp: pe_base_def pe_make_def flag_def bit_simps bit_beyond)

lemma SET_DESCRIPTOR_base: "BaseOfDescriptor (SET_DESCRIPTOR B L G DB AVL P DPL T) = B"
proof (rule bit_word_eqI)
  fix n :: nat
  assume n: "n < LENGTH(32)"
  consider "n < 16" | "16 \<le> n \<and> n < 24" | "24 \<le> n"
    by linarith
  then show "bit (BaseOfDescriptor (SET_DESCRIPTOR B L G DB AVL P DPL T)) n = bit B n"
    using n by cases (auto simp: BaseOfDescriptor_def SET_DESCRIPTOR_def mask_and_eq bit_simps bit_beyond)
qed

text \<open>The images in memory: a field of the packed structure is the bits at its place.\<close>

lemma bit_field: "bit (push_bit k (ucast (ucast (drop_bit k w) :: 'f::len word)) :: Bit64u) n \<longleftrightarrow>
    k \<le> n \<and> n < k + LENGTH('f) \<and> n < 64 \<and> bit (w :: Bit64u) n"
  by (auto simp: bit_simps)

lemma bit_field0: "bit (ucast (ucast w :: 'f::len word) :: Bit64u) n \<longleftrightarrow> n < LENGTH('f) \<and> n < 64 \<and> bit (w :: Bit64u) n"
  by (auto simp: bit_simps)

lemma word_of_desc_of_word: "word_of_desc (desc_of_word w) = w"
proof (rule bit_word_eqI)
  fix n assume "n < LENGTH(64)"
  then show "bit (word_of_desc (desc_of_word w)) n = bit w n"
    unfolding word_of_desc_def desc_of_word_def by (simp add: bit_or_iff bit_field bit_field0) linarith
qed

lemma word_of_gate_of_word: "word_of_gate (gate_of_word w) = w"
proof (rule bit_word_eqI)
  fix n assume "n < LENGTH(64)"
  then show "bit (word_of_gate (gate_of_word w)) n = bit w n"
    unfolding word_of_gate_def gate_of_word_def by (simp add: bit_or_iff bit_field bit_field0) linarith
qed

lemma gate_offset_SET_INT_GATE: "gate_offset (SET_INT_GATE d S off P DPL D) = off"
proof (rule bit_word_eqI)
  fix n assume n: "n < LENGTH(32)"
  consider "n < 16" | "16 \<le> n" by linarith
  then show "bit (gate_offset (SET_INT_GATE d S off P DPL D)) n = bit off n"
    using n by cases (auto simp: gate_offset_def SET_INT_GATE_def mask_and_eq bit_simps bit_beyond)
qed
end
