(* ===== verification/Vm_State.thy ===== *)
theory Vm_State
  imports X86_Types
begin

text \<open>
  The state of one virtual machine: \<^verbatim>\<open>vm_t\<close> of \<^verbatim>\<open>host-kernel/include/monitor.h\<close> with the
  structures it points to, the guest CPU page shared with user space
  (\<^verbatim>\<open>include/plex86.h\<close>), the device state of \<^verbatim>\<open>host-kernel/include/io.h\<close>, and the machine the
  monitor runs on (physical memory, the control registers the monitor loads, the time stamp
  counter).

  \<^item> A structure that the C code reaches through both \<^verbatim>\<open>vm->host.addr\<close> and
    \<^verbatim>\<open>vm->guest.addr\<close> is one physical page mapped twice, so it is one component here.
  \<^item> The page of the nexus holds \<^verbatim>\<open>nexus_t\<close> at its start, the transition code, and the monitor's stack at
    its end: \<open>vm_context\<close> is the frame at the very end and \<open>vm_monStack n\<close> the \<open>n\<close>-th doubleword below it.
    \<open>vm_idt_stubs\<close> is the page of interrupt stubs, byte by byte. \<open>vm_guestPageInfoPages\<close> is the array
    that \<^verbatim>\<open>pages.guestPageInfo\<close> points to, and likewise for the adjunct.
  \<^item> An array is a function from its index; every access goes through an operation that checks the
    bound of the C array and is undefined outside it.
  \<^item> What the code relies on and does not define (the host operating system, the user process
    between two ioctls, the time stamp counter) is a value of the record \<open>henv\<close>, an argument of
    every operation that uses it.
\<close>

section \<open>Sizes\<close>

definition MON_PAGE_TABLES :: nat where "MON_PAGE_TABLES = 10 * ((32 + 3) div 4)"
definition MON_GDT_SIZE :: nat where "MON_GDT_SIZE = 8 * 512"
definition MON_IDT_SIZE :: nat where "MON_IDT_SIZE = 8 * 256"
definition LOG_BUFF_SIZE :: nat where "LOG_BUFF_SIZE = 4096"
definition MaxPhyPagesPinned :: nat where "MaxPhyPagesPinned = 1024"

lemmas vm_sizes [simp] = MON_PAGE_TABLES_def MON_GDT_SIZE_def MON_IDT_SIZE_def LOG_BUFF_SIZE_def
  MaxPhyPagesPinned_def

definition BytesToPages :: "Bit32u \<Rightarrow> Bit32u" where
  "BytesToPages b = drop_bit 12 (b + 4095)"

section \<open>The guest CPU page\<close>

record guest_sreg_t =
  sr_sel :: selector_t
  sr_des :: descriptor_t
  sr_valid :: Bit32u

record gdt_info_t =
  gi_limit :: Bit16u
  gi_base :: Bit32u

record far_jmp_info_t =
  fj_offset :: Bit32u
  fj_selector :: Bit16u

record sysEnter_t =
  se_cs :: Bit32u
  se_eip :: Bit32u
  se_esp :: Bit32u

text \<open>\<open>cpu_dr\<close> stands for the fields \<^verbatim>\<open>dr0..dr7\<close> and \<open>cpu_trn\<close> for the test registers
  \<^verbatim>\<open>tr3..tr7\<close>, by their number.\<close>

record guest_cpu_t =
  cpu_genReg :: "nat \<Rightarrow> Bit32u"
  cpu_eflags :: Bit32u
  cpu_eip :: Bit32u
  cpu_sreg :: "nat \<Rightarrow> guest_sreg_t"
  cpu_ldtr :: guest_sreg_t
  cpu_tr :: guest_sreg_t
  cpu_gdtr :: gdt_info_t
  cpu_idtr :: gdt_info_t
  cpu_dr :: "nat \<Rightarrow> Bit32u"
  cpu_trn :: "nat \<Rightarrow> Bit32u"
  cpu_cr0 :: Bit32u
  cpu_cr1 :: Bit32u
  cpu_cr2 :: Bit32u
  cpu_cr3 :: Bit32u
  cpu_cr4 :: Bit32u
  cpu_INTR :: Bit32u
  cpu_sysEnter :: sysEnter_t
  cpu_tsc :: Bit64u
  cpu_halIrq :: Bit32u

text \<open>Indices of \<^verbatim>\<open>genReg\<close> and \<^verbatim>\<open>sreg\<close>, and the exceptions.\<close>

definition SRegES :: nat where "SRegES = 0"
definition SRegCS :: nat where "SRegCS = 1"
definition SRegSS :: nat where "SRegSS = 2"
definition SRegDS :: nat where "SRegDS = 3"
definition SRegFS :: nat where "SRegFS = 4"
definition SRegGS :: nat where "SRegGS = 5"

lemmas sreg_ids [simp] = SRegES_def SRegCS_def SRegSS_def SRegDS_def SRegFS_def SRegGS_def

definition GenRegEAX :: nat where "GenRegEAX = 0"
definition GenRegECX :: nat where "GenRegECX = 1"
definition GenRegEDX :: nat where "GenRegEDX = 2"
definition GenRegEBX :: nat where "GenRegEBX = 3"
definition GenRegESP :: nat where "GenRegESP = 4"
definition GenRegEBP :: nat where "GenRegEBP = 5"
definition GenRegESI :: nat where "GenRegESI = 6"
definition GenRegEDI :: nat where "GenRegEDI = 7"

lemmas genreg_ids [simp] = GenRegEAX_def GenRegECX_def GenRegEDX_def GenRegEBX_def GenRegESP_def
  GenRegEBP_def GenRegESI_def GenRegEDI_def

definition ExceptionUD :: Bit32u where "ExceptionUD = 6"
definition ExceptionNM :: Bit32u where "ExceptionNM = 7"
definition ExceptionGP :: Bit32u where "ExceptionGP = 13"
definition ExceptionPF :: Bit32u where "ExceptionPF = 14"

lemmas exception_ids [simp] = ExceptionUD_def ExceptionNM_def ExceptionGP_def ExceptionPF_def

section \<open>The guest context on the monitor stack\<close>

record guestStackContext_t =
  sc_gs :: Bit32u
  sc_fs :: Bit32u
  sc_ds :: Bit32u
  sc_es :: Bit32u
  sc_edi :: Bit32u
  sc_esi :: Bit32u
  sc_ebp :: Bit32u
  sc_dummy_esp :: Bit32u
  sc_ebx :: Bit32u
  sc_edx :: Bit32u
  sc_ecx :: Bit32u
  sc_eax :: Bit32u
  sc_vector :: Bit32u
  sc_error :: Bit32u
  sc_eip :: Bit32u
  sc_cs :: Bit32u
  sc_eflags :: Bit32u
  sc_esp :: Bit32u
  sc_ss :: Bit32u

section \<open>Devices\<close>

record pic_t =
  pic_imr :: Bit32u
  pic_isr :: Bit32u
  pic_irr :: Bit32u
  pic_vectorOffset :: Bit32u
  pic_inInit :: Bit32u
  pic_requires4 :: Bit32u
  pic_byteExpected :: Bit32u

record pit_timer_t =
  t_mode :: Bit32u
  t_latch_mode :: Bit32u
  t_input_latch_value :: Bit32u
  t_input_latch_toggle :: Bit32u
  t_output_latch_value :: Bit32u
  t_output_latch_toggle :: Bit32u
  t_output_latch_full :: Bit32u
  t_counter_max :: Bit32u
  t_counter :: Bit32u
  t_bcd :: Bit32u
  t_active :: Bit32u
  t_GATE :: Bit32u
  t_OUT :: Bit32u

record pit_t =
  pit_timer :: "nat \<Rightarrow> pit_timer_t"
  pit_speaker_data_on :: Bit32u
  pit_refresh_clock_div2 :: Bit32u

record cmos_t =
  cmos_mem_address :: Bit32u
  cmos_reg :: "nat \<Rightarrow> Bit8u"

record vga_t =
  vga_CRTC_address :: Bit32u
  vga_CRTC_reg :: "nat \<Rightarrow> Bit32u"

record io_t =
  io_picMaster :: pic_t
  io_picSlave :: pic_t
  io_port0x80 :: Bit32u
  io_pit :: pit_t
  io_pit_bogus_counter :: Bit32u
  io_cmos :: cmos_t
  io_vga :: vga_t
  io_cpuToPitRatio :: Bit32u

section \<open>The monitor's own structures\<close>

text \<open>\<open>tss_gen\<close> and \<open>tss_sreg\<close> stand for the eight general registers and the six segment
  registers of the TSS image.\<close>

record nexus_t =
  nx_vm :: Bit32u
  nx_host_gdt_info :: gdt_info_t
  nx_host_idt_info :: gdt_info_t
  nx_host_jmp_info :: far_jmp_info_t
  nx_host_stack_info :: far_jmp_info_t
  nx_host_ldt_sel :: Bit16u
  nx_host_tss_sel :: Bit16u
  nx_host_cr0 :: Bit32u
  nx_host_cr2 :: Bit32u
  nx_host_cr3 :: Bit32u
  nx_host_cr4 :: Bit32u
  nx_mon_gdt_info :: gdt_info_t
  nx_mon_idt_info :: gdt_info_t
  nx_mon_jmp_info :: far_jmp_info_t
  nx_mon_stack_info :: far_jmp_info_t
  nx_mon_ldt_sel :: Bit16u
  nx_mon_tss_sel :: Bit16u
  nx_mon_base :: Bit32u
  nx_mon_cr0 :: Bit32u
  nx_mon_cr3 :: Bit32u
  nx_mon_cr4 :: Bit32u
  nx_mon_eflags :: Bit32u
  nx_transition_pde :: pageEntry_t
  nx_transition_pde_p_host :: Bit32u
  nx_transition_pde_p_mon :: Bit32u
  nx_transition_laddr :: Bit32u

record tss_t =
  tss_back :: Bit16u
  tss_esp0 :: Bit32u
  tss_ss0 :: Bit16u
  tss_esp1 :: Bit32u
  tss_ss1 :: Bit16u
  tss_esp2 :: Bit32u
  tss_ss2 :: Bit16u
  tss_cr3 :: Bit32u
  tss_eip :: Bit32u
  tss_eflags :: Bit32u
  tss_gen :: "nat \<Rightarrow> Bit32u"
  tss_sreg :: "nat \<Rightarrow> Bit16u"
  tss_ldt :: Bit16u
  tss_trap :: Bit16u
  tss_io :: Bit16u

text \<open>The attribute word of a guest physical page: bit 7 memory-mapped I/O, 8 read-only,
  9 allocated, 10 pinned.\<close>

record phyPageInfo_t =
  pp_attr :: Bit32u
  pp_tsc :: Bit64u
  pp_hostPPI :: Bit32u

definition pp_memMapIO :: "phyPageInfo_t \<Rightarrow> bool" where "pp_memMapIO p = bit (pp_attr p) 7"
definition pp_RO :: "phyPageInfo_t \<Rightarrow> bool" where "pp_RO p = bit (pp_attr p) 8"
definition pp_allocated :: "phyPageInfo_t \<Rightarrow> bool" where "pp_allocated p = bit (pp_attr p) 9"
definition pp_pinned :: "phyPageInfo_t \<Rightarrow> bool" where "pp_pinned p = bit (pp_attr p) 10"

definition pp_set_pinned :: "bool \<Rightarrow> phyPageInfo_t \<Rightarrow> phyPageInfo_t" where
  "pp_set_pinned b p = p\<lparr>pp_attr := put_bit 10 b (pp_attr p)\<rparr>"

text \<open>The groups of attributes that a page table may not have, \<^verbatim>\<open>PageBadUsage4PTbl\<close>.\<close>

definition PageBadUsage4PTbl :: Bit32u where
  "PageBadUsage4PTbl = 0x080 OR 0x100"

record pinQueue_t =
  pq_nEntries :: Bit32u
  pq_tail :: Bit32u
  pq_ppi :: "nat \<Rightarrow> Bit32u"

record logInfo_t =
  li_locked :: Bit32u
  li_offset :: Bit32u
  li_error :: Bit32u

record system_t =
  sys_INTR :: Bit32u
  sys_t0 :: Bit64u
  sys_cyclesElapsed :: Bit64u

record cpuid_info_t =
  ci_vendorDWord0 :: Bit32u
  ci_vendorDWord1 :: Bit32u
  ci_vendorDWord2 :: Bit32u
  ci_procSignature :: Bit32u
  ci_featureFlags :: Bit32u

definition ci_family :: "cpuid_info_t \<Rightarrow> Bit32u" where
  "ci_family c = drop_bit 8 (ci_procSignature c) AND 0xf"

text \<open>Physical pages of the monitor's structures, and their addresses in the host and the monitor
  address space.\<close>

record vm_pages_t =
  pg_guest_n_megs :: Bit32u
  pg_guest_n_pages :: Bit32u
  pg_guest_n_bytes :: Bit32u
  pg_vm :: "nat \<Rightarrow> Bit32u"
  pg_monLogBuffer :: Bit32u
  pg_page_dir :: Bit32u
  pg_page_tbl :: "nat \<Rightarrow> Bit32u"
  pg_page_tbl_laddr_map :: Bit32u
  pg_nexus_page_tbl :: Bit32u
  pg_guest_cpu :: Bit32u
  pg_guest_cpu_hostOSPtr :: Bit32u
  pg_transition_PT :: Bit32u
  pg_userLogBuffer :: "nat \<Rightarrow> Bit32u"
  pg_userLogBuffer_hostOSPtr :: "nat \<Rightarrow> Bit32u"
  pg_nexus :: Bit32u
  pg_idt :: "nat \<Rightarrow> Bit32u"
  pg_gdt :: "nat \<Rightarrow> Bit32u"
  pg_ldt :: "nat \<Rightarrow> Bit32u"
  pg_tss :: "nat \<Rightarrow> Bit32u"
  pg_idt_stubs :: "nat \<Rightarrow> Bit32u"
  pg_guestPageInfo :: Bit32u
  pg_guestPageInfoHostAdjunct :: Bit32u

record vm_addr_t =
  ad_monLogBuffer :: Bit32u
  ad_page_dir :: Bit32u
  ad_page_tbl :: Bit32u
  ad_page_tbl_laddr_map :: Bit32u
  ad_nexus_page_tbl :: Bit32u
  ad_guest_cpu :: Bit32u
  ad_transition_PT :: Bit32u
  ad_userLogBuffer :: Bit32u
  ad_code_phy_page :: Bit32u
  ad_tmp_phy_page0 :: Bit32u
  ad_tmp_phy_page1 :: Bit32u
  ad_nexus :: Bit32u
  ad_guestStackContext :: Bit32u
  ad_idt :: Bit32u
  ad_gdt :: Bit32u
  ad_ldt :: Bit32u
  ad_tss :: Bit32u
  ad_idt_stubs :: Bit32u
  ad_guestPageInfo :: Bit32u
  ad_guestPageInfoHostAdjunct :: Bit32u

section \<open>The machine\<close>

text \<open>
  The processor as the monitor uses it: the control registers it loads, the \<^verbatim>\<open>SYSENTER_CS\<close>
  register (MSR 0x174), the interrupt flag the monitor runs with, the linear addresses whose TLB entry it invalidated (latest first), and how often the time
  stamp counter was read. \<open>os_ev\<close> is what the module asks of the host operating system.
\<close>

record hw_t =
  hw_cr0 :: Bit32u
  hw_cr3 :: Bit32u
  hw_cr4 :: Bit32u
  hw_msr174 :: Bit32u
  hw_IF :: bool
  hw_invlpg :: "Bit32u list"
  hw_tscReads :: nat

datatype os_ev =
    OsPin Bit32u Bit32u
  | OsUnpin Bit32u Bit32u
  | OsAlloc Bit32u
  | OsFree Bit32u
  | OsSoftInt Bit32u

record vm_t =
  vm_hostSysenterCS :: Bit32u
  vm_guestPhyMemAddr :: Bit32u
  vm_veflags :: Bit32u
  vm_executeMethod :: Bit32u
  vm_vmState :: Bit32u
  vm_linuxVMMode :: Bit32u
  vm_guestCPL :: Bit32u
  vm_mon_request :: Bit32u
  vm_guestFaultNo :: Bit32u
  vm_guestFaultError :: Bit32u
  vm_pinReqPPI :: Bit32u
  vm_redirect_vector :: Bit32u
  vm_kernel_offset :: Bit32u
  vm_inMonFault :: Bit32u
  vm_abort_code :: Bit32u
  vm_system :: system_t
  vm_io :: io_t
  vm_guestCPUIDInfo :: cpuid_info_t
  vm_ptbl_laddr_map_i :: Bit32u
  vm_mon_pde_mask :: Bit32u
  vm_mon_pdi :: Bit32u
  vm_vpaging_tsc :: Bit64u
  vm_pinQueue :: pinQueue_t
  vm_userLogBufferInfo :: logInfo_t
  vm_monLogBufferInfo :: logInfo_t
  vm_pages :: vm_pages_t
  vm_host_addr :: vm_addr_t
  vm_host_nexus_pde :: pageEntry_t
  vm_guest_addr :: vm_addr_t
  vm_monLogBuffer :: "nat \<Rightarrow> char"
  vm_userLogBuffer :: "nat \<Rightarrow> char"
  vm_page_dir :: "nat \<Rightarrow> pageEntry_t"
  vm_page_tbl :: "nat \<Rightarrow> nat \<Rightarrow> pageEntry_t"
  vm_page_tbl_laddr_map :: "nat \<Rightarrow> Bit32u"
  vm_nexus_page_tbl :: "nat \<Rightarrow> pageEntry_t"
  vm_transition_PT :: "nat \<Rightarrow> pageEntry_t"
  vm_guest_cpu :: guest_cpu_t
  vm_nexus :: nexus_t
  vm_context :: guestStackContext_t
  vm_idt :: "nat \<Rightarrow> gate_t"
  vm_gdt :: "nat \<Rightarrow> descriptor_t"
  vm_ldt :: "nat \<Rightarrow> descriptor_t"
  vm_tss :: tss_t
  vm_idt_stubs :: "nat \<Rightarrow> Bit8u"
  vm_monStack :: "nat \<Rightarrow> Bit32u"
  vm_host2mon :: Bit32u
  vm_mon2host :: Bit32u
  vm_guestPageInfo :: "nat \<Rightarrow> phyPageInfo_t"
  vm_guestPageInfoHostAdjunct :: "nat \<Rightarrow> Bit32u"
  vm_guestPageInfoPages :: "nat \<Rightarrow> Bit32u"
  vm_guestPageInfoHostAdjunctPages :: "nat \<Rightarrow> Bit32u"
  vm_phymem :: "Bit32u \<Rightarrow> Bit8u"
  vm_hw :: hw_t
  vm_os :: "os_ev list"

type_synonym 'a mon = "(vm_t, 'a) comp"

section \<open>The state of a machine just opened\<close>

text \<open>Opening the device clears the whole structure; the pages it will point to are taken as
  cleared too.\<close>

definition zero_descriptor :: descriptor_t where
  "zero_descriptor = \<lparr>
    d_limit_low = 0, d_base_low = 0, d_base_med = 0, d_type = 0, d_dpl = 0, d_p = 0,
    d_limit_high = 0, d_avl = 0, d_reserved = 0, d_d_b = 0, d_g = 0, d_base_high = 0\<rparr>"

definition zero_gate :: gate_t where
  "zero_gate = \<lparr>
    g_offset_low = 0, g_selector = 0, g_count = 0, g_RESERVED = 0, g_type = 0, g_dpl = 0, g_p = 0,
    g_offset_high = 0\<rparr>"

definition zero_guest_sreg :: guest_sreg_t where
  "zero_guest_sreg = \<lparr>
    sr_sel = 0, sr_des = zero_descriptor, sr_valid = 0\<rparr>"

definition zero_gdt_info :: gdt_info_t where
  "zero_gdt_info = \<lparr>
    gi_limit = 0, gi_base = 0\<rparr>"

definition zero_far_jmp_info :: far_jmp_info_t where
  "zero_far_jmp_info = \<lparr>
    fj_offset = 0, fj_selector = 0\<rparr>"

definition zero_sysEnter :: sysEnter_t where
  "zero_sysEnter = \<lparr>
    se_cs = 0, se_eip = 0, se_esp = 0\<rparr>"

definition zero_guest_cpu :: guest_cpu_t where
  "zero_guest_cpu = \<lparr>
    cpu_genReg = (\<lambda>_. 0), cpu_eflags = 0, cpu_eip = 0,
    cpu_sreg = (\<lambda>_. zero_guest_sreg), cpu_ldtr = zero_guest_sreg,
    cpu_tr = zero_guest_sreg, cpu_gdtr = zero_gdt_info, cpu_idtr = zero_gdt_info,
    cpu_dr = (\<lambda>_. 0), cpu_trn = (\<lambda>_. 0), cpu_cr0 = 0, cpu_cr1 = 0, cpu_cr2 = 0,
    cpu_cr3 = 0, cpu_cr4 = 0, cpu_INTR = 0, cpu_sysEnter = zero_sysEnter, cpu_tsc = 0,
    cpu_halIrq = 0\<rparr>"

definition zero_guestStackContext :: guestStackContext_t where
  "zero_guestStackContext = \<lparr>
    sc_gs = 0, sc_fs = 0, sc_ds = 0, sc_es = 0, sc_edi = 0, sc_esi = 0, sc_ebp = 0,
    sc_dummy_esp = 0, sc_ebx = 0, sc_edx = 0, sc_ecx = 0, sc_eax = 0, sc_vector = 0, sc_error = 0,
    sc_eip = 0, sc_cs = 0, sc_eflags = 0, sc_esp = 0, sc_ss = 0\<rparr>"

definition zero_pic :: pic_t where
  "zero_pic = \<lparr>
    pic_imr = 0, pic_isr = 0, pic_irr = 0, pic_vectorOffset = 0, pic_inInit = 0,
    pic_requires4 = 0, pic_byteExpected = 0\<rparr>"

definition zero_pit_timer :: pit_timer_t where
  "zero_pit_timer = \<lparr>
    t_mode = 0, t_latch_mode = 0, t_input_latch_value = 0, t_input_latch_toggle = 0,
    t_output_latch_value = 0, t_output_latch_toggle = 0, t_output_latch_full = 0,
    t_counter_max = 0, t_counter = 0, t_bcd = 0, t_active = 0, t_GATE = 0, t_OUT = 0\<rparr>"

definition zero_pit :: pit_t where
  "zero_pit = \<lparr>
    pit_timer = (\<lambda>_. zero_pit_timer), pit_speaker_data_on = 0, pit_refresh_clock_div2 = 0\<rparr>"

definition zero_cmos :: cmos_t where
  "zero_cmos = \<lparr>
    cmos_mem_address = 0, cmos_reg = (\<lambda>_. 0)\<rparr>"

definition zero_vga :: vga_t where
  "zero_vga = \<lparr>
    vga_CRTC_address = 0, vga_CRTC_reg = (\<lambda>_. 0)\<rparr>"

definition zero_io :: io_t where
  "zero_io = \<lparr>
    io_picMaster = zero_pic, io_picSlave = zero_pic, io_port0x80 = 0, io_pit = zero_pit,
    io_pit_bogus_counter = 0, io_cmos = zero_cmos, io_vga = zero_vga, io_cpuToPitRatio = 0\<rparr>"

definition zero_nexus :: nexus_t where
  "zero_nexus = \<lparr>
    nx_vm = 0, nx_host_gdt_info = zero_gdt_info, nx_host_idt_info = zero_gdt_info,
    nx_host_jmp_info = zero_far_jmp_info, nx_host_stack_info = zero_far_jmp_info,
    nx_host_ldt_sel = 0, nx_host_tss_sel = 0, nx_host_cr0 = 0, nx_host_cr2 = 0, nx_host_cr3 = 0,
    nx_host_cr4 = 0, nx_mon_gdt_info = zero_gdt_info, nx_mon_idt_info = zero_gdt_info,
    nx_mon_jmp_info = zero_far_jmp_info, nx_mon_stack_info = zero_far_jmp_info,
    nx_mon_ldt_sel = 0, nx_mon_tss_sel = 0, nx_mon_base = 0, nx_mon_cr0 = 0, nx_mon_cr3 = 0,
    nx_mon_cr4 = 0, nx_mon_eflags = 0, nx_transition_pde = 0, nx_transition_pde_p_host = 0,
    nx_transition_pde_p_mon = 0, nx_transition_laddr = 0\<rparr>"

definition zero_tss :: tss_t where
  "zero_tss = \<lparr>
    tss_back = 0, tss_esp0 = 0, tss_ss0 = 0, tss_esp1 = 0, tss_ss1 = 0, tss_esp2 = 0, tss_ss2 = 0,
    tss_cr3 = 0, tss_eip = 0, tss_eflags = 0, tss_gen = (\<lambda>_. 0),
    tss_sreg = (\<lambda>_. 0), tss_ldt = 0, tss_trap = 0, tss_io = 0\<rparr>"

definition zero_phyPageInfo :: phyPageInfo_t where
  "zero_phyPageInfo = \<lparr>
    pp_attr = 0, pp_tsc = 0, pp_hostPPI = 0\<rparr>"

definition zero_pinQueue :: pinQueue_t where
  "zero_pinQueue = \<lparr>
    pq_nEntries = 0, pq_tail = 0, pq_ppi = (\<lambda>_. 0)\<rparr>"

definition zero_logInfo :: logInfo_t where
  "zero_logInfo = \<lparr>
    li_locked = 0, li_offset = 0, li_error = 0\<rparr>"

definition zero_system :: system_t where
  "zero_system = \<lparr>
    sys_INTR = 0, sys_t0 = 0, sys_cyclesElapsed = 0\<rparr>"

definition zero_cpuid_info :: cpuid_info_t where
  "zero_cpuid_info = \<lparr>
    ci_vendorDWord0 = 0, ci_vendorDWord1 = 0, ci_vendorDWord2 = 0, ci_procSignature = 0,
    ci_featureFlags = 0\<rparr>"

definition zero_vm_pages :: vm_pages_t where
  "zero_vm_pages = \<lparr>
    pg_guest_n_megs = 0, pg_guest_n_pages = 0, pg_guest_n_bytes = 0, pg_vm = (\<lambda>_. 0),
    pg_monLogBuffer = 0, pg_page_dir = 0, pg_page_tbl = (\<lambda>_. 0),
    pg_page_tbl_laddr_map = 0, pg_nexus_page_tbl = 0, pg_guest_cpu = 0,
    pg_guest_cpu_hostOSPtr = 0, pg_transition_PT = 0, pg_userLogBuffer = (\<lambda>_. 0),
    pg_userLogBuffer_hostOSPtr = (\<lambda>_. 0), pg_nexus = 0, pg_idt = (\<lambda>_. 0),
    pg_gdt = (\<lambda>_. 0), pg_ldt = (\<lambda>_. 0), pg_tss = (\<lambda>_. 0),
    pg_idt_stubs = (\<lambda>_. 0), pg_guestPageInfo = 0, pg_guestPageInfoHostAdjunct = 0\<rparr>"

definition zero_vm_addr :: vm_addr_t where
  "zero_vm_addr = \<lparr>
    ad_monLogBuffer = 0, ad_page_dir = 0, ad_page_tbl = 0, ad_page_tbl_laddr_map = 0,
    ad_nexus_page_tbl = 0, ad_guest_cpu = 0, ad_transition_PT = 0, ad_userLogBuffer = 0,
    ad_code_phy_page = 0, ad_tmp_phy_page0 = 0, ad_tmp_phy_page1 = 0, ad_nexus = 0,
    ad_guestStackContext = 0, ad_idt = 0, ad_gdt = 0, ad_ldt = 0, ad_tss = 0, ad_idt_stubs = 0,
    ad_guestPageInfo = 0, ad_guestPageInfoHostAdjunct = 0\<rparr>"

definition zero_hw :: hw_t where
  "zero_hw = \<lparr>
    hw_cr0 = 0, hw_cr3 = 0, hw_cr4 = 0, hw_msr174 = 0, hw_IF = False, hw_invlpg = [],
    hw_tscReads = 0\<rparr>"

definition vm_zeroed :: vm_t where
  "vm_zeroed = \<lparr>
    vm_hostSysenterCS = 0, vm_guestPhyMemAddr = 0, vm_veflags = 0, vm_executeMethod = 0,
    vm_vmState = 0, vm_linuxVMMode = 0, vm_guestCPL = 0, vm_mon_request = 0, vm_guestFaultNo = 0,
    vm_guestFaultError = 0, vm_pinReqPPI = 0, vm_redirect_vector = 0, vm_kernel_offset = 0,
    vm_inMonFault = 0, vm_abort_code = 0, vm_system = zero_system, vm_io = zero_io,
    vm_guestCPUIDInfo = zero_cpuid_info, vm_ptbl_laddr_map_i = 0, vm_mon_pde_mask = 0,
    vm_mon_pdi = 0, vm_vpaging_tsc = 0, vm_pinQueue = zero_pinQueue,
    vm_userLogBufferInfo = zero_logInfo, vm_monLogBufferInfo = zero_logInfo,
    vm_pages = zero_vm_pages, vm_host_addr = zero_vm_addr, vm_host_nexus_pde = 0,
    vm_guest_addr = zero_vm_addr, vm_monLogBuffer = (\<lambda>_. char_of (0 :: nat)),
    vm_userLogBuffer = (\<lambda>_. char_of (0 :: nat)), vm_page_dir = (\<lambda>_. 0),
    vm_page_tbl = (\<lambda>_. (\<lambda>_. 0)), vm_page_tbl_laddr_map = (\<lambda>_. 0),
    vm_nexus_page_tbl = (\<lambda>_. 0), vm_transition_PT = (\<lambda>_. 0),
    vm_guest_cpu = zero_guest_cpu, vm_nexus = zero_nexus, vm_context = zero_guestStackContext,
    vm_idt = (\<lambda>_. zero_gate), vm_gdt = (\<lambda>_. zero_descriptor), vm_ldt = (\<lambda>_. zero_descriptor),
    vm_tss = zero_tss, vm_idt_stubs = (\<lambda>_. 0), vm_monStack = (\<lambda>_. 0), vm_host2mon = 0, vm_mon2host = 0,
    vm_guestPageInfo = (\<lambda>_. zero_phyPageInfo),
    vm_guestPageInfoHostAdjunct = (\<lambda>_. 0), vm_guestPageInfoPages = (\<lambda>_. 0),
    vm_guestPageInfoHostAdjunctPages = (\<lambda>_. 0), vm_phymem = (\<lambda>_. 0), vm_hw = zero_hw,
    vm_os = []\<rparr>"

lemmas zero_defs = zero_descriptor_def zero_gate_def zero_guest_sreg_def zero_gdt_info_def
  zero_far_jmp_info_def zero_sysEnter_def zero_guest_cpu_def
  zero_guestStackContext_def zero_pic_def zero_pit_timer_def zero_pit_def
  zero_cmos_def zero_vga_def zero_io_def zero_nexus_def zero_tss_def
  zero_phyPageInfo_def zero_pinQueue_def zero_logInfo_def zero_system_def
  zero_cpuid_info_def zero_vm_pages_def zero_vm_addr_def zero_hw_def vm_zeroed_def

section \<open>What the monitor relies on\<close>

text \<open>
  \<^item> \<open>he_rdtsc n\<close>: the value of the \<open>n\<close>-th read of the time stamp counter.
  \<^item> \<open>he_pin vm a\<close>: \<^verbatim>\<open>get_user_pages\<close> for the user page at \<open>a\<close>: the page structure and the
    physical page index, or failure.
  \<^item> \<open>he_poll vm\<close>: what the user process does between two \<^verbatim>\<open>PLEX86_EXECUTE\<close> calls when the
    monitor asked it for nothing (\<^verbatim>\<open>halNetReadPacketToGuest\<close>): the new \<^verbatim>\<open>halIrq\<close> and the
    new contents of memory.
  \<^item> \<open>he_halCall vm\<close>: \<^verbatim>\<open>halCall\<close> of the user process: the new guest CPU page and memory, or
    failure, after which the process tears the machine down.
  \<^item> \<open>he_idle vm\<close>: \<^verbatim>\<open>hostOSIdle\<close>, whether the host grants another time slice.
  \<^item> \<open>he_hostEflags\<close>: EFLAGS of the host process in the ioctl.
  \<^item> \<open>he_uninit\<close>: the bytes of a local variable before the code writes it.
  \<^item> \<open>he_startOffsetPageAligned\<close>, \<open>he_nPages\<close>, \<open>he_ppi\<close>: \<^verbatim>\<open>kernelModulePages\<close>, written once
    when the module is loaded.
\<close>

record henv =
  he_rdtsc :: "nat \<Rightarrow> Bit64u"
  he_pin :: "vm_t \<Rightarrow> Bit32u \<Rightarrow> (Bit32u \<times> Bit32u) option"
  he_poll :: "vm_t \<Rightarrow> Bit32u \<times> (Bit32u \<Rightarrow> Bit8u)"
  he_halCall :: "vm_t \<Rightarrow> (guest_cpu_t \<times> (Bit32u \<Rightarrow> Bit8u)) option"
  he_idle :: "vm_t \<Rightarrow> bool"
  he_hostEflags :: Bit32u
  he_uninit :: "nat \<Rightarrow> Bit8u"
  he_startOffsetPageAligned :: Bit32u
  he_nPages :: Bit32u
  he_ppi :: "nat \<Rightarrow> Bit32u"

text \<open>Monitor requests and the bits of \<^verbatim>\<open>vmState\<close> (\<^verbatim>\<open>include/plex86.h\<close>).\<close>

definition MonReqNone :: Bit32u where "MonReqNone = 0"
definition MonReqFlushPrintBuf :: Bit32u where "MonReqFlushPrintBuf = 1"
definition MonReqRedirect :: Bit32u where "MonReqRedirect = 4"
definition MonReqRemapMonitor :: Bit32u where "MonReqRemapMonitor = 5"
definition MonReqGuestFault :: Bit32u where "MonReqGuestFault = 6"
definition MonReqPinUserPage :: Bit32u where "MonReqPinUserPage = 7"
definition MonReqPanic :: Bit32u where "MonReqPanic = 8"
definition MonReqHalCall :: Bit32u where "MonReqHalCall = 9"
definition MonReqCyclesUpdate :: Bit32u where "MonReqCyclesUpdate = 10"
definition MonReqBogus :: Bit32u where "MonReqBogus = 11"

lemmas mon_reqs [simp] = MonReqNone_def MonReqFlushPrintBuf_def MonReqRedirect_def
  MonReqRemapMonitor_def MonReqGuestFault_def MonReqPinUserPage_def MonReqPanic_def
  MonReqHalCall_def MonReqCyclesUpdate_def MonReqBogus_def

definition VMStateFDOpened :: Bit32u where "VMStateFDOpened = 0x001"
definition VMStateMemAllocated :: Bit32u where "VMStateMemAllocated = 0x002"
definition VMStateGuestCPUID :: Bit32u where "VMStateGuestCPUID = 0x004"
definition VMStateRegisteredPhyMem :: Bit32u where "VMStateRegisteredPhyMem = 0x008"
definition VMStateRegisteredPrintBuffer :: Bit32u where "VMStateRegisteredPrintBuffer = 0x010"
definition VMStateRegisteredGuestCPU :: Bit32u where "VMStateRegisteredGuestCPU = 0x020"
definition VMStateInitMonitor :: Bit32u where "VMStateInitMonitor = 0x040"
definition VMStateMapMonitor :: Bit32u where "VMStateMapMonitor = 0x080"
definition VMStatePanic :: Bit32u where "VMStatePanic = 0x100"

lemmas vm_state_bits [simp] = VMStateFDOpened_def VMStateMemAllocated_def VMStateGuestCPUID_def
  VMStateRegisteredPhyMem_def VMStateRegisteredPrintBuffer_def VMStateRegisteredGuestCPU_def
  VMStateInitMonitor_def VMStateMapMonitor_def VMStatePanic_def

definition VMStateReady :: Bit32u where
  "VMStateReady = VMStateFDOpened OR VMStateMemAllocated OR VMStateGuestCPUID OR
     VMStateRegisteredPhyMem OR VMStateRegisteredPrintBuffer OR VMStateRegisteredGuestCPU OR
     VMStateInitMonitor OR VMStateMapMonitor"

definition VMStateRegisteredAll :: Bit32u where
  "VMStateRegisteredAll = VMStateRegisteredPhyMem OR VMStateRegisteredPrintBuffer OR
     VMStateRegisteredGuestCPU"

lemma VMStateReady_val [simp]: "VMStateReady = 0xff"
  by (simp add: VMStateReady_def)

lemma VMStateRegisteredAll_val [simp]: "VMStateRegisteredAll = 0x38"
  by (simp add: VMStateRegisteredAll_def)

text \<open>The layout of the GDT in \<^verbatim>\<open>linuxVMMode\<close>, and the slots of the monitor.\<close>

definition LinuxBootCsSlot :: nat where "LinuxBootCsSlot = 2"
definition LinuxBootDsSlot :: nat where "LinuxBootDsSlot = 3"
definition LinuxKernelCsSlot :: nat where "LinuxKernelCsSlot = 2"
definition LinuxKernelDsSlot :: nat where "LinuxKernelDsSlot = 3"
definition LinuxUserCsSlot :: nat where "LinuxUserCsSlot = 4"
definition LinuxUserDsSlot :: nat where "LinuxUserDsSlot = 5"
definition VMMonCsSlot :: nat where "VMMonCsSlot = 16"
definition VMMonDsSlot :: nat where "VMMonDsSlot = 17"
definition VMMonTssSlot :: nat where "VMMonTssSlot = 18"

lemmas gdt_slots [simp] = LinuxBootCsSlot_def LinuxBootDsSlot_def LinuxKernelCsSlot_def
  LinuxKernelDsSlot_def LinuxUserCsSlot_def LinuxUserDsSlot_def VMMonCsSlot_def VMMonDsSlot_def
  VMMonTssSlot_def

definition OKGuestSlot :: "nat \<Rightarrow> bool" where
  "OKGuestSlot gdtSlot \<longleftrightarrow>
     gdtSlot \<noteq> 0 \<and>
     (gdtSlot < VMMonCsSlot \<or> (gdtSlot > VMMonTssSlot \<and> gdtSlot < MON_GDT_SIZE div 8))"

section \<open>Field updates shared by the operations\<close>

abbreviation upd_context :: "(guestStackContext_t \<Rightarrow> guestStackContext_t) \<Rightarrow> vm_t \<Rightarrow> vm_t" where
  "upd_context f vm \<equiv> vm\<lparr>vm_context := f (vm_context vm)\<rparr>"

abbreviation upd_cpu :: "(guest_cpu_t \<Rightarrow> guest_cpu_t) \<Rightarrow> vm_t \<Rightarrow> vm_t" where
  "upd_cpu f vm \<equiv> vm\<lparr>vm_guest_cpu := f (vm_guest_cpu vm)\<rparr>"

abbreviation upd_nexus :: "(nexus_t \<Rightarrow> nexus_t) \<Rightarrow> vm_t \<Rightarrow> vm_t" where
  "upd_nexus f vm \<equiv> vm\<lparr>vm_nexus := f (vm_nexus vm)\<rparr>"

abbreviation upd_io :: "(io_t \<Rightarrow> io_t) \<Rightarrow> vm_t \<Rightarrow> vm_t" where
  "upd_io f vm \<equiv> vm\<lparr>vm_io := f (vm_io vm)\<rparr>"

abbreviation upd_hw :: "(hw_t \<Rightarrow> hw_t) \<Rightarrow> vm_t \<Rightarrow> vm_t" where
  "upd_hw f vm \<equiv> vm\<lparr>vm_hw := f (vm_hw vm)\<rparr>"

abbreviation INTR :: "vm_t \<Rightarrow> Bit32u" where
  "INTR vm \<equiv> sys_INTR (vm_system vm)"

abbreviation set_INTR :: "Bit32u \<Rightarrow> vm_t \<Rightarrow> vm_t" where
  "set_INTR v vm \<equiv> vm\<lparr>vm_system := (vm_system vm)\<lparr>sys_INTR := v\<rparr>\<rparr>"

text \<open>\<^verbatim>\<open>vm_rdtsc\<close>: each read of the counter yields the environment's next value.\<close>

definition vm_rdtsc :: "henv \<Rightarrow> Bit64u mon" where
  "vm_rdtsc env =
     bnd (gets (\<lambda>vm. he_rdtsc env (hw_tscReads (vm_hw vm)))) (\<lambda>t.
     thn (modify (upd_hw (\<lambda>h. h\<lparr>hw_tscReads := Suc (hw_tscReads h)\<rparr>)))
     (ret t))"

text \<open>The interrupt flag and the control registers of the processor.\<close>

definition CLI :: "unit mon" where "CLI = modify (upd_hw (\<lambda>h. h\<lparr>hw_IF := False\<rparr>))"
definition STI :: "unit mon" where "STI = modify (upd_hw (\<lambda>h. h\<lparr>hw_IF := True\<rparr>))"
definition loadCR3 :: "Bit32u \<Rightarrow> unit mon" where "loadCR3 v = modify (upd_hw (\<lambda>h. h\<lparr>hw_cr3 := v\<rparr>))"
definition loadMonCR4 :: "Bit32u \<Rightarrow> unit mon" where "loadMonCR4 v = modify (upd_hw (\<lambda>h. h\<lparr>hw_cr4 := v\<rparr>))"
definition loadMonCR0 :: "Bit32u \<Rightarrow> unit mon" where "loadMonCR0 v = modify (upd_hw (\<lambda>h. h\<lparr>hw_cr0 := v\<rparr>))"

definition invlpg_mon_offset :: "Bit32u \<Rightarrow> unit mon" where
  "invlpg_mon_offset a = modify (upd_hw (\<lambda>h. h\<lparr>hw_invlpg := a # hw_invlpg h\<rparr>))"

definition Guest2Monitor :: "vm_t \<Rightarrow> Bit32u \<Rightarrow> Bit32u" where
  "Guest2Monitor vm laddr = laddr - nx_mon_base (vm_nexus vm)"

lemmas hw_defs = vm_rdtsc_def CLI_def STI_def loadCR3_def loadMonCR4_def loadMonCR0_def
  invlpg_mon_offset_def

section \<open>Lemmas\<close>

lemma pp_pinned_set [simp]: "pp_pinned (pp_set_pinned b p) = b"
  "pp_hostPPI (pp_set_pinned b p) = pp_hostPPI p" "pp_RO (pp_set_pinned b p) = pp_RO p"
  "pp_memMapIO (pp_set_pinned b p) = pp_memMapIO p"
  by (simp_all add: pp_pinned_def pp_set_pinned_def pp_RO_def pp_memMapIO_def)

lemma pp_hostPPI_upd [simp]:
  "pp_pinned (p\<lparr>pp_hostPPI := h\<rparr>) = pp_pinned p" "pp_RO (p\<lparr>pp_hostPPI := h\<rparr>) = pp_RO p"
  "pp_memMapIO (p\<lparr>pp_hostPPI := h\<rparr>) = pp_memMapIO p"
  by (simp_all add: pp_pinned_def pp_RO_def pp_memMapIO_def)

lemma OKGuestSlot_bounds:
  "OKGuestSlot s \<Longrightarrow> s < 512"
  "OKGuestSlot s \<Longrightarrow> s \<noteq> VMMonCsSlot"
  "OKGuestSlot s \<Longrightarrow> s \<noteq> VMMonDsSlot"
  "OKGuestSlot s \<Longrightarrow> s \<noteq> VMMonTssSlot"
  by (auto simp: OKGuestSlot_def)

end
