(* ===== verification/Pin_Queue.thy ===== *)
theory Pin_Queue
  imports Vm_State
begin

text \<open>
  Pinning guest pages, \<^verbatim>\<open>host-kernel/vmm/host-space/monitor.c\<close>: \<^verbatim>\<open>hostInitShadowPaging\<close>,
  the ring buffer \<^verbatim>\<open>guestPhyPagePinQueue\<close> and \<^verbatim>\<open>hostHandlePagePinRequest\<close>, which evicts the
  page pinned longest ago once \<^verbatim>\<open>MaxPhyPagesPinned\<close> pages are pinned.

  The locale \<open>bounded_fifo\<close> is what the handler relies on: a queue of bounded length whose insertion
  drops the oldest entry when it is full. The ring buffer is an instance.
\<close>

section \<open>Shadow paging reset\<close>

definition hostInitShadowPaging :: "henv \<Rightarrow> unit mon" where
  "hostInitShadowPaging env =
     thn (modify (\<lambda>vm. vm\<lparr>vm_ptbl_laddr_map_i := 0\<rparr>))
     (thn (forM [0..<1024] (\<lambda>pdi.
        thn (modify (\<lambda>vm. vm\<lparr>vm_page_tbl_laddr_map := (vm_page_tbl_laddr_map vm)(pdi := - 1)\<rparr>))
        (bnd (gets vm_mon_pdi) (\<lambda>mon_pdi.
         whenM (pdi \<noteq> unat mon_pdi)
           (modify (\<lambda>vm. vm\<lparr>vm_page_dir := (vm_page_dir vm)(pdi := 0)\<rparr>))))))
     (bnd (vm_rdtsc env) (\<lambda>t. modify (\<lambda>vm. vm\<lparr>vm_vpaging_tsc := t\<rparr>))))"

section \<open>The ring buffer\<close>

definition pinQ_slot :: "pinQueue_t \<Rightarrow> Bit32u" where
  "pinQ_slot q = (if unat (pq_nEntries q) < MaxPhyPagesPinned then pq_nEntries q else pq_tail q)"

definition pinQ_full :: "pinQueue_t \<Rightarrow> bool" where
  "pinQ_full q \<longleftrightarrow> \<not> unat (pq_nEntries q) < MaxPhyPagesPinned"

definition pinQ_oldest :: "pinQueue_t \<Rightarrow> Bit32u" where
  "pinQ_oldest q = pq_ppi q (unat (pq_tail q))"

definition pinQ_add :: "Bit32u \<Rightarrow> Bit32u \<Rightarrow> pinQueue_t \<Rightarrow> pinQueue_t" where
  "pinQ_add qIndex ppi q =
     (let q' = q\<lparr>pq_ppi := (pq_ppi q)(unat qIndex := ppi)\<rparr> in
      if unat (pq_nEntries q) < MaxPhyPagesPinned
      then q'\<lparr>pq_nEntries := pq_nEntries q + 1,
              pq_tail := (pq_nEntries q + 1) mod of_nat MaxPhyPagesPinned\<rparr>
      else q'\<lparr>pq_tail := (pq_tail q + 1) mod of_nat MaxPhyPagesPinned\<rparr>)"

definition pinQ_push :: "Bit32u \<Rightarrow> pinQueue_t \<Rightarrow> pinQueue_t" where
  "pinQ_push ppi q = pinQ_add (pinQ_slot q) ppi q"

section \<open>The pin request\<close>

definition pageInfo :: "Bit32u \<Rightarrow> phyPageInfo_t mon" where
  "pageInfo ppi =
     bnd (gets (\<lambda>vm. pg_guest_n_pages (vm_pages vm))) (\<lambda>n.
     thn (inBounds ''guestPageInfo'' (ppi < n))
     (gets (\<lambda>vm. vm_guestPageInfo vm (unat ppi))))"

definition updPageInfo :: "Bit32u \<Rightarrow> (phyPageInfo_t \<Rightarrow> phyPageInfo_t) \<Rightarrow> unit mon" where
  "updPageInfo ppi f =
     bnd (gets (\<lambda>vm. pg_guest_n_pages (vm_pages vm))) (\<lambda>n.
     thn (inBounds ''guestPageInfo'' (ppi < n))
     (modify (\<lambda>vm. vm\<lparr>vm_guestPageInfo :=
        (vm_guestPageInfo vm)(unat ppi := f (vm_guestPageInfo vm (unat ppi)))\<rparr>)))"

definition hostOSUnpinUserPage :: "Bit32u \<Rightarrow> Bit32u \<Rightarrow> unit mon" where
  "hostOSUnpinUserPage userAddr osSpecificPtr =
     modify (\<lambda>vm. vm\<lparr>vm_os := OsUnpin userAddr osSpecificPtr # vm_os vm\<rparr>)"

text \<open>The page structure goes to \<^verbatim>\<open>guestPageInfoHostAdjunct[reqGuestPPI]\<close>.\<close>

definition hostOSGetAndPinUserPage :: "henv \<Rightarrow> Bit32u \<Rightarrow> Bit32u \<Rightarrow> Bit32u option mon" where
  "hostOSGetAndPinUserPage env userAddr reqGuestPPI =
     bnd (gets (\<lambda>vm. he_pin env vm userAddr)) (\<lambda>r.
     case r of
       None \<Rightarrow> ret None
     | Some (osPtr, hostPPI) \<Rightarrow>
         thn (modify (\<lambda>vm. vm\<lparr>vm_os := OsPin userAddr hostPPI # vm_os vm,
           vm_guestPageInfoHostAdjunct := (vm_guestPageInfoHostAdjunct vm)(unat reqGuestPPI := osPtr)\<rparr>))
         (ret (Some hostPPI)))"

text \<open>The eviction of the full queue.\<close>

definition hostEvictPinnedPage :: "henv \<Rightarrow> unit mon" where
  "hostEvictPinnedPage env =
     bnd (gets (\<lambda>vm. pinQ_oldest (vm_pinQueue vm))) (\<lambda>unpinGuestPPI.
     bnd (gets (\<lambda>vm. (vm_guestPhyMemAddr vm + push_bit 12 unpinGuestPPI,
                      vm_guestPageInfoHostAdjunct vm (unat unpinGuestPPI)))) (\<lambda>(addr, osPtr).
     thn (hostOSUnpinUserPage addr osPtr)
     (thn (updPageInfo unpinGuestPPI (pp_set_pinned False))
     (hostInitShadowPaging env))))"

definition hostHandlePagePinRequest :: "henv \<Rightarrow> Bit32u \<Rightarrow> bool mon" where
  "hostHandlePagePinRequest env reqGuestPPI =
     bnd (gets (\<lambda>vm. pinQ_slot (vm_pinQueue vm))) (\<lambda>qIndex.
     thn (inBounds ''guestPhyPagePinQueue.ppi'' (unat qIndex < MaxPhyPagesPinned))
     (bnd (gets (\<lambda>vm. pinQ_full (vm_pinQueue vm))) (\<lambda>full.
     thn (whenM full (hostEvictPinnedPage env))
     (bnd (gets (\<lambda>vm. vm_guestPhyMemAddr vm + push_bit 12 reqGuestPPI)) (\<lambda>addr.
     bnd (hostOSGetAndPinUserPage env addr reqGuestPPI) (\<lambda>r.
     case r of
       None \<Rightarrow> ret False
     | Some hostPPI \<Rightarrow>
         thn (updPageInfo reqGuestPPI (\<lambda>p. (pp_set_pinned True p)\<lparr>pp_hostPPI := hostPPI\<rparr>))
         (thn (modify (\<lambda>vm. vm\<lparr>vm_pinQueue := pinQ_add qIndex reqGuestPPI (vm_pinQueue vm)\<rparr>))
         (ret True))))))))"

section \<open>Bounded queues\<close>

locale bounded_fifo =
  fixes cap :: nat
    and wf :: "'q \<Rightarrow> bool"
    and contents :: "'q \<Rightarrow> 'a list"
    and isFull :: "'q \<Rightarrow> bool"
    and oldest :: "'q \<Rightarrow> 'a"
    and push :: "'a \<Rightarrow> 'q \<Rightarrow> 'q"
  assumes cap_pos: "0 < cap"
    and wf_length: "wf q \<Longrightarrow> length (contents q) \<le> cap"
    and full_iff: "wf q \<Longrightarrow> isFull q \<longleftrightarrow> length (contents q) = cap"
    and oldest_hd: "wf q \<Longrightarrow> isFull q \<Longrightarrow> oldest q = hd (contents q)"
    and push_wf: "wf q \<Longrightarrow> wf (push x q)"
    and push_room: "wf q \<Longrightarrow> \<not> isFull q \<Longrightarrow> contents (push x q) = contents q @ [x]"
    and push_full: "wf q \<Longrightarrow> isFull q \<Longrightarrow> contents (push x q) = tl (contents q) @ [x]"
begin

lemma push_contents:
  assumes "wf q"
  shows "contents (push x q) = drop (length (contents q) + 1 - cap) (contents q @ [x])"
proof (cases "isFull q")
  case True
  then have "length (contents q) = cap" "contents q \<noteq> []"
    using full_iff [OF assms] cap_pos by auto
  then show ?thesis
    using push_full [OF assms True] cap_pos by (simp add: drop_Suc)
next
  case False
  then have "length (contents q) < cap"
    using full_iff [OF assms] wf_length [OF assms] by simp
  then show ?thesis
    using push_room [OF assms False] by simp
qed

text \<open>After any sequence of insertions the queue holds the last \<open>cap\<close> values inserted.\<close>

lemma pushes_contents:
  assumes "wf q"
  shows "wf (fold push xs q) \<and>
    contents (fold push xs q) = drop (length (contents q) + length xs - cap) (contents q @ xs)"
  using assms
proof (induction xs arbitrary: q)
  case Nil
  then show ?case using wf_length [OF Nil] by simp
next
  case (Cons x xs)
  let ?k = "length (contents q) + 1 - cap"
  have len: "length (contents q) \<le> cap" by (rule wf_length [OF Cons.prems])
  have c: "contents (push x q) = drop ?k (contents q @ [x])"
    by (rule push_contents [OF Cons.prems])
  have "contents (fold push xs (push x q)) =
      drop (length (contents (push x q)) + length xs - cap) (contents (push x q) @ xs)"
    using Cons.IH [OF push_wf [OF Cons.prems, of x]] by simp
  also have "contents (push x q) @ xs = drop ?k (contents q @ x # xs)"
    using len cap_pos unfolding c by simp
  also have "drop (length (contents (push x q)) + length xs - cap) (drop ?k (contents q @ x # xs)) =
      drop (length (contents q) + length (x # xs) - cap) (contents q @ x # xs)"
  proof -
    have "length (contents (push x q)) + length xs - cap + ?k = length (contents q) + length (x # xs) - cap"
      using len cap_pos unfolding c by simp
    then show ?thesis by (simp only: drop_drop)
  qed
  finally show ?case
    using Cons.IH [OF push_wf [OF Cons.prems, of x]] by simp
qed

lemma push_distinct:
  assumes "wf q" "distinct (contents q)" "x \<notin> set (contents q)"
  shows "distinct (contents (push x q))"
  unfolding push_contents [OF assms(1)] using assms(2,3) by (intro distinct_drop) auto

lemma push_set_full:
  assumes "wf q" "isFull q" "distinct (contents q)"
  shows "set (contents (push x q)) = insert x (set (contents q) - {oldest q})"
proof -
  have "contents q \<noteq> []"
    using full_iff [OF assms(1)] assms(2) cap_pos by auto
  then obtain y ys where "contents q = y # ys" by (cases "contents q") auto
  then show ?thesis
    using assms push_full [OF assms(1,2), of x] oldest_hd [OF assms(1,2)] by auto
qed

lemma push_set_room:
  assumes "wf q" "\<not> isFull q"
  shows "set (contents (push x q)) = insert x (set (contents q))"
  using push_room [OF assms] by simp

lemma oldest_in:
  assumes "wf q" "isFull q"
  shows "oldest q \<in> set (contents q)"
proof -
  have "contents q \<noteq> []"
    using full_iff [OF assms(1)] assms(2) cap_pos by auto
  then show ?thesis by (simp add: oldest_hd [OF assms])
qed

end

section \<open>The ring buffer is a bounded queue\<close>

definition pinQ_wf :: "pinQueue_t \<Rightarrow> bool" where
  "pinQ_wf q \<longleftrightarrow> unat (pq_nEntries q) \<le> MaxPhyPagesPinned \<and> unat (pq_tail q) < MaxPhyPagesPinned \<and>
     (unat (pq_nEntries q) < MaxPhyPagesPinned \<longrightarrow> pq_tail q = pq_nEntries q)"

definition pinQ_contents :: "pinQueue_t \<Rightarrow> Bit32u list" where
  "pinQ_contents q =
     (if pinQ_full q
      then map (\<lambda>i. pq_ppi q ((unat (pq_tail q) + i) mod MaxPhyPagesPinned)) [0..<MaxPhyPagesPinned]
      else map (pq_ppi q) [0..<unat (pq_nEntries q)])"

lemma pinQ_full_eq: "pinQ_wf q \<Longrightarrow> pinQ_full q \<longleftrightarrow> unat (pq_nEntries q) = 1024"
  by (auto simp: pinQ_full_def pinQ_wf_def)

lemma unat_add1_mod:
  "unat (n :: Bit32u) < 1024 \<Longrightarrow> unat ((n + 1) mod 1024) = (unat n + 1) mod 1024"
  "unat (n :: Bit32u) < 1024 \<Longrightarrow> unat (n + 1) = unat n + 1"
proof -
  assume "unat n < 1024"
  then show *: "unat (n + 1) = unat n + 1"
    by (simp add: unat_word_ariths)
  then show "unat ((n + 1) mod 1024) = (unat n + 1) mod 1024"
    by (simp add: unat_word_ariths)
qed

lemma ring_succ: "t < 1024 \<Longrightarrow> i < 1024 \<Longrightarrow> (t + 1 + i) mod 1024 = t \<longleftrightarrow> i = (1023 :: nat)"
  by (cases "t + 1 + i < 1024") (auto simp: mod_if)

lemma pinQ_push_full:
  assumes "pinQ_wf q" "pinQ_full q"
  shows "pinQ_contents (pinQ_push x q) = tl (pinQ_contents q) @ [x]"
proof (rule nth_equalityI)
  have t: "unat (pq_tail q) < 1024" and n: "\<not> unat (pq_nEntries q) < 1024"
    using assms by (auto simp: pinQ_wf_def pinQ_full_def)
  have full': "pinQ_full (pinQ_push x q)"
    using n by (simp add: pinQ_full_def pinQ_push_def pinQ_add_def Let_def)
  show "length (pinQ_contents (pinQ_push x q)) = length (tl (pinQ_contents q) @ [x])"
    using full' assms(2) by (simp add: pinQ_contents_def)
  fix i assume "i < length (pinQ_contents (pinQ_push x q))"
  then have i: "i < 1024" using full' by (simp add: pinQ_contents_def)
  have tl': "unat (pq_tail (pinQ_push x q)) = (unat (pq_tail q) + 1) mod 1024"
    using t n by (simp add: pinQ_push_def pinQ_add_def Let_def unat_add1_mod del: unat_plus_simple)
  have "pinQ_contents (pinQ_push x q) ! i = ((pq_ppi q)(unat (pq_tail q) := x))
      ((unat (pq_tail q) + 1 + i) mod 1024)"
    using full' i n unfolding pinQ_contents_def
    by (simp add: tl' mod_add_left_eq add.assoc)
      (simp add: pinQ_push_def pinQ_add_def pinQ_slot_def Let_def)
  also have "\<dots> = (tl (pinQ_contents q) @ [x]) ! i"
    using ring_succ [OF t i] assms(2) i
    by (auto simp: pinQ_contents_def nth_append nth_tl add.assoc)
  finally show "pinQ_contents (pinQ_push x q) ! i = (tl (pinQ_contents q) @ [x]) ! i" .
qed

lemma pinQ_push_room:
  assumes "pinQ_wf q" "\<not> pinQ_full q"
  shows "pinQ_contents (pinQ_push x q) = pinQ_contents q @ [x]"
proof -
  let ?n = "unat (pq_nEntries q)"
  have n: "?n < 1024" using assms by (simp add: pinQ_full_def)
  have q': "unat (pq_nEntries (pinQ_push x q)) = ?n + 1" "pq_ppi (pinQ_push x q) = (pq_ppi q)(?n := x)"
    "unat (pq_tail (pinQ_push x q)) = (?n + 1) mod 1024"
    using n unat_add1_mod [OF n] by (simp_all add: pinQ_push_def pinQ_add_def pinQ_slot_def Let_def)
  show ?thesis
  proof (cases "?n + 1 < 1024")
    case True
    then show ?thesis
      using n q' assms(2) by (simp add: pinQ_contents_def pinQ_full_def)
  next
    case False
    then have "?n = 1023" using n by simp
    then show ?thesis
      using n q' assms(2)
      by (auto simp: pinQ_contents_def pinQ_full_def nth_append intro!: nth_equalityI)
  qed
qed

lemma pinQ_push_wf: "pinQ_wf q \<Longrightarrow> pinQ_wf (pinQ_push x q)"
  using unat_add1_mod [of "pq_nEntries q"] unat_add1_mod [of "pq_tail q"]
  by (auto simp: pinQ_wf_def pinQ_push_def pinQ_add_def Let_def mod_if
      intro!: word_unat_eq_iff [THEN iffD2])

interpretation pinq: bounded_fifo MaxPhyPagesPinned pinQ_wf pinQ_contents pinQ_full pinQ_oldest pinQ_push
proof unfold_locales
  fix q x
  assume wf: "pinQ_wf q"
  show "length (pinQ_contents q) \<le> MaxPhyPagesPinned"
    using wf by (simp add: pinQ_contents_def pinQ_wf_def)
  show "pinQ_full q \<longleftrightarrow> length (pinQ_contents q) = MaxPhyPagesPinned"
    using wf pinQ_full_eq [OF wf] by (auto simp: pinQ_contents_def pinQ_full_def)
  show "pinQ_full q \<Longrightarrow> pinQ_oldest q = hd (pinQ_contents q)"
    using wf by (simp add: pinQ_contents_def pinQ_oldest_def hd_map pinQ_wf_def)
qed (auto intro: pinQ_push_wf pinQ_push_room pinQ_push_full)

section \<open>What the shadow paging reset leaves\<close>

definition shadowReset :: "henv \<Rightarrow> vm_t \<Rightarrow> vm_t" where
  "shadowReset env vm = vm\<lparr>
     vm_ptbl_laddr_map_i := 0,
     vm_page_tbl_laddr_map := (\<lambda>i. if i < 1024 then - 1 else vm_page_tbl_laddr_map vm i),
     vm_page_dir := (\<lambda>i. if i < 1024 \<and> i \<noteq> unat (vm_mon_pdi vm) then 0 else vm_page_dir vm i),
     vm_hw := (vm_hw vm)\<lparr>hw_tscReads := Suc (hw_tscReads (vm_hw vm))\<rparr>,
     vm_vpaging_tsc := he_rdtsc env (hw_tscReads (vm_hw vm))\<rparr>"

lemma hostInitShadowPaging_eq: "hostInitShadowPaging env vm = Ret () (shadowReset env vm)"
proof -
  define g :: "nat \<Rightarrow> vm_t" where "g n = vm\<lparr>vm_ptbl_laddr_map_i := 0,
     vm_page_tbl_laddr_map := (\<lambda>i. if i < n then - 1 else vm_page_tbl_laddr_map vm i),
     vm_page_dir := (\<lambda>i. if i < n \<and> i \<noteq> unat (vm_mon_pdi vm) then 0 else vm_page_dir vm i)\<rparr>" for n
  define body :: "nat \<Rightarrow> unit mon" where "body pdi =
        thn (modify (\<lambda>vm. vm\<lparr>vm_page_tbl_laddr_map := (vm_page_tbl_laddr_map vm)(pdi := - 1)\<rparr>))
        (bnd (gets vm_mon_pdi) (\<lambda>mon_pdi.
         whenM (pdi \<noteq> unat mon_pdi)
           (modify (\<lambda>vm. vm\<lparr>vm_page_dir := (vm_page_dir vm)(pdi := 0)\<rparr>))))" for pdi
  have "body i (g i) = Ret () (g (Suc i))" for i
    by (auto simp: body_def g_def fun_eq_iff less_Suc_eq intro!: vm_t.equality)
  then have "forM [0..<1024] body (g 0) = Ret () (g 1024)"
    by (intro forM_upt_Ret) simp
  moreover have "g 0 = vm\<lparr>vm_ptbl_laddr_map_i := 0\<rparr>"
    by (simp add: g_def)
  ultimately show ?thesis
    unfolding hostInitShadowPaging_def body_def [symmetric]
    by (simp add: vm_rdtsc_def shadowReset_def) (simp add: g_def)
qed

lemma wp_hostInitShadowPaging [simp, wp_rules]:
  "wp (hostInitShadowPaging env) Q vm = Q () (shadowReset env vm)"
  by (simp add: wp_def hostInitShadowPaging_eq)

lemma shadowReset_fields [simp]:
  "vm_guestPageInfo (shadowReset env vm) = vm_guestPageInfo vm"
  "vm_pinQueue (shadowReset env vm) = vm_pinQueue vm"
  "vm_pages (shadowReset env vm) = vm_pages vm"
  "vm_context (shadowReset env vm) = vm_context vm"
  "vm_gdt (shadowReset env vm) = vm_gdt vm"
  "vm_mon_pdi (shadowReset env vm) = vm_mon_pdi vm"
  "vm_ptbl_laddr_map_i (shadowReset env vm) = 0"
  "vm_page_dir (shadowReset env vm) i =
     (if i < 1024 \<and> i \<noteq> unat (vm_mon_pdi vm) then 0 else vm_page_dir vm i)"
  "vm_page_tbl_laddr_map (shadowReset env vm) i =
     (if i < 1024 then - 1 else vm_page_tbl_laddr_map vm i)"
  by (simp_all add: shadowReset_def)

section \<open>Pinned pages and the queue agree\<close>

definition pin_inv :: "vm_t \<Rightarrow> bool" where
  "pin_inv vm \<longleftrightarrow> pinQ_wf (vm_pinQueue vm) \<and> distinct (pinQ_contents (vm_pinQueue vm)) \<and>
     (\<forall>ppi < pg_guest_n_pages (vm_pages vm).
        pp_pinned (vm_guestPageInfo vm (unat ppi)) \<longleftrightarrow> ppi \<in> set (pinQ_contents (vm_pinQueue vm))) \<and>
     (\<forall>ppi \<in> set (pinQ_contents (vm_pinQueue vm)). ppi < pg_guest_n_pages (vm_pages vm))"

lemma pin_inv_slot: "pin_inv vm \<Longrightarrow> unat (pinQ_slot (vm_pinQueue vm)) < 1024"
  by (auto simp: pin_inv_def pinQ_wf_def pinQ_slot_def)

lemma pin_inv_oldest:
  "pin_inv vm \<Longrightarrow> pinQ_full (vm_pinQueue vm) \<Longrightarrow>
   pinQ_oldest (vm_pinQueue vm) < pg_guest_n_pages (vm_pages vm)"
  using pinq.oldest_in by (auto simp: pin_inv_def)

text \<open>A request for a page of the guest that is not pinned: on success the page is pinned with the
  address the host returned, and pages and queue agree again.\<close>

lemma hostHandlePagePinRequest_wp:
  assumes inv: "pin_inv vm" and req: "req < pg_guest_n_pages (vm_pages vm)"
    and np: "\<not> pp_pinned (vm_guestPageInfo vm (unat req))"
  shows "wp (hostHandlePagePinRequest env req)
    (\<lambda>ok vm'. ok \<longrightarrow> pin_inv vm' \<and> pp_pinned (vm_guestPageInfo vm' (unat req)) \<and>
       vm_pages vm' = vm_pages vm \<and>
       vm_pinQueue vm' = pinQ_push req (vm_pinQueue vm)) vm"
proof -
  let ?q = "vm_pinQueue vm"
  have wf: "pinQ_wf ?q" and d: "distinct (pinQ_contents ?q)" and nin: "req \<notin> set (pinQ_contents ?q)"
    and pinned: "\<And>ppi. ppi < pg_guest_n_pages (vm_pages vm) \<Longrightarrow>
        pp_pinned (vm_guestPageInfo vm (unat ppi)) \<longleftrightarrow> ppi \<in> set (pinQ_contents ?q)"
    and bnd: "\<And>ppi. ppi \<in> set (pinQ_contents ?q) \<Longrightarrow> ppi < pg_guest_n_pages (vm_pages vm)"
    using inv req np by (auto simp: pin_inv_def)
  have push: "pinQ_wf (pinQ_push req ?q)" "distinct (pinQ_contents (pinQ_push req ?q))"
    using wf d nin by (auto intro: pinq.push_wf pinq.push_distinct)
  show ?thesis
  proof (cases "pinQ_full ?q")
    case True
    have "set (pinQ_contents (pinQ_push req ?q)) = insert req (set (pinQ_contents ?q) - {pinQ_oldest ?q})"
      by (rule pinq.push_set_full [OF wf True d])
    moreover have "pinQ_oldest ?q \<noteq> req"
      using pinq.oldest_in [OF wf True] nin by auto
    ultimately show ?thesis
      using True push pin_inv_slot [OF inv] pin_inv_oldest [OF inv True] pinned bnd req
      by (auto simp: hostHandlePagePinRequest_def hostEvictPinnedPage_def hostOSUnpinUserPage_def
          hostOSGetAndPinUserPage_def updPageInfo_def pin_inv_def pinQ_push_def [symmetric]
          split: option.splits prod.splits)
  next
    case False
    have "set (pinQ_contents (pinQ_push req ?q)) = insert req (set (pinQ_contents ?q))"
      by (rule pinq.push_set_room [OF wf False])
    then show ?thesis
      using False push pin_inv_slot [OF inv] pinned bnd req
      by (auto simp: hostHandlePagePinRequest_def
          hostOSGetAndPinUserPage_def updPageInfo_def pin_inv_def pinQ_push_def [symmetric]
          split: option.splits prod.splits)
  qed
qed

end
