(* ===== verification/Mon_Host.thy ===== *)
theory Mon_Host
  imports Nexus_Util Pin_Queue
begin

text \<open>
  Crossing from the monitor to the host and back, and what is built on it:
  \<^verbatim>\<open>monitor-space/monitor.c\<close> (the \<^verbatim>\<open>toHost\<close> requests), \<^verbatim>\<open>monitor-space/print.c\<close>,
  \<^verbatim>\<open>monitor-space/panic.c\<close>, and the parts of \<^verbatim>\<open>hostIoctlExecute\<close>
  (\<^verbatim>\<open>host-space/monitor.c\<close>) and of \<^verbatim>\<open>executeLinux\<close> (\<^verbatim>\<open>host-user/linuxvm.c\<close>) that a request
  runs through. Seen from the monitor, \<^verbatim>\<open>vm->guest.__mon2host()\<close> is the rest of the ioctl that
  entered the monitor, the user process until its next \<^verbatim>\<open>PLEX86_EXECUTE\<close>, and the beginning of that
  one; \<open>mon2host\<close> is that composition. A request the host answers with an error never comes back:
  the run ends in \<open>Panic\<close>, with \<^verbatim>\<open>VMStatePanic\<close> set.
\<close>

section \<open>The host side of a request\<close>

text \<open>The label \<^verbatim>\<open>handlePanic\<close> of \<^verbatim>\<open>hostIoctlExecute\<close>.\<close>

definition handlePanic :: "string \<Rightarrow> 'a mon" where
  "handlePanic e =
     thn (modify (\<lambda>vm. vm\<lparr>vm_vmState := vm_vmState vm OR VMStatePanic, vm_mon_request := MonReqPanic\<rparr>))
     (halt e)"

text \<open>The transition itself: the host's \<^verbatim>\<open>SYSENTER_CS\<close> is put away while the monitor runs.\<close>

definition enterMonitor :: "henv \<Rightarrow> unit mon" where
  "enterMonitor env =
     (if \<not> bit (he_hostEflags env) 9 then handlePanic ''ioctlExecute: EFLAGS.IF==0''
      else thn (modify (\<lambda>vm. vm\<lparr>vm_hostSysenterCS := hw_msr174 (vm_hw vm)\<rparr>))
           (modify (upd_hw (\<lambda>h. h\<lparr>hw_msr174 := 0\<rparr>))))"

definition leaveMonitor :: "unit mon" where
  "leaveMonitor = modify (\<lambda>vm. vm\<lparr>vm_hw := (vm_hw vm)\<lparr>hw_msr174 := vm_hostSysenterCS vm\<rparr>\<rparr>)"

definition copyGenRegsToCpu :: "unit mon" where
  "copyGenRegsToCpu = modify (\<lambda>vm. vm\<lparr>vm_guest_cpu := (vm_guest_cpu vm)\<lparr>cpu_genReg :=
     (cpu_genReg (vm_guest_cpu vm))(
        GenRegEDI := sc_edi (vm_context vm), GenRegESI := sc_esi (vm_context vm),
        GenRegEBP := sc_ebp (vm_context vm), GenRegESP := sc_esp (vm_context vm),
        GenRegEBX := sc_ebx (vm_context vm), GenRegEDX := sc_edx (vm_context vm),
        GenRegECX := sc_ecx (vm_context vm), GenRegEAX := sc_eax (vm_context vm))\<rparr>\<rparr>)"

definition copyGenRegsFromCpu :: "unit mon" where
  "copyGenRegsFromCpu = modify (\<lambda>vm. vm\<lparr>vm_context := (vm_context vm)\<lparr>
     sc_edi := cpu_genReg (vm_guest_cpu vm) GenRegEDI, sc_esi := cpu_genReg (vm_guest_cpu vm) GenRegESI,
     sc_ebp := cpu_genReg (vm_guest_cpu vm) GenRegEBP, sc_dummy_esp := 0,
     sc_ebx := cpu_genReg (vm_guest_cpu vm) GenRegEBX, sc_edx := cpu_genReg (vm_guest_cpu vm) GenRegEDX,
     sc_ecx := cpu_genReg (vm_guest_cpu vm) GenRegECX, sc_eax := cpu_genReg (vm_guest_cpu vm) GenRegEAX\<rparr>\<rparr>)"

definition reportINTR :: "unit mon" where
  "reportINTR = modify (\<lambda>vm. vm\<lparr>vm_guest_cpu := (vm_guest_cpu vm)\<lparr>cpu_INTR := INTR vm\<rparr>\<rparr>)"

definition flushLogBuffer :: "unit mon" where
  "flushLogBuffer =
     bnd (gets (\<lambda>vm. li_offset (vm_monLogBufferInfo vm))) (\<lambda>off.
     whenM (\<not> unat off \<ge> 4096)
       (modify (\<lambda>vm. vm\<lparr>vm_userLogBuffer :=
          (nexusMemCpy (vm_userLogBuffer vm) 0 (vm_monLogBuffer vm) 0 (unat off))
            (unat off := char_of (0 :: nat))\<rparr>)))"

text \<open>Where control goes after the request: straight back to the monitor, or to the user process.\<close>

datatype hostNext = HostResume | HostToUser

definition hostServeRequest :: "henv \<Rightarrow> hostNext mon" where
  "hostServeRequest env =
     bnd (gets vm_mon_request) (\<lambda>r.
     if r = MonReqRedirect then
       thn (modify (\<lambda>vm. vm\<lparr>vm_os := OsSoftInt (vm_redirect_vector vm) # vm_os vm\<rparr>))
       (bnd (gets (he_idle env)) (\<lambda>idle.
        if \<not> idle then thn reportINTR (ret HostToUser)
        else thn (modify (\<lambda>vm. vm\<lparr>vm_mon_request := MonReqNone\<rparr>)) (ret HostResume)))
     else if r = MonReqRemapMonitor then handlePanic ''ioctlExecute: case MonReqRemapMonitor.''
     else if r = MonReqFlushPrintBuf then
       thn flushLogBuffer (thn reportINTR (ret HostToUser))
     else if r = MonReqHalCall then
       thn copyGenRegsToCpu (thn reportINTR (ret HostToUser))
     else if r = MonReqBogus then
       thn reportINTR (ret HostToUser)
     else if r = MonReqPanic then handlePanic ''ioctlExecute: case MonReqPanic.''
     else if r = MonReqPinUserPage then
       bnd (gets vm_pinReqPPI) (\<lambda>ppi.
       bnd (hostHandlePagePinRequest env ppi) (\<lambda>ok.
       if ok then ret HostResume else handlePanic ''handlePagePinReq: request to pin failed.''))
     else handlePanic ''ioctlExecute: default case'')"

section \<open>The user process between two ioctls\<close>

text \<open>\<^verbatim>\<open>executeLinux\<close>: it answers the request, polls the network and executes again; every other
  request ends in \<^verbatim>\<open>plex86TearDown\<close>.\<close>

definition userPoll :: "henv \<Rightarrow> unit mon" where
  "userPoll env = modify (\<lambda>vm. vm\<lparr>
     vm_guest_cpu := (vm_guest_cpu vm)\<lparr>cpu_halIrq := fst (he_poll env vm)\<rparr>,
     vm_phymem := snd (he_poll env vm)\<rparr>)"

definition userStep :: "henv \<Rightarrow> unit mon" where
  "userStep env =
     bnd (gets vm_mon_request) (\<lambda>r.
     thn (if r = MonReqFlushPrintBuf \<or> r = MonReqRedirect \<or> r = MonReqBogus then ret ()
          else if r = MonReqHalCall then
            bnd (gets (he_halCall env)) (\<lambda>h.
            case h of
              None \<Rightarrow> halt ''HAL call failed.''
            | Some (cpu, mem) \<Rightarrow> modify (\<lambda>vm. vm\<lparr>vm_guest_cpu := cpu, vm_phymem := mem\<rparr>))
          else halt ''plex86: executeMsg.request'')
     (userPoll env))"

section \<open>The beginning of the next ioctl\<close>

definition executeResume :: "henv \<Rightarrow> unit mon" where
  "executeResume env =
     bnd (gets vm_vmState) (\<lambda>st.
     if st \<noteq> VMStateReady then handlePanic ''Plex86NoExecute_VMState''
     else
       thn (modify (\<lambda>vm. set_INTR (cpu_INTR (vm_guest_cpu vm)) vm))
       (bnd (gets vm_mon_request) (\<lambda>r.
        if r = MonReqHalCall then
          thn copyGenRegsFromCpu (modify (\<lambda>vm. vm\<lparr>vm_mon_request := MonReqNone\<rparr>))
        else if r = MonReqFlushPrintBuf \<or> r = MonReqBogus \<or> r = MonReqRedirect then
          modify (\<lambda>vm. vm\<lparr>vm_mon_request := MonReqNone\<rparr>)
        else handlePanic ''Plex86NoExecute_VMState'')))"

definition mon2host :: "henv \<Rightarrow> unit mon" where
  "mon2host env =
     thn leaveMonitor
     (bnd (hostServeRequest env) (\<lambda>nx.
      thn (case nx of HostResume \<Rightarrow> ret () | HostToUser \<Rightarrow> thn (userStep env) (executeResume env))
      (enterMonitor env)))"

section \<open>Requests of the monitor\<close>

text \<open>\<^verbatim>\<open>saveEFlagsCLI\<close>, the request, \<^verbatim>\<open>__mon2host\<close>, \<^verbatim>\<open>restoreIF\<close>.\<close>

definition toHost :: "henv \<Rightarrow> (vm_t \<Rightarrow> vm_t) \<Rightarrow> unit mon" where
  "toHost env req =
     bnd (gets (\<lambda>vm. hw_IF (vm_hw vm))) (\<lambda>IF.
     thn CLI (thn (modify req) (thn (mon2host env) (whenM IF STI))))"

definition toHostFlushPrintBuf :: "henv \<Rightarrow> unit mon" where
  "toHostFlushPrintBuf env = toHost env (\<lambda>vm. vm\<lparr>vm_mon_request := MonReqFlushPrintBuf\<rparr>)"

definition toHostRemapMonitor :: "henv \<Rightarrow> unit mon" where
  "toHostRemapMonitor env = toHost env (\<lambda>vm. vm\<lparr>vm_mon_request := MonReqRemapMonitor\<rparr>)"

definition toHostGuestFault :: "henv \<Rightarrow> Bit32u \<Rightarrow> Bit32u \<Rightarrow> unit mon" where
  "toHostGuestFault env fault errorCode = toHost env (\<lambda>vm. vm\<lparr>vm_mon_request := MonReqGuestFault,
     vm_guestFaultNo := fault, vm_guestFaultError := errorCode\<rparr>)"

definition toHostPinUserPage :: "henv \<Rightarrow> Bit32u \<Rightarrow> unit mon" where
  "toHostPinUserPage env ppi = toHost env (\<lambda>vm. vm\<lparr>vm_mon_request := MonReqPinUserPage, vm_pinReqPPI := ppi\<rparr>)"

definition toHostHalCall :: "henv \<Rightarrow> unit mon" where
  "toHostHalCall env = toHost env (\<lambda>vm. vm\<lparr>vm_mon_request := MonReqHalCall\<rparr>)"

definition toHostBogus :: "henv \<Rightarrow> unit mon" where
  "toHostBogus env = toHost env (\<lambda>vm. vm\<lparr>vm_mon_request := MonReqBogus\<rparr>)"

section \<open>Printing\<close>

definition resetPrintBuf :: "unit mon" where
  "resetPrintBuf = modify (\<lambda>vm. vm\<lparr>
     vm_monLogBufferInfo := (vm_monLogBufferInfo vm)\<lparr>li_offset := 0, li_error := 0\<rparr>,
     vm_monLogBuffer := (vm_monLogBuffer vm)(0 := char_of (0 :: nat))\<rparr>)"

text \<open>The stores of one \<^verbatim>\<open>nexusVsnprintf\<close> call at offset \<open>off\<close> of the log buffer.\<close>

definition bufPuts :: "(nat \<Rightarrow> char) \<Rightarrow> nat \<Rightarrow> string \<Rightarrow> (nat \<Rightarrow> char)" where
  "bufPuts b off s = (\<lambda>i. if off \<le> i \<and> i < off + length s then s ! (i - off) else b i)"

definition vsnStores :: "vsn \<Rightarrow> string" where
  "vsnStores r = (case r of VOk out n \<Rightarrow> out @ [char_of (0 :: nat)] | VErr out \<Rightarrow> out)"

definition vsnprintfToLog :: "nat \<Rightarrow> nat \<Rightarrow> string \<Rightarrow> fmtarg list \<Rightarrow> nat option mon" where
  "vsnprintfToLog off remaining fmt args =
     (let r = nexusVsnprintf remaining fmt args in
      thn (inBounds ''monLogBuffer'' (off + length (vsnStores r) \<le> LOG_BUFF_SIZE))
      (thn (modify (\<lambda>vm. vm\<lparr>vm_monLogBuffer := bufPuts (vm_monLogBuffer vm) off (vsnStores r)\<rparr>))
      (ret (case r of VOk out n \<Rightarrow> Some n | VErr out \<Rightarrow> None))))"

definition setLocked :: "Bit32u \<Rightarrow> unit mon" where
  "setLocked v = modify (\<lambda>vm. vm\<lparr>vm_monLogBufferInfo := (vm_monLogBufferInfo vm)\<lparr>li_locked := v\<rparr>\<rparr>)"

text \<open>The tail of \<^verbatim>\<open>mon_vprint\<close> once the text is in the buffer.\<close>

definition printFinish :: "henv \<Rightarrow> nat \<Rightarrow> nat mon" where
  "printFinish env n =
     thn (modify (\<lambda>vm. vm\<lparr>vm_monLogBufferInfo := (vm_monLogBufferInfo vm)\<lparr>
            li_offset := li_offset (vm_monLogBufferInfo vm) + of_nat n\<rparr>\<rparr>))
     (thn (toHostFlushPrintBuf env)
     (thn resetPrintBuf
     (thn (setLocked 0)
     (ret n))))"

definition mon_vprint :: "henv \<Rightarrow> string \<Rightarrow> fmtarg list \<Rightarrow> nat mon" where
  "mon_vprint env fmt args =
     bnd (gets vm_monLogBufferInfo) (\<lambda>info.
     if li_locked info \<noteq> 0 then ret 0
     else
       thn (setLocked 1)
       (let offset = unat (li_offset info) in
        if offset \<ge> LOG_BUFF_SIZE then thn resetPrintBuf (thn (setLocked 0) (ret 0))
        else
          bnd (vsnprintfToLog offset (LOG_BUFF_SIZE - offset) fmt args) (\<lambda>r.
          case r of
            Some n \<Rightarrow> printFinish env n
          | None \<Rightarrow>
              thn (modify (\<lambda>vm. vm\<lparr>vm_monLogBuffer := (vm_monLogBuffer vm)(offset := char_of (0 :: nat))\<rparr>))
              (thn (toHostFlushPrintBuf env)
              (thn resetPrintBuf
              (bnd (vsnprintfToLog 0 LOG_BUFF_SIZE fmt args) (\<lambda>r'.
               case r' of
                 Some n \<Rightarrow> printFinish env n
               | None \<Rightarrow> thn resetPrintBuf (ret 0))))))))"

definition monprint :: "henv \<Rightarrow> string \<Rightarrow> fmtarg list \<Rightarrow> unit mon" where
  "monprint env fmt args = thn (mon_vprint env fmt args) (ret ())"

section \<open>Panic\<close>

text \<open>
  After the messages, the monitor asks for \<^verbatim>\<open>MonReqPanic\<close> and never gets control back. The branch
  of \<open>hostServeRequest\<close> for that request is written out here, so that the outcome carries the
  format string of the panic.
\<close>

definition monpanic_nomess :: "string \<Rightarrow> 'a mon" where
  "monpanic_nomess e =
     thn CLI
     (thn (modify (\<lambda>vm. vm\<lparr>vm_mon_request := MonReqPanic\<rparr>))
     (thn leaveMonitor (handlePanic e)))"

definition monpanic :: "henv \<Rightarrow> string \<Rightarrow> fmtarg list \<Rightarrow> 'a mon" where
  "monpanic env fmt args =
     thn (toHostFlushPrintBuf env)
     (thn (monprint env ''plex86 panic: '' [])
     (thn (mon_vprint env fmt args)
     (monpanic_nomess fmt)))"

definition MonAssert :: "henv \<Rightarrow> bool \<Rightarrow> string \<Rightarrow> string \<Rightarrow> Bit32u \<Rightarrow> unit mon" where
  "MonAssert env b expr file line =
     (if b then ret () else monpanic env ''Assertion (%s) failed at %s:%u'' [ArgS expr, ArgS file, ArgU line])"

section \<open>What a crossing preserves\<close>

lemma system_INTR_same [simp]:
  "(s :: system_t)\<lparr>sys_INTR := sys_INTR s\<rparr> = s" "(vm :: vm_t)\<lparr>vm_system := vm_system vm\<rparr> = vm"
  by simp_all

lemma wp_handlePanic [simp, wp_rules]: "wp (handlePanic e) Q vm"
  by (simp add: handlePanic_def)

lemma pres_handlePanic [pres_rules]: "pres I (handlePanic e)"
  by (simp add: pres_def)

lemma wp_leaveMonitor [simp, wp_rules]:
  "wp leaveMonitor Q vm = Q () (vm\<lparr>vm_hw := (vm_hw vm)\<lparr>hw_msr174 := vm_hostSysenterCS vm\<rparr>\<rparr>)"
  by (simp add: leaveMonitor_def)

lemma wp_monpanic_nomess [simp, wp_rules]: "wp (monpanic_nomess e) Q vm"
  by (simp add: monpanic_nomess_def CLI_def)

text \<open>The stores of the formatter stay inside the log buffer.\<close>

lemma vsnStores_fit: "0 < n \<Longrightarrow> length (vsnStores (nexusVsnprintf n fmt args)) \<le> n"
proof -
  assume "0 < n"
  then have "vfits n (nexusVsnprintf n fmt args)"
    unfolding nexusVsnprintf_def by (intro vfits_vsnLoop) simp
  then show ?thesis
    by (cases "nexusVsnprintf n fmt args") (auto simp: vsnStores_def)
qed

text \<open>
  \<open>print_frame I\<close>: \<open>I\<close> does not look at what a print request changes. Everything the monitor
  prints, and a panic, keep such a property, and never reach undefined behaviour.
\<close>

locale print_frame =
  fixes I :: "vm_t \<Rightarrow> bool"
  assumes fr_hw: "I (vm\<lparr>vm_hw := hw\<rparr>) = I vm"
    and fr_hostSysenterCS: "I (vm\<lparr>vm_hostSysenterCS := v\<rparr>) = I vm"
    and fr_userLogBuffer: "I (vm\<lparr>vm_userLogBuffer := ub\<rparr>) = I vm"
    and fr_monLogBuffer: "I (vm\<lparr>vm_monLogBuffer := mb\<rparr>) = I vm"
    and fr_monLogBufferInfo: "I (vm\<lparr>vm_monLogBufferInfo := li\<rparr>) = I vm"
    and fr_guest_cpu: "I (vm\<lparr>vm_guest_cpu := cpu\<rparr>) = I vm"
    and fr_phymem: "I (vm\<lparr>vm_phymem := mem\<rparr>) = I vm"
    and fr_mon_request: "I (vm\<lparr>vm_mon_request := r\<rparr>) = I vm"
begin

lemmas print_fr = fr_hw fr_hostSysenterCS fr_userLogBuffer fr_monLogBuffer fr_monLogBufferInfo
  fr_guest_cpu fr_phymem fr_mon_request

lemma mon2host_yield:
  "I vm \<Longrightarrow> vm_mon_request vm = MonReqFlushPrintBuf \<or> vm_mon_request vm = MonReqBogus \<Longrightarrow>
   wp (mon2host env) (\<lambda>_. I) vm"
  by (auto simp: mon2host_def hostServeRequest_def flushLogBuffer_def reportINTR_def userStep_def
      userPoll_def executeResume_def enterMonitor_def print_fr)

lemma toHostFlushPrintBuf_pres [pres_rules]: "pres I (toHostFlushPrintBuf env)"
proof (rule presI)
  fix vm assume I: "I vm"
  then have "I (vm\<lparr>vm_hw := h, vm_mon_request := r\<rparr>)" for h r by (simp add: print_fr)
  then show "wp (toHostFlushPrintBuf env) (\<lambda>_. I) vm"
    by (auto simp: toHostFlushPrintBuf_def toHost_def CLI_def STI_def print_fr
        intro!: wp_mono [OF mon2host_yield])
qed

lemma toHostBogus_pres [pres_rules]: "pres I (toHostBogus env)"
proof (rule presI)
  fix vm assume I: "I vm"
  then have "I (vm\<lparr>vm_hw := h, vm_mon_request := r\<rparr>)" for h r by (simp add: print_fr)
  then show "wp (toHostBogus env) (\<lambda>_. I) vm"
    by (auto simp: toHostBogus_def toHost_def CLI_def STI_def print_fr
        intro!: wp_mono [OF mon2host_yield])
qed

lemma resetPrintBuf_pres: "pres I resetPrintBuf"
  by (simp add: resetPrintBuf_def pres_def print_fr)

lemma setLocked_pres: "pres I (setLocked v)"
  by (simp add: setLocked_def pres_def print_fr)

lemma printFinish_pres: "pres I (printFinish env n)"
  unfolding printFinish_def
  by (intro pres_rules resetPrintBuf_pres setLocked_pres pres_modify) (simp add: print_fr)

lemma vsnprintfToLog_pres:
  "off + n \<le> LOG_BUFF_SIZE \<Longrightarrow> 0 < n \<Longrightarrow> pres I (vsnprintfToLog off n fmt args)"
  unfolding vsnprintfToLog_def Let_def using vsnStores_fit [of n fmt args]
  by (intro pres_rules pres_modify pres_inBounds) (simp_all add: print_fr)

lemma mon_vprint_pres [pres_rules]: "pres I (mon_vprint env fmt args)"
  unfolding mon_vprint_def Let_def
  by (intro pres_rules resetPrintBuf_pres setLocked_pres printFinish_pres vsnprintfToLog_pres
      pres_modify) (simp_all add: print_fr)

lemma monprint_pres [pres_rules]: "pres I (monprint env fmt args)"
  unfolding monprint_def by (intro pres_rules)

lemma monpanic_pres [pres_rules]: "pres I (monpanic env fmt args)"
  unfolding monpanic_def by (intro pres_rules presI) simp

lemma MonAssert_pres [pres_rules]: "pres I (MonAssert env b expr file line)"
  unfolding MonAssert_def by (intro pres_rules)

end

section \<open>Instances\<close>

text \<open>The part of the state no print touches.\<close>

definition print_core where
  "print_core vm =
     (vm_context vm, vm_gdt vm, vm_io vm, vm_system vm, vm_page_dir vm, vm_page_tbl vm,
      vm_page_tbl_laddr_map vm, vm_ptbl_laddr_map_i vm, vm_nexus_page_tbl vm, vm_guestPageInfo vm,
      vm_pinQueue vm, vm_nexus vm, vm_pages vm, vm_guestCPL vm, vm_veflags vm, vm_vmState vm)"

interpretation print_safe: print_frame "\<lambda>_. True"
  by unfold_locales simp_all

interpretation print_keeps: print_frame "\<lambda>vm. print_core vm = c"
  by unfold_locales (simp_all add: print_core_def)

lemma wp_monpanic [simp, wp_rules]: "wp (monpanic env fmt args) Q vm"
  unfolding monpanic_def wp_thn
  by (intro pres_wp_True [OF print_safe.toHostFlushPrintBuf_pres]
      pres_wp_True [OF print_safe.monprint_pres] pres_wp_True [OF print_safe.mon_vprint_pres]
      wp_monpanic_nomess)

lemma pres_monpanic [pres_rules]: "pres I (monpanic env fmt args)"
  by (simp add: pres_def)

lemma twp_monpanic_nomess [simp]: "twp (monpanic_nomess e) Q vm = False"
  by (simp add: monpanic_nomess_def CLI_def leaveMonitor_def handlePanic_def)

lemma twp_monpanic [simp]: "twp (monpanic env fmt args) Q vm = False"
proof -
  have "twp (monpanic_nomess fmt) Q = (\<lambda>_. False)" by (simp add: fun_eq_iff)
  then show ?thesis by (simp add: monpanic_def twp_fun)
qed

lemma wp_MonAssert [simp, wp_rules]: "wp (MonAssert env b e f l) Q vm = (b \<longrightarrow> Q () vm)"
  by (simp add: MonAssert_def)

lemma monprint_core: "wp (monprint env fmt args) (\<lambda>_ vm'. print_core vm' = print_core vm) vm"
  using print_keeps.monprint_pres [of "print_core vm"] by (simp add: pres_def)

text \<open>The host's answer to \<^verbatim>\<open>MonReqPanic\<close> leaves the state that \<open>monpanic_nomess\<close> leaves.\<close>

lemma mon2host_panic:
  "vm_mon_request vm = MonReqPanic \<Longrightarrow>
   \<exists>vm'. mon2host env vm = Panic ''ioctlExecute: case MonReqPanic.'' vm' \<and>
     thn leaveMonitor (handlePanic e) vm = (Panic e vm' :: (vm_t, 'a) outcome)"
  by (simp add: mon2host_def leaveMonitor_def hostServeRequest_def handlePanic_def)

section \<open>Printing delivers the text\<close>

definition canYield :: "henv \<Rightarrow> vm_t \<Rightarrow> bool" where
  "canYield env vm \<longleftrightarrow> vm_vmState vm = VMStateReady \<and> bit (he_hostEflags env) 9"

lemma toHostFlushPrintBuf_twp:
  assumes "canYield env vm"
  shows "twp (toHostFlushPrintBuf env) (\<lambda>_ vm'.
     vm_monLogBufferInfo vm' = vm_monLogBufferInfo vm \<and> vm_vmState vm' = vm_vmState vm \<and>
     (unat (li_offset (vm_monLogBufferInfo vm)) < 4096 \<longrightarrow>
       vm_userLogBuffer vm' =
         (nexusMemCpy (vm_userLogBuffer vm) 0 (vm_monLogBuffer vm) 0 (unat (li_offset (vm_monLogBufferInfo vm))))
           (unat (li_offset (vm_monLogBufferInfo vm)) := char_of (0 :: nat)))) vm"
  using assms
  by (simp add: canYield_def toHostFlushPrintBuf_def toHost_def CLI_def STI_def mon2host_def
      leaveMonitor_def hostServeRequest_def flushLogBuffer_def reportINTR_def userStep_def
      userPoll_def executeResume_def enterMonitor_def)

lemma nexusVsnprintf_count:
  assumes "nexusVsnprintf n fmt args = VOk out k" "0 < n"
  shows "length out \<le> k" "k < n"
proof -
  have "vfits n (nexusVsnprintf n fmt args)"
    unfolding nexusVsnprintf_def using assms(2) by (intro vfits_vsnLoop) simp
  then show "length out \<le> k" "k < n" using assms(1) by auto
qed

lemma mon_vprint_delivers:
  assumes "canYield env vm" "li_locked (vm_monLogBufferInfo vm) = 0"
    "li_offset (vm_monLogBufferInfo vm) = 0" "nexusVsnprintf LOG_BUFF_SIZE fmt args = VOk out n"
  shows "twp (mon_vprint env fmt args) (\<lambda>k vm'. k = n \<and>
     li_locked (vm_monLogBufferInfo vm') = 0 \<and> li_offset (vm_monLogBufferInfo vm') = 0 \<and>
     (\<forall>i < length out. vm_userLogBuffer vm' i = out ! i) \<and>
     vm_userLogBuffer vm' (length out) = char_of (0 :: nat)) vm"
proof -
  have len: "length out \<le> n" "n < 4096"
    using nexusVsnprintf_count [OF assms(4)] by auto
  have n: "unat (word_of_nat n :: Bit32u) = n"
    using len by (simp add: unat_of_nat)
  show ?thesis
    using assms len n
    by (auto simp: mon_vprint_def setLocked_def vsnprintfToLog_def vsnStores_def
        printFinish_def Let_def resetPrintBuf_def canYield_def nexusMemCpy_apply bufPuts_def nth_append
        intro!: twp_mono [OF toHostFlushPrintBuf_twp])
qed

text \<open>A request that does not fit in the whole buffer leaves the lock taken, and a taken lock makes
  every later print a no-op.\<close>

lemma mon_vprint_oversized:
  assumes "canYield env vm" "li_locked (vm_monLogBufferInfo vm) = 0"
    "li_offset (vm_monLogBufferInfo vm) = 0" "nexusVsnprintf LOG_BUFF_SIZE fmt args = VErr out"
  shows "twp (mon_vprint env fmt args) (\<lambda>k vm'. k = 0 \<and> li_locked (vm_monLogBufferInfo vm') = 1) vm"
  using assms vsnStores_fit [of LOG_BUFF_SIZE fmt args]
  by (auto simp: mon_vprint_def setLocked_def vsnprintfToLog_def Let_def resetPrintBuf_def canYield_def
      intro!: twp_mono [OF toHostFlushPrintBuf_twp])

lemma mon_vprint_locked:
  "li_locked (vm_monLogBufferInfo vm) \<noteq> 0 \<Longrightarrow> mon_vprint env fmt args vm = Ret 0 vm"
  by (simp add: mon_vprint_def)

end
