(* ===== verification/Mon_Paging.thy ===== *)
theory Mon_Paging
  imports Mon_Host
begin

text \<open>
  Shadow paging, \<^verbatim>\<open>monitor-space/paging.c\<close>: windows into guest physical memory
  (\<^verbatim>\<open>open_guest_phy_page\<close>), the heap of page tables (\<^verbatim>\<open>getFreePageTable\<close>, \<^verbatim>\<open>getMonPTi\<close>),
  \<^verbatim>\<open>mapGuestLinAddr\<close>, \<^verbatim>\<open>invalidateGuestLinAddr\<close> and \<^verbatim>\<open>monInitShadowPaging\<close>.

  A window is one page of the monitor's own address range; opening it rewrites the base of its entry
  in \<^verbatim>\<open>nexus_page_tbl\<close>, and an access through the window goes to the physical page of that entry.
  The invariant \<open>shadow_inv\<close> is what keeps the guest inside its memory: every entry the processor can
  reach through the page directory, outside the monitor's own range, points to a page of the guest
  that the host has pinned.
\<close>

section \<open>Pinned pages and windows\<close>

definition getHostOSPinnedPage :: "henv \<Rightarrow> Bit32u \<Rightarrow> Bit32u mon" where
  "getHostOSPinnedPage env guestPPI =
     bnd (gets (\<lambda>vm. pg_guest_n_pages (vm_pages vm))) (\<lambda>n.
     thn (MonAssert env (guestPPI < n) ''guestPPI < vm->pages.guest_n_pages'' ''paging.c'' 89)
     (bnd (pageInfo guestPPI) (\<lambda>p.
      if pp_pinned p then ret (pp_hostPPI p)
      else
        thn (toHostPinUserPage env guestPPI)
        (bnd (pageInfo guestPPI) (\<lambda>p'.
         thn (MonAssert env (pp_pinned p')
               ''vm->guest.addr.guestPageInfo[guestPPI].attr.fields.pinned'' ''paging.c'' 102)
         (ret (pp_hostPPI p')))))))"

definition getPageUsage :: "henv \<Rightarrow> Bit32u \<Rightarrow> phyPageInfo_t mon" where
  "getPageUsage env ppi =
     bnd (gets (\<lambda>vm. pg_guest_n_pages (vm_pages vm))) (\<lambda>n.
     thn (MonAssert env (ppi < n) ''ppi < vm->pages.guest_n_pages'' ''paging.c'' 189)
     (pageInfo ppi))"

definition window_pti :: "henv \<Rightarrow> Bit32u \<Rightarrow> nat" where
  "window_pti env mon_offset = unat (drop_bit 12 (mon_offset - he_startOffsetPageAligned env) AND 0x3ff)"

definition open_guest_phy_page :: "henv \<Rightarrow> Bit32u \<Rightarrow> Bit32u \<Rightarrow> Bit32u mon" where
  "open_guest_phy_page env ppi mon_offset =
     bnd (gets (\<lambda>vm. pg_guest_n_pages (vm_pages vm))) (\<lambda>n.
     thn (MonAssert env (ppi < n) ''ppi < vm->pages.guest_n_pages'' ''paging.c'' 202)
     (let pti = window_pti env mon_offset in
      bnd (getHostOSPinnedPage env ppi) (\<lambda>hostPPI.
      thn (modify (\<lambda>vm. vm\<lparr>vm_nexus_page_tbl :=
             (vm_nexus_page_tbl vm)(pti := pe_set_base hostPPI (vm_nexus_page_tbl vm pti))\<rparr>))
      (thn (invlpg_mon_offset mon_offset)
      (ret mon_offset)))))"

definition close_guest_phy_page :: "Bit32u \<Rightarrow> unit mon" where
  "close_guest_phy_page ppi = ret ()"

text \<open>The physical address of byte \<open>off\<close> of the window at \<open>mon_offset\<close>, and the accesses through
  it.\<close>

definition window_addr :: "henv \<Rightarrow> vm_t \<Rightarrow> Bit32u \<Rightarrow> nat \<Rightarrow> Bit32u" where
  "window_addr env vm mon_offset off =
     push_bit 12 (pe_base (vm_nexus_page_tbl vm (window_pti env mon_offset))) OR of_nat off"

definition win_read8 :: "henv \<Rightarrow> Bit32u \<Rightarrow> nat \<Rightarrow> Bit8u mon" where
  "win_read8 env mon_offset off =
     thn (inBounds ''guest page window'' (off < 4096))
     (gets (\<lambda>vm. vm_phymem vm (window_addr env vm mon_offset off)))"

definition win_write8 :: "henv \<Rightarrow> Bit32u \<Rightarrow> nat \<Rightarrow> Bit8u \<Rightarrow> unit mon" where
  "win_write8 env mon_offset off v =
     thn (inBounds ''guest page window'' (off < 4096))
     (modify (\<lambda>vm. vm\<lparr>vm_phymem := (vm_phymem vm)(window_addr env vm mon_offset off := v)\<rparr>))"

definition win_read32 :: "henv \<Rightarrow> Bit32u \<Rightarrow> nat \<Rightarrow> Bit32u mon" where
  "win_read32 env mon_offset off =
     bnd (win_read8 env mon_offset off) (\<lambda>b0.
     bnd (win_read8 env mon_offset (off + 1)) (\<lambda>b1.
     bnd (win_read8 env mon_offset (off + 2)) (\<lambda>b2.
     bnd (win_read8 env mon_offset (off + 3)) (\<lambda>b3.
     ret (ucast b0 OR push_bit 8 (ucast b1) OR push_bit 16 (ucast b2) OR push_bit 24 (ucast b3))))))"

definition win_write32 :: "henv \<Rightarrow> Bit32u \<Rightarrow> nat \<Rightarrow> Bit32u \<Rightarrow> unit mon" where
  "win_write32 env mon_offset off v =
     thn (win_write8 env mon_offset off (ucast v))
     (thn (win_write8 env mon_offset (off + 1) (ucast (drop_bit 8 v)))
     (thn (win_write8 env mon_offset (off + 2) (ucast (drop_bit 16 v)))
     (win_write8 env mon_offset (off + 3) (ucast (drop_bit 24 v)))))"

section \<open>The page tables of the monitor\<close>

definition laddrMap :: "nat \<Rightarrow> Bit32u mon" where
  "laddrMap pdi =
     thn (inBounds ''page_tbl_laddr_map'' (pdi < 1024)) (gets (\<lambda>vm. vm_page_tbl_laddr_map vm pdi))"

definition getFreePageTable :: "henv \<Rightarrow> nat \<Rightarrow> nat mon" where
  "getFreePageTable env pdi =
     bnd (gets vm_ptbl_laddr_map_i) (\<lambda>availIndex.
     if unat availIndex \<ge> MON_PAGE_TABLES then monpanic env ''getFreePageTable: out of page tables\<newline>'' []
     else
       bnd (laddrMap pdi) (\<lambda>m.
       if m \<noteq> - 1 then
         monpanic env ''getFreePageTable: check failed,   pdi=0x%x, laddr_map=0x%x\<newline>''
           [ArgU (of_nat pdi), ArgU m]
       else
         thn (modify (\<lambda>vm. vm\<lparr>
                vm_page_tbl_laddr_map := (vm_page_tbl_laddr_map vm)(pdi := vm_ptbl_laddr_map_i vm),
                vm_ptbl_laddr_map_i := vm_ptbl_laddr_map_i vm + 1\<rparr>))
         (thn (modify (\<lambda>vm. vm\<lparr>vm_page_tbl := (vm_page_tbl vm)(unat availIndex :=
                 nexusMemZero (vm_page_tbl vm (unat availIndex)) 0 1024)\<rparr>))
         (ret (unat availIndex)))))"

definition getMonPTi :: "henv \<Rightarrow> nat \<Rightarrow> Bit32u \<Rightarrow> nat mon" where
  "getMonPTi env pdi source =
     bnd (laddrMap pdi) (\<lambda>map_i.
     if map_i = - 1 then
       monpanic env ''getMonPTi: check failed, pdi=0x%x, map_i=0x%x, source=%u\<newline>''
         [ArgU (of_nat pdi), ArgU map_i, ArgU source]
     else if unat map_i \<ge> MON_PAGE_TABLES then monpanic env ''getMonPTi: map_i OOB\<newline>'' []
     else ret (unat map_i))"

definition monPDE :: "nat \<Rightarrow> pageEntry_t mon" where
  "monPDE pdi = thn (inBounds ''page_dir'' (pdi < 1024)) (gets (\<lambda>vm. vm_page_dir vm pdi))"

definition setMonPDE :: "nat \<Rightarrow> pageEntry_t \<Rightarrow> unit mon" where
  "setMonPDE pdi e =
     thn (inBounds ''page_dir'' (pdi < 1024))
     (modify (\<lambda>vm. vm\<lparr>vm_page_dir := (vm_page_dir vm)(pdi := e)\<rparr>))"

definition monPTE :: "nat \<Rightarrow> nat \<Rightarrow> pageEntry_t mon" where
  "monPTE pt_index pti =
     thn (inBounds ''page_tbl'' (pt_index < MON_PAGE_TABLES \<and> pti < 1024))
     (gets (\<lambda>vm. vm_page_tbl vm pt_index pti))"

definition setMonPTE :: "nat \<Rightarrow> nat \<Rightarrow> pageEntry_t \<Rightarrow> unit mon" where
  "setMonPTE pt_index pti e =
     thn (inBounds ''page_tbl'' (pt_index < MON_PAGE_TABLES \<and> pti < 1024))
     (modify (\<lambda>vm. vm\<lparr>vm_page_tbl := (vm_page_tbl vm)(pt_index := (vm_page_tbl vm pt_index)(pti := e))\<rparr>))"

definition lin_pdi :: "Bit32u \<Rightarrow> nat" where
  "lin_pdi laddr = unat (drop_bit 22 laddr)"

definition lin_pti :: "Bit32u \<Rightarrow> nat" where
  "lin_pti laddr = unat (drop_bit 12 laddr AND 0x3ff)"

definition cr0_pg :: "guest_cpu_t \<Rightarrow> bool" where "cr0_pg c = bit (cpu_cr0 c) 31"
definition cr0_wp :: "guest_cpu_t \<Rightarrow> bool" where "cr0_wp c = bit (cpu_cr0 c) 16"

definition clearShadowPTE :: "henv \<Rightarrow> nat \<Rightarrow> nat \<Rightarrow> unit mon" where
  "clearShadowPTE env pdi pti =
     bnd (getMonPTi env pdi 12) (\<lambda>pt_index.
     bnd (monPTE pt_index pti) (\<lambda>pte.
     whenM (pe_P pte) (setMonPTE pt_index pti 0)))"

definition invalidateGuestLinAddr :: "henv \<Rightarrow> Bit32u \<Rightarrow> unit mon" where
  "invalidateGuestLinAddr env guestLinAddr =
     bnd (gets (\<lambda>vm. cr0_pg (vm_guest_cpu vm))) (\<lambda>pg.
     if \<not> pg then monpanic env ''invGuestLinAddr: CR0.pg=0?\<newline>'' []
     else
       (let pdi = lin_pdi guestLinAddr; pti = lin_pti guestLinAddr in
        thn
          (bnd (monPDE pdi) (\<lambda>pde.
           whenM (pe_P pde)
             (bnd (gets vm_mon_pde_mask) (\<lambda>mask.
              if guestLinAddr AND 0xffc00000 = mask then
                monpanic env ''invGuestLinAddr: address(0x%x) conflicts with monitor.\<newline>'' [ArgU guestLinAddr]
              else clearShadowPTE env pdi pti))))
          (bnd (gets (\<lambda>vm. Guest2Monitor vm guestLinAddr)) invlpg_mon_offset)))"

definition monInitShadowPaging :: "henv \<Rightarrow> unit mon" where
  "monInitShadowPaging env =
     thn (modify (\<lambda>vm. vm\<lparr>vm_ptbl_laddr_map_i := 0\<rparr>))
     (thn (forM [0..<1024] (\<lambda>pdi.
        thn (modify (\<lambda>vm. vm\<lparr>vm_page_tbl_laddr_map := (vm_page_tbl_laddr_map vm)(pdi := - 1)\<rparr>))
        (bnd (gets vm_mon_pdi) (\<lambda>mon_pdi.
         whenM (pdi \<noteq> unat mon_pdi)
           (modify (\<lambda>vm. vm\<lparr>vm_page_dir := (vm_page_dir vm)(pdi := 0)\<rparr>))))))
     (thn (bnd (vm_rdtsc env) (\<lambda>t. modify (\<lambda>vm. vm\<lparr>vm_vpaging_tsc := t\<rparr>)))
     (bnd (gets (\<lambda>vm. nx_mon_cr3 (vm_nexus vm))) loadCR3)))"

section \<open>Mapping a guest page\<close>

datatype mapLin = MapLinOK | MapLinMonConflict | MapLinAlreadyMapped | MapLinPPageOOB
  | MapLinException | MapLinEmulate

text \<open>The walk through the guest's own tables (\<open>CR0.PG = 1\<close>): the two entries with the accessed
  and dirty bits the processor would set, or the low bits of the fault's error code.\<close>

definition tmp_phy_page0 :: "vm_t \<Rightarrow> Bit32u" where "tmp_phy_page0 vm = ad_tmp_phy_page0 (vm_guest_addr vm)"
definition tmp_phy_page1 :: "vm_t \<Rightarrow> Bit32u" where "tmp_phy_page1 vm = ad_tmp_phy_page1 (vm_guest_addr vm)"

definition setA :: "pageEntry_t \<Rightarrow> pageEntry_t" where "setA e = e OR 0x20"
definition setD :: "pageEntry_t \<Rightarrow> pageEntry_t" where "setD e = e OR 0x40"

definition accessDenied :: "bool \<Rightarrow> bool \<Rightarrow> bool \<Rightarrow> pageEntry_t \<Rightarrow> bool" where
  "accessDenied cr0wp req_us req_rw e \<longleftrightarrow>
     (req_us \<and> \<not> pe_US e) \<or> (req_rw \<and> \<not> pe_RW e \<and> (cr0wp \<or> req_us))"

definition guestPTEWalk ::
  "henv \<Rightarrow> Bit32u \<Rightarrow> bool \<Rightarrow> bool \<Rightarrow> pageEntry_t \<Rightarrow> Bit32u \<Rightarrow> (Bit32u + pageEntry_t \<times> pageEntry_t) mon" where
  "guestPTEWalk env guest_laddr req_us req_rw guestPDE page0 =
     (let pdi = lin_pdi guest_laddr; pti = lin_pti guest_laddr; ptbl_ppi = pe_base guestPDE in
      bnd (gets (\<lambda>vm. pg_guest_n_pages (vm_pages vm))) (\<lambda>n.
      if ptbl_ppi \<ge> n then monpanic env ''mapGuestLinAddr: PG=1 guest PTE OOB\<newline>'' []
      else
        bnd (gets tmp_phy_page1) (\<lambda>mo1.
        bnd (open_guest_phy_page env ptbl_ppi mo1) (\<lambda>page1.
        bnd (win_read32 env page1 (4 * pti)) (\<lambda>guestPTE.
        bnd (gets (\<lambda>vm. cr0_wp (vm_guest_cpu vm))) (\<lambda>cr0wp.
        bnd (gets (\<lambda>vm. ci_family (vm_guestCPUIDInfo vm))) (\<lambda>family.
        if \<not> pe_P guestPTE then ret (Inl 0)
        else if accessDenied cr0wp req_us req_rw guestPDE then ret (Inl 1)
        else if accessDenied cr0wp req_us req_rw guestPTE then ret (Inl 1)
        else
          (let guestPDE' = (if family \<ge> 6 \<and> \<not> pe_A guestPDE then setA guestPDE else guestPDE);
               guestPTE' =
                 (if \<not> pe_A guestPTE \<or> req_rw \<and> \<not> pe_D guestPTE
                  then (if req_rw then setD (setA guestPTE) else setA guestPTE) else guestPTE)
           in
           thn (whenM (family \<ge> 6 \<and> \<not> pe_A guestPDE) (win_write32 env page0 (4 * pdi) guestPDE'))
           (thn (whenM (\<not> pe_A guestPTE \<or> req_rw \<and> \<not> pe_D guestPTE) (win_write32 env page1 (4 * pti) guestPTE'))
           (ret (Inr (guestPDE', guestPTE'))))))))))))"

definition guestWalk ::
  "henv \<Rightarrow> Bit32u \<Rightarrow> bool \<Rightarrow> bool \<Rightarrow> (Bit32u + pageEntry_t \<times> pageEntry_t) mon" where
  "guestWalk env guest_laddr req_us req_rw =
     bnd (gets (\<lambda>vm. (drop_bit 12 (cpu_cr3 (vm_guest_cpu vm)), pg_guest_n_pages (vm_pages vm))))
       (\<lambda>(guest_pdir_page_index, n).
     if guest_pdir_page_index \<ge> n then monpanic env ''mapGuestLinAddr: PG=1 guest PDE OOB\<newline>'' []
     else
       bnd (gets tmp_phy_page0) (\<lambda>mo0.
       bnd (open_guest_phy_page env guest_pdir_page_index mo0) (\<lambda>page0.
       bnd (win_read32 env page0 (4 * lin_pdi guest_laddr)) (\<lambda>guestPDE.
       if \<not> pe_P guestPDE then ret (Inl 0)
       else
         bnd (gets (\<lambda>vm. ci_family (vm_guestCPUIDInfo vm))) (\<lambda>family.
         (let early = family < 6 \<and> \<not> pe_A guestPDE;
              guestPDE' = (if early then setA guestPDE else guestPDE)
          in
          thn (whenM early (win_write32 env page0 (4 * lin_pdi guest_laddr) guestPDE'))
          (guestPTEWalk env guest_laddr req_us req_rw guestPDE' page0)))))))"

text \<open>The permissions of the shadow entry.\<close>

definition shadowPerms :: "Bit32u \<Rightarrow> bool \<Rightarrow> pageEntry_t \<Rightarrow> bool \<times> bool" where
  "shadowPerms guestCPL cr0wp e =
     (if guestCPL = 3 then (pe_US e, pe_RW e)
      else if \<not> cr0wp then (True, True)
      else (True, pe_RW e))"

text \<open>The monitor's page directory entry for the address: allocated lazily. \<open>None\<close> when the address
  is in the monitor's range. With guest paging, \<open>guestPDE\<close> is the guest's own entry.\<close>

definition shadowPDEntry :: "vm_t \<Rightarrow> pageEntry_t option \<Rightarrow> nat \<Rightarrow> pageEntry_t" where
  "shadowPDEntry vm guestPDE pt_index =
     (let ptbl = pg_page_tbl (vm_pages vm) pt_index in
      case guestPDE of
        Some e \<Rightarrow>
          (let (us, rw) = shadowPerms (vm_guestCPL vm) (cr0_wp (vm_guest_cpu vm)) e in
           push_bit 12 ptbl OR (e AND 0x60) OR push_bit 2 (flag us) OR push_bit 1 (flag rw) OR 1)
      | None \<Rightarrow> push_bit 12 ptbl OR 0x7)"

definition shadowPDE :: "henv \<Rightarrow> Bit32u \<Rightarrow> pageEntry_t option \<Rightarrow> nat option mon" where
  "shadowPDE env guest_laddr guestPDE =
     (let pdi = lin_pdi guest_laddr in
      bnd (monPDE pdi) (\<lambda>pde.
      if \<not> pe_P pde then
        thn (case guestPDE of
               None \<Rightarrow> ret ()
             | Some e \<Rightarrow>
                 bnd (getPageUsage env (pe_base e)) (\<lambda>pde_pusage.
                 if pp_attr pde_pusage AND PageBadUsage4PTbl \<noteq> 0 then monpanic env ''PDE->PDir hack.\<newline>'' []
                 else ret ()))
        (bnd (getFreePageTable env pdi) (\<lambda>pt_index.
         bnd (gets (\<lambda>vm. shadowPDEntry vm guestPDE pt_index)) (\<lambda>e.
         thn (setMonPDE pdi e) (ret (Some pt_index)))))
      else
        bnd (gets vm_mon_pde_mask) (\<lambda>mask.
        if guest_laddr AND 0xffc00000 = mask then ret None
        else bnd (getMonPTi env pdi 12) (\<lambda>pt_index. ret (Some pt_index)))))"

text \<open>The page table entry, with the guest's accessed and dirty bits.\<close>

definition shadowPTEntry :: "Bit32u \<Rightarrow> Bit32u \<Rightarrow> bool \<Rightarrow> pageEntry_t" where
  "shadowPTEntry hostPPI ad rw = push_bit 12 hostPPI OR ad OR 0x5 OR push_bit 1 (flag rw)"

definition shadowPTE ::
  "henv \<Rightarrow> Bit32u \<Rightarrow> Bit32u \<Rightarrow> bool \<Rightarrow> phyPageInfo_t \<Rightarrow> pageEntry_t option \<Rightarrow> nat \<Rightarrow> mapLin mon" where
  "shadowPTE env guest_laddr guest_ppi req_rw pusage guestPTE pt_index =
     (let pti = lin_pti guest_laddr in
      bnd (monPTE pt_index pti) (\<lambda>pte.
      if pe_P pte then ret MapLinAlreadyMapped
      else
        bnd (gets (\<lambda>vm. case guestPTE of None \<Rightarrow> True
                         | Some e \<Rightarrow> snd (shadowPerms (vm_guestCPL vm) (cr0_wp (vm_guest_cpu vm)) e))) (\<lambda>rw.
        if pp_RO pusage \<and> req_rw then ret MapLinEmulate
        else if \<not> pp_RO pusage \<and> pp_memMapIO pusage then ret MapLinEmulate
        else
          (let rw' = (if pp_RO pusage then False else rw);
               ad = (case guestPTE of None \<Rightarrow> 0 | Some e \<Rightarrow> e AND 0x60)
           in
           bnd (getHostOSPinnedPage env guest_ppi) (\<lambda>hostPPI.
           thn (setMonPTE pt_index pti (shadowPTEntry hostPPI ad rw'))
           (thn (bnd (gets (\<lambda>vm. Guest2Monitor vm guest_laddr)) invlpg_mon_offset)
           (ret MapLinOK)))))))"

text \<open>The result, the guest physical page and the error code (0 where the code leaves them alone).\<close>

definition mapGuestLinAddr ::
  "henv \<Rightarrow> Bit32u \<Rightarrow> bool \<Rightarrow> bool \<Rightarrow> (mapLin \<times> Bit32u \<times> Bit32u) mon" where
  "mapGuestLinAddr env guest_laddr req_us req_rw =
     bnd (gets (\<lambda>vm. cr0_pg (vm_guest_cpu vm))) (\<lambda>pg.
     bnd (if pg then bnd (guestWalk env guest_laddr req_us req_rw) (\<lambda>w. ret (map_sum id Some w))
          else ret (Inr None)) (\<lambda>walk.
     case walk of
       Inl err \<Rightarrow>
         ret (MapLinException, 0, err OR push_bit 2 (flag req_us) OR push_bit 1 (flag req_rw))
     | Inr entries \<Rightarrow>
         (let guest_ppi = (case entries of Some (pde, pte) \<Rightarrow> pe_base pte | None \<Rightarrow> drop_bit 12 guest_laddr) in
          bnd (gets (\<lambda>vm. pg_guest_n_pages (vm_pages vm))) (\<lambda>n.
          if guest_ppi \<ge> n then ret (MapLinPPageOOB, guest_ppi, 0)
          else
            bnd (getPageUsage env guest_ppi) (\<lambda>pusage.
            bnd (shadowPDE env guest_laddr (map_option fst entries)) (\<lambda>pt.
            case pt of
              None \<Rightarrow> ret (MapLinMonConflict, guest_ppi, 0)
            | Some pt_index \<Rightarrow>
                bnd (shadowPTE env guest_laddr guest_ppi req_rw pusage (map_option snd entries) pt_index)
                  (\<lambda>r. ret (r, guest_ppi, 0))))))))"

section \<open>Accesses through a window\<close>

lemma window_pti_bound [simp]: "window_pti env a < 1024"
  by (simp add: window_pti_def)

lemma lin_bounds [simp]: "lin_pdi a < 1024" "lin_pti a < 1024"
  by (simp_all add: lin_pdi_def lin_pti_def)

lemma lin_offset_bounds [simp]: "4 * lin_pdi a < 4093" "4 * lin_pti a < 4093"
  using lin_bounds [of a] by linarith+

lemma pres_win_read8: "off < 4096 \<Longrightarrow> pres I (win_read8 env mo off)"
  unfolding win_read8_def by (intro pres_rules pres_inBounds)

lemma pres_win_read32: "off < 4093 \<Longrightarrow> pres I (win_read32 env mo off)"
  unfolding win_read32_def by (intro pres_rules pres_win_read8) simp_all

context print_frame
begin

lemma win_write8_pres: "off < 4096 \<Longrightarrow> pres I (win_write8 env mo off v)"
  unfolding win_write8_def by (intro pres_rules pres_inBounds pres_modify) (simp_all add: print_fr)

lemma win_write32_pres: "off < 4093 \<Longrightarrow> pres I (win_write32 env mo off v)"
  unfolding win_write32_def by (intro pres_rules win_write8_pres) simp_all

lemma invlpg_pres [pres_rules]: "pres I (invlpg_mon_offset a)"
  by (simp add: invlpg_mon_offset_def pres_def print_fr)

end

section \<open>The shadow invariant\<close>

text \<open>An entry that maps a page of the guest, pinned by the host, with no more rights than the
  page's attributes allow.\<close>

definition guestPageEntry :: "vm_t \<Rightarrow> pageEntry_t \<Rightarrow> bool" where
  "guestPageEntry vm e \<longleftrightarrow>
     (\<exists>ppi < pg_guest_n_pages (vm_pages vm). (let p = vm_guestPageInfo vm (unat ppi) in
        pp_pinned p \<and> pe_base e = take_bit 20 (pp_hostPPI p) \<and>
        (pp_RO p \<longrightarrow> \<not> pe_RW e) \<and> (\<not> pp_RO p \<longrightarrow> \<not> pp_memMapIO p)))"

text \<open>The tables below one directory entry.\<close>

definition pdeOK :: "vm_t \<Rightarrow> nat \<Rightarrow> bool" where
  "pdeOK vm pdi \<longleftrightarrow>
     (let i = vm_page_tbl_laddr_map vm pdi in
      i < vm_ptbl_laddr_map_i vm \<and>
      pe_base (vm_page_dir vm pdi) = take_bit 20 (pg_page_tbl (vm_pages vm) (unat i)) \<and>
      (\<forall>pti < 1024. pe_P (vm_page_tbl vm (unat i) pti) \<longrightarrow> guestPageEntry vm (vm_page_tbl vm (unat i) pti)))"

definition shadow_wf :: "vm_t \<Rightarrow> bool" where
  "shadow_wf vm \<longleftrightarrow>
     unat (vm_mon_pdi vm) < 1024 \<and> vm_mon_pde_mask vm = push_bit 22 (vm_mon_pdi vm) \<and>
     pe_P (vm_page_dir vm (unat (vm_mon_pdi vm))) \<and>
     unat (vm_ptbl_laddr_map_i vm) \<le> MON_PAGE_TABLES \<and>
     (\<forall>pdi < 1024. vm_page_tbl_laddr_map vm pdi \<noteq> - 1 \<longrightarrow>
        vm_page_tbl_laddr_map vm pdi < vm_ptbl_laddr_map_i vm) \<and>
     (\<forall>pdi < 1024. \<forall>pdi' < 1024. vm_page_tbl_laddr_map vm pdi \<noteq> - 1 \<longrightarrow>
        vm_page_tbl_laddr_map vm pdi = vm_page_tbl_laddr_map vm pdi' \<longrightarrow> pdi = pdi') \<and>
     (\<forall>pdi < 1024. pdi \<noteq> unat (vm_mon_pdi vm) \<longrightarrow> pe_P (vm_page_dir vm pdi) \<longrightarrow> pdeOK vm pdi)"

definition shadow_inv :: "vm_t \<Rightarrow> bool" where
  "shadow_inv vm \<longleftrightarrow> pin_inv vm \<and> shadow_wf vm"

interpretation shadow_print: print_frame shadow_inv
  by unfold_locales
    (simp_all add: shadow_inv_def pin_inv_def shadow_wf_def pdeOK_def guestPageEntry_def)

text \<open>A page that was not pinned is named by no entry, so pinning it keeps every entry good.\<close>

lemma guestPageEntry_pin:
  assumes "guestPageEntry vm e" "\<not> pp_pinned (vm_guestPageInfo vm (unat req))"
    "vm_pages vm' = vm_pages vm"
    "\<And>i. i \<noteq> unat req \<Longrightarrow> vm_guestPageInfo vm' i = vm_guestPageInfo vm i"
  shows "guestPageEntry vm' e"
  using assms unfolding guestPageEntry_def Let_def by (metis)

lemma shadow_wf_pin:
  assumes wf: "shadow_wf vm" and np: "\<not> pp_pinned (vm_guestPageInfo vm (unat req))"
    and same: "vm_pages vm' = vm_pages vm" "vm_page_dir vm' = vm_page_dir vm" "vm_page_tbl vm' = vm_page_tbl vm"
      "vm_page_tbl_laddr_map vm' = vm_page_tbl_laddr_map vm" "vm_ptbl_laddr_map_i vm' = vm_ptbl_laddr_map_i vm"
      "vm_mon_pdi vm' = vm_mon_pdi vm" "vm_mon_pde_mask vm' = vm_mon_pde_mask vm"
    and info: "\<And>i. i \<noteq> unat req \<Longrightarrow> vm_guestPageInfo vm' i = vm_guestPageInfo vm i"
  shows "shadow_wf vm'"
proof -
  have "pdeOK vm' pdi" if "pdeOK vm pdi" for pdi
    using that guestPageEntry_pin [OF _ np same(1) info] by (auto simp: pdeOK_def Let_def same)
  then show ?thesis
    using wf by (auto simp: shadow_wf_def same)
qed

text \<open>After a reset no directory entry of the guest is left.\<close>

lemma shadow_wf_reset:
  assumes "unat (vm_mon_pdi vm) < 1024" "vm_mon_pde_mask vm = push_bit 22 (vm_mon_pdi vm)"
    "pe_P (vm_page_dir vm (unat (vm_mon_pdi vm)))" "vm_ptbl_laddr_map_i vm = 0"
    "\<And>i. i < 1024 \<Longrightarrow> vm_page_tbl_laddr_map vm i = - 1"
    "\<And>i. i < 1024 \<Longrightarrow> i \<noteq> unat (vm_mon_pdi vm) \<Longrightarrow> vm_page_dir vm i = 0"
  shows "shadow_wf vm"
  using assms by (auto simp: shadow_wf_def pe_P_def)

section \<open>Pinning keeps the invariant\<close>

text \<open>What a pin request leaves alone: the attributes of the pages that \<^verbatim>\<open>mapGuestLinAddr\<close> looks
  at, the pages of the machine, the processor state.\<close>

definition same_attrs :: "vm_t \<Rightarrow> vm_t \<Rightarrow> bool" where
  "same_attrs vm vm' \<longleftrightarrow>
     (\<forall>i. pp_RO (vm_guestPageInfo vm' i) = pp_RO (vm_guestPageInfo vm i) \<and>
          pp_memMapIO (vm_guestPageInfo vm' i) = pp_memMapIO (vm_guestPageInfo vm i)) \<and>
     vm_pages vm' = vm_pages vm \<and> vm_mon_pdi vm' = vm_mon_pdi vm \<and>
     vm_page_dir vm' (unat (vm_mon_pdi vm)) = vm_page_dir vm (unat (vm_mon_pdi vm)) \<and>
     vm_context vm' = vm_context vm \<and> vm_guestCPL vm' = vm_guestCPL vm \<and>
     vm_linuxVMMode vm' = vm_linuxVMMode vm \<and> vm_nexus vm' = vm_nexus vm"

lemma same_attrs_refl [simp]: "same_attrs vm vm"
  by (simp add: same_attrs_def)

lemma same_attrs_trans: "same_attrs a b \<Longrightarrow> same_attrs b c \<Longrightarrow> same_attrs a c"
  by (simp add: same_attrs_def)

lemma hostHandlePagePinRequest_shadow:
  assumes inv: "shadow_inv vm" and req: "req < pg_guest_n_pages (vm_pages vm)"
    and np: "\<not> pp_pinned (vm_guestPageInfo vm (unat req))"
  shows "wp (hostHandlePagePinRequest env req) (\<lambda>ok vm'. ok \<longrightarrow> shadow_wf vm' \<and> same_attrs vm vm') vm"
proof (cases "pinQ_full (vm_pinQueue vm)")
  case True
  have mon: "unat (vm_mon_pdi vm) < 1024" "vm_mon_pde_mask vm = push_bit 22 (vm_mon_pdi vm)"
    "pe_P (vm_page_dir vm (unat (vm_mon_pdi vm)))" and pin: "pin_inv vm"
    using inv by (auto simp: shadow_inv_def shadow_wf_def)
  show ?thesis
    using True req pin_inv_slot [OF pin] pin_inv_oldest [OF pin True] mon
    by (auto simp: hostHandlePagePinRequest_def hostEvictPinnedPage_def hostOSUnpinUserPage_def
        hostOSGetAndPinUserPage_def updPageInfo_def same_attrs_def shadowReset_def
        split: option.splits intro!: shadow_wf_reset)
next
  case False
  have wf: "shadow_wf vm" and pin: "pin_inv vm"
    using inv by (auto simp: shadow_inv_def)
  show ?thesis
    using False req pin_inv_slot [OF pin]
    by (auto simp: hostHandlePagePinRequest_def hostOSGetAndPinUserPage_def updPageInfo_def
        same_attrs_def split: option.splits intro!: shadow_wf_pin [OF wf np])
qed

lemma toHostPinUserPage_wp:
  assumes inv: "shadow_inv vm" and req: "req < pg_guest_n_pages (vm_pages vm)"
    and np: "\<not> pp_pinned (vm_guestPageInfo vm (unat req))"
  shows "wp (toHostPinUserPage env req) (\<lambda>_ vm'. shadow_inv vm' \<and> same_attrs vm vm' \<and>
     pp_pinned (vm_guestPageInfo vm' (unat req))) vm"
proof -
  define vm1 where "vm1 = vm\<lparr>vm_mon_request := MonReqPinUserPage, vm_pinReqPPI := req,
    vm_hw := (vm_hw vm)\<lparr>hw_IF := False, hw_msr174 := vm_hostSysenterCS vm\<rparr>\<rparr>"
  have inv1: "shadow_inv vm1"
    using inv unfolding vm1_def
    by (simp add: shadow_inv_def pin_inv_def shadow_wf_def pdeOK_def guestPageEntry_def)
  have vm1: "vm_pages vm1 = vm_pages vm" "vm_guestPageInfo vm1 = vm_guestPageInfo vm" "same_attrs vm vm1"
    by (simp_all add: vm1_def same_attrs_def)
  have "wp (hostHandlePagePinRequest env req) (\<lambda>ok vm'.
      (ok \<longrightarrow> pin_inv vm' \<and> pp_pinned (vm_guestPageInfo vm' (unat req)) \<and>
         vm_pages vm' = vm_pages vm1 \<and> vm_pinQueue vm' = pinQ_push req (vm_pinQueue vm1)) \<and>
      (ok \<longrightarrow> shadow_wf vm' \<and> same_attrs vm1 vm')) vm1"
    using inv1 req np
    by (intro wp_conj hostHandlePagePinRequest_wp hostHandlePagePinRequest_shadow)
      (simp_all add: vm1 shadow_inv_def)
  then have *: "wp (hostHandlePagePinRequest env req) (\<lambda>ok vm'. ok \<longrightarrow> shadow_inv vm' \<and>
      same_attrs vm vm' \<and> pp_pinned (vm_guestPageInfo vm' (unat req))) vm1"
    by (rule wp_mono) (auto simp: shadow_inv_def intro: same_attrs_trans [OF vm1(3)])
  have fr: "shadow_inv (vm'\<lparr>vm_hw := h\<rparr>) = shadow_inv vm'" "shadow_inv (vm'\<lparr>vm_hostSysenterCS := h'\<rparr>) = shadow_inv vm'"
    "same_attrs vm (vm'\<lparr>vm_hw := h\<rparr>) = same_attrs vm vm'" "same_attrs vm (vm'\<lparr>vm_hostSysenterCS := h'\<rparr>) = same_attrs vm vm'"
    for vm' h h'
    by (simp_all add: shadow_print.print_fr same_attrs_def)
  have "wp (mon2host env) (\<lambda>_ vm'. shadow_inv vm' \<and> same_attrs vm vm' \<and>
      pp_pinned (vm_guestPageInfo vm' (unat req)))
      (vm\<lparr>vm_hw := (vm_hw vm)\<lparr>hw_IF := False\<rparr>, vm_mon_request := MonReqPinUserPage, vm_pinReqPPI := req\<rparr>)"
    using * by (auto simp: mon2host_def hostServeRequest_def vm1_def enterMonitor_def fr elim!: wp_mono)
  then show ?thesis
    by (auto simp: toHostPinUserPage_def toHost_def CLI_def STI_def fr elim!: wp_mono)
qed

lemma getHostOSPinnedPage_wp:
  assumes inv: "shadow_inv vm"
  shows "wp (getHostOSPinnedPage env ppi) (\<lambda>h vm'. shadow_inv vm' \<and> same_attrs vm vm' \<and>
     ppi < pg_guest_n_pages (vm_pages vm') \<and> pp_pinned (vm_guestPageInfo vm' (unat ppi)) \<and>
     pp_hostPPI (vm_guestPageInfo vm' (unat ppi)) = h) vm"
proof (cases "ppi < pg_guest_n_pages (vm_pages vm) \<and> \<not> pp_pinned (vm_guestPageInfo vm (unat ppi))")
  case True
  then show ?thesis
    using toHostPinUserPage_wp [OF inv, of ppi env]
    by (auto simp: getHostOSPinnedPage_def pageInfo_def same_attrs_def elim!: wp_mono)
next
  case False
  then show ?thesis
    using inv by (auto simp: getHostOSPinnedPage_def pageInfo_def)
qed

section \<open>Mapping keeps the invariant\<close>

text \<open>The invariant together with the monitor's own directory entry, which nothing may change.\<close>

definition isolated :: "Bit32u \<Rightarrow> pageEntry_t \<Rightarrow> vm_t \<Rightarrow> bool" where
  "isolated m c vm \<longleftrightarrow> shadow_inv vm \<and> vm_mon_pdi vm = m \<and> vm_page_dir vm (unat m) = c"

lemmas isolated_defs = isolated_def shadow_inv_def pin_inv_def shadow_wf_def pdeOK_def guestPageEntry_def

interpretation isolated_print: print_frame "isolated m c"
  by unfold_locales (simp_all add: isolated_defs)

lemma isolated_nexus_tbl [simp]: "isolated m c (vm\<lparr>vm_nexus_page_tbl := t\<rparr>) = isolated m c vm"
  by (simp add: isolated_defs)

lemma isolated_same_attrs: "isolated m c vm \<Longrightarrow> shadow_inv vm' \<Longrightarrow> same_attrs vm vm' \<Longrightarrow> isolated m c vm'"
  by (auto simp: isolated_def same_attrs_def)

lemma isolated_pinned_wp:
  "isolated m c vm \<Longrightarrow> wp (getHostOSPinnedPage env ppi) (\<lambda>h vm'. isolated m c vm' \<and> same_attrs vm vm' \<and>
     ppi < pg_guest_n_pages (vm_pages vm') \<and> pp_pinned (vm_guestPageInfo vm' (unat ppi)) \<and>
     pp_hostPPI (vm_guestPageInfo vm' (unat ppi)) = h) vm"
  by (rule wp_mono [OF getHostOSPinnedPage_wp]) (auto simp: isolated_def same_attrs_def)

lemma pinned_pres: "pres (isolated m c) (getHostOSPinnedPage env ppi)"
  by (intro presI wp_mono [OF isolated_pinned_wp]) auto

lemma open_guest_phy_page_pres: "pres (isolated m c) (open_guest_phy_page env ppi mo)"
  unfolding open_guest_phy_page_def Let_def
  by (intro pres_rules isolated_print.MonAssert_pres pinned_pres isolated_print.invlpg_pres pres_modify) simp_all

lemma unat_add1: "unat (n :: Bit32u) < 1024 \<Longrightarrow> unat (n + 1) = unat n + 1"
  by (rule unat_add1_mod(2))

lemma isolated_newTable:
  assumes isolated: "isolated m c vm" and avail: "unat (vm_ptbl_laddr_map_i vm) < 80" and pdi: "pdi < 1024"
    and free: "vm_page_tbl_laddr_map vm pdi = - 1"
  shows "isolated m c (vm\<lparr>vm_page_tbl_laddr_map := (vm_page_tbl_laddr_map vm)(pdi := vm_ptbl_laddr_map_i vm),
    vm_ptbl_laddr_map_i := vm_ptbl_laddr_map_i vm + 1,
    vm_page_tbl := (vm_page_tbl vm)(unat (vm_ptbl_laddr_map_i vm) := t)\<rparr>)" (is "isolated m c ?vm'")
proof -
  let ?i = "vm_ptbl_laddr_map_i vm"
  have up: "unat (?i + 1) = unat ?i + 1" using avail by (intro unat_add1) simp
  have lt: "j < ?i + 1 \<longleftrightarrow> j < ?i \<or> j = ?i" for j
    by (simp add: word_less_nat_alt up less_Suc_eq)
  have wf: "shadow_wf vm" using isolated by (simp add: isolated_def shadow_inv_def)
  have old: "pdeOK vm q \<Longrightarrow> q \<noteq> pdi \<Longrightarrow> pdeOK ?vm' q" for q
    by (auto simp: pdeOK_def guestPageEntry_def Let_def lt)
  have "?i \<noteq> - 1" using avail by auto
  then have noti: "vm_page_tbl_laddr_map vm q \<noteq> ?i" if "q < 1024" for q
    using wf that avail by (cases "vm_page_tbl_laddr_map vm q = - 1") (auto simp: shadow_wf_def)
  have np: "pdi = unat (vm_mon_pdi vm) \<or> \<not> pe_P (vm_page_dir vm pdi)"
    using wf free pdi by (auto simp: shadow_wf_def pdeOK_def Let_def word_less_nat_alt)
  have "shadow_wf ?vm'"
    using wf old np noti noti [symmetric] free up avail unfolding shadow_wf_def
    by (simp add: lt) (auto intro: old)
  then show ?thesis
    using isolated by (simp add: isolated_def shadow_inv_def pin_inv_def)
qed

lemma getFreePageTable_wp:
  assumes "isolated m c vm" "pdi < 1024"
  shows "wp (getFreePageTable env pdi) (\<lambda>i vm'. isolated m c vm' \<and> i < 80 \<and>
     vm_page_tbl_laddr_map vm' pdi = of_nat i \<and> of_nat i < vm_ptbl_laddr_map_i vm' \<and>
     (\<forall>pti < 1024. vm_page_tbl vm' i pti = 0) \<and> same_attrs vm vm') vm"
  using assms isolated_newTable [OF assms(1) _ assms(2)] unat_add1 [of "vm_ptbl_laddr_map_i vm"]
  by (auto simp: getFreePageTable_def laddrMap_def nexusMemZero_apply word_less_nat_alt same_attrs_def)

lemma shadowPDEntry_base: "pe_base (shadowPDEntry vm g i) = take_bit 20 (pg_page_tbl (vm_pages vm) i)"
  by (simp add: shadowPDEntry_def Let_def pe_base_def drop_bit_or drop_bit_and drop_push_bit_32 flag_def
      split: option.split prod.split)

lemma isolated_setPDE:
  assumes "isolated m c vm" "pdi < 1024" "pdi \<noteq> unat m" "vm_page_tbl_laddr_map vm pdi < vm_ptbl_laddr_map_i vm"
    "pe_base e = take_bit 20 (pg_page_tbl (vm_pages vm) (unat (vm_page_tbl_laddr_map vm pdi)))"
    "\<forall>pti < 1024. vm_page_tbl vm (unat (vm_page_tbl_laddr_map vm pdi)) pti = 0"
  shows "isolated m c (vm\<lparr>vm_page_dir := (vm_page_dir vm)(pdi := e)\<rparr>)"
  using assms by (auto simp: isolated_defs Let_def pe_P_def)

lemma mon_range: "isolated m c vm \<Longrightarrow> lin_pdi a = unat m \<longleftrightarrow> a AND 0xffc00000 = vm_mon_pde_mask vm"
proof -
  assume "isolated m c vm"
  then have m: "vm_mon_pde_mask vm = push_bit 22 m" "unat m < 1024"
    by (auto simp: isolated_def shadow_inv_def shadow_wf_def)
  have mask: "(0xffc00000 :: Bit32u) = push_bit 22 (mask 10)"
    by (simp add: mask_eq_exp_minus_1)
  have a: "a AND 0xffc00000 = push_bit 22 (drop_bit 22 a)"
    unfolding mask by (rule bit_word_eqI) (auto simp: bit_simps)
  have "drop_bit 22 (push_bit 22 m) = m"
    using bit_below [of m 10] m(2) by (intro bit_word_eqI) (auto simp: bit_simps)
  moreover have "drop_bit 22 (push_bit 22 (drop_bit 22 a)) = drop_bit 22 a"
    by (rule bit_word_eqI) (auto simp: bit_simps dest: bit_imp_le_length)
  ultimately show ?thesis
    unfolding a m(1) lin_pdi_def unat_eq_unat by metis
qed

lemma monPDE_wp [simp]: "wp (monPDE pdi) Q vm = (pdi < 1024 \<and> Q (vm_page_dir vm pdi) vm)"
  by (simp add: monPDE_def)

lemma getMonPTi_wp: "pdi < 1024 \<Longrightarrow> wp (getMonPTi env pdi src) (\<lambda>i vm'. vm' = vm \<and> i < 80) vm"
  by (simp add: getMonPTi_def laddrMap_def)

lemma wp_strengthen: "wp m P s \<Longrightarrow> wp m Q s \<Longrightarrow> (\<And>x t. P x t \<Longrightarrow> Q x t \<Longrightarrow> R x t) \<Longrightarrow> wp m R s"
  by (simp add: wp_def split: outcome.splits)

text \<open>The directory entry: the invariant is kept, the table index is in range, and the attributes of
  the pages are as before.\<close>

lemma same_attrs_PDE:
  "same_attrs vm vm' \<Longrightarrow> pdi \<noteq> unat (vm_mon_pdi vm) \<Longrightarrow> same_attrs vm (vm'\<lparr>vm_page_dir := (vm_page_dir vm')(pdi := e)\<rparr>)"
  by (auto simp: same_attrs_def)

lemma newShadowPDE_wp:
  assumes isolated: "isolated m c vm" and np: "\<not> pe_P (vm_page_dir vm (lin_pdi a))"
  shows "wp (bnd (getFreePageTable env (lin_pdi a)) (\<lambda>i.
           bnd (gets (\<lambda>vm. shadowPDEntry vm g i)) (\<lambda>e. thn (setMonPDE (lin_pdi a) e) (ret (Some i)))))
     (\<lambda>r vm'. isolated m c vm' \<and> same_attrs vm vm' \<and> (\<forall>i. r = Some i \<longrightarrow> i < 80)) vm"
    (is "wp (bnd _ ?rest) ?Q vm")
proof -
  have "pe_P (vm_page_dir vm (unat m))"
    using isolated by (auto simp: isolated_def shadow_inv_def shadow_wf_def)
  then have ne: "lin_pdi a \<noteq> unat m" using np by auto
  have m: "vm_mon_pdi vm = m" using isolated by (simp add: isolated_def)
  have step: "wp (?rest i) ?Q vm'"
    if *: "isolated m c vm'" "i < 80" "vm_page_tbl_laddr_map vm' (lin_pdi a) = of_nat i"
      "of_nat i < vm_ptbl_laddr_map_i vm'" "\<forall>pti < 1024. vm_page_tbl vm' i pti = 0"
      "same_attrs vm vm'" for i vm'
  proof -
    have "unat (of_nat i :: Bit32u) = i" using *(2) by (simp add: unat_of_nat)
    then show ?thesis
      using * ne m by (auto simp: setMonPDE_def shadowPDEntry_base intro!: isolated_setPDE same_attrs_PDE)
  qed
  have "wp (getFreePageTable env (lin_pdi a)) (\<lambda>i. wp (?rest i) ?Q) vm"
    by (rule wp_mono [OF getFreePageTable_wp [OF isolated, of "lin_pdi a" env]]) (use step in auto)
  then show ?thesis by (simp only: wp_bnd)
qed

lemma shadowPDE_wp:
  assumes isolated: "isolated m c vm"
  shows "wp (shadowPDE env a g) (\<lambda>r vm'. isolated m c vm' \<and> same_attrs vm vm' \<and> (\<forall>i. r = Some i \<longrightarrow> i < 80)) vm"
proof (cases "pe_P (vm_page_dir vm (lin_pdi a))")
  case True
  then show ?thesis
    using isolated by (auto simp: shadowPDE_def Let_def intro!: wp_mono [OF getMonPTi_wp])
next
  case False
  have usage: "wp (getPageUsage env p) (\<lambda>_ vm'. vm' = vm) vm" for p
    by (simp add: getPageUsage_def pageInfo_def)
  show ?thesis
    using False newShadowPDE_wp [OF isolated False, of env g]
    by (auto simp: shadowPDE_def Let_def getPageUsage_def pageInfo_def split: option.split)
qed

text \<open>The table entry.\<close>

lemma shadowPTEntry_bits:
  "pe_base (shadowPTEntry h (e AND 0x60) rw) = take_bit 20 h" "pe_RW (shadowPTEntry h (e AND 0x60) rw) = rw"
  "pe_base (shadowPTEntry h 0 rw) = take_bit 20 h" "pe_RW (shadowPTEntry h 0 rw) = rw"
  by (simp_all add: shadowPTEntry_def pe_base_def pe_RW_def drop_bit_or drop_bit_and drop_push_bit_32
      flag_def bit_simps)

lemma isolated_setPTE:
  assumes "isolated m c vm" "guestPageEntry vm e"
  shows "isolated m c (vm\<lparr>vm_page_tbl := (vm_page_tbl vm)(i := (vm_page_tbl vm i)(pti := e))\<rparr>)"
  using assms by (auto simp: isolated_def shadow_inv_def pin_inv_def shadow_wf_def pdeOK_def guestPageEntry_def Let_def)

lemma guestPageEntry_new:
  assumes "ppi < pg_guest_n_pages (vm_pages vm)" "pp_pinned (vm_guestPageInfo vm (unat ppi))"
    "pe_base e = take_bit 20 (pp_hostPPI (vm_guestPageInfo vm (unat ppi)))"
    "pp_RO (vm_guestPageInfo vm (unat ppi)) \<longrightarrow> \<not> pe_RW e"
    "\<not> pp_RO (vm_guestPageInfo vm (unat ppi)) \<longrightarrow> \<not> pp_memMapIO (vm_guestPageInfo vm (unat ppi))"
  shows "guestPageEntry vm e"
  using assms unfolding guestPageEntry_def Let_def by blast

lemma setShadowPTE_wp:
  assumes iso: "isolated m c vm" and i: "i < 80"
    and u: "pp_RO u = pp_RO (vm_guestPageInfo vm (unat ppi))" "pp_memMapIO u = pp_memMapIO (vm_guestPageInfo vm (unat ppi))"
    and ok: "pp_RO u \<or> \<not> pp_memMapIO u" and rw': "pp_RO u \<longrightarrow> \<not> rw'" and ad: "ad = e AND 0x60"
  shows "wp (bnd (getHostOSPinnedPage env ppi) (\<lambda>hostPPI.
           thn (setMonPTE i (lin_pti a) (shadowPTEntry hostPPI ad rw'))
           (thn (bnd (gets (\<lambda>vm. Guest2Monitor vm a)) invlpg_mon_offset) (ret MapLinOK)))) (\<lambda>_. isolated m c) vm"
    (is "wp (bnd _ ?rest) _ _")
proof -
  have "wp (?rest h) (\<lambda>_. isolated m c) vm'"
    if "isolated m c vm'" "same_attrs vm vm'" "ppi < pg_guest_n_pages (vm_pages vm')"
      "pp_pinned (vm_guestPageInfo vm' (unat ppi))" "pp_hostPPI (vm_guestPageInfo vm' (unat ppi)) = h" for h vm'
  proof -
    have "guestPageEntry vm' (shadowPTEntry h ad rw')"
      using that u ok rw' ad by (intro guestPageEntry_new [of ppi]) (auto simp: shadowPTEntry_bits same_attrs_def)
    then show ?thesis
      using isolated_setPTE [OF that(1)] i by (simp add: setMonPTE_def invlpg_mon_offset_def isolated_print.print_fr)
  qed
  then have "wp (getHostOSPinnedPage env ppi) (\<lambda>h. wp (?rest h) (\<lambda>_. isolated m c)) vm"
    by (intro wp_mono [OF isolated_pinned_wp [OF iso]]) blast
  then show ?thesis by (simp only: wp_bnd)
qed

lemma shadowPTE_wp:
  assumes iso: "isolated m c vm" and i: "i < 80"
    and u: "pp_RO u = pp_RO (vm_guestPageInfo vm (unat ppi))" "pp_memMapIO u = pp_memMapIO (vm_guestPageInfo vm (unat ppi))"
  shows "wp (shadowPTE env a ppi rw u g i) (\<lambda>_. isolated m c) vm"
proof -
  note set = setShadowPTE_wp [OF iso i u, where a = a and env = env]
  have ad: "\<exists>e. (case g of None \<Rightarrow> 0 | Some e \<Rightarrow> e AND 0x60) = (e AND 0x60 :: Bit32u)"
    by (cases g) (auto intro: exI [of _ 0])
  then obtain e where "(case g of None \<Rightarrow> 0 | Some e \<Rightarrow> e AND 0x60) = (e AND 0x60 :: Bit32u)" ..
  note set' = set [OF _ _ this]
  have read: "wp (monPTE i (lin_pti a)) (\<lambda>_ t. t = vm) vm"
    using i by (simp add: monPTE_def)
  have get: "wp (gets f) (\<lambda>_ t. t = vm) vm" for f :: "vm_t \<Rightarrow> bool"
    by simp
  show ?thesis
    unfolding shadowPTE_def Let_def
  proof (rule wp_bndI [OF read])
    fix pte t
    assume t: "t = vm"
    show "wp (if pe_P pte then ret MapLinAlreadyMapped else bnd (gets (\<lambda>vm. case g of None \<Rightarrow> True
          | Some e \<Rightarrow> snd (shadowPerms (vm_guestCPL vm) (cr0_wp (vm_guest_cpu vm)) e))) (\<lambda>rw'.
        if pp_RO u \<and> rw then ret MapLinEmulate
        else if \<not> pp_RO u \<and> pp_memMapIO u then ret MapLinEmulate
        else bnd (getHostOSPinnedPage env ppi) (\<lambda>hostPPI.
          thn (setMonPTE i (lin_pti a) (shadowPTEntry hostPPI (case g of None \<Rightarrow> 0 | Some e \<Rightarrow> e AND 0x60)
                (if pp_RO u then False else rw')))
          (thn (bnd (gets (\<lambda>vm. Guest2Monitor vm a)) invlpg_mon_offset) (ret MapLinOK)))))
        (\<lambda>_. isolated m c) t"
      using iso set' unfolding t by (auto intro!: wp_bndI [OF get] simp del: wp_bnd wp_thn)
  qed
qed

lemma guestWalk_pres: "pres (isolated m c) (guestWalk env a us rw)"
  unfolding guestWalk_def guestPTEWalk_def Let_def
  by (intro pres_rules pres_case_prod open_guest_phy_page_pres pres_win_read32 isolated_print.win_write32_pres pres_monpanic) simp_all

lemma mapGuestLinAddr_pres: "pres (isolated m c) (mapGuestLinAddr env a us rw)"
proof -
  have tail: "pres (isolated m c) (bnd (getPageUsage env ppi) (\<lambda>u. bnd (shadowPDE env a g) (\<lambda>pt. case pt of
      None \<Rightarrow> ret (MapLinMonConflict, ppi, 0 :: Bit32u)
    | Some i \<Rightarrow> bnd (shadowPTE env a ppi rw u g' i) (\<lambda>r. ret (r, ppi, 0)))))" for ppi g g'
  proof (rule presI)
    fix vm assume isolated: "isolated m c vm"
    have "wp (shadowPDE env a g) (\<lambda>pt. wp (case pt of None \<Rightarrow> ret (MapLinMonConflict, ppi, 0 :: Bit32u)
        | Some i \<Rightarrow> bnd (shadowPTE env a ppi rw (vm_guestPageInfo vm (unat ppi)) g' i) (\<lambda>r. ret (r, ppi, 0)))
        (\<lambda>_. isolated m c)) vm"
      by (rule wp_mono [OF shadowPDE_wp [OF isolated]])
        (auto simp: same_attrs_def split: option.split intro!: wp_mono [OF shadowPTE_wp])
    then show "wp (bnd (getPageUsage env ppi) (\<lambda>u. bnd (shadowPDE env a g) (\<lambda>pt. case pt of
        None \<Rightarrow> ret (MapLinMonConflict, ppi, 0 :: Bit32u)
      | Some i \<Rightarrow> bnd (shadowPTE env a ppi rw u g' i) (\<lambda>r. ret (r, ppi, 0))))) (\<lambda>_. isolated m c) vm"
      by (simp add: getPageUsage_def pageInfo_def)
  qed
  show ?thesis
    unfolding mapGuestLinAddr_def Let_def
    by (intro pres_rules guestWalk_pres) (auto split: sum.split intro!: pres_rules tail)
qed

lemma clearShadowPTE_pres:
  assumes "pdi < 1024" "pti < 1024"
  shows "pres (isolated m c) (clearShadowPTE env pdi pti)"
proof (rule presI)
  fix vm assume iso: "isolated m c vm"
  then have "isolated m c (vm\<lparr>vm_page_tbl := (vm_page_tbl vm)(i := (vm_page_tbl vm i)(k := 0))\<rparr>)" for i k
    by (auto simp: isolated_def shadow_inv_def pin_inv_def shadow_wf_def pdeOK_def guestPageEntry_def Let_def pe_P_def)
  then show "wp (clearShadowPTE env pdi pti) (\<lambda>_. isolated m c) vm"
    using iso assms
    by (auto simp: clearShadowPTE_def monPTE_def setMonPTE_def intro!: wp_mono [OF getMonPTi_wp])
qed

lemma invalidateGuestLinAddr_pres: "pres (isolated m c) (invalidateGuestLinAddr env a)"
  unfolding invalidateGuestLinAddr_def Let_def monPDE_def
  by (intro pres_rules pres_inBounds isolated_print.invlpg_pres clearShadowPTE_pres) simp_all

lemma monInitShadowPaging_eq:
  "monInitShadowPaging env = thn (hostInitShadowPaging env) (bnd (gets (\<lambda>vm. nx_mon_cr3 (vm_nexus vm))) loadCR3)"
  by (simp add: monInitShadowPaging_def hostInitShadowPaging_def thn_assoc)

lemma monInitShadowPaging_pres: "pres (isolated m c) (monInitShadowPaging env)"
proof (rule presI)
  fix vm assume isolated: "isolated m c vm"
  have "shadow_wf (shadowReset env vm)"
    using isolated by (intro shadow_wf_reset) (auto simp: shadowReset_def isolated_def shadow_inv_def shadow_wf_def)
  then have "isolated m c (shadowReset env vm)"
    using isolated by (auto simp: isolated_def shadow_inv_def pin_inv_def)
  then show "wp (monInitShadowPaging env) (\<lambda>_. isolated m c) vm"
    by (simp add: monInitShadowPaging_eq loadCR3_def isolated_print.print_fr)
qed

section \<open>Paging leaves the context and the GDT alone\<close>

text \<open>A window changes the page that an entry of the monitor's own table names, not who may use it.\<close>

definition prot_core where
  "prot_core vm = (vm_context vm, vm_gdt vm, io_cpuToPitRatio (vm_io vm), vm_pages vm,
     (\<lambda>i. pe_US (vm_nexus_page_tbl vm i)))"

lemma keeps_monpanic [keeps_rules]: "keeps f (monpanic env fmt args)"
  by (rule keeps_never) simp

lemma keeps_MonAssert [keeps_rules]: "keeps f (MonAssert env b e fl l)"
  unfolding MonAssert_def by (intro keeps_rules)

lemma shadowInit_keeps [keeps_rules]: "keeps prot_core (hostInitShadowPaging env)"
  by (rule keepsI) (auto simp: hostInitShadowPaging_eq prot_core_def shadowReset_def)

lemma pin_keeps: "keeps prot_core (hostHandlePagePinRequest env ppi)"
  unfolding hostHandlePagePinRequest_def hostEvictPinnedPage_def hostOSUnpinUserPage_def
    hostOSGetAndPinUserPage_def updPageInfo_def
  by (intro keeps_rules keeps_modify) (auto simp: prot_core_def)

lemma toHostPinUserPage_keeps [keeps_rules]: "keeps prot_core (toHostPinUserPage env ppi)"
proof (rule keepsI)
  fix s x t
  assume "toHostPinUserPage env ppi s = Ret x t"
  then show "prot_core t = prot_core s"
    by (auto simp: toHostPinUserPage_def toHost_def mon2host_def hostServeRequest_def thn_def bnd_Ret CLI_def STI_def
        leaveMonitor_def enterMonitor_def handlePanic_def whenM_def prot_core_def
        split: if_splits dest!: keepsD [OF pin_keeps])
qed

lemma pageInfo_keeps [keeps_rules]: "keeps f (pageInfo ppi)"
  unfolding pageInfo_def by (intro keeps_rules)

lemma pinnedPage_keeps [keeps_rules]: "keeps prot_core (getHostOSPinnedPage env ppi)"
  unfolding getHostOSPinnedPage_def by (intro keeps_rules)

lemma invlpg_keeps [keeps_rules]: "keeps prot_core (invlpg_mon_offset a)"
  unfolding invlpg_mon_offset_def by (intro keeps_modify) (simp add: prot_core_def)

lemma open_guest_phy_page_keeps [keeps_rules]: "keeps prot_core (open_guest_phy_page env ppi mo)"
  unfolding open_guest_phy_page_def by (intro keeps_rules keeps_modify) (simp add: prot_core_def fun_eq_iff)

lemma win_keeps [keeps_rules]:
  "keeps prot_core (win_read32 env mo off)" "keeps prot_core (win_write32 env mo off v)"
  unfolding win_read32_def win_read8_def win_write32_def win_write8_def
  by (intro keeps_rules keeps_modify; simp add: prot_core_def)+

lemma tables_keep [keeps_rules]:
  "keeps prot_core (monPDE pdi)" "keeps prot_core (setMonPDE pdi e)" "keeps prot_core (monPTE i pti)"
  "keeps prot_core (setMonPTE i pti e)" "keeps prot_core (getMonPTi env pdi src)"
  "keeps prot_core (getFreePageTable env pdi)" "keeps prot_core (getPageUsage env ppi)"
  unfolding monPDE_def setMonPDE_def monPTE_def setMonPTE_def getMonPTi_def getFreePageTable_def laddrMap_def
    getPageUsage_def
  by (intro keeps_rules keeps_modify; simp add: prot_core_def)+

lemma guestWalk_keeps [keeps_rules]: "keeps prot_core (guestWalk env a us rw)"
  unfolding guestWalk_def guestPTEWalk_def by (intro keeps_rules)

lemma mapGuestLinAddr_keeps: "keeps prot_core (mapGuestLinAddr env a us rw)"
  unfolding mapGuestLinAddr_def shadowPDE_def shadowPTE_def by (intro keeps_rules)

lemma invalidateGuestLinAddr_keeps: "keeps prot_core (invalidateGuestLinAddr env a)"
  unfolding invalidateGuestLinAddr_def clearShadowPTE_def by (intro keeps_rules)

lemma monInitShadowPaging_keeps: "keeps prot_core (monInitShadowPaging env)"
  unfolding monInitShadowPaging_eq loadCR3_def
  by (intro keeps_rules keeps_modify) (simp add: prot_core_def)

end
