(* ===== verification/Io_Pic.thy ===== *)
theory Io_Pic
  imports Mon_Host
begin

text \<open>
  The interrupt controllers of \<^verbatim>\<open>monitor-space/io.c\<close>: \<^verbatim>\<open>picInp\<close>, \<^verbatim>\<open>picOutp\<close>,
  \<^verbatim>\<open>picIrq\<close>, \<^verbatim>\<open>picServiceMaster\<close> and \<^verbatim>\<open>picIAC\<close>, on the state \<^verbatim>\<open>vm->io.picMaster\<close>,
  \<^verbatim>\<open>vm->io.picSlave\<close> and the interrupt line \<^verbatim>\<open>vm->system.INTR\<close>.

  The locale \<open>irq_controller\<close> is the contract the devices and the interrupt delivery rely on:
  requests are remembered, the line to the processor is up exactly while a request can be served,
  and acknowledging serves the request of highest priority. Its client lemma says that serving
  until the line falls delivers every pending request once, in order of priority. The master
  controller is an instance.
\<close>

section \<open>The operations\<close>

abbreviation picMaster :: "vm_t \<Rightarrow> pic_t" where
  "picMaster vm \<equiv> io_picMaster (vm_io vm)"

abbreviation picSlave :: "vm_t \<Rightarrow> pic_t" where
  "picSlave vm \<equiv> io_picSlave (vm_io vm)"

definition updMaster :: "(pic_t \<Rightarrow> pic_t) \<Rightarrow> unit mon" where
  "updMaster f = modify (upd_io (\<lambda>io. io\<lparr>io_picMaster := f (io_picMaster io)\<rparr>))"

definition updSlave :: "(pic_t \<Rightarrow> pic_t) \<Rightarrow> unit mon" where
  "updSlave f = modify (upd_io (\<lambda>io. io\<lparr>io_picSlave := f (io_picSlave io)\<rparr>))"

definition setINTR :: "Bit32u \<Rightarrow> unit mon" where
  "setINTR v = modify (set_INTR v)"

definition picServiceMaster :: "unit mon" where
  "picServiceMaster =
     bnd (gets picMaster) (\<lambda>p.
     if pic_isr p \<noteq> 0 then ret ()
     else if pic_irr p AND NOT (pic_imr p) = 0 then ret ()
     else setINTR 1)"

text \<open>\<^verbatim>\<open>picIrq\<close> for a line of the master, and the whole function: the output of the slave is
  line 2 of the master.\<close>

definition picIrqMaster :: "nat \<Rightarrow> unit mon" where
  "picIrqMaster irqNum =
     (let bitMask = push_bit irqNum 1 in
      bnd (gets picMaster) (\<lambda>p.
      if pic_irr p AND bitMask \<noteq> 0 then ret ()
      else
        thn (updMaster (\<lambda>p. p\<lparr>pic_irr := pic_irr p OR bitMask\<rparr>))
        (if pic_imr p AND bitMask \<noteq> 0 then ret ()
         else if pic_isr p \<noteq> 0 then ret ()
         else setINTR 1)))"

definition picIrq :: "henv \<Rightarrow> Bit32u \<Rightarrow> Bit32u \<Rightarrow> unit mon" where
  "picIrq env irqNum val =
     (if irqNum > 15 then monpanic env ''picIrq: irq=%u\<newline>'' [ArgU irqNum]
      else if irqNum \<le> 7 then picIrqMaster (unat irqNum)
      else
        (let bitMask = push_bit (unat (irqNum - 8)) 1 in
         bnd (gets picSlave) (\<lambda>p.
         if pic_irr p AND bitMask \<noteq> 0 then ret ()
         else
           thn (updSlave (\<lambda>p. p\<lparr>pic_irr := pic_irr p OR bitMask\<rparr>))
           (if pic_imr p AND bitMask \<noteq> 0 then ret ()
            else if pic_isr p \<noteq> 0 then ret ()
            else picIrqMaster 2))))"

text \<open>The search loop of \<^verbatim>\<open>picIAC\<close>.\<close>

function findIrq :: "Bit32u \<Rightarrow> nat \<Rightarrow> nat" where
  "findIrq irr b = (if b \<le> 7 \<and> irr AND push_bit b 1 = 0 then findIrq irr (Suc b) else b)"
  by pat_completeness auto

termination
  by (relation "measure (\<lambda>(irr, b). 8 - b)") auto

declare findIrq.simps [simp del]

definition picIAC :: "henv \<Rightarrow> Bit32u mon" where
  "picIAC env =
     bnd (gets (\<lambda>vm. INTR vm)) (\<lambda>intr.
     bnd (gets picMaster) (\<lambda>p.
     if intr = 0 \<or> pic_isr p \<noteq> 0 then
       monpanic env ''picIAC: INTR=%u, isr=0x%x.\<newline>'' [ArgU intr, ArgU (pic_isr p)]
     else
       (let irr = pic_irr p AND NOT (pic_imr p) in
        if irr = 0 then monpanic env ''picIAC: no unmasked irqs.\<newline>'' []
        else
          (let b = findIrq irr 0 in
           thn (updMaster (\<lambda>p. p\<lparr>pic_irr := pic_irr p AND NOT (push_bit b 1)\<rparr>))
           (thn (updMaster (\<lambda>p. p\<lparr>pic_isr := pic_isr p OR push_bit b 1\<rparr>))
           (thn (setINTR 0)
           (bnd (gets (\<lambda>vm. pic_vectorOffset (picMaster vm))) (\<lambda>off.
            ret (off + of_nat b)))))))))"

definition picInp :: "henv \<Rightarrow> Bit32u \<Rightarrow> Bit32u \<Rightarrow> Bit32u mon" where
  "picInp env iolen port =
     (if port = 0x21 then gets (\<lambda>vm. pic_imr (picMaster vm))
      else thn (monprint env ''picInp: port=0x%x\<newline>'' [ArgU port])
           (monpanic env ''vgaInp: bailing.\<newline>'' []))"

definition picOutpError :: "henv \<Rightarrow> string \<Rightarrow> fmtarg list \<Rightarrow> unit mon" where
  "picOutpError env fmt args = thn (monprint env fmt args) (monpanic env ''picOutp: bailing.\<newline>'' [])"

definition picInit1 :: "Bit32u \<Rightarrow> pic_t \<Rightarrow> pic_t" where
  "picInit1 val p = p\<lparr>pic_inInit := 1, pic_requires4 := val AND 1, pic_byteExpected := 2,
     pic_imr := 0, pic_isr := 0, pic_irr := 0\<rparr>"

text \<open>Port 0x20: the first initialisation command, and the specific end of interrupt of lines 0
  and 3.\<close>

definition picOutp20 :: "henv \<Rightarrow> Bit32u \<Rightarrow> unit mon" where
  "picOutp20 env val =
     (if val AND 0x10 \<noteq> 0 then
        thn (updMaster (picInit1 val))
        (thn (setINTR 0)
        (if val AND 0x0a \<noteq> 0 then
           picOutpError env ''PIC(m): unsupported init command 0x%x\<newline>'' [ArgU val]
         else ret ()))
      else if val AND 0x18 = 0x08 then picOutpError env ''PIC(m): OCW3 unfinished.\<newline>'' []
      else if val = 0x60 \<or> val = 0x63 then
        (let bitmask = push_bit (unat (val - 0x60)) 1 in
         bnd (gets picMaster) (\<lambda>p.
         if pic_isr p AND bitmask = 0 then
           picOutpError env ''PIC(m): EOI %u, isr=0x%x.\<newline>'' [ArgU (val - 0x60), ArgU (pic_isr p)]
         else
           thn (updMaster (\<lambda>p. p\<lparr>pic_isr := pic_isr p AND NOT bitmask\<rparr>))
           (thn (setINTR 0) picServiceMaster)))
      else picOutpError env ''PIC(m): OCW2 0x%x.\<newline>'' [ArgU val])"

definition picOutpA0 :: "henv \<Rightarrow> Bit32u \<Rightarrow> unit mon" where
  "picOutpA0 env val =
     (if val AND 0x10 \<noteq> 0 then
        thn (updSlave (picInit1 val))
        (if val AND 0x0a \<noteq> 0 then
           picOutpError env ''PIC(s): unsupported init command 0x%x\<newline>'' [ArgU val]
         else ret ())
      else if val AND 0x18 = 0x08 then picOutpError env ''PIC(s): OCW3 unfinished.\<newline>'' []
      else picOutpError env ''PIC(s): OCW2 unfinished.\<newline>'' [])"

definition picOutp :: "henv \<Rightarrow> Bit32u \<Rightarrow> Bit32u \<Rightarrow> Bit32u \<Rightarrow> unit mon" where
  "picOutp env iolen port val =
     (if port = 0x20 then picOutp20 env val
      else if port = 0x21 then
        thn (updMaster (\<lambda>p. p\<lparr>pic_imr := val\<rparr>)) picServiceMaster
      else if port = 0xa0 then picOutpA0 env val
      else if port = 0xa1 then
        thn (updSlave (\<lambda>p. p\<lparr>pic_imr := val\<rparr>))
        (monprint env ''PIC(s) imr=0x%x\<newline>'' [ArgU val])
      else monpanic env ''picOutp: bailing.\<newline>'' [])"

section \<open>What the devices preserve\<close>

text \<open>\<open>dev_frame I\<close>: \<open>I\<close> looks neither at what a print changes nor at the devices and the
  interrupt line, the fixed ratio of the clocks apart. Every device operation keeps it.\<close>

locale dev_frame = print_frame +
  assumes fr_io: "io_cpuToPitRatio io = io_cpuToPitRatio (vm_io vm) \<Longrightarrow> I (vm\<lparr>vm_io := io\<rparr>) = I vm"
    and fr_system: "I (vm\<lparr>vm_system := sys\<rparr>) = I vm"
begin

lemma updMaster_pres [pres_rules]: "pres I (updMaster f)"
  by (simp add: updMaster_def pres_def fr_io)

lemma updSlave_pres [pres_rules]: "pres I (updSlave f)"
  by (simp add: updSlave_def pres_def fr_io)

lemma setINTR_pres [pres_rules]: "pres I (setINTR v)"
  by (simp add: setINTR_def pres_def fr_system)

lemma picServiceMaster_pres [pres_rules]: "pres I picServiceMaster"
  unfolding picServiceMaster_def by (intro pres_rules)

lemma picIrqMaster_pres [pres_rules]: "pres I (picIrqMaster n)"
  unfolding picIrqMaster_def by (intro pres_rules)

lemma picIrq_pres [pres_rules]: "pres I (picIrq env n v)"
  unfolding picIrq_def by (intro pres_rules)

lemma picIAC_pres [pres_rules]: "pres I (picIAC env)"
  unfolding picIAC_def by (intro pres_rules)

lemma picInp_pres [pres_rules]: "pres I (picInp env iolen port)"
  unfolding picInp_def by (intro pres_rules)

lemma picOutp_pres [pres_rules]: "pres I (picOutp env iolen port val)"
  unfolding picOutp_def picOutp20_def picOutpA0_def picOutpError_def by (intro pres_rules)

end

section \<open>Controllers\<close>

text \<open>The processor's side: acknowledge, run the handler of line \<open>n\<close>, signal its end; for each of
  the lines given.\<close>

fun serveLines :: "('s, 'v) comp \<Rightarrow> (nat \<Rightarrow> ('s, unit) comp) \<Rightarrow> nat list \<Rightarrow> ('s, 'v list) comp" where
  "serveLines ack eoi [] = ret []"
| "serveLines ack eoi (n # ns) =
     bnd ack (\<lambda>v. thn (eoi n) (bnd (serveLines ack eoi ns) (\<lambda>vs. ret (v # vs))))"

locale irq_controller =
  fixes inv :: "'s \<Rightarrow> bool"
    and served :: "nat set"
    and pending :: "'s \<Rightarrow> nat set"
    and masked :: "'s \<Rightarrow> nat set"
    and inService :: "'s \<Rightarrow> nat set"
    and line :: "'s \<Rightarrow> bool"
    and vector :: "'s \<Rightarrow> nat \<Rightarrow> 'v"
    and raise :: "nat \<Rightarrow> ('s, unit) comp"
    and ack :: "('s, 'v) comp"
    and eoi :: "nat \<Rightarrow> ('s, unit) comp"
  assumes pending_finite: "finite (pending s)"
    and line_iff: "inv s \<Longrightarrow> line s \<longleftrightarrow> inService s = {} \<and> pending s \<noteq> {}"
    and raise_law: "inv s \<Longrightarrow> n \<in> served \<Longrightarrow> twp (raise n) (\<lambda>_ t. inv t \<and>
          pending t = pending s \<union> ({n} - masked s) \<and> masked t = masked s \<and>
          inService t = inService s \<and> vector t = vector s) s"
    and ack_law: "inv s \<Longrightarrow> line s \<Longrightarrow> twp ack (\<lambda>v t. inv t \<and> v = vector s (Min (pending s)) \<and>
          pending t = pending s - {Min (pending s)} \<and> inService t = {Min (pending s)} \<and>
          vector t = vector s) s"
    and eoi_law: "inv s \<Longrightarrow> inService s = {n} \<Longrightarrow> n \<in> served \<Longrightarrow> twp (eoi n) (\<lambda>_ t. inv t \<and>
          pending t = pending s \<and> inService t = {} \<and> vector t = vector s) s"
begin

lemma serve_one:
  assumes "inv s" "inService s = {}" "pending s \<noteq> {}" "pending s \<subseteq> served"
  shows "twp (bnd ack (\<lambda>v. thn (eoi (Min (pending s))) (ret v))) (\<lambda>v t. inv t \<and>
     v = vector s (Min (pending s)) \<and> pending t = pending s - {Min (pending s)} \<and>
     inService t = {} \<and> vector t = vector s) s"
proof -
  have "line s" using line_iff [OF assms(1)] assms by simp
  moreover have "Min (pending s) \<in> served"
    using Min_in [OF pending_finite assms(3)] assms(4) by blast
  ultimately show ?thesis
    unfolding twp_fun twp_ret
    by (intro twp_mono [OF ack_law [OF assms(1)]] twp_mono [OF eoi_law]) auto
qed

text \<open>Serving the pending lines, lowest first, delivers every one of them and lowers the line.\<close>

lemma serve_all:
  assumes "inv s" "inService s = {}" "pending s \<subseteq> served"
  shows "twp (serveLines ack eoi (sorted_list_of_set (pending s))) (\<lambda>vs t. inv t \<and>
     vs = map (vector s) (sorted_list_of_set (pending s)) \<and> pending t = {} \<and> \<not> line t) s"
  using assms
proof (induction "sorted_list_of_set (pending s)" arbitrary: s)
  case Nil
  then have "pending s = {}"
    using set_sorted_list_of_set [OF pending_finite, of s] by (metis empty_set)
  then show ?case using Nil line_iff by simp
next
  case (Cons n ns)
  then have ne: "pending s \<noteq> {}" by (auto simp: sorted_list_of_set_eq_Nil_iff)
  have split: "sorted_list_of_set (pending s) =
      Min (pending s) # sorted_list_of_set (pending s - {Min (pending s)})"
    by (rule sorted_list_of_set_nonempty [OF pending_finite ne])
  then have n: "n = Min (pending s)" "ns = sorted_list_of_set (pending s - {Min (pending s)})"
    using Cons.hyps(2) by auto
  have rest: "twp (serveLines ack eoi ns) (\<lambda>vs t'. inv t' \<and> vs = map (vector s) ns \<and>
      pending t' = {} \<and> \<not> line t') t"
    if "inv t" "pending t = pending s - {n}" "inService t = {}" "vector t = vector s" for t
    using Cons.hyps(1) [of t] that Cons.prems n by auto
  have "twp (bnd ack (\<lambda>v. thn (eoi n) (ret v))) (\<lambda>v t. inv t \<and>
     v = vector s n \<and> pending t = pending s - {n} \<and> inService t = {} \<and> vector t = vector s) s"
    using serve_one [OF Cons.prems(1,2) ne Cons.prems(3)] n by simp
  then have "twp ack (\<lambda>v. twp (eoi n) (\<lambda>_. twp (serveLines ack eoi ns) (\<lambda>vs t'. inv t' \<and>
      v # vs = map (vector s) (n # ns) \<and> pending t' = {} \<and> \<not> line t'))) s"
    by (auto simp: twp_fun elim!: twp_mono intro!: rest)
  then show ?case
    unfolding Cons.hyps(2) [symmetric] by (simp add: twp_fun)
qed

text \<open>A device request while nothing is in service raises the line, unless it is masked.\<close>

lemma raise_line:
  assumes "inv s" "n \<in> served" "n \<notin> masked s" "inService s = {}"
  shows "twp (raise n) (\<lambda>_ t. inv t \<and> line t \<and> n \<in> pending t) s"
  using twp_mono [OF raise_law [OF assms(1,2)]] assms line_iff by auto

end

section \<open>The master controller is such a controller\<close>

definition pic_pending :: "vm_t \<Rightarrow> nat set" where
  "pic_pending vm = {n. n < 8 \<and> bit (pic_irr (picMaster vm)) n \<and> \<not> bit (pic_imr (picMaster vm)) n}"

definition pic_masked :: "vm_t \<Rightarrow> nat set" where
  "pic_masked vm = {n. bit (pic_imr (picMaster vm)) n}"

definition pic_inService :: "vm_t \<Rightarrow> nat set" where
  "pic_inService vm = {n. n < 8 \<and> bit (pic_isr (picMaster vm)) n}"

definition pic_line :: "vm_t \<Rightarrow> bool" where
  "pic_line vm \<longleftrightarrow> INTR vm \<noteq> 0"

definition pic_vector :: "vm_t \<Rightarrow> nat \<Rightarrow> Bit32u" where
  "pic_vector vm n = pic_vectorOffset (picMaster vm) + of_nat n"

definition pic_eoi :: "henv \<Rightarrow> nat \<Rightarrow> unit mon" where
  "pic_eoi env n = picOutp env 1 0x20 (0x60 + of_nat n)"

text \<open>Only the eight lines are ever requested or in service, and the line to the processor is up
  exactly while a request can be served.\<close>

definition pic_inv :: "vm_t \<Rightarrow> bool" where
  "pic_inv vm \<longleftrightarrow>
     (\<forall>n \<ge> 8. \<not> bit (pic_irr (picMaster vm)) n \<and> \<not> bit (pic_isr (picMaster vm)) n) \<and>
     (pic_line vm \<longleftrightarrow> pic_inService vm = {} \<and> pic_pending vm \<noteq> {})"

lemmas pic_defs = pic_pending_def pic_masked_def pic_inService_def pic_line_def pic_vector_def

lemma pic_isr_0: "pic_inv vm \<Longrightarrow> pic_isr (picMaster vm) = 0 \<longleftrightarrow> pic_inService vm = {}"
  unfolding pic_inv_def word_0_iff pic_inService_def using not_le by blast

lemma pic_irr_0:
  "pic_inv vm \<Longrightarrow>
   pic_irr (picMaster vm) AND NOT (pic_imr (picMaster vm)) = 0 \<longleftrightarrow> pic_pending vm = {}"
  unfolding pic_inv_def word_0_iff pic_pending_def
  by (auto simp: bit_simps dest: bit_imp_le_length intro: ccontr)

lemma findIrq_le: "b \<le> 8 \<Longrightarrow> findIrq irr b \<le> 8"
  by (induction irr b rule: findIrq.induct) (subst findIrq.simps, auto)

lemma findIrq_Least:
  assumes "bit irr n" "b \<le> n" "n < 8"
  shows "findIrq irr b \<le> n \<and> b \<le> findIrq irr b \<and> bit irr (findIrq irr b) \<and>
    (\<forall>m. b \<le> m \<and> m < findIrq irr b \<longrightarrow> \<not> bit irr m)"
  using assms
proof (induction irr b rule: findIrq.induct)
  case (1 irr b)
  show ?case
  proof (cases "bit irr b")
    case True
    then have "findIrq irr b = b" using 1 by (subst findIrq.simps) simp
    then show ?thesis using 1 True by auto
  next
    case False
    then have b: "b \<le> 7 \<and> irr AND push_bit b 1 = 0" "b \<noteq> n"
      using 1(2-4) by auto
    have eq: "findIrq irr b = findIrq irr (Suc b)"
      by (subst findIrq.simps) (simp only: b if_True simp_thms)
    have "Suc b \<le> n" using b(2) 1(3) by simp
    note IH = 1(1) [OF b(1) 1(2) this 1(4)]
    have "\<not> bit irr m" if "b \<le> m" "m < findIrq irr (Suc b)" for m
      using IH False that by (cases "m = b") auto
    with IH eq show ?thesis by auto
  qed
qed

lemma findIrq_Min:
  assumes "pic_pending vm \<noteq> {}"
  shows "findIrq (pic_irr (picMaster vm) AND NOT (pic_imr (picMaster vm))) 0 = Min (pic_pending vm)"
proof -
  let ?irr = "pic_irr (picMaster vm) AND NOT (pic_imr (picMaster vm))"
  have p: "m \<in> pic_pending vm \<longleftrightarrow> m < 8 \<and> bit ?irr m" for m
    by (auto simp: pic_pending_def bit_simps dest: bit_imp_le_length)
  obtain n where n: "n \<in> pic_pending vm" using assms by blast
  then have f: "findIrq ?irr 0 \<in> pic_pending vm"
    using findIrq_Least [of ?irr n 0] p by auto
  have "findIrq ?irr 0 \<le> m" if "m \<in> pic_pending vm" for m
    using findIrq_Least [of ?irr m 0] that p by auto
  then show ?thesis
    using f by (intro Min_eqI [symmetric]) (auto simp: pic_pending_def)
qed

lemma pic_ack_law:
  assumes inv: "pic_inv vm" and line: "pic_line vm"
  shows "twp (picIAC env) (\<lambda>v vm'. pic_inv vm' \<and> v = pic_vector vm (Min (pic_pending vm)) \<and>
    pic_pending vm' = pic_pending vm - {Min (pic_pending vm)} \<and>
    pic_inService vm' = {Min (pic_pending vm)} \<and> pic_vector vm' = pic_vector vm) vm"
proof -
  have p: "pic_pending vm \<noteq> {}" "pic_inService vm = {}"
    using inv line by (auto simp: pic_inv_def)
  let ?b = "Min (pic_pending vm)"
  have b: "?b \<in> pic_pending vm"
    using p by (intro Min_in) (auto simp: pic_pending_def)
  then have "?b < 8" by (auto simp: pic_pending_def)
  have isr: "pic_isr (picMaster vm) = 0"
    using pic_isr_0 [OF inv] p by simp
  have irr: "pic_irr (picMaster vm) AND NOT (pic_imr (picMaster vm)) \<noteq> 0"
    using pic_irr_0 [OF inv] p by simp
  show ?thesis
    using line isr irr inv \<open>?b < 8\<close>
    unfolding picIAC_def
    by (auto simp: Let_def findIrq_Min [OF p(1)] updMaster_def setINTR_def pic_inv_def pic_defs
        bit_simps fun_eq_iff)
qed

lemma pic_raise_law:
  assumes inv: "pic_inv vm" and n: "n \<in> {0, 3}"
  shows "twp (picIrq env (of_nat n) 1) (\<lambda>_ vm'. pic_inv vm' \<and>
    pic_pending vm' = pic_pending vm \<union> ({n} - pic_masked vm) \<and> pic_masked vm' = pic_masked vm \<and>
    pic_inService vm' = pic_inService vm \<and> pic_vector vm' = pic_vector vm) vm"
proof -
  have mask: "(w :: Bit32u) AND push_bit n 1 = 0 \<longleftrightarrow> \<not> bit w n" for w
    by simp
  have isr: "pic_isr (picMaster vm) = 0 \<longleftrightarrow> pic_inService vm = {}"
    by (rule pic_isr_0 [OF inv])
  have n7: "n < 8" "unat (of_nat n :: Bit32u) = n" "\<not> (of_nat n :: Bit32u) > 15" "(of_nat n :: Bit32u) \<le> 7"
    using n by auto
  have "twp (picIrqMaster n) (\<lambda>_ vm'. pic_inv vm' \<and>
    pic_pending vm' = pic_pending vm \<union> ({n} - pic_masked vm) \<and> pic_masked vm' = pic_masked vm \<and>
    pic_inService vm' = pic_inService vm \<and> pic_vector vm' = pic_vector vm) vm"
    using inv n7(1) isr
    by (auto simp: picIrqMaster_def Let_def updMaster_def setINTR_def mask pic_inv_def pic_defs
        bit_simps fun_eq_iff intro: exI [of _ n])
  then show ?thesis
    by (simp add: picIrq_def n7)
qed

lemma pic_eoi_law:
  assumes inv: "pic_inv vm" and s: "pic_inService vm = {n}" and n: "n \<in> {0, 3}"
  shows "twp (pic_eoi env n) (\<lambda>_ vm'. pic_inv vm' \<and> pic_pending vm' = pic_pending vm \<and>
    pic_inService vm' = {} \<and> pic_vector vm' = pic_vector vm) vm"
proof -
  have "twp (thn (updMaster (\<lambda>p. p\<lparr>pic_isr := pic_isr p AND NOT (push_bit n 1)\<rparr>))
      (thn (setINTR 0) picServiceMaster)) (\<lambda>_ vm'. pic_inv vm' \<and> pic_pending vm' = pic_pending vm \<and>
    pic_inService vm' = {} \<and> pic_vector vm' = pic_vector vm) vm"
  proof -
    have isr: "pic_isr (picMaster vm) AND NOT (push_bit n 1) = 0"
    proof -
      have "m = n" if "bit (pic_isr (picMaster vm)) m" for m
      proof -
        have "m < 8" using inv that unfolding pic_inv_def by (meson not_le)
        then have "m \<in> pic_inService vm" using that by (simp add: pic_inService_def)
        then show ?thesis using s by simp
      qed
      then show ?thesis
        by (auto simp: word_0_iff bit_simps dest: bit_imp_le_length)
    qed
    then show ?thesis
      using inv pic_irr_0 [OF inv]
      by (auto simp: updMaster_def setINTR_def picServiceMaster_def pic_inv_def pic_defs
          fun_eq_iff)
  qed
  moreover have "bit (pic_isr (picMaster vm)) n"
    using s by (auto simp: pic_inService_def)
  ultimately show ?thesis
    using n by (auto simp: pic_eoi_def picOutp_def picOutp20_def Let_def)
qed

interpretation pic: irq_controller pic_inv "{0, 3}" pic_pending pic_masked pic_inService pic_line
  pic_vector "\<lambda>n. picIrq env (of_nat n) 1" "picIAC env" "pic_eoi env" for env
proof unfold_locales
  show "finite (pic_pending vm)" for vm by (simp add: pic_pending_def)
  show "pic_inv vm \<Longrightarrow> pic_line vm \<longleftrightarrow> pic_inService vm = {} \<and> pic_pending vm \<noteq> {}" for vm
    by (simp add: pic_inv_def)
qed (fact pic_raise_law pic_ack_law pic_eoi_law)+

end
