(* ===== verification/Guest_Mem.thy ===== *)
theory Guest_Mem
  imports Mon_Paging Io_Pic
begin

text \<open>
  The monitor's own accesses to guest linear memory, \<^verbatim>\<open>monitor-space/x86-emu.c\<close>:
  \<^verbatim>\<open>translateLinToPhy\<close>, \<^verbatim>\<open>getObjectLAddr\<close>, \<^verbatim>\<open>getGuestDWord\<close>, \<^verbatim>\<open>getGuestWord\<close>,
  \<^verbatim>\<open>writeGuestDWord\<close> and the two descriptor fetches. Every access goes through the window
  \<^verbatim>\<open>tmp_phy_page0\<close>.
\<close>

section \<open>Translation\<close>

definition LinAddrNotAvailable :: Bit32u where "LinAddrNotAvailable = - 1"

definition n_bytes :: "vm_t \<Rightarrow> Bit32u" where
  "n_bytes vm = pg_guest_n_bytes (vm_pages vm)"

definition openPage0 :: "henv \<Rightarrow> Bit32u \<Rightarrow> Bit32u mon" where
  "openPage0 env ppi = bnd (gets tmp_phy_page0) (\<lambda>mo. open_guest_phy_page env ppi mo)"

text \<open>One level of the walk: the entry at a guest physical address, if the address is in memory.\<close>

definition walkEntry :: "henv \<Rightarrow> Bit32u \<Rightarrow> Bit32u option mon" where
  "walkEntry env addr =
     bnd (gets n_bytes) (\<lambda>n.
     if addr \<ge> n then ret None
     else
       bnd (openPage0 env (drop_bit 12 addr)) (\<lambda>page.
       bnd (win_read32 env page (unat (addr AND 0xfff))) (\<lambda>e.
       ret (if e AND 1 = 0 then None else Some e))))"

definition pde_addr :: "Bit32u \<Rightarrow> Bit32u \<Rightarrow> Bit32u" where
  "pde_addr cr3 lAddr = (cr3 AND 0xfffff000) OR drop_bit 20 (lAddr AND 0xffc00000)"

definition pte_addr :: "Bit32u \<Rightarrow> Bit32u \<Rightarrow> Bit32u" where
  "pte_addr pde lAddr = (pde AND 0xfffff000) OR drop_bit 10 (lAddr AND 0x003ff000)"

definition translateLinToPhy :: "henv \<Rightarrow> Bit32u \<Rightarrow> Bit32u mon" where
  "translateLinToPhy env lAddr =
     bnd (gets vm_guest_cpu) (\<lambda>cpu.
     if \<not> cr0_pg cpu then ret lAddr
     else if cpu_cr4 cpu AND 0x00000030 \<noteq> 0 then ret LinAddrNotAvailable
     else
       bnd (walkEntry env (pde_addr (cpu_cr3 cpu) lAddr)) (\<lambda>pde.
       case pde of
         None \<Rightarrow> ret LinAddrNotAvailable
       | Some pde \<Rightarrow>
           bnd (walkEntry env (pte_addr pde lAddr)) (\<lambda>pte.
           case pte of
             None \<Rightarrow> ret LinAddrNotAvailable
           | Some pte \<Rightarrow> ret ((pte AND 0xfffff000) OR (lAddr AND 0x00000fff)))))"

section \<open>Objects\<close>

fun win_readN :: "henv \<Rightarrow> Bit32u \<Rightarrow> nat \<Rightarrow> nat \<Rightarrow> Bit8u list mon" where
  "win_readN env mo off 0 = ret []"
| "win_readN env mo off (Suc n) =
     bnd (win_read8 env mo off) (\<lambda>b. bnd (win_readN env mo (Suc off) n) (\<lambda>bs. ret (b # bs)))"

definition le_word :: "Bit8u list \<Rightarrow> 'a::len word" where
  "le_word bs = foldr (\<lambda>b w. ucast b OR push_bit 8 w) bs 0"

text \<open>\<open>obj\<close> is what the destination holds when the call starts; only a message shows it.\<close>

definition getObjectLAddr :: "henv \<Rightarrow> (nat \<Rightarrow> Bit8u) \<Rightarrow> Bit32u \<Rightarrow> Bit32u \<Rightarrow> Bit8u list mon" where
  "getObjectLAddr env obj lAddr0 len =
     bnd (translateLinToPhy env lAddr0) (\<lambda>pAddr0.
     bnd (gets n_bytes) (\<lambda>n.
     if pAddr0 = LinAddrNotAvailable then
       monpanic env ''getObjectLAddr:(1) lin-->phy translation failed (0x%x).\<newline>'' [ArgU lAddr0]
     else
       (let pOff = pAddr0 AND 0xfff in
        if pOff \<le> 0x1000 - len then
          if pAddr0 > n - len then monpanic env ''getObjectLAddr: pAddr0 OOB (0x%x).\<newline>'' [ArgU pAddr0]
          else
            bnd (openPage0 env (drop_bit 12 pAddr0)) (\<lambda>page.
            win_readN env page (unat pOff) (unat len))
        else
          (let page0Len = 0x1000 - pOff; page1Len = len - page0Len in
           bnd (translateLinToPhy env (lAddr0 + page0Len)) (\<lambda>pAddr1.
           if pAddr1 = LinAddrNotAvailable then
             thn (forM [0..<unat page0Len] (\<lambda>z. monprint env ''  0x%x\<newline>'' [ArgU (ucast (obj z))]))
             (monpanic env ''getObjectLAddr:(2) lin-->phy translation failed (0x%x).\<newline>''
                [ArgU (lAddr0 + page0Len)])
           else if pAddr0 > n - page0Len then
             monpanic env ''getObjectLAddr: pAddr0 OOB (0x%x).\<newline>'' [ArgU pAddr0]
           else if pAddr1 > n - page1Len then
             monpanic env ''getObjectLAddr: pAddr1 OOB (0x%x).\<newline>'' [ArgU pAddr1]
           else
             bnd (openPage0 env (drop_bit 12 pAddr0)) (\<lambda>page.
             bnd (win_readN env page (unat pOff) (unat page0Len)) (\<lambda>bs0.
             bnd (openPage0 env (drop_bit 12 pAddr1)) (\<lambda>page'.
             bnd (win_readN env page' 0 (unat page1Len)) (\<lambda>bs1.
             ret (bs0 @ bs1))))))))))"

definition getGuestDWord :: "henv \<Rightarrow> Bit32u \<Rightarrow> Bit32u mon" where
  "getGuestDWord env lAddr =
     (let pOff = lAddr AND 0xfff in
      if pOff \<le> 0x1000 - 4 then
        bnd (translateLinToPhy env lAddr) (\<lambda>pAddr.
        bnd (gets n_bytes) (\<lambda>n.
        if pAddr = LinAddrNotAvailable then
          monpanic env ''getGuestDWord: could not translate address 0x%x.\<newline>'' [ArgU lAddr]
        else if pAddr > n - 4 then monpanic env ''getGuestDWord: pAddr OOB (0x%x).\<newline>'' [ArgU pAddr]
        else
          bnd (openPage0 env (drop_bit 12 pAddr)) (\<lambda>page.
          win_read32 env page (unat pOff))))
      else bnd (getObjectLAddr env (he_uninit env) lAddr 4) (\<lambda>bs. ret (le_word bs)))"

definition getGuestWord :: "henv \<Rightarrow> Bit32u \<Rightarrow> Bit16u mon" where
  "getGuestWord env lAddr =
     (let pOff = lAddr AND 0xfff in
      if pOff \<le> 0x1000 - 2 then
        bnd (translateLinToPhy env lAddr) (\<lambda>pAddr.
        bnd (gets n_bytes) (\<lambda>n.
        if pAddr = LinAddrNotAvailable then
          monpanic env ''getGuestWord: could not translate address 0x%x.\<newline>'' [ArgU lAddr]
        else if pAddr > n - 2 then monpanic env ''getGuestWord: pAddr OOB (0x%x).\<newline>'' [ArgU pAddr]
        else
          bnd (openPage0 env (drop_bit 12 pAddr)) (\<lambda>page.
          bnd (win_readN env page (unat pOff) 2) (\<lambda>bs. ret (le_word bs)))))
      else bnd (getObjectLAddr env (he_uninit env) lAddr 2) (\<lambda>bs. ret (le_word bs)))"

definition writeGuestDWord :: "henv \<Rightarrow> Bit32u \<Rightarrow> Bit32u \<Rightarrow> unit mon" where
  "writeGuestDWord env lAddr val =
     bnd (translateLinToPhy env lAddr) (\<lambda>pAddr.
     bnd (gets n_bytes) (\<lambda>n.
     if pAddr = LinAddrNotAvailable then
       monpanic env ''writeGuestDWord: could not translate address.\<newline>'' []
     else if pAddr \<ge> n - 3 then monpanic env ''writeGuestDWord: phy address OOB.\<newline>'' []
     else if pAddr AND 0xfff \<ge> 0xffd then monpanic env ''writeGuestDWord: crosses page boundary.\<newline>'' []
     else
       bnd (openPage0 env (drop_bit 12 pAddr)) (\<lambda>page.
       win_write32 env page (unat (pAddr AND 0xfff)) val)))"

section \<open>Descriptors\<close>

text \<open>The checks the two fetches share, and the window and offset of the descriptor.\<close>

definition descWindow :: "henv \<Rightarrow> Bit32u \<Rightarrow> (Bit32u \<times> nat) mon" where
  "descWindow env laddr =
     bnd (translateLinToPhy env laddr) (\<lambda>descriptorPAddr.
     bnd (gets n_bytes) (\<lambda>n.
     if descriptorPAddr = LinAddrNotAvailable then
       monpanic env ''fetchGuestDesc: could not translate descriptor addr.\<newline>'' []
     else if descriptorPAddr AND 7 \<noteq> 0 then
       monpanic env ''fetchGuestDesc: descriptor not 8-byte aligned.\<newline>'' []
     else if descriptorPAddr \<ge> n - 7 then monpanic env ''fetchGuestDesc: descriptor addr OOB.\<newline>'' []
     else
       bnd (openPage0 env (drop_bit 12 descriptorPAddr)) (\<lambda>page.
       ret (page, unat (descriptorPAddr AND 0xfff)))))"

definition fetchGuestDescByLAddr :: "henv \<Rightarrow> Bit32u \<Rightarrow> descriptor_t mon" where
  "fetchGuestDescByLAddr env laddr =
     bnd (descWindow env laddr) (\<lambda>(page, off).
     bnd (win_readN env page off 8) (\<lambda>bs. ret (desc_of_word (le_word bs))))"

definition FetchDescUpdateBusyBit :: Bit32u where "FetchDescUpdateBusyBit = 1"

text \<open>The type field is the low five bits of byte 5 of the descriptor.\<close>

definition readDescBySel :: "henv \<Rightarrow> selector_t \<Rightarrow> Bit32u \<Rightarrow> Bit32u \<Rightarrow> nat \<Rightarrow> descriptor_t mon" where
  "readDescBySel env sel flags page off =
     bnd (win_readN env page off 8) (\<lambda>bs.
     (let desc = desc_of_word (le_word bs) in
      if ucast (d_dpl desc) \<noteq> sel_rpl sel then
        monpanic env ''fetchGuestDesc: descriptor.dpl(%u) != selector.rpl(%u).\<newline>''
          [ArgU (ucast (d_dpl desc)), ArgU (sel_rpl sel)]
      else
        thn (whenM (flags AND FetchDescUpdateBusyBit \<noteq> 0)
              (bnd (win_read8 env page (off + 5)) (\<lambda>b. win_write8 env page (off + 5) (b OR 2))))
        (ret desc)))"

definition fetchGuestDescBySel :: "henv \<Rightarrow> selector_t \<Rightarrow> Bit32u \<Rightarrow> descriptor_t mon" where
  "fetchGuestDescBySel env sel flags =
     (if sel AND 4 \<noteq> 0 then monpanic env ''fetchGuestDesc: selector.ti=1.\<newline>'' []
      else if sel AND 0xfffc = 0 then monpanic env ''fetchGuestDesc: selector NULL.\<newline>'' []
      else
        (let gdtOffset = ucast sel AND NOT 7 in
         bnd (gets (\<lambda>vm. cpu_gdtr (vm_guest_cpu vm))) (\<lambda>gdtr.
         if gdtOffset + 7 > ucast (gi_limit gdtr) then
           monpanic env ''fetchGuestDesc: selector=0x%x OOB.\<newline>'' [ArgU (ucast sel)]
         else
           bnd (descWindow env (gi_base gdtr + gdtOffset)) (\<lambda>(page, off).
           readDescBySel env sel flags page off))))"

section \<open>The accesses stay inside the window\<close>

lemma unat_and_mask:
  "unat ((w :: Bit32u) AND 0xfff) = unat w mod 4096" "unat (w AND 7) = unat w mod 8" "unat (w AND 3) = unat w mod 4"
  by (simp_all add: mask_and_eq unsigned_take_bit_eq take_bit_eq_mod unat_mod_distrib)

lemma aligned_off:
  "(w :: Bit32u) AND 3 = 0 \<Longrightarrow> unat (w AND 0xfff) < 4093"
  "(w :: Bit32u) AND 7 = 0 \<Longrightarrow> unat (w AND 0xfff) \<le> 4088"
proof -
  have small: "y mod 4 = 0 \<Longrightarrow> y < 4093" "y mod 8 = 0 \<Longrightarrow> y \<le> 4088" if "y < 4096" for y :: nat
    using that by presburger+
  have mods: "unat w mod 4096 mod 4 = unat (w AND 3)" "unat w mod 4096 mod 8 = unat (w AND 7)"
    by (simp_all add: unat_and_mask mod_mod_cancel)
  have "unat w mod 4096 < 4096" by simp
  note lt = small [OF this, unfolded mods]
  show "w AND 3 = 0 \<Longrightarrow> unat (w AND 0xfff) < 4093" "w AND 7 = 0 \<Longrightarrow> unat (w AND 0xfff) \<le> 4088"
    unfolding unat_and_mask(1) by (metis lt unat_0)+
qed

lemma walk_addr_aligned: "pde_addr c l AND 3 = 0" "pte_addr c l AND 3 = 0"
proof -
  have "(x AND 0xfffff000) AND 3 = (0 :: Bit32u)" for x
    by (simp add: and.assoc)
  moreover have "drop_bit 20 (l AND 0xffc00000) AND 3 = 0" "drop_bit 10 (l AND 0x003ff000) AND 3 = 0"
    by (simp_all add: drop_bit_and and.assoc)
  ultimately show "pde_addr c l AND 3 = 0" "pte_addr c l AND 3 = 0"
    by (simp_all add: pde_addr_def pte_addr_def bit.conj_disj_distrib2)
qed

lemma object_bounds:
  fixes pOff len :: Bit32u
  assumes "unat len \<le> 4096" "unat pOff < 4096"
  shows "pOff \<le> 0x1000 - len \<longleftrightarrow> unat pOff + unat len \<le> 4096"
    "unat pOff + unat (0x1000 - pOff) = 4096"
    "\<not> pOff \<le> 0x1000 - len \<Longrightarrow> unat (len - (0x1000 - pOff)) = unat len - unat (0x1000 - pOff)"
proof -
  have le: "len \<le> 0x1000" "pOff \<le> 0x1000"
    using assms by (simp_all add: word_le_nat_alt)
  have sub: "unat (0x1000 - len) = 4096 - unat len" "unat (0x1000 - pOff) = 4096 - unat pOff"
    using unat_sub [OF le(1)] unat_sub [OF le(2)] by simp_all
  show first: "pOff \<le> 0x1000 - len \<longleftrightarrow> unat pOff + unat len \<le> 4096"
    unfolding word_le_nat_alt sub using assms(1) by linarith
  show "unat pOff + unat (0x1000 - pOff) = 4096"
    using assms(2) sub by simp
  assume "\<not> pOff \<le> 0x1000 - len"
  then have "0x1000 - pOff \<le> len"
    unfolding first word_le_nat_alt sub using assms by linarith
  then show "unat (len - (0x1000 - pOff)) = unat len - unat (0x1000 - pOff)"
    by (rule unat_sub)
qed

lemma offset_bound: "unat ((w :: Bit32u) AND 0xfff) < 4096"
  by (simp add: unat_and_mask)

lemma pres_win_readN: "off + n \<le> 4096 \<Longrightarrow> pres I (win_readN env mo off n)"
proof (induction n arbitrary: off)
  case (Suc n)
  then show ?case by (auto intro!: pres_rules pres_win_read8 Suc.IH)
qed (simp add: pres_ret)

text \<open>\<open>mem_frame I\<close>: opening a window keeps \<open>I\<close>. Every access of the monitor to guest memory then
  keeps it, and stays inside the window: no access is out of bounds.\<close>

locale mem_frame = dev_frame +
  assumes open_pres [pres_rules]: "pres I (open_guest_phy_page env ppi mo)"
begin

lemma openPage0_pres [pres_rules]: "pres I (openPage0 env ppi)"
  unfolding openPage0_def by (intro pres_rules)

lemma walkEntry_pres: "addr AND 3 = 0 \<Longrightarrow> pres I (walkEntry env addr)"
  unfolding walkEntry_def by (intro pres_rules pres_win_read32 aligned_off)

lemma translateLinToPhy_pres [pres_rules]: "pres I (translateLinToPhy env lAddr)"
  unfolding translateLinToPhy_def by (intro pres_rules walkEntry_pres walk_addr_aligned)

lemma getObjectLAddr_pres: 
  assumes len: "unat len \<le> 4096"
  shows "pres I (getObjectLAddr env obj lAddr len)"
  unfolding getObjectLAddr_def Let_def
  by (intro pres_rules pres_monpanic pres_win_readN)
    (use object_bounds [OF len offset_bound] len in auto)

lemma getGuestDWord_pres [pres_rules]: "pres I (getGuestDWord env lAddr)"
  unfolding getGuestDWord_def Let_def
  by (intro pres_rules pres_monpanic pres_win_read32 getObjectLAddr_pres) (simp_all add: word_le_nat_alt)

lemma getGuestWord_pres [pres_rules]: "pres I (getGuestWord env lAddr)"
  unfolding getGuestWord_def Let_def
  by (intro pres_rules pres_monpanic pres_win_readN getObjectLAddr_pres) (simp_all add: word_le_nat_alt)

lemma writeGuestDWord_pres [pres_rules]: "pres I (writeGuestDWord env lAddr v)"
  unfolding writeGuestDWord_def
  by (intro pres_rules pres_monpanic win_write32_pres) (simp add: word_le_nat_alt)

text \<open>The window and offset a descriptor is read from.\<close>

lemma descWindow_wp:
  assumes "I vm"
  shows "wp (descWindow env laddr) (\<lambda>(page, off) vm'. I vm' \<and> off + 8 \<le> 4096) vm"
proof -
  have "wp (translateLinToPhy env laddr) (\<lambda>_. I) vm"
    by (rule presD [OF translateLinToPhy_pres assms])
  then show ?thesis
    unfolding descWindow_def
    by (auto elim!: wp_mono intro!: wp_mono [OF presD [OF openPage0_pres]] aligned_off)
qed

lemma pres_descWindow:
  assumes "\<And>page off. off + 8 \<le> 4096 \<Longrightarrow> pres I (m page off)"
  shows "pres I (bnd (descWindow env laddr) (\<lambda>(page, off). m page off))"
  by (rule presI, rule wp_bndI [OF descWindow_wp]) (auto intro: presD [OF assms])

lemma fetchGuestDescByLAddr_pres [pres_rules]: "pres I (fetchGuestDescByLAddr env laddr)"
  unfolding fetchGuestDescByLAddr_def by (intro pres_descWindow pres_rules pres_win_readN)

lemma fetchGuestDescBySel_wp:
  assumes "I vm"
  shows "wp (fetchGuestDescBySel env sel flags) (\<lambda>d vm'. I vm' \<and> ucast (d_dpl d) = sel_rpl sel) vm"
proof -
  have "wp (readDescBySel env sel flags page off) (\<lambda>d vm'. I vm' \<and> ucast (d_dpl d) = sel_rpl sel) vm'"
    if "I vm'" "off + 8 \<le> 4096" for page off vm'
    unfolding readDescBySel_def
    by (rule wp_bndI [OF presD [where I = I, OF pres_win_readN that(1)]])
      (use that in \<open>auto simp: Let_def win_read8_def win_write8_def print_fr\<close>)
  then show ?thesis
    using assms unfolding fetchGuestDescBySel_def Let_def wp_bnd
    by (auto intro!: wp_mono [OF descWindow_wp])
qed

lemma fetchGuestDescBySel_pres [pres_rules]: "pres I (fetchGuestDescBySel env sel flags)"
  unfolding fetchGuestDescBySel_def readDescBySel_def
  by (intro pres_rules pres_monpanic pres_descWindow pres_win_readN pres_win_read8 win_write8_pres) simp_all

end

interpretation isolated_mem: mem_frame "isolated m c"
  by unfold_locales (simp_all add: isolated_defs open_guest_phy_page_pres)

section \<open>What the accesses return\<close>

text \<open>
  The guest's view of its memory while all its pages are pinned: byte \<open>a\<close> of guest physical memory
  is at offset \<open>a mod 4096\<close> of the host page of page \<open>a div 4096\<close>. \<open>linToPhy\<close> is the translation
  of the two-level page tables in that view.
\<close>

definition allPinned :: "vm_t \<Rightarrow> bool" where
  "allPinned vm \<longleftrightarrow>
     n_bytes vm = push_bit 12 (pg_guest_n_pages (vm_pages vm)) \<and> pg_guest_n_pages (vm_pages vm) < 0x100000 \<and>
     (\<forall>ppi < pg_guest_n_pages (vm_pages vm). pp_pinned (vm_guestPageInfo vm (unat ppi)) \<and>
        pp_hostPPI (vm_guestPageInfo vm (unat ppi)) < 0x100000)"

definition gbyte :: "vm_t \<Rightarrow> Bit32u \<Rightarrow> Bit8u" where
  "gbyte vm a =
     vm_phymem vm (push_bit 12 (pp_hostPPI (vm_guestPageInfo vm (unat (drop_bit 12 a)))) OR (a AND 0xfff))"

definition gdword :: "vm_t \<Rightarrow> Bit32u \<Rightarrow> Bit32u" where
  "gdword vm a = ucast (gbyte vm a) OR push_bit 8 (ucast (gbyte vm (a + 1))) OR
     push_bit 16 (ucast (gbyte vm (a + 2))) OR push_bit 24 (ucast (gbyte vm (a + 3)))"

definition tableEntry :: "vm_t \<Rightarrow> Bit32u \<Rightarrow> Bit32u option" where
  "tableEntry vm a = (if a < n_bytes vm \<and> pe_P (gdword vm a) then Some (gdword vm a) else None)"

definition linToPhy :: "vm_t \<Rightarrow> Bit32u \<Rightarrow> Bit32u option" where
  "linToPhy vm l =
     (let cpu = vm_guest_cpu vm in
      if \<not> cr0_pg cpu then Some l
      else if cpu_cr4 cpu AND 0x30 \<noteq> 0 then None
      else Option.bind (tableEntry vm (push_bit 12 (pe_base (cpu_cr3 cpu)) + 4 * of_nat (lin_pdi l))) (\<lambda>pde.
        Option.bind (tableEntry vm (push_bit 12 (pe_base pde) + 4 * of_nat (lin_pti l))) (\<lambda>pte.
        Some (push_bit 12 (pe_base pte) + (l AND 0xfff)))))"

text \<open>Two states that differ only in what opening a window changes.\<close>

definition windowOnly :: "vm_t \<Rightarrow> vm_t \<Rightarrow> bool" where
  "windowOnly vm vm' \<longleftrightarrow> (\<exists>t h. vm' = vm\<lparr>vm_nexus_page_tbl := t, vm_hw := h\<rparr>)"

lemma windowOnly_refl [simp]: "windowOnly vm vm"
  unfolding windowOnly_def
  by (rule exI [of _ "vm_nexus_page_tbl vm"], rule exI [of _ "vm_hw vm"]) simp

lemma windowOnly_trans: "windowOnly a b \<Longrightarrow> windowOnly b c \<Longrightarrow> windowOnly a c"
  unfolding windowOnly_def by fastforce

lemma windowOnly_same:
  assumes "windowOnly vm vm'"
  shows "allPinned vm' = allPinned vm" "gbyte vm' = gbyte vm" "n_bytes vm' = n_bytes vm" 
    "vm_guest_cpu vm' = vm_guest_cpu vm" "gdword vm' = gdword vm" "linToPhy vm' = linToPhy vm"
    "tmp_phy_page0 vm' = tmp_phy_page0 vm"
proof -
  obtain t h where vm': "vm' = vm\<lparr>vm_nexus_page_tbl := t, vm_hw := h\<rparr>"
    using assms by (auto simp: windowOnly_def)
  have entry: "tableEntry (vm\<lparr>vm_nexus_page_tbl := t, vm_hw := h\<rparr>) = tableEntry vm"
    by (simp add: fun_eq_iff tableEntry_def gdword_def gbyte_def n_bytes_def)
  show "allPinned vm' = allPinned vm" "gbyte vm' = gbyte vm" "n_bytes vm' = n_bytes vm" 
    "vm_guest_cpu vm' = vm_guest_cpu vm" "gdword vm' = gdword vm" "linToPhy vm' = linToPhy vm"
    "tmp_phy_page0 vm' = tmp_phy_page0 vm"
    by (simp_all add: vm' fun_eq_iff allPinned_def gbyte_def n_bytes_def gdword_def linToPhy_def Let_def entry
        tmp_phy_page0_def)
qed

text \<open>After opening guest page \<open>ppi\<close>, the window shows its bytes.\<close>

definition shows_page :: "henv \<Rightarrow> vm_t \<Rightarrow> Bit32u \<Rightarrow> Bit32u \<Rightarrow> bool" where
  "shows_page env vm page ppi \<longleftrightarrow>
     pe_base (vm_nexus_page_tbl vm (window_pti env page)) = pp_hostPPI (vm_guestPageInfo vm (unat ppi))"

lemma take_bit_less: "(w :: Bit32u) < 0x100000 \<Longrightarrow> take_bit 20 w = w"
proof -
  assume "w < 0x100000"
  then have "unat w < 2 ^ 20" by (simp add: word_less_nat_alt)
  then have "take_bit 20 (unat w) = unat w" by (rule take_bit_nat_eq_self)
  then show ?thesis by (metis unsigned_take_bit_eq unat_eq_unat)
qed

lemma openPage0_twp:
  assumes "allPinned vm" "ppi < pg_guest_n_pages (vm_pages vm)"
  shows "twp (openPage0 env ppi) (\<lambda>page vm'. page = tmp_phy_page0 vm \<and> windowOnly vm vm' \<and>
     shows_page env vm' page ppi) vm"
proof -
  have "pp_pinned (vm_guestPageInfo vm (unat ppi))"
    "take_bit 20 (pp_hostPPI (vm_guestPageInfo vm (unat ppi))) = pp_hostPPI (vm_guestPageInfo vm (unat ppi))"
    using assms take_bit_less by (auto simp: allPinned_def)
  then show ?thesis
    using assms(2)
    by (auto simp: openPage0_def open_guest_phy_page_def Let_def MonAssert_def getHostOSPinnedPage_def
        pageInfo_def word_less_nat_alt invlpg_mon_offset_def shows_page_def pe_base_set_base windowOnly_def)
qed

lemma page_addr:
  fixes ppi :: Bit32u
  assumes "ppi < 0x100000" "off < 4096"
  shows "drop_bit 12 (push_bit 12 ppi + of_nat off) = ppi" "(push_bit 12 ppi + of_nat off) AND 0xfff = of_nat off"
    "push_bit 12 ppi + of_nat off = push_bit 12 ppi OR of_nat off"
proof -
  have off: "take_bit 12 (of_nat off :: Bit32u) = of_nat off"
    using assms(2)
    by (intro word_unat_eq_iff [THEN iffD2]) (simp add: unsigned_take_bit_eq unat_of_nat take_bit_nat_eq_self)
  have disj: "push_bit 12 ppi AND of_nat off = 0"
    by (subst off [symmetric]) (auto intro!: bit_word_eqI simp: bit_simps)
  show sum: "push_bit 12 ppi + of_nat off = push_bit 12 ppi OR of_nat off"
    by (rule disjunctive_add_eq_or [OF disj])
  have "drop_bit 12 (of_nat off :: Bit32u) = 0"
    by (subst off [symmetric]) (auto intro!: bit_word_eqI simp: bit_simps)
  then show "drop_bit 12 (push_bit 12 ppi + of_nat off) = ppi"
    by (simp add: sum drop_bit_or drop_push_bit_32 take_bit_less assms(1))
  have "push_bit 12 ppi AND 0xfff = 0"
    by (auto intro!: bit_word_eqI simp: mask_and_eq bit_simps)
  then show "(push_bit 12 ppi + of_nat off) AND 0xfff = of_nat off"
    by (simp add: sum bit.conj_disj_distrib2 mask_and_eq off)
qed

lemma win_read8_twp:
  assumes "shows_page env vm page ppi" "ppi < 0x100000" "off < 4096"
  shows "win_read8 env page off vm = Ret (gbyte vm (push_bit 12 ppi + of_nat off)) vm"
  using assms by (simp add: win_read8_def window_addr_def gbyte_def shows_page_def page_addr(1,2))

lemma win_read32_twp:
  assumes "shows_page env vm page ppi" "ppi < 0x100000" "off < 4093"
  shows "win_read32 env page off vm = Ret (gdword vm (push_bit 12 ppi + of_nat off)) vm"
  using assms by (simp add: win_read32_def win_read8_twp gdword_def ac_simps)

lemma win_readN_twp:
  assumes "shows_page env vm page ppi" "ppi < 0x100000" "off + n \<le> 4096"
  shows "win_readN env page off n vm =
    Ret (map (\<lambda>i. gbyte vm (push_bit 12 ppi + of_nat i)) [off..<off + n]) vm"
  using assms(3)
proof (induction n arbitrary: off)
  case (Suc n)
  have "[off..<off + Suc n] = off # [Suc off..<Suc off + n]"
    by (simp add: upt_rec)
  then show ?case
    using Suc assms by (simp add: win_read8_twp)
qed simp

text \<open>The addresses of the entries, as page and index.\<close>

lemma pde_addr_eq: "pde_addr cr3 l = push_bit 12 (pe_base cr3) + of_nat (4 * lin_pdi l)"
  and pte_addr_eq: "pte_addr pde l = push_bit 12 (pe_base pde) + of_nat (4 * lin_pti l)"
proof -
  have m: "(0xfffff000 :: Bit32u) = push_bit 12 (mask 20)" "(0xffc00000 :: Bit32u) = push_bit 22 (mask 10)"
    "(0x003ff000 :: Bit32u) = push_bit 12 (mask 10)"
    by (simp_all add: mask_eq_exp_minus_1)
  have base: "(x :: Bit32u) AND 0xfffff000 = push_bit 12 (pe_base x)" for x
    unfolding m pe_base_def by (rule bit_word_eqI) (auto simp: bit_simps)
  have idx: "drop_bit 20 (l AND 0xffc00000) = push_bit 2 (drop_bit 22 l)"
    "drop_bit 10 (l AND 0x003ff000) = push_bit 2 (take_bit 10 (drop_bit 12 l))"
    unfolding m by (rule bit_word_eqI; auto simp: bit_simps dest: bit_imp_le_length)+
  have four: "push_bit 2 w = of_nat (4 * unat w)" for w :: Bit32u
    by (simp add: push_bit_eq_mult)
  have lt: "pe_base x < 0x100000" for x
    using pe_base_bound [of x] by (simp add: word_less_nat_alt)
  show "pde_addr cr3 l = push_bit 12 (pe_base cr3) + of_nat (4 * lin_pdi l)"
    unfolding pde_addr_def base idx(1) four lin_pdi_def [symmetric]
    by (rule page_addr(3) [symmetric, OF lt]) (use lin_offset_bounds [of l] in linarith)
  show "pte_addr pde l = push_bit 12 (pe_base pde) + of_nat (4 * lin_pti l)"
    unfolding pte_addr_def base idx(2) four mask_and_eq [symmetric] lin_pti_def [symmetric]
    by (rule page_addr(3) [symmetric, OF lt]) (use lin_offset_bounds [of l] in linarith)
qed

lemma page_below:
  assumes "allPinned vm" "a < n_bytes vm"
  shows "drop_bit 12 a < pg_guest_n_pages (vm_pages vm)"
proof -
  have n: "n_bytes vm = push_bit 12 (pg_guest_n_pages (vm_pages vm))" "pg_guest_n_pages (vm_pages vm) < 0x100000"
    using assms(1) by (auto simp: allPinned_def)
  have un: "unat (push_bit 12 (pg_guest_n_pages (vm_pages vm))) = unat (pg_guest_n_pages (vm_pages vm)) * 4096"
    using n(2) by (simp add: push_bit_eq_mult unat_word_ariths word_less_nat_alt)
  have "unat (drop_bit 12 a) = unat a div 2 ^ 12"
    by (simp only: unat_drop_bit_eq flip: drop_bit_eq_div)
  then show ?thesis
    using assms(2) unfolding n word_less_nat_alt un by (simp add: less_mult_imp_div_less)
qed

lemma addr_split:
  fixes a :: Bit32u
  shows "push_bit 12 (drop_bit 12 a) + (a AND 0xfff) = a" "drop_bit 12 a < 0x100000"
proof -
  show lt: "drop_bit 12 a < 0x100000"
    using pe_base_bound [of a] by (simp add: word_less_nat_alt pe_base_def)
  have "push_bit 12 (drop_bit 12 a) OR (a AND 0xfff) = a"
    by (rule bit_word_eqI) (auto simp: mask_and_eq bit_simps)
  then show "push_bit 12 (drop_bit 12 a) + (a AND 0xfff) = a"
    using page_addr(3) [OF lt, of "unat (a AND 0xfff)"] by simp
qed

lemma walkEntry_twp:
  assumes "allPinned vm" "a AND 3 = 0"
  shows "twp (walkEntry env a) (\<lambda>e vm'. e = tableEntry vm a \<and> windowOnly vm vm') vm"
proof (cases "a < n_bytes vm")
  case True
  have "twp (openPage0 env (drop_bit 12 a)) (\<lambda>page. twp (bnd (win_read32 env page (unat (a AND 0xfff)))
      (\<lambda>e. ret (if e AND 1 = 0 then None else Some e))) (\<lambda>e vm'. e = tableEntry vm a \<and> windowOnly vm vm')) vm"
    by (rule twp_mono [OF openPage0_twp [OF assms(1) page_below [OF assms(1) True]]])
      (use True in \<open>auto simp: twp_Ret_eq [OF win_read32_twp [OF _ addr_split(2) aligned_off(1) [OF assms(2)]]]
         addr_split windowOnly_same tableEntry_def pe_P_def and_exp_eq_0_iff_not_bit [of _ 0, simplified]\<close>)
  then show ?thesis
    using True by (simp add: walkEntry_def flip: not_less)
qed (simp add: walkEntry_def tableEntry_def flip: not_less)

text \<open>The translation of the code is the translation of the tables.\<close>

definition avail :: "Bit32u option \<Rightarrow> Bit32u" where
  "avail r = (case r of None \<Rightarrow> LinAddrNotAvailable | Some a \<Rightarrow> a)"

lemma base_or: "(x AND 0xfffff000) OR (l AND 0xfff) = push_bit 12 (pe_base x) + (l AND (0xfff :: Bit32u))"
proof -
  have m: "(0xfffff000 :: Bit32u) = push_bit 12 (mask 20)"
    by (simp add: mask_eq_exp_minus_1)
  have "x AND 0xfffff000 = push_bit 12 (pe_base x)"
    unfolding m pe_base_def by (rule bit_word_eqI) (auto simp: bit_simps)
  then show ?thesis
    using page_addr(3) [OF addr_split(2) [of x] offset_bound [of l]] by (simp add: pe_base_def)
qed

lemma linToPhy_eq:
  "linToPhy vm l =
     (let cpu = vm_guest_cpu vm in
      if \<not> cr0_pg cpu then Some l
      else if cpu_cr4 cpu AND 0x30 \<noteq> 0 then None
      else Option.bind (tableEntry vm (pde_addr (cpu_cr3 cpu) l)) (\<lambda>pde.
        Option.bind (tableEntry vm (pte_addr pde l)) (\<lambda>pte. Some ((pte AND 0xfffff000) OR (l AND 0xfff)))))"
  by (simp add: linToPhy_def pde_addr_eq pte_addr_eq base_or Let_def)

lemma translateLinToPhy_twp:
  assumes "allPinned vm"
  shows "twp (translateLinToPhy env l) (\<lambda>r vm'. r = avail (linToPhy vm l) \<and> windowOnly vm vm') vm"
proof -
  have entry: "twp (walkEntry env a) (\<lambda>e vm'. e = tableEntry vm a \<and> windowOnly vm vm') vm1"
    if "windowOnly vm vm1" "a AND 3 = 0" for vm1 a
    by (rule twp_mono [OF walkEntry_twp])
      (use that assms in \<open>auto simp: windowOnly_same tableEntry_def intro: windowOnly_trans\<close>)
  let ?Q = "\<lambda>pde pte. (\<lambda>r vm'. r = avail (Option.bind pde (\<lambda>pde. Option.bind (pte pde)
      (\<lambda>pte. Some ((pte AND 0xfffff000) OR (l AND 0xfff))))) \<and> windowOnly vm vm')"
  have "twp (walkEntry env (pde_addr (cpu_cr3 (vm_guest_cpu vm)) l)) (\<lambda>pde. twp (case pde of
         None \<Rightarrow> ret LinAddrNotAvailable
       | Some pde \<Rightarrow>
           bnd (walkEntry env (pte_addr pde l)) (\<lambda>pte.
           case pte of
             None \<Rightarrow> ret LinAddrNotAvailable
           | Some pte \<Rightarrow> ret ((pte AND 0xfffff000) OR (l AND 0x00000fff))))
     (?Q (tableEntry vm (pde_addr (cpu_cr3 (vm_guest_cpu vm)) l)) (\<lambda>pde. tableEntry vm (pte_addr pde l)))) vm"
    by (rule twp_mono [OF entry])
      (auto simp: walk_addr_aligned avail_def split: option.split intro!: twp_mono [OF entry])
  then show ?thesis
    unfolding translateLinToPhy_def linToPhy_eq by (auto simp: Let_def avail_def)
qed

text \<open>Inside one page, the translation moves with the address.\<close>

lemma same_page:
  fixes l :: Bit32u
  assumes "unat (l AND 0xfff) + i < 4096"
  shows "drop_bit 12 (l + of_nat i) = drop_bit 12 l" "(l + of_nat i) AND 0xfff = (l AND 0xfff) + of_nat i"
proof -
  have eq: "push_bit 12 (drop_bit 12 l) + of_nat (unat (l AND 0xfff) + i) = l + of_nat i"
    using addr_split(1) [of l] by (simp add: add.assoc [symmetric])
  show "drop_bit 12 (l + of_nat i) = drop_bit 12 l" "(l + of_nat i) AND 0xfff = (l AND 0xfff) + of_nat i"
    using page_addr(1,2) [OF addr_split(2) [of l] assms] unfolding eq by simp_all
qed

lemma linToPhy_same_page:
  assumes "unat (l AND 0xfff) + i < 4096" "linToPhy vm l = Some a"
  shows "linToPhy vm (l + of_nat i) = Some (a + of_nat i)"
proof -
  have "lin_pdi (l + of_nat i) = lin_pdi l" "lin_pti (l + of_nat i) = lin_pti l"
    using same_page(1) [OF assms(1)] unfolding lin_pdi_def lin_pti_def drop_bit_12_10 [symmetric] by simp_all
  then show ?thesis
    using assms same_page(2) [OF assms(1)]
    by (auto simp: linToPhy_def Let_def bind_eq_Some_conv split: if_splits)
qed

lemma linToPhy_offset:
  assumes "linToPhy vm l = Some a"
  shows "a AND 0xfff = l AND 0xfff"
proof -
  have "(push_bit 12 (pe_base x) + (l AND 0xfff)) AND 0xfff = l AND 0xfff" for x
    using page_addr(2) [OF addr_split(2) offset_bound, of x l] by (simp add: pe_base_def)
  then show ?thesis
    using assms by (auto simp: linToPhy_def Let_def bind_eq_Some_conv split: if_splits)
qed

lemma page_bytes:
  assumes "shows_page env vm page (drop_bit 12 a)" "unat (a AND 0xfff) + n \<le> 4096"
  shows "win_readN env page (unat (a AND 0xfff)) n vm = Ret (map (\<lambda>i. gbyte vm (a + of_nat i)) [0..<n]) vm"
proof -
  let ?k = "unat (a AND 0xfff)"
  have "push_bit 12 (drop_bit 12 a) + of_nat (?k + i) = a + of_nat i" for i
    using addr_split(1) [of a] by (simp add: add.assoc [symmetric])
  then have "map (\<lambda>i. gbyte vm (push_bit 12 (drop_bit 12 a) + of_nat i)) [?k..<?k + n] =
    map (\<lambda>i. gbyte vm (a + of_nat i)) [0..<n]"
    by (intro nth_equalityI) (simp_all del: of_nat_add)
  then show ?thesis
    using win_readN_twp [OF assms(1) addr_split(2) assms(2)] by simp
qed

lemma openRead_twp:
  assumes "windowOnly vm vm1" "allPinned vm" "a < n_bytes vm" "unat (a AND 0xfff) + n \<le> 4096"
  shows "twp (bnd (openPage0 env (drop_bit 12 a)) (\<lambda>page. win_readN env page (unat (a AND 0xfff)) n))
     (\<lambda>bs vm'. bs = map (\<lambda>i. gbyte vm (a + of_nat i)) [0..<n] \<and> windowOnly vm vm') vm1"
proof -
  have "allPinned vm1" "drop_bit 12 a < pg_guest_n_pages (vm_pages vm1)"
    using assms page_below [of vm1 a] by (simp_all add: windowOnly_same)
  then show ?thesis
    unfolding twp_fun
    by (intro twp_mono [OF openPage0_twp])
      (auto simp: twp_Ret_eq [OF page_bytes [OF _ assms(4)]] windowOnly_same assms(1)
        intro: windowOnly_trans [OF assms(1)] dest: windowOnly_trans [OF assms(1)] windowOnly_same(2))
qed

text \<open>
  An object of up to 4096 bytes is read as it lies in the linear address space, across a page boundary
  too, when each of its bytes is mapped to memory of the machine.
\<close>

lemma last_below:
  fixes a n len :: Bit32u
  assumes below: "\<And>i. i < unat len \<Longrightarrow> a + of_nat i < n" and len: "0 < unat len"
    and page: "unat (a AND 0xfff) + unat len \<le> 4096"
  shows "\<not> a > n - len" "a < n"
proof -
  let ?k = "unat len - 1"
  have k: "?k < 4096" "?k < unat len" using page len by linarith+
  have "unat a div 4096 < 1048576" using unat_less_32 [of a] by (simp add: less_mult_imp_div_less)
  then have "unat a div 4096 + 1 \<le> 1048576" by simp
  then have "unat a + ?k < 4294967296"
    using page len mult_div_mod_eq [of 4096 "unat a"] unfolding unat_and_mask by linarith
  then have "unat (a + of_nat ?k) = unat a + ?k"
    using k(1) by (simp add: unat_word_ariths unat_of_nat)
  then have n: "unat a + unat len \<le> unat n"
    using below [OF k(2)] len by (simp add: word_less_nat_alt)
  then have "unat (n - len) = unat n - unat len"
    by (intro unat_sub) (simp add: word_le_nat_alt)
  then show "\<not> a > n - len"
    using n by (simp add: word_less_nat_alt)
  show "a < n" using below [of 0] len by simp
qed

definition mappedBytes :: "vm_t \<Rightarrow> Bit32u \<Rightarrow> nat \<Rightarrow> bool" where
  "mappedBytes vm l n \<longleftrightarrow> (\<forall>i < n. \<exists>a. linToPhy vm (l + of_nat i) = Some a \<and> a < n_bytes vm)"

definition linBytes :: "vm_t \<Rightarrow> Bit32u \<Rightarrow> nat \<Rightarrow> Bit8u list" where
  "linBytes vm l n = map (\<lambda>i. gbyte vm (the (linToPhy vm (l + of_nat i)))) [0..<n]"

lemma mappedBytes_split: "mappedBytes vm l (m + n) \<longleftrightarrow> mappedBytes vm l m \<and> mappedBytes vm (l + of_nat m) n"
proof
  assume *: "mappedBytes vm l (m + n)"
  have "\<exists>a. linToPhy vm (l + of_nat m + of_nat i) = Some a \<and> a < n_bytes vm" if "i < n" for i
    using * [unfolded mappedBytes_def, rule_format, of "m + i"] that by (simp add: add.assoc)
  then show "mappedBytes vm l m \<and> mappedBytes vm (l + of_nat m) n"
    using * by (simp add: mappedBytes_def)
next
  assume *: "mappedBytes vm l m \<and> mappedBytes vm (l + of_nat m) n"
  have "\<exists>a. linToPhy vm (l + of_nat i) = Some a \<and> a < n_bytes vm" if "i < m + n" for i
  proof (cases "i < m")
    case False
    then have "l + of_nat i = l + of_nat m + of_nat (i - m)" by simp
    then show ?thesis using * that False unfolding mappedBytes_def by (metis add_less_imp_less_left le_add_diff_inverse not_less)
  qed (use * in \<open>simp add: mappedBytes_def\<close>)
  then show "mappedBytes vm l (m + n)" by (simp add: mappedBytes_def)
qed

lemma linBytes_split: "linBytes vm l (m + n) = linBytes vm l m @ linBytes vm (l + of_nat m) n"
  by (rule nth_equalityI) (auto simp: linBytes_def nth_append)

text \<open>A run of mapped bytes inside one page.\<close>

lemma mapped_run:
  assumes len: "0 < unat len" "unat (l AND 0xfff) + unat len \<le> 4096" and mapped: "mappedBytes vm l (unat len)"
  obtains a where "linToPhy vm l = Some a" "a AND 0xfff = l AND 0xfff" "\<not> a > n_bytes vm - len"
    "a < n_bytes vm" "a \<noteq> LinAddrNotAvailable"
    "linBytes vm l (unat len) = map (\<lambda>i. gbyte vm (a + of_nat i)) [0..<unat len]"
proof -
  obtain a where a: "linToPhy vm l = Some a" using mapped len by (fastforce simp: mappedBytes_def)
  have off: "a AND 0xfff = l AND 0xfff" by (rule linToPhy_offset [OF a])
  have each: "linToPhy vm (l + of_nat i) = Some (a + of_nat i)" if "i < unat len" for i
    using that len(2) a by (intro linToPhy_same_page) auto
  have lt: "a + of_nat i < n_bytes vm" if "i < unat len" for i
    using mapped each [OF that] that by (auto simp: mappedBytes_def)
  note below = last_below [OF lt len(1), unfolded off, OF _ len(2)]
  show ?thesis
    by (rule that [OF a off]) (use below each in \<open>auto simp: linBytes_def LinAddrNotAvailable_def\<close>)
qed

lemma getObjectLAddr_in_page:
  assumes pin: "allPinned vm" and len: "0 < unat len" "unat (l AND 0xfff) + unat len \<le> 4096"
    and mapped: "mappedBytes vm l (unat len)"
  shows "twp (getObjectLAddr env obj l len) (\<lambda>bs vm'. bs = linBytes vm l (unat len) \<and> windowOnly vm vm') vm"
proof -
  obtain a where a: "linToPhy vm l = Some a" "a AND 0xfff = l AND 0xfff" "\<not> a > n_bytes vm - len"
    "a < n_bytes vm" "a \<noteq> LinAddrNotAvailable"
    "linBytes vm l (unat len) = map (\<lambda>i. gbyte vm (a + of_nat i)) [0..<unat len]"
    by (rule mapped_run [OF len mapped])
  have fits: "a AND 0xfff \<le> 0x1000 - len"
    using object_bounds(1) [of len "a AND 0xfff"] len a(2) by simp
  show ?thesis
    unfolding getObjectLAddr_def twp_fun a(6)
    by (rule twp_mono [OF translateLinToPhy_twp [OF pin]])
      (use a(3-5) fits len(2) [folded a(2)] in \<open>auto simp: a(1) avail_def Let_def windowOnly_same
        intro!: openRead_twp [OF _ pin a(4)] simp del: twp_bnd\<close>)
qed

lemma bnd_assoc: "bnd (bnd m f) g = bnd m (\<lambda>x. bnd (f x) g)"
  by (simp add: fun_eq_iff bnd_def split: outcome.splits)

lemma next_page: "(l + (0x1000 - (l AND 0xfff))) AND 0xfff = (0 :: Bit32u)"
proof -
  have "l - (l AND 0xfff) = push_bit 12 (drop_bit 12 l)"
    using addr_split(1) [of l] by (simp only: diff_eq_eq)
  moreover have "l + (0x1000 - x) = l - x + 0x1000" for x
    by simp
  ultimately have "l + (0x1000 - (l AND 0xfff)) = push_bit 12 (drop_bit 12 l) + 0x1000"
    by (simp only:)
  also have "push_bit 12 (drop_bit 12 l) + 0x1000 = push_bit 12 (drop_bit 12 l + 1)"
    by (simp add: push_bit_eq_mult algebra_simps)
  finally show ?thesis
    by (auto intro!: bit_word_eqI simp: mask_and_eq bit_simps)
qed

lemma getObjectLAddr_crossing:
  assumes pin: "allPinned vm" and len: "unat len \<le> 4096" "unat (l AND 0xfff) + unat len > 4096"
    and mapped: "mappedBytes vm l (unat len)"
  shows "twp (getObjectLAddr env obj l len) (\<lambda>bs vm'. bs = linBytes vm l (unat len) \<and> windowOnly vm vm') vm"
proof -
  define n0 where "n0 = 0x1000 - (l AND 0xfff)"
  define n1 where "n1 = len - n0"
  have ob: "\<not> (l AND 0xfff) \<le> 0x1000 - len" "unat (l AND 0xfff) + unat n0 = 4096" "unat n1 = unat len - unat n0"
    using object_bounds [OF len(1) offset_bound, of l] len unfolding n0_def n1_def by auto
  then have n: "0 < unat n0" "0 < unat n1" "unat n1 \<le> 4096" "unat len = unat n0 + unat n1" "unat n0 < unat len"
    using len offset_bound [of l] by linarith+
  have l1: "(l + n0) AND 0xfff = 0" unfolding n0_def by (rule next_page)
  have m: "mappedBytes vm l (unat n0)" "mappedBytes vm (l + n0) (unat n1)"
    "linBytes vm l (unat len) = linBytes vm l (unat n0) @ linBytes vm (l + n0) (unat n1)"
    using mapped linBytes_split [of vm l "unat n0" "unat n1"] unfolding n(4) mappedBytes_split by simp_all
  obtain a0 where a0: "linToPhy vm l = Some a0" "a0 AND 0xfff = l AND 0xfff" "\<not> a0 > n_bytes vm - n0"
    "a0 < n_bytes vm" "a0 \<noteq> LinAddrNotAvailable"
    "linBytes vm l (unat n0) = map (\<lambda>i. gbyte vm (a0 + of_nat i)) [0..<unat n0]"
    by (rule mapped_run [OF n(1) _ m(1)]) (use ob in auto)
  obtain a1 where a1: "linToPhy vm (l + n0) = Some a1" "a1 AND 0xfff = (l + n0) AND 0xfff"
    "\<not> a1 > n_bytes vm - n1" "a1 < n_bytes vm" "a1 \<noteq> LinAddrNotAvailable"
    "linBytes vm (l + n0) (unat n1) = map (\<lambda>i. gbyte vm (a1 + of_nat i)) [0..<unat n1]"
    by (rule mapped_run [OF n(2) _ m(2)]) (use n(3) l1 in auto)
  have read0: "twp (bnd (openPage0 env (drop_bit 12 a0)) (\<lambda>page. win_readN env page (unat (a0 AND 0xfff)) (unat n0)))
      (\<lambda>bs vm'. bs = linBytes vm l (unat n0) \<and> windowOnly vm vm') vm1" if "windowOnly vm vm1" for vm1
    unfolding a0(6) by (rule openRead_twp [OF that pin a0(4)]) (simp add: a0(2) ob(2))
  have read1: "twp (bnd (openPage0 env (drop_bit 12 a1)) (\<lambda>page. win_readN env page 0 (unat n1)))
      (\<lambda>bs vm'. bs = linBytes vm (l + n0) (unat n1) \<and> windowOnly vm vm') vm1" if "windowOnly vm vm1" for vm1
    unfolding a1(6) using openRead_twp [OF that pin a1(4), of "unat n1" env] n(3) by (simp add: a1(2) l1)
  have read: "twp (bnd (openPage0 env (drop_bit 12 a0)) (\<lambda>page.
             bnd (win_readN env page (unat (a0 AND 0xfff)) (unat n0)) (\<lambda>bs0.
             bnd (openPage0 env (drop_bit 12 a1)) (\<lambda>page'.
             bnd (win_readN env page' 0 (unat n1)) (\<lambda>bs1. ret (bs0 @ bs1))))))
      (\<lambda>bs vm'. bs = linBytes vm l (unat len) \<and> windowOnly vm vm') vm1" if "windowOnly vm vm1" for vm1
    unfolding bnd_assoc [symmetric] m(3) twp_bnd [of "bnd _ _"]
    by (rule twp_mono [OF read0 [OF that]])
      (auto simp: twp_bnd [of "bnd _ _"] simp del: twp_bnd intro!: twp_mono [OF read1])
  have second: "twp (translateLinToPhy env (l + n0)) (\<lambda>r vm'. r = a1 \<and> windowOnly vm vm') vm1"
    if "windowOnly vm vm1" for vm1
    by (rule twp_mono [OF translateLinToPhy_twp])
      (use that pin a1(1) in \<open>auto simp: windowOnly_same avail_def intro: windowOnly_trans\<close>)
  show ?thesis
    unfolding getObjectLAddr_def twp_fun
    by (rule twp_mono [OF translateLinToPhy_twp [OF pin]])
      (use a0 a1 ob(1) read in \<open>auto simp: avail_def Let_def windowOnly_same twp_bnd [of "translateLinToPhy _ _"]
        n0_def [symmetric] n1_def [symmetric] simp del: twp_bnd intro!: twp_mono [OF second]\<close>)
qed

lemma getObjectLAddr_twp:
  assumes "allPinned vm" "0 < unat len" "unat len \<le> 4096" "mappedBytes vm l (unat len)"
  shows "twp (getObjectLAddr env obj l len) (\<lambda>bs vm'. bs = linBytes vm l (unat len) \<and> windowOnly vm vm') vm"
  using getObjectLAddr_in_page [OF assms(1,2) _ assms(4)] getObjectLAddr_crossing [OF assms(1,3) _ assms(4)]
  by (cases "unat (l AND 0xfff) + unat len \<le> 4096") auto

end
