(* ===== verification/Io_Pit.thy ===== *)
theory Io_Pit
  imports Io_Pic
begin

text \<open>
  The interval timer of \<^verbatim>\<open>monitor-space/io.c\<close>: \<^verbatim>\<open>pitInp\<close>, \<^verbatim>\<open>pitOutp\<close> and
  \<^verbatim>\<open>pitExpireClocks\<close> on \<^verbatim>\<open>vm->io.pit\<close>. Timer 0 requests line 0 of the interrupt controller when
  it expires.
\<close>

section \<open>The operations\<close>

definition PIT_LATCH_MODE_16BIT :: Bit32u where "PIT_LATCH_MODE_16BIT = 12"

abbreviation pitTimer :: "nat \<Rightarrow> vm_t \<Rightarrow> pit_timer_t" where
  "pitTimer i vm \<equiv> pit_timer (io_pit (vm_io vm)) i"

definition timer :: "nat \<Rightarrow> pit_timer_t mon" where
  "timer i = thn (inBounds ''pit.timer'' (i < 3)) (gets (pitTimer i))"

definition updPit :: "(pit_t \<Rightarrow> pit_t) \<Rightarrow> unit mon" where
  "updPit f = modify (upd_io (\<lambda>io. io\<lparr>io_pit := f (io_pit io)\<rparr>))"

definition updTimer :: "nat \<Rightarrow> (pit_timer_t \<Rightarrow> pit_timer_t) \<Rightarrow> unit mon" where
  "updTimer i f =
     thn (inBounds ''pit.timer'' (i < 3))
     (updPit (\<lambda>p. p\<lparr>pit_timer := (pit_timer p)(i := f (pit_timer p i))\<rparr>))"

text \<open>C's \<^verbatim>\<open>!x\<close> on an unsigned.\<close>

definition lnot :: "Bit32u \<Rightarrow> Bit32u" where
  "lnot x = flag (x = 0)"

definition pitInp40 :: "henv \<Rightarrow> nat \<Rightarrow> Bit32u mon" where
  "pitInp40 env pitID =
     bnd (timer pitID) (\<lambda>t.
     if t_output_latch_full t \<noteq> 0 then
       if t_output_latch_toggle t = 0 then
         thn (updTimer pitID (\<lambda>t. t\<lparr>t_output_latch_toggle := 1\<rparr>))
         (ret (t_output_latch_value t AND 0xff))
       else
         thn (updTimer pitID (\<lambda>t. t\<lparr>t_output_latch_full := 0, t_output_latch_toggle := 0\<rparr>))
         (ret (drop_bit 8 (t_output_latch_value t) AND 0xff))
     else
       thn (monprint env ''pit[%u] OL empty.\<newline>'' [ArgU (of_nat pitID)])
       (monpanic env ''pitInp: bailing.\<newline>'' []))"

definition pitInp61 :: "henv \<Rightarrow> Bit32u mon" where
  "pitInp61 env =
     thn (monprint env ''pit: read of port 0x61 unsupported.\<newline>'' [])
     (thn (updPit (\<lambda>p. p\<lparr>pit_refresh_clock_div2 := lnot (pit_refresh_clock_div2 p)\<rparr>))
     (thn (modify (upd_io (\<lambda>io. io\<lparr>io_pit_bogus_counter := io_pit_bogus_counter io + 1\<rparr>)))
     (bnd (gets (\<lambda>vm. io_pit_bogus_counter (vm_io vm))) (\<lambda>bogus.
      thn (whenM (bogus > 100)
            (thn (updTimer 2 (\<lambda>t. t\<lparr>t_OUT := lnot (t_OUT t)\<rparr>))
            (modify (upd_io (\<lambda>io. io\<lparr>io_pit_bogus_counter := 0\<rparr>)))))
      (bnd (gets (\<lambda>vm. io_pit (vm_io vm))) (\<lambda>p.
       ret (push_bit 5 (t_OUT (pit_timer p 2)) OR push_bit 4 (pit_refresh_clock_div2 p) OR
            push_bit 1 (pit_speaker_data_on p) OR flag (t_GATE (pit_timer p 2) \<noteq> 0))))))))"

definition pitInp :: "henv \<Rightarrow> Bit32u \<Rightarrow> Bit32u \<Rightarrow> Bit32u mon" where
  "pitInp env iolen port =
     (if port = 0x40 then pitInp40 env (unat (port - 0x40))
      else if port = 0x61 then pitInp61 env
      else thn (monprint env ''pit: read of port 0x%x unsupported.\<newline>'' [ArgU port])
           (monpanic env ''pitInp: bailing.\<newline>'' []))"

definition pitOutpError :: "henv \<Rightarrow> string \<Rightarrow> fmtarg list \<Rightarrow> unit mon" where
  "pitOutpError env fmt args = thn (monprint env fmt args) (monpanic env ''pitOutp: bailing.\<newline>'' [])"

text \<open>The two messages about the programmed period.\<close>

definition pitPeriodPrint :: "henv \<Rightarrow> nat \<Rightarrow> unit mon" where
  "pitPeriodPrint env pitID =
     bnd (timer pitID) (\<lambda>t.
     (let periodHz = (if t_counter_max t = 0 then 1193182 div 65536 else 1193182 div t_counter_max t) in
      thn (monprint env ''pit[%u] period = %u Hz.\<newline>'' [ArgU (of_nat pitID), ArgU periodHz])
      (monprint env ''pit[%u] period_max = %u.\<newline>'' [ArgU (of_nat pitID), ArgU (t_counter_max t)])))"

text \<open>A counter has both its bytes: the count latch moves to the counting element.\<close>

definition pitXferComplete :: "henv \<Rightarrow> nat \<Rightarrow> unit mon" where
  "pitXferComplete env pitID =
     thn (monprint env ''pit: xfer_complete.\<newline>'' [])
     (thn (updTimer pitID (\<lambda>t. t\<lparr>t_counter_max := t_input_latch_value t\<rparr>))
     (thn (updTimer pitID (\<lambda>t. t\<lparr>t_input_latch_value := 0, t_output_latch_full := 0,
                                  t_output_latch_toggle := 0\<rparr>))
     (bnd (timer pitID) (\<lambda>t.
      if t_mode t = 0 then
        thn (updTimer pitID (\<lambda>t. t\<lparr>t_counter := t_counter_max t, t_active := 1\<rparr>))
        (whenM (t_GATE t \<noteq> 0)
          (thn (updTimer pitID (\<lambda>t. t\<lparr>t_OUT := 0\<rparr>)) (pitPeriodPrint env pitID)))
      else if t_mode t = 2 then
        if t_counter_max t = 1 then
          pitOutpError env ''pit[%u], mode2, write count of 1 illegal.\<newline>'' [ArgU (of_nat pitID)]
        else
          whenM (t_GATE t \<noteq> 0 \<and> t_active t = 0)
            (thn (updTimer pitID (\<lambda>t. t\<lparr>t_counter := t_counter_max t, t_active := 1, t_OUT := 1\<rparr>))
            (pitPeriodPrint env pitID))
      else pitOutpError env ''pit: mode=%u unsupported.\<newline>'' [ArgU (t_mode t)]))))"

definition pitOutpCount :: "henv \<Rightarrow> nat \<Rightarrow> Bit32u \<Rightarrow> unit mon" where
  "pitOutpCount env pitID val =
     bnd (timer pitID) (\<lambda>t.
     if t_latch_mode t \<noteq> PIT_LATCH_MODE_16BIT then
       pitOutpError env ''pit: latch_mode != 16bit mode.\<newline>'' []
     else if t_input_latch_toggle t = 0 then
       thn (updTimer pitID (\<lambda>t. t\<lparr>t_input_latch_value := val, t_input_latch_toggle := 1\<rparr>))
       (monprint env ''pit: pit[%u] write L = %02x.\<newline>'' [ArgU (of_nat pitID), ArgU val])
     else
       thn (updTimer pitID (\<lambda>t. t\<lparr>t_input_latch_value := t_input_latch_value t OR push_bit 8 val,
                                    t_input_latch_toggle := 0\<rparr>))
       (thn (monprint env ''pit: pit[%u] write H = %02x.\<newline>'' [ArgU (of_nat pitID), ArgU val])
       (pitXferComplete env pitID)))"

text \<open>Port 0x43: the counter latch command and the control word.\<close>

definition pitOutp43 :: "henv \<Rightarrow> Bit32u \<Rightarrow> unit mon" where
  "pitOutp43 env val =
     (let pitID = unat (drop_bit 6 val AND 3);
          rw = drop_bit 4 val AND 3;
          mode = drop_bit 1 val AND 7;
          bcd = val AND 1
      in
      if pitID = 3 then pitOutpError env ''pit: outp(0x43)=0x%02x: Read Back Command.\<newline>'' [ArgU val]
      else if mode > 5 then pitOutpError env ''pit: outp(0x43)=0x%02x, mode>5.\<newline>'' [ArgU val]
      else if bcd \<noteq> 0 then pitOutpError env ''pit: outp(0x43)=0x%02x: bcd mode.\<newline>'' [ArgU val]
      else if rw = 0 then
        bnd (timer pitID) (\<lambda>t.
        if t_output_latch_full t \<noteq> 0 then
          pitOutpError env ''pit[%u]: counter latch command, latch full.\<newline>'' [ArgU (of_nat pitID)]
        else updTimer pitID (\<lambda>t. t\<lparr>t_output_latch_full := 1, t_output_latch_value := t_counter t,
                                    t_output_latch_toggle := 0\<rparr>))
      else if rw \<noteq> 3 then
        pitOutpError env ''pit: outp(0x43)=0x%02x: rw=%u.\<newline>'' [ArgU val, ArgU rw]
      else if mode \<noteq> 0 \<and> mode \<noteq> 2 then
        pitOutpError env ''pit: outp(0x43)=0x%02x: mode=%u.\<newline>'' [ArgU val, ArgU mode]
      else
        thn (updTimer pitID (\<lambda>t. t\<lparr>t_mode := mode, t_latch_mode := PIT_LATCH_MODE_16BIT,
               t_input_latch_value := 0, t_input_latch_toggle := 0, t_bcd := bcd,
               t_OUT := (if mode = 0 then 0 else 1)\<rparr>))
        (monprint env ''pit: CW written, mode=%u.\<newline>'' [ArgU mode]))"

definition pitOutp61 :: "henv \<Rightarrow> Bit32u \<Rightarrow> unit mon" where
  "pitOutp61 env val =
     thn (updPit (\<lambda>p. p\<lparr>pit_speaker_data_on := drop_bit 1 val AND 0x01\<rparr>))
     (let newGATE = val AND 1 in
      bnd (timer 2) (\<lambda>t.
      if newGATE = t_GATE t then ret ()
      else
        thn (updTimer 2 (\<lambda>t. t\<lparr>t_GATE := newGATE\<rparr>))
        (if newGATE \<noteq> 0 then
           pitOutpError env ''pit: port 0x61 W, timer2 GATE0->1 mode=%u.\<newline>'' [ArgU (t_mode t)]
         else
           pitOutpError env ''pit: port 0x61 W, timer2 GATE1->0 mode=%u.\<newline>'' [ArgU (t_mode t)])))"

definition pitOutp :: "henv \<Rightarrow> Bit32u \<Rightarrow> Bit32u \<Rightarrow> Bit32u \<Rightarrow> unit mon" where
  "pitOutp env iolen port val =
     (if port = 0x40 \<or> port = 0x41 \<or> port = 0x42 then pitOutpCount env (unat (port - 0x40)) val
      else if port = 0x43 then pitOutp43 env val
      else if port = 0x61 then pitOutp61 env val
      else monpanic env ''pitOutp: bailing.\<newline>'' [])"

text \<open>One turn of the loop of \<^verbatim>\<open>pitExpireClocks\<close>.\<close>

definition pitExpireTimer :: "henv \<Rightarrow> Bit32u \<Rightarrow> nat \<Rightarrow> unit mon" where
  "pitExpireTimer env pitClocks pitID =
     bnd (timer pitID) (\<lambda>t.
     whenM (t_active t \<noteq> 0)
       (if t_counter t > pitClocks then updTimer pitID (\<lambda>t. t\<lparr>t_counter := t_counter t - pitClocks\<rparr>)
        else if t_mode t = 0 then
          thn (updTimer pitID (\<lambda>t. t\<lparr>t_counter := 0, t_active := 0\<rparr>))
          (whenM (pitID = 0) (picIrq env 0 1))
        else if t_mode t = 2 then
          thn (updTimer pitID (\<lambda>t. t\<lparr>t_counter := t_counter_max t\<rparr>))
          (whenM (pitID = 0) (picIrq env 0 1))
        else monpanic env ''pitExpireClocks: mode=%u.\<newline>'' [ArgU (t_mode t)]))"

definition pitExpireClocks :: "henv \<Rightarrow> Bit32u \<Rightarrow> unit mon" where
  "pitExpireClocks env pitClocks = forM [0, 1, 2] (pitExpireTimer env pitClocks)"

section \<open>What the timer operations preserve\<close>

lemma wp_timer [simp]: "wp (timer i) Q vm = (i < 3 \<and> Q (pitTimer i vm) vm)"
  by (simp add: timer_def)

lemma twp_timer [simp]: "twp (timer i) Q vm = (i < 3 \<and> Q (pitTimer i vm) vm)"
  by (simp add: timer_def)

lemma pres_timer: "i < 3 \<Longrightarrow> pres I (timer i)"
  by (simp add: pres_def)

context dev_frame
begin

lemma updPit_pres [pres_rules]: "pres I (updPit f)"
  by (simp add: updPit_def pres_def fr_io)

lemma updTimer_pres: "i < 3 \<Longrightarrow> pres I (updTimer i f)"
  unfolding updTimer_def by (intro pres_rules pres_inBounds)

lemma pitInp_pres [pres_rules]: "pres I (pitInp env iolen port)"
  unfolding pitInp_def pitInp40_def pitInp61_def
  by (intro pres_rules pres_timer updTimer_pres pres_modify) (simp_all add: fr_io)

lemma pitXferComplete_pres: "i < 3 \<Longrightarrow> pres I (pitXferComplete env i)"
  unfolding pitXferComplete_def pitPeriodPrint_def pitOutpError_def
  by (intro pres_rules pres_timer updTimer_pres) simp_all

lemma pitOutpCount_pres: "i < 3 \<Longrightarrow> pres I (pitOutpCount env i val)"
  unfolding pitOutpCount_def pitOutpError_def
  by (intro pres_rules pres_timer updTimer_pres pitXferComplete_pres) simp_all

lemma pitOutp43_pres: "pres I (pitOutp43 env val)"
proof -
  have "unat (drop_bit 6 val AND 3) < 3" if "unat (drop_bit 6 val AND 3) \<noteq> 3"
    using and_mask_word_bound(3) [of "drop_bit 6 val"] that by linarith
  then show ?thesis
    unfolding pitOutp43_def pitOutpError_def Let_def
    by (intro pres_rules pres_timer updTimer_pres) simp_all
qed

lemma pitOutp_pres [pres_rules]: "pres I (pitOutp env iolen port val)"
  unfolding pitOutp_def pitOutp61_def pitOutpError_def
  by (intro pres_rules pres_timer updTimer_pres pitOutpCount_pres pitOutp43_pres) auto

lemma pitExpireClocks_pres [pres_rules]: "pres I (pitExpireClocks env n)"
  unfolding pitExpireClocks_def pitExpireTimer_def
  by (intro pres_rules pres_timer updTimer_pres) auto

end

section \<open>Counting\<close>

text \<open>The effect of \<open>k\<close> clocks on one timer, and whether it expires.\<close>

definition expired :: "Bit32u \<Rightarrow> pit_timer_t \<Rightarrow> bool" where
  "expired k t \<longleftrightarrow> t_active t \<noteq> 0 \<and> t_counter t \<le> k"

definition expire :: "Bit32u \<Rightarrow> pit_timer_t \<Rightarrow> pit_timer_t" where
  "expire k t =
     (if t_active t = 0 then t
      else if t_counter t > k then t\<lparr>t_counter := t_counter t - k\<rparr>
      else if t_mode t = 0 then t\<lparr>t_counter := 0, t_active := 0\<rparr>
      else t\<lparr>t_counter := t_counter_max t\<rparr>)"

definition pit_ok :: "vm_t \<Rightarrow> bool" where
  "pit_ok vm \<longleftrightarrow> (\<forall>i < 3. t_active (pitTimer i vm) \<noteq> 0 \<longrightarrow> t_mode (pitTimer i vm) = 0 \<or> t_mode (pitTimer i vm) = 2)"

text \<open>What the interrupt controller's view depends on.\<close>

definition same_pic :: "vm_t \<Rightarrow> vm_t \<Rightarrow> bool" where
  "same_pic vm vm' \<longleftrightarrow> picMaster vm' = picMaster vm \<and> INTR vm' = INTR vm"

lemma same_pic_views:
  assumes "same_pic vm vm'"
  shows "pic_inv vm' = pic_inv vm" "pic_pending vm' = pic_pending vm" "pic_masked vm' = pic_masked vm"
    "pic_inService vm' = pic_inService vm" "pic_vector vm' = pic_vector vm" "pic_line vm' = pic_line vm"
  using assms by (simp_all add: same_pic_def pic_inv_def pic_defs fun_eq_iff)

lemma twp_conj: "twp m P s \<Longrightarrow> wp m Q s \<Longrightarrow> twp m (\<lambda>x t. P x t \<and> Q x t) s"
  by (simp add: twp_def wp_def split: outcome.splits)

lemma picIrq_keeps_pit:
  "wp (picIrq env n v) (\<lambda>_ vm'. io_pit (vm_io vm') = io_pit (vm_io vm)) vm"
  by (simp add: picIrq_def picIrqMaster_def Let_def updMaster_def updSlave_def setINTR_def)

lemma pitExpireTimer_other:
  assumes "i < 3" "i \<noteq> 0" "pit_ok vm"
  shows "twp (pitExpireTimer env k i) (\<lambda>_ vm'. same_pic vm vm' \<and>
     pit_timer (io_pit (vm_io vm')) = (pit_timer (io_pit (vm_io vm)))(i := expire k (pitTimer i vm))) vm"
  using assms
  by (auto simp: pitExpireTimer_def updTimer_def updPit_def same_pic_def expire_def pit_ok_def
      fun_eq_iff)

lemma pitExpireTimer_0:
  assumes "pit_ok vm" "pic_inv vm"
  shows "twp (pitExpireTimer env k 0) (\<lambda>_ vm'. pic_inv vm' \<and>
     pit_timer (io_pit (vm_io vm')) = (pit_timer (io_pit (vm_io vm)))(0 := expire k (pitTimer 0 vm)) \<and>
     pic_pending vm' = pic_pending vm \<union> (if expired k (pitTimer 0 vm) then {0} - pic_masked vm else {}) \<and>
     pic_masked vm' = pic_masked vm \<and> pic_inService vm' = pic_inService vm \<and>
     pic_vector vm' = pic_vector vm) vm"
proof (cases "expired k (pitTimer 0 vm)")
  case False
  have "twp (pitExpireTimer env k 0) (\<lambda>_ vm'. same_pic vm vm' \<and>
     pit_timer (io_pit (vm_io vm')) = (pit_timer (io_pit (vm_io vm)))(0 := expire k (pitTimer 0 vm))) vm"
    using False
    by (auto simp: pitExpireTimer_def updTimer_def updPit_def same_pic_def expire_def expired_def
        fun_eq_iff not_le)
  then show ?thesis
    using assms False by (auto simp: same_pic_views elim!: twp_mono)
next
  case True
  define vm1 where "vm1 = upd_io (\<lambda>io. io\<lparr>io_pit := (io_pit io)\<lparr>pit_timer :=
      (pit_timer (io_pit io))(0 := expire k (pit_timer (io_pit io) 0))\<rparr>\<rparr>) vm"
  have "same_pic vm vm1" by (simp add: vm1_def same_pic_def)
  note views = same_pic_views [OF this]
  have "twp (picIrq env 0 1) (\<lambda>_ vm'. (pic_inv vm' \<and>
      pic_pending vm' = pic_pending vm1 \<union> ({0} - pic_masked vm1) \<and> pic_masked vm' = pic_masked vm1 \<and>
      pic_inService vm' = pic_inService vm1 \<and> pic_vector vm' = pic_vector vm1) \<and>
      io_pit (vm_io vm') = io_pit (vm_io vm1)) vm1"
    by (rule twp_conj [OF _ picIrq_keeps_pit])
      (use pic.raise_law [of vm1 0 env] assms(2) in \<open>simp add: views\<close>)
  moreover have "twp (pitExpireTimer env k 0) Q vm = twp (picIrq env 0 1) Q vm1" for Q
  proof -
    have t: "t_active (pitTimer 0 vm) \<noteq> 0" "\<not> t_counter (pitTimer 0 vm) > k"
      using True by (simp_all add: expired_def linorder_not_less)
    with assms(1) consider "t_mode (pitTimer 0 vm) = 0" | "t_mode (pitTimer 0 vm) = 2"
      unfolding pit_ok_def by (meson zero_less_numeral)
    then show ?thesis
      using t by cases (simp_all add: pitExpireTimer_def updTimer_def updPit_def vm1_def expire_def)
  qed
  ultimately have "twp (pitExpireTimer env k 0) (\<lambda>_ vm'. (pic_inv vm' \<and>
      pic_pending vm' = pic_pending vm1 \<union> ({0} - pic_masked vm1) \<and> pic_masked vm' = pic_masked vm1 \<and>
      pic_inService vm' = pic_inService vm1 \<and> pic_vector vm' = pic_vector vm1) \<and>
      io_pit (vm_io vm') = io_pit (vm_io vm1)) vm"
    by simp
  moreover have "pit_timer (io_pit (vm_io vm1)) = (pit_timer (io_pit (vm_io vm)))(0 := expire k (pitTimer 0 vm))"
    by (simp add: vm1_def)
  ultimately show ?thesis
    using True by (auto simp: views elim!: twp_mono)
qed

text \<open>\<^verbatim>\<open>pitExpireClocks\<close>: every timer counts, and an expiry of timer 0 is a request on line 0.\<close>

definition pit_step_spec :: "Bit32u \<Rightarrow> vm_t \<Rightarrow> vm_t \<Rightarrow> bool" where
  "pit_step_spec k vm vm' \<longleftrightarrow>
     (\<forall>i < 3. pitTimer i vm' = expire k (pitTimer i vm)) \<and>
     pic_pending vm' = pic_pending vm \<union> (if expired k (pitTimer 0 vm) then {0} - pic_masked vm else {}) \<and>
     pic_masked vm' = pic_masked vm \<and> pic_inService vm' = pic_inService vm \<and> pic_vector vm' = pic_vector vm"

lemma expire_ok: "(t_active t \<noteq> 0 \<longrightarrow> t_mode t = 0 \<or> t_mode t = 2) \<Longrightarrow>
    t_active (expire k t) \<noteq> 0 \<Longrightarrow> t_mode (expire k t) = 0 \<or> t_mode (expire k t) = 2"
  by (auto simp: expire_def split: if_splits)

lemma pit_ok_upd:
  "pit_ok vm \<Longrightarrow> pit_timer (io_pit (vm_io vm')) = (pit_timer (io_pit (vm_io vm)))(i := expire k (pitTimer i vm)) \<Longrightarrow>
   pit_ok vm'"
  unfolding pit_ok_def using expire_ok by (auto simp: fun_upd_apply)

lemma pitExpireClocks_law:
  assumes "pit_ok vm" "pic_inv vm"
  shows "twp (pitExpireClocks env k) (\<lambda>_ vm'. pit_ok vm' \<and> pic_inv vm' \<and> pit_step_spec k vm vm') vm"
proof -
  let ?T = "\<lambda>vm. pit_timer (io_pit (vm_io vm))"
  have third: "twp (pitExpireTimer env k 2) (\<lambda>_ vm'. pit_ok vm' \<and> same_pic vm2 vm' \<and>
      ?T vm' = (?T vm2)(2 := expire k (?T vm2 2))) vm2" if "pit_ok vm2" for vm2
    using pitExpireTimer_other [of 2 vm2 env k] that pit_ok_upd [OF that, of _ 2 k] by (auto elim!: twp_mono)
  have second: "twp (pitExpireTimer env k 1) (\<lambda>_. twp (pitExpireTimer env k 2) (\<lambda>_ vm'. pit_ok vm' \<and>
      same_pic vm1 vm' \<and> ?T vm' = (?T vm1)(1 := expire k (?T vm1 1), 2 := expire k (?T vm1 2)))) vm1"
    if ok: "pit_ok vm1" for vm1
  proof -
    have "twp (pitExpireTimer env k 1) (\<lambda>_ vm2. pit_ok vm2 \<and> same_pic vm1 vm2 \<and>
        ?T vm2 = (?T vm1)(1 := expire k (?T vm1 1))) vm1"
      using pitExpireTimer_other [of 1 vm1 env k] ok pit_ok_upd [OF ok, of _ 1 k] by (auto elim!: twp_mono)
    then show ?thesis
      by (rule twp_mono) (auto intro!: twp_mono [OF third] simp: same_pic_def)
  qed
  have "twp (pitExpireTimer env k 0) (\<lambda>_ vm1. pit_ok vm1 \<and> pic_inv vm1 \<and>
     ?T vm1 = (?T vm)(0 := expire k (?T vm 0)) \<and>
     pic_pending vm1 = pic_pending vm \<union> (if expired k (?T vm 0) then {0} - pic_masked vm else {}) \<and>
     pic_masked vm1 = pic_masked vm \<and> pic_inService vm1 = pic_inService vm \<and>
     pic_vector vm1 = pic_vector vm) vm"
    by (rule twp_mono [OF pitExpireTimer_0 [OF assms]]) (blast intro: pit_ok_upd [OF assms(1), of _ 0 k])
  then have "twp (pitExpireTimer env k 0) (\<lambda>_. twp (pitExpireTimer env k 1) (\<lambda>_.
      twp (pitExpireTimer env k 2) (\<lambda>_ vm'. pit_ok vm' \<and> pic_inv vm' \<and> pit_step_spec k vm vm'))) vm"
  proof (rule twp_mono)
    fix x vm1
    assume vm1: "pit_ok vm1 \<and> pic_inv vm1 \<and> ?T vm1 = (?T vm)(0 := expire k (?T vm 0)) \<and>
      pic_pending vm1 = pic_pending vm \<union> (if expired k (?T vm 0) then {0} - pic_masked vm else {}) \<and>
      pic_masked vm1 = pic_masked vm \<and> pic_inService vm1 = pic_inService vm \<and>
      pic_vector vm1 = pic_vector vm"
    have spec: "pit_step_spec k vm vm'" if "same_pic vm1 vm'"
        "?T vm' = (?T vm1)(1 := expire k (?T vm1 1), 2 := expire k (?T vm1 2))" for vm'
    proof -
      have "i = 0 \<or> i = 1 \<or> i = 2" if "i < 3" for i :: nat using that by linarith
      then have "\<forall>i < 3. ?T vm' i = expire k (?T vm i)" using that(2) vm1 by auto
      then show ?thesis using same_pic_views [OF that(1)] vm1 by (simp add: pit_step_spec_def)
    qed
    show "twp (pitExpireTimer env k 1) (\<lambda>_. twp (pitExpireTimer env k 2) (\<lambda>_ vm'. pit_ok vm' \<and>
        pic_inv vm' \<and> pit_step_spec k vm vm')) vm1"
      using vm1 by (intro twp_mono [OF second]) (auto elim!: twp_mono simp: same_pic_views intro: spec)
  qed
  then show ?thesis
    by (simp add: pitExpireClocks_def twp_fun)
qed

text \<open>Clock after clock.\<close>

fun pitTicks :: "henv \<Rightarrow> nat \<Rightarrow> unit mon" where
  "pitTicks env 0 = ret ()"
| "pitTicks env (Suc k) = thn (pitTicks env k) (pitExpireClocks env 1)"

lemma counter_minus:
  "Suc k < unat (c :: Bit32u) \<Longrightarrow> \<not> c - of_nat k \<le> 1 \<and> c - of_nat k - 1 = c - of_nat (Suc k)"
proof -
  assume k: "Suc k < unat c"
  have "unat (of_nat k :: Bit32u) = k"
    using k unat_less_32 [of c] by (simp add: unat_of_nat)
  then have "unat (c - of_nat k) = unat c - k"
    using k by (simp add: unat_sub word_le_nat_alt)
  then show ?thesis using k by (simp add: word_le_nat_alt)
qed

lemma pitTicks_running:
  assumes "pit_ok vm" "pic_inv vm" "t_active (pitTimer 0 vm) \<noteq> 0" "k < unat (t_counter (pitTimer 0 vm))"
  shows "twp (pitTicks env k) (\<lambda>_ vm'. pit_ok vm' \<and> pic_inv vm' \<and>
     pitTimer 0 vm' = (pitTimer 0 vm)\<lparr>t_counter := t_counter (pitTimer 0 vm) - of_nat k\<rparr> \<and>
     pic_pending vm' = pic_pending vm \<and> pic_masked vm' = pic_masked vm \<and>
     pic_inService vm' = pic_inService vm) vm"
  using assms(4)
proof (induction k)
  case 0
  then show ?case using assms by simp
next
  case (Suc k)
  let ?c = "t_counter (pitTimer 0 vm)"
  have c: "\<not> ?c - of_nat k \<le> 1" "1 < ?c - of_nat k" "?c - of_nat k - 1 = ?c - of_nat (Suc k)"
    using counter_minus [OF Suc.prems] by auto
  have "twp (pitTicks env k) (\<lambda>_. twp (pitExpireClocks env 1) (\<lambda>_ vm'. pit_ok vm' \<and> pic_inv vm' \<and>
     pitTimer 0 vm' = (pitTimer 0 vm)\<lparr>t_counter := ?c - of_nat (Suc k)\<rparr> \<and>
     pic_pending vm' = pic_pending vm \<and> pic_masked vm' = pic_masked vm \<and>
     pic_inService vm' = pic_inService vm)) vm"
    using Suc.IH Suc.prems c assms(3)
    by (auto elim!: twp_mono intro!: twp_mono [OF pitExpireClocks_law]
        simp: pit_step_spec_def expired_def expire_def)
  then show ?case by (simp add: twp_fun)
qed

lemma pitTicks_expiry:
  assumes "pit_ok vm" "pic_inv vm" "t_active (pitTimer 0 vm) \<noteq> 0" "0 < t_counter (pitTimer 0 vm)"
  shows "twp (pitTicks env (unat (t_counter (pitTimer 0 vm)))) (\<lambda>_ vm'. pic_inv vm' \<and>
     pic_pending vm' = pic_pending vm \<union> ({0} - pic_masked vm) \<and> pic_inService vm' = pic_inService vm \<and>
     (t_mode (pitTimer 0 vm) = 2 \<longrightarrow> t_counter (pitTimer 0 vm') = t_counter_max (pitTimer 0 vm) \<and>
        t_active (pitTimer 0 vm') \<noteq> 0) \<and>
     (t_mode (pitTimer 0 vm) = 0 \<longrightarrow> t_active (pitTimer 0 vm') = 0)) vm"
proof -
  let ?c = "t_counter (pitTimer 0 vm)"
  obtain k where k: "unat ?c = Suc k"
    using assms(4) by (metis Suc_pred unat_gt_0 word_gt_0)
  then have "unat (of_nat k :: Bit32u) = k"
    using unat_less_32 [of ?c] by (simp add: unat_of_nat)
  then have "unat (?c - of_nat k) = 1"
    using k by (simp add: unat_sub word_le_nat_alt)
  then have one: "?c - of_nat k = 1"
    by (metis unat_1 unat_eq_unat)
  have "twp (pitTicks env k) (\<lambda>_. twp (pitExpireClocks env 1) (\<lambda>_ vm'. pic_inv vm' \<and>
     pic_pending vm' = pic_pending vm \<union> ({0} - pic_masked vm) \<and> pic_inService vm' = pic_inService vm \<and>
     (t_mode (pitTimer 0 vm) = 2 \<longrightarrow> t_counter (pitTimer 0 vm') = t_counter_max (pitTimer 0 vm) \<and>
        t_active (pitTimer 0 vm') \<noteq> 0) \<and>
     (t_mode (pitTimer 0 vm) = 0 \<longrightarrow> t_active (pitTimer 0 vm') = 0))) vm"
    using k one assms
    by (auto intro!: twp_mono [OF pitTicks_running] twp_mono [OF pitExpireClocks_law]
        simp: pit_step_spec_def expired_def expire_def)
  then show ?thesis by (simp add: k twp_fun)
qed

section \<open>Reading a latched counter, loading a new one\<close>

lemma pit_latch_read:
  assumes "t_output_latch_full (pitTimer 0 vm) = 0"
  shows "twp (thn (pitOutp env 1 0x43 0)
           (bnd (pitInp env 1 0x40) (\<lambda>lo. bnd (pitInp env 1 0x40) (\<lambda>hi. ret (lo OR push_bit 8 hi)))))
     (\<lambda>v vm'. v = t_counter (pitTimer 0 vm) AND 0xffff \<and>
        t_output_latch_full (pitTimer 0 vm') = 0 \<and> t_counter (pitTimer 0 vm') = t_counter (pitTimer 0 vm)) vm"
proof -
  have "(w AND 0xff) OR push_bit 8 (drop_bit 8 w AND 0xff) = w AND 0xffff" for w :: Bit32u
    by (rule bit_word_eqI) (auto simp: mask_and_eq bit_simps)
  then show ?thesis
    using assms
    by (simp add: pitOutp_def pitOutp43_def pitInp_def pitInp40_def updTimer_def updPit_def Let_def)
qed

end
