(* ===== verification/Io_Misc.thy ===== *)
theory Io_Misc
  imports Io_Pic
begin

text \<open>
  The remaining devices of \<^verbatim>\<open>monitor-space/io.c\<close>: the CMOS clock (\<^verbatim>\<open>cmosInp\<close>,
  \<^verbatim>\<open>cmosOutp\<close>) and the VGA controller (\<^verbatim>\<open>vgaInp\<close>, \<^verbatim>\<open>vgaOutp\<close>). Both select a register
  through an index port, and the index is checked before it is used.
\<close>

section \<open>CMOS\<close>

definition NUM_CMOS_REGS :: Bit32u where "NUM_CMOS_REGS = 64"
definition REG_STAT_A :: Bit32u where "REG_STAT_A = 0x0a"
definition REG_STAT_C :: Bit32u where "REG_STAT_C = 0x0c"

lemmas cmos_consts [simp] = NUM_CMOS_REGS_def REG_STAT_A_def REG_STAT_C_def

definition updCmos :: "(cmos_t \<Rightarrow> cmos_t) \<Rightarrow> unit mon" where
  "updCmos f = modify (upd_io (\<lambda>io. io\<lparr>io_cmos := f (io_cmos io)\<rparr>))"

abbreviation cmos :: "vm_t \<Rightarrow> cmos_t" where
  "cmos vm \<equiv> io_cmos (vm_io vm)"

definition cmosReg :: "Bit32u \<Rightarrow> Bit8u mon" where
  "cmosReg i = thn (inBounds ''cmos.reg'' (i < NUM_CMOS_REGS)) (gets (\<lambda>vm. cmos_reg (cmos vm) (unat i)))"

definition setCmosReg :: "Bit32u \<Rightarrow> Bit8u \<Rightarrow> unit mon" where
  "setCmosReg i v =
     thn (inBounds ''cmos.reg'' (i < NUM_CMOS_REGS))
     (updCmos (\<lambda>c. c\<lparr>cmos_reg := (cmos_reg c)(unat i := v)\<rparr>))"

definition cmosInp :: "henv \<Rightarrow> Bit32u \<Rightarrow> Bit32u \<Rightarrow> Bit32u mon" where
  "cmosInp env iolen port =
     (if port = 0x71 then
        bnd (gets (\<lambda>vm. cmos_mem_address (cmos vm))) (\<lambda>addr.
        thn (monprint env ''cmosInp(0x%x), reg=%u.\<newline>'' [ArgU port, ArgU addr])
        (if addr \<ge> NUM_CMOS_REGS then
           thn (monprint env ''cmos: mem_address(%u) OOB.\<newline>'' [ArgU addr])
           (monpanic env ''cmosInp: bailing.\<newline>'' [])
         else
           thn (whenM (addr = REG_STAT_A)
                 (bnd (cmosReg REG_STAT_A) (\<lambda>a.
                  thn (setCmosReg REG_STAT_A (a XOR 0x80))
                  (monprint env ''cmos[REG_STAT_A] now 0x%02x\<newline>'' [ArgU (ucast (a XOR 0x80))]))))
           (bnd (cmosReg addr) (\<lambda>val.
            thn (whenM (addr = REG_STAT_C)
                  (thn (setCmosReg REG_STAT_C 0) (monprint env ''cmos: read of REG_STAT_C.\<newline>'' [])))
            (ret (ucast val))))))
      else
        thn (monprint env ''cmosInp(0x%x).\<newline>'' [ArgU port])
        (monpanic env ''cmosInp: bailing.\<newline>'' []))"

definition cmosOutp :: "henv \<Rightarrow> Bit32u \<Rightarrow> Bit32u \<Rightarrow> Bit32u \<Rightarrow> unit mon" where
  "cmosOutp env iolen port val =
     (if port = 0x70 then updCmos (\<lambda>c. c\<lparr>cmos_mem_address := val AND 0x3f\<rparr>)
      else monpanic env ''cmosOutp: bailing.\<newline>'' [])"

section \<open>VGA\<close>

abbreviation vga :: "vm_t \<Rightarrow> vga_t" where
  "vga vm \<equiv> io_vga (vm_io vm)"

definition updVga :: "(vga_t \<Rightarrow> vga_t) \<Rightarrow> unit mon" where
  "updVga f = modify (upd_io (\<lambda>io. io\<lparr>io_vga := f (io_vga io)\<rparr>))"

definition vgaInp :: "henv \<Rightarrow> Bit32u \<Rightarrow> Bit32u \<Rightarrow> Bit32u mon" where
  "vgaInp env iolen port =
     (if port = 0x3d5 then
        bnd (gets (\<lambda>vm. vga_CRTC_address (vga vm))) (\<lambda>addr.
        if addr > 0x18 then ret 0
        else
          thn (monprint env ''vga: reading CRTC[%u].\<newline>'' [ArgU addr])
          (thn (inBounds ''CRTC.reg'' (addr < 0x19))
          (gets (\<lambda>vm. vga_CRTC_reg (vga vm) (unat addr)))))
      else if port = 0x3da then ret 0
      else monpanic env ''vgaInp: bailing.\<newline>'' [])"

definition vgaInvalidReg :: "henv \<Rightarrow> Bit32u \<Rightarrow> unit mon" where
  "vgaInvalidReg env addr =
     thn (monprint env ''vga W: invalid CRTC register 0x%02x selected.\<newline>'' [ArgU addr])
     (monpanic env ''vgaOutp: bailing.\<newline>'' [])"

definition vgaOutpByte :: "henv \<Rightarrow> Bit32u \<Rightarrow> Bit32u \<Rightarrow> unit mon" where
  "vgaOutpByte env port val =
     (if port = 0x03d4 then
        thn (updVga (\<lambda>g. g\<lparr>vga_CRTC_address := val AND 0x7f\<rparr>))
        (whenM (val AND 0x7f > 0x18) (vgaInvalidReg env (val AND 0x7f)))
      else if port = 0x03d5 then
        bnd (gets (\<lambda>vm. vga_CRTC_address (vga vm))) (\<lambda>addr.
        if addr > 0x18 then vgaInvalidReg env addr
        else
          thn (inBounds ''CRTC.reg'' (addr < 0x19))
          (updVga (\<lambda>g. g\<lparr>vga_CRTC_reg := (vga_CRTC_reg g)(unat addr := val AND 0xff)\<rparr>)))
      else ret ())"

text \<open>A two-byte access is two one-byte accesses to consecutive ports.\<close>

definition vgaOutp :: "henv \<Rightarrow> Bit32u \<Rightarrow> Bit32u \<Rightarrow> Bit32u \<Rightarrow> unit mon" where
  "vgaOutp env iolen port val =
     (if iolen = 2 then
        thn (vgaOutpByte env port (val AND 0xff)) (vgaOutpByte env (port + 1) (drop_bit 8 val AND 0xff))
      else vgaOutpByte env port val)"

section \<open>What the devices preserve\<close>

lemma word_25: "\<not> (w :: Bit32u) > 0x18 \<Longrightarrow> w < 0x19"
proof -
  assume "\<not> w > 0x18"
  then have "unat w \<le> 24" by (simp add: word_less_nat_alt)
  then show ?thesis by (simp add: word_less_nat_alt)
qed

context dev_frame
begin

lemma updCmos_pres [pres_rules]: "pres I (updCmos f)"
  by (simp add: updCmos_def pres_def fr_io)

lemma updVga_pres [pres_rules]: "pres I (updVga f)"
  by (simp add: updVga_def pres_def fr_io)

lemma cmosInp_pres [pres_rules]: "pres I (cmosInp env iolen port)"
  unfolding cmosInp_def cmosReg_def setCmosReg_def
  by (intro pres_rules pres_inBounds) (simp_all add: not_le)

lemma cmosOutp_pres [pres_rules]: "pres I (cmosOutp env iolen port val)"
  unfolding cmosOutp_def by (intro pres_rules)

lemma vgaInp_pres [pres_rules]: "pres I (vgaInp env iolen port)"
  unfolding vgaInp_def by (intro pres_rules pres_inBounds word_25)

lemma vgaOutp_pres [pres_rules]: "pres I (vgaOutp env iolen port val)"
  unfolding vgaOutp_def vgaOutpByte_def vgaInvalidReg_def
  by (intro pres_rules pres_inBounds word_25)

end


end
