(* ===== verification/Emu_Seg.thy ===== *)
theory Emu_Seg
  imports Guest_Mem Io_Pit Io_Misc
begin

text \<open>
  Segments and registers of the guest, \<^verbatim>\<open>monitor-space/x86-emu.c\<close>: the macro
  \<^verbatim>\<open>GenReg\<close>, \<^verbatim>\<open>guestSelectorUpdated\<close>, \<^verbatim>\<open>loadGuestSegment\<close>, the port accesses
  \<^verbatim>\<open>inp\<close> and \<^verbatim>\<open>outp\<close>.

  The locale \<open>emu_frame\<close> is the interface between the emulator and everything the monitor protects. It
  lists the state changes the emulator makes: general registers change freely, a selector of the
  context is loaded with RPL 3 only, EFLAGS keeps \<open>IF\<close> set and \<open>IOPL\<close> and \<open>VM\<close>
  clear, a GDT slot of the guest gets a descriptor of DPL 3 only. An invariant that tolerates these
  is kept by every emulated instruction. The instances are at the end of \<^verbatim>\<open>Emu_Instr.thy\<close>.
\<close>

section \<open>Registers\<close>

fun genRegOf :: "nat \<Rightarrow> guestStackContext_t \<Rightarrow> Bit32u" where
  "genRegOf r c = (if r = 0 then sc_eax c else if r = 1 then sc_ecx c else if r = 2 then sc_edx c
     else if r = 3 then sc_ebx c else if r = 4 then sc_esp c else if r = 5 then sc_ebp c
     else if r = 6 then sc_esi c else sc_edi c)"

fun genRegUpd :: "nat \<Rightarrow> Bit32u \<Rightarrow> guestStackContext_t \<Rightarrow> guestStackContext_t" where
  "genRegUpd r v c = (if r = 0 then c\<lparr>sc_eax := v\<rparr> else if r = 1 then c\<lparr>sc_ecx := v\<rparr>
     else if r = 2 then c\<lparr>sc_edx := v\<rparr> else if r = 3 then c\<lparr>sc_ebx := v\<rparr>
     else if r = 4 then c\<lparr>sc_esp := v\<rparr> else if r = 5 then c\<lparr>sc_ebp := v\<rparr>
     else if r = 6 then c\<lparr>sc_esi := v\<rparr> else c\<lparr>sc_edi := v\<rparr>)"

declare genRegOf.simps [simp del] genRegUpd.simps [simp del]

definition GenReg :: "nat \<Rightarrow> Bit32u mon" where
  "GenReg regno =
     thn (inBounds ''guestStackGenRegOffsets'' (regno < 8)) (gets (\<lambda>vm. genRegOf regno (vm_context vm)))"

definition setGenReg :: "nat \<Rightarrow> Bit32u \<Rightarrow> unit mon" where
  "setGenReg regno v =
     thn (inBounds ''guestStackGenRegOffsets'' (regno < 8)) (modify (upd_context (genRegUpd regno v)))"

definition updCtx :: "(guestStackContext_t \<Rightarrow> guestStackContext_t) \<Rightarrow> unit mon" where
  "updCtx f = modify (upd_context f)"

definition updCpu :: "(guest_cpu_t \<Rightarrow> guest_cpu_t) \<Rightarrow> unit mon" where
  "updCpu f = modify (upd_cpu f)"

section \<open>Segments\<close>

text \<open>The checks of \<^verbatim>\<open>guestSelectorUpdated\<close> on the selector and the guest's descriptor.\<close>

definition linuxSlotCheck :: "henv \<Rightarrow> nat \<Rightarrow> nat \<Rightarrow> unit mon" where
  "linuxSlotCheck env segno gdtSlot =
     bnd (gets vm_guestCPL) (\<lambda>cpl.
     if cpl = 0 then
       if segno = SRegCS then
         whenM (gdtSlot \<noteq> LinuxBootCsSlot \<and> gdtSlot \<noteq> LinuxKernelCsSlot)
           (monpanic env ''GuestSU: not linux kern CS.\<newline>'' [])
       else
         whenM (gdtSlot \<noteq> LinuxBootDsSlot \<and> gdtSlot \<noteq> LinuxKernelDsSlot \<and> gdtSlot \<noteq> LinuxUserDsSlot)
           (monpanic env ''GuestSU: not linux kern DS.\<newline>'' [])
     else if segno = SRegCS then
       whenM (gdtSlot \<noteq> LinuxUserCsSlot) (monpanic env ''GuestSU: not linux user cs.\<newline>'' [])
     else whenM (gdtSlot \<noteq> LinuxUserDsSlot) (monpanic env ''GuestSU: not linux user ds.\<newline>'' []))"

definition selectorCheck :: "henv \<Rightarrow> nat \<Rightarrow> selector_t \<Rightarrow> descriptor_t \<Rightarrow> unit mon" where
  "selectorCheck env segno sel desc =
     bnd (gets vm_linuxVMMode) (\<lambda>linux.
     if linux \<noteq> 0 then
       if sel_rpl sel \<noteq> ucast (d_dpl desc) then
         monpanic env ''GuestSU: guest desc.dpl(%u) != sel.rpl(%u)\<newline>'' [ArgU (ucast (d_dpl desc)), ArgU (sel_rpl sel)]
       else if d_dpl desc \<noteq> 0 \<and> d_dpl desc \<noteq> 3 then
         monpanic env ''GuestSU: guest desc.dpl(%u) strange\<newline>'' [ArgU (ucast (d_dpl desc))]
       else linuxSlotCheck env segno (sel_index sel)
     else
       if sel_rpl sel \<noteq> 3 \<or> d_dpl desc \<noteq> 3 then monpanic env ''GuestSU: rpl!=3/dpl!=3.\<newline>'' []
       else whenM (\<not> OKGuestSlot (sel_index sel)) (monpanic env ''GuestSU: !okslot.\<newline>'' []))"

definition installDesc :: "nat \<Rightarrow> descriptor_t \<Rightarrow> unit mon" where
  "installDesc gdtSlot desc =
     thn (inBounds ''gdt'' (gdtSlot < MON_GDT_SIZE div 8))
     (thn (modify (\<lambda>vm. vm\<lparr>vm_gdt := (vm_gdt vm)(gdtSlot := desc)\<rparr>))
     (whenM (d_dpl desc \<noteq> 3)
       (modify (\<lambda>vm. vm\<lparr>vm_gdt := (vm_gdt vm)(gdtSlot := (vm_gdt vm gdtSlot)\<lparr>d_dpl := 3\<rparr>)\<rparr>))))"

definition guestSelectorUpdated :: "henv \<Rightarrow> nat \<Rightarrow> selector_t \<Rightarrow> unit mon" where
  "guestSelectorUpdated env segno sel =
     whenM (segno = SRegCS \<or> sel AND 0xfffc \<noteq> 0)
       (if sel_ti sel \<or> sel_index sel = 0 then monpanic env ''GuestSU: invalid selector 0x%x.\<newline>'' [ArgU (ucast sel)]
        else
          (let gdtOffset = ucast sel AND NOT 7 in
           bnd (gets (\<lambda>vm. cpu_gdtr (vm_guest_cpu vm))) (\<lambda>gdtr.
           if gdtOffset + 7 > ucast (gi_limit gdtr) then
             monpanic env ''GuestSU: selector=0x%x OOB.\<newline>'' [ArgU (ucast sel)]
           else
             bnd (fetchGuestDescByLAddr env (gi_base gdtr + gdtOffset)) (\<lambda>desc.
             thn (selectorCheck env segno sel desc)
             (installDesc (sel_index sel) desc)))))"

text \<open>The selector slot of the context, always pushed down to ring 3.\<close>

definition setSel :: "nat \<Rightarrow> selector_t \<Rightarrow> guestStackContext_t \<Rightarrow> guestStackContext_t" where
  "setSel sreg sel c =
     (let v = ucast (sel OR 3) in
      if sreg = SRegES then c\<lparr>sc_es := v\<rparr> else if sreg = SRegCS then c\<lparr>sc_cs := v\<rparr>
      else if sreg = SRegSS then c\<lparr>sc_ss := v\<rparr> else if sreg = SRegDS then c\<lparr>sc_ds := v\<rparr>
      else if sreg = SRegFS then c\<lparr>sc_fs := v\<rparr> else c\<lparr>sc_gs := v\<rparr>)"

definition loadGuestSegment :: "henv \<Rightarrow> nat \<Rightarrow> selector_t \<Rightarrow> bool mon" where
  "loadGuestSegment env sreg sel =
     bnd (fetchGuestDescBySel env sel 0) (\<lambda>desc.
     if ucast (d_dpl desc) \<noteq> sel_rpl sel then
       monpanic env ''loadGuestSegment: descriptor.dpl != selector.rpl.\<newline>'' []
     else
       thn (if sreg \<le> SRegGS then updCtx (setSel sreg sel)
            else monpanic env ''loadGuestSegment: sreg = %u.\<newline>'' [ArgU (of_nat sreg)])
       (thn (guestSelectorUpdated env sreg sel) (ret True)))"

section \<open>Ports\<close>

definition inp :: "henv \<Rightarrow> Bit32u \<Rightarrow> Bit32u \<Rightarrow> Bit32u mon" where
  "inp env iolen port =
     (if port = 0x21 then picInp env iolen port
      else if port = 0x40 \<or> port = 0x61 then pitInp env iolen port
      else if port = 0x71 then cmosInp env iolen port
      else if port = 0x3d5 \<or> port = 0x3da then vgaInp env iolen port
      else
        thn (if port = 0x30 then monprint env ''inp(0x30) ???\<newline>'' []
             else monprint env ''inp: port=0x%x unsupported.\<newline>'' [ArgU port])
        (monpanic env ''inp: bailing.\<newline>'' []))"

definition outp :: "henv \<Rightarrow> Bit32u \<Rightarrow> Bit32u \<Rightarrow> Bit32u \<Rightarrow> unit mon" where
  "outp env iolen port val =
     (if port \<in> {0x20, 0x21, 0xa0, 0xa1} then picOutp env iolen port val
      else if port \<in> {0x40, 0x41, 0x42, 0x43} then pitOutp env 1 port val
      else if port = 0x61 then pitOutp env 1 port val
      else if port = 0x70 then cmosOutp env 1 port val
      else if port = 0x80 then modify (upd_io (\<lambda>io. io\<lparr>io_port0x80 := val\<rparr>))
      else if port \<in> {0x3c0, 0x3c8, 0x3c9, 0x3d4, 0x3d5} then vgaOutp env 1 port val
      else
        thn (monprint env ''outp(0x%x)=0x%x unsupported.\<newline>'' [ArgU port, ArgU val])
        (if port = 0x3f2 then ret () else monpanic env ''outp: bailing.\<newline>'' []))"

context dev_frame
begin

lemma inp_pres [pres_rules]: "pres I (inp env iolen port)"
  unfolding inp_def by (intro pres_rules)

lemma outp_pres [pres_rules]: "pres I (outp env iolen port val)"
  unfolding outp_def by (intro pres_rules pres_modify) (simp_all add: fr_io)

end

section \<open>What the emulator may change\<close>

text \<open>Two contexts that differ in registers the processor does not protect with.\<close>

definition sameProt :: "guestStackContext_t \<Rightarrow> guestStackContext_t \<Rightarrow> bool" where
  "sameProt c c' \<longleftrightarrow> sc_cs c' = sc_cs c \<and> sc_ss c' = sc_ss c \<and> sc_ds c' = sc_ds c \<and> sc_es c' = sc_es c \<and>
     sc_fs c' = sc_fs c \<and> sc_gs c' = sc_gs c \<and> sc_eflags c' = sc_eflags c"

text \<open>EFLAGS the guest may run with: interrupts of the host get through (\<open>IF\<close>), no I/O privilege
  (\<open>IOPL\<close>), not virtual-8086 mode (\<open>VM\<close>).\<close>

definition ctxFlags :: "Bit32u \<Rightarrow> bool" where
  "ctxFlags f \<longleftrightarrow> bit f 9 \<and> \<not> bit f 12 \<and> \<not> bit f 13 \<and> \<not> bit f 17"

text \<open>First the interface of \<open>guestSelectorUpdated\<close> alone: it writes the GDT, in slots of the guest
  and with DPL 3.\<close>

locale seg_frame = mem_frame +
  assumes fr_gdt: "I vm \<Longrightarrow> OKGuestSlot s \<Longrightarrow> d_dpl d = 3 \<Longrightarrow> I (vm\<lparr>vm_gdt := (vm_gdt vm)(s := d)\<rparr>)"
begin

text \<open>A selector that passes the checks names a slot of the guest.\<close>

lemma selectorCheck_wp: "wp (selectorCheck env segno sel desc) (\<lambda>_ vm'. vm' = vm \<and> OKGuestSlot (sel_index sel)) vm"
  by (simp add: selectorCheck_def linuxSlotCheck_def OKGuestSlot_def)

lemma installDesc_pres: "OKGuestSlot s \<Longrightarrow> pres I (installDesc s desc)"
proof (rule presI)
  fix vm assume s: "OKGuestSlot s" and I: "I vm"
  have "I (vm\<lparr>vm_gdt := (vm_gdt vm)(s := desc\<lparr>d_dpl := 3\<rparr>)\<rparr>)"
    by (rule fr_gdt [OF I s]) simp
  moreover have "d_dpl desc = 3 \<Longrightarrow> I (vm\<lparr>vm_gdt := (vm_gdt vm)(s := desc)\<rparr>)"
    by (rule fr_gdt [OF I s])
  ultimately show "wp (installDesc s desc) (\<lambda>_. I) vm"
    using OKGuestSlot_bounds(1) [OF s] by (simp add: installDesc_def)
qed

lemma guestSelectorUpdated_pres [pres_rules]: "pres I (guestSelectorUpdated env segno sel)"
proof -
  have install: "pres I (thn (selectorCheck env segno sel desc) (installDesc (sel_index sel) desc))" for desc
    by (rule presI, rule wp_thnI [OF selectorCheck_wp]) (auto intro: presD [OF installDesc_pres])
  show ?thesis
    unfolding guestSelectorUpdated_def by (intro install pres_rules pres_monpanic)
qed

end

locale emu_frame = seg_frame +
  assumes fr_regs: "I vm \<Longrightarrow> sameProt (vm_context vm) c \<Longrightarrow> I (vm\<lparr>vm_context := c\<rparr>)"
    and fr_sel: "I vm \<Longrightarrow> I (vm\<lparr>vm_context := setSel sreg sel (vm_context vm)\<rparr>)"
    and ctx_flags: "I vm \<Longrightarrow> ctxFlags (sc_eflags (vm_context vm))"
    and fr_eflags: "I vm \<Longrightarrow> ctxFlags f \<Longrightarrow>
          I (vm\<lparr>vm_context := (vm_context vm)\<lparr>sc_eflags := f\<rparr>\<rparr>)"
    and fr_CPL: "I (vm\<lparr>vm_guestCPL := cpl\<rparr>) = I vm"
    and fr_mon_cr: "I (vm\<lparr>vm_nexus := (vm_nexus vm)\<lparr>nx_mon_cr4 := cr4\<rparr>\<rparr>) = I vm"
      "I (vm\<lparr>vm_nexus := (vm_nexus vm)\<lparr>nx_mon_cr0 := cr0\<rparr>\<rparr>) = I vm"
    and fr_host: "I (vm\<lparr>vm_os := os\<rparr>) = I vm" "I (vm\<lparr>vm_redirect_vector := rv\<rparr>) = I vm"
      "I (vm\<lparr>vm_inMonFault := mf\<rparr>) = I vm"
    and flush_pres [pres_rules]: "pres I (monInitShadowPaging env)"
    and invlpg_lin_pres [pres_rules]: "pres I (invalidateGuestLinAddr env a)"
    and map_pres [pres_rules]: "pres I (mapGuestLinAddr env a us rw)"
begin

lemma updCpu_pres [pres_rules]: "pres I (updCpu f)"
  by (simp add: updCpu_def pres_def print_fr)

lemma GenReg_pres: "r < 8 \<Longrightarrow> pres I (GenReg r)"
  unfolding GenReg_def by (intro pres_rules pres_inBounds)

lemma setGenReg_pres: "r < 8 \<Longrightarrow> pres I (setGenReg r v)"
  unfolding setGenReg_def
  by (intro pres_rules pres_inBounds pres_modify fr_regs) (auto simp: sameProt_def genRegUpd.simps)

lemma updCtx_pres: "(\<And>c. sameProt c (f c)) \<Longrightarrow> pres I (updCtx f)"
  unfolding updCtx_def by (intro pres_modify fr_regs)

lemma setSel_pres [pres_rules]: "pres I (updCtx (setSel sreg sel))"
  unfolding updCtx_def by (intro pres_modify fr_sel)

lemma loadGuestSegment_pres [pres_rules]: "pres I (loadGuestSegment env sreg sel)"
  unfolding loadGuestSegment_def by (intro pres_rules pres_monpanic)

end

section \<open>Memory accesses leave the context alone\<close>

definition emu_core where
  "emu_core vm = (vm_context vm, vm_guestCPL vm, vm_linuxVMMode vm, vm_nexus vm)"

definition quiet where
  "quiet m c k vm \<longleftrightarrow> isolated m c vm \<and> emu_core vm = k"

lemma isolated_other [simp]:
  "isolated m c (vm\<lparr>vm_gdt := g\<rparr>) = isolated m c vm"
  "isolated m c (vm\<lparr>vm_context := ctx\<rparr>) = isolated m c vm"
  "isolated m c (vm\<lparr>vm_guestCPL := cpl\<rparr>) = isolated m c vm"
  "isolated m c (vm\<lparr>vm_nexus := nx\<rparr>) = isolated m c vm"
  "isolated m c (vm\<lparr>vm_os := os\<rparr>) = isolated m c vm"
  "isolated m c (vm\<lparr>vm_redirect_vector := rv\<rparr>) = isolated m c vm"
  "isolated m c (vm\<lparr>vm_inMonFault := mf\<rparr>) = isolated m c vm"
  by (simp_all add: isolated_defs)

lemma open_guest_phy_page_quiet: "pres (quiet m c k) (open_guest_phy_page env ppi mo)"
proof -
  have "pres (quiet m c k) (getHostOSPinnedPage env ppi)"
    by (intro presI wp_mono [OF isolated_pinned_wp]) (auto simp: quiet_def emu_core_def same_attrs_def)
  moreover have "pres (quiet m c k) (MonAssert env b e f l)" for b e f l
    by (simp add: pres_def)
  ultimately show ?thesis
    unfolding open_guest_phy_page_def Let_def invlpg_mon_offset_def
    by (intro pres_rules pres_modify) (simp_all add: quiet_def emu_core_def isolated_print.print_fr)
qed

interpretation quiet: seg_frame "quiet m c k"
  by unfold_locales (simp_all add: quiet_def emu_core_def isolated_print.print_fr isolated_mem.fr_io
      isolated_mem.fr_system open_guest_phy_page_quiet)

text \<open>The same without the context, for the steps that change it.\<close>

definition calm where
  "calm m c cpl lin nx vm \<longleftrightarrow> isolated m c vm \<and> vm_guestCPL vm = cpl \<and> vm_linuxVMMode vm = lin \<and> vm_nexus vm = nx"

lemma calm_quiet: "calm m c cpl lin nx vm \<longleftrightarrow> (\<exists>ctx. quiet m c (ctx, cpl, lin, nx) vm)"
  by (auto simp: calm_def quiet_def emu_core_def)

lemma pres_calm: "(\<And>k. pres (quiet m c k) f) \<Longrightarrow> pres (calm m c cpl lin nx) f"
  unfolding pres_def calm_quiet by (blast intro: wp_mono)

interpretation calm: seg_frame "calm m c cpl lin nx"
  by unfold_locales (simp_all add: calm_def isolated_print.print_fr isolated_mem.fr_io
      isolated_mem.fr_system pres_calm open_guest_phy_page_quiet)

lemma calm_updCtx: "pres (calm m c cpl lin nx) (updCtx f)"
  by (simp add: updCtx_def pres_def calm_def)

end
