(* ===== verification/Emu_Int.thy ===== *)
theory Emu_Int
  imports Emu_Seg
begin

text \<open>
  Delivery of interrupts to the guest and return from them, \<^verbatim>\<open>monitor-space/x86-emu.c\<close>:
  \<^verbatim>\<open>doGuestInterrupt\<close> and \<^verbatim>\<open>doIRET\<close>. The guest kernel runs at ring 3 with the processor's
  protected-mode virtual interrupts (\<^verbatim>\<open>CR4.PVI\<close>): its interrupt flag is \<open>VIF\<close> while the real
  \<open>IF\<close> stays set.
\<close>

definition IntFlagPushError :: Bit32u where "IntFlagPushError = 1"
definition IntFlagAssertRF :: Bit32u where "IntFlagAssertRF = 2"
definition IntFlagSoftInt :: Bit32u where "IntFlagSoftInt = 4"

lemmas int_flags [simp] = IntFlagPushError_def IntFlagAssertRF_def IntFlagSoftInt_def

section \<open>Interrupts\<close>

text \<open>The gate of the vector, the code segment it names, and the checks on both.\<close>

definition interruptGate :: "henv \<Rightarrow> Bit32u \<Rightarrow> Bit32u \<Rightarrow> Bit32u \<Rightarrow> gate_t mon" where
  "interruptGate env vector intFlags fromCPL =
     bnd (gets (\<lambda>vm. cpu_idtr (vm_guest_cpu vm))) (\<lambda>idtr.
     if push_bit 3 vector + 7 > ucast (gi_limit idtr) then
       monpanic env ''doGuestInterrupt: vector(%u) OOB.\<newline>'' [ArgU vector]
     else if gi_base idtr AND 7 \<noteq> 0 then
       monpanic env ''doGuestInterrupt: idtr.base not 8-byte aligned.\<newline>'' []
     else
       bnd (fetchGuestDescByLAddr env (gi_base idtr + push_bit 3 vector)) (\<lambda>d.
       (let gate = gate_of_word (word_of_desc d) in
        if g_p gate = 0 then monpanic env ''doGuestInterrupt: p=%u\<newline>'' [ArgU (ucast (g_p gate))]
        else if g_type gate \<noteq> 14 \<and> g_type gate \<noteq> 15 then
          monpanic env ''doGuestInterrupt: desc type(%u)!=14.\<newline>'' [ArgU (ucast (g_type gate))]
        else if intFlags AND IntFlagSoftInt \<noteq> 0 \<and> ucast (g_dpl gate) < fromCPL then
          monpanic env ''doGuestInterrupt: intIb, dpl(%u)<CPL(%u).\<newline>'' [ArgU (ucast (g_dpl gate)), ArgU fromCPL]
        else ret gate)))"

definition interruptCS :: "henv \<Rightarrow> selector_t \<Rightarrow> descriptor_t mon" where
  "interruptCS env csSel =
     (if csSel AND 0xfffc = 0 then monpanic env ''doGuestInterrupt: gate selector NULL.\<newline>'' []
      else
        bnd (fetchGuestDescBySel env csSel 0) (\<lambda>d.
        if d_type d \<noteq> 0x1a \<or> d_dpl d \<noteq> 0 \<or> d_p d = 0 then
          monpanic env ''doGuestInterrupt: bad CS descriptor, type=0x%x, dpl=%u, p=%u.\<newline>''
            [ArgU (ucast (d_type d)), ArgU (ucast (d_dpl d)), ArgU (ucast (d_p d))]
        else ret d))"

text \<open>The EFLAGS image for the guest's stack: a guest kernel sees \<open>VIF\<close> as \<open>IF\<close>.\<close>

definition pushedEFlags :: "bool \<Rightarrow> Bit32u \<Rightarrow> Bit32u" where
  "pushedEFlags krn fl =
     (if krn then (if fl AND FlgMaskVIF \<noteq> 0 then fl OR FlgMaskIF else fl AND NOT FlgMaskIF) else fl)"

text \<open>The stack of ring 0 from the guest's TSS.\<close>

definition trLimit :: "descriptor_t \<Rightarrow> Bit32u" where
  "trLimit d =
     (let lim = push_bit 16 (ucast (d_limit_high d)) OR ucast (d_limit_low d) in
      if d_g d \<noteq> 0 then push_bit 12 lim OR 0xfff else lim)"

definition innerStack :: "henv \<Rightarrow> descriptor_t \<Rightarrow> (Bit32u \<times> selector_t) mon" where
  "innerStack env csDesc =
     bnd (gets (\<lambda>vm. sr_des (cpu_tr (vm_guest_cpu vm)))) (\<lambda>tr.
     if d_type tr \<noteq> 11 then monpanic env ''doGuestInterrupt: TR.type(%u)!=11.\<newline>'' [ArgU (ucast (d_type tr))]
     else
       (let tssStackInfoOffset = 8 * ucast (d_dpl csDesc) + 4 in
        if tssStackInfoOffset + 7 > trLimit tr then monpanic env ''doGuestInterrupt: bad TR.limit.\<newline>'' []
        else
          bnd (getGuestDWord env (BaseOfDescriptor tr + tssStackInfoOffset)) (\<lambda>tssESP.
          bnd (getGuestWord env (BaseOfDescriptor tr + tssStackInfoOffset + 4)) (\<lambda>ssSel.
          if ssSel AND 0xfffc = 0 then monpanic env ''doGuestInterrupt: bad SS value 0x%x.\<newline>'' [ArgU (ucast ssSel)]
          else if sel_rpl ssSel \<noteq> ucast (d_dpl csDesc) then
            monpanic env ''doGuestInterrupt: ss.rpl != cs.rpl.\<newline>'' []
          else
            bnd (fetchGuestDescBySel env ssSel 0) (\<lambda>d.
            if d_type d \<noteq> 0x12 \<or> d_dpl d \<noteq> 0 \<or> d_p d = 0 then
              monpanic env ''doGuestInterrupt: bad SS descriptor, type=0x%x, dpl=%u, p=%u.\<newline>''
                [ArgU (ucast (d_type d)), ArgU (ucast (d_dpl d)), ArgU (ucast (d_p d))]
            else ret (tssESP, ssSel))))))"

definition switchStack :: "henv \<Rightarrow> selector_t \<Rightarrow> Bit32u \<Rightarrow> selector_t \<Rightarrow> Bit32u mon" where
  "switchStack env csSel tssESP ssSel =
     bnd (gets vm_context) (\<lambda>old.
     thn (modify (\<lambda>vm. vm\<lparr>vm_guestCPL := sel_rpl csSel\<rparr>))
     (thn (updCtx (setSel SRegSS ssSel))
     (thn (updCtx (\<lambda>c. c\<lparr>sc_esp := tssESP\<rparr>))
     (thn (guestSelectorUpdated env SRegSS ssSel)
     (thn (updCtx (\<lambda>c. c\<lparr>sc_esp := sc_esp c - 20\<rparr>))
     (bnd (gets (\<lambda>vm. sc_esp (vm_context vm))) (\<lambda>esp.
     thn (writeGuestDWord env (esp + 16) (sc_ss old))
     (thn (writeGuestDWord env (esp + 12) (sc_esp old))
     (ret esp)))))))))"

definition interruptStack :: "henv \<Rightarrow> selector_t \<Rightarrow> descriptor_t \<Rightarrow> Bit32u \<Rightarrow> Bit32u mon" where
  "interruptStack env csSel csDesc fromCPL =
     (if ucast (d_dpl csDesc) < fromCPL then
        bnd (innerStack env csDesc) (\<lambda>(tssESP, ssSel). switchStack env csSel tssESP ssSel)
      else
        thn (updCtx (\<lambda>c. c\<lparr>sc_esp := sc_esp c - 12\<rparr>))
        (gets (\<lambda>vm. sc_esp (vm_context vm))))"

text \<open>EFLAGS and \<^verbatim>\<open>CR4\<close> for the handler; \<open>None\<close> when the code panics.\<close>

definition handlerEFlags :: "5 word \<Rightarrow> bool \<Rightarrow> Bit32u \<Rightarrow> (Bit32u \<times> Bit32u) option" where
  "handlerEFlags gateType krn pushed =
     (let fl0 = pushed AND NOT (FlgMaskVM OR FlgMaskRF OR FlgMaskNT OR FlgMaskTF);
          fl = (if gateType = 14 then fl0 AND NOT FlgMaskIF else fl0)
      in
      if krn then
        Some ((if fl AND FlgMaskIF \<noteq> 0 then fl OR FlgMaskVIF else fl AND NOT FlgMaskVIF) OR FlgMaskIF, 2)
      else if fl AND FlgMaskIF = 0 then None
      else Some (fl OR FlgMaskIF, 0))"

definition setMonCR4 :: "Bit32u \<Rightarrow> unit mon" where
  "setMonCR4 newCR4 = thn (modify (upd_nexus (\<lambda>n. n\<lparr>nx_mon_cr4 := newCR4\<rparr>))) (loadMonCR4 newCR4)"

definition interruptPush :: "henv \<Rightarrow> Bit32u \<Rightarrow> Bit32u \<Rightarrow> Bit32u \<Rightarrow> Bit32u \<Rightarrow> Bit32u \<Rightarrow> unit mon" where
  "interruptPush env esp fromCPL oldEFlags intFlags errorCode =
     thn (writeGuestDWord env (esp + 8) oldEFlags)
     (bnd (gets vm_context) (\<lambda>c.
      thn (writeGuestDWord env (esp + 4) ((sc_cs c AND NOT 3) OR fromCPL))
      (thn (writeGuestDWord env (esp + 0) (sc_eip c))
      (whenM (intFlags AND IntFlagPushError \<noteq> 0)
        (thn (updCtx (\<lambda>c. c\<lparr>sc_esp := sc_esp c - 4\<rparr>))
        (bnd (gets (\<lambda>vm. sc_esp (vm_context vm))) (\<lambda>sp. writeGuestDWord env sp errorCode)))))))"

definition interruptEnter :: "henv \<Rightarrow> gate_t \<Rightarrow> Bit32u \<Rightarrow> unit mon" where
  "interruptEnter env gate oldEFlags =
     thn (updCtx (setSel SRegCS (g_selector gate)))
     (thn (updCtx (\<lambda>c. c\<lparr>sc_eip := gate_offset gate\<rparr>))
     (thn (guestSelectorUpdated env SRegCS (g_selector gate))
     (bnd (gets (\<lambda>vm. vm_linuxVMMode vm \<noteq> 0 \<and> vm_guestCPL vm = 0)) (\<lambda>krn.
      case handlerEFlags (g_type gate) krn oldEFlags of
        None \<Rightarrow> monpanic env ''doGI: IF=0.\<newline>'' []
      | Some (fl, newCR4) \<Rightarrow>
          thn (updCtx (\<lambda>c. c\<lparr>sc_eflags := fl\<rparr>))
          (bnd (gets (\<lambda>vm. nx_mon_cr4 (vm_nexus vm))) (\<lambda>cr4. whenM (cr4 \<noteq> newCR4) (setMonCR4 newCR4)))))))"

definition doGuestInterrupt :: "henv \<Rightarrow> Bit32u \<Rightarrow> Bit32u \<Rightarrow> Bit32u \<Rightarrow> unit mon" where
  "doGuestInterrupt env vector intFlags errorCode =
     bnd (gets vm_guestCPL) (\<lambda>fromCPL.
     bnd (interruptGate env vector intFlags fromCPL) (\<lambda>gate.
     bnd (interruptCS env (g_selector gate)) (\<lambda>csDesc.
     bnd (gets (\<lambda>vm. pushedEFlags (vm_linuxVMMode vm \<noteq> 0 \<and> fromCPL = 0) (sc_eflags (vm_context vm)))) (\<lambda>oldEFlags.
     bnd (interruptStack env (g_selector gate) csDesc fromCPL) (\<lambda>esp.
     thn (interruptPush env esp fromCPL oldEFlags intFlags errorCode)
     (interruptEnter env gate oldEFlags))))))"

section \<open>Return from interrupt\<close>

definition iretCS :: "henv \<Rightarrow> Bit32u \<Rightarrow> Bit32u \<Rightarrow> selector_t \<Rightarrow> unit mon" where
  "iretCS env fromCPL toEFlags toCS =
     (if ef_vm toEFlags then monpanic env ''doIRET: return EFLAGS.VM=1.\<newline>'' []
      else if ef_iopl toEFlags \<noteq> 0 then monpanic env ''doIRET: return EFLAGS.IOPL=%u.\<newline>'' [ArgU (ef_iopl toEFlags)]
      else if toCS AND 0xfffc = 0 then monpanic env ''doIRET: return CS NULL.\<newline>'' []
      else if (sel_rpl toCS \<noteq> 0 \<and> sel_rpl toCS \<noteq> 3) \<or> sel_ti toCS then
        monpanic env ''doIRET: bad return CS=0x%x.\<newline>'' [ArgU (ucast toCS)]
      else if sel_rpl toCS < fromCPL then
        monpanic env ''doIRET: to rpl=%u from CPL=%u.\<newline>'' [ArgU (sel_rpl toCS), ArgU fromCPL]
      else
        bnd (fetchGuestDescBySel env toCS 0) (\<lambda>d.
        if d_type d \<noteq> 0x1a \<or> ucast (d_dpl d) \<noteq> sel_rpl toCS \<or> d_p d = 0 then
          monpanic env ''doIRET: bad CS descriptor, type=0x%x, dpl=%u, p=%u.\<newline>''
            [ArgU (ucast (d_type d)), ArgU (ucast (d_dpl d)), ArgU (ucast (d_p d))]
        else ret ()))"

text \<open>A data selector of the kernel left in a register ends the machine.\<close>

definition iretDataSel :: "henv \<Rightarrow> Bit32u \<Rightarrow> unit mon" where
  "iretDataSel env v =
     (let sel = ucast v :: selector_t in
      whenM (sel AND 0xfffc \<noteq> 0 \<and> sel_index sel \<noteq> LinuxUserDsSlot)
        (monpanic env ''doIRET: gdtSlot != LinuxUserDsSlot.\<newline>'' []))"

definition iretOuter :: "henv \<Rightarrow> Bit32u \<Rightarrow> selector_t \<Rightarrow> unit mon" where
  "iretOuter env esp toCS =
     bnd (getGuestDWord env (esp + 12)) (\<lambda>toESP.
     bnd (getGuestWord env (esp + 16)) (\<lambda>toSS.
     if toSS AND 0xfffc = 0 then monpanic env ''doIRET: return SS NULL.\<newline>'' []
     else if sel_rpl toSS \<noteq> sel_rpl toCS then monpanic env ''doIRET: SS.rpl!=CS.rpl.\<newline>'' []
     else
       bnd (fetchGuestDescBySel env toSS 0) (\<lambda>d.
       if d_type d \<noteq> 0x12 \<or> ucast (d_dpl d) \<noteq> sel_rpl toCS \<or> d_p d = 0 then
         monpanic env ''doIRET: bad SS descriptor, type=0x%x, dpl=%u, p=%u.\<newline>''
           [ArgU (ucast (d_type d)), ArgU (ucast (d_dpl d)), ArgU (ucast (d_p d))]
       else
         thn (modify (\<lambda>vm. vm\<lparr>vm_guestCPL := 3\<rparr>))
         (thn (updCtx (setSel SRegSS toSS))
         (thn (updCtx (\<lambda>c. c\<lparr>sc_esp := toESP\<rparr>))
         (thn (guestSelectorUpdated env SRegSS toSS)
         (bnd (gets vm_context) (\<lambda>c.
         thn (iretDataSel env (sc_gs c))
         (thn (iretDataSel env (sc_fs c))
         (thn (iretDataSel env (sc_ds c))
         (iretDataSel env (sc_es c))))))))))))"

text \<open>\<open>VIF\<close>, \<open>VIP\<close> and \<^verbatim>\<open>CR4.PVI\<close> for the code returned to.\<close>

definition clearVI :: "Bit32u \<Rightarrow> Bit32u" where
  "clearVI fl = put_bit 20 False (put_bit 19 False fl)"

definition updEFlags :: "(Bit32u \<Rightarrow> Bit32u) \<Rightarrow> unit mon" where
  "updEFlags f = updCtx (\<lambda>c. c\<lparr>sc_eflags := f (sc_eflags c)\<rparr>)"

definition iretToUser :: "henv \<Rightarrow> Bit32u \<Rightarrow> bool \<Rightarrow> unit mon" where
  "iretToUser env toEFlags pvi =
     (if \<not> ef_if toEFlags then monpanic env ''IRET: r0 -> r3, stack eflags.if=0 (0x%x).\<newline>'' [ArgU toEFlags]
      else
        thn (updEFlags clearVI)
        (if \<not> pvi then monpanic env ''IRET: r0 -> r3; mon CR4.PVI=0?\<newline>'' []
         else bnd (gets (\<lambda>vm. nx_mon_cr4 (vm_nexus vm))) (\<lambda>cr4. setMonCR4 (cr4 AND NOT 2))))"

definition iretVirtualIF :: "henv \<Rightarrow> Bit32u \<Rightarrow> Bit32u \<Rightarrow> selector_t \<Rightarrow> unit mon" where
  "iretVirtualIF env fromCPL toEFlags toCS =
     bnd (gets (\<lambda>vm. bit (nx_mon_cr4 (vm_nexus vm)) 1)) (\<lambda>pvi.
     if sel_rpl toCS = 0 then
       if ef_if toEFlags \<noteq> ef_vif toEFlags then
         monpanic env ''IRET: stack EFLAGS.vif!=if (0x%x).\<newline>'' [ArgU toEFlags]
       else if \<not> pvi then monpanic env ''IRET: r0 -> r0; mon CR4.PVI=0?\<newline>'' []
       else updEFlags (\<lambda>fl. put_bit 20 False (put_bit 19 (ef_if toEFlags) fl))
     else if fromCPL < sel_rpl toCS then
       thn (whenM (toEFlags AND (FlgMaskVIF OR FlgMaskVIP) \<noteq> 0)
             (monprint env ''IRET: r0 -> r3, stack eflags.{vif|vip}=1 (0x%x).\<newline>'' [ArgU toEFlags]))
       (iretToUser env toEFlags pvi)
     else
       if toEFlags AND (FlgMaskVIF OR FlgMaskVIP) \<noteq> 0 then
         monpanic env ''IRET: r3 -> r3, stack eflags.{vif|vip}=1 (0x%x).\<newline>'' [ArgU toEFlags]
       else
         thn (updEFlags clearVI)
         (whenM pvi (monpanic env ''IRET: r3 -> r3; mon CR4.PVI=1?\<newline>'' [])))"

definition iretChangeMask :: Bit32u where
  "iretChangeMask = FlgMaskID OR FlgMaskAC OR FlgMaskRF OR FlgMaskNT OR FlgMaskOF OR FlgMaskDF OR FlgMaskTF OR
     FlgMaskSF OR FlgMaskZF OR FlgMaskAF OR FlgMaskPF OR FlgMaskCF"

definition doIRET :: "henv \<Rightarrow> unit mon" where
  "doIRET env =
     bnd (gets vm_guestCPL) (\<lambda>fromCPL.
     bnd (gets vm_context) (\<lambda>c.
     if ef_nt (sc_eflags c) then monpanic env ''doIRET: NT=1.\<newline>'' []
     else
       (let esp = sc_esp c in
        bnd (getGuestDWord env (esp + 0)) (\<lambda>toEIP.
        bnd (getGuestWord env (esp + 4)) (\<lambda>toCS.
        bnd (getGuestDWord env (esp + 8)) (\<lambda>toEFlags.
        thn (iretCS env fromCPL toEFlags toCS)
        (thn (if sel_rpl toCS > fromCPL then iretOuter env esp toCS
              else updCtx (\<lambda>c. c\<lparr>sc_esp := sc_esp c + 12\<rparr>))
        (thn (updCtx (setSel SRegCS toCS))
        (thn (updCtx (\<lambda>c. c\<lparr>sc_eip := toEIP\<rparr>))
        (thn (guestSelectorUpdated env SRegCS toCS)
        (thn (iretVirtualIF env fromCPL toEFlags toCS)
        (thn (updEFlags (put_bit 9 True))
        (updEFlags (\<lambda>fl. (fl AND NOT iretChangeMask) OR (toEFlags AND iretChangeMask)))))))))))))))"

section \<open>Both keep what the emulator must keep\<close>

lemma iretChangeMask_val [simp]: "iretChangeMask = 0x254dd5"
  by (simp add: iretChangeMask_def)

lemma sameProt_refl [simp]: "sameProt c c"
  "sameProt c (c\<lparr>sc_esp := v\<rparr>)" "sameProt c (c\<lparr>sc_eip := v\<rparr>)" "sameProt c (c\<lparr>sc_eax := v\<rparr>)"
  by (simp_all add: sameProt_def)

lemma handlerEFlags_ok:
  assumes "handlerEFlags t krn old = Some (fl, cr4)"
  shows "bit fl 9" "bit fl 12 = bit old 12" "bit fl 13 = bit old 13" "\<not> bit fl 17"
  using assms by (auto simp: handlerEFlags_def Let_def bit_simps split: if_splits)

lemma pushedEFlags_bits:
  "bit (pushedEFlags k fl) 12 = bit fl 12" "bit (pushedEFlags k fl) 13 = bit fl 13" "bit (pushedEFlags k fl) 17 = bit fl 17"
  by (auto simp: pushedEFlags_def bit_simps)

lemma ctxFlags_upd:
  "ctxFlags f \<Longrightarrow> ctxFlags (clearVI f)"
  "ctxFlags f \<Longrightarrow> ctxFlags (put_bit 20 False (put_bit 19 b f))"
  "ctxFlags f \<Longrightarrow> ctxFlags (put_bit 9 True f)"
  "ctxFlags f \<Longrightarrow> ctxFlags ((f AND NOT iretChangeMask) OR (g AND iretChangeMask))"
  by (simp_all add: ctxFlags_def clearVI_def bit_simps)

text \<open>A value read from the state carries what the invariant says of it.\<close>

lemma pres_gets_bnd:
  assumes "\<And>s. I s \<Longrightarrow> P (g s)" "\<And>x. P x \<Longrightarrow> pres I (f x)"
  shows "pres I (bnd (gets g) f)"
  using assms by (auto simp: pres_def)

context emu_frame
begin

lemma updEFlags_pres: "(\<And>f. ctxFlags f \<Longrightarrow> ctxFlags (g f)) \<Longrightarrow> pres I (updEFlags g)"
  unfolding updEFlags_def updCtx_def by (intro pres_modify fr_eflags) (auto intro: ctx_flags)

lemma updCtx_pres_sp [pres_rules]: "pres I (updCtx (\<lambda>c. c\<lparr>sc_esp := f c\<rparr>))"
  "pres I (updCtx (\<lambda>c. c\<lparr>sc_eip := f c\<rparr>))" "pres I (updCtx (\<lambda>c. c\<lparr>sc_eax := f c\<rparr>))"
  by (intro updCtx_pres; simp)+

lemma setMonCR4_pres [pres_rules]: "pres I (setMonCR4 v)"
  unfolding setMonCR4_def loadMonCR4_def by (intro pres_rules pres_modify) (simp_all add: print_fr fr_mon_cr)

lemma setCPL_pres [pres_rules]: "pres I (modify (\<lambda>vm. vm\<lparr>vm_guestCPL := v\<rparr>))"
  by (intro pres_modify) (simp add: fr_CPL)

lemma interruptGate_pres [pres_rules]: "pres I (interruptGate env vector intFlags fromCPL)"
  unfolding interruptGate_def by (intro pres_rules pres_monpanic)

lemma interruptCS_pres [pres_rules]: "pres I (interruptCS env sel)"
  unfolding interruptCS_def by (intro pres_rules pres_monpanic)

lemma interruptStack_pres [pres_rules]: "pres I (interruptStack env csSel csDesc fromCPL)"
  unfolding interruptStack_def innerStack_def switchStack_def by (intro pres_rules pres_monpanic)

lemma interruptPush_pres [pres_rules]: "pres I (interruptPush env esp fromCPL fl intFlags errorCode)"
  unfolding interruptPush_def by (intro pres_rules)

text \<open>The image pushed has no I/O privilege either, so neither have the flags of the handler.\<close>

lemma interruptEnter_pres:
  assumes "\<not> bit old 12" "\<not> bit old 13"
  shows "pres I (interruptEnter env gate old)"
proof -
  have "pres I (updCtx (\<lambda>c. c\<lparr>sc_eflags := fl\<rparr>))" if "handlerEFlags t k old = Some (fl, cr4)" for t k fl cr4
    using handlerEFlags_ok [OF that] assms
    by (auto simp: updCtx_def ctxFlags_def intro!: pres_modify fr_eflags)
  then show ?thesis
    unfolding interruptEnter_def by (intro pres_rules pres_monpanic) auto
qed

lemma doGuestInterrupt_pres [pres_rules]: "pres I (doGuestInterrupt env vector intFlags errorCode)"
  unfolding doGuestInterrupt_def
  by (intro pres_gets_bnd [where P = "\<lambda>f. \<not> bit f 12 \<and> \<not> bit f 13"] interruptEnter_pres pres_rules)
    (auto simp: pushedEFlags_bits ctxFlags_def dest!: ctx_flags)

lemma iretOuter_pres [pres_rules]: "pres I (iretOuter env esp toCS)"
  unfolding iretOuter_def iretDataSel_def by (intro pres_rules pres_monpanic)

lemma doIRET_pres [pres_rules]: "pres I (doIRET env)"
  unfolding doIRET_def iretCS_def iretVirtualIF_def iretToUser_def
  by (intro pres_rules pres_monpanic updEFlags_pres ctxFlags_upd)

end

section \<open>The guest's interrupt flag\<close>

text \<open>The interrupt flag the guest believes in.\<close>

definition guestIF :: "vm_t \<Rightarrow> bool" where
  "guestIF vm = (let fl = sc_eflags (vm_context vm) in if vm_guestCPL vm = 0 then ef_vif fl else ef_if fl)"

lemma and_flag: "((w :: Bit32u) AND 512 = 0) = (\<not> bit w 9)" "(w AND 524288 = 0) = (\<not> bit w 19)"
  using and_bit_0 [of w 9] and_bit_0 [of w 19] by simp_all

text \<open>The processor virtualises the interrupt flag exactly while the guest kernel runs.\<close>

definition pvi_inv :: "vm_t \<Rightarrow> bool" where
  "pvi_inv vm \<longleftrightarrow> (vm_guestCPL vm = 0 \<or> vm_guestCPL vm = 3) \<and> (bit (nx_mon_cr4 (vm_nexus vm)) 1 \<longleftrightarrow> vm_guestCPL vm = 0)"

lemma setSel_eflags [simp]: "sc_eflags (setSel sreg sel ctx) = sc_eflags ctx"
  by (simp add: setSel_def Let_def)

end
