(* ===== verification/Emu_Instr.thy ===== *)
theory Emu_Instr
  imports Emu_Int
begin

text \<open>
  The instruction emulator, \<^verbatim>\<open>monitor-space/x86-emu.c\<close>: \<^verbatim>\<open>decodeModRM\<close>, \<^verbatim>\<open>setCRx\<close>,
  \<^verbatim>\<open>setDRx\<close>, \<^verbatim>\<open>doWRMSR\<close>, \<^verbatim>\<open>emulateSysInstr\<close> with its instructions in groups,
  \<^verbatim>\<open>emulateUserInstr\<close>, \<^verbatim>\<open>doGuestFault\<close>; and \<^verbatim>\<open>guestPageFault\<close> of
  \<^verbatim>\<open>monitor-space/paging.c\<close>. An instruction ends with \<^verbatim>\<open>goto advanceInstruction\<close>
  (\<open>Advance iLen\<close>) or with \<^verbatim>\<open>return\<close>.
\<close>

section \<open>Decoding\<close>

text \<open>\<^verbatim>\<open>Bit8u opcode[16]\<close>, of which \<^verbatim>\<open>getObjectLAddr\<close> writes the first 15.\<close>

definition opByte :: "henv \<Rightarrow> Bit8u list \<Rightarrow> nat \<Rightarrow> Bit8u mon" where
  "opByte env op i =
     thn (inBounds ''opcode'' (i < 16)) (ret (if i < length op then op ! i else he_uninit env i))"

definition opWord :: "henv \<Rightarrow> Bit8u list \<Rightarrow> nat \<Rightarrow> Bit16u mon" where
  "opWord env op i =
     bnd (opByte env op i) (\<lambda>b0. bnd (opByte env op (i + 1)) (\<lambda>b1. ret (le_word [b0, b1])))"

definition opDWord :: "henv \<Rightarrow> Bit8u list \<Rightarrow> nat \<Rightarrow> Bit32u mon" where
  "opDWord env op i =
     bnd (opByte env op i) (\<lambda>b0. bnd (opByte env op (i + 1)) (\<lambda>b1.
     bnd (opByte env op (i + 2)) (\<lambda>b2. bnd (opByte env op (i + 3)) (\<lambda>b3. ret (le_word [b0, b1, b2, b3])))))"

text \<open>A field the decoder leaves alone is 0 here; no caller reads one.\<close>

record modRM_t =
  mr_addr :: Bit32u
  mr_mod :: nat
  mr_nnn :: nat
  mr_rm :: nat
  mr_base :: nat
  mr_index :: nat
  mr_scale :: nat

definition fieldsModRM :: "Bit8u \<Rightarrow> modRM_t" where
  "fieldsModRM modrm = \<lparr>mr_addr = 0, mr_mod = unat (drop_bit 6 modrm), mr_nnn = unat (drop_bit 3 modrm AND 7),
     mr_rm = unat (modrm AND 7), mr_base = 0, mr_index = 0, mr_scale = 0\<rparr>"

definition decodeSIB :: "henv \<Rightarrow> Bit8u list \<Rightarrow> nat \<Rightarrow> modRM_t \<Rightarrow> (modRM_t \<times> nat) mon" where
  "decodeSIB env op i mr =
     bnd (opByte env op (i + 1)) (\<lambda>sib.
     thn (monprint env ''decodeModRM: sib byte follows.\<newline>'' [])
     (let mr = mr\<lparr>mr_base := unat (sib AND 7), mr_index := unat (drop_bit 3 sib AND 7), mr_scale := unat (drop_bit 6 sib)\<rparr> in
      if mr_mod mr = 0 \<and> mr_base mr \<noteq> 5 then
        thn (monprint env ''decodeModRM: sib: mod=%u, base=%u.\<newline>'' [ArgU (of_nat (mr_mod mr)), ArgU (of_nat (mr_base mr))])
        (bnd (if mr_index mr \<noteq> 4 then bnd (GenReg (mr_index mr)) (\<lambda>v. ret (push_bit (mr_scale mr) v)) else ret 0) (\<lambda>scaledIndex.
         bnd (GenReg (mr_base mr)) (\<lambda>base.
         ret (mr\<lparr>mr_addr := base + scaledIndex\<rparr>, 2))))
      else
        monpanic env ''decodeModRM: sib: mod=%u, base=%u.\<newline>'' [ArgU (of_nat (mr_mod mr)), ArgU (of_nat (mr_base mr))]))"

definition decodeModRM :: "henv \<Rightarrow> Bit8u list \<Rightarrow> nat \<Rightarrow> (modRM_t \<times> nat) mon" where
  "decodeModRM env op i =
     bnd (opByte env op i) (\<lambda>modrm.
     (let mr = fieldsModRM modrm in
      if mr_mod mr = 3 then ret (mr, 1)
      else if mr_rm mr \<noteq> 4 then
        if mr_mod mr = 0 then
          if mr_rm mr = 5 then bnd (opDWord env op (i + 1)) (\<lambda>a. ret (mr\<lparr>mr_addr := a\<rparr>, 5))
          else bnd (GenReg (mr_rm mr)) (\<lambda>a. ret (mr\<lparr>mr_addr := a\<rparr>, 1))
        else if mr_mod mr = 1 then monpanic env ''decodeModRM: no sib, mod=1.\<newline>'' []
        else monpanic env ''decodeModRM: no sib, mod=2.\<newline>'' []
      else decodeSIB env op i mr))"

section \<open>Control, debug and model specific registers\<close>

definition setCR0 :: "henv \<Rightarrow> Bit32u \<Rightarrow> unit mon" where
  "setCR0 env val32 =
     thn (updCpu (\<lambda>c. c\<lparr>cpu_cr0 := val32\<rparr>))
     (if val32 AND 0x60000033 \<noteq> 0x00000033 then monpanic env ''setCR0: guest CR0=0x%x\<newline>'' [ArgU val32]
      else
        (let newMonCR0 = 0x8001003b OR (val32 AND 0x00040000) in
         bnd (gets (\<lambda>vm. nx_mon_cr0 (vm_nexus vm))) (\<lambda>cr0.
         whenM (newMonCR0 \<noteq> cr0)
           (thn (modify (upd_nexus (\<lambda>n. n\<lparr>nx_mon_cr0 := newMonCR0\<rparr>))) (loadMonCR0 newMonCR0)))))"

definition setCR4 :: "henv \<Rightarrow> Bit32u \<Rightarrow> unit mon" where
  "setCR4 env val32 =
     (let allowMask = 0 in
      if val32 AND NOT allowMask \<noteq> 0 then
        monpanic env ''SetCR4: write of 0x%08x unsupported (allowMask=0x%x).'' [ArgU val32, ArgU allowMask]
      else
        (let val32 = val32 AND allowMask in
         if val32 AND 0x0000077f \<noteq> 0 then monpanic env ''setCR4: unsupported bits set (0x%x).\<newline>'' [ArgU val32]
         else updCpu (\<lambda>c. c\<lparr>cpu_cr4 := val32\<rparr>)))"

definition setCRx :: "henv \<Rightarrow> nat \<Rightarrow> Bit32u \<Rightarrow> bool mon" where
  "setCRx env crx val32 =
     thn (monInitShadowPaging env)
     (if crx = 0 then thn (setCR0 env val32) (ret True)
      else if crx = 3 then
        thn (updCpu (\<lambda>c. c\<lparr>cpu_cr3 := val32\<rparr>)) (thn (monInitShadowPaging env) (ret True))
      else if crx = 4 then thn (setCR4 env val32) (ret True)
      else monpanic env ''setCR%u: val=0x%x.\<newline>'' [ArgU (of_nat crx), ArgU val32])"

definition setDRx :: "henv \<Rightarrow> nat \<Rightarrow> Bit32u \<Rightarrow> bool mon" where
  "setDRx env drx val32 =
     thn (whenM (\<not> (drx = 7 \<and> val32 = 0))
           (monprint env ''setDR%u: ignoring val=0x%x.\<newline>'' [ArgU (of_nat drx), ArgU val32]))
     (ret True)"

definition doWRMSR :: "henv \<Rightarrow> bool mon" where
  "doWRMSR env =
     bnd (GenReg GenRegECX) (\<lambda>ecx.
     bnd (GenReg GenRegEAX) (\<lambda>eax.
     if ecx = 0x174 then thn (updCpu (\<lambda>c. c\<lparr>cpu_sysEnter := (cpu_sysEnter c)\<lparr>se_cs := eax\<rparr>\<rparr>)) (ret True)
     else if ecx = 0x175 then thn (updCpu (\<lambda>c. c\<lparr>cpu_sysEnter := (cpu_sysEnter c)\<lparr>se_esp := eax\<rparr>\<rparr>)) (ret True)
     else if ecx = 0x176 then thn (updCpu (\<lambda>c. c\<lparr>cpu_sysEnter := (cpu_sysEnter c)\<lparr>se_eip := eax\<rparr>\<rparr>)) (ret True)
     else monpanic env ''WRMSR[0x%x]: unimplemented MSR.\<newline>'' [ArgU ecx]))"

section \<open>Instructions\<close>

datatype sysRes = Advance nat | Return bool

definition operandSel :: "henv \<Rightarrow> modRM_t \<Rightarrow> selector_t mon" where
  "operandSel env mr =
     (if mr_mod mr = 3 then bnd (GenReg (mr_rm mr)) (\<lambda>v. ret (ucast v)) else getGuestWord env (mr_addr mr))"

definition sysLLDT :: "henv \<Rightarrow> modRM_t \<Rightarrow> nat \<Rightarrow> sysRes mon" where
  "sysLLDT env mr iLen =
     bnd (operandSel env mr) (\<lambda>sel.
     if sel AND 0xfffc = 0 then
       thn (updCpu (\<lambda>c. c\<lparr>cpu_ldtr := (cpu_ldtr c)\<lparr>sr_sel := sel, sr_valid := 0\<rparr>\<rparr>)) (ret (Advance iLen))
     else
       thn (monprint env ''emulateSysIntr: LLDT: forcing selector null.\<newline>'' [])
       (thn (updCpu (\<lambda>c. c\<lparr>cpu_ldtr := (cpu_ldtr c)\<lparr>sr_sel := 0, sr_valid := 0\<rparr>\<rparr>)) (ret (Advance iLen))))"

definition sysLTR :: "henv \<Rightarrow> modRM_t \<Rightarrow> nat \<Rightarrow> sysRes mon" where
  "sysLTR env mr iLen =
     bnd (operandSel env mr) (\<lambda>sel.
     if sel AND 0xfffc = 0 then
       thn (updCpu (\<lambda>c. c\<lparr>cpu_tr := (cpu_tr c)\<lparr>sr_sel := sel, sr_valid := 0\<rparr>\<rparr>)) (ret (Advance iLen))
     else if sel AND 4 \<noteq> 0 then monpanic env ''LTR_Ew: selector.ti=1.\<newline>'' []
     else
       bnd (fetchGuestDescBySel env sel FetchDescUpdateBusyBit) (\<lambda>tss.
       if d_p tss = 0 \<or> d_type tss \<noteq> 9 \<or> trLimit tss < 103 then monpanic env ''LTR_Ew: bad descriptor.\<newline>'' []
       else
         thn (updCpu (\<lambda>c. c\<lparr>cpu_tr := \<lparr>sr_sel = sel, sr_des = tss\<lparr>d_type := d_type tss OR 2\<rparr>, sr_valid = 1\<rparr>\<rparr>))
         (ret (Advance iLen))))"

definition sysGroup6 :: "henv \<Rightarrow> Bit8u list \<Rightarrow> nat \<Rightarrow> sysRes mon" where
  "sysGroup6 env op iLen =
     bnd (decodeModRM env op iLen) (\<lambda>(mr, len).
     thn (monprint env ''emulateSysIntr: G6: nnn=%u\<newline>'' [ArgU (of_nat (mr_nnn mr))])
     (if mr_nnn mr = 2 then sysLLDT env mr (iLen + len)
      else if mr_nnn mr = 3 then sysLTR env mr (iLen + len)
      else monpanic env ''emulateSI: Group6: nnn=%u.\<newline>'' [ArgU (of_nat (mr_nnn mr))]))"

text \<open>LGDT and LIDT read a limit and a base.\<close>

definition tableOperand :: "henv \<Rightarrow> string \<Rightarrow> modRM_t \<Rightarrow> gdt_info_t mon" where
  "tableOperand env msg mr =
     (if mr_mod mr = 3 then monpanic env msg []
      else
        bnd (getGuestWord env (mr_addr mr)) (\<lambda>limit16.
        bnd (getGuestDWord env (mr_addr mr + 2)) (\<lambda>base32.
        ret \<lparr>gi_limit = limit16, gi_base = base32\<rparr>)))"

definition sysGroup7 :: "henv \<Rightarrow> Bit8u list \<Rightarrow> nat \<Rightarrow> sysRes mon" where
  "sysGroup7 env op iLen =
     bnd (decodeModRM env op iLen) (\<lambda>(mr, len).
     if mr_nnn mr = 2 then
       bnd (tableOperand env ''LGDT_Ms: mod=3.\<newline>'' mr) (\<lambda>info.
       thn (updCpu (\<lambda>c. c\<lparr>cpu_gdtr := info\<rparr>))
       (thn (monprint env ''GDTR.limit = 0x%x.\<newline>'' [ArgU (ucast (gi_limit info))])
       (ret (Advance (iLen + len)))))
     else if mr_nnn mr = 3 then
       bnd (tableOperand env ''LIDT_Ms: mod=3.\<newline>'' mr) (\<lambda>info.
       thn (updCpu (\<lambda>c. c\<lparr>cpu_idtr := info\<rparr>)) (ret (Advance (iLen + len))))
     else if mr_nnn mr = 7 then
       if mr_mod mr = 3 then thn (monprint env ''INVLPG: mod=3.\<newline>'' []) (ret (Return False))
       else thn (invalidateGuestLinAddr env (mr_addr mr)) (ret (Advance (iLen + len)))
     else monpanic env ''emulateSI: Group7, nnn=%u.\<newline>'' [ArgU (of_nat (mr_nnn mr))])"

definition sysMovRdCd :: "henv \<Rightarrow> Bit8u list \<Rightarrow> nat \<Rightarrow> sysRes mon" where
  "sysMovRdCd env op iLen =
     bnd (opByte env op iLen) (\<lambda>modrm.
     (let rm = unat (modrm AND 7); nnn = unat (drop_bit 3 modrm AND 7) in
      if modrm AND 0xc0 \<noteq> 0xc0 then monpanic env ''MOV_RdCd: mod field not 11b.\<newline>'' []
      else
        bnd (gets vm_guest_cpu) (\<lambda>c.
        if nnn \<notin> {0, 2, 3, 4} then monpanic env ''MOV_RdCd: cr%u?\<newline>'' [ArgU (of_nat nnn)]
        else
          thn (setGenReg rm (if nnn = 0 then cpu_cr0 c else if nnn = 2 then cpu_cr2 c
                             else if nnn = 3 then cpu_cr3 c else cpu_cr4 c))
          (ret (Advance (iLen + 1))))))"

definition sysMovCdRd :: "henv \<Rightarrow> Bit8u list \<Rightarrow> nat \<Rightarrow> sysRes mon" where
  "sysMovCdRd env op iLen =
     bnd (decodeModRM env op iLen) (\<lambda>(mr, len).
     if mr_mod mr \<noteq> 3 then monpanic env ''MOV_CdRd: mod field not 11b.\<newline>'' []
     else
       bnd (GenReg (mr_rm mr)) (\<lambda>val32.
       bnd (setCRx env (mr_nnn mr) val32) (\<lambda>ok.
       if ok then ret (Advance (iLen + len)) else monpanic env ''emulateSI: setCRx failed.\<newline>'' [])))"

definition sysMovDdRd :: "henv \<Rightarrow> Bit8u list \<Rightarrow> nat \<Rightarrow> sysRes mon" where
  "sysMovDdRd env op iLen =
     bnd (decodeModRM env op iLen) (\<lambda>(mr, len).
     if mr_mod mr \<noteq> 3 then monpanic env ''MOV_DdRd: mod field not 3.\<newline>'' []
     else
       bnd (GenReg (mr_rm mr)) (\<lambda>val32.
       bnd (setDRx env (mr_nnn mr) val32) (\<lambda>ok.
       if ok then ret (Advance (iLen + len)) else monpanic env ''emulateSI: setDRx failed.\<newline>'' [])))"

definition sysRDTSC :: "nat \<Rightarrow> sysRes mon" where
  "sysRDTSC iLen =
     bnd (gets (\<lambda>vm. cpu_tsc (vm_guest_cpu vm))) (\<lambda>tsc.
     thn (setGenReg GenRegEAX (ucast tsc))
     (thn (setGenReg GenRegEDX (ucast (drop_bit 32 tsc)))
     (thn (updCpu (\<lambda>c. c\<lparr>cpu_tsc := cpu_tsc c + 10\<rparr>))
     (ret (Advance iLen)))))"

definition sysLSS :: "henv \<Rightarrow> Bit8u list \<Rightarrow> nat \<Rightarrow> sysRes mon" where
  "sysLSS env op iLen =
     bnd (decodeModRM env op iLen) (\<lambda>(mr, len).
     if mr_mod mr = 3 then monpanic env ''LSS_GvMp: mod=3.\<newline>'' []
     else
       bnd (getGuestDWord env (mr_addr mr)) (\<lambda>reg32.
       bnd (getGuestWord env (mr_addr mr + 4)) (\<lambda>sel.
       bnd (loadGuestSegment env SRegSS sel) (\<lambda>ok.
       if ok then thn (setGenReg (mr_nnn mr) reg32) (ret (Advance (iLen + len)))
       else ret (Return False)))))"

text \<open>The two-byte opcodes.\<close>

definition sys0F :: "henv \<Rightarrow> Bit8u list \<Rightarrow> nat \<Rightarrow> sysRes mon" where
  "sys0F env op iLen0 =
     bnd (opByte env op iLen0) (\<lambda>b1.
     (let iLen = iLen0 + 1 in
      if b1 = 0x00 then sysGroup6 env op iLen
      else if b1 = 0x01 then sysGroup7 env op iLen
      else if b1 = 0x06 then
        thn (updCpu (\<lambda>c. c\<lparr>cpu_cr0 := put_bit 3 False (cpu_cr0 c)\<rparr>)) (ret (Advance iLen))
      else if b1 = 0x20 then sysMovRdCd env op iLen
      else if b1 = 0x22 then sysMovCdRd env op iLen
      else if b1 = 0x23 then sysMovDdRd env op iLen
      else if b1 = 0x30 then
        bnd (doWRMSR env) (\<lambda>ok.
        if ok then ret (Advance iLen) else monpanic env ''emulateSI: doWRMSR failed.\<newline>'' [])
      else if b1 = 0x31 then sysRDTSC iLen
      else if b1 = 0xb2 then sysLSS env op iLen
      else monpanic env ''emulateSysInstr: default b1=0x%x\<newline>'' [ArgU (ucast b1)]))"

definition sysPopDS :: "henv \<Rightarrow> bool \<Rightarrow> nat \<Rightarrow> sysRes mon" where
  "sysPopDS env opsize iLen =
     (if \<not> opsize then monpanic env ''emulateSysInstr: POP DS, 16-bit opsize.\<newline>'' []
      else
        bnd (GenReg GenRegESP) (\<lambda>esp.
        bnd (getGuestWord env esp) (\<lambda>sel.
        bnd (loadGuestSegment env SRegDS sel) (\<lambda>ok.
        if ok then bnd (GenReg GenRegESP) (\<lambda>esp. thn (setGenReg GenRegESP (esp + 4)) (ret (Advance iLen)))
        else ret (Return False)))))"

definition sysMovSw :: "henv \<Rightarrow> Bit8u list \<Rightarrow> nat \<Rightarrow> sysRes mon" where
  "sysMovSw env op iLen =
     bnd (opByte env op iLen) (\<lambda>modrm.
     (let rm = unat (modrm AND 7); sreg = unat (drop_bit 3 modrm AND 7) in
      if sreg = SRegCS \<or> sreg > SRegGS then
        monpanic env ''emulateSysInstr: MOV_SwEw bad sreg=%u.\<newline>'' [ArgU (of_nat sreg)]
      else if modrm AND 0xc0 = 0xc0 then
        bnd (GenReg rm) (\<lambda>v.
        bnd (loadGuestSegment env sreg (ucast v)) (\<lambda>ok.
        ret (if ok then Advance (iLen + 1) else Return False)))
      else monpanic env ''emulateSysInstr: MOV_SwEw mod!=11b.\<newline>'' []))"

definition commitEIP :: "nat \<Rightarrow> unit mon" where
  "commitEIP iLen = updCtx (\<lambda>c. c\<lparr>sc_eip := sc_eip c + of_nat iLen\<rparr>)"

definition sysInt :: "henv \<Rightarrow> Bit8u list \<Rightarrow> nat \<Rightarrow> sysRes mon" where
  "sysInt env op iLen =
     bnd (opByte env op iLen) (\<lambda>Ib.
     thn (commitEIP (iLen + 1))
     (thn (if Ib = 0xff then toHostHalCall env else doGuestInterrupt env (ucast Ib) IntFlagSoftInt 0)
     (ret (Return True))))"

text \<open>The floating point escapes and the ports.\<close>

definition sysESC :: "henv \<Rightarrow> Bit8u list \<Rightarrow> Bit8u \<Rightarrow> nat \<Rightarrow> sysRes mon" where
  "sysESC env op b0 iLen =
     bnd (opByte env op iLen) (\<lambda>modrm.
     if b0 = 0xdb then
       if modrm = 0xe3 \<or> modrm = 0xe4 then ret (Advance (iLen + 1))
       else thn (monprint env ''ESC3: next=0x%x unsupported.\<newline>'' [ArgU (ucast modrm)]) (ret (Return False))
     else
       if modrm = 0xe0 then
         thn (updCtx (\<lambda>c. c\<lparr>sc_eax := 0x0000ffff\<rparr>)) (ret (Advance (iLen + 1)))
       else thn (monprint env ''ESC7: next=0x%x unsupported.\<newline>'' [ArgU (ucast modrm)]) (ret (Return False)))"

definition sysIN :: "henv \<Rightarrow> Bit32u \<Rightarrow> nat \<Rightarrow> sysRes mon" where
  "sysIN env port iLen =
     bnd (inp env 1 port) (\<lambda>v.
     thn (updCtx (\<lambda>c. c\<lparr>sc_eax := (sc_eax c AND NOT 0xff) OR (v AND 0xff)\<rparr>))
     (ret (Advance iLen)))"

definition sysPort :: "henv \<Rightarrow> Bit8u list \<Rightarrow> Bit8u \<Rightarrow> bool \<Rightarrow> nat \<Rightarrow> sysRes mon" where
  "sysPort env op b0 opsize iLen =
     bnd (gets vm_context) (\<lambda>c.
     (let dx = sc_edx c AND 0xffff; al = sc_eax c AND 0xff in
      if b0 = 0xe4 then bnd (opByte env op iLen) (\<lambda>port8. sysIN env (ucast port8) (iLen + 1))
      else if b0 = 0xe6 then
        bnd (opByte env op iLen) (\<lambda>port8. thn (outp env 1 (ucast port8) al) (ret (Advance (iLen + 1))))
      else if b0 = 0xec then sysIN env dx iLen
      else if b0 = 0xee then thn (outp env 1 dx al) (ret (Advance iLen))
      else
        thn (if \<not> opsize then outp env 2 dx (sc_eax c AND 0xffff) else outp env 4 dx (sc_eax c))
        (ret (Advance iLen))))"

definition sysJMP :: "henv \<Rightarrow> Bit8u list \<Rightarrow> nat \<Rightarrow> sysRes mon" where
  "sysJMP env op iLen =
     bnd (opDWord env op iLen) (\<lambda>offset.
     bnd (opWord env op (iLen + 4)) (\<lambda>cs.
     bnd (loadGuestSegment env SRegCS cs) (\<lambda>ok.
     if ok then thn (updCtx (\<lambda>c. c\<lparr>sc_eip := offset\<rparr>)) (ret (Return True))
     else monpanic env ''JMP_Ap:\<newline>'' [])))"

text \<open>The loop of HLT: one clock of the interval timer per turn until it raises the interrupt line.
  \<open>None\<close>: it never ends.\<close>

partial_function (option) hltLoop :: "henv \<Rightarrow> vm_t \<Rightarrow> (vm_t, unit) outcome option" where
  "hltLoop env vm =
     (if INTR vm \<noteq> 0 then Some (Ret () vm)
      else case pitExpireClocks env 1 vm of
             Ret _ vm' \<Rightarrow> hltLoop env vm'
           | Panic e vm' \<Rightarrow> Some (Panic e vm')
           | Undef e \<Rightarrow> Some (Undef e)
           | Hang \<Rightarrow> Some Hang)"

definition hltWait :: "henv \<Rightarrow> unit mon" where
  "hltWait env vm = (case hltLoop env vm of None \<Rightarrow> Hang | Some r \<Rightarrow> r)"

definition sysHLT :: "henv \<Rightarrow> nat \<Rightarrow> sysRes mon" where
  "sysHLT env iLen =
     bnd (gets (\<lambda>vm. ef_vif (sc_eflags (vm_context vm)))) (\<lambda>vif.
     if \<not> vif then monpanic env ''HLT with VIF==0.\<newline>'' []
     else thn (hltWait env) (ret (Advance iLen)))"

definition sysSTI :: "henv \<Rightarrow> nat \<Rightarrow> sysRes mon" where
  "sysSTI env iLen =
     thn (commitEIP iLen)
     (thn (updEFlags (put_bit 19 True))
     (bnd (gets (\<lambda>vm. INTR vm)) (\<lambda>intr.
      if intr = 0 then monpanic env ''STI: system.INTR=0?.\<newline>'' []
      else
        bnd (picIAC env) (\<lambda>vector.
        thn (doGuestInterrupt env vector 0 0) (ret (Return True))))))"

section \<open>Dispatch\<close>

definition sysOpcode :: "henv \<Rightarrow> Bit8u list \<Rightarrow> Bit8u \<Rightarrow> nat \<Rightarrow> bool \<Rightarrow> sysRes mon" where
  "sysOpcode env op b0 iLen opsize =
     (if b0 = 0x0f then sys0F env op iLen
      else if b0 = 0x1f then sysPopDS env opsize iLen
      else if b0 = 0x8e then sysMovSw env op iLen
      else if b0 = 0xcd then sysInt env op iLen
      else if b0 = 0xcf then thn (doIRET env) (thn (toHostBogus env) (ret (Return True)))
      else if b0 = 0xdb \<or> b0 = 0xdf then sysESC env op b0 iLen
      else if b0 \<in> {0xe4, 0xe6, 0xec, 0xee, 0xef} then sysPort env op b0 opsize iLen
      else if b0 = 0xea then sysJMP env op iLen
      else if b0 = 0xf4 then sysHLT env iLen
      else if b0 = 0xfb then sysSTI env iLen
      else monpanic env ''emulateSysInstr: default b0=0x%x\<newline>'' [ArgU (ucast b0)])"

text \<open>The label \<^verbatim>\<open>decodeOpcode\<close>: one prefix is skipped, a second one makes the emulation
  fail.\<close>

function decodeOpcode :: "henv \<Rightarrow> Bit8u list \<Rightarrow> nat \<Rightarrow> bool \<Rightarrow> sysRes mon" where
  "decodeOpcode env op iLen opsize =
     bnd (opByte env op iLen) (\<lambda>b0.
     if b0 \<in> {0x2e, 0x66, 0x9b, 0xf0} then
       if iLen = 0 then decodeOpcode env op 1 (if b0 = 0x66 then False else opsize)
       else ret (Return False)
     else sysOpcode env op b0 (iLen + 1) opsize)"
  by pat_completeness auto

termination
  by (relation "measure (\<lambda>(env, op, iLen, opsize). 1 - iLen)") auto

declare decodeOpcode.simps [simp del]

definition emulateSysInstr :: "henv \<Rightarrow> bool mon" where
  "emulateSysInstr env =
     bnd (gets (\<lambda>vm. sc_eip (vm_context vm))) (\<lambda>eip.
     bnd (getObjectLAddr env (he_uninit env) eip 15) (\<lambda>op.
     bnd (decodeOpcode env op 0 True) (\<lambda>r.
     case r of
       Advance iLen \<Rightarrow> thn (commitEIP iLen) (ret True)
     | Return ok \<Rightarrow> ret ok)))"

definition emulateUserInstr :: "henv \<Rightarrow> unit mon" where
  "emulateUserInstr env =
     bnd (gets (\<lambda>vm. sc_eip (vm_context vm))) (\<lambda>eip.
     bnd (getObjectLAddr env (he_uninit env) eip 15) (\<lambda>op.
     bnd (opByte env op 0) (\<lambda>b0.
     if b0 = 0xcd then
       bnd (opByte env op 1) (\<lambda>Ib.
       thn (commitEIP 2) (doGuestInterrupt env (ucast Ib) IntFlagSoftInt 0))
     else monpanic env ''emulateUserInstr: b0=0x%x unhandled.\<newline>'' [ArgU (ucast b0)])))"

definition doGuestFault :: "henv \<Rightarrow> Bit32u \<Rightarrow> Bit32u \<Rightarrow> unit mon" where
  "doGuestFault env fault errorCode =
     bnd (gets vm_guestCPL) (\<lambda>cpl.
     if fault = ExceptionUD \<or> fault = ExceptionGP then
       if cpl = 0 then
         bnd (emulateSysInstr env) (\<lambda>ok.
         if ok then ret () else monpanic env ''doGuestFault: emulateSI failed.\<newline>'' [])
       else emulateUserInstr env
     else if fault = ExceptionNM then
       if cpl = 0 then
         bnd (emulateSysInstr env) (\<lambda>ok.
         if ok then ret () else monpanic env ''ExceptionNM: emulateSysInstr failed.\<newline>'' [])
       else doGuestInterrupt env ExceptionNM IntFlagAssertRF 0
     else if fault = ExceptionPF then
       doGuestInterrupt env ExceptionPF (IntFlagAssertRF OR IntFlagPushError)
         (if cpl \<noteq> 3 then errorCode AND NOT 4 else errorCode)
     else monpanic env ''doGuestFault: unhandled exception %u.\<newline>'' [ArgU fault])"

definition guestPageFault :: "henv \<Rightarrow> Bit32u \<Rightarrow> unit mon" where
  "guestPageFault env cr2 =
     bnd (gets vm_mon_pde_mask) (\<lambda>mask.
     if cr2 AND 0xffc00000 = mask then monpanic env ''PageFault: guest access to monitor space\<newline>'' []
     else
       bnd (gets (\<lambda>vm. sc_error (vm_context vm))) (\<lambda>error.
       if error AND 0x8 \<noteq> 0 then monpanic env ''guestPageFault: RSVD\<newline>'' []
       else
         bnd (gets (\<lambda>vm. vm_guestCPL vm = 3)) (\<lambda>us.
         bnd (mapGuestLinAddr env cr2 us (bit error 1)) (\<lambda>(r, ppi, gerror).
         case r of
           MapLinOK \<Rightarrow> ret ()
         | MapLinMonConflict \<Rightarrow> monpanic env ''guestPageFault: MapLinMonConflict:\<newline>'' []
         | MapLinAlreadyMapped \<Rightarrow> monpanic env ''guestPageFault: MapLinAlreadyMapped (0x%x):\<newline>'' [ArgU cr2]
         | MapLinPPageOOB \<Rightarrow> monpanic env ''guestPageFault: MapLinPPageOOB (0x%x):\<newline>'' [ArgU cr2]
         | MapLinEmulate \<Rightarrow> monpanic env ''guestPageFault: MapLinEmulate:\<newline>'' []
         | MapLinException \<Rightarrow>
             thn (updCpu (\<lambda>c. c\<lparr>cpu_cr2 := cr2\<rparr>)) (doGuestFault env ExceptionPF error)))))"

section \<open>Every instruction keeps what the monitor protects\<close>

lemma pres_opByte: "i < 16 \<Longrightarrow> pres I (opByte env op i)"
  unfolding opByte_def by (intro pres_rules pres_inBounds)

lemma pres_opWord: "i < 15 \<Longrightarrow> pres I (opWord env op i)"
  unfolding opWord_def by (intro pres_rules pres_opByte) simp_all

lemma pres_opDWord: "i < 13 \<Longrightarrow> pres I (opDWord env op i)"
  unfolding opDWord_def by (intro pres_rules pres_opByte) simp_all

lemma modRM_bounds [simp]: "unat ((b :: Bit8u) AND 7) < 8"
proof -
  have "unat (take_bit 3 b) < 2 ^ 3" by (rule unat_take_bit_less)
  then show ?thesis by (simp add: mask_and_eq)
qed

context emu_frame
begin

text \<open>A decoded operand names existing registers.\<close>

lemma decodeModRM_wp:
  assumes "I vm" "i < 10"
  shows "wp (decodeModRM env op i) (\<lambda>(mr, len) vm'. I vm' \<and> mr_nnn mr < 8 \<and> mr_rm mr < 8 \<and> len \<le> 5) vm"
proof -
  have sib: "wp (decodeSIB env op i mr) (\<lambda>(mr, len) vm'. I vm' \<and> mr_nnn mr < 8 \<and> mr_rm mr < 8 \<and> len \<le> 5) vm"
    if "mr_nnn mr < 8" "mr_rm mr < 8" for mr
    using that assms presD [OF monprint_pres]
    by (auto simp: decodeSIB_def opByte_def Let_def GenReg_def intro!: wp_mono [OF presD [OF monprint_pres]])
  show ?thesis
    using assms sib
    by (auto simp: decodeModRM_def opByte_def opDWord_def GenReg_def Let_def fieldsModRM_def)
qed

lemma pres_decode:
  assumes "\<And>mr len. mr_nnn mr < 8 \<Longrightarrow> mr_rm mr < 8 \<Longrightarrow> pres I (f mr len)" "i < 10"
  shows "pres I (bnd (decodeModRM env op i) (\<lambda>(mr, len). f mr len))"
  by (rule presI, rule wp_bndI [OF decodeModRM_wp]) (auto intro: presD [OF assms(1)] assms(2))

lemma commitEIP_pres [pres_rules]: "pres I (commitEIP n)"
  unfolding commitEIP_def by (rule updCtx_pres_sp)

lemma setCRx_pres [pres_rules]: "pres I (setCRx env n v)"
  unfolding setCRx_def setCR0_def setCR4_def loadMonCR0_def
  by (intro pres_rules pres_monpanic pres_modify) (simp_all add: print_fr fr_mon_cr)

lemma setDRx_pres [pres_rules]: "pres I (setDRx env n v)"
  unfolding setDRx_def by (intro pres_rules)

lemma doWRMSR_pres [pres_rules]: "pres I (doWRMSR env)"
  unfolding doWRMSR_def by (intro pres_rules pres_monpanic GenReg_pres) simp_all

lemma operandSel_pres: "mr_rm mr < 8 \<Longrightarrow> pres I (operandSel env mr)"
  unfolding operandSel_def by (intro pres_rules GenReg_pres)

lemma sysGroup6_pres: "i < 10 \<Longrightarrow> pres I (sysGroup6 env op i)"
  unfolding sysGroup6_def sysLLDT_def sysLTR_def
  by (intro pres_decode pres_rules pres_monpanic operandSel_pres)

lemma sysGroup7_pres: "i < 10 \<Longrightarrow> pres I (sysGroup7 env op i)"
  unfolding sysGroup7_def tableOperand_def by (intro pres_decode pres_rules pres_monpanic)

lemma sysMovCR_pres: "i < 10 \<Longrightarrow> pres I (sysMovRdCd env op i)" "i < 10 \<Longrightarrow> pres I (sysMovCdRd env op i)"
  "i < 10 \<Longrightarrow> pres I (sysMovDdRd env op i)"
  unfolding sysMovRdCd_def sysMovCdRd_def sysMovDdRd_def
  by (intro pres_decode pres_rules pres_monpanic pres_opByte GenReg_pres setGenReg_pres; simp)+

lemma sysRDTSC_pres: "pres I (sysRDTSC i)"
  unfolding sysRDTSC_def by (intro pres_rules setGenReg_pres) simp_all

lemma sysLSS_pres: "i < 10 \<Longrightarrow> pres I (sysLSS env op i)"
  unfolding sysLSS_def by (intro pres_decode pres_rules pres_monpanic setGenReg_pres)

lemma sys0F_pres: "i < 9 \<Longrightarrow> pres I (sys0F env op i)"
  unfolding sys0F_def
  by (intro pres_rules pres_monpanic pres_opByte sysGroup6_pres sysGroup7_pres sysMovCR_pres sysRDTSC_pres sysLSS_pres)
    simp_all

lemma sysPopDS_pres: "pres I (sysPopDS env osz i)"
  unfolding sysPopDS_def by (intro pres_rules pres_monpanic GenReg_pres setGenReg_pres) simp_all

lemma sysMovSw_pres: "i < 16 \<Longrightarrow> pres I (sysMovSw env op i)"
  unfolding sysMovSw_def by (intro pres_rules pres_monpanic pres_opByte GenReg_pres) simp_all

text \<open>The HAL call returns general registers only.\<close>

lemma toHostHalCall_pres [pres_rules]: "pres I (toHostHalCall env)"
proof (rule presI)
  fix vm assume I: "I vm"
  have regs: "I (vm\<lparr>vm_guest_cpu := cpu, vm_phymem := mem, vm_system := sys, vm_context := c\<rparr>)"
    if "sameProt (vm_context vm) c" for cpu mem sys c
    by (rule fr_regs) (simp_all add: print_fr fr_system I that)
  show "wp (toHostHalCall env) (\<lambda>_. I) vm"
    using I
    by (auto simp: toHostHalCall_def toHost_def CLI_def STI_def mon2host_def hostServeRequest_def leaveMonitor_def
        copyGenRegsToCpu_def reportINTR_def userStep_def userPoll_def executeResume_def copyGenRegsFromCpu_def
        enterMonitor_def print_fr fr_system sameProt_def split: option.split intro!: regs)
qed

lemma hltLoop_wp:
  assumes "hltLoop env vm = Some r" "I vm"
  shows "wp (\<lambda>_. r) (\<lambda>_. I) vm"
proof -
  have "I vm \<longrightarrow> wp (\<lambda>_. r) (\<lambda>_. I) (undefined :: vm_t)"
  proof (rule hltLoop.raw_induct [OF _ assms(1)])
    fix f env' vm' r'
    assume IH: "\<And>e v x. f e v = Some x \<Longrightarrow> I v \<longrightarrow> wp (\<lambda>_. x) (\<lambda>_. I) (undefined :: vm_t)"
      and body: "(if INTR vm' \<noteq> 0 then Some (Ret () vm')
        else case pitExpireClocks env' 1 vm' of Ret _ v \<Rightarrow> f env' v | Panic e v \<Rightarrow> Some (Panic e v)
          | Undef e \<Rightarrow> Some (Undef e) | Hang \<Rightarrow> Some Hang) = Some r'"
    show "I vm' \<longrightarrow> wp (\<lambda>_. r') (\<lambda>_. I) (undefined :: vm_t)"
    proof
      assume I: "I vm'"
      then have "wp (pitExpireClocks env' 1) (\<lambda>_. I) vm'"
        by (rule presD [OF pitExpireClocks_pres])
      then show "wp (\<lambda>_. r') (\<lambda>_. I) (undefined :: vm_t)"
        using body I by (auto simp: wp_def split: if_splits outcome.splits dest!: IH)
    qed
  qed
  then show ?thesis using assms(2) by (simp add: wp_def)
qed

lemma hltWait_pres [pres_rules]: "pres I (hltWait env)"
proof (rule presI)
  fix vm assume "I vm"
  then show "wp (hltWait env) (\<lambda>_. I) vm"
    using hltLoop_wp [of env vm] by (cases "hltLoop env vm") (auto simp: hltWait_def wp_def)
qed

lemma sysInt_pres: "i < 16 \<Longrightarrow> pres I (sysInt env op i)"
  unfolding sysInt_def by (intro pres_rules pres_opByte)

lemma sysESC_pres: "i < 16 \<Longrightarrow> pres I (sysESC env op b0 i)"
  unfolding sysESC_def by (intro pres_rules pres_opByte)

lemma sysPort_pres: "i < 16 \<Longrightarrow> pres I (sysPort env op b0 osz i)"
  unfolding sysPort_def sysIN_def by (intro pres_rules pres_opByte)

lemma sysJMP_pres: "i < 10 \<Longrightarrow> pres I (sysJMP env op i)"
  unfolding sysJMP_def by (intro pres_rules pres_monpanic pres_opDWord pres_opWord) simp_all

lemma sysHLT_pres: "pres I (sysHLT env i)"
  unfolding sysHLT_def by (intro pres_rules pres_monpanic)

lemma sysSTI_pres: "pres I (sysSTI env i)"
  unfolding sysSTI_def
  by (intro pres_rules pres_monpanic updEFlags_pres) (simp add: ctxFlags_def)

lemma sysOpcode_pres: "i < 9 \<Longrightarrow> pres I (sysOpcode env op b0 i osz)"
  unfolding sysOpcode_def
  by (intro pres_rules pres_monpanic sys0F_pres sysPopDS_pres sysMovSw_pres sysInt_pres sysESC_pres sysPort_pres
      sysJMP_pres sysHLT_pres sysSTI_pres) simp_all

lemma decodeOpcode_pres: "i < 2 \<Longrightarrow> pres I (decodeOpcode env op i osz)"
proof -
  have second: "pres I (decodeOpcode env op (Suc 0) osz)" for osz
    by (subst decodeOpcode.simps) (intro pres_rules pres_opByte sysOpcode_pres; simp)
  show "i < 2 \<Longrightarrow> pres I (decodeOpcode env op i osz)"
    by (subst decodeOpcode.simps) (intro pres_rules pres_opByte sysOpcode_pres; simp add: second)
qed

lemma emulateSysInstr_pres [pres_rules]: "pres I (emulateSysInstr env)"
proof -
  have result: "pres I (case r of Advance iLen \<Rightarrow> thn (commitEIP iLen) (ret True) | Return ok \<Rightarrow> ret ok)" for r
    by (cases r) (simp_all add: pres_rules commitEIP_pres)
  show ?thesis
    unfolding emulateSysInstr_def
    by (intro pres_rules getObjectLAddr_pres decodeOpcode_pres result) simp_all
qed

lemma emulateUserInstr_pres [pres_rules]: "pres I (emulateUserInstr env)"
  unfolding emulateUserInstr_def
  by (intro pres_rules pres_monpanic getObjectLAddr_pres pres_opByte) simp_all

lemma doGuestFault_pres [pres_rules]: "pres I (doGuestFault env fault errorCode)"
  unfolding doGuestFault_def by (intro pres_rules pres_monpanic)

lemma guestPageFault_pres [pres_rules]: "pres I (guestPageFault env cr2)"
proof -
  have result: "pres I (case r of
           MapLinOK \<Rightarrow> ret ()
         | MapLinMonConflict \<Rightarrow> monpanic env ''guestPageFault: MapLinMonConflict:\<newline>'' []
         | MapLinAlreadyMapped \<Rightarrow> monpanic env ''guestPageFault: MapLinAlreadyMapped (0x%x):\<newline>'' [ArgU cr2]
         | MapLinPPageOOB \<Rightarrow> monpanic env ''guestPageFault: MapLinPPageOOB (0x%x):\<newline>'' [ArgU cr2]
         | MapLinEmulate \<Rightarrow> monpanic env ''guestPageFault: MapLinEmulate:\<newline>'' []
         | MapLinException \<Rightarrow>
             thn (updCpu (\<lambda>c. c\<lparr>cpu_cr2 := cr2\<rparr>)) (doGuestFault env ExceptionPF error))" for r error
    by (cases r) (simp_all add: pres_rules pres_monpanic updCpu_pres doGuestFault_pres)
  show ?thesis
    unfolding guestPageFault_def by (intro pres_rules pres_monpanic result)
qed

end

section \<open>The monitor's invariant\<close>

text \<open>
  What must hold whenever the guest runs: code and stack are ring 3 segments and EFLAGS is tame, the GDT
  has the monitor's descriptors \<open>g\<close> in the monitor's slots and descriptors of DPL 3 or none in the
  others, the shadow page tables are isolated, the monitor's own page table is for the supervisor only
  and shares no page with a shadow table, and the clock ratio is not 0.
\<close>

definition ring3 :: "guestStackContext_t \<Rightarrow> bool" where
  "ring3 c \<longleftrightarrow> ctxFlags (sc_eflags c) \<and> sc_cs c AND 3 = 3 \<and> sc_ss c AND 3 = 3"

definition monSlots :: "nat list" where
  "monSlots = [VMMonCsSlot, VMMonDsSlot, VMMonTssSlot]"

definition gdtOK :: "descriptor_t list \<Rightarrow> (nat \<Rightarrow> descriptor_t) \<Rightarrow> bool" where
  "gdtOK g gdt \<longleftrightarrow> map gdt monSlots = g \<and> (\<forall>s < 512. s \<notin> set monSlots \<longrightarrow> d_p (gdt s) = 0 \<or> d_dpl (gdt s) = 3)"

text \<open>The pages of the page tables are different pages.\<close>

definition tablesDistinct :: "vm_pages_t \<Rightarrow> bool" where
  "tablesDistinct pg \<longleftrightarrow>
     (\<forall>i < MON_PAGE_TABLES. \<forall>j < MON_PAGE_TABLES.
        take_bit 20 (pg_page_tbl pg i) = take_bit 20 (pg_page_tbl pg j) \<longrightarrow> i = j) \<and>
     (\<forall>i < MON_PAGE_TABLES. take_bit 20 (pg_page_tbl pg i) \<noteq> take_bit 20 (pg_nexus_page_tbl pg))"

definition monTableOK :: "pageEntry_t \<Rightarrow> vm_pages_t \<Rightarrow> (nat \<Rightarrow> bool) \<Rightarrow> bool" where
  "monTableOK c pg us \<longleftrightarrow> pe_base c = take_bit 20 (pg_nexus_page_tbl pg) \<and> tablesDistinct pg \<and> (\<forall>pti < 1024. \<not> us pti)"

definition mon_inv :: "Bit32u \<Rightarrow> pageEntry_t \<Rightarrow> descriptor_t list \<Rightarrow> vm_t \<Rightarrow> bool" where
  "mon_inv m c g vm \<longleftrightarrow> isolated m c vm \<and> ring3 (vm_context vm) \<and> gdtOK g (vm_gdt vm) \<and>
     io_cpuToPitRatio (vm_io vm) \<noteq> 0 \<and> monTableOK c (vm_pages vm) (\<lambda>i. pe_US (vm_nexus_page_tbl vm i))"

lemma setSel_ring3: "ucast (sel OR 3 :: selector_t) AND 3 = (3 :: Bit32u)"
proof -
  have three: "(3 :: 'a::len word) = mask 2" by (simp add: mask_eq_exp_minus_1)
  show ?thesis
    unfolding three by (rule bit_word_eqI) (auto simp: bit_simps)
qed

lemma mon_inv_pres:
  assumes "pres (isolated m c) f" "keeps prot_core f"
  shows "pres (mon_inv m c g) f"
proof -
  have "mon_inv m c g = (\<lambda>vm. isolated m c vm \<and>
      (\<lambda>(ctx, gdt, ratio, pg, us). ring3 ctx \<and> gdtOK g gdt \<and> ratio \<noteq> 0 \<and> monTableOK c pg us) (prot_core vm))"
    by (simp add: fun_eq_iff mon_inv_def prot_core_def)
  then show ?thesis
    using pres_keeps [OF assms] by simp
qed

interpretation monitor: emu_frame "mon_inv m c g"
proof unfold_locales
  show "mon_inv m c g vm \<Longrightarrow> OKGuestSlot s \<Longrightarrow> d_dpl d = 3 \<Longrightarrow> mon_inv m c g (vm\<lparr>vm_gdt := (vm_gdt vm)(s := d)\<rparr>)"
    for vm s d
    using OKGuestSlot_bounds [of s] by (auto simp: mon_inv_def gdtOK_def monSlots_def)
  show "mon_inv m c g vm \<Longrightarrow> sameProt (vm_context vm) k \<Longrightarrow> mon_inv m c g (vm\<lparr>vm_context := k\<rparr>)" for vm k
    by (auto simp: mon_inv_def ring3_def sameProt_def)
  show "mon_inv m c g vm \<Longrightarrow> mon_inv m c g (vm\<lparr>vm_context := setSel r sel (vm_context vm)\<rparr>)" for vm r sel
    using setSel_ring3 [of sel] by (auto simp: mon_inv_def ring3_def setSel_def Let_def)
qed (simp_all add: mon_inv_def ring3_def isolated_print.print_fr isolated_mem.fr_io isolated_mem.fr_system
      mon_inv_pres open_guest_phy_page_pres open_guest_phy_page_keeps
      mapGuestLinAddr_pres mapGuestLinAddr_keeps invalidateGuestLinAddr_pres invalidateGuestLinAddr_keeps
      monInitShadowPaging_pres monInitShadowPaging_keeps)

section \<open>HLT\<close>

lemma hltLoop_step:
  "hltWait env vm = (if INTR vm \<noteq> 0 then Ret () vm else thn (pitExpireClocks env 1) (hltWait env) vm)"
  by (subst hltWait_def, subst hltLoop.simps)
    (auto simp: thn_def bnd_def hltWait_def split: outcome.split)

text \<open>With the timer running and its line free, the wait ends with an interrupt.\<close>

lemma hltWait_twp:
  assumes "pit_ok vm" "pic_inv vm" "t_active (pitTimer 0 vm) \<noteq> 0" "0 \<notin> pic_masked vm" "pic_inService vm = {}"
  shows "twp (hltWait env) (\<lambda>_ vm'. pic_inv vm' \<and> pic_line vm') vm"
  using assms
proof (induction "unat (t_counter (pitTimer 0 vm))" arbitrary: vm rule: less_induct)
  case less
  have step: "twp (hltWait env) (\<lambda>_ vm'. pic_inv vm' \<and> pic_line vm') vm'"
    if vm': "pit_ok vm'" "pic_inv vm'" "pit_step_spec 1 vm vm'" for vm'
  proof (cases "expired 1 (pitTimer 0 vm)")
    case True
    then have "pic_line vm'"
      using vm' less.prems by (auto simp: pit_step_spec_def pic.line_iff)
    then have "hltWait env vm' = Ret () vm'"
      by (simp add: hltLoop_step pic_line_def)
    then show ?thesis using \<open>pic_line vm'\<close> vm'(2) by (simp add: twp_def)
  next
    case False
    then have t: "1 < t_counter (pitTimer 0 vm)" "pitTimer 0 vm' = expire 1 (pitTimer 0 vm)"
      using vm'(3) less.prems(3) by (auto simp: expired_def pit_step_spec_def not_le)
    then have "unat (t_counter (pitTimer 0 vm')) < unat (t_counter (pitTimer 0 vm))"
      using less.prems(3) unat_sub [of 1 "t_counter (pitTimer 0 vm)"]
      by (simp add: expire_def word_less_nat_alt word_le_nat_alt)
    then show ?thesis
      using less.hyps [of vm'] vm' less.prems t False by (simp add: pit_step_spec_def expire_def)
  qed
  show ?case
  proof (cases "INTR vm = 0")
    case True
    have "twp (thn (pitExpireClocks env 1) (hltWait env)) (\<lambda>_ vm'. pic_inv vm' \<and> pic_line vm') vm"
      unfolding twp_thn by (rule twp_mono [OF pitExpireClocks_law [OF less.prems(1,2)]]) (auto intro: step)
    then show ?thesis using True by (simp add: twp_def hltLoop_step [of env vm])
  next
    case False
    then show ?thesis using less.prems(2) by (simp add: twp_def hltLoop_step pic_line_def)
  qed
qed

text \<open>With timer 0 stopped nothing else can raise the line, and the wait never ends.\<close>

definition hltStuck :: "vm_t \<Rightarrow> bool" where
  "hltStuck vm \<longleftrightarrow> pit_ok vm \<and> pic_inv vm \<and> \<not> pic_line vm \<and> t_active (pitTimer 0 vm) = 0"

lemma hltStuck_step: "hltStuck vm \<Longrightarrow> twp (pitExpireClocks env 1) (\<lambda>_. hltStuck) vm"
  by (rule twp_mono [OF pitExpireClocks_law])
    (auto simp: hltStuck_def pit_step_spec_def expired_def expire_def pic.line_iff)

lemma hltLoop_stuck: "hltStuck vm \<Longrightarrow> hltLoop env vm = None"
proof (rule ccontr)
  assume stuck: "hltStuck vm" and "hltLoop env vm \<noteq> None"
  then obtain r where "hltLoop env vm = Some r" by blast
  then have "\<not> hltStuck vm"
  proof (rule hltLoop.raw_induct [rotated])
    fix f env' vm' r'
    assume IH: "\<And>e v x. f e v = Some x \<Longrightarrow> \<not> hltStuck v"
      and body: "(if INTR vm' \<noteq> 0 then Some (Ret () vm')
        else case pitExpireClocks env' 1 vm' of Ret _ v \<Rightarrow> f env' v | Panic e v \<Rightarrow> Some (Panic e v)
          | Undef e \<Rightarrow> Some (Undef e) | Hang \<Rightarrow> Some Hang) = Some r'"
    show "\<not> hltStuck vm'"
    proof
      assume stuck': "hltStuck vm'"
      then obtain x v where "pitExpireClocks env' 1 vm' = Ret x v" "hltStuck v"
        using hltStuck_step [OF stuck', of env'] by (auto simp: twp_iff)
      then show False
        using body stuck' IH by (auto simp: hltStuck_def pic_line_def)
    qed
  qed
  with stuck show False by simp
qed

lemma sysHLT_hangs:
  assumes "hltStuck vm" "ef_vif (sc_eflags (vm_context vm))"
  shows "sysHLT env iLen vm = Hang"
  using assms by (simp add: sysHLT_def hltWait_def hltLoop_stuck)

end
