(* ===== verification/Mon_Fault.thy ===== *)
theory Mon_Fault
  imports Emu_Instr
begin

text \<open>
  The entries of the monitor and the way back to the guest, \<^verbatim>\<open>monitor-space/fault.c\<close>:
  \<^verbatim>\<open>handleInt\<close>, \<^verbatim>\<open>preGuest\<close>, \<^verbatim>\<open>handleGuestFault\<close>, \<^verbatim>\<open>handleMonFault\<close>, composed
  as the assembly stubs compose them. \<open>mon_run\<close> is the machine seen from outside: the guest runs at
  ring 3 with the shadow tables until a fault or an interrupt enters the monitor, which returns to the
  guest through \<^verbatim>\<open>preGuest\<close>.
\<close>

section \<open>Entries\<close>

text \<open>The time the guest has run, up to \<open>t1\<close>.\<close>

definition accountCycles :: "Bit64u \<Rightarrow> unit mon" where
  "accountCycles t1 = modify (\<lambda>vm. vm\<lparr>vm_system := (vm_system vm)\<lparr>sys_cyclesElapsed :=
     sys_cyclesElapsed (vm_system vm) + (t1 - sys_t0 (vm_system vm))\<rparr>\<rparr>)"

text \<open>\<open>frame\<close> is the stack frame of an interrupt that arrived while the monitor ran; \<open>None\<close> when it
  arrived in guest code, whose frame is the guest context.\<close>

definition handleInt :: "henv \<Rightarrow> guestStackContext_t option \<Rightarrow> bool mon" where
  "handleInt env frame =
     bnd (vm_rdtsc env) (\<lambda>t1.
     bnd (gets (\<lambda>vm. case frame of None \<Rightarrow> vm_context vm | Some c \<Rightarrow> c)) (\<lambda>c.
     (let fromGuest = (sc_cs c AND 3 = 3) in
      thn (whenM fromGuest
            (thn (accountCycles t1)
            (whenM (ef_vip (sc_eflags c)) (whenM (frame = None) (updEFlags (put_bit 20 False))))))
      (thn (modify (\<lambda>vm. vm\<lparr>vm_mon_request := MonReqRedirect\<rparr>))
      (thn (modify (\<lambda>vm. vm\<lparr>vm_redirect_vector := sc_vector c\<rparr>))
      (thn (mon2host env)
      (ret (\<not> fromGuest))))))))"

definition CyclesOverhead :: Bit64u where "CyclesOverhead = 980"

text \<open>The clock part of \<^verbatim>\<open>preGuest\<close>: the elapsed cycles become clocks of the interval timer.\<close>

definition setCycles :: "Bit64u \<Rightarrow> unit mon" where
  "setCycles v = modify (\<lambda>vm. vm\<lparr>vm_system := (vm_system vm)\<lparr>sys_cyclesElapsed := v\<rparr>\<rparr>)"

definition preGuestClock :: "henv \<Rightarrow> unit mon" where
  "preGuestClock env =
     bnd (gets (\<lambda>vm. sys_cyclesElapsed (vm_system vm))) (\<lambda>e.
     thn (setCycles (if e > CyclesOverhead then e - CyclesOverhead else 0))
     (bnd (gets (\<lambda>vm. (sys_cyclesElapsed (vm_system vm), io_cpuToPitRatio (vm_io vm)))) (\<lambda>(e, ratio).
      whenM (e > ucast ratio)
        (thn (inBounds ''division by zero'' (ratio \<noteq> 0))
        (thn (setCycles 0)
        (pitExpireClocks env (ucast e div ratio)))))))"

text \<open>The interrupt of the HAL, posted by the user process.\<close>

definition preGuestHal :: "henv \<Rightarrow> unit mon" where
  "preGuestHal env =
     thn CLI
     (bnd (gets (\<lambda>vm. cpu_halIrq (vm_guest_cpu vm))) (\<lambda>irq.
      if irq \<noteq> - 1 then
        thn (updCpu (\<lambda>c. c\<lparr>cpu_halIrq := - 1\<rparr>))
        (thn (whenM (irq \<noteq> 3) (monpanic env ''preGuest: halIrq!=3.\<newline>'' []))
        (thn STI (picIrq env irq 1)))
      else STI))"

definition preGuestLinux :: "henv \<Rightarrow> unit mon" where
  "preGuestLinux env =
     bnd (gets (\<lambda>vm. INTR vm \<noteq> 0 \<and> ef_vif (sc_eflags (vm_context vm)))) (\<lambda>accept.
     thn (whenM accept (bnd (picIAC env) (\<lambda>vector. doGuestInterrupt env vector 0 0)))
     (bnd (gets (\<lambda>vm. INTR vm)) (\<lambda>intr. updEFlags (put_bit 20 (bit intr 0)))))"

definition preGuest :: "henv \<Rightarrow> unit mon" where
  "preGuest env =
     thn STI
     (thn (preGuestClock env)
     (thn (preGuestHal env)
     (bnd (gets vm_linuxVMMode) (\<lambda>linux.
      thn (whenM (linux \<noteq> 0) (preGuestLinux env))
      (bnd (gets (\<lambda>vm. ef_if (sc_eflags (vm_context vm)))) (\<lambda>IF.
       thn (whenM (\<not> IF) (monpanic_nomess ''preGuest: IF=0''))
       (thn CLI
       (bnd (vm_rdtsc env) (\<lambda>t0.
        modify (\<lambda>vm. vm\<lparr>vm_system := (vm_system vm)\<lparr>sys_t0 := t0\<rparr>\<rparr>))))))))))"

definition dispatchFault :: "henv \<Rightarrow> Bit32u \<Rightarrow> Bit32u \<Rightarrow> unit mon" where
  "dispatchFault env cr2 vector =
     (if vector = 1 then
        bnd (gets vm_executeMethod) (\<lambda>em.
        monpanic env ''handleGuestFault: #DB, method=%u not coded\<newline>'' [ArgU em])
      else if vector = 5 then monpanic env ''handleGuestFault: BR unfinished.\<newline>'' []
      else if vector \<in> {0, 3, 4, 7, 16} then doGuestFault env vector 0
      else if vector \<in> {11, 12, 17} then monpanic env ''handleGuestFault: NP/SS/AC unfinished.\<newline>'' []
      else if vector = 6 \<or> vector = 13 then doGuestFault env vector 0
      else if vector = 14 then guestPageFault env cr2
      else monpanic env ''handleGuestFault: Unhandled Fault: %u\<newline>'' [ArgU vector])"

definition handleGuestFault :: "henv \<Rightarrow> Bit32u \<Rightarrow> unit mon" where
  "handleGuestFault env cr2 =
     bnd (vm_rdtsc env) (\<lambda>t1.
     thn (accountCycles t1)
     (thn STI
     (bnd (gets (\<lambda>vm. ef_vip (sc_eflags (vm_context vm)))) (\<lambda>vip.
      thn (whenM vip (updEFlags (put_bit 20 False)))
      (bnd (gets (\<lambda>vm. sc_vector (vm_context vm))) (\<lambda>vector.
       thn (dispatchFault env cr2 vector)
       CLI))))))"

definition handleMonFault :: "henv \<Rightarrow> Bit32u \<Rightarrow> unit mon" where
  "handleMonFault env vector =
     bnd (gets vm_inMonFault) (\<lambda>f.
     thn (whenM (f \<noteq> 0) (monpanic env ''handleMonFault called recursively.\<newline>'' []))
     (thn (modify (\<lambda>vm. vm\<lparr>vm_inMonFault := 1\<rparr>))
     (monpanic env ''handleMonFault: vector=%u\<newline>'' [ArgU vector])))"

text \<open>The stubs: a fault or an interrupt of guest code ends in \<^verbatim>\<open>__ret_to_guest\<close>.\<close>

definition guestFaultEntry :: "henv \<Rightarrow> Bit32u \<Rightarrow> unit mon" where
  "guestFaultEntry env cr2 = thn (handleGuestFault env cr2) (preGuest env)"

definition guestIntEntry :: "henv \<Rightarrow> unit mon" where
  "guestIntEntry env = thn (handleInt env None) (preGuest env)"

section \<open>The entries keep the invariant\<close>

context emu_frame
begin

lemma hw_pres [pres_rules]: "pres I CLI" "pres I STI" "pres I (vm_rdtsc env)"
  unfolding hw_defs by (intro pres_rules pres_modify; simp add: print_fr)+

lemma system_pres [pres_rules]: "pres I (accountCycles t1)" "pres I (setCycles v)"
  "pres I (modify (\<lambda>vm. vm\<lparr>vm_system := (vm_system vm)\<lparr>sys_t0 := t\<rparr>\<rparr>))"
  unfolding accountCycles_def setCycles_def by (intro pres_modify; simp add: fr_system)+

lemma setVIP_pres [pres_rules]: "pres I (updEFlags (put_bit 20 b))"
  by (rule updEFlags_pres) (simp add: ctxFlags_def)

text \<open>A redirected interrupt may end the time slice, and the user process runs before the monitor
  is entered again.\<close>

lemma mon2host_redirect: "I vm \<Longrightarrow> vm_mon_request vm = MonReqRedirect \<Longrightarrow> wp (mon2host env) (\<lambda>_. I) vm"
  by (auto simp: mon2host_def hostServeRequest_def reportINTR_def userStep_def userPoll_def executeResume_def
      leaveMonitor_def enterMonitor_def print_fr fr_host fr_system)

lemma handleInt_pres [pres_rules]: "pres I (handleInt env frame)"
proof -
  have host: "pres I (thn (modify (\<lambda>vm. vm\<lparr>vm_mon_request := MonReqRedirect\<rparr>))
      (thn (modify (\<lambda>vm. vm\<lparr>vm_redirect_vector := v\<rparr>)) (thn (mon2host env) (ret x))))" for v and x :: bool
    by (rule presI) (auto intro!: wp_mono [OF mon2host_redirect] simp: print_fr fr_host)
  show ?thesis
    unfolding handleInt_def by (intro host pres_rules)
qed

lemma preGuestHal_pres [pres_rules]: "pres I (preGuestHal env)"
  unfolding preGuestHal_def by (intro pres_rules pres_monpanic)

lemma preGuestLinux_pres [pres_rules]: "pres I (preGuestLinux env)"
  unfolding preGuestLinux_def by (intro pres_rules)

lemma handleGuestFault_pres [pres_rules]: "pres I (handleGuestFault env cr2)"
  unfolding handleGuestFault_def dispatchFault_def by (intro pres_rules pres_monpanic)

lemma handleMonFault_pres: "pres I (handleMonFault env vector)"
  unfolding handleMonFault_def by (intro pres_rules pres_monpanic pres_modify) (simp add: fr_host)

lemma preGuest_pres:
  assumes clock: "pres I (preGuestClock env)"
  shows "pres I (preGuest env)"
proof -
  have "pres I (monpanic_nomess e :: unit mon)" for e
    by (simp add: pres_def)
  then show ?thesis
    unfolding preGuest_def by (intro clock pres_rules)
qed

end

lemma preGuestClock_pres: "pres (mon_inv m c g) (preGuestClock env)"
  unfolding preGuestClock_def
  by (intro monitor.system_pres monitor.pitExpireClocks_pres
      pres_gets_bnd [where P = "\<lambda>(e, ratio). ratio \<noteq> 0"] pres_rules pres_inBounds)
    (auto simp: mon_inv_def)

lemma guestFaultEntry_pres: "pres (mon_inv m c g) (guestFaultEntry env cr2)"
  unfolding guestFaultEntry_def
  by (intro pres_rules monitor.handleGuestFault_pres monitor.preGuest_pres preGuestClock_pres)

lemma guestIntEntry_pres: "pres (mon_inv m c g) (guestIntEntry env)"
  unfolding guestIntEntry_def
  by (intro pres_rules monitor.handleInt_pres monitor.preGuest_pres preGuestClock_pres)

section \<open>The guest stays in its memory\<close>

text \<open>What the processor does with a user-mode access under the monitor's page directory. An entry of
  the directory names the page of the monitor's own table or of a shadow table.\<close>

definition tableAt :: "vm_t \<Rightarrow> pageEntry_t \<Rightarrow> (nat \<Rightarrow> pageEntry_t) option" where
  "tableAt vm pde =
     (if pe_base pde = take_bit 20 (pg_nexus_page_tbl (vm_pages vm)) then Some (vm_nexus_page_tbl vm)
      else map_option (vm_page_tbl vm)
        (List.find (\<lambda>i. take_bit 20 (pg_page_tbl (vm_pages vm) i) = pe_base pde) [0..<MON_PAGE_TABLES]))"

definition userMay :: "bool \<Rightarrow> pageEntry_t \<Rightarrow> bool" where
  "userMay w e \<longleftrightarrow> pe_P e \<and> pe_US e \<and> (w \<longrightarrow> pe_RW e)"

definition shadowXlate :: "vm_t \<Rightarrow> Bit32u \<Rightarrow> bool \<Rightarrow> Bit32u option" where
  "shadowXlate vm lin w =
     (let pde = vm_page_dir vm (lin_pdi lin) in
      if userMay w pde then
        Option.bind (tableAt vm pde) (\<lambda>pt.
        (let pte = pt (lin_pti lin) in
         if userMay w pte then Some (push_bit 12 (pe_base pte) OR (lin AND 0xfff)) else None))
      else None)"

text \<open>A physical address in a page of the guest that the host has pinned, writable or not.\<close>

definition guestOwned :: "vm_t \<Rightarrow> bool \<Rightarrow> Bit32u \<Rightarrow> bool" where
  "guestOwned vm w pa \<longleftrightarrow> (\<exists>ppi < pg_guest_n_pages (vm_pages vm). (let p = vm_guestPageInfo vm (unat ppi) in
     pp_pinned p \<and> drop_bit 12 pa = take_bit 20 (pp_hostPPI p) \<and> (w \<longrightarrow> \<not> pp_RO p)))"

lemma tableAt_mapped:
  assumes d: "tablesDistinct (vm_pages vm)"
    and i: "i < MON_PAGE_TABLES" "pe_base pde = take_bit 20 (pg_page_tbl (vm_pages vm) i)"
    and t: "tableAt vm pde = Some pt"
  shows "pt = vm_page_tbl vm i"
proof -
  have "pe_base pde \<noteq> take_bit 20 (pg_nexus_page_tbl (vm_pages vm))"
    using d i by (simp add: tablesDistinct_def)
  then obtain j where "j < MON_PAGE_TABLES" "take_bit 20 (pg_page_tbl (vm_pages vm) j) = pe_base pde"
    "pt = vm_page_tbl vm j"
    using t by (auto simp: tableAt_def find_Some_iff)
  then show ?thesis using d i by (auto simp: tablesDistinct_def)
qed

lemma page_of_addr: "drop_bit 12 (push_bit 12 (pe_base e) OR (l AND 0xfff)) = pe_base (e :: Bit32u)"
  by (rule bit_word_eqI) (auto simp: pe_base_def mask_and_eq bit_simps dest: bit_imp_le_length)

lemma lin_pti_bound: "lin_pti lin < 1024"
  by simp

lemma shadowXlate_owned:
  assumes inv: "mon_inv m c g vm" and x: "shadowXlate vm lin w = Some pa"
  shows "guestOwned vm w pa"
proof -
  let ?pdi = "lin_pdi lin" let ?map = "vm_page_tbl_laddr_map vm ?pdi"
  have iso: "isolated m c vm" and mt: "monTableOK c (vm_pages vm) (\<lambda>i. pe_US (vm_nexus_page_tbl vm i))"
    using inv by (auto simp: mon_inv_def)
  obtain pt where may: "userMay w (vm_page_dir vm ?pdi)" and pt: "tableAt vm (vm_page_dir vm ?pdi) = Some pt"
    and pte: "userMay w (pt (lin_pti lin))" "pa = push_bit 12 (pe_base (pt (lin_pti lin))) OR (lin AND 0xfff)"
    using x by (auto simp: shadowXlate_def Let_def bind_eq_Some_conv split: if_splits)
  have "?pdi \<noteq> unat m"
  proof
    assume "?pdi = unat m"
    then have "pt = vm_nexus_page_tbl vm"
      using iso mt pt by (auto simp: isolated_def tableAt_def monTableOK_def)
    then show False using pte(1) mt lin_pti_bound [of lin] by (auto simp: userMay_def monTableOK_def)
  qed
  then have ok: "pdeOK vm ?pdi" and le: "unat (vm_ptbl_laddr_map_i vm) \<le> MON_PAGE_TABLES"
    using iso may by (auto simp: isolated_def shadow_inv_def shadow_wf_def userMay_def)
  have "?map < vm_ptbl_laddr_map_i vm" "pe_base (vm_page_dir vm ?pdi) = take_bit 20 (pg_page_tbl (vm_pages vm) (unat ?map))"
    and entries: "\<And>pti. pti < 1024 \<Longrightarrow> pe_P (vm_page_tbl vm (unat ?map) pti) \<Longrightarrow>
        guestPageEntry vm (vm_page_tbl vm (unat ?map) pti)"
    using ok by (auto simp: pdeOK_def Let_def)
  then have "pt = vm_page_tbl vm (unat ?map)"
    using le mt by (intro tableAt_mapped [OF _ _ _ pt]) (auto simp: word_less_nat_alt monTableOK_def)
  then have "guestPageEntry vm (pt (lin_pti lin))"
    using entries [OF lin_pti_bound] pte(1) by (simp add: userMay_def)
  moreover have "drop_bit 12 pa = pe_base (pt (lin_pti lin))"
    using pte(2) page_of_addr by simp
  ultimately show ?thesis
    using pte(1) unfolding guestPageEntry_def guestOwned_def Let_def userMay_def by metis
qed

section \<open>The machine as a whole\<close>

text \<open>
  The guest runs: as long as the GDT offers it no gate, the processor keeps ring 3 code at ring 3 and
  away from \<open>IF\<close>, \<open>IOPL\<close> and \<open>VM\<close>, and memory changes only where the page tables allow a
  write. Then a fault or an interrupt enters the monitor. Bit 4 of a descriptor's type tells a segment
  from a gate.
\<close>

definition noGates :: "(nat \<Rightarrow> descriptor_t) \<Rightarrow> bool" where
  "noGates gdt \<longleftrightarrow> (\<forall>s < 512. s \<notin> set monSlots \<longrightarrow> d_p (gdt s) = 0 \<or> bit (d_type (gdt s)) 4)"

inductive mon_step :: "henv \<Rightarrow> vm_t \<Rightarrow> vm_t \<Rightarrow> bool" for env :: henv where
  guest: "noGates (vm_gdt vm) \<Longrightarrow> ring3 c' \<Longrightarrow>
    (\<And>a. mem' a \<noteq> vm_phymem vm a \<Longrightarrow> \<exists>lin. shadowXlate vm lin True = Some a) \<Longrightarrow>
    mon_step env vm (vm\<lparr>vm_context := c', vm_phymem := mem'\<rparr>)"
| fault: "guestFaultEntry env cr2 vm = Ret () vm' \<Longrightarrow> mon_step env vm vm'"
| interrupt: "guestIntEntry env vm = Ret () vm' \<Longrightarrow> mon_step env vm vm'"

inductive_cases mon_stepE: "mon_step env vm vm'"

lemma mon_step_inv: "mon_step env vm vm' \<Longrightarrow> mon_inv m c g vm \<Longrightarrow> mon_inv m c g vm'"
proof (induction rule: mon_step.induct)
  case (guest vm c' mem')
  then show ?case by (simp add: mon_inv_def isolated_print.print_fr)
next
  case (fault cr2 vm vm')
  then show ?case using pres_Ret [OF guestFaultEntry_pres] by blast
next
  case (interrupt vm vm')
  then show ?case using pres_Ret [OF guestIntEntry_pres] by blast
qed

lemma mon_steps_inv: "(mon_step env)\<^sup>*\<^sup>* vm vm' \<Longrightarrow> mon_inv m c g vm \<Longrightarrow> mon_inv m c g vm'"
  by (induction rule: rtranclp_induct) (auto intro: mon_step_inv)

end
