(* ===== verification/Emu_Correct.thy ===== *)
theory Emu_Correct
  imports Mon_Fault
begin

text \<open>
  What the emulated operations compute when they succeed, for a guest whose pages are pinned: reading
  descriptors, loading segments, reading and writing doublewords.
\<close>

section \<open>Descriptors\<close>

definition linDesc :: "vm_t \<Rightarrow> Bit32u \<Rightarrow> descriptor_t" where
  "linDesc vm l = desc_of_word (le_word (linBytes vm l 8))"

text \<open>The window on a descriptor that lies in mapped memory, eight bytes aligned.\<close>

lemma descWindow_read_twp:
  assumes pin: "allPinned vm" and al: "l AND 7 = 0" and mapped: "mappedBytes vm l 8" and w: "windowOnly vm vm1"
  shows "twp (bnd (descWindow env l) (\<lambda>(page, off). win_readN env page off 8))
     (\<lambda>bs vm'. bs = linBytes vm l 8 \<and> windowOnly vm vm') vm1"
proof -
  have fits: "unat (l AND 0xfff) + unat (8 :: Bit32u) \<le> 4096"
    using aligned_off(2) [OF al] by simp
  obtain a where a: "linToPhy vm l = Some a" "a AND 0xfff = l AND 0xfff" "\<not> a > n_bytes vm - 8"
    "a < n_bytes vm" "a \<noteq> LinAddrNotAvailable"
    "linBytes vm l (unat (8 :: Bit32u)) = map (\<lambda>i. gbyte vm (a + of_nat i)) [0..<unat (8 :: Bit32u)]"
    by (rule mapped_run [OF _ fits]) (use mapped in simp_all)
  have "a AND 7 = (a AND 0xfff) AND 7" by (simp add: and.assoc)
  also have "\<dots> = l AND 7" unfolding a(2) by (simp add: and.assoc)
  finally have al': "a AND 7 = 0" using al by simp
  have each: "linToPhy vm (l + 7) = Some (a + 7)"
    using linToPhy_same_page [OF _ a(1), of 7] fits by simp
  have "\<exists>b. linToPhy vm (l + of_nat 7) = Some b \<and> b < n_bytes vm"
    using mapped unfolding mappedBytes_def by (drule_tac spec [of _ 7]) simp
  then have lt: "a + 7 < n_bytes vm" using each by simp
  have "unat a \<le> 4294967288"
  proof -
    have "unat a mod 8 = 0" using al' unat_and_mask(2) [of a] by simp
    then show ?thesis using unat_less_32 [of a] by presburger
  qed
  then have "unat (a + 7) = unat a + 7" by (simp add: unat_word_ariths)
  then have n: "unat a + 7 < unat (n_bytes vm)" using lt by (simp add: word_less_nat_alt)
  then have "unat (n_bytes vm - 7) = unat (n_bytes vm) - 7"
    using unat_sub [of 7 "n_bytes vm"] by (simp add: word_le_nat_alt)
  then have ok: "\<not> a \<ge> n_bytes vm - 7" using n by (simp add: word_le_nat_alt)
  have pin1: "allPinned vm1" using pin w by (simp add: windowOnly_same)
  have read: "twp (openPage0 env (drop_bit 12 a)) (\<lambda>page. twp (win_readN env page (unat (a AND 0xfff)) 8)
      (\<lambda>bs vm'. bs = linBytes vm l 8 \<and> windowOnly vm vm')) vm2" if "windowOnly vm1 vm2" for vm2
    using openRead_twp [OF windowOnly_trans [OF w that] pin a(4), of 8 env] a(6) fits [folded a(2)]
    by (simp add: twp_fun)
  show ?thesis
    unfolding descWindow_def twp_fun
    by (rule twp_mono [OF translateLinToPhy_twp [OF pin1]])
      (use a(5) al' ok in \<open>auto simp: windowOnly_same [OF w] a(1) avail_def windowOnly_same intro!: read\<close>)
qed

lemma fetchGuestDescByLAddr_twp:
  assumes "allPinned vm" "l AND 7 = 0" "mappedBytes vm l 8" "windowOnly vm vm1"
  shows "twp (fetchGuestDescByLAddr env l) (\<lambda>d vm'. d = linDesc vm l \<and> windowOnly vm vm') vm1"
  using descWindow_read_twp [OF assms, of env]
  by (auto simp: fetchGuestDescByLAddr_def linDesc_def case_prod_unfold elim!: twp_mono)

text \<open>The guest's descriptor of a selector.\<close>

definition selOffset :: "selector_t \<Rightarrow> Bit32u" where
  "selOffset sel = ucast sel AND NOT 7"

definition guestDesc :: "vm_t \<Rightarrow> selector_t \<Rightarrow> descriptor_t" where
  "guestDesc vm sel = linDesc vm (gi_base (cpu_gdtr (vm_guest_cpu vm)) + selOffset sel)"

definition selValid :: "vm_t \<Rightarrow> selector_t \<Rightarrow> bool" where
  "selValid vm sel \<longleftrightarrow>
     \<not> sel_ti sel \<and> sel_index sel \<noteq> 0 \<and> \<not> selOffset sel + 7 > ucast (gi_limit (cpu_gdtr (vm_guest_cpu vm))) \<and>
     gi_base (cpu_gdtr (vm_guest_cpu vm)) AND 7 = 0 \<and>
     mappedBytes vm (gi_base (cpu_gdtr (vm_guest_cpu vm)) + selOffset sel) 8"

lemma selOffset_aligned: "b AND 7 = 0 \<Longrightarrow> (b + selOffset sel) AND 7 = 0"
proof -
  assume b: "b AND 7 = 0"
  have "selOffset sel AND 7 = 0" by (simp add: selOffset_def and.assoc)
  then have "unat b mod 8 = 0" "unat (selOffset sel) mod 8 = 0"
    using b unat_and_mask(2) by (metis unat_0)+
  then have "unat (b + selOffset sel) mod 8 = 0"
    by (auto simp: unat_word_ariths mod_eq_0_iff_dvd dvd_mod_iff)
  then show ?thesis using unat_and_mask(2) [of "b + selOffset sel"] by (metis unat_0 word_unat_eq_iff)
qed

lemma selValid_sel:
  assumes "selValid vm sel"
  shows "sel AND 4 = 0" "sel AND 0xfffc \<noteq> 0"
proof -
  show "sel AND 4 = 0" using assms and_bit_0 [of sel 2] by (simp add: selValid_def sel_ti_def)
  have mask: "(0xfffc :: selector_t) = push_bit 2 (mask 14)" by (simp add: mask_eq_exp_minus_1)
  show "sel AND 0xfffc \<noteq> 0"
  proof
    assume "sel AND 0xfffc = 0"
    moreover have "bit (sel AND 0xfffc) (3 + n) = bit sel (3 + n)" if "3 + n < 16" for n
      using that unfolding mask by (auto simp: bit_simps)
    ultimately have "\<not> bit sel (3 + n)" for n
      by (cases "3 + n < 16") (auto dest: bit_imp_le_length simp: bit_0_eq)
    then have "drop_bit 3 sel = 0"
      by (intro bit_word_eqI) (simp add: bit_simps)
    then show False using assms by (simp add: selValid_def sel_index_def)
  qed
qed

lemma fetchGuestDescBySel_twp:
  assumes "allPinned vm" "selValid vm sel" "windowOnly vm vm1" "ucast (d_dpl (guestDesc vm sel)) = sel_rpl sel"
  shows "twp (fetchGuestDescBySel env sel 0) (\<lambda>d vm'. d = guestDesc vm sel \<and> windowOnly vm vm') vm1"
proof -
  let ?l = "gi_base (cpu_gdtr (vm_guest_cpu vm)) + selOffset sel"
  have v: "\<not> selOffset sel + 7 > ucast (gi_limit (cpu_gdtr (vm_guest_cpu vm)))" "?l AND 7 = 0" "mappedBytes vm ?l 8"
    using assms(2) selOffset_aligned by (auto simp: selValid_def)
  have "twp (descWindow env ?l) (\<lambda>(page, off). twp (win_readN env page off 8)
      (\<lambda>bs vm'. bs = linBytes vm ?l 8 \<and> windowOnly vm vm')) vm1"
    using descWindow_read_twp [OF assms(1) v(2,3) assms(3), of env] by (simp add: case_prod_unfold twp_fun)
  then have "twp (descWindow env ?l) (\<lambda>(page, off). twp (readDescBySel env sel 0 page off)
      (\<lambda>d vm'. d = guestDesc vm sel \<and> windowOnly vm vm')) vm1"
    using assms(4)
    by (auto simp: readDescBySel_def Let_def guestDesc_def linDesc_def case_prod_unfold elim!: twp_mono)
  then show ?thesis
    using v(1) selValid_sel [OF assms(2)]
    by (simp add: fetchGuestDescBySel_def Let_def windowOnly_same [OF assms(3)] selOffset_def case_prod_unfold)
qed

section \<open>Loading a segment register\<close>

text \<open>The selectors that \<^verbatim>\<open>guestSelectorUpdated\<close> lets through in Linux mode.\<close>

definition linuxSlot :: "Bit32u \<Rightarrow> nat \<Rightarrow> nat \<Rightarrow> bool" where
  "linuxSlot cpl segno slot \<longleftrightarrow>
     (if cpl = 0 then (if segno = SRegCS then slot = 2 else slot = 3 \<or> slot = 5)
      else (if segno = SRegCS then slot = 4 else slot = 5))"

definition downgraded :: "descriptor_t \<Rightarrow> descriptor_t" where
  "downgraded d = d\<lparr>d_dpl := 3\<rparr>"

lemma unat_dpl: "unat (ucast (d :: 2 word) :: Bit32u) = unat d"
  using unsigned_less [of d, where 'a = nat] by (simp add: unsigned_ucast_eq take_bit_nat_eq_self)

lemma installDesc_twp:
  "s < 512 \<Longrightarrow> installDesc s d vm = Ret () (vm\<lparr>vm_gdt := (vm_gdt vm)(s := downgraded d)\<rparr>)"
  by (cases d) (auto simp: installDesc_def downgraded_def)

lemma windowOnly_gdt: "windowOnly vm vm' \<Longrightarrow> windowOnly (vm\<lparr>vm_gdt := g\<rparr>) (vm'\<lparr>vm_gdt := g\<rparr>) \<and> vm_gdt vm' = vm_gdt vm"
  unfolding windowOnly_def by (fastforce intro: vm_t.equality)

lemma guestSelectorUpdated_twp:
  assumes pin: "allPinned vm" and sel: "selValid vm sel" and w: "windowOnly vm vm1"
    and rpl: "ucast (d_dpl (guestDesc vm sel)) = sel_rpl sel" "sel_rpl sel \<in> {0, 3}"
    and slot: "vm_linuxVMMode vm \<noteq> 0" "linuxSlot (vm_guestCPL vm) segno (sel_index sel)"
  shows "twp (guestSelectorUpdated env segno sel) (\<lambda>_ vm'.
     windowOnly (vm\<lparr>vm_gdt := (vm_gdt vm)(sel_index sel := downgraded (guestDesc vm sel))\<rparr>) vm') vm1"
proof -
  let ?l = "gi_base (cpu_gdtr (vm_guest_cpu vm)) + selOffset sel"
  have v: "\<not> selOffset sel + 7 > ucast (gi_limit (cpu_gdtr (vm_guest_cpu vm)))" "?l AND 7 = 0" "mappedBytes vm ?l 8"
    "\<not> sel_ti sel" "sel_index sel \<noteq> 0"
    using sel selOffset_aligned by (auto simp: selValid_def)
  have lin: "vm_linuxVMMode vm2 = vm_linuxVMMode vm" "vm_guestCPL vm2 = vm_guestCPL vm" if "windowOnly vm vm2" for vm2
    using that by (auto simp: windowOnly_def)
  have dpl: "d_dpl (guestDesc vm sel) = 0 \<or> d_dpl (guestDesc vm sel) = 3"
    using rpl by (auto simp: word_unat_eq_iff unat_dpl)
  have small: "sel_index sel < 512" using slot(2) by (auto simp: linuxSlot_def split: if_splits)
  have check: "twp (selectorCheck env segno sel (guestDesc vm sel)) (\<lambda>_ vm3. vm3 = vm2) vm2" if "windowOnly vm vm2" for vm2
    using slot rpl dpl lin [OF that] by (auto simp: selectorCheck_def linuxSlotCheck_def linuxSlot_def split: if_splits)
  have rest: "twp (thn (selectorCheck env segno sel (guestDesc vm sel)) (installDesc (sel_index sel) (guestDesc vm sel)))
      (\<lambda>_ vm'. windowOnly (vm\<lparr>vm_gdt := (vm_gdt vm)(sel_index sel := downgraded (guestDesc vm sel))\<rparr>) vm') vm2"
    if "windowOnly vm vm2" for vm2
    unfolding twp_fun by (rule twp_mono [OF check [OF that]])
      (use windowOnly_gdt [OF that] small in \<open>simp add: twp_Ret_eq [OF installDesc_twp]\<close>)
  have "twp (fetchGuestDescByLAddr env ?l) (\<lambda>desc. twp (thn (selectorCheck env segno sel desc) (installDesc (sel_index sel) desc))
      (\<lambda>_ vm'. windowOnly (vm\<lparr>vm_gdt := (vm_gdt vm)(sel_index sel := downgraded (guestDesc vm sel))\<rparr>) vm')) vm1"
    by (rule twp_mono [OF fetchGuestDescByLAddr_twp [OF pin v(2,3) w, of env]])
      (use rest in \<open>auto simp: guestDesc_def simp del: twp_thn\<close>)
  then show ?thesis
    using v(1,4,5) selValid_sel [OF sel]
    by (simp add: guestSelectorUpdated_def Let_def windowOnly_same [OF w] selOffset_def)
qed

text \<open>\<^verbatim>\<open>loadGuestSegment\<close> copies the guest's descriptor, whatever its type, into the monitor's GDT at
  DPL 3 and loads the selector with RPL 3.\<close>

lemma context_same [simp]:
  "allPinned (vm\<lparr>vm_context := c\<rparr>) = allPinned vm" "linToPhy (vm\<lparr>vm_context := c\<rparr>) = linToPhy vm"
  "linBytes (vm\<lparr>vm_context := c\<rparr>) = linBytes vm" "mappedBytes (vm\<lparr>vm_context := c\<rparr>) = mappedBytes vm"
  "guestDesc (vm\<lparr>vm_context := c\<rparr>) = guestDesc vm" "selValid (vm\<lparr>vm_context := c\<rparr>) = selValid vm"
proof -
  have entry: "tableEntry (vm\<lparr>vm_context := c\<rparr>) = tableEntry vm" and byte: "gbyte (vm\<lparr>vm_context := c\<rparr>) = gbyte vm"
    by (simp_all add: fun_eq_iff tableEntry_def gdword_def gbyte_def n_bytes_def)
  show lin: "linToPhy (vm\<lparr>vm_context := c\<rparr>) = linToPhy vm"
    by (simp add: fun_eq_iff linToPhy_def Let_def entry)
  show "allPinned (vm\<lparr>vm_context := c\<rparr>) = allPinned vm" by (simp add: allPinned_def n_bytes_def)
  show bytes: "linBytes (vm\<lparr>vm_context := c\<rparr>) = linBytes vm" by (simp add: fun_eq_iff linBytes_def lin byte)
  show mapped: "mappedBytes (vm\<lparr>vm_context := c\<rparr>) = mappedBytes vm"
    by (simp add: fun_eq_iff mappedBytes_def lin n_bytes_def)
  show "guestDesc (vm\<lparr>vm_context := c\<rparr>) = guestDesc vm" "selValid (vm\<lparr>vm_context := c\<rparr>) = selValid vm"
    by (simp_all add: fun_eq_iff guestDesc_def linDesc_def bytes selValid_def mapped)
qed

lemma windowOnly_context: "windowOnly vm vm' \<Longrightarrow> windowOnly (vm\<lparr>vm_context := f (vm_context vm)\<rparr>) (vm'\<lparr>vm_context := f (vm_context vm')\<rparr>)"
  unfolding windowOnly_def by (fastforce intro: vm_t.equality)

lemma loadGuestSegment_twp:
  assumes pin: "allPinned vm" and sel: "selValid vm sel" and sreg: "sreg \<le> SRegGS"
    and rpl: "ucast (d_dpl (guestDesc vm sel)) = sel_rpl sel" "sel_rpl sel \<in> {0, 3}"
    and slot: "vm_linuxVMMode vm \<noteq> 0" "linuxSlot (vm_guestCPL vm) sreg (sel_index sel)"
  shows "twp (loadGuestSegment env sreg sel) (\<lambda>ok vm'. ok \<and>
     windowOnly (vm\<lparr>vm_context := setSel sreg sel (vm_context vm),
       vm_gdt := (vm_gdt vm)(sel_index sel := downgraded (guestDesc vm sel))\<rparr>) vm') vm"
proof -
  let ?vm = "vm\<lparr>vm_context := setSel sreg sel (vm_context vm)\<rparr>"
  have "twp (guestSelectorUpdated env sreg sel) (\<lambda>_ vm'.
     windowOnly (?vm\<lparr>vm_gdt := (vm_gdt ?vm)(sel_index sel := downgraded (guestDesc ?vm sel))\<rparr>) vm') vm2"
    if "windowOnly ?vm vm2" for vm2
    by (rule guestSelectorUpdated_twp [OF _ _ that]) (use assms in simp_all)
  then show ?thesis
    using sreg rpl(1)
    unfolding loadGuestSegment_def
    by (auto simp: updCtx_def dest: windowOnly_context [where f = "setSel sreg sel"]
        intro!: twp_mono [OF fetchGuestDescBySel_twp [OF pin sel windowOnly_refl rpl(1)]])
qed

end
