(* ===== verification/Sample_Vm.thy ===== *)
theory Sample_Vm
  imports Emu_Correct
begin

text \<open>
  A small concrete machine, for evaluating the definitions: four pages of guest memory, all pinned,
  page tables at pages 0x200 and up, the monitor in the 4 MB range at 0xc0000000, a running periodic
  timer, the guest kernel at ring 0 of the guest.
\<close>

definition sample_env :: henv where
  "sample_env = \<lparr>he_rdtsc = (\<lambda>n. of_nat n), he_pin = (\<lambda>vm a. Some (a, drop_bit 12 a)),
     he_poll = (\<lambda>vm. (- 1, vm_phymem vm)), he_halCall = (\<lambda>vm. Some (vm_guest_cpu vm, vm_phymem vm)),
     he_idle = (\<lambda>_. True), he_hostEflags = 0x202, he_uninit = (\<lambda>_. 0),
     he_startOffsetPageAligned = 0, he_nPages = 1, he_ppi = (\<lambda>n. of_nat n)\<rparr>"

definition sample_pages :: vm_pages_t where
  "sample_pages = zero_vm_pages\<lparr>pg_guest_n_pages := 4, pg_guest_n_bytes := 0x4000,
     pg_page_tbl := (\<lambda>i. 0x200 + of_nat i), pg_nexus_page_tbl := 0x100\<rparr>"

definition sample_context :: guestStackContext_t where
  "sample_context = zero_guestStackContext\<lparr>sc_cs := 0x13, sc_ss := 0x1b, sc_eflags := 0x80202\<rparr>"

definition sample_timer :: pit_timer_t where
  "sample_timer = zero_pit_timer\<lparr>t_mode := 2, t_latch_mode := 12, t_counter_max := 100, t_counter := 5,
     t_active := 1, t_GATE := 1, t_OUT := 1\<rparr>"

definition sample_io :: io_t where
  "sample_io = zero_io\<lparr>io_picMaster := zero_pic\<lparr>pic_vectorOffset := 0x20\<rparr>,
     io_pit := zero_pit\<lparr>pit_timer := (\<lambda>i. if i = 0 then sample_timer else zero_pit_timer)\<rparr>,
     io_cpuToPitRatio := 100\<rparr>"

definition sample_nexus :: nexus_t where
  "sample_nexus = zero_nexus\<lparr>nx_mon_cr3 := 0x99000, nx_mon_cr4 := 2\<rparr>"

definition sample_queue :: pinQueue_t where
  "sample_queue = \<lparr>pq_nEntries = 4, pq_tail = 4, pq_ppi = (\<lambda>i. of_nat i)\<rparr>"

definition sample_vm :: vm_t where
  "sample_vm = vm_zeroed\<lparr>vm_vmState := VMStateReady, vm_linuxVMMode := 1, vm_pages := sample_pages,
     vm_mon_pdi := 0x300, vm_mon_pde_mask := 0xc0000000, vm_page_dir := (\<lambda>_. 0)(0x300 := 0x100007),
     vm_page_tbl_laddr_map := (\<lambda>_. - 1), vm_io := sample_io, vm_nexus := sample_nexus,
     vm_context := sample_context, vm_pinQueue := sample_queue,
     vm_guestPageInfo := (\<lambda>i. if i < 4 then \<lparr>pp_attr = 0x600, pp_tsc = 0, pp_hostPPI = 0x10 + of_nat i\<rparr>
                               else zero_phyPageInfo)\<rparr>"

lemmas sample_defs = sample_vm_def sample_pages_def sample_context_def sample_io_def sample_timer_def
  sample_nexus_def sample_queue_def sample_env_def

lemma sample_vm_simps [simp]:
  "vm_vmState sample_vm = 0xff" "vm_linuxVMMode sample_vm = 1" "vm_guestCPL sample_vm = 0"
  "vm_pages sample_vm = sample_pages" "vm_context sample_vm = sample_context" "vm_io sample_vm = sample_io"
  "vm_nexus sample_vm = sample_nexus" "vm_pinQueue sample_vm = sample_queue" "vm_mon_pdi sample_vm = 0x300"
  "vm_mon_pde_mask sample_vm = 0xc0000000" "vm_page_dir sample_vm = (\<lambda>_. 0)(0x300 := 0x100007)"
  "vm_page_tbl_laddr_map sample_vm = (\<lambda>_. - 1)" "vm_ptbl_laddr_map_i sample_vm = 0"
  "vm_gdt sample_vm = (\<lambda>_. zero_descriptor)" "vm_guest_cpu sample_vm = zero_guest_cpu"
  "vm_system sample_vm = zero_system" "vm_monLogBufferInfo sample_vm = zero_logInfo"
  "vm_nexus_page_tbl sample_vm = (\<lambda>_. 0)" "vm_phymem sample_vm = (\<lambda>_. 0)"
  "vm_mon_request sample_vm = 0" "vm_hw sample_vm = zero_hw" "vm_guest_addr sample_vm = zero_vm_addr"
  by (simp_all add: sample_vm_def vm_zeroed_def)

lemma word_less_4: "(ppi :: Bit32u) < 4 \<longleftrightarrow> ppi = 0 \<or> ppi = 1 \<or> ppi = 2 \<or> ppi = 3"
proof -
  have "unat ppi < 4 \<longleftrightarrow> unat ppi = 0 \<or> unat ppi = 1 \<or> unat ppi = 2 \<or> unat ppi = 3" by linarith
  then show ?thesis by (simp add: word_less_nat_alt word_unat_eq_iff)
qed

lemma sample_pageInfo: "ppi < 4 \<Longrightarrow> vm_guestPageInfo sample_vm (unat (ppi :: Bit32u)) =
    \<lparr>pp_attr = 0x600, pp_tsc = 0, pp_hostPPI = 0x10 + ppi\<rparr>"
  by (simp add: sample_vm_def word_less_nat_alt)

lemma sample_queue_contents: "pinQ_contents sample_queue = [0, 1, 2, 3]"
  by (simp add: sample_queue_def pinQ_contents_def pinQ_full_def upt_rec)

lemma sample_pin_inv: "pin_inv sample_vm"
  by (auto simp: pin_inv_def sample_queue_contents word_less_4 sample_pageInfo sample_pages_def pp_pinned_def)
    (simp add: pinQ_wf_def sample_queue_def)

lemma sample_isolated: "isolated 0x300 0x100007 sample_vm"
  using sample_pin_inv
  by (auto simp: isolated_def shadow_inv_def shadow_wf_def pe_P_def)

lemma sample_ring3: "ring3 sample_context"
  by (simp add: ring3_def sample_context_def ctxFlags_def)

lemma sample_tables: "tablesDistinct sample_pages"
proof -
  have "take_bit 20 (0x200 + of_nat i :: Bit32u) = 0x200 + of_nat i" "unat (0x200 + of_nat i :: Bit32u) = 0x200 + i"
    if "i < 80" for i
  proof -
    show u: "unat (0x200 + of_nat i :: Bit32u) = 0x200 + i"
      using that by (simp add: unat_word_ariths unat_of_nat)
    show "take_bit 20 (0x200 + of_nat i :: Bit32u) = 0x200 + of_nat i"
      by (rule take_bit_less) (use that in \<open>simp add: word_less_nat_alt u\<close>)
  qed
  then show ?thesis
    by (auto simp: tablesDistinct_def sample_pages_def word_unat_eq_iff)
qed

lemma sample_mon_inv: "mon_inv 0x300 0x100007 [zero_descriptor, zero_descriptor, zero_descriptor] sample_vm"
  using sample_isolated sample_ring3 sample_tables
  by (auto simp: mon_inv_def gdtOK_def monSlots_def monTableOK_def zero_descriptor_def sample_io_def pe_US_def)
    (simp add: sample_pages_def pe_base_def)

lemma sample_pic_inv: "pic_inv sample_vm" "pic_inService sample_vm = {}" "pic_masked sample_vm = {}"
  "pic_pending sample_vm = {}" "\<not> pic_line sample_vm"
  by (auto simp: pic_inv_def pic_defs sample_io_def zero_pic_def zero_io_def zero_system_def)

lemma sample_pit_ok: "pit_ok sample_vm" "pitTimer 0 sample_vm = sample_timer"
  by (auto simp: pit_ok_def sample_io_def zero_io_def zero_pit_def sample_timer_def zero_pit_timer_def)

lemma sample_allPinned: "allPinned sample_vm"
  by (auto simp: allPinned_def n_bytes_def sample_pages_def word_less_4 sample_pageInfo pp_pinned_def)

lemma sample_canYield: "canYield sample_env sample_vm"
  by (simp add: canYield_def sample_env_def)

text \<open>The same machine with guest page 2 mapped, for reading and writing, at linear page 2.\<close>

definition mapped_vm :: vm_t where
  "mapped_vm = sample_vm\<lparr>vm_ptbl_laddr_map_i := 1, vm_page_tbl_laddr_map := (\<lambda>_. - 1)(0 := 0),
     vm_page_dir := (\<lambda>_. 0)(0x300 := 0x100007, 0 := 0x200007), vm_page_tbl := (\<lambda>_ _. 0)(0 := (\<lambda>_. 0)(2 := 0x12007))\<rparr>"

lemma mapped_fields [simp]:
  "vm_ptbl_laddr_map_i mapped_vm = 1" "vm_page_tbl_laddr_map mapped_vm = (\<lambda>_. - 1)(0 := 0)"
  "vm_page_dir mapped_vm = (\<lambda>_. 0)(0x300 := 0x100007, 0 := 0x200007)"
  "vm_page_tbl mapped_vm = (\<lambda>_ _. 0)(0 := (\<lambda>_. 0)(2 := 0x12007))"
  "vm_pages mapped_vm = sample_pages" "vm_guestPageInfo mapped_vm = vm_guestPageInfo sample_vm"
  "vm_pinQueue mapped_vm = sample_queue" "vm_mon_pdi mapped_vm = 0x300" "vm_mon_pde_mask mapped_vm = 0xc0000000"
  "vm_context mapped_vm = sample_context" "vm_gdt mapped_vm = vm_gdt sample_vm" "vm_io mapped_vm = sample_io"
  "vm_nexus_page_tbl mapped_vm = (\<lambda>_. 0)"
  by (simp_all add: mapped_vm_def)

lemma mapped_entry: "guestPageEntry mapped_vm 0x12007"
  using sample_pageInfo [of 2] unfolding guestPageEntry_def
  by (intro exI [of _ 2]) (simp add: sample_pages_def Let_def pp_pinned_def pp_RO_def pp_memMapIO_def pe_base_def)

lemma mapped_isolated: "isolated 0x300 0x100007 mapped_vm"
proof -
  have "pdeOK mapped_vm 0"
    using mapped_entry by (auto simp: pdeOK_def Let_def pe_P_def pe_base_def sample_pages_def)
  moreover have "pin_inv mapped_vm"
    using sample_pin_inv by (simp add: pin_inv_def)
  ultimately show ?thesis
    by (auto simp: isolated_def shadow_inv_def shadow_wf_def pe_P_def)
qed

lemma mapped_mon_inv: "mon_inv 0x300 0x100007 [zero_descriptor, zero_descriptor, zero_descriptor] mapped_vm"
  using mapped_isolated sample_mon_inv by (simp add: mon_inv_def)

lemma mapped_xlate: "shadowXlate mapped_vm 0x2abc True = Some 0x12abc"
proof -
  have "tableAt mapped_vm 0x200007 = Some (vm_page_tbl mapped_vm 0)"
    by (simp add: tableAt_def sample_pages_def pe_base_def upt_rec)
  then show ?thesis
    by (simp add: shadowXlate_def Let_def lin_pdi_def lin_pti_def userMay_def pe_P_def pe_US_def pe_RW_def pe_base_def)
qed

end
