(* ===== verification/Props_Devices.thy ===== *)
theory Props_Devices
  imports Sample_Vm
begin

text \<open>
  The properties of the utilities and the devices: formatting and printing, the queue of pinned pages,
  the interrupt controller and the interval timer, each with a run on the sample machine.
\<close>

section \<open>Memory images of descriptors and gates\<close>

text \<open>A segment descriptor survives the trip through its eight bytes in memory, and so do the
  eight bytes: no field of the packed structure overlaps another and no bit is lost.\<close>

theorem descriptor_image: "desc_of_word (word_of_desc d) = d \<and> word_of_desc (desc_of_word w) = w"
  by (simp add: desc_of_word_of_desc word_of_desc_of_word)

text \<open>The same for interrupt gates, and a gate built by \<^verbatim>\<open>SET_INT_GATE\<close> enters at the offset it
  was given.\<close>

theorem gate_image:
  "gate_of_word (word_of_gate g) = g \<and> word_of_gate (gate_of_word w) = w \<and>
   gate_offset (SET_INT_GATE d sel off p dpl d32) = off"
  by (simp add: gate_of_word_of_gate word_of_gate_of_word gate_offset_SET_INT_GATE)

section \<open>Formatting and printing\<close>

text \<open>C39: Whatever the format and the arguments, \<^verbatim>\<open>nexusVsnprintf\<close> stores at most \<open>n\<close> bytes, the
  terminating zero included, also on the way to an error.\<close>

theorem nexusVsnprintf_bounds: "0 < n \<Longrightarrow> length (vsnStores (nexusVsnprintf n fmt args)) \<le> n"
  by (rule vsnStores_fit)

theorem nexusVsnprintf_bounds_witness:
  "0 < (8 :: nat) \<and> length (vsnStores (nexusVsnprintf 8 ''%u'' [ArgU 123456789])) \<le> 8"
  using nexusVsnprintf_bounds [of 8 "''%u''" "[ArgU 123456789]"] by simp

text \<open>The digits that \<^verbatim>\<open>%x\<close> prints are those of the number passed, and the count returned is
  their number.\<close>

theorem hex_digits_read_back:
  "10 \<le> sz \<Longrightarrow>
   \<exists>out. nexusVsnprintf sz ''%x'' [ArgU v] = VOk out (length out) \<and> digitsVal 16 out = unat v"
  by (rule nexusVsnprintf_hex)

theorem hex_digits_read_back_witness:
  "10 \<le> (64 :: nat) \<and>
   (\<exists>out. nexusVsnprintf 64 ''%x'' [ArgU 0xcafe] = VOk out (length out) \<and> digitsVal 16 out = 0xcafe)"
  using hex_digits_read_back [of 64 "0xcafe"] by simp

text \<open>The same for \<^verbatim>\<open>%u\<close> and the decimal digits.\<close>

theorem dec_digits_read_back:
  "12 \<le> sz \<Longrightarrow>
   \<exists>out. nexusVsnprintf sz ''%u'' [ArgU v] = VOk out (length out) \<and> digitsVal 10 out = unat v"
  by (rule nexusVsnprintf_dec)

theorem dec_digits_read_back_witness:
  "12 \<le> (64 :: nat) \<and>
   (\<exists>out. nexusVsnprintf 64 ''%u'' [ArgU 4294967295] = VOk out (length out) \<and> digitsVal 10 out = 4294967295)"
  using dec_digits_read_back [of 64 "4294967295"] by simp

text \<open>A message that fits the log buffer reaches the user's buffer, terminated, and the monitor's
  buffer is empty and unlocked again.\<close>

theorem print_delivers:
  assumes "canYield env vm" "li_locked (vm_monLogBufferInfo vm) = 0" "li_offset (vm_monLogBufferInfo vm) = 0"
    "nexusVsnprintf LOG_BUFF_SIZE fmt args = VOk out n"
  shows "twp (mon_vprint env fmt args) (\<lambda>k vm'. k = n \<and>
     li_locked (vm_monLogBufferInfo vm') = 0 \<and> li_offset (vm_monLogBufferInfo vm') = 0 \<and>
     (\<forall>i < length out. vm_userLogBuffer vm' i = out ! i) \<and>
     vm_userLogBuffer vm' (length out) = char_of (0 :: nat)) vm"
  by (rule mon_vprint_delivers [OF assms])

lemma sample_print: "nexusVsnprintf LOG_BUFF_SIZE ''hi'' [] = VOk ''hi'' 2"
  by (simp add: nexusVsnprintf_def vput_def vbind_def)

theorem print_delivers_witness:
  "canYield sample_env sample_vm \<and>
   twp (mon_vprint sample_env ''hi'' []) (\<lambda>k vm'. k = 2 \<and> vm_userLogBuffer vm' 0 = CHR ''h'' \<and>
     vm_userLogBuffer vm' 1 = CHR ''i'' \<and> vm_userLogBuffer vm' 2 = char_of (0 :: nat)) sample_vm"
  using sample_canYield
    twp_mono [OF print_delivers [OF sample_canYield _ _ sample_print],
      where Q = "\<lambda>k vm'. k = 2 \<and> vm_userLogBuffer vm' 0 = CHR ''h'' \<and>
     vm_userLogBuffer vm' 1 = CHR ''i'' \<and> vm_userLogBuffer vm' 2 = char_of (0 :: nat)"]
  by (auto simp: zero_logInfo_def less_Suc_eq numeral_eq_Suc)

text \<open>A message that the formatter refuses (too long for the whole buffer, or with a conversion it
  does not know) leaves the print lock taken, and with the lock taken every later print returns 0 and
  does nothing.\<close>

theorem print_oversized_locks:
  assumes "canYield env vm" "li_locked (vm_monLogBufferInfo vm) = 0" "li_offset (vm_monLogBufferInfo vm) = 0"
    "nexusVsnprintf LOG_BUFF_SIZE fmt args = VErr out"
  shows "twp (mon_vprint env fmt args) (\<lambda>k vm'. k = 0 \<and>
     (\<forall>env' fmt' args'. mon_vprint env' fmt' args' vm' = Ret 0 vm')) vm"
  by (rule twp_mono [OF mon_vprint_oversized [OF assms]]) (simp add: mon_vprint_locked)

lemma sample_refused: "nexusVsnprintf LOG_BUFF_SIZE ''%d'' [ArgU 1] = VErr []"
  by (simp add: nexusVsnprintf_def isDigit_def fmtConv_def vbind_def)

theorem print_oversized_locks_witness:
  "nexusVsnprintf LOG_BUFF_SIZE ''%d'' [ArgU 1] = VErr [] \<and>
     twp (mon_vprint sample_env ''%d'' [ArgU 1]) (\<lambda>k vm'. k = 0 \<and>
       (\<forall>env' fmt' args'. mon_vprint env' fmt' args' vm' = Ret 0 vm')) sample_vm"
  using sample_refused print_oversized_locks [OF sample_canYield _ _ sample_refused]
  by (simp add: zero_logInfo_def)

section \<open>The queue of pinned pages\<close>

text \<open>C22: The ring buffer of pinned pages is a queue of 1024 places: after any sequence of insertions
  into the empty queue it holds the last 1024 of them in order, and the page it names for eviction is the
  oldest.\<close>

theorem pin_queue_fifo:
  "pinQ_contents (fold pinQ_push xs zero_pinQueue) = drop (length xs - MaxPhyPagesPinned) xs \<and>
   (MaxPhyPagesPinned \<le> length xs \<longrightarrow>
      pinQ_oldest (fold pinQ_push xs zero_pinQueue) = xs ! (length xs - MaxPhyPagesPinned))"
proof -
  let ?q = "fold pinQ_push xs zero_pinQueue"
  have wf: "pinQ_wf zero_pinQueue" and empty: "pinQ_contents zero_pinQueue = []"
    by (simp_all add: pinQ_wf_def zero_pinQueue_def pinQ_contents_def pinQ_full_def)
  have q: "pinQ_wf ?q" "pinQ_contents ?q = drop (length xs - MaxPhyPagesPinned) xs"
    using pinq.pushes_contents [OF wf, of xs] empty by simp_all
  moreover have "pinQ_oldest ?q = xs ! (length xs - MaxPhyPagesPinned)" if "MaxPhyPagesPinned \<le> length xs"
  proof -
    have "pinQ_full ?q" using pinq.full_iff [OF q(1)] q(2) that by simp
    then show ?thesis
      using pinq.oldest_hd [OF q(1)] q(2) that by (simp add: hd_drop_conv_nth)
  qed
  ultimately show ?thesis by simp
qed

theorem pin_queue_fifo_witness:
  "MaxPhyPagesPinned \<le> length (map of_nat [0..<1025] :: Bit32u list) \<and>
   pinQ_oldest (fold pinQ_push (map of_nat [0..<1025]) zero_pinQueue) = 1"
  using pin_queue_fifo [of "map of_nat [0..<1025]"] by (simp add: nth_map)





section \<open>The interrupt controller\<close>

text \<open>C29: Acknowledging and finishing the pending interrupts one after the other delivers each of them
  once, the lowest line first, with the vector the controller was given, and leaves the line to the
  processor low.\<close>

theorem pic_serves_all:
  assumes "pic_inv vm" "pic_inService vm = {}" "pic_pending vm \<subseteq> {0, 3}"
  shows "twp (serveLines (picIAC env) (pic_eoi env) (sorted_list_of_set (pic_pending vm))) (\<lambda>vs vm'. pic_inv vm' \<and>
     vs = map (pic_vector vm) (sorted_list_of_set (pic_pending vm)) \<and> pic_pending vm' = {} \<and> \<not> pic_line vm') vm"
  by (rule pic.serve_all [OF assms])

definition two_irqs_vm :: vm_t where
  "two_irqs_vm = sample_vm\<lparr>vm_io := sample_io\<lparr>io_picMaster := zero_pic\<lparr>pic_irr := 9, pic_vectorOffset := 0x20\<rparr>\<rparr>,
     vm_system := zero_system\<lparr>sys_INTR := 1\<rparr>\<rparr>"

lemma bit_9: "bit (9 :: int) n \<longleftrightarrow> n = 0 \<or> n = 3"
proof -
  have nine: "(9 :: int) = push_bit 0 1 OR push_bit 3 1" by simp
  show ?thesis unfolding nine by (auto simp only: bit_or_iff bit_push_bit_iff) (auto simp: bit_1_iff)
qed

lemma two_irqs: "pic_inv two_irqs_vm" "pic_inService two_irqs_vm = {}" "pic_pending two_irqs_vm = {0, 3}"
  "pic_line two_irqs_vm" "pic_masked two_irqs_vm = {}" "pic_vector two_irqs_vm = (\<lambda>n. 0x20 + of_nat n)"
  by (auto simp: pic_inv_def pic_defs two_irqs_vm_def bit_9 zero_pic_def fun_eq_iff intro!: exI [of _ 0])

theorem pic_serves_all_witness:
  "pic_inv two_irqs_vm \<and>
   twp (serveLines (picIAC sample_env) (pic_eoi sample_env) [0, 3]) (\<lambda>vs vm'. vs = [0x20, 0x23] \<and>
     pic_pending vm' = {} \<and> \<not> pic_line vm') two_irqs_vm"
  using pic_serves_all [of two_irqs_vm sample_env] two_irqs by (auto elim!: twp_mono)

text \<open>With the line up, \<^verbatim>\<open>picIAC\<close> returns the vector of the lowest requested line that is not
  masked, moves that line from requested to in service, and lowers the line to the processor.\<close>

theorem pic_acknowledge:
  assumes "pic_inv vm" "pic_line vm"
  shows "twp (picIAC env) (\<lambda>v vm'. pic_inv vm' \<and> v = pic_vector vm (Min (pic_pending vm)) \<and>
    pic_pending vm' = pic_pending vm - {Min (pic_pending vm)} \<and>
    pic_inService vm' = {Min (pic_pending vm)} \<and> \<not> pic_line vm') vm"
  by (rule twp_mono [OF pic.ack_law [OF assms]]) (auto simp: pic.line_iff)

theorem pic_acknowledge_witness:
  "pic_line two_irqs_vm \<and>
   twp (picIAC sample_env) (\<lambda>v vm'. v = 0x20 \<and> pic_pending vm' = {3} \<and> pic_inService vm' = {0}) two_irqs_vm"
  using pic_acknowledge [OF two_irqs(1,4), of sample_env] two_irqs by (auto elim!: twp_mono)

text \<open>The guest masks the one line that is requested while the interrupt is signalled: the signal
  stays up, and when the processor acknowledges it the controller finds nothing to deliver and the
  machine panics.\<close>

theorem pic_mask_pending_panics:
  assumes "pic_inv vm" "pic_line vm"
  shows "twp (picOutp env 1 0x21 0xff) (\<lambda>_ vm'. pic_line vm' \<and> (\<forall>Q. \<not> twp (picIAC env) Q vm')) vm"
proof -
  have isr: "pic_isr (picMaster vm) = 0"
    using pic_isr_0 [OF assms(1)] assms pic.line_iff by blast
  have irr: "\<not> bit (pic_irr (picMaster vm)) n" if "8 \<le> n" for n
    using assms(1) that by (simp add: pic_inv_def)
  have ff: "(0xff :: Bit32u) = mask 8" by (simp add: mask_eq_exp_minus_1)
  have "pic_irr (picMaster vm) AND NOT 0xff = 0"
    unfolding ff using irr by (intro bit_word_eqI) (auto simp: bit_simps not_le intro: ccontr)
  then show ?thesis
    using assms(2) isr
    by (simp add: picOutp_def updMaster_def picServiceMaster_def pic_line_def picIAC_def Let_def)
qed

theorem pic_mask_pending_panics_witness:
  "pic_inv two_irqs_vm \<and> pic_line two_irqs_vm \<and>
   twp (picOutp sample_env 1 0x21 0xff) (\<lambda>_ vm'. \<not> twp (picIAC sample_env) (\<lambda>_ _. True) vm') two_irqs_vm"
  using pic_mask_pending_panics [OF two_irqs(1,4), of sample_env] two_irqs by (auto elim!: twp_mono)

section \<open>The interval timer\<close>

text \<open>C30: \<^verbatim>\<open>pitExpireClocks\<close> counts every active timer down by the clocks given; a timer that
  runs out stops (mode 0) or starts over (mode 2), and when timer 0 runs out, line 0 is requested of the
  interrupt controller unless it is masked; nothing else changes in the controller.\<close>

theorem pit_clocks_refine:
  assumes "pit_ok vm" "pic_inv vm"
  shows "twp (pitExpireClocks env k) (\<lambda>_ vm'. pit_ok vm' \<and> pic_inv vm' \<and> pit_step_spec k vm vm') vm"
  by (rule pitExpireClocks_law [OF assms])

theorem pit_clocks_refine_witness:
  "pit_ok sample_vm \<and> pic_inv sample_vm \<and>
   twp (pitExpireClocks sample_env 7) (\<lambda>_ vm'. t_counter (pitTimer 0 vm') = 100 \<and> pic_pending vm' = {0}) sample_vm"
  using pit_clocks_refine [OF sample_pit_ok(1) sample_pic_inv(1), of sample_env 7] sample_pit_ok sample_pic_inv
  by (auto simp: pit_step_spec_def expire_def expired_def sample_timer_def elim!: twp_mono)

text \<open>Clock by clock, a running timer 0 with \<open>c\<close> clocks left requests line 0 at the \<open>c\<close>-th
  clock; a periodic timer is then reloaded with its period and runs on, a single one stops.\<close>

theorem pit_expires_on_time:
  assumes "pit_ok vm" "pic_inv vm" "t_active (pitTimer 0 vm) \<noteq> 0" "0 < t_counter (pitTimer 0 vm)"
  shows "twp (pitTicks env (unat (t_counter (pitTimer 0 vm)))) (\<lambda>_ vm'. pic_inv vm' \<and>
     pic_pending vm' = pic_pending vm \<union> ({0} - pic_masked vm) \<and>
     (t_mode (pitTimer 0 vm) = 2 \<longrightarrow> t_counter (pitTimer 0 vm') = t_counter_max (pitTimer 0 vm) \<and>
        t_active (pitTimer 0 vm') \<noteq> 0) \<and>
     (t_mode (pitTimer 0 vm) = 0 \<longrightarrow> t_active (pitTimer 0 vm') = 0)) vm"
  by (rule twp_mono [OF pitTicks_expiry [OF assms]]) auto

theorem pit_expires_on_time_witness:
  "t_counter (pitTimer 0 sample_vm) = 5 \<and>
   twp (pitTicks sample_env 5) (\<lambda>_ vm'. pic_pending vm' = {0} \<and> t_counter (pitTimer 0 vm') = 100) sample_vm"
  using pit_expires_on_time [OF sample_pit_ok(1) sample_pic_inv(1), of sample_env] sample_pit_ok sample_pic_inv
  by (auto simp: sample_timer_def elim!: twp_mono)

text \<open>The counter latch command and two reads of port 0x40 give the low 16 bits of the running
  counter and leave the latch empty and the counter as it was.\<close>

theorem pit_latch_reads_counter:
  assumes "t_output_latch_full (pitTimer 0 vm) = 0"
  shows "twp (thn (pitOutp env 1 0x43 0)
           (bnd (pitInp env 1 0x40) (\<lambda>lo. bnd (pitInp env 1 0x40) (\<lambda>hi. ret (lo OR push_bit 8 hi)))))
     (\<lambda>v vm'. v = t_counter (pitTimer 0 vm) AND 0xffff \<and>
        t_output_latch_full (pitTimer 0 vm') = 0 \<and> t_counter (pitTimer 0 vm') = t_counter (pitTimer 0 vm)) vm"
  by (rule pit_latch_read [OF assms])

theorem pit_latch_reads_counter_witness:
  "t_output_latch_full (pitTimer 0 sample_vm) = 0 \<and>
   twp (thn (pitOutp sample_env 1 0x43 0)
     (bnd (pitInp sample_env 1 0x40) (\<lambda>lo. bnd (pitInp sample_env 1 0x40) (\<lambda>hi. ret (lo OR push_bit 8 hi)))))
     (\<lambda>v vm'. v = 5) sample_vm"
  using pit_latch_reads_counter [of sample_vm sample_env] sample_pit_ok
  by (auto simp: sample_timer_def zero_pit_timer_def elim!: twp_mono)

end
