(* ===== verification/Emu_Trap.thy ===== *)
theory Emu_Trap
  imports Emu_Correct
begin

text \<open>
  The delivery of an interrupt and the return from one as the guest sees them: what they read from the guest's
  tables and stack and what they write to it, in terms of the guest's linear memory before the operation.
\<close>

section \<open>Words of linear memory\<close>

definition linDWord :: "vm_t \<Rightarrow> Bit32u \<Rightarrow> Bit32u" where
  "linDWord vm l = le_word (linBytes vm l 4)"

definition linWord :: "vm_t \<Rightarrow> Bit32u \<Rightarrow> Bit16u" where
  "linWord vm l = le_word (linBytes vm l 2)"

text \<open>A doubleword that does not cross its page is in memory.\<close>

lemma dword_run:
  assumes "l AND 3 = 0" "mappedBytes vm l 4"
  obtains a where "linToPhy vm l = Some a" "a AND 0xfff = l AND 0xfff" "\<not> a > n_bytes vm - 4" "\<not> a \<ge> n_bytes vm - 3"
    "a < n_bytes vm" "a \<noteq> LinAddrNotAvailable" "\<And>i. i < 4 \<Longrightarrow> linToPhy vm (l + of_nat i) = Some (a + of_nat i)"
proof -
  have off: "unat (l AND 0xfff) + unat (4 :: Bit32u) \<le> 4096" "unat (l AND 0xfff) + unat (3 :: Bit32u) \<le> 4096"
    using aligned_off(1) [OF assms(1)] by simp_all
  have m: "mappedBytes vm l (unat (4 :: Bit32u))" using assms(2) by simp
  obtain a where a: "linToPhy vm l = Some a" "a AND 0xfff = l AND 0xfff" "\<not> a > n_bytes vm - 4"
    "a < n_bytes vm" "a \<noteq> LinAddrNotAvailable"
    by (rule mapped_run [OF _ off(1) m]) simp_all
  have each: "linToPhy vm (l + of_nat i) = Some (a + of_nat i)" if "i < 4" for i
    using that off(1) by (intro linToPhy_same_page a) simp
  have lt: "a + of_nat i < n_bytes vm" if "i < 4" for i
    using assms(2) each [OF that] that by (auto simp: mappedBytes_def)
  have "unat a mod 4 = 0"
  proof -
    have "a AND 3 = (a AND 0xfff) AND 3" by (simp add: and.assoc)
    also have "\<dots> = 0" unfolding a(2) using assms(1) by (simp add: and.assoc)
    finally show ?thesis using unat_and_mask(3) [of a] by simp
  qed
  then have "unat a \<le> 4294967292" using unat_less_32 [of a] by presburger
  then have "unat (a + 3) = unat a + 3" by (simp add: unat_word_ariths)
  then have n: "unat a + 3 < unat (n_bytes vm)" using lt [of 3] by (simp add: word_less_nat_alt)
  then have "unat (n_bytes vm - 3) = unat (n_bytes vm) - 3"
    using unat_sub [of 3 "n_bytes vm"] by (simp add: word_le_nat_alt)
  then have "\<not> a \<ge> n_bytes vm - 3" using n by (simp add: word_le_nat_alt)
  then show ?thesis using that a each by blast
qed

lemma le_word_4: "le_word [b0, b1, b2, b3] =
    (ucast b0 OR push_bit 8 (ucast b1) OR push_bit 16 (ucast b2) OR push_bit 24 (ucast b3) :: Bit32u)"
proof -
  have "push_bit 8 (push_bit 8 x) = push_bit 16 x" "push_bit 16 (push_bit 8 x) = push_bit 24 x"
    "push_bit 8 (push_bit 16 x) = push_bit 24 x" for x :: Bit32u
    by simp_all
  then show ?thesis by (simp only: le_word_def foldr.simps comp_def push_bit_of_0 or.right_neutral id_def push_bit_or)
qed

lemma gdword_bytes:
  assumes "linToPhy vm l = Some a" "\<And>i. i < 4 \<Longrightarrow> linToPhy vm (l + of_nat i) = Some (a + of_nat i)"
  shows "gdword vm a = linDWord vm l"
proof -
  have "linBytes vm l 4 = [gbyte vm a, gbyte vm (a + 1), gbyte vm (a + 2), gbyte vm (a + 3)]"
    using assms(2) [of 0] assms(2) [of 1] assms(2) [of 2] assms(2) [of 3]
    by (simp add: linBytes_def upt_rec numeral_eq_Suc)
  then show ?thesis by (simp only: linDWord_def le_word_4 gdword_def)
qed

lemma getGuestDWord_twp:
  assumes pin: "allPinned vm" and al: "l AND 3 = 0" and mapped: "mappedBytes vm l 4" and w: "windowOnly vm vm1"
  shows "twp (getGuestDWord env l) (\<lambda>v vm'. v = linDWord vm l \<and> windowOnly vm vm') vm1"
proof -
  obtain a where a: "linToPhy vm l = Some a" "a AND 0xfff = l AND 0xfff" "\<not> a > n_bytes vm - 4" "a < n_bytes vm"
    "a \<noteq> LinAddrNotAvailable" "\<And>i. i < 4 \<Longrightarrow> linToPhy vm (l + of_nat i) = Some (a + of_nat i)"
    by (rule dword_run [OF al mapped]) simp_all
  have off: "unat (l AND 0xfff) < 4093" "l AND 0xfff \<le> 0x1000 - 4"
    using aligned_off(1) [OF al] by (simp_all add: word_le_nat_alt)
  have pin1: "allPinned vm1" using pin w by (simp add: windowOnly_same)
  have read: "twp (openPage0 env (drop_bit 12 a)) (\<lambda>page. twp (win_read32 env page (unat (l AND 0xfff)))
      (\<lambda>v vm'. v = linDWord vm l \<and> windowOnly vm vm')) vm2" if "windowOnly vm1 vm2" for vm2
  proof (rule twp_mono [OF openPage0_twp])
    have w2: "windowOnly vm vm2" by (rule windowOnly_trans [OF w that])
    show "allPinned vm2" using pin w2 by (simp add: windowOnly_same)
    then show "drop_bit 12 a < pg_guest_n_pages (vm_pages vm2)"
      using page_below [of vm2 a] a(4) w2 by (simp add: windowOnly_same)
    fix page vm3 assume *: "page = tmp_phy_page0 vm2 \<and> windowOnly vm2 vm3 \<and> shows_page env vm3 page (drop_bit 12 a)"
    then have w3: "windowOnly vm vm3" using w2 windowOnly_trans by blast
    have "win_read32 env page (unat (l AND 0xfff)) vm3 = Ret (gdword vm3 a) vm3"
      using win_read32_twp [OF conjunct2 [OF conjunct2 [OF *]] addr_split(2) off(1)] addr_split(1) [of a]
      by (simp flip: a(2))
    then show "twp (win_read32 env page (unat (l AND 0xfff))) (\<lambda>v vm'. v = linDWord vm l \<and> windowOnly vm vm') vm3"
      using w3 gdword_bytes [OF a(1,6)] by (simp add: twp_Ret_eq windowOnly_same)
  qed
  show ?thesis
    unfolding getGuestDWord_def
    using off(2) a(3,5) w
    by (auto simp: Let_def a(1) avail_def windowOnly_same intro!: twp_mono [OF translateLinToPhy_twp [OF pin1]] read)
qed

lemma getGuestWord_twp:
  assumes pin: "allPinned vm" and al: "l AND 3 = 0" and mapped: "mappedBytes vm l 2" and w: "windowOnly vm vm1"
  shows "twp (getGuestWord env l) (\<lambda>v vm'. v = linWord vm l \<and> windowOnly vm vm') vm1"
proof -
  have fits: "unat (l AND 0xfff) + unat (2 :: Bit32u) \<le> 4096" "l AND 0xfff \<le> 0x1000 - 2"
    using aligned_off(1) [OF al] by (simp_all add: word_le_nat_alt)
  have m: "mappedBytes vm l (unat (2 :: Bit32u))" using mapped by simp
  obtain a where a: "linToPhy vm l = Some a" "a AND 0xfff = l AND 0xfff" "\<not> a > n_bytes vm - 2"
    "a < n_bytes vm" "a \<noteq> LinAddrNotAvailable"
    "linBytes vm l (unat (2 :: Bit32u)) = map (\<lambda>i. gbyte vm (a + of_nat i)) [0..<unat (2 :: Bit32u)]"
    by (rule mapped_run [OF _ fits(1) m]) simp_all
  have pin1: "allPinned vm1" using pin w by (simp add: windowOnly_same)
  have read: "twp (openPage0 env (drop_bit 12 a)) (\<lambda>page. twp (win_readN env page (unat (l AND 0xfff)) 2)
      (\<lambda>bs vm'. bs = linBytes vm l 2 \<and> windowOnly vm vm')) vm2" if "windowOnly vm1 vm2" for vm2
    using openRead_twp [OF windowOnly_trans [OF w that] pin a(4), of 2 env] a(2,6) fits(1)
    by (simp add: twp_fun)
  have read: "twp (openPage0 env (drop_bit 12 a)) (\<lambda>page. twp (win_readN env page (unat (l AND 0xfff)) 2)
      (\<lambda>bs vm'. le_word bs = linWord vm l \<and> windowOnly vm vm')) vm2" if "windowOnly vm1 vm2" for vm2
    by (rule twp_mono [OF read [OF that]]) (auto simp: linWord_def elim!: twp_mono)
  show ?thesis
    unfolding getGuestWord_def
    using fits(2) a(3,5) w
    by (auto simp: Let_def a(1) avail_def windowOnly_same twp_fun intro!: twp_mono [OF translateLinToPhy_twp [OF pin1]] read)
qed

section \<open>The frame on the stack\<close>

text \<open>Where a byte of linear memory is in the memory of the host, and the bytes of a piece of it.\<close>

definition hostLin :: "vm_t \<Rightarrow> Bit32u \<Rightarrow> Bit32u" where
  "hostLin vm l = (let a = the (linToPhy vm l) in
     push_bit 12 (pp_hostPPI (vm_guestPageInfo vm (unat (drop_bit 12 a)))) OR (a AND 0xfff))"

definition frameAddrs :: "vm_t \<Rightarrow> Bit32u \<Rightarrow> nat \<Rightarrow> Bit32u set" where
  "frameAddrs vm sp n = (\<lambda>i. hostLin vm (sp + of_nat i)) ` {..<n}"

text \<open>The memory \<open>m\<close> is that of \<open>vm\<close> with the words \<open>ws\<close> from the linear address \<open>sp\<close> upwards.\<close>

definition stacked :: "vm_t \<Rightarrow> Bit32u \<Rightarrow> Bit32u list \<Rightarrow> (Bit32u \<Rightarrow> Bit8u) \<Rightarrow> bool" where
  "stacked vm sp ws m \<longleftrightarrow> (\<forall>h. h \<notin> frameAddrs vm sp (4 * length ws) \<longrightarrow> m h = vm_phymem vm h) \<and>
     (\<forall>k < length ws. \<forall>j < 4. m (hostLin vm (sp + of_nat (4 * k + j))) = ucast (drop_bit (8 * j) (ws ! k)))"

text \<open>Writing there changes neither the translation nor the descriptor at \<open>dl\<close>.\<close>

definition stackApart :: "vm_t \<Rightarrow> Bit32u \<Rightarrow> nat \<Rightarrow> Bit32u \<Rightarrow> bool" where
  "stackApart vm sp n dl \<longleftrightarrow> (\<forall>m. (\<forall>h. h \<notin> frameAddrs vm sp n \<longrightarrow> m h = vm_phymem vm h) \<longrightarrow>
     linToPhy (vm\<lparr>vm_phymem := m\<rparr>) = linToPhy vm \<and> linBytes (vm\<lparr>vm_phymem := m\<rparr>) dl 8 = linBytes vm dl 8)"

lemma frameAddrs_suffix: "frameAddrs vm (sp + of_nat i) n \<subseteq> frameAddrs vm sp (i + n)"
proof
  fix h assume "h \<in> frameAddrs vm (sp + of_nat i) n"
  then obtain j where "j < n" "h = hostLin vm (sp + of_nat (i + j))" by (auto simp: frameAddrs_def add.assoc)
  then show "h \<in> frameAddrs vm sp (i + n)"
    unfolding frameAddrs_def by (intro image_eqI [where x = "i + j"]) simp_all
qed

lemma stackApart_suffix: "stackApart vm sp (i + n) dl \<Longrightarrow> stackApart vm (sp + of_nat i) n dl"
  unfolding stackApart_def using frameAddrs_suffix by blast

lemma stacked_same:
  assumes "stackApart vm sp (4 * length ws) dl" "stacked vm sp ws m"
  shows "linToPhy (vm\<lparr>vm_phymem := m\<rparr>) = linToPhy vm" "linBytes (vm\<lparr>vm_phymem := m\<rparr>) dl 8 = linBytes vm dl 8"
  using assms by (auto simp: stackApart_def stacked_def)

lemma hostLin_offset: "linToPhy vm l \<noteq> None \<Longrightarrow> hostLin vm l AND 0xfff = l AND 0xfff"
proof -
  have low: "(push_bit 12 p OR (a AND 0xfff)) AND 0xfff = a AND (0xfff :: Bit32u)" for p a
    by (rule bit_word_eqI) (auto simp: mask_and_eq bit_simps)
  assume "linToPhy vm l \<noteq> None"
  then show ?thesis using linToPhy_offset [of vm l] by (auto simp: hostLin_def Let_def low)
qed

lemma offset_inj:
  assumes "i < 4096" "j < 4096" "(l + of_nat i) AND 0xfff = (l + of_nat j) AND (0xfff :: Bit32u)"
  shows "i = j"
proof -
  have m: "unat (l + of_nat k) mod 4096 = (unat l + k) mod 4096" for k
    by (simp add: unat_word_ariths unat_of_nat mod_mod_cancel mod_add_right_eq)
  have "(unat l + i) mod 4096 = (unat l + j) mod 4096"
    using arg_cong [OF assms(3), of unat] unfolding unat_and_mask m .
  note eq = this
  have *: "i = j" if "a + i = 4096 * p + r" "a + j = 4096 * q + r" for a p q r :: nat
  proof -
    consider "p + 1 \<le> q" | "p = q" | "q + 1 \<le> p" by linarith
    then show ?thesis by cases (use that assms(1,2) in linarith)+
  qed
  show ?thesis
  proof (rule *)
    show "unat l + i = 4096 * ((unat l + i) div 4096) + (unat l + i) mod 4096" by simp
    show "unat l + j = 4096 * ((unat l + j) div 4096) + (unat l + i) mod 4096" unfolding eq by simp
  qed
qed

text \<open>One word more.\<close>

definition putDWord :: "vm_t \<Rightarrow> (Bit32u \<Rightarrow> Bit8u) \<Rightarrow> Bit32u \<Rightarrow> Bit32u \<Rightarrow> Bit32u \<Rightarrow> Bit8u" where
  "putDWord vm m l v = m(hostLin vm l := ucast v, hostLin vm (l + 1) := ucast (drop_bit 8 v),
     hostLin vm (l + 2) := ucast (drop_bit 16 v), hostLin vm (l + 3) := ucast (drop_bit 24 v))"

lemma nat_less_4: "(j :: nat) < 4 \<longleftrightarrow> j = 0 \<or> j = 1 \<or> j = 2 \<or> j = 3"
  by auto

lemma hostLin_inj:
  assumes "mappedBytes vm l n" "i < n" "j < n" "n \<le> 4096" "hostLin vm (l + of_nat i) = hostLin vm (l + of_nat j)"
  shows "i = j"
proof (rule offset_inj)
  have "linToPhy vm (l + of_nat k) \<noteq> None" if "k < n" for k using assms(1) that by (auto simp: mappedBytes_def)
  then show "(l + of_nat i) AND 0xfff = (l + of_nat j) AND 0xfff"
    using assms(2,3,5) hostLin_offset by metis
qed (use assms in simp_all)

lemma stacked_Nil [simp]: "stacked vm sp [] m \<longleftrightarrow> m = vm_phymem vm"
  by (auto simp: stacked_def frameAddrs_def)

lemma stacked_Cons:
  assumes st: "stacked vm (sp + 4) ws m" and mapped: "mappedBytes vm sp (4 * Suc (length ws))" and short: "length ws < 1000"
  shows "stacked vm sp (w # ws) (putDWord vm m sp w)"
proof -
  have inj: "hostLin vm (sp + of_nat i) = hostLin vm (sp + of_nat j) \<longleftrightarrow> i = j"
    if "i < 4 * Suc (length ws)" "j < 4 * Suc (length ws)" for i j
    using hostLin_inj [OF mapped that] short by auto
  have put: "putDWord vm m sp w (hostLin vm (sp + of_nat i)) =
      (if i < 4 then ucast (drop_bit (8 * i) w) else m (hostLin vm (sp + of_nat i)))" if "i < 4 * Suc (length ws)" for i
    using inj [OF that, of 0] inj [OF that, of 1] inj [OF that, of 2] inj [OF that, of 3]
    by (auto simp: putDWord_def nat_less_4)
  have "putDWord vm m sp w h = vm_phymem vm h" if "h \<notin> frameAddrs vm sp (4 * length (w # ws))" for h
  proof -
    have h: "h \<noteq> hostLin vm (sp + of_nat i)" if "i < 4 * Suc (length ws)" for i
      using that \<open>h \<notin> _\<close> by (auto simp: frameAddrs_def)
    have "h \<notin> frameAddrs vm (sp + 4) (4 * length ws)"
      using frameAddrs_suffix [of vm sp 4 "4 * length ws"] that by auto
    then have "m h = vm_phymem vm h" using st by (simp add: stacked_def)
    then show ?thesis using h [of 0] h [of 1] h [of 2] h [of 3] by (simp add: putDWord_def)
  qed
  moreover have "putDWord vm m sp w (hostLin vm (sp + of_nat (4 * k + j))) = ucast (drop_bit (8 * j) ((w # ws) ! k))"
    if "k < length (w # ws)" "j < 4" for k j
  proof (cases k)
    case 0
    then show ?thesis using put [of j] that by simp
  next
    case (Suc i)
    have "sp + of_nat (4 * k + j) = sp + 4 + of_nat (4 * i + j)" by (simp add: Suc algebra_simps)
    moreover have "m (hostLin vm (sp + 4 + of_nat (4 * i + j))) = ucast (drop_bit (8 * j) (ws ! i))"
      using st that unfolding stacked_def Suc by simp
    ultimately have "m (hostLin vm (sp + of_nat (4 * k + j))) = ucast (drop_bit (8 * j) (ws ! i))"
      by (simp only:)
    then show ?thesis using put [of "4 * k + j"] that by (simp add: Suc del: of_nat_add of_nat_mult)
  qed
  ultimately show ?thesis by (simp add: stacked_def del: of_nat_add of_nat_mult)
qed

section \<open>Writing one word of the frame\<close>

text \<open>The states that a delivery goes through, but for the windows.\<close>

abbreviation trapState :: "vm_t \<Rightarrow> guestStackContext_t \<Rightarrow> (nat \<Rightarrow> descriptor_t) \<Rightarrow> Bit32u \<Rightarrow> (Bit32u \<Rightarrow> Bit8u) \<Rightarrow> vm_t" where
  "trapState vm c g k m \<equiv> vm\<lparr>vm_context := c, vm_gdt := g, vm_guestCPL := k, vm_phymem := m\<rparr>"

text \<open>The updates of a delivery in one order.\<close>

lemma vm_order:
  "vm_context_update f1 (vm_gdt_update g1 (vm :: vm_t)) = vm_gdt_update g1 (vm_context_update f1 vm)"
  "vm_context_update f2 (vm_guestCPL_update g2 (vm :: vm_t)) = vm_guestCPL_update g2 (vm_context_update f2 vm)"
  "vm_context_update f3 (vm_phymem_update g3 (vm :: vm_t)) = vm_phymem_update g3 (vm_context_update f3 vm)"
  "vm_context_update f4 (vm_nexus_update g4 (vm :: vm_t)) = vm_nexus_update g4 (vm_context_update f4 vm)"
  "vm_context_update f5 (vm_hw_update g5 (vm :: vm_t)) = vm_hw_update g5 (vm_context_update f5 vm)"
  "vm_gdt_update f6 (vm_guestCPL_update g6 (vm :: vm_t)) = vm_guestCPL_update g6 (vm_gdt_update f6 vm)"
  "vm_gdt_update f7 (vm_phymem_update g7 (vm :: vm_t)) = vm_phymem_update g7 (vm_gdt_update f7 vm)"
  "vm_gdt_update f8 (vm_nexus_update g8 (vm :: vm_t)) = vm_nexus_update g8 (vm_gdt_update f8 vm)"
  "vm_gdt_update f9 (vm_hw_update g9 (vm :: vm_t)) = vm_hw_update g9 (vm_gdt_update f9 vm)"
  "vm_guestCPL_update f10 (vm_phymem_update g10 (vm :: vm_t)) = vm_phymem_update g10 (vm_guestCPL_update f10 vm)"
  "vm_guestCPL_update f11 (vm_nexus_update g11 (vm :: vm_t)) = vm_nexus_update g11 (vm_guestCPL_update f11 vm)"
  "vm_guestCPL_update f12 (vm_hw_update g12 (vm :: vm_t)) = vm_hw_update g12 (vm_guestCPL_update f12 vm)"
  "vm_phymem_update f13 (vm_nexus_update g13 (vm :: vm_t)) = vm_nexus_update g13 (vm_phymem_update f13 vm)"
  "vm_phymem_update f14 (vm_hw_update g14 (vm :: vm_t)) = vm_hw_update g14 (vm_phymem_update f14 vm)"
  "vm_nexus_update f15 (vm_hw_update g15 (vm :: vm_t)) = vm_hw_update g15 (vm_nexus_update f15 vm)"
  by (rule vm_t.equality; simp)+

lemma trapState_same:
  assumes "linToPhy (vm\<lparr>vm_phymem := m\<rparr>) = linToPhy vm"
  shows "allPinned (trapState vm c g k m) = allPinned vm" "linToPhy (trapState vm c g k m) = linToPhy vm"
    "hostLin (trapState vm c g k m) = hostLin vm" "mappedBytes (trapState vm c g k m) = mappedBytes vm"
    "linBytes (trapState vm c g k m) = linBytes (vm\<lparr>vm_phymem := m\<rparr>)"
proof -
  have entry: "tableEntry (trapState vm c g k m) = tableEntry (vm\<lparr>vm_phymem := m\<rparr>)"
    by (simp add: fun_eq_iff tableEntry_def gdword_def gbyte_def n_bytes_def)
  have lin: "linToPhy (trapState vm c g k m) = linToPhy (vm\<lparr>vm_phymem := m\<rparr>)"
    by (simp add: fun_eq_iff linToPhy_def Let_def entry)
  show "allPinned (trapState vm c g k m) = allPinned vm" by (simp add: allPinned_def n_bytes_def)
  show l: "linToPhy (trapState vm c g k m) = linToPhy vm" using lin assms by simp
  show "hostLin (trapState vm c g k m) = hostLin vm" by (simp add: fun_eq_iff hostLin_def l)
  show "mappedBytes (trapState vm c g k m) = mappedBytes vm" by (simp add: fun_eq_iff mappedBytes_def l n_bytes_def)
  show "linBytes (trapState vm c g k m) = linBytes (vm\<lparr>vm_phymem := m\<rparr>)"
    by (simp add: fun_eq_iff linBytes_def lin gbyte_def)
qed

lemma win_write8_run:
  assumes "pe_base (vm_nexus_page_tbl vm (window_pti env page)) = b" "off < 4096"
  shows "win_write8 env page off v (vm\<lparr>vm_phymem := m\<rparr>) = Ret () (vm\<lparr>vm_phymem := m(push_bit 12 b OR of_nat off := v)\<rparr>)"
  using assms by (simp add: win_write8_def window_addr_def inBounds_def thn_def bnd_def modify_def ret_def)

lemma win_write32_run:
  assumes "pe_base (vm_nexus_page_tbl vm (window_pti env page)) = b" "off < 4093"
  shows "win_write32 env page off v vm = Ret () (vm\<lparr>vm_phymem := (vm_phymem vm)(push_bit 12 b OR of_nat off := ucast v,
     push_bit 12 b OR of_nat (off + 1) := ucast (drop_bit 8 v), push_bit 12 b OR of_nat (off + 2) := ucast (drop_bit 16 v),
     push_bit 12 b OR of_nat (off + 3) := ucast (drop_bit 24 v))\<rparr>)"
proof -
  note run = win_write8_run [OF assms(1)]
  have first: "win_write8 env page off (ucast v) vm = Ret () (vm\<lparr>vm_phymem := (vm_phymem vm)(push_bit 12 b OR of_nat off := ucast v)\<rparr>)"
    using run [of off "ucast v" "vm_phymem vm"] assms(2) by simp
  show ?thesis
    unfolding win_write32_def using assms(2) by (simp add: first run)
qed

lemma win_write32_put:
  assumes "shows_page env vm page (drop_bit 12 a)" "unat (a AND 0xfff) < 4093"
    "\<And>i. i < 4 \<Longrightarrow> linToPhy vm (l + of_nat i) = Some (a + of_nat i)"
  shows "win_write32 env page (unat (a AND 0xfff)) v vm = Ret () (vm\<lparr>vm_phymem := putDWord vm (vm_phymem vm) l v\<rparr>)"
proof -
  let ?p = "pp_hostPPI (vm_guestPageInfo vm (unat (drop_bit 12 a)))" and ?k = "unat (a AND 0xfff)"
  have h: "hostLin vm (l + of_nat i) = push_bit 12 ?p OR of_nat (?k + i)" if "i < 4" for i
    using same_page [of a i] assms(2) assms(3) [OF that] that by (simp add: hostLin_def Let_def)
  have "hostLin vm l = push_bit 12 ?p OR of_nat ?k" "hostLin vm (l + 1) = push_bit 12 ?p OR of_nat (?k + 1)"
    "hostLin vm (l + 2) = push_bit 12 ?p OR of_nat (?k + 2)" "hostLin vm (l + 3) = push_bit 12 ?p OR of_nat (?k + 3)"
    using h [of 0, simplified of_nat_0] h [of 1, simplified of_nat_1] h [of 2, simplified of_nat_numeral] h [of 3, simplified of_nat_numeral]
    by (simp_all only: add_0_right simp_thms) simp_all
  then show ?thesis
    unfolding putDWord_def using win_write32_run [OF assms(1) [unfolded shows_page_def] assms(2), of v] by (simp only:)
qed

lemma windowOnly_phymem: "windowOnly vm vm' \<Longrightarrow> windowOnly (vm\<lparr>vm_phymem := m\<rparr>) (vm'\<lparr>vm_phymem := m\<rparr>) \<and> vm_phymem vm' = vm_phymem vm"
  unfolding windowOnly_def by (fastforce intro: vm_t.equality)

lemma windowOnly_hostLin: "windowOnly vm vm' \<Longrightarrow> hostLin vm' = hostLin vm"
  by (auto simp: fun_eq_iff hostLin_def Let_def windowOnly_same) (auto simp: windowOnly_def)

lemma writeGuestDWord_twp:
  assumes pin: "allPinned vm" and al: "l AND 3 = 0" and mapped: "mappedBytes vm l 4" and w: "windowOnly vm vm1"
  shows "twp (writeGuestDWord env l v) (\<lambda>_. windowOnly (vm\<lparr>vm_phymem := putDWord vm (vm_phymem vm) l v\<rparr>)) vm1"
proof -
  obtain a where a: "linToPhy vm l = Some a" "a AND 0xfff = l AND 0xfff" "\<not> a \<ge> n_bytes vm - 3" "a < n_bytes vm"
    "a \<noteq> LinAddrNotAvailable" and each: "\<And>i. i < 4 \<Longrightarrow> linToPhy vm (l + of_nat i) = Some (a + of_nat i)"
    by (rule dword_run [OF al mapped]) blast
  have off: "unat (a AND 0xfff) < 4093" using aligned_off(1) [OF al] by (simp add: a(2))
  have nc: "\<not> a AND 0xfff \<ge> 0xffd" using off by (simp add: word_le_nat_alt)
  have pin1: "allPinned vm1" using pin w by (simp add: windowOnly_same)
  have store: "twp (openPage0 env (drop_bit 12 a)) (\<lambda>page. twp (win_write32 env page (unat (a AND 0xfff)) v)
      (\<lambda>_. windowOnly (vm\<lparr>vm_phymem := putDWord vm (vm_phymem vm) l v\<rparr>))) vm2" if "windowOnly vm1 vm2" for vm2
  proof (rule twp_mono [OF openPage0_twp])
    have w2: "windowOnly vm vm2" by (rule windowOnly_trans [OF w that])
    show "allPinned vm2" using pin w2 by (simp add: windowOnly_same)
    then show "drop_bit 12 a < pg_guest_n_pages (vm_pages vm2)"
      using page_below [of vm2 a] a(4) w2 by (simp add: windowOnly_same)
    fix page vm3 assume *: "page = tmp_phy_page0 vm2 \<and> windowOnly vm2 vm3 \<and> shows_page env vm3 page (drop_bit 12 a)"
    then have w3: "windowOnly vm vm3" using w2 windowOnly_trans by blast
    have e3: "linToPhy vm3 (l + of_nat i) = Some (a + of_nat i)" if "i < 4" for i
      using each [OF that] by (simp only: windowOnly_same(6) [OF w3])
    have "putDWord vm3 (vm_phymem vm3) l v = putDWord vm (vm_phymem vm) l v"
      using windowOnly_phymem [OF w3] by (simp add: putDWord_def windowOnly_hostLin [OF w3])
    then show "twp (win_write32 env page (unat (a AND 0xfff)) v) (\<lambda>_. windowOnly (vm\<lparr>vm_phymem := putDWord vm (vm_phymem vm) l v\<rparr>)) vm3"
      using win_write32_put [OF conjunct2 [OF conjunct2 [OF *]] off e3, of v] windowOnly_phymem [OF w3]
      by (simp add: twp_Ret_eq)
  qed
  show ?thesis
    unfolding writeGuestDWord_def
    using a(3,5) nc w
    by (auto simp: Let_def a(1) avail_def windowOnly_same twp_fun intro!: twp_mono [OF translateLinToPhy_twp [OF pin1]] store)
qed

lemma push_twp:
  assumes pin: "allPinned vm" and al: "sp AND 3 = 0" and mapped: "mappedBytes vm sp (4 * Suc (length ws))" and short: "length ws < 1000"
    and apart: "stackApart vm sp (4 * Suc (length ws)) dl" and st: "stacked vm (sp + 4) ws m"
    and w: "windowOnly (trapState vm c g k m) vm1"
  shows "twp (writeGuestDWord env sp w)
     (\<lambda>_. windowOnly (trapState vm c g k (putDWord vm m sp w))) vm1" "stacked vm sp (w # ws) (putDWord vm m sp w)"
proof -
  have lin: "linToPhy (vm\<lparr>vm_phymem := m\<rparr>) = linToPhy vm"
    using stackApart_suffix [of vm sp 4 "4 * length ws" dl] apart st by (intro stacked_same(1)) simp_all
  have m4: "mappedBytes vm sp 4" using mapped mappedBytes_split [of vm sp 4 "4 * length ws"] by simp
  have "putDWord (trapState vm c g k m) (vm_phymem (trapState vm c g k m)) sp w = putDWord vm m sp w"
    by (simp only: putDWord_def trapState_same(3) [OF lin]) simp
  then show "twp (writeGuestDWord env sp w) (\<lambda>_. windowOnly (trapState vm c g k (putDWord vm m sp w))) vm1"
    using writeGuestDWord_twp [OF _ al _ w, of env w] pin m4 by (simp add: trapState_same [OF lin])
  show "stacked vm sp (w # ws) (putDWord vm m sp w)" by (rule stacked_Cons [OF st mapped short])
qed

end
