(* ===== verification/Emu_Deliver.thy ===== *)
theory Emu_Deliver
  imports Emu_Trap
begin

text \<open>
  \<^verbatim>\<open>doGuestInterrupt\<close> and \<^verbatim>\<open>doIRET\<close>, from the guest's tables and stack in linear memory to the state they
  leave: the whole of it but for the windows through which the monitor looks at guest pages.
\<close>

section \<open>What the guest has set up\<close>

definition idtGate :: "vm_t \<Rightarrow> Bit32u \<Rightarrow> gate_t" where
  "idtGate vm vector = gate_of_word (le_word (linBytes vm (gi_base (cpu_idtr (vm_guest_cpu vm)) + push_bit 3 vector) 8))"

text \<open>A gate that the code accepts: inside the table, present, of a 32-bit interrupt or trap type, and open to
  \<^verbatim>\<open>INT\<close> when it comes from there.\<close>

definition gateReady :: "vm_t \<Rightarrow> Bit32u \<Rightarrow> Bit32u \<Rightarrow> bool" where
  "gateReady vm vector intFlags \<longleftrightarrow>
     (let idtr = cpu_idtr (vm_guest_cpu vm); gate = idtGate vm vector in
      \<not> push_bit 3 vector + 7 > ucast (gi_limit idtr) \<and> gi_base idtr AND 7 = 0 \<and>
      mappedBytes vm (gi_base idtr + push_bit 3 vector) 8 \<and> g_p gate \<noteq> 0 \<and> (g_type gate = 14 \<or> g_type gate = 15) \<and>
      (intFlags AND IntFlagSoftInt \<noteq> 0 \<longrightarrow> \<not> ucast (g_dpl gate) < vm_guestCPL vm))"

text \<open>A present segment of the guest's GDT, code or data, of the level and in the slots that Linux uses.\<close>

definition segReady :: "vm_t \<Rightarrow> nat \<Rightarrow> Bit32u \<Rightarrow> selector_t \<Rightarrow> bool" where
  "segReady vm sreg cpl sel \<longleftrightarrow>
     (let d = guestDesc vm sel in selValid vm sel \<and> sel_rpl sel = cpl \<and> ucast (d_dpl d) = cpl \<and> d_p d \<noteq> 0 \<and>
      d_type d = (if sreg = SRegCS then 0x1a else 0x12) \<and> linuxSlot cpl sreg (sel_index sel))"

text \<open>The stack of the guest's ring 0, from its task state segment.\<close>

definition tssBase :: "vm_t \<Rightarrow> Bit32u" where
  "tssBase vm = BaseOfDescriptor (sr_des (cpu_tr (vm_guest_cpu vm)))"

definition tssReady :: "vm_t \<Rightarrow> bool" where
  "tssReady vm \<longleftrightarrow> (let tr = sr_des (cpu_tr (vm_guest_cpu vm)) in
     d_type tr = 11 \<and> \<not> 11 > trLimit tr \<and> tssBase vm AND 3 = 0 \<and> mappedBytes vm (tssBase vm + 4) 8 \<and>
     segReady vm SRegSS 0 (linWord vm (tssBase vm + 8)))"

text \<open>The stack pointer of the handler and the words on its stack, from the lowest: the error code, if there is one,
  the return address and flags of the interrupted code, and its stack if it is the user's.\<close>

definition trapFrame :: "vm_t \<Rightarrow> Bit32u \<Rightarrow> Bit32u \<Rightarrow> Bit32u list" where
  "trapFrame vm intFlags err =
     (let c = vm_context vm in
      (if intFlags AND IntFlagPushError \<noteq> 0 then [err] else []) @
      [sc_eip c, (sc_cs c AND NOT 3) OR vm_guestCPL vm, put_bit 9 (guestIF vm) (sc_eflags c)] @
      (if vm_guestCPL vm = 0 then [] else [sc_esp c, sc_ss c]))"

definition trapSP :: "vm_t \<Rightarrow> Bit32u \<Rightarrow> Bit32u" where
  "trapSP vm intFlags =
     (if vm_guestCPL vm = 0 then sc_esp (vm_context vm) - 12 else linDWord vm (tssBase vm + 4) - 20) -
     (if intFlags AND IntFlagPushError \<noteq> 0 then 4 else 0)"

text \<open>The flags of the handler: interrupts of the host stay on; the guest's are off behind an interrupt gate and
  stay as they are behind a trap gate; \<open>TF\<close>, \<open>NT\<close>, \<open>RF\<close> and \<open>VM\<close> are cleared.\<close>

definition trapEFlags :: "vm_t \<Rightarrow> bool \<Rightarrow> Bit32u" where
  "trapEFlags vm trap = put_bit 9 True (put_bit 19 (trap \<and> guestIF vm)
     (put_bit 8 False (put_bit 14 False (put_bit 16 False (put_bit 17 False (sc_eflags (vm_context vm)))))))"

definition trapContext :: "vm_t \<Rightarrow> gate_t \<Rightarrow> Bit32u \<Rightarrow> guestStackContext_t" where
  "trapContext vm gate sp =
     (let c = vm_context vm; ss = (if vm_guestCPL vm = 0 then sc_ss c else ucast (linWord vm (tssBase vm + 8) OR 3)) in
      c\<lparr>sc_cs := ucast (g_selector gate OR 3), sc_eip := gate_offset gate, sc_esp := sp, sc_ss := ss,
        sc_eflags := trapEFlags vm (g_type gate = 15)\<rparr>)"

text \<open>The guest's descriptors of the segments loaded, in the monitor's GDT at DPL 3.\<close>

definition trapGDT :: "vm_t \<Rightarrow> selector_t \<Rightarrow> nat \<Rightarrow> descriptor_t" where
  "trapGDT vm csSel =
     (let g = (if vm_guestCPL vm = 0 then vm_gdt vm
               else (let ss = linWord vm (tssBase vm + 8) in (vm_gdt vm)(sel_index ss := downgraded (guestDesc vm ss)))) in
      g(sel_index csSel := downgraded (guestDesc vm csSel)))"

section \<open>The gate, its code segment and the stack\<close>

lemma aligned_add:
  "(x :: Bit32u) AND 3 = 0 \<Longrightarrow> y AND 3 = 0 \<Longrightarrow> (x + y) AND 3 = 0"
  "(x :: Bit32u) AND 7 = 0 \<Longrightarrow> y AND 7 = 0 \<Longrightarrow> (x + y) AND 7 = 0"
proof -
  have d: "w AND 3 = 0 \<longleftrightarrow> 4 dvd unat w" "w AND 7 = 0 \<longleftrightarrow> 8 dvd unat w" for w :: Bit32u
    using unat_and_mask(2,3) [of w] by (simp_all add: word_unat_eq_iff mod_eq_0_iff_dvd)
  show "x AND 3 = 0 \<Longrightarrow> y AND 3 = 0 \<Longrightarrow> (x + y) AND 3 = 0" "x AND 7 = 0 \<Longrightarrow> y AND 7 = 0 \<Longrightarrow> (x + y) AND 7 = 0"
    unfolding d by (simp_all add: unat_word_ariths dvd_mod)
qed

lemma interruptGate_twp:
  assumes "allPinned vm" "gateReady vm vector intFlags" "windowOnly vm vm1"
  shows "twp (interruptGate env vector intFlags (vm_guestCPL vm)) (\<lambda>gate vm'. gate = idtGate vm vector \<and> windowOnly vm vm') vm1"
proof -
  let ?l = "gi_base (cpu_idtr (vm_guest_cpu vm)) + push_bit 3 vector"
  have r: "\<not> push_bit 3 vector + 7 > ucast (gi_limit (cpu_idtr (vm_guest_cpu vm)))" "gi_base (cpu_idtr (vm_guest_cpu vm)) AND 7 = 0"
    "mappedBytes vm ?l 8" "g_p (idtGate vm vector) \<noteq> 0" "g_type (idtGate vm vector) = 14 \<or> g_type (idtGate vm vector) = 15"
    "intFlags AND IntFlagSoftInt \<noteq> 0 \<Longrightarrow> \<not> ucast (g_dpl (idtGate vm vector)) < vm_guestCPL vm"
    using assms(2) by (auto simp: gateReady_def Let_def)
  have "push_bit 3 vector AND 7 = 0" by (rule bit_word_eqI) (auto simp: mask_and_eq bit_simps)
  then have al: "?l AND 7 = 0" by (rule aligned_add(2) [OF r(2)])
  have g: "gate_of_word (word_of_desc (linDesc vm ?l)) = idtGate vm vector" by (simp add: linDesc_def idtGate_def word_of_desc_of_word)
  have "twp (fetchGuestDescByLAddr env ?l) (\<lambda>d vm'. gate_of_word (word_of_desc d) = idtGate vm vector \<and> windowOnly vm vm') vm1"
    by (rule twp_mono [OF fetchGuestDescByLAddr_twp [OF assms(1) al r(3) assms(3)]]) (simp add: g)
  then show ?thesis
    using r(1,2,4-) unfolding interruptGate_def
    by (auto simp: windowOnly_same [OF assms(3)] Let_def elim!: twp_mono)
qed

lemma interruptCS_twp:
  assumes "allPinned vm" "segReady vm SRegCS 0 sel" "windowOnly vm vm1"
  shows "twp (interruptCS env sel) (\<lambda>d vm'. d = guestDesc vm sel \<and> windowOnly vm vm') vm1"
proof -
  have v: "selValid vm sel" "ucast (d_dpl (guestDesc vm sel)) = sel_rpl sel" "d_dpl (guestDesc vm sel) = 0"
    "d_p (guestDesc vm sel) \<noteq> 0" "d_type (guestDesc vm sel) = 0x1a"
    using assms(2) unat_dpl [of "d_dpl (guestDesc vm sel)"] by (auto simp: segReady_def Let_def word_unat_eq_iff)
  show ?thesis
    using v(3-) selValid_sel(2) [OF v(1)] unfolding interruptCS_def
    by (auto intro!: twp_mono [OF fetchGuestDescBySel_twp [OF assms(1) v(1) assms(3) v(2)]])
qed

lemma innerStack_twp:
  assumes "allPinned vm" "tssReady vm" "d_dpl d = 0" "windowOnly vm vm1"
  shows "twp (innerStack env d) (\<lambda>r vm'. r = (linDWord vm (tssBase vm + 4), linWord vm (tssBase vm + 8)) \<and> windowOnly vm vm') vm1"
proof -
  let ?b = "tssBase vm" let ?ss = "linWord vm (?b + 8)"
  have r: "d_type (sr_des (cpu_tr (vm_guest_cpu vm))) = 11" "\<not> 11 > trLimit (sr_des (cpu_tr (vm_guest_cpu vm)))" "?b AND 3 = 0"
    "mappedBytes vm (?b + 4) 8" "segReady vm SRegSS 0 ?ss"
    using assms(2) by (auto simp: tssReady_def Let_def)
  have m: "mappedBytes vm (?b + 4) 4" "mappedBytes vm (?b + 8) 2"
    using r(4) mappedBytes_split [of vm "?b + 4" 4 4] mappedBytes_split [of vm "?b + 8" 2 2] by (simp_all add: add.assoc)
  have al: "(?b + 4) AND 3 = 0" "(?b + 8) AND 3 = 0"
    by (rule aligned_add(1) [OF r(3)], simp)+
  have word: "twp (getGuestWord env (8 + ?b)) (\<lambda>v vm'. v = ?ss \<and> windowOnly vm vm') vm2" if "windowOnly vm vm2" for vm2
    using getGuestWord_twp [OF assms(1) al(2) m(2) that] by (simp add: add.commute)
  have v: "selValid vm ?ss" "ucast (d_dpl (guestDesc vm ?ss)) = sel_rpl ?ss" "d_dpl (guestDesc vm ?ss) = 0" "sel_rpl ?ss = 0"
    "d_p (guestDesc vm ?ss) \<noteq> 0" "d_type (guestDesc vm ?ss) = 0x12"
    using r(5) unat_dpl [of "d_dpl (guestDesc vm ?ss)"] by (auto simp: segReady_def Let_def word_unat_eq_iff)
  show ?thesis
    using r(1,2) v(3-) selValid_sel(2) [OF v(1)] assms(3) unfolding innerStack_def
    by (auto simp: Let_def windowOnly_same [OF assms(4)] simp flip: tssBase_def
      intro!: twp_mono [OF getGuestDWord_twp [OF assms(1) al(1) m(1) assms(4)]] twp_mono [OF word]
        twp_mono [OF fetchGuestDescBySel_twp [OF assms(1) v(1) _ v(2)]])
qed

lemma guestDesc_same:
  assumes "linToPhy (vm\<lparr>vm_phymem := m\<rparr>) = linToPhy vm"
    "linBytes (vm\<lparr>vm_phymem := m\<rparr>) (gi_base (cpu_gdtr (vm_guest_cpu vm)) + selOffset sel) 8 =
     linBytes vm (gi_base (cpu_gdtr (vm_guest_cpu vm)) + selOffset sel) 8"
  shows "guestDesc (trapState vm c g k m) sel = guestDesc vm sel" "selValid (trapState vm c g k m) sel = selValid vm sel"
  using assms by (simp_all add: guestDesc_def linDesc_def selValid_def trapState_same)

lemma windowOnly_upd:
  "windowOnly vm vm' \<Longrightarrow> windowOnly (vm\<lparr>vm_guestCPL := k\<rparr>) (vm'\<lparr>vm_guestCPL := k\<rparr>)"
  "windowOnly vm vm' \<Longrightarrow> windowOnly (vm\<lparr>vm_nexus := n\<rparr>) (vm'\<lparr>vm_nexus := n\<rparr>)"
  "windowOnly vm vm' \<Longrightarrow> windowOnly vm (vm'\<lparr>vm_hw := h\<rparr>)"
  unfolding windowOnly_def by (fastforce intro: vm_t.equality)+

lemma windowOnly_fields:
  assumes "windowOnly vm vm'"
  shows "vm_context vm' = vm_context vm" "vm_guestCPL vm' = vm_guestCPL vm" "vm_linuxVMMode vm' = vm_linuxVMMode vm"
    "vm_nexus vm' = vm_nexus vm" "vm_phymem vm' = vm_phymem vm"
  using assms by (auto simp: windowOnly_def)

text \<open>The switch to the stack of ring 0.\<close>

lemma switchStack_twp:
  assumes pin: "allPinned vm" and ss: "segReady vm SRegSS 0 ss" and cs: "sel_rpl cs = 0" and lin: "vm_linuxVMMode vm \<noteq> 0"
    and al: "esp AND 3 = 0" and mapped: "mappedBytes vm (esp - 8) 8" and apart: "stackApart vm (esp - 8) 8 dl"
    and w: "windowOnly vm vm1"
  shows "twp (switchStack env cs esp ss) (\<lambda>r vm'. r = esp - 20 \<and> (\<exists>m. stacked vm (esp - 8) [sc_esp (vm_context vm), sc_ss (vm_context vm)] m \<and>
     windowOnly (trapState vm ((vm_context vm)\<lparr>sc_ss := ucast (ss OR 3), sc_esp := esp - 20\<rparr>)
       ((vm_gdt vm)(sel_index ss := downgraded (guestDesc vm ss))) 0 m) vm')) vm1"
proof -
  let ?c = "(vm_context vm)\<lparr>sc_ss := ucast (ss OR 3), sc_esp := esp\<rparr>" and ?c' = "(vm_context vm)\<lparr>sc_ss := ucast (ss OR 3), sc_esp := esp - 20\<rparr>"
  let ?g = "(vm_gdt vm)(sel_index ss := downgraded (guestDesc vm ss))"
  let ?m1 = "putDWord vm (vm_phymem vm) (esp - 4) (sc_ss (vm_context vm))"
  let ?m2 = "putDWord vm ?m1 (esp - 8) (sc_esp (vm_context vm))"
  have v: "selValid vm ss" "sel_rpl ss = 0" "ucast (d_dpl (guestDesc vm ss)) = sel_rpl ss" "linuxSlot 0 SRegSS (sel_index ss)"
    using ss by (auto simp: segReady_def Let_def)
  let ?vm0 = "vm\<lparr>vm_context := ?c, vm_guestCPL := 0\<rparr>"
  have w0: "windowOnly ?vm0 (vm1\<lparr>vm_guestCPL := 0, vm_context := ?c\<rparr>)"
    using w unfolding windowOnly_def by (fastforce intro: vm_t.equality)
  have same: "trapState vm ?c (vm_gdt vm) 0 (vm_phymem vm) = ?vm0" by simp
  have s: "allPinned ?vm0" "guestDesc ?vm0 ss = guestDesc vm ss" "selValid ?vm0 ss"
    using trapState_same(1) [where vm = vm and m = "vm_phymem vm" and c = ?c and g = "vm_gdt vm" and k = 0]
      guestDesc_same [where vm = vm and m = "vm_phymem vm" and c = ?c and g = "vm_gdt vm" and k = 0 and sel = ss] pin v(1)
    unfolding same by simp_all
  have "twp (guestSelectorUpdated env SRegSS ss) (\<lambda>_. windowOnly (?vm0\<lparr>vm_gdt := (vm_gdt ?vm0)(sel_index ss := downgraded (guestDesc ?vm0 ss))\<rparr>))
      (vm1\<lparr>vm_guestCPL := 0, vm_context := ?c\<rparr>)"
    by (rule guestSelectorUpdated_twp [OF s(1,3) w0]) (use v lin in \<open>simp_all add: s\<close>)
  moreover have "?vm0\<lparr>vm_gdt := (vm_gdt ?vm0)(sel_index ss := downgraded (guestDesc ?vm0 ss))\<rparr> = trapState vm ?c ?g 0 (vm_phymem vm)"
    unfolding s by (rule vm_t.equality) simp_all
  ultimately have sel: "twp (guestSelectorUpdated env SRegSS ss) (\<lambda>_. windowOnly (trapState vm ?c ?g 0 (vm_phymem vm))) (vm1\<lparr>vm_guestCPL := 0, vm_context := ?c\<rparr>)"
    by (simp only:)
  have m: "mappedBytes vm (esp - 4) 4" "stackApart vm (esp - 4) 4 dl"
    using mapped apart mappedBytes_split [of vm "esp - 8" 4 4] stackApart_suffix [of vm "esp - 8" 4 4 dl] by simp_all
  have al: "(esp - 4) AND 3 = 0" "(esp - 8) AND 3 = 0"
    using aligned_add(1) [OF al, of "- 4"] aligned_add(1) [OF al, of "- 8"] by simp_all
  have st1: "stacked vm (esp - 4) [sc_ss (vm_context vm)] ?m1"
    by (rule stacked_Cons) (use m in simp_all)
  have st2: "stacked vm (esp - 8) [sc_esp (vm_context vm), sc_ss (vm_context vm)] ?m2"
    by (rule stacked_Cons) (use st1 mapped in simp_all)
  have push1: "twp (writeGuestDWord env (esp - 4) (sc_ss (vm_context vm))) (\<lambda>_. windowOnly (trapState vm ?c' ?g 0 ?m1)) vm2"
    if "windowOnly (trapState vm ?c' ?g 0 (vm_phymem vm)) vm2" for vm2
    by (rule push_twp(1) [OF pin al(1) _ _ _ _ that, where ws = "[]" and dl = dl]) (use m in simp_all)
  have push2: "twp (writeGuestDWord env (esp - 8) (sc_esp (vm_context vm))) (\<lambda>_. windowOnly (trapState vm ?c' ?g 0 ?m2)) vm2"
    if "windowOnly (trapState vm ?c' ?g 0 ?m1) vm2" for vm2
    by (rule push_twp(1) [OF pin al(2) _ _ _ _ that, where ws = "[sc_ss (vm_context vm)]" and dl = dl])
      (use mapped apart st1 in simp_all)
  have sp: "windowOnly (trapState vm ?c' ?g 0 (vm_phymem vm)) (vm2\<lparr>vm_context := ?c'\<rparr>)"
    if "windowOnly (trapState vm ?c ?g 0 (vm_phymem vm)) vm2" for vm2
    using windowOnly_context [OF that, of "\<lambda>_. ?c'"] by (simp add: vm_order)
  have c: "setSel SRegSS ss ctx = ctx\<lparr>sc_ss := ucast (ss OR 3)\<rparr>" for ctx by (simp add: setSel_def Let_def)
  have run: "twp (thn (guestSelectorUpdated env SRegSS ss) (thn (updCtx (\<lambda>c. c\<lparr>sc_esp := sc_esp c - 20\<rparr>))
     (bnd (gets (\<lambda>vm. sc_esp (vm_context vm))) (\<lambda>sp. thn (writeGuestDWord env (sp + 16) (sc_ss (vm_context vm)))
     (thn (writeGuestDWord env (sp + 12) (sc_esp (vm_context vm))) (ret sp))))))
     (\<lambda>r vm'. r = esp - 20 \<and> (\<exists>m. stacked vm (esp - 8) [sc_esp (vm_context vm), sc_ss (vm_context vm)] m \<and>
        windowOnly (trapState vm ?c' ?g 0 m) vm')) (vm1\<lparr>vm_guestCPL := 0, vm_context := ?c\<rparr>)"
    unfolding twp_thn
    by (rule twp_mono [OF sel]) (use st2 in \<open>auto simp: updCtx_def windowOnly_fields(1) intro!: twp_mono [OF push1] twp_mono [OF push2] sp [simplified]\<close>)
  then show ?thesis
    using cs windowOnly_fields(1) [OF w] unfolding switchStack_def by (simp add: updCtx_def c [simplified])
qed

text \<open>The stack of the handler, with the user's stack pointer on it if it changed.\<close>

definition trapTop :: "vm_t \<Rightarrow> Bit32u list" where
  "trapTop vm = (if vm_guestCPL vm = 0 then [] else [sc_esp (vm_context vm), sc_ss (vm_context vm)])"

definition trapESP :: "vm_t \<Rightarrow> Bit32u" where
  "trapESP vm = (if vm_guestCPL vm = 0 then sc_esp (vm_context vm) - 12 else linDWord vm (tssBase vm + 4) - 20)"

definition trapStackContext :: "vm_t \<Rightarrow> guestStackContext_t" where
  "trapStackContext vm = (if vm_guestCPL vm = 0 then (vm_context vm)\<lparr>sc_esp := trapESP vm\<rparr>
     else (vm_context vm)\<lparr>sc_ss := ucast (linWord vm (tssBase vm + 8) OR 3), sc_esp := trapESP vm\<rparr>)"

definition trapStackGDT :: "vm_t \<Rightarrow> nat \<Rightarrow> descriptor_t" where
  "trapStackGDT vm = (if vm_guestCPL vm = 0 then vm_gdt vm
     else (let ss = linWord vm (tssBase vm + 8) in (vm_gdt vm)(sel_index ss := downgraded (guestDesc vm ss))))"

lemma interruptStack_twp:
  assumes pin: "allPinned vm" and lin: "vm_linuxVMMode vm \<noteq> 0" and cs: "sel_rpl cs = 0" "d_dpl d = 0"
    and tss: "vm_guestCPL vm \<noteq> 0 \<Longrightarrow> tssReady vm" and al: "trapESP vm AND 3 = 0"
    and mapped: "mappedBytes vm (trapESP vm + 12) (4 * length (trapTop vm))"
    and apart: "stackApart vm (trapESP vm + 12) (4 * length (trapTop vm)) dl" and w: "windowOnly vm vm1"
  shows "twp (interruptStack env cs d (vm_guestCPL vm)) (\<lambda>r vm'. r = trapESP vm \<and> (\<exists>m. stacked vm (trapESP vm + 12) (trapTop vm) m \<and>
     windowOnly (trapState vm (trapStackContext vm) (trapStackGDT vm) 0 m) vm')) vm1"
proof (cases "vm_guestCPL vm = 0")
  case True
  let ?c = "(vm_context vm)\<lparr>sc_esp := sc_esp (vm_context vm) - 12\<rparr>"
  have eq: "vm\<lparr>vm_context := ?c, vm_guestCPL := 0\<rparr> = vm\<lparr>vm_context := ?c\<rparr>"
    by (rule vm_t.equality) (simp_all add: True)
  have "windowOnly (vm\<lparr>vm_context := ?c, vm_guestCPL := 0\<rparr>) (vm1\<lparr>vm_context := ?c\<rparr>)"
    unfolding eq using windowOnly_context [OF w, of "\<lambda>_. ?c"] by simp
  then show ?thesis
    using True cs(2) windowOnly_fields(1) [OF w]
    by (simp add: interruptStack_def updCtx_def trapESP_def trapTop_def trapStackContext_def trapStackGDT_def)
next
  case False
  let ?esp = "linDWord vm (tssBase vm + 4)" and ?ss = "linWord vm (tssBase vm + 8)"
  have t: "tssReady vm" "segReady vm SRegSS 0 ?ss" using tss [OF False] by (auto simp: tssReady_def Let_def)
  have al': "?esp AND 3 = 0" using aligned_add(1) [OF al, of 20] False by (simp add: trapESP_def)
  have sw: "twp (switchStack env cs ?esp ?ss) (\<lambda>r vm'. r = trapESP vm \<and> (\<exists>m. stacked vm (trapESP vm + 12) (trapTop vm) m \<and>
     windowOnly (trapState vm (trapStackContext vm) (trapStackGDT vm) 0 m) vm')) vm2" if "windowOnly vm vm2" for vm2
    by (rule twp_mono [OF switchStack_twp [OF pin t(2) cs(1) lin al' _ _ that, of dl]])
      (use mapped apart False in \<open>simp_all add: trapESP_def trapTop_def trapStackContext_def trapStackGDT_def Let_def\<close>)
  have "ucast (d_dpl d) < vm_guestCPL vm" using False cs(2) by (simp add: word_greater_zero_iff)
  then show ?thesis
    unfolding interruptStack_def
    by (simp del: twp_thn) (rule twp_mono [OF innerStack_twp [OF pin t(1) cs(2) w]], simp add: sw del: twp_thn)
qed

lemma push_step:
  assumes "allPinned vm" "sp AND 3 = 0" "mappedBytes vm sp (4 * Suc (length ws))" "stackApart vm sp (4 * Suc (length ws)) dl"
    "length ws < 1000" "stacked vm (sp + 4) ws m" "windowOnly (trapState vm c g k m) vm1"
  shows "twp (writeGuestDWord env sp w) (\<lambda>_ vm'. \<exists>m'. stacked vm sp (w # ws) m' \<and> windowOnly (trapState vm c g k m') vm') vm1"
  by (rule twp_mono [OF push_twp(1) [OF assms(1-3,5,4,6,7)]]) (use stacked_Cons [OF assms(6,3,5)] in blast)

lemma interruptPush_twp:
  assumes pin: "allPinned vm" and al: "esp AND 3 = 0" and c: "sc_esp c = esp" and us: "length us < 100"
    and sp: "sp = esp - (if intFlags AND IntFlagPushError \<noteq> 0 then 4 else 0)"
    and ws: "ws = (if intFlags AND IntFlagPushError \<noteq> 0 then [err] else []) @ [sc_eip c, (sc_cs c AND NOT 3) OR cpl, fl] @ us"
    and mapped: "mappedBytes vm sp (4 * length ws)" and apart: "stackApart vm sp (4 * length ws) dl"
    and st: "stacked vm (esp + 12) us m" and w: "windowOnly (trapState vm c g k m) vm1"
  shows "twp (interruptPush env esp cpl fl intFlags err) (\<lambda>_ vm'. \<exists>m'. stacked vm sp ws m' \<and>
     windowOnly (trapState vm (c\<lparr>sc_esp := sp\<rparr>) g k m') vm') vm1"
proof -
  let ?n = "length us"
  have al': "(esp + 8) AND 3 = 0" "(esp + 4) AND 3 = 0" "(esp - 4) AND 3 = 0"
    using aligned_add(1) [OF al, of 8] aligned_add(1) [OF al, of 4] aligned_add(1) [OF al, of "- 4"] by simp_all
  have m0: "mappedBytes vm esp (12 + 4 * ?n)" "stackApart vm esp (12 + 4 * ?n) dl"
    using mapped apart mappedBytes_split [of vm "esp - 4" 4 "12 + 4 * ?n"] stackApart_suffix [of vm "esp - 4" 4 "12 + 4 * ?n" dl]
    by (auto simp: ws sp split: if_splits)
  have m1: "mappedBytes vm (esp + 4) (8 + 4 * ?n)" "stackApart vm (esp + 4) (8 + 4 * ?n) dl"
    using m0 mappedBytes_split [of vm esp 4 "8 + 4 * ?n"] stackApart_suffix [of vm esp 4 "8 + 4 * ?n" dl] by simp_all
  have m2: "mappedBytes vm (esp + 8) (4 + 4 * ?n)" "stackApart vm (esp + 8) (4 + 4 * ?n) dl"
    using m0 mappedBytes_split [of vm esp 8 "4 + 4 * ?n"] stackApart_suffix [of vm esp 8 "4 + 4 * ?n" dl] by simp_all
  have e: "esp + 8 + 4 = esp + 12" "esp + 4 + 4 = esp + 8" by simp_all
  have p2: "twp (writeGuestDWord env (esp + 8) x) (\<lambda>_ vm'. \<exists>m'. stacked vm (esp + 8) (x # us) m' \<and> windowOnly (trapState vm c g k m') vm') vm1" for x
    by (rule push_step [OF pin al'(1) _ _ _ _ w]) (use m2 st us in \<open>simp_all add: e\<close>)
  have p1: "twp (writeGuestDWord env (esp + 4) x) (\<lambda>_ vm'. \<exists>m'. stacked vm (esp + 4) (x # y # us) m' \<and> windowOnly (trapState vm c g k m') vm') vm2"
    if "stacked vm (esp + 8) (y # us) m'" "windowOnly (trapState vm c g k m') vm2" for x y m' vm2
    by (rule push_step [OF pin al'(2) _ _ _ _ that(2)]) (use m1 that(1) us in \<open>simp_all add: e\<close>)
  have p0: "twp (writeGuestDWord env esp x) (\<lambda>_ vm'. \<exists>m'. stacked vm esp (x # y # z # us) m' \<and> windowOnly (trapState vm c g k m') vm') vm2"
    if "stacked vm (esp + 4) (y # z # us) m'" "windowOnly (trapState vm c g k m') vm2" for x y z m' vm2
    by (rule push_step [OF pin al _ _ _ _ that(2)]) (use m0 that(1) us in simp_all)
  have ctx: "windowOnly (trapState vm (c\<lparr>sc_esp := v\<rparr>) g k m') (vm2\<lparr>vm_context := c\<lparr>sc_esp := v\<rparr>\<rparr>)"
    if "windowOnly (trapState vm c g k m') vm2" for m' vm2 v
    using windowOnly_context [OF that, of "\<lambda>_. c\<lparr>sc_esp := v\<rparr>"] by (simp add: vm_order)
  have p3: "twp (writeGuestDWord env (esp - 4) err) (\<lambda>_ vm'. \<exists>m'. stacked vm (esp - 4) (err # x # y # z # us) m' \<and>
      windowOnly (trapState vm (c\<lparr>sc_esp := esp - 4\<rparr>) g k m') vm') (vm2\<lparr>vm_context := c\<lparr>sc_esp := esp - 4\<rparr>\<rparr>)"
    if "stacked vm esp (x # y # z # us) m'" "windowOnly (trapState vm c g k m') vm2" "intFlags AND IntFlagPushError \<noteq> 0" for x y z m' vm2
    by (rule push_step [OF pin al'(3) _ _ _ _ ctx [OF that(2)]]) (use that(1,3) mapped apart us in \<open>simp_all add: sp ws\<close>)
  have self: "c\<lparr>sc_esp := esp\<rparr> = c" using c by (cases c) simp
  let ?cs = "(sc_cs c AND NOT 3) OR cpl"
  let ?err = "whenM (intFlags AND IntFlagPushError \<noteq> 0) (thn (updCtx (\<lambda>c. c\<lparr>sc_esp := sc_esp c - 4\<rparr>))
        (bnd (gets (\<lambda>vm. sc_esp (vm_context vm))) (\<lambda>sp. writeGuestDWord env sp err)))"
  let ?Q = "\<lambda>_ vm'. \<exists>m'. stacked vm sp ws m' \<and> windowOnly (trapState vm (c\<lparr>sc_esp := sp\<rparr>) g k m') vm'"
  have t0: "twp ?err ?Q vm2" if "stacked vm esp (sc_eip c # ?cs # fl # us) m'" "windowOnly (trapState vm c g k m') vm2" for m' vm2
    using p3 [OF that] that windowOnly_fields(1) [OF that(2)] by (auto simp: updCtx_def sp ws c self)
  have t1: "twp (writeGuestDWord env esp (sc_eip c)) (\<lambda>_. twp ?err ?Q) vm2"
    if "stacked vm (esp + 4) (?cs # fl # us) m'" "windowOnly (trapState vm c g k m') vm2" for m' vm2
    by (rule twp_mono [OF p0 [OF that]]) (use t0 in blast)
  have t2: "twp (writeGuestDWord env (esp + 4) ?cs) (\<lambda>_. twp (writeGuestDWord env esp (sc_eip c)) (\<lambda>_. twp ?err ?Q)) vm2"
    if "stacked vm (esp + 8) (fl # us) m'" "windowOnly (trapState vm c g k m') vm2" for m' vm2
    by (rule twp_mono [OF p1 [OF that]]) (use t1 in blast)
  have "twp (writeGuestDWord env (esp + 8) fl) (\<lambda>_. twp (bnd (gets vm_context) (\<lambda>c. thn (writeGuestDWord env (esp + 4) ((sc_cs c AND NOT 3) OR cpl))
      (thn (writeGuestDWord env (esp + 0) (sc_eip c)) ?err))) ?Q) vm1"
    by (rule twp_mono [OF p2]) (use t2 in \<open>auto simp: windowOnly_fields(1) twp_fun simp del: twp_whenM\<close>)
  then show ?thesis unfolding interruptPush_def twp_thn .
qed

section \<open>The handler\<close>

abbreviation csAddr :: "vm_t \<Rightarrow> selector_t \<Rightarrow> Bit32u" where
  "csAddr vm sel \<equiv> gi_base (cpu_gdtr (vm_guest_cpu vm)) + selOffset sel"

lemma handler_flags:
  "handlerEFlags t True (put_bit 9 i fl) = Some (put_bit 9 True (put_bit 19 (t \<noteq> 14 \<and> i)
     (put_bit 8 False (put_bit 14 False (put_bit 16 False (put_bit 17 False fl))))), 2)"
proof -
  define M where "M = FlgMaskVM OR FlgMaskRF OR FlgMaskNT OR FlgMaskTF"
  have "\<forall>n \<in> set [0..<32]. bit M n \<longleftrightarrow> n = 17 \<or> n = 16 \<or> n = 14 \<or> n = 8"
    by (simp add: upt_rec M_def)
  then have mask: "bit M n \<longleftrightarrow> n = 17 \<or> n = 16 \<or> n = 14 \<or> n = 8" if "n < 32" for n
    using that by auto
  have i: "put_bit 9 i fl AND NOT M = put_bit 9 i (put_bit 8 False (put_bit 14 False (put_bit 16 False (put_bit 17 False fl))))"
    by (rule bit_word_eqI) (auto simp: bit_and_iff bit_not_iff mask)
  have put: "w OR FlgMaskIF = put_bit 9 True w" "w AND NOT FlgMaskIF = put_bit 9 False w" "w OR FlgMaskVIF = put_bit 19 True w"
    "w AND NOT FlgMaskVIF = put_bit 19 False w" "(w AND FlgMaskIF = 0) = (\<not> bit w 9)" for w :: Bit32u
    by (simp_all add: put_bit_def set_bit_eq_or unset_bit_eq_and_not and_flag)
  show ?thesis
    unfolding handlerEFlags_def M_def [symmetric] i put Let_def
    by simp (intro conjI impI bit_word_eqI; simp)
qed

lemma interruptEnter_twp:
  assumes pin: "allPinned vm" and lin: "vm_linuxVMMode vm \<noteq> 0" and cs: "segReady vm SRegCS 0 (g_selector gate)"
    and apart: "stackApart vm sp (4 * length ws) (csAddr vm (g_selector gate))" and st: "stacked vm sp ws m"
    and fl: "handlerEFlags (g_type gate) True old = Some (fl, 2)" and w: "windowOnly (trapState vm c g 0 m) vm1"
  shows "twp (interruptEnter env gate old) (\<lambda>_. windowOnly (vm\<lparr>
     vm_context := c\<lparr>sc_cs := ucast (g_selector gate OR 3), sc_eip := gate_offset gate, sc_eflags := fl\<rparr>,
     vm_gdt := g(sel_index (g_selector gate) := downgraded (guestDesc vm (g_selector gate))), vm_guestCPL := 0, vm_phymem := m,
     vm_nexus := (vm_nexus vm)\<lparr>nx_mon_cr4 := 2\<rparr>\<rparr>)) vm1"
proof -
  let ?sel = "g_selector gate"
  let ?c = "c\<lparr>sc_cs := ucast (?sel OR 3), sc_eip := gate_offset gate\<rparr>" and ?d = "downgraded (guestDesc vm ?sel)"
  note same = stacked_same [OF apart st]
  have v: "selValid vm ?sel" "sel_rpl ?sel = 0" "ucast (d_dpl (guestDesc vm ?sel)) = sel_rpl ?sel" "linuxSlot 0 SRegCS (sel_index ?sel)"
    using cs by (auto simp: segReady_def Let_def)
  have w0: "windowOnly (trapState vm ?c g 0 m) (vm1\<lparr>vm_context := ?c\<rparr>)"
    using windowOnly_context [OF w, of "\<lambda>_. ?c"] by (simp add: vm_order)
  have pin0: "allPinned (trapState vm ?c g 0 m)" "selValid (trapState vm ?c g 0 m) ?sel" "guestDesc (trapState vm ?c g 0 m) ?sel = guestDesc vm ?sel"
    using pin v(1) trapState_same(1) [OF same(1), where c = ?c and g = g and k = 0] guestDesc_same [OF same, where c = ?c and g = g and k = 0] by simp_all
  have "twp (guestSelectorUpdated env SRegCS ?sel) (\<lambda>_. windowOnly ((trapState vm ?c g 0 m)\<lparr>vm_gdt :=
      (vm_gdt (trapState vm ?c g 0 m))(sel_index ?sel := downgraded (guestDesc (trapState vm ?c g 0 m) ?sel))\<rparr>)) (vm1\<lparr>vm_context := ?c\<rparr>)"
    by (rule guestSelectorUpdated_twp [OF pin0(1,2) w0]) (use v lin in \<open>simp_all add: pin0(3)\<close>)
  then have sel: "twp (guestSelectorUpdated env SRegCS ?sel) (\<lambda>_. windowOnly (trapState vm ?c (g(sel_index ?sel := ?d)) 0 m)) (vm1\<lparr>vm_context := ?c\<rparr>)"
    unfolding pin0(3) by (simp add: vm_order)
  have fin: "windowOnly (vm\<lparr>vm_context := ?c\<lparr>sc_eflags := fl\<rparr>, vm_gdt := g(sel_index ?sel := ?d), vm_guestCPL := 0, vm_phymem := m,
       vm_nexus := (vm_nexus vm)\<lparr>nx_mon_cr4 := 2\<rparr>\<rparr>) (vm2\<lparr>vm_context := ?c\<lparr>sc_eflags := fl\<rparr>, vm_nexus := (vm_nexus vm)\<lparr>nx_mon_cr4 := 2\<rparr>\<rparr>)"
    if "windowOnly (trapState vm ?c (g(sel_index ?sel := ?d)) 0 m) vm2" for vm2
    using windowOnly_upd(2) [OF windowOnly_context [OF that, of "\<lambda>_. ?c\<lparr>sc_eflags := fl\<rparr>"], of "(vm_nexus vm)\<lparr>nx_mon_cr4 := 2\<rparr>"]
    by (simp add: vm_order)
  have c: "setSel SRegCS ?sel x = x\<lparr>sc_cs := ucast (?sel OR 3)\<rparr>" for x by (simp add: setSel_def Let_def)
  have ctx: "vm_context vm1 = c" using windowOnly_fields(1) [OF w] by simp
  let ?F = "vm\<lparr>vm_context := ?c\<lparr>sc_eflags := fl\<rparr>, vm_gdt := g(sel_index ?sel := ?d), vm_guestCPL := 0, vm_phymem := m,
       vm_nexus := (vm_nexus vm)\<lparr>nx_mon_cr4 := 2\<rparr>\<rparr>"
  have tail: "twp (bnd (gets (\<lambda>vm. vm_linuxVMMode vm \<noteq> 0 \<and> vm_guestCPL vm = 0)) (\<lambda>krn.
      case handlerEFlags (g_type gate) krn old of
        None \<Rightarrow> monpanic env ''doGI: IF=0.\<newline>'' []
      | Some (fl, newCR4) \<Rightarrow>
          thn (updCtx (\<lambda>c. c\<lparr>sc_eflags := fl\<rparr>))
          (bnd (gets (\<lambda>vm. nx_mon_cr4 (vm_nexus vm))) (\<lambda>cr4. whenM (cr4 \<noteq> newCR4) (setMonCR4 newCR4))))) (\<lambda>_. windowOnly ?F) vm2"
    if "windowOnly (trapState vm ?c (g(sel_index ?sel := ?d)) 0 m) vm2" for vm2
  proof (cases "nx_mon_cr4 (vm_nexus vm) = 2")
    case True
    then have "(vm_nexus vm)\<lparr>nx_mon_cr4 := 2\<rparr> = vm_nexus vm2"
      using windowOnly_fields(4) [OF that] by (cases "vm_nexus vm") simp
    then have eq: "vm2\<lparr>vm_context := x, vm_nexus := (vm_nexus vm)\<lparr>nx_mon_cr4 := 2\<rparr>\<rparr> = vm2\<lparr>vm_context := x\<rparr>" for x
      by (intro vm_t.equality) simp_all
    then show ?thesis
      using windowOnly_fields [OF that] lin fl fin [OF that, unfolded eq] True by (simp add: updCtx_def)
  next
    case False
    then show ?thesis
      using windowOnly_fields [OF that] lin fl windowOnly_upd(3) [OF fin [OF that]]
      by (simp add: updCtx_def setMonCR4_def loadMonCR4_def)
  qed
  show ?thesis
    unfolding interruptEnter_def
    by (simp add: updCtx_def [of "setSel _ _"] updCtx_def [of "sc_eip_update _"] ctx c del: sreg_ids)
      (rule twp_mono [OF sel], use tail in simp)
qed

section \<open>Delivery\<close>

text \<open>What the delivery needs: the gate, its code segment, the stack of ring 0, and room for the frame in mapped
  memory away from the page tables and the descriptor that is read after the frame is written.\<close>

definition trapReady :: "vm_t \<Rightarrow> Bit32u \<Rightarrow> Bit32u \<Rightarrow> bool" where
  "trapReady vm vector intFlags \<longleftrightarrow>
     (let sel = g_selector (idtGate vm vector); sp = trapSP vm intFlags; n = 4 * length (trapFrame vm intFlags 0) in
      gateReady vm vector intFlags \<and> segReady vm SRegCS 0 sel \<and> (vm_guestCPL vm \<noteq> 0 \<longrightarrow> tssReady vm) \<and>
      sp AND 3 = 0 \<and> mappedBytes vm sp n \<and> stackApart vm sp n (csAddr vm sel))"

lemma trapParts:
  "trapSP vm intFlags = trapESP vm - (if intFlags AND IntFlagPushError \<noteq> 0 then 4 else 0)"
  "trapFrame vm intFlags err = (if intFlags AND IntFlagPushError \<noteq> 0 then [err] else []) @
     [sc_eip (vm_context vm), (sc_cs (vm_context vm) AND NOT 3) OR vm_guestCPL vm, put_bit 9 (guestIF vm) (sc_eflags (vm_context vm))] @ trapTop vm"
  by (simp_all add: trapSP_def trapESP_def trapFrame_def trapTop_def Let_def)

lemma pushed_flags: "pushedEFlags (vm_guestCPL vm = 0) (sc_eflags (vm_context vm)) = put_bit 9 (guestIF vm) (sc_eflags (vm_context vm))"
proof -
  have put: "w OR FlgMaskIF = put_bit 9 True w" "w AND NOT FlgMaskIF = put_bit 9 False w" "(w AND FlgMaskVIF = 0) = (\<not> bit w 19)" for w :: Bit32u
    by (simp_all add: put_bit_def set_bit_eq_or unset_bit_eq_and_not and_flag)
  have "put_bit 9 (bit w 9) w = w" for w :: Bit32u by (rule bit_word_eqI) simp
  then show ?thesis unfolding pushedEFlags_def put by (simp add: guestIF_def Let_def ef_bits)
qed

lemma doGuestInterrupt_twp:
  assumes pin: "allPinned vm" and lin: "vm_linuxVMMode vm \<noteq> 0" and ready: "trapReady vm vector intFlags"
  defines "gate \<equiv> idtGate vm vector" and "sp \<equiv> trapSP vm intFlags"
  shows "twp (doGuestInterrupt env vector intFlags err) (\<lambda>_ vm'. stacked vm sp (trapFrame vm intFlags err) (vm_phymem vm') \<and>
     windowOnly (vm\<lparr>vm_context := trapContext vm gate sp, vm_gdt := trapGDT vm (g_selector gate), vm_guestCPL := 0,
       vm_phymem := vm_phymem vm', vm_nexus := (vm_nexus vm)\<lparr>nx_mon_cr4 := 2\<rparr>\<rparr>) vm') vm"
proof -
  let ?sel = "g_selector gate" and ?n = "4 * length (trapFrame vm intFlags err)"
  let ?fl = "put_bit 9 (guestIF vm) (sc_eflags (vm_context vm))"
  have r: "gateReady vm vector intFlags" "segReady vm SRegCS 0 ?sel" "vm_guestCPL vm \<noteq> 0 \<Longrightarrow> tssReady vm"
    "sp AND 3 = 0" "mappedBytes vm sp ?n" "stackApart vm sp ?n (csAddr vm ?sel)"
    using ready by (auto simp: trapReady_def Let_def gate_def sp_def trapFrame_def)
  have al: "trapESP vm AND 3 = 0"
    using aligned_add(1) [OF r(4), of 4] r(4) by (auto simp: sp_def trapParts split: if_splits)
  have "trapESP vm + 12 = sp + of_nat (if intFlags AND IntFlagPushError \<noteq> 0 then 16 else 12) \<and>
      ?n = (if intFlags AND IntFlagPushError \<noteq> 0 then 16 else 12) + 4 * length (trapTop vm)"
    by (simp add: sp_def trapParts)
  then obtain k where k: "trapESP vm + 12 = sp + of_nat k" "?n = k + 4 * length (trapTop vm)" by blast
  have above: "mappedBytes vm (trapESP vm + 12) (4 * length (trapTop vm))"
    "stackApart vm (trapESP vm + 12) (4 * length (trapTop vm)) (csAddr vm ?sel)"
    using r(5,6) stackApart_suffix unfolding k mappedBytes_split by blast+
  let ?F = "\<lambda>_ vm'. stacked vm sp (trapFrame vm intFlags err) (vm_phymem vm') \<and>
     windowOnly (vm\<lparr>vm_context := trapContext vm gate sp, vm_gdt := trapGDT vm ?sel, vm_guestCPL := 0,
       vm_phymem := vm_phymem vm', vm_nexus := (vm_nexus vm)\<lparr>nx_mon_cr4 := 2\<rparr>\<rparr>) vm'"
  have c: "sc_esp (trapStackContext vm) = trapESP vm" "sc_eip (trapStackContext vm) = sc_eip (vm_context vm)"
    "sc_cs (trapStackContext vm) = sc_cs (vm_context vm)"
    by (simp_all add: trapStackContext_def)
  have g: "g_type gate = 14 \<or> g_type gate = 15" using r(1) by (auto simp: gateReady_def Let_def gate_def)
  have fl: "handlerEFlags (g_type gate) True ?fl = Some (trapEFlags vm (g_type gate = 15), 2)"
    using g by (auto simp: handler_flags trapEFlags_def)
  have ctx: "(trapStackContext vm)\<lparr>sc_esp := sp, sc_cs := ucast (?sel OR 3), sc_eip := gate_offset gate,
      sc_eflags := trapEFlags vm (g_type gate = 15)\<rparr> = trapContext vm gate sp"
    by (rule guestStackContext_t.equality) (simp_all add: trapContext_def trapStackContext_def Let_def)
  have gdt: "(trapStackGDT vm)(sel_index ?sel := downgraded (guestDesc vm ?sel)) = trapGDT vm ?sel"
    by (simp add: trapGDT_def trapStackGDT_def Let_def)
  have enter: "twp (interruptEnter env gate ?fl) ?F vm2"
    if "stacked vm sp (trapFrame vm intFlags err) m" "windowOnly (trapState vm ((trapStackContext vm)\<lparr>sc_esp := sp\<rparr>) (trapStackGDT vm) 0 m) vm2" for m vm2
    by (rule twp_mono [OF interruptEnter_twp [OF pin lin r(2,6) that(1) fl that(2)]])
      (use that(1) in \<open>auto simp: gdt windowOnly_fields(5) simp flip: ctx\<close>)
  have push: "twp (interruptPush env (trapESP vm) (vm_guestCPL vm) ?fl intFlags err) (\<lambda>_. twp (interruptEnter env gate ?fl) ?F) vm2"
    if "stacked vm (trapESP vm + 12) (trapTop vm) m" "windowOnly (trapState vm (trapStackContext vm) (trapStackGDT vm) 0 m) vm2" for m vm2
    by (rule twp_mono [OF interruptPush_twp [OF pin al c(1) _ _ _ r(5,6) that]])
      (use enter in \<open>auto simp: sp_def trapParts c trapTop_def\<close>)
  have stack: "twp (interruptStack env ?sel d (vm_guestCPL vm)) (\<lambda>esp. twp (thn (interruptPush env esp (vm_guestCPL vm) ?fl intFlags err) (interruptEnter env gate ?fl)) ?F) vm2"
    if "windowOnly vm vm2" "d_dpl d = 0" for d vm2
    by (rule twp_mono [OF interruptStack_twp [OF pin lin _ that(2) r(3) al above that(1)]])
      (use push r(2) in \<open>auto simp: segReady_def Let_def\<close>)
  let ?k = "\<lambda>d. bnd (gets (\<lambda>s. pushedEFlags (vm_linuxVMMode s \<noteq> 0 \<and> vm_guestCPL vm = 0) (sc_eflags (vm_context s)))) (\<lambda>fl.
     bnd (interruptStack env ?sel d (vm_guestCPL vm)) (\<lambda>esp.
     thn (interruptPush env esp (vm_guestCPL vm) fl intFlags err) (interruptEnter env gate fl)))"
  have d0: "d_dpl (guestDesc vm ?sel) = 0"
    using r(2) unat_dpl [of "d_dpl (guestDesc vm ?sel)"] by (auto simp: segReady_def Let_def word_unat_eq_iff)
  have code: "twp (interruptCS env ?sel) (\<lambda>d. twp (?k d) ?F) vm2" if "windowOnly vm vm2" for vm2
  proof (rule twp_mono [OF interruptCS_twp [OF pin r(2) that]])
    fix d vm3 assume *: "d = guestDesc vm ?sel \<and> windowOnly vm vm3"
    then have "vm_linuxVMMode vm3 = vm_linuxVMMode vm" "vm_context vm3 = vm_context vm" using windowOnly_fields by blast+
    then show "twp (?k d) ?F vm3"
      using stack [of vm3 d] * d0 lin pushed_flags [of vm] by (simp only: twp_bnd twp_gets) simp
  qed
  have "twp (interruptGate env vector intFlags (vm_guestCPL vm)) (\<lambda>g. twp (bnd (interruptCS env (g_selector g)) (\<lambda>d.
     bnd (gets (\<lambda>s. pushedEFlags (vm_linuxVMMode s \<noteq> 0 \<and> vm_guestCPL vm = 0) (sc_eflags (vm_context s)))) (\<lambda>fl.
     bnd (interruptStack env (g_selector g) d (vm_guestCPL vm)) (\<lambda>esp.
     thn (interruptPush env esp (vm_guestCPL vm) fl intFlags err) (interruptEnter env g fl))))) ?F) vm"
    by (rule twp_mono [OF interruptGate_twp [OF pin r(1) windowOnly_refl]]) (use code in \<open>simp add: twp_fun(1) [of "interruptCS _ _"] gate_def del: twp_bnd twp_thn\<close>)
  then show ?thesis by (simp add: doGuestInterrupt_def del: twp_thn) 
qed

end
