(* ===== verification/Emu_Return.thy ===== *)
theory Emu_Return
  imports Emu_Deliver
begin

text \<open>
  \<^verbatim>\<open>doIRET\<close> from the guest's kernel, to kernel or user code: what it takes from the frame on the guest's stack.
\<close>

section \<open>The frame\<close>

definition retCS :: "vm_t \<Rightarrow> selector_t" where
  "retCS vm = linWord vm (sc_esp (vm_context vm) + 4)"

definition retEFlags :: "vm_t \<Rightarrow> Bit32u" where
  "retEFlags vm = linDWord vm (sc_esp (vm_context vm) + 8)"

definition retSS :: "vm_t \<Rightarrow> selector_t" where
  "retSS vm = linWord vm (sc_esp (vm_context vm) + 16)"

text \<open>A return to user code.\<close>

definition retOuter :: "vm_t \<Rightarrow> bool" where
  "retOuter vm \<longleftrightarrow> sel_rpl (retCS vm) = 3"

text \<open>The kernel's data selectors are gone when user code runs.\<close>

definition userDataSel :: "Bit32u \<Rightarrow> bool" where
  "userDataSel v \<longleftrightarrow> (ucast v AND 0xfffc = (0 :: selector_t)) \<or> sel_index (ucast v) = LinuxUserDsSlot"

definition retReady :: "vm_t \<Rightarrow> bool" where
  "retReady vm \<longleftrightarrow>
     (let c = vm_context vm; fl = retEFlags vm in
      sc_esp c AND 3 = 0 \<and> mappedBytes vm (sc_esp c) (if retOuter vm then 20 else 12) \<and>
      \<not> ef_nt (sc_eflags c) \<and> \<not> ef_vm fl \<and> ef_iopl fl = 0 \<and>
      segReady vm SRegCS (if retOuter vm then 3 else 0) (retCS vm) \<and>
      (if retOuter vm
       then segReady vm SRegSS 3 (retSS vm) \<and> userDataSel (sc_ds c) \<and> userDataSel (sc_es c) \<and> userDataSel (sc_fs c) \<and>
         userDataSel (sc_gs c) \<and> ef_if fl \<and> \<not> ef_vif fl \<and> \<not> ef_vip fl
       else (ef_vif fl \<longleftrightarrow> ef_if fl)))"

text \<open>The flags: \<open>ID\<close>, \<open>AC\<close>, \<open>RF\<close>, \<open>NT\<close>, \<open>OF\<close>, \<open>DF\<close>, \<open>TF\<close> and the status flags from the frame, the interrupt flag of the kernel as
  \<open>VIF\<close>, the rest as before.\<close>

definition returnedEFlags :: "vm_t \<Rightarrow> Bit32u" where
  "returnedEFlags vm = put_bit 9 True (put_bit 20 False (put_bit 19 (\<not> retOuter vm \<and> ef_if (retEFlags vm))
     (foldr (\<lambda>n. put_bit n (bit (retEFlags vm) n)) [21, 18, 16, 14, 11, 10, 8, 7, 6, 4, 2, 0] (sc_eflags (vm_context vm)))))"

definition returnedContext :: "vm_t \<Rightarrow> guestStackContext_t" where
  "returnedContext vm =
     (let c = vm_context vm in
      c\<lparr>sc_eip := linDWord vm (sc_esp c), sc_cs := ucast (retCS vm OR 3), sc_eflags := returnedEFlags vm,
        sc_esp := (if retOuter vm then linDWord vm (sc_esp c + 12) else sc_esp c + 12),
        sc_ss := (if retOuter vm then ucast (retSS vm OR 3) else sc_ss c)\<rparr>)"

definition returnedGDT :: "vm_t \<Rightarrow> nat \<Rightarrow> descriptor_t" where
  "returnedGDT vm =
     (if retOuter vm then (vm_gdt vm)(sel_index (retSS vm) := downgraded (guestDesc vm (retSS vm))) else vm_gdt vm)
       (sel_index (retCS vm) := downgraded (guestDesc vm (retCS vm)))"

section \<open>The steps\<close>

lemma segReady_parts:
  assumes "segReady vm sreg cpl sel"
  shows "selValid vm sel" "ucast (d_dpl (guestDesc vm sel)) = sel_rpl sel" "sel_rpl sel = cpl" "d_p (guestDesc vm sel) \<noteq> 0"
    "d_type (guestDesc vm sel) = (if sreg = SRegCS then 0x1a else 0x12)" "linuxSlot cpl sreg (sel_index sel)"
  using assms by (auto simp: segReady_def Let_def)

lemma iretCS_twp:
  assumes pin: "allPinned vm" and cs: "segReady vm SRegCS rpl sel" "rpl = 0 \<or> rpl = 3" and fl: "\<not> ef_vm fl" "ef_iopl fl = 0"
    and w: "windowOnly vm vm1"
  shows "twp (iretCS env 0 fl sel) (\<lambda>_. windowOnly vm) vm1"
proof -
  note v = segReady_parts [OF cs(1)]
  have ti: "\<not> sel_ti sel" using v(1) by (simp add: selValid_def)
  show ?thesis
    using v(3-5) cs(2) ti fl selValid_sel(2) [OF v(1)] unfolding iretCS_def
    by (auto simp: v(2) intro!: twp_mono [OF fetchGuestDescBySel_twp [OF pin v(1) w v(2)]])
qed

text \<open>The selector and descriptor of the segment loaded, on a state that differs in context, GDT and level.\<close>

lemma loadSelector_twp:
  assumes pin: "allPinned vm" and lin: "vm_linuxVMMode vm \<noteq> 0" and seg: "segReady vm sreg k sel" "k = 0 \<or> k = 3"
    and w: "windowOnly (trapState vm c g k (vm_phymem vm)) vm1"
  shows "twp (guestSelectorUpdated env sreg sel)
     (\<lambda>_. windowOnly (trapState vm c (g(sel_index sel := downgraded (guestDesc vm sel))) k (vm_phymem vm))) vm1"
proof -
  note v = segReady_parts [OF seg(1)]
  let ?s = "trapState vm c g k (vm_phymem vm)"
  have s: "allPinned ?s" "selValid ?s sel" "guestDesc ?s sel = guestDesc vm sel"
    using pin v(1) trapState_same(1) [where vm = vm and m = "vm_phymem vm" and c = c and g = g and k = k]
      guestDesc_same [where vm = vm and m = "vm_phymem vm" and c = c and g = g and k = k and sel = sel] by simp_all
  have "twp (guestSelectorUpdated env sreg sel) (\<lambda>_. windowOnly (?s\<lparr>vm_gdt := (vm_gdt ?s)(sel_index sel := downgraded (guestDesc ?s sel))\<rparr>)) vm1"
    by (rule guestSelectorUpdated_twp [OF s(1,2) w]) (use v(2,3,6) seg(2) lin in \<open>simp_all add: s(3) [simplified]\<close>)
  then show ?thesis unfolding s(3) by (simp add: vm_order)
qed

lemma iretDataSel_ok: "userDataSel v \<Longrightarrow> iretDataSel env v = ret ()"
  by (auto simp: userDataSel_def iretDataSel_def Let_def whenM_def)

lemma iretOuter_twp:
  assumes pin: "allPinned vm" and lin: "vm_linuxVMMode vm \<noteq> 0" and out: "retOuter vm" and ready: "retReady vm" and w: "windowOnly vm vm1"
  shows "twp (iretOuter env (sc_esp (vm_context vm)) (retCS vm)) (\<lambda>_. windowOnly (trapState vm
     ((vm_context vm)\<lparr>sc_ss := ucast (retSS vm OR 3), sc_esp := linDWord vm (sc_esp (vm_context vm) + 12)\<rparr>)
     ((vm_gdt vm)(sel_index (retSS vm) := downgraded (guestDesc vm (retSS vm)))) 3 (vm_phymem vm))) vm1"
proof -
  let ?esp = "sc_esp (vm_context vm)" and ?ss = "retSS vm"
  let ?c = "(vm_context vm)\<lparr>sc_ss := ucast (?ss OR 3), sc_esp := linDWord vm (?esp + 12)\<rparr>"
  let ?g = "(vm_gdt vm)(sel_index ?ss := downgraded (guestDesc vm ?ss))"
  have r: "?esp AND 3 = 0" "mappedBytes vm ?esp 20" "segReady vm SRegSS 3 ?ss" "userDataSel (sc_ds (vm_context vm))"
    "userDataSel (sc_es (vm_context vm))" "userDataSel (sc_fs (vm_context vm))" "userDataSel (sc_gs (vm_context vm))"
    using ready out by (auto simp: retReady_def Let_def)
  have m: "mappedBytes vm (?esp + 12) 4" "mappedBytes vm (?esp + 16) 2"
    using r(2) mappedBytes_split [of vm ?esp 12 8] mappedBytes_split [of vm "?esp + 12" 4 4] mappedBytes_split [of vm ?esp 16 4]
      mappedBytes_split [of vm "?esp + 16" 2 2] by simp_all
  have al: "(?esp + 12) AND 3 = 0" "(?esp + 16) AND 3 = 0" by (rule aligned_add(1) [OF r(1)], simp)+
  note v = segReady_parts [OF r(3)]
  have load: "twp (guestSelectorUpdated env SRegSS ?ss) (\<lambda>_. windowOnly (trapState vm ?c ?g 3 (vm_phymem vm)))
      (vm2\<lparr>vm_guestCPL := 3, vm_context := ?c\<rparr>)" if "windowOnly vm vm2" for vm2
  proof (rule loadSelector_twp [OF pin lin r(3)])
    have "windowOnly (vm\<lparr>vm_guestCPL := 3, vm_context := ?c\<rparr>) (vm2\<lparr>vm_guestCPL := 3, vm_context := ?c\<rparr>)"
      using windowOnly_context [OF windowOnly_upd(1) [OF that, of 3], of "\<lambda>_. ?c"] by simp
    then show "windowOnly (trapState vm ?c (vm_gdt vm) 3 (vm_phymem vm)) (vm2\<lparr>vm_guestCPL := 3, vm_context := ?c\<rparr>)"
      by (simp add: vm_order)
  qed simp
  have c: "setSel SRegSS ?ss x = x\<lparr>sc_ss := ucast (?ss OR 3)\<rparr>" for x by (simp add: setSel_def Let_def)
  let ?Q = "\<lambda>_. windowOnly (trapState vm ?c ?g 3 (vm_phymem vm))"
  let ?data = "bnd (gets vm_context) (\<lambda>c. thn (iretDataSel env (sc_gs c)) (thn (iretDataSel env (sc_fs c))
         (thn (iretDataSel env (sc_ds c)) (iretDataSel env (sc_es c)))))"
  let ?rest = "\<lambda>esp ss. thn (modify (\<lambda>vm. vm\<lparr>vm_guestCPL := 3\<rparr>)) (thn (updCtx (setSel SRegSS ss))
         (thn (updCtx (\<lambda>c. c\<lparr>sc_esp := esp\<rparr>)) (thn (guestSelectorUpdated env SRegSS ss) ?data)))"
  have data: "twp ?data ?Q vm2" if "windowOnly (trapState vm ?c ?g 3 (vm_phymem vm)) vm2" for vm2
    using that windowOnly_fields(1) [OF that] r(4-) by (simp add: iretDataSel_ok)
  have rest: "twp (?rest (linDWord vm (?esp + 12)) ?ss) ?Q vm2" if "windowOnly vm vm2" for vm2
  proof -
    have "twp (guestSelectorUpdated env SRegSS ?ss) (\<lambda>_. twp ?data ?Q) (vm2\<lparr>vm_guestCPL := 3, vm_context := ?c\<rparr>)"
      by (rule twp_mono [OF load [OF that]]) (rule data)
    then show ?thesis
      using windowOnly_fields(1) [OF that] by (simp add: updCtx_def c del: twp_bnd sreg_ids)
  qed
  let ?check = "\<lambda>esp ss d. if d_type d \<noteq> 0x12 \<or> ucast (d_dpl d) \<noteq> sel_rpl (retCS vm) \<or> d_p d = 0 then
         monpanic env ''doIRET: bad SS descriptor, type=0x%x, dpl=%u, p=%u.\<newline>''
           [ArgU (ucast (d_type d)), ArgU (ucast (d_dpl d)), ArgU (ucast (d_p d))] else ?rest esp ss"
  have seg: "twp (fetchGuestDescBySel env ?ss 0) (\<lambda>d. twp (?check (linDWord vm (?esp + 12)) ?ss d) ?Q) vm2" if "windowOnly vm vm2" for vm2
    by (rule twp_mono [OF fetchGuestDescBySel_twp [OF pin v(1) that v(2)]])
      (use rest v(2-5) out in \<open>simp add: retOuter_def del: twp_thn\<close>)
  let ?ss_check = "\<lambda>esp ss. if ss AND 0xfffc = 0 then monpanic env ''doIRET: return SS NULL.\<newline>'' []
     else if sel_rpl ss \<noteq> sel_rpl (retCS vm) then monpanic env ''doIRET: SS.rpl!=CS.rpl.\<newline>'' []
     else bnd (fetchGuestDescBySel env ss 0) (?check esp ss)"
  have word: "twp (getGuestWord env (?esp + 16)) (\<lambda>ss. twp (?ss_check (linDWord vm (?esp + 12)) ss) ?Q) vm2" if "windowOnly vm vm2" for vm2
    by (rule twp_mono [OF getGuestWord_twp [OF pin al(2) m(2) that]])
      (use seg v(3) selValid_sel(2) [OF v(1)] out in \<open>simp add: retOuter_def flip: retSS_def del: twp_thn\<close>)
  have "twp (getGuestDWord env (?esp + 12)) (\<lambda>esp. twp (bnd (getGuestWord env (?esp + 16)) (?ss_check esp)) ?Q) vm1"
    by (rule twp_mono [OF getGuestDWord_twp [OF pin al(1) m(1) w]]) (use word in simp)
  then show ?thesis unfolding iretOuter_def twp_bnd [of "getGuestDWord _ _"] .
qed

text \<open>The flags.\<close>

lemma returned_flags:
  fixes fl to :: Bit32u
  shows "(put_bit 9 True (put_bit 20 False (put_bit 19 b fl)) AND NOT iretChangeMask) OR (to AND iretChangeMask) =
     put_bit 9 True (put_bit 20 False (put_bit 19 b (foldr (\<lambda>n. put_bit n (bit to n)) [21, 18, 16, 14, 11, 10, 8, 7, 6, 4, 2, 0] fl)))"
proof -
  define M where "M = iretChangeMask"
  have "\<forall>n \<in> set [0..<32]. bit M n \<longleftrightarrow> n \<in> {21, 18, 16, 14, 11, 10, 8, 7, 6, 4, 2, 0}"
    by (simp add: upt_rec M_def)
  then have mask: "bit M n \<longleftrightarrow> n \<in> {21, 18, 16, 14, 11, 10, 8, 7, 6, 4, 2, 0}" if "n < 32" for n
    using that by auto
  show ?thesis
    unfolding M_def [symmetric]
    by (rule bit_word_eqI) (auto simp: bit_and_iff bit_not_iff bit_or_iff mask)
qed

lemma clearVI_put: "clearVI fl = put_bit 20 False (put_bit 19 False fl)"
  by (simp add: clearVI_def)

lemma iretTail_twp:
  assumes w: "windowOnly (trapState vm c g k m) vm1" and pvi: "bit (nx_mon_cr4 (vm_nexus vm)) 1" and k: "sel_rpl sel = k" "k = 0 \<or> k = 3"
    and fl: "if k = 3 then ef_if to \<and> \<not> ef_vif to \<and> \<not> ef_vip to else ef_if to = ef_vif to"
  shows "twp (thn (iretVirtualIF env 0 to sel) (thn (updEFlags (put_bit 9 True))
      (updEFlags (\<lambda>fl. (fl AND NOT iretChangeMask) OR (to AND iretChangeMask)))))
    (\<lambda>_. windowOnly (vm\<lparr>vm_context := c\<lparr>sc_eflags := put_bit 9 True (put_bit 20 False (put_bit 19 (k \<noteq> 3 \<and> ef_if to)
        (foldr (\<lambda>n. put_bit n (bit to n)) [21, 18, 16, 14, 11, 10, 8, 7, 6, 4, 2, 0] (sc_eflags c))))\<rparr>,
      vm_gdt := g, vm_guestCPL := k, vm_phymem := m,
      vm_nexus := (if k = 3 then (vm_nexus vm)\<lparr>nx_mon_cr4 := nx_mon_cr4 (vm_nexus vm) AND NOT 2\<rparr> else vm_nexus vm)\<rparr>)) vm1"
proof -
  have f: "vm_context vm1 = c" "vm_nexus vm1 = vm_nexus vm" using windowOnly_fields [OF w] by simp_all
  have ctx: "windowOnly (trapState vm (c\<lparr>sc_eflags := x\<rparr>) g k m) (vm1\<lparr>vm_context := c\<lparr>sc_eflags := x\<rparr>\<rparr>)" for x
    using windowOnly_context [OF w, of "\<lambda>_. c\<lparr>sc_eflags := x\<rparr>"] by (simp add: vm_order)
  show ?thesis
  proof (cases "k = 3")
    case True
    have m0: "to AND (FlgMaskVIF OR FlgMaskVIP) = 0"
    proof (rule bit_word_eqI)
      fix n assume "n < LENGTH(32)"
      have "\<forall>n \<in> set [0..<32]. bit (FlgMaskVIF OR FlgMaskVIP) n \<longrightarrow> n = 19 \<or> n = 20" by (simp add: upt_rec)
      then have "bit (FlgMaskVIF OR FlgMaskVIP) n \<Longrightarrow> n = 19 \<or> n = 20" using \<open>n < LENGTH(32)\<close> by auto
      then show "bit (to AND (FlgMaskVIF OR FlgMaskVIP)) n = bit 0 n"
        using fl True by (auto simp: bit_and_iff ef_bits simp del: flg_masks)
    qed
    show ?thesis
      using True k fl pvi m0 f windowOnly_upd(3) [OF windowOnly_upd(2) [OF ctx]] returned_flags [of False "sc_eflags c" to]
      by (simp add: iretVirtualIF_def iretToUser_def updEFlags_def updCtx_def setMonCR4_def loadMonCR4_def clearVI_put ef_bits vm_order
          del: flg_masks iretChangeMask_val)
  next
    case False
    then have "k = 0" using k(2) by simp
    then show ?thesis
      using k fl pvi f ctx returned_flags [of "ef_if to" "sc_eflags c" to]
      by (simp add: iretVirtualIF_def updEFlags_def updCtx_def del: iretChangeMask_val)
  qed
qed

section \<open>The return\<close>

lemma doIRET_twp:
  assumes pin: "allPinned vm" and lin: "vm_linuxVMMode vm \<noteq> 0" and cpl: "vm_guestCPL vm = 0" and pvi: "pvi_inv vm" and ready: "retReady vm"
  shows "twp (doIRET env) (\<lambda>_. windowOnly (vm\<lparr>vm_context := returnedContext vm, vm_gdt := returnedGDT vm,
     vm_guestCPL := (if retOuter vm then 3 else 0),
     vm_nexus := (if retOuter vm then (vm_nexus vm)\<lparr>nx_mon_cr4 := nx_mon_cr4 (vm_nexus vm) AND NOT 2\<rparr> else vm_nexus vm)\<rparr>)) vm"
proof -
  let ?esp = "sc_esp (vm_context vm)" and ?cs = "retCS vm" and ?fl = "retEFlags vm" and ?k = "if retOuter vm then 3 else 0 :: Bit32u"
  have r: "?esp AND 3 = 0" "mappedBytes vm ?esp (if retOuter vm then 20 else 12)" "\<not> ef_nt (sc_eflags (vm_context vm))"
    "\<not> ef_vm ?fl" "ef_iopl ?fl = 0" "segReady vm SRegCS ?k ?cs"
    and vi: "if ?k = 3 then ef_if ?fl \<and> \<not> ef_vif ?fl \<and> \<not> ef_vip ?fl else ef_if ?fl = ef_vif ?fl"
    using ready by (auto simp: retReady_def Let_def split: if_splits)
  have "mappedBytes vm ?esp 12" using r(2) mappedBytes_split [of vm ?esp 12 8] by (simp split: if_splits)
  then have m: "mappedBytes vm ?esp 4" "mappedBytes vm (?esp + 4) 2" "mappedBytes vm (?esp + 8) 4"
    using mappedBytes_split [of vm ?esp 4 8] mappedBytes_split [of vm "?esp + 4" 2 6] mappedBytes_split [of vm ?esp 8 4] by simp_all
  have al: "(?esp + 4) AND 3 = 0" "(?esp + 8) AND 3 = 0" by (rule aligned_add(1) [OF r(1)], simp)+
  have k: "?k = 0 \<or> ?k = 3" "sel_rpl ?cs = ?k" using segReady_parts(3) [OF r(6)] by simp_all
  have nx: "bit (nx_mon_cr4 (vm_nexus vm)) 1" using pvi cpl by (simp add: pvi_inv_def)
  let ?c = "if retOuter vm then (vm_context vm)\<lparr>sc_ss := ucast (retSS vm OR 3), sc_esp := linDWord vm (?esp + 12)\<rparr>
      else (vm_context vm)\<lparr>sc_esp := ?esp + 12\<rparr>"
  let ?g = "if retOuter vm then (vm_gdt vm)(sel_index (retSS vm) := downgraded (guestDesc vm (retSS vm))) else vm_gdt vm"
  let ?c' = "?c\<lparr>sc_cs := ucast (?cs OR 3), sc_eip := linDWord vm ?esp\<rparr>"
  let ?F = "\<lambda>_. windowOnly (vm\<lparr>vm_context := returnedContext vm, vm_gdt := returnedGDT vm, vm_guestCPL := ?k,
     vm_nexus := (if retOuter vm then (vm_nexus vm)\<lparr>nx_mon_cr4 := nx_mon_cr4 (vm_nexus vm) AND NOT 2\<rparr> else vm_nexus vm)\<rparr>)"
  have ctx: "?c'\<lparr>sc_eflags := put_bit 9 True (put_bit 20 False (put_bit 19 (?k \<noteq> 3 \<and> ef_if ?fl)
        (foldr (\<lambda>n. put_bit n (bit ?fl n)) [21, 18, 16, 14, 11, 10, 8, 7, 6, 4, 2, 0] (sc_eflags ?c'))))\<rparr> = returnedContext vm"
    by (rule guestStackContext_t.equality) (simp_all add: returnedContext_def returnedEFlags_def Let_def)
  let ?flags = "thn (iretVirtualIF env 0 ?fl ?cs) (thn (updEFlags (put_bit 9 True))
        (updEFlags (\<lambda>fl. (fl AND NOT iretChangeMask) OR (?fl AND iretChangeMask))))"
  have flags: "twp ?flags ?F vm1" if "windowOnly (trapState vm ?c' (returnedGDT vm) ?k (vm_phymem vm)) vm1" for vm1
    by (rule twp_mono [OF iretTail_twp [OF that nx k(2,1) vi, unfolded ctx]]) (cases "retOuter vm"; simp)
  let ?load = "thn (updCtx (setSel SRegCS ?cs)) (thn (updCtx (\<lambda>c. c\<lparr>sc_eip := linDWord vm ?esp\<rparr>)) (thn (guestSelectorUpdated env SRegCS ?cs) ?flags))"
  have load: "twp ?load ?F vm1" if "windowOnly (trapState vm ?c ?g ?k (vm_phymem vm)) vm1" for vm1
  proof -
    have "windowOnly (trapState vm ?c' ?g ?k (vm_phymem vm)) (vm1\<lparr>vm_context := ?c'\<rparr>)"
      using windowOnly_context [OF that, of "\<lambda>_. ?c'"] by (simp add: vm_order)
    note sel = loadSelector_twp [OF pin lin r(6) k(1) this]
    have gdt: "?g(sel_index ?cs := downgraded (guestDesc vm ?cs)) = returnedGDT vm" by (simp add: returnedGDT_def)
    have "twp (guestSelectorUpdated env SRegCS ?cs) (\<lambda>_. twp ?flags ?F) (vm1\<lparr>vm_context := ?c'\<rparr>)"
      by (rule twp_mono [OF sel]) (unfold gdt, rule flags)
    moreover have "vm_context vm1 = ?c" using windowOnly_fields(1) [OF that] by simp
    moreover have "setSel SRegCS ?cs x = x\<lparr>sc_cs := ucast (?cs OR 3)\<rparr>" for x by (simp add: setSel_def Let_def)
    ultimately show ?thesis by (simp only: twp_thn updCtx_def twp_modify) simp
  qed
  let ?stack = "if sel_rpl ?cs > 0 then iretOuter env ?esp ?cs else updCtx (\<lambda>c. c\<lparr>sc_esp := sc_esp c + 12\<rparr>)"
  have stack: "twp ?stack (\<lambda>_. windowOnly (trapState vm ?c ?g ?k (vm_phymem vm))) vm1" if "windowOnly vm vm1" for vm1
  proof (cases "retOuter vm")
    case True
    then show ?thesis using iretOuter_twp [OF pin lin True ready that] k(2) by simp
  next
    case False
    have eq: "vm\<lparr>vm_context := x, vm_guestCPL := 0\<rparr> = vm\<lparr>vm_context := x\<rparr>" for x
      by (rule vm_t.equality) (simp_all add: cpl)
    have "windowOnly (vm\<lparr>vm_context := ?c\<rparr>) (vm1\<lparr>vm_context := ?c\<rparr>)"
      using windowOnly_context [OF that, of "\<lambda>_. ?c"] by simp
    then have "windowOnly (vm\<lparr>vm_context := ?c, vm_guestCPL := 0\<rparr>) (vm1\<lparr>vm_context := ?c\<rparr>)" unfolding eq .
    then show ?thesis using False k(2) windowOnly_fields(1) [OF that] by (simp add: updCtx_def)
  qed
  have cs: "twp (iretCS env 0 ?fl ?cs) (\<lambda>_. twp (thn ?stack ?load) ?F) vm1" if "windowOnly vm vm1" for vm1
    unfolding twp_fun by (rule twp_mono [OF iretCS_twp [OF pin r(6) k(1) r(4,5) that]], rule twp_mono [OF stack]) (simp_all only: load [unfolded twp_fun])
  let ?rest = "\<lambda>eip sel fl. thn (iretCS env 0 fl sel) (thn (if sel_rpl sel > 0 then iretOuter env ?esp sel else updCtx (\<lambda>c. c\<lparr>sc_esp := sc_esp c + 12\<rparr>))
     (thn (updCtx (setSel SRegCS sel)) (thn (updCtx (\<lambda>c. c\<lparr>sc_eip := eip\<rparr>)) (thn (guestSelectorUpdated env SRegCS sel)
     (thn (iretVirtualIF env 0 fl sel) (thn (updEFlags (put_bit 9 True))
        (updEFlags (\<lambda>f. (f AND NOT iretChangeMask) OR (fl AND iretChangeMask)))))))))"
  have r3: "twp (getGuestDWord env (?esp + 8)) (\<lambda>fl. twp (?rest (linDWord vm ?esp) ?cs fl) ?F) vm1" if "windowOnly vm vm1" for vm1
    by (rule twp_mono [OF getGuestDWord_twp [OF pin al(2) m(3) that]]) (use cs in \<open>simp only: twp_thn [of "iretCS _ _ _ _"] flip: retEFlags_def\<close>)
  have r2: "twp (getGuestWord env (?esp + 4)) (\<lambda>sel. twp (bnd (getGuestDWord env (?esp + 8)) (?rest (linDWord vm ?esp) sel)) ?F) vm1" if "windowOnly vm vm1" for vm1
    by (rule twp_mono [OF getGuestWord_twp [OF pin al(1) m(2) that]]) (use r3 in \<open>simp only: twp_bnd flip: retCS_def\<close>)
  have "twp (getGuestDWord env ?esp) (\<lambda>eip. twp (bnd (getGuestWord env (?esp + 4)) (\<lambda>sel. bnd (getGuestDWord env (?esp + 8)) (?rest eip sel))) ?F) vm"
    by (rule twp_mono [OF getGuestDWord_twp [OF pin r(1) m(1) windowOnly_refl]]) (use r2 in \<open>simp only: twp_bnd\<close>)
  then show ?thesis
    using r(3) by (simp add: doIRET_def cpl Let_def del: twp_thn iretChangeMask_val)
qed

end
