(* ===== verification/Sample_Trap.thy ===== *)
theory Sample_Trap
  imports Sample_Vm Emu_Return
begin

text \<open>
  A guest without paging, with descriptor tables of its own: the GDT of the Linux layout in page 0, an interrupt
  gate for vector 0x20 and a trap gate for \<^verbatim>\<open>INT 0x80\<close> in page 1, a task state segment in page 2 and the stacks
  of kernel and user in page 3, with two frames that \<^verbatim>\<open>IRET\<close> can take.
\<close>

definition trap_mem :: "Bit32u \<Rightarrow> Bit8u" where
  "trap_mem = (\<lambda>_. 0)(
     0x10010 := 0xff, 0x10011 := 0xff, 0x10015 := 0x9a, 0x10016 := 0xcf,
     0x10018 := 0xff, 0x10019 := 0xff, 0x1001d := 0x92, 0x1001e := 0xcf,
     0x10020 := 0xff, 0x10021 := 0xff, 0x10025 := 0xfa, 0x10026 := 0xcf,
     0x10028 := 0xff, 0x10029 := 0xff, 0x1002d := 0xf2, 0x1002e := 0xcf,
     0x11100 := 0x34, 0x11101 := 0x12, 0x11102 := 0x10, 0x11105 := 0x8e, 0x11106 := 0x10, 0x11107 := 0xc0,
     0x11400 := 0x78, 0x11401 := 0x56, 0x11402 := 0x10, 0x11405 := 0xef, 0x11406 := 0x10, 0x11407 := 0xc0,
     0x12005 := 0x2f, 0x12008 := 0x18,
     0x13101 := 0x80, 0x13102 := 0x04, 0x13103 := 0x08, 0x13104 := 0x23, 0x13108 := 0x46, 0x13109 := 0x02,
     0x1310d := 0x38, 0x13110 := 0x2b,
     0x13200 := 0x78, 0x13201 := 0x56, 0x13202 := 0x10, 0x13203 := 0xc0, 0x13204 := 0x10, 0x13208 := 0x47, 0x13209 := 0x02, 0x1320a := 0x08)"

definition trap_cpu :: guest_cpu_t where
  "trap_cpu = zero_guest_cpu\<lparr>cpu_gdtr := \<lparr>gi_limit = 0xff, gi_base = 0\<rparr>, cpu_idtr := \<lparr>gi_limit = 0x7ff, gi_base = 0x1000\<rparr>,
     cpu_tr := zero_guest_sreg\<lparr>sr_des := zero_descriptor\<lparr>d_limit_low := 0x67, d_base_low := 0x2000, d_type := 11\<rparr>\<rparr>\<rparr>"

definition trap_vm :: "guestStackContext_t \<Rightarrow> Bit32u \<Rightarrow> vm_t" where
  "trap_vm c k = sample_vm\<lparr>vm_guest_cpu := trap_cpu, vm_phymem := trap_mem, vm_context := c, vm_guestCPL := k\<rparr>"

lemma trap_simps [simp]:
  "vm_pages (trap_vm c k) = sample_pages" "vm_guest_cpu (trap_vm c k) = trap_cpu" "vm_phymem (trap_vm c k) = trap_mem"
  "vm_guestPageInfo (trap_vm c k) = vm_guestPageInfo sample_vm" "vm_linuxVMMode (trap_vm c k) = 1" "vm_guestCPL (trap_vm c k) = k"
  "vm_gdt (trap_vm c k) = (\<lambda>_. zero_descriptor)" "vm_context (trap_vm c k) = c" "vm_nexus (trap_vm c k) = sample_nexus"
  by (simp_all add: trap_vm_def)

lemma trap_cpu_simps [simp]:
  "cpu_gdtr trap_cpu = \<lparr>gi_limit = 0xff, gi_base = 0\<rparr>" "cpu_idtr trap_cpu = \<lparr>gi_limit = 0x7ff, gi_base = 0x1000\<rparr>"
  "sr_des (cpu_tr trap_cpu) = zero_descriptor\<lparr>d_limit_low := 0x67, d_base_low := 0x2000, d_type := 11\<rparr>" "\<not> cr0_pg trap_cpu"
  by (simp_all add: trap_cpu_def cr0_pg_def zero_guest_cpu_def)

lemma trap_allPinned: "allPinned (trap_vm c k)"
  using sample_allPinned by (simp add: allPinned_def n_bytes_def)

lemma trap_linToPhy: "linToPhy ((trap_vm c k)\<lparr>vm_phymem := m\<rparr>) l = Some l" "linToPhy (trap_vm c k) l = Some l"
  by (simp_all add: linToPhy_def Let_def)

lemma trap_mapped: "unat l + n \<le> 0x4000 \<Longrightarrow> mappedBytes (trap_vm c k) l n"
  by (auto simp: mappedBytes_def trap_linToPhy n_bytes_def sample_pages_def word_less_nat_alt unat_word_ariths unat_of_nat)

text \<open>Its four pages lie behind one another in the memory of the host.\<close>

lemma trap_host:
  assumes "l < 0x4000"
  shows "push_bit 12 (pp_hostPPI (vm_guestPageInfo sample_vm (unat (drop_bit 12 l)))) OR (l AND 0xfff) = 0x10000 + l"
proof -
  have "unat (drop_bit 12 l) = unat l div 2 ^ 12" by (simp only: unat_drop_bit_eq flip: drop_bit_eq_div)
  then have u: "unat (drop_bit 12 l) = unat l div 4096" by simp
  have "unat (drop_bit 12 l) < 4" using assms unfolding u by (simp add: word_less_nat_alt less_mult_imp_div_less)
  then have d: "drop_bit 12 l < 4" by (simp add: word_less_nat_alt)
  have "push_bit 12 (0x10 + drop_bit 12 l) OR (l AND 0xfff) = push_bit 12 (0x10 + drop_bit 12 l) + (l AND 0xfff)"
    using page_addr(3) [of "0x10 + drop_bit 12 l" "unat (l AND 0xfff)"] offset_bound [of l] d
    by (fastforce simp: word_less_4)
  also have e: "push_bit 12 (0x10 + drop_bit 12 l) = 0x10000 + push_bit 12 (drop_bit 12 l)"
    by (simp add: push_bit_eq_mult algebra_simps)
  also have "\<dots> + (l AND 0xfff) = 0x10000 + l" using addr_split(1) [of l] by (simp add: add.assoc)
  finally show ?thesis using sample_pageInfo [OF d] by (simp add: e)
qed

lemma trap_hostLin: "l < 0x4000 \<Longrightarrow> hostLin (trap_vm c k) l = 0x10000 + l"
  by (simp add: hostLin_def trap_linToPhy Let_def trap_host)

lemma trap_gbyte: "l < 0x4000 \<Longrightarrow> gbyte ((trap_vm c k)\<lparr>vm_phymem := m\<rparr>) l = m (0x10000 + l)" "l < 0x4000 \<Longrightarrow> gbyte (trap_vm c k) l = trap_mem (0x10000 + l)"
  using trap_host [of l] by (simp_all add: gbyte_def)

lemma trap_apart:
  assumes "0x1000 \<le> unat sp" "unat sp + n \<le> 0x4000" "unat dl + 8 \<le> 0x1000"
  shows "stackApart (trap_vm c k) sp n dl"
proof -
  have "linBytes ((trap_vm c k)\<lparr>vm_phymem := m\<rparr>) dl 8 = linBytes (trap_vm c k) dl 8"
    if m: "\<And>h. h \<notin> frameAddrs (trap_vm c k) sp n \<Longrightarrow> m h = trap_mem h" for m
  proof -
    have "m (0x10000 + (dl + of_nat i)) = trap_mem (0x10000 + (dl + of_nat i))" if i: "i < 8" for i
    proof (rule m)
      have "0x10000 + (dl + of_nat i) \<noteq> hostLin (trap_vm c k) (sp + of_nat j)" if j: "j < n" for j
      proof -
        have u: "unat (sp + of_nat j) = unat sp + j" "unat (dl + of_nat i) = unat dl + i"
          using assms i j by (simp_all add: unat_word_ariths unat_of_nat)
        then have "sp + of_nat j < 0x4000" "dl + of_nat i \<noteq> sp + of_nat j"
          using assms i j by (auto simp: word_less_nat_alt word_unat_eq_iff)
        then show ?thesis by (simp add: trap_hostLin)
      qed
      then show "0x10000 + (dl + of_nat i) \<notin> frameAddrs (trap_vm c k) sp n" by (auto simp: frameAddrs_def)
    qed
    moreover have "dl + of_nat i < 0x4000" if "i < 8" for i
      using assms that by (simp add: word_less_nat_alt unat_word_ariths unat_of_nat)
    ultimately show ?thesis by (simp add: linBytes_def trap_linToPhy trap_gbyte)
  qed
  then show ?thesis by (auto simp: stackApart_def trap_linToPhy fun_eq_iff)
qed

section \<open>What is in the tables\<close>

lemma trap_bytes: "l < 0x4000 \<Longrightarrow> l + of_nat n < 0x4000 \<Longrightarrow> n < 16 \<Longrightarrow>
    linBytes (trap_vm c k) l n = map (\<lambda>i. trap_mem (0x10000 + l + of_nat i)) [0..<n]"
proof -
  assume l: "l < 0x4000" "l + of_nat n < 0x4000" "n < 16"
  have "l + of_nat i < 0x4000" if "i < n" for i
    using that l by (simp add: word_less_nat_alt unat_word_ariths unat_of_nat)
  then show ?thesis by (simp add: linBytes_def trap_linToPhy trap_gbyte add.assoc)
qed

lemma trap_descs:
  "guestDesc (trap_vm c k) 0x10 = desc_of_word 0xcf9a000000ffff" "guestDesc (trap_vm c k) 0x18 = desc_of_word 0xcf92000000ffff"
  "guestDesc (trap_vm c k) 0x23 = desc_of_word 0xcffa000000ffff" "guestDesc (trap_vm c k) 0x2b = desc_of_word 0xcff2000000ffff"
  by (simp_all add: guestDesc_def linDesc_def selOffset_def trap_bytes upt_rec trap_mem_def le_word_def)

lemma trap_gates:
  "idtGate (trap_vm c k) 0x20 = gate_of_word 0xc0108e0000101234" "idtGate (trap_vm c k) 0x80 = gate_of_word 0xc010ef0000105678"
  by (simp_all add: idtGate_def trap_bytes upt_rec trap_mem_def le_word_def)

lemma trap_gate_fields:
  "g_selector (idtGate (trap_vm c k) 0x20) = 0x10" "g_type (idtGate (trap_vm c k) 0x20) = 14" "g_p (idtGate (trap_vm c k) 0x20) = 1"
  "g_dpl (idtGate (trap_vm c k) 0x20) = 0" "gate_offset (idtGate (trap_vm c k) 0x20) = 0xc0101234"
  "g_selector (idtGate (trap_vm c k) 0x80) = 0x10" "g_type (idtGate (trap_vm c k) 0x80) = 15" "g_p (idtGate (trap_vm c k) 0x80) = 1"
  "g_dpl (idtGate (trap_vm c k) 0x80) = 3" "gate_offset (idtGate (trap_vm c k) 0x80) = 0xc0105678"
  by (simp_all add: trap_gates gate_of_word_def gate_offset_def)

lemma trap_words:
  "linDWord (trap_vm c k) 0x2004 = 0x2f00" "linWord (trap_vm c k) 0x2008 = 0x18"
  "linDWord (trap_vm c k) 0x3100 = 0x08048000" "linWord (trap_vm c k) 0x3104 = 0x23" "linDWord (trap_vm c k) 0x3108 = 0x246"
  "linDWord (trap_vm c k) 0x310c = 0x3800" "linWord (trap_vm c k) 0x3110 = 0x2b"
  "linDWord (trap_vm c k) 0x3200 = 0xc0105678" "linWord (trap_vm c k) 0x3204 = 0x10" "linDWord (trap_vm c k) 0x3208 = 0x80247"
  by (simp_all add: linDWord_def linWord_def trap_bytes upt_rec trap_mem_def le_word_def)

lemma trap_segs:
  "segReady (trap_vm c k) SRegCS 0 0x10" "segReady (trap_vm c k) SRegSS 0 0x18"
  "segReady (trap_vm c k) SRegCS 3 0x23" "segReady (trap_vm c k) SRegSS 3 0x2b"
  by (simp_all add: segReady_def selValid_def trap_descs desc_of_word_def sel_ti_def sel_index_def sel_rpl_def selOffset_def
      trap_mapped linuxSlot_def Let_def)

lemma trap_tss: "tssReady (trap_vm c k)"
  using trap_segs(2) by (simp add: tssReady_def tssBase_def BaseOfDescriptor_def zero_descriptor_def trap_words trap_mapped trLimit_def Let_def)

definition kernel_context :: guestStackContext_t where
  "kernel_context = sample_context\<lparr>sc_esp := 0x3000, sc_eip := 0xc0100000\<rparr>"

definition user_context :: guestStackContext_t where
  "user_context = sample_context\<lparr>sc_cs := 0x23, sc_ss := 0x2b, sc_esp := 0x3800, sc_eip := 0x08048000, sc_eflags := 0x202\<rparr>"

lemmas trap_contexts = kernel_context_def user_context_def sample_context_def zero_guestStackContext_def

text \<open>An interrupt of the kernel, and \<^verbatim>\<open>INT 0x80\<close> of the user.\<close>

lemma kernel_trapReady: "trapReady (trap_vm kernel_context 0) 0x20 0"
  using trap_segs(1) by (simp add: trapReady_def gateReady_def trap_gate_fields trap_mapped trapSP_def trapFrame_def trap_apart
      trap_contexts selOffset_def Let_def)

lemma user_trapReady: "trapReady (trap_vm user_context 3) 0x80 IntFlagSoftInt"
  using trap_segs(1) trap_tss by (simp add: trapReady_def gateReady_def trap_gate_fields trap_mapped trapSP_def trapFrame_def trap_apart
      trap_contexts selOffset_def tssBase_def BaseOfDescriptor_def zero_descriptor_def trap_words Let_def)

lemma kernel_retReady: "retReady (trap_vm (kernel_context\<lparr>sc_esp := 0x3200\<rparr>) 0)"
  using trap_segs(1) by (simp add: retReady_def retOuter_def retCS_def retEFlags_def trap_words trap_mapped trap_contexts
      ef_bits ef_iopl_0 sel_rpl_def Let_def)

lemma user_retReady: "retReady (trap_vm (kernel_context\<lparr>sc_esp := 0x3100\<rparr>) 0)"
  using trap_segs(3,4) by (simp add: retReady_def retOuter_def retCS_def retSS_def retEFlags_def trap_words trap_mapped trap_contexts
      ef_bits ef_iopl_0 sel_rpl_def userDataSel_def Let_def)

end
