(* ===== verification/Shadow_Lookup.thy ===== *)
theory Shadow_Lookup
  imports Mon_Fault
begin

text \<open>
  The processor's lookup in the shadow tables after one entry of them has been cleared, for \<^verbatim>\<open>INVLPG\<close>: the
  tables of different directory entries are different frames, so that no other page is affected.
\<close>

lemma lin_page: "drop_bit 12 l = drop_bit 12 a \<longleftrightarrow> lin_pdi l = lin_pdi a \<and> lin_pti l = lin_pti a"
proof
  assume "drop_bit 12 l = drop_bit 12 a"
  moreover have "drop_bit 22 x = drop_bit 10 (drop_bit 12 x)" for x :: Bit32u by simp
  ultimately show "lin_pdi l = lin_pdi a \<and> lin_pti l = lin_pti a" by (simp only: lin_pdi_def lin_pti_def)
next
  assume "lin_pdi l = lin_pdi a \<and> lin_pti l = lin_pti a"
  then have "unat (drop_bit 22 l) = unat (drop_bit 22 a)" "unat (drop_bit 12 l AND 0x3ff) = unat (drop_bit 12 a AND 0x3ff)"
    unfolding lin_pdi_def lin_pti_def by blast+
  moreover have "(0x3ff :: Bit32u) = mask 10" by (simp add: mask_eq_exp_minus_1)
  ultimately have h: "drop_bit 22 l = drop_bit 22 a" "drop_bit 12 l AND mask 10 = drop_bit 12 a AND mask 10"
    by (metis unsigned_word_eqI)+
  show "drop_bit 12 l = drop_bit 12 a"
  proof (rule bit_word_eqI)
    fix n assume "n < LENGTH(32)"
    show "bit (drop_bit 12 l) n = bit (drop_bit 12 a) n"
    proof (cases "n < 10")
      case True
      then show ?thesis using arg_cong [OF h(2), of "\<lambda>w. bit w n"] by (simp add: bit_simps)
    next
      case False
      then have n: "12 + n = 22 + (n - 10)" by simp
      show ?thesis using arg_cong [OF h(1), of "\<lambda>w. bit w (n - 10)"] by (simp only: bit_drop_bit_eq comp_def n)
    qed
  qed
qed

text \<open>The table below a present directory entry outside the monitor's range.\<close>

lemma tableAt_pde:
  assumes "isolated m c vm" "tablesDistinct (vm_pages vm)" "pdi < 1024" "pdi \<noteq> unat m" "pe_P (vm_page_dir vm pdi)"
  defines "i \<equiv> vm_page_tbl_laddr_map vm pdi"
  shows "unat i < MON_PAGE_TABLES" "i \<noteq> - 1" "pe_base (vm_page_dir vm pdi) = take_bit 20 (pg_page_tbl (vm_pages vm) (unat i))"
    "tableAt vm (vm_page_dir vm pdi) = Some (vm_page_tbl vm (unat i))"
proof -
  have ok: "pdeOK vm pdi" "unat (vm_ptbl_laddr_map_i vm) \<le> MON_PAGE_TABLES"
    using assms(1,3-5) by (auto simp: isolated_def shadow_inv_def shadow_wf_def)
  then show i: "unat i < MON_PAGE_TABLES" and b: "pe_base (vm_page_dir vm pdi) = take_bit 20 (pg_page_tbl (vm_pages vm) (unat i))"
    by (auto simp: pdeOK_def Let_def word_less_nat_alt i_def)
  then show "i \<noteq> - 1" by auto
  have "pe_base (vm_page_dir vm pdi) \<noteq> take_bit 20 (pg_nexus_page_tbl (vm_pages vm))"
    using assms(2) i b by (simp add: tablesDistinct_def)
  moreover have "List.find (\<lambda>j. take_bit 20 (pg_page_tbl (vm_pages vm) j) = pe_base (vm_page_dir vm pdi)) [0..<MON_PAGE_TABLES] \<noteq> None"
    using i b by (auto simp: find_None_iff simp del: MON_PAGE_TABLES_def)
  ultimately have "tableAt vm (vm_page_dir vm pdi) \<noteq> None" by (auto simp: tableAt_def)
  then show "tableAt vm (vm_page_dir vm pdi) = Some (vm_page_tbl vm (unat i))"
    using tableAt_mapped [OF assms(2) i b] by auto
qed

lemma invalidate_run:
  assumes "isolated m c vm" "tablesDistinct (vm_pages vm)" "cr0_pg (vm_guest_cpu vm)" "a AND 0xffc00000 \<noteq> vm_mon_pde_mask vm"
  shows "twp (invalidateGuestLinAddr env a) (\<lambda>_ vm'. vm_page_dir vm' = vm_page_dir vm \<and> vm_pages vm' = vm_pages vm \<and>
     vm_nexus_page_tbl vm' = vm_nexus_page_tbl vm \<and> hd (hw_invlpg (vm_hw vm')) = Guest2Monitor vm a \<and>
     (let i = unat (vm_page_tbl_laddr_map vm (lin_pdi a)) in
      if pe_P (vm_page_dir vm (lin_pdi a)) then
        \<not> pe_P (vm_page_tbl vm' i (lin_pti a)) \<and> (\<forall>j k. j \<noteq> i \<or> k \<noteq> lin_pti a \<longrightarrow> vm_page_tbl vm' j k = vm_page_tbl vm j k)
      else vm_page_tbl vm' = vm_page_tbl vm)) vm"
proof -
  have "lin_pdi a \<noteq> unat m" using mon_range [OF assms(1)] assms(4) by simp
  then show ?thesis
    using tableAt_pde(1,2) [OF assms(1,2) _ \<open>lin_pdi a \<noteq> unat m\<close>] assms(3,4)
    by (auto simp: invalidateGuestLinAddr_def Let_def monPDE_def clearShadowPTE_def getMonPTi_def laddrMap_def monPTE_def
        setMonPTE_def invlpg_mon_offset_def Guest2Monitor_def not_le pe_P_def)
qed

lemma tableAt_upd:
  assumes "vm_pages vm' = vm_pages vm" "vm_nexus_page_tbl vm' = vm_nexus_page_tbl vm"
    "\<And>j. j < MON_PAGE_TABLES \<Longrightarrow> take_bit 20 (pg_page_tbl (vm_pages vm) j) = pe_base pde \<Longrightarrow> vm_page_tbl vm' j k = vm_page_tbl vm j k"
  shows "map_option (\<lambda>t. t k) (tableAt vm' pde) = map_option (\<lambda>t. t k) (tableAt vm pde)"
proof (cases "List.find (\<lambda>i. take_bit 20 (pg_page_tbl (vm_pages vm) i) = pe_base pde) [0..<MON_PAGE_TABLES]")
  case (Some j)
  then have "j < MON_PAGE_TABLES" "take_bit 20 (pg_page_tbl (vm_pages vm) j) = pe_base pde"
    by (auto simp: find_Some_iff simp del: MON_PAGE_TABLES_def)
  then show ?thesis using assms Some by (simp add: tableAt_def)
qed (use assms(1,2) in \<open>simp add: tableAt_def\<close>)

lemma shadowXlate_upd:
  assumes "vm_page_dir vm' = vm_page_dir vm"
    "map_option (\<lambda>t. t (lin_pti l)) (tableAt vm' (vm_page_dir vm (lin_pdi l))) = map_option (\<lambda>t. t (lin_pti l)) (tableAt vm (vm_page_dir vm (lin_pdi l)))"
  shows "shadowXlate vm' l w = shadowXlate vm l w"
  using assms by (auto simp: shadowXlate_def Let_def split: option.splits bind_splits)

text \<open>The table of another directory entry is another table, so that a page at the same place of it is another entry.\<close>

lemma other_table:
  assumes iso: "isolated m c vm" and d: "tablesDistinct (vm_pages vm)" and c: "pe_base c = take_bit 20 (pg_nexus_page_tbl (vm_pages vm))"
    and a: "lin_pdi a \<noteq> unat m" "pe_P (vm_page_dir vm (lin_pdi a))" and l: "lin_pdi l \<noteq> lin_pdi a" "pe_P (vm_page_dir vm (lin_pdi l))"
    and j: "j < MON_PAGE_TABLES" "take_bit 20 (pg_page_tbl (vm_pages vm) j) = pe_base (vm_page_dir vm (lin_pdi l))"
  shows "j \<noteq> unat (vm_page_tbl_laddr_map vm (lin_pdi a))"
proof (cases "lin_pdi l = unat m")
  case True
  then have "pe_base (vm_page_dir vm (lin_pdi l)) = pe_base c" using iso by (simp add: isolated_def)
  then show ?thesis using j c d by (auto simp: tablesDistinct_def)
next
  case False
  have "vm_page_tbl_laddr_map vm (lin_pdi l) \<noteq> vm_page_tbl_laddr_map vm (lin_pdi a)"
    using iso l(1) tableAt_pde(2) [OF iso d _ a] lin_bounds by (auto simp: isolated_def shadow_inv_def shadow_wf_def)
  then have ne: "unat (vm_page_tbl_laddr_map vm (lin_pdi l)) \<noteq> unat (vm_page_tbl_laddr_map vm (lin_pdi a))"
    using unsigned_word_eqI by blast
  have "unat (vm_page_tbl_laddr_map vm (lin_pdi l)) < MON_PAGE_TABLES"
    "pe_base (vm_page_dir vm (lin_pdi l)) = take_bit 20 (pg_page_tbl (vm_pages vm) (unat (vm_page_tbl_laddr_map vm (lin_pdi l))))"
    using tableAt_pde(1,3) [OF iso d _ False l(2)] by simp_all
  then have "j = unat (vm_page_tbl_laddr_map vm (lin_pdi l))" using j d unfolding tablesDistinct_def by metis
  then show ?thesis using ne by simp
qed

lemma xlate_cleared:
  assumes iso: "isolated m c vm" and d: "tablesDistinct (vm_pages vm)" and c: "pe_base c = take_bit 20 (pg_nexus_page_tbl (vm_pages vm))"
    and am: "lin_pdi a \<noteq> unat m" and P: "pe_P (vm_page_dir vm (lin_pdi a))"
    and s: "vm_page_dir vm' = vm_page_dir vm" "vm_pages vm' = vm_pages vm" "vm_nexus_page_tbl vm' = vm_nexus_page_tbl vm"
    and t: "\<not> pe_P (vm_page_tbl vm' (unat (vm_page_tbl_laddr_map vm (lin_pdi a))) (lin_pti a))"
      "\<And>j k. j \<noteq> unat (vm_page_tbl_laddr_map vm (lin_pdi a)) \<or> k \<noteq> lin_pti a \<Longrightarrow> vm_page_tbl vm' j k = vm_page_tbl vm j k"
  shows "shadowXlate vm' l w = (if drop_bit 12 l = drop_bit 12 a then None else shadowXlate vm l w)"
proof (cases "drop_bit 12 l = drop_bit 12 a")
  case same: True
  have "shadowXlate vm' l w = None"
  proof (cases "tableAt vm' (vm_page_dir vm' (lin_pdi a))")
    case (Some pt)
    then have "pt = vm_page_tbl vm' (unat (vm_page_tbl_laddr_map vm (lin_pdi a)))"
      using d s tableAt_pde [OF iso d _ am P] by (intro tableAt_mapped [OF _ _ _ Some]) simp_all
    then show ?thesis using t(1) Some same by (simp add: shadowXlate_def Let_def userMay_def lin_page)
  qed (use same in \<open>simp add: shadowXlate_def Let_def lin_page\<close>)
  then show ?thesis using same by simp
next
  case other: False
  have "shadowXlate vm' l w = shadowXlate vm l w"
  proof (cases "pe_P (vm_page_dir vm (lin_pdi l))")
    case P': True
    have "vm_page_tbl vm' j (lin_pti l) = vm_page_tbl vm j (lin_pti l)"
      if "j < MON_PAGE_TABLES" "take_bit 20 (pg_page_tbl (vm_pages vm) j) = pe_base (vm_page_dir vm (lin_pdi l))" for j
    proof (cases "lin_pti l = lin_pti a")
      case True
      then have "lin_pdi l \<noteq> lin_pdi a" using other by (simp add: lin_page)
      then show ?thesis using t(2) other_table [OF iso d c am P _ P' that] by blast
    qed (use t(2) in blast)
    then show ?thesis by (intro shadowXlate_upd tableAt_upd s) auto
  qed (use s(1) in \<open>simp add: shadowXlate_def Let_def userMay_def\<close>)
  then show ?thesis using other by simp
qed

text \<open>\<^verbatim>\<open>invalidateGuestLinAddr\<close> drops the translation of the page of its address, and no other.\<close>

lemma invalidate_xlate:
  assumes "mon_inv m c g vm" "cr0_pg (vm_guest_cpu vm)" "a AND 0xffc00000 \<noteq> vm_mon_pde_mask vm"
  shows "twp (invalidateGuestLinAddr env a) (\<lambda>_ vm'. hd (hw_invlpg (vm_hw vm')) = Guest2Monitor vm a \<and>
     (\<forall>l w. shadowXlate vm' l w = (if drop_bit 12 l = drop_bit 12 a then None else shadowXlate vm l w))) vm"
proof -
  have iso: "isolated m c vm" and d: "tablesDistinct (vm_pages vm)" and c: "pe_base c = take_bit 20 (pg_nexus_page_tbl (vm_pages vm))"
    using assms(1) by (auto simp: mon_inv_def monTableOK_def)
  have am: "lin_pdi a \<noteq> unat m" using mon_range [OF iso] assms(3) by simp
  show ?thesis
  proof (cases "pe_P (vm_page_dir vm (lin_pdi a))")
    case True
    show ?thesis
      by (rule twp_mono [OF invalidate_run [OF iso d assms(2,3)]]) (use xlate_cleared [OF iso d c am True] True in \<open>auto simp: Let_def\<close>)
  next
    case False
    have "shadowXlate vm' l w = (if drop_bit 12 l = drop_bit 12 a then None else shadowXlate vm l w)"
      if s: "vm_page_dir vm' = vm_page_dir vm" "vm_pages vm' = vm_pages vm" "vm_nexus_page_tbl vm' = vm_nexus_page_tbl vm"
        "vm_page_tbl vm' = vm_page_tbl vm" for vm' l w
    proof -
      have "shadowXlate vm' l w = shadowXlate vm l w" by (intro shadowXlate_upd tableAt_upd s) (simp add: s(4))
      then show ?thesis using False by (auto simp: lin_page shadowXlate_def Let_def userMay_def)
    qed
    then show ?thesis
      by (intro twp_mono [OF invalidate_run [OF iso d assms(2,3)]]) (use False in \<open>simp add: Let_def\<close>)
  qed
qed

end
