(* ===== verification/Props_Emulation.thy ===== *)
theory Props_Emulation
  imports Sample_Trap Shadow_Lookup
begin

text \<open>
  The properties of the instruction emulator: reading guest memory, delivering interrupts, returning from
  them, the system instructions.
\<close>

section \<open>A guest with paging\<close>

text \<open>Guest page 0 is the page directory, page 1 a page table that maps linear page 2 to guest page 3 and
  linear page 3 to guest page 2.\<close>

definition paged_mem :: "Bit32u \<Rightarrow> Bit8u" where
  "paged_mem = (\<lambda>_. 0)(0x10000 := 0x07, 0x10001 := 0x10, 0x11008 := 0x07, 0x11009 := 0x30,
     0x1100c := 0x07, 0x1100d := 0x20, 0x13ffe := 0xaa, 0x13fff := 0xbb, 0x12000 := 0xcc, 0x12001 := 0xdd)"

definition paged_vm :: vm_t where
  "paged_vm = sample_vm\<lparr>vm_guest_cpu := zero_guest_cpu\<lparr>cpu_cr0 := 0x80000033\<rparr>, vm_phymem := paged_mem\<rparr>"

lemma paged_simps [simp]:
  "vm_pages paged_vm = sample_pages" "vm_guest_cpu paged_vm = zero_guest_cpu\<lparr>cpu_cr0 := 0x80000033\<rparr>"
  "vm_phymem paged_vm = paged_mem" "vm_guestPageInfo paged_vm = vm_guestPageInfo sample_vm"
  "vm_mon_pdi paged_vm = 0x300" "vm_page_dir paged_vm = vm_page_dir sample_vm"
  by (simp_all add: paged_vm_def)

lemma paged_allPinned: "allPinned paged_vm"
  using sample_allPinned by (simp add: allPinned_def n_bytes_def)

lemma paged_bytes: "vm_guestPageInfo sample_vm 0 = \<lparr>pp_attr = 0x600, pp_tsc = 0, pp_hostPPI = 0x10\<rparr>"
  "vm_guestPageInfo sample_vm (Suc 0) = \<lparr>pp_attr = 0x600, pp_tsc = 0, pp_hostPPI = 0x11\<rparr>"
  "vm_guestPageInfo sample_vm 2 = \<lparr>pp_attr = 0x600, pp_tsc = 0, pp_hostPPI = 0x12\<rparr>"
  "vm_guestPageInfo sample_vm 3 = \<lparr>pp_attr = 0x600, pp_tsc = 0, pp_hostPPI = 0x13\<rparr>"
  by (simp_all add: sample_vm_def)

lemma paged_entries: "gdword paged_vm 0 = 0x1007" "gdword paged_vm 0x1008 = 0x3007" "gdword paged_vm 0x100c = 0x2007"
  by (simp_all add: gdword_def gbyte_def paged_bytes paged_mem_def)

lemma paged_linToPhy: "lin_pdi l = 0 \<Longrightarrow> lin_pti l = 2 \<Longrightarrow> linToPhy paged_vm l = Some (0x3000 + (l AND 0xfff))"
  "lin_pdi l = 0 \<Longrightarrow> lin_pti l = 3 \<Longrightarrow> linToPhy paged_vm l = Some (0x2000 + (l AND 0xfff))"
  by (simp_all add: linToPhy_def cr0_pg_def tableEntry_def n_bytes_def sample_pages_def pe_base_def pe_P_def
      zero_guest_cpu_def paged_entries)

section \<open>Reading guest memory\<close>

text \<open>C18: While the guest's pages are pinned, \<^verbatim>\<open>translateLinToPhy\<close> returns the physical address that
  the guest's own two-level page tables give, or \<^verbatim>\<open>LinAddrNotAvailable\<close> where they give none, and
  changes nothing but the window it reads through.\<close>

theorem translate_refines_tables:
  assumes "allPinned vm"
  shows "twp (translateLinToPhy env l) (\<lambda>r vm'. r = avail (linToPhy vm l) \<and> windowOnly vm vm') vm"
  by (rule translateLinToPhy_twp [OF assms])

theorem translate_refines_tables_witness:
  "allPinned paged_vm \<and> twp (translateLinToPhy sample_env 0x2abc) (\<lambda>r vm'. r = 0x3abc) paged_vm"
  using translate_refines_tables [OF paged_allPinned, of sample_env "0x2abc"] paged_allPinned
  by (auto simp: paged_linToPhy lin_pdi_def lin_pti_def avail_def elim!: twp_mono)

text \<open>C19: \<^verbatim>\<open>getObjectLAddr\<close> reads an object of up to 4096 bytes as it lies in the guest's linear
  address space, also when it crosses into a page that lies elsewhere in physical memory.\<close>

theorem object_read_correct:
  assumes "allPinned vm" "0 < unat len" "unat len \<le> 4096" "mappedBytes vm l (unat len)"
  shows "twp (getObjectLAddr env obj l len) (\<lambda>bs vm'. bs = linBytes vm l (unat len) \<and> windowOnly vm vm') vm"
  by (rule getObjectLAddr_twp [OF assms])

lemma paged_crossing: "mappedBytes paged_vm 0x2ffe 4" "linBytes paged_vm 0x2ffe 4 = [0xaa, 0xbb, 0xcc, 0xdd]"
  by (auto simp: mappedBytes_def linBytes_def less_Suc_eq numeral_eq_Suc)
    (simp_all add: paged_linToPhy lin_pdi_def lin_pti_def n_bytes_def sample_pages_def gbyte_def paged_bytes paged_mem_def)

theorem object_read_correct_witness:
  "mappedBytes paged_vm 0x2ffe 4 \<and>
   twp (getObjectLAddr sample_env (\<lambda>_. 0) 0x2ffe 4) (\<lambda>bs vm'. bs = [0xaa, 0xbb, 0xcc, 0xdd]) paged_vm"
  using object_read_correct [OF paged_allPinned, of 4 "0x2ffe" sample_env "\<lambda>_. 0"] paged_crossing
  by (auto elim!: twp_mono)

section \<open>Interrupts\<close>

text \<open>C15: In Linux mode an interrupt of the guest's kernel or user code enters the guest's kernel through the gate that
  the guest's own interrupt table holds for the vector. When the gate is present, of a 32-bit interrupt or trap type and
  (for \<^verbatim>\<open>INT\<close>) open to the caller, its code segment is a ring 0 segment of the Linux layout, and there is room
  for the frame on the kernel's stack (that of the task state segment for user code), the delivery succeeds and leaves
  exactly this state: the frame on the stack and no other byte of memory changed; the code at the gate's selector and
  offset; the stack pointer below the frame; the flags with the host's interrupts on, the guest's as they were behind a
  trap gate and off behind an interrupt gate; guest ring 0 with \<^verbatim>\<open>CR4.PVI\<close> on; the guest's descriptors of the code
  and stack segments at DPL 3 in the monitor's GDT. Only the windows of the monitor and the processor's state may differ.\<close>

theorem interrupt_delivery:
  assumes "allPinned vm" "vm_linuxVMMode vm \<noteq> 0" "trapReady vm vector intFlags"
  shows "twp (doGuestInterrupt env vector intFlags err) (\<lambda>_ vm'.
     let gate = idtGate vm vector; sp = trapSP vm intFlags in
     stacked vm sp (trapFrame vm intFlags err) (vm_phymem vm') \<and>
     windowOnly (vm\<lparr>vm_context := trapContext vm gate sp, vm_gdt := trapGDT vm (g_selector gate), vm_guestCPL := 0,
       vm_phymem := vm_phymem vm', vm_nexus := (vm_nexus vm)\<lparr>nx_mon_cr4 := 2\<rparr>\<rparr>) vm') vm"
  using doGuestInterrupt_twp [OF assms] by (simp add: Let_def)

lemma kernel_trap:
  "trapContext (trap_vm kernel_context 0) (idtGate (trap_vm kernel_context 0) 0x20) (trapSP (trap_vm kernel_context 0) 0) =
     kernel_context\<lparr>sc_eip := 0xc0101234, sc_esp := 0x2ff4, sc_eflags := 0x202\<rparr>"
  "trapFrame (trap_vm kernel_context 0) 0 0 = [0xc0100000, 0x10, 0x80202]"
proof -
  have e: "put_bit 9 True (put_bit 19 False (put_bit 8 False (put_bit 14 False (put_bit 16 False (put_bit 17 False (0x80202 :: Bit32u)))))) = 0x202"
    "put_bit 9 True (0x80202 :: Bit32u) = 0x80202" by (simp_all add: put_bit_def set_bit_eq_or unset_bit_eq_and_not)
  show "trapContext (trap_vm kernel_context 0) (idtGate (trap_vm kernel_context 0) 0x20) (trapSP (trap_vm kernel_context 0) 0) =
     kernel_context\<lparr>sc_eip := 0xc0101234, sc_esp := 0x2ff4, sc_eflags := 0x202\<rparr>"
    "trapFrame (trap_vm kernel_context 0) 0 0 = [0xc0100000, 0x10, 0x80202]"
    by (simp_all add: trapContext_def trapSP_def trap_gate_fields trapFrame_def trapEFlags_def guestIF_def ef_bits trap_contexts Let_def e)
qed

lemma user_trap:
  "trapContext (trap_vm user_context 3) (idtGate (trap_vm user_context 3) 0x80) (trapSP (trap_vm user_context 3) IntFlagSoftInt) =
     user_context\<lparr>sc_cs := 0x13, sc_ss := 0x1b, sc_eip := 0xc0105678, sc_esp := 0x2eec, sc_eflags := 0x80202\<rparr>"
  "trapFrame (trap_vm user_context 3) IntFlagSoftInt 0 = [0x08048000, 0x23, 0x202, 0x3800, 0x2b]"
proof -
  have e: "put_bit 9 True (put_bit 19 True (put_bit 8 False (put_bit 14 False (put_bit 16 False (put_bit 17 False (0x202 :: Bit32u)))))) = 0x80202"
    "put_bit 9 True (0x202 :: Bit32u) = 0x202" by (simp_all add: put_bit_def set_bit_eq_or unset_bit_eq_and_not)
  show "trapContext (trap_vm user_context 3) (idtGate (trap_vm user_context 3) 0x80) (trapSP (trap_vm user_context 3) IntFlagSoftInt) =
     user_context\<lparr>sc_cs := 0x13, sc_ss := 0x1b, sc_eip := 0xc0105678, sc_esp := 0x2eec, sc_eflags := 0x80202\<rparr>"
    "trapFrame (trap_vm user_context 3) IntFlagSoftInt 0 = [0x08048000, 0x23, 0x202, 0x3800, 0x2b]"
    by (simp_all add: trapContext_def trapSP_def trap_gate_fields trapFrame_def trapEFlags_def guestIF_def ef_bits trap_contexts Let_def
        tssBase_def BaseOfDescriptor_def zero_descriptor_def trap_words e)
qed

theorem interrupt_delivery_witness:
  "twp (doGuestInterrupt sample_env 0x20 0 0) (\<lambda>_ vm'. vm_guestCPL vm' = 0 \<and> \<not> guestIF vm' \<and>
     vm_context vm' = kernel_context\<lparr>sc_eip := 0xc0101234, sc_esp := 0x2ff4, sc_eflags := 0x202\<rparr> \<and>
     stacked (trap_vm kernel_context 0) 0x2ff4 [0xc0100000, 0x10, 0x80202] (vm_phymem vm')) (trap_vm kernel_context 0) \<and>
   twp (doGuestInterrupt sample_env 0x80 IntFlagSoftInt 0) (\<lambda>_ vm'. vm_guestCPL vm' = 0 \<and> guestIF vm' \<and>
     vm_context vm' = user_context\<lparr>sc_cs := 0x13, sc_ss := 0x1b, sc_eip := 0xc0105678, sc_esp := 0x2eec, sc_eflags := 0x80202\<rparr> \<and>
     stacked (trap_vm user_context 3) 0x2eec [0x08048000, 0x23, 0x202, 0x3800, 0x2b] (vm_phymem vm')) (trap_vm user_context 3)"
proof -
  have sp: "trapSP (trap_vm kernel_context 0) 0 = 0x2ff4" "trapSP (trap_vm user_context 3) IntFlagSoftInt = 0x2eec"
    by (simp_all add: trapSP_def tssBase_def BaseOfDescriptor_def zero_descriptor_def trap_words trap_contexts)
  have entered: "vm_guestCPL vm' = 0 \<and> vm_context vm' = c \<and> (guestIF vm' \<longleftrightarrow> bit (sc_eflags c) 19)"
    if "windowOnly (vm\<lparr>vm_context := c, vm_gdt := g, vm_guestCPL := 0, vm_phymem := m, vm_nexus := n\<rparr>) vm'" for vm c g m n vm'
    using windowOnly_fields(1,2) [OF that] by (simp add: guestIF_def ef_bits)
  have b: "\<not> bit (0x202 :: Bit32u) 19" "bit (0x80202 :: Bit32u) 19" by simp_all
  show ?thesis
    using kernel_trap user_trap sp b
    by (intro conjI twp_mono [OF interrupt_delivery [OF trap_allPinned _ kernel_trapReady]]
        twp_mono [OF interrupt_delivery [OF trap_allPinned _ user_trapReady]])
      (auto simp: Let_def dest!: entered)
qed

text \<open>C16: In Linux mode, a return from the guest's kernel whose frame is in order takes the instruction pointer, code
  segment and flags, and for a return to user code the stack, from the doublewords at the guest's stack pointer. The
  guest's interrupt flag becomes that of the frame, the flags that \<^verbatim>\<open>IRET\<close> may load are those of the frame, the
  host's interrupts stay on, \<^verbatim>\<open>CR4.PVI\<close> is switched off exactly for user code, the guest's descriptors of the segments
  loaded are in the monitor's GDT at DPL 3, and nothing else changes but the windows.\<close>

theorem iret_return:
  assumes "allPinned vm" "vm_linuxVMMode vm \<noteq> 0" "vm_guestCPL vm = 0" "pvi_inv vm" "retReady vm"
  shows "twp (doIRET env) (\<lambda>_. windowOnly (vm\<lparr>vm_context := returnedContext vm, vm_gdt := returnedGDT vm,
     vm_guestCPL := (if retOuter vm then 3 else 0),
     vm_nexus := (if retOuter vm then (vm_nexus vm)\<lparr>nx_mon_cr4 := nx_mon_cr4 (vm_nexus vm) AND NOT 2\<rparr> else vm_nexus vm)\<rparr>)) vm"
  by (rule doIRET_twp [OF assms])
lemma returns:
  "returnedContext (trap_vm (kernel_context\<lparr>sc_esp := 0x3200\<rparr>) 0) =
     kernel_context\<lparr>sc_eip := 0xc0105678, sc_esp := 0x320c, sc_eflags := 0x80247\<rparr>"
  "returnedContext (trap_vm (kernel_context\<lparr>sc_esp := 0x3100\<rparr>) 0) =
     kernel_context\<lparr>sc_cs := 0x23, sc_ss := 0x2b, sc_eip := 0x08048000, sc_esp := 0x3800, sc_eflags := 0x246\<rparr>"
  "\<not> retOuter (trap_vm (kernel_context\<lparr>sc_esp := 0x3200\<rparr>) 0)" "retOuter (trap_vm (kernel_context\<lparr>sc_esp := 0x3100\<rparr>) 0)"
proof -
  let ?f = "\<lambda>b to. put_bit 9 True (put_bit 20 False (put_bit 19 b (foldr (\<lambda>n. put_bit n (bit (to :: Bit32u) n))
      [21, 18, 16, 14, 11, 10, 8, 7, 6, 4, 2, 0] (0x80202 :: Bit32u))))"
  have e: "?f True 0x80247 = 0x80247" "?f False 0x246 = 0x246"
    by (simp_all add: put_bit_def set_bit_eq_or unset_bit_eq_and_not)
  show "returnedContext (trap_vm (kernel_context\<lparr>sc_esp := 0x3200\<rparr>) 0) =
     kernel_context\<lparr>sc_eip := 0xc0105678, sc_esp := 0x320c, sc_eflags := 0x80247\<rparr>"
    "returnedContext (trap_vm (kernel_context\<lparr>sc_esp := 0x3100\<rparr>) 0) =
     kernel_context\<lparr>sc_cs := 0x23, sc_ss := 0x2b, sc_eip := 0x08048000, sc_esp := 0x3800, sc_eflags := 0x246\<rparr>"
    "\<not> retOuter (trap_vm (kernel_context\<lparr>sc_esp := 0x3200\<rparr>) 0)" "retOuter (trap_vm (kernel_context\<lparr>sc_esp := 0x3100\<rparr>) 0)"
    using e by (simp_all add: returnedContext_def returnedEFlags_def retOuter_def retCS_def retSS_def retEFlags_def trap_words trap_contexts
        sel_rpl_def ef_bits Let_def)
qed

theorem iret_return_witness:
  "twp (doIRET sample_env) (\<lambda>_ vm'. vm_guestCPL vm' = 0 \<and> nx_mon_cr4 (vm_nexus vm') = 2 \<and>
     vm_context vm' = kernel_context\<lparr>sc_eip := 0xc0105678, sc_esp := 0x320c, sc_eflags := 0x80247\<rparr>)
     (trap_vm (kernel_context\<lparr>sc_esp := 0x3200\<rparr>) 0) \<and>
   twp (doIRET sample_env) (\<lambda>_ vm'. vm_guestCPL vm' = 3 \<and> nx_mon_cr4 (vm_nexus vm') = 0 \<and>
     vm_context vm' = kernel_context\<lparr>sc_cs := 0x23, sc_ss := 0x2b, sc_eip := 0x08048000, sc_esp := 0x3800, sc_eflags := 0x246\<rparr>)
     (trap_vm (kernel_context\<lparr>sc_esp := 0x3100\<rparr>) 0)"
proof -
  have pvi: "pvi_inv (trap_vm c 0)" for c by (simp add: pvi_inv_def sample_nexus_def)
  have "vm_guestCPL vm' = k \<and> vm_context vm' = c \<and> vm_nexus vm' = n"
    if "windowOnly (vm\<lparr>vm_context := c, vm_gdt := g, vm_guestCPL := k, vm_nexus := n\<rparr>) vm'" for vm c g k n vm'
    using windowOnly_fields(1,2,4) [OF that] by simp
  then show ?thesis
    using returns
    by (intro conjI twp_mono [OF iret_return [OF trap_allPinned _ _ pvi kernel_retReady]]
        twp_mono [OF iret_return [OF trap_allPinned _ _ pvi user_retReady]]) (fastforce simp: sample_nexus_def)+
qed

section \<open>Segments\<close>

text \<open>C17: Loading a segment register in Linux mode, from a valid descriptor of the guest in one of the slots
  of the Linux layout: the monitor's GDT gets the guest's descriptor at DPL 3 in that slot, the register gets the
  selector with RPL 3, and nothing else changes but the window the descriptor was read through.\<close>

theorem segment_load:
  assumes "allPinned vm" "selValid vm sel" "sreg \<le> SRegGS" "ucast (d_dpl (guestDesc vm sel)) = sel_rpl sel"
    "sel_rpl sel \<in> {0, 3}" "vm_linuxVMMode vm \<noteq> 0" "linuxSlot (vm_guestCPL vm) sreg (sel_index sel)"
  shows "twp (loadGuestSegment env sreg sel) (\<lambda>ok vm'. ok \<and>
     windowOnly (vm\<lparr>vm_context := setSel sreg sel (vm_context vm),
       vm_gdt := (vm_gdt vm)(sel_index sel := downgraded (guestDesc vm sel))\<rparr>) vm') vm"
  by (rule loadGuestSegment_twp [OF assms])

text \<open>Guest page 0 holds the guest's GDT: a flat data segment in slot 3, and in slot 5 a call gate to
  0x80:0xabc, the code segment of the monitor.\<close>

definition gdt_mem :: "Bit32u \<Rightarrow> Bit8u" where
  "gdt_mem = (\<lambda>_. 0)(0x10018 := 0xff, 0x10019 := 0xff, 0x1001d := 0x92, 0x1001e := 0xcf,
     0x10028 := 0xbc, 0x10029 := 0x0a, 0x1002a := 0x80, 0x1002d := 0x8c)"

definition gdt_vm :: vm_t where
  "gdt_vm = sample_vm\<lparr>vm_guest_cpu := zero_guest_cpu\<lparr>cpu_gdtr := \<lparr>gi_limit = 0xff, gi_base = 0\<rparr>\<rparr>, vm_phymem := gdt_mem\<rparr>"

lemma gdt_simps [simp]:
  "vm_pages gdt_vm = sample_pages" "vm_guest_cpu gdt_vm = zero_guest_cpu\<lparr>cpu_gdtr := \<lparr>gi_limit = 0xff, gi_base = 0\<rparr>\<rparr>"
  "vm_phymem gdt_vm = gdt_mem" "vm_guestPageInfo gdt_vm = vm_guestPageInfo sample_vm" "vm_linuxVMMode gdt_vm = 1"
  "vm_guestCPL gdt_vm = 0" "vm_gdt gdt_vm = (\<lambda>_. zero_descriptor)" "vm_context gdt_vm = sample_context"
  by (simp_all add: gdt_vm_def)

lemma gdt_allPinned: "allPinned gdt_vm"
  using sample_allPinned by (simp add: allPinned_def n_bytes_def)

lemma gdt_linToPhy: "linToPhy gdt_vm l = Some l"
  by (simp add: linToPhy_def Let_def cr0_pg_def zero_guest_cpu_def)

lemma gdt_mapped: "unat l + n \<le> 0x4000 \<Longrightarrow> mappedBytes gdt_vm l n"
  by (auto simp: mappedBytes_def gdt_linToPhy n_bytes_def sample_pages_def word_less_nat_alt unat_word_ariths unat_of_nat)

lemma gdt_slots: "selValid gdt_vm 0x18" "selValid gdt_vm 0x28"
  by (simp_all add: selValid_def sel_ti_def sel_index_def selOffset_def gdt_mapped)

lemma gdt_bytes: "linBytes gdt_vm 0x18 8 = [0xff, 0xff, 0, 0, 0, 0x92, 0xcf, 0]"
  "linBytes gdt_vm 0x28 8 = [0xbc, 0x0a, 0x80, 0, 0, 0x8c, 0, 0]"
  by (simp_all add: linBytes_def gdt_linToPhy gbyte_def paged_bytes gdt_mem_def upt_rec)

lemma gdt_descs: "guestDesc gdt_vm 0x18 = desc_of_word 0xcf92000000ffff"
  "guestDesc gdt_vm 0x28 = desc_of_word 0x8c0000800abc"
  by (simp_all add: guestDesc_def linDesc_def selOffset_def gdt_bytes le_word_def)

theorem segment_load_witness:
  "selValid gdt_vm 0x18 \<and>
   twp (loadGuestSegment sample_env SRegDS 0x18) (\<lambda>ok vm'. ok \<and> BaseOfDescriptor (vm_gdt vm' 3) = 0 \<and> d_dpl (vm_gdt vm' 3) = 3) gdt_vm"
  using gdt_slots(1) segment_load [OF gdt_allPinned gdt_slots(1), of SRegDS sample_env]
  by (auto simp: gdt_descs desc_of_word_def sel_rpl_def linuxSlot_def sel_index_def windowOnly_def downgraded_def
      BaseOfDescriptor_def elim!: twp_mono)

text \<open>The type of the descriptor is not looked at: a gate in a data slot of the guest's GDT is installed in
  the monitor's GDT, at DPL 3, where code of the guest may call through it.\<close>

theorem segment_load_installs_gate:
  assumes "allPinned vm" "selValid vm sel" "sreg \<le> SRegGS" "ucast (d_dpl (guestDesc vm sel)) = sel_rpl sel"
    "sel_rpl sel \<in> {0, 3}" "vm_linuxVMMode vm \<noteq> 0" "linuxSlot (vm_guestCPL vm) sreg (sel_index sel)"
    "d_p (guestDesc vm sel) = 1" "\<not> bit (d_type (guestDesc vm sel)) 4"
  shows "twp (loadGuestSegment env sreg sel) (\<lambda>ok vm'. ok \<and> \<not> noGates (vm_gdt vm')) vm"
proof -
  have slot: "sel_index sel < 512" "sel_index sel \<notin> set monSlots"
    using assms(7) by (auto simp: linuxSlot_def monSlots_def split: if_splits)
  have "\<not> noGates (vm_gdt vm')"
    if "windowOnly (vm\<lparr>vm_context := c, vm_gdt := (vm_gdt vm)(sel_index sel := downgraded (guestDesc vm sel))\<rparr>) vm'" for c vm'
    using that slot assms(8,9) by (auto simp: windowOnly_def noGates_def downgraded_def)
  then show ?thesis
    using loadGuestSegment_twp [OF assms(1-7), of env] by (auto elim!: twp_mono)
qed

theorem segment_load_installs_gate_witness:
  "noGates (vm_gdt gdt_vm) \<and>
   twp (loadGuestSegment sample_env SRegDS 0x28) (\<lambda>ok vm'. ok \<and> \<not> noGates (vm_gdt vm')) gdt_vm"
  using gdt_slots(2) segment_load_installs_gate [OF gdt_allPinned gdt_slots(2), of SRegDS sample_env]
  by (auto simp: gdt_descs desc_of_word_def sel_rpl_def linuxSlot_def sel_index_def noGates_def zero_descriptor_def)

section \<open>System instructions\<close>

text \<open>C3: Whatever bytes the guest executes, the emulator never reads past its 16-byte opcode buffer, never
  indexes a register or a table out of range, and leaves code and stack selectors at ring 3, EFLAGS tame, the
  monitor's descriptors in place and the shadow tables isolated.\<close>

theorem emulation_safe:
  assumes "mon_inv m c g vm"
  shows "emulateSysInstr env vm \<noteq> Undef e \<and> (\<forall>ok vm'. emulateSysInstr env vm = Ret ok vm' \<longrightarrow> mon_inv m c g vm') \<and>
     emulateUserInstr env vm \<noteq> Undef e \<and> (\<forall>vm'. emulateUserInstr env vm = Ret () vm' \<longrightarrow> mon_inv m c g vm')"
  using pres_not_Undef [OF monitor.emulateSysInstr_pres assms] pres_Ret [OF monitor.emulateSysInstr_pres assms]
    pres_not_Undef [OF monitor.emulateUserInstr_pres assms] pres_Ret [OF monitor.emulateUserInstr_pres assms]
  by blast

theorem emulation_safe_witness:
  "mon_inv 0x300 0x100007 [zero_descriptor, zero_descriptor, zero_descriptor] sample_vm \<and>
   emulateSysInstr sample_env sample_vm \<noteq> Undef ''opcode''"
  using emulation_safe [OF sample_mon_inv] sample_mon_inv by blast

text \<open>Two prefixes in a row make the emulation fail without touching the machine: the emulator does not
  run along a string of prefixes.\<close>

theorem two_prefixes_fail:
  assumes "length op = 15" "op ! 0 \<in> {0x2e, 0x66, 0x9b, 0xf0}" "op ! 1 \<in> {0x2e, 0x66, 0x9b, 0xf0}"
  shows "decodeOpcode env op 0 opsize vm = Ret (Return False) vm"
proof -
  have "decodeOpcode env op 1 opsize' vm = Ret (Return False) vm" for opsize'
    using assms by (subst decodeOpcode.simps) (simp add: opByte_def)
  then show ?thesis
    using assms by (subst decodeOpcode.simps) (auto simp: opByte_def)
qed

theorem two_prefixes_fail_witness:
  "length (0x2e # 0x66 # replicate 13 0x90 :: Bit8u list) = 15 \<and>
   decodeOpcode sample_env (0x2e # 0x66 # replicate 13 0x90) 0 True sample_vm = Ret (Return False) sample_vm"
  using two_prefixes_fail [of "0x2e # 0x66 # replicate 13 0x90" sample_env True sample_vm] by simp

text \<open>\<^verbatim>\<open>HLT\<close> with the guest's interrupts on, timer 0 running and its line free ends after finitely many
  clocks with the interrupt line up, and the instruction completes.\<close>

theorem hlt_wakes:
  assumes "pit_ok vm" "pic_inv vm" "t_active (pitTimer 0 vm) \<noteq> 0" "0 \<notin> pic_masked vm" "pic_inService vm = {}"
    "ef_vif (sc_eflags (vm_context vm))"
  shows "twp (sysHLT env iLen) (\<lambda>r vm'. r = Advance iLen \<and> pic_inv vm' \<and> pic_line vm') vm"
  using twp_mono [OF hltWait_twp [OF assms(1-5)]] assms(6) by (simp add: sysHLT_def)

theorem hlt_wakes_witness:
  "t_active (pitTimer 0 sample_vm) \<noteq> 0 \<and> twp (sysHLT sample_env 1) (\<lambda>r vm'. r = Advance 1 \<and> pic_line vm') sample_vm"
  using hlt_wakes [OF sample_pit_ok(1) sample_pic_inv(1), of sample_env 1] sample_pit_ok sample_pic_inv
  by (auto simp: sample_timer_def sample_context_def ef_vif_def elim!: twp_mono)

text \<open>With timer 0 stopped and no interrupt pending, \<^verbatim>\<open>HLT\<close> never ends: the loop only advances the
  timer and leaves every other source of interrupts, the host's included, unserved.\<close>

theorem hlt_hangs:
  assumes "pit_ok vm" "pic_inv vm" "\<not> pic_line vm" "t_active (pitTimer 0 vm) = 0" "ef_vif (sc_eflags (vm_context vm))"
  shows "sysHLT env iLen vm = Hang"
  by (rule sysHLT_hangs) (use assms in \<open>simp_all add: hltStuck_def\<close>)

definition idle_vm :: vm_t where
  "idle_vm = sample_vm\<lparr>vm_io := zero_io\<rparr>"

theorem hlt_hangs_witness: "\<not> pic_line idle_vm \<and> sysHLT sample_env 1 idle_vm = Hang"
proof -
  have "pit_ok idle_vm" "pic_inv idle_vm" "\<not> pic_line idle_vm" "t_active (pitTimer 0 idle_vm) = 0"
    "ef_vif (sc_eflags (vm_context idle_vm))"
    by (auto simp: idle_vm_def pit_ok_def pic_inv_def pic_defs zero_io_def zero_pit_def zero_pit_timer_def zero_pic_def
        zero_system_def sample_context_def ef_vif_def)
  then show ?thesis using hlt_hangs [of idle_vm sample_env 1] by blast
qed

text \<open>C27: Loading \<^verbatim>\<open>CR3\<close> succeeds, sets the guest's register, reloads the monitor's own \<^verbatim>\<open>CR3\<close>, and
  leaves no translation outside the monitor's 4 MB range: nothing of the old address space stays reachable.\<close>

theorem mov_cr3_flushes:
  "twp (setCRx env 3 v) (\<lambda>ok vm'. ok \<and> cpu_cr3 (vm_guest_cpu vm') = v \<and> hw_cr3 (vm_hw vm') = nx_mon_cr3 (vm_nexus vm) \<and>
     {lin. shadowXlate vm' lin w \<noteq> None} \<subseteq> {lin. lin_pdi lin = unat (vm_mon_pdi vm)}) vm"
proof -
  have eq: "monInitShadowPaging env vm = Ret () (upd_hw (\<lambda>h. h\<lparr>hw_cr3 := nx_mon_cr3 (vm_nexus vm)\<rparr>) (shadowReset env vm))" for vm
    by (simp add: monInitShadowPaging_eq thn_app(1) [OF hostInitShadowPaging_eq] loadCR3_def shadowReset_def)
  show ?thesis
    by (auto simp: setCRx_def twp_Ret_eq [OF eq] updCpu_def shadowXlate_def Let_def userMay_def pe_P_def shadowReset_def)
qed

text \<open>C28: \<^verbatim>\<open>INVLPG\<close>, for a guest with paging on and an address outside the monitor's 4 MB range (the emulation panics
  otherwise): \<^verbatim>\<open>invalidateGuestLinAddr\<close> returns, afterwards no access to the page of the address translates under the
  monitor's page tables, every other address translates as before, and the processor's TLB entry of the page was
  dropped last.\<close>

theorem invlpg_drops_mapping:
  assumes "mon_inv m c g vm" "cr0_pg (vm_guest_cpu vm)" "a AND 0xffc00000 \<noteq> vm_mon_pde_mask vm"
  shows "twp (invalidateGuestLinAddr env a) (\<lambda>_ vm'. hd (hw_invlpg (vm_hw vm')) = Guest2Monitor vm a \<and>
     (\<forall>l w. shadowXlate vm' l w = (if drop_bit 12 l = drop_bit 12 a then None else shadowXlate vm l w))) vm"
  by (rule invalidate_xlate [OF assms])

definition invlpg_vm :: vm_t where
  "invlpg_vm = mapped_vm\<lparr>vm_guest_cpu := zero_guest_cpu\<lparr>cpu_cr0 := 0x80000033\<rparr>\<rparr>"

lemma invlpg_vm_inv: "mon_inv 0x300 0x100007 [zero_descriptor, zero_descriptor, zero_descriptor] invlpg_vm"
  using mapped_mon_inv by (simp add: invlpg_vm_def mon_inv_def isolated_print.print_fr gdtOK_def monTableOK_def)

lemma invlpg_vm_xlate: "shadowXlate invlpg_vm 0x2abc True = Some 0x12abc"
proof -
  have "tableAt invlpg_vm = tableAt mapped_vm" by (simp add: fun_eq_iff tableAt_def invlpg_vm_def)
  moreover have "vm_page_dir invlpg_vm = vm_page_dir mapped_vm" by (simp add: invlpg_vm_def)
  ultimately show ?thesis using mapped_xlate unfolding shadowXlate_def by (simp only:)
qed

theorem invlpg_drops_mapping_witness:
  "shadowXlate invlpg_vm 0x2abc True = Some 0x12abc \<and>
   twp (invalidateGuestLinAddr sample_env 0x2000) (\<lambda>_ vm'. shadowXlate vm' 0x2abc True = None) invlpg_vm"
proof -
  have "twp (invalidateGuestLinAddr sample_env 0x2000) (\<lambda>_ vm'. hd (hw_invlpg (vm_hw vm')) = Guest2Monitor invlpg_vm 0x2000 \<and>
     (\<forall>l w. shadowXlate vm' l w = (if drop_bit 12 l = drop_bit 12 0x2000 then None else shadowXlate invlpg_vm l w))) invlpg_vm"
    by (rule invlpg_drops_mapping [OF invlpg_vm_inv]) (simp_all add: invlpg_vm_def cr0_pg_def)
  then show ?thesis using invlpg_vm_xlate by (auto elim!: twp_mono)
qed

end
