(* ===== verification/Host_Init.thy ===== *)
theory Host_Init
  imports Mon_Paging Io_Misc
begin

text \<open>
  Setting up a virtual machine in the host kernel, \<^verbatim>\<open>host-space/monitor.c\<close>: \<^verbatim>\<open>hostInitMonitor\<close>
  builds the monitor's address space (the nexus page table, the transition page table), its TSS, IDT and
  first stack frame, \<^verbatim>\<open>hostMapMonitor\<close> places it at 0x70000000 and fills the GDT,
  \<^verbatim>\<open>hostInitGuestPhyMem\<close> marks the guest's pages, \<^verbatim>\<open>hostInitLinuxIOEnvironment\<close> sets up the
  devices.

  \<open>kenv\<close> is what this code takes from the kernel it is loaded into and from the linker:
  \<^item> \<open>ke_getPage\<close>, \<open>ke_vmalloc\<close>: \<^verbatim>\<open>get_zeroed_page\<close> and \<^verbatim>\<open>vmalloc\<close>, 0 when they fail;
  \<^item> \<open>ke_pa\<close>: \<^verbatim>\<open>__pa\<close>; \<open>ke_pgd\<close>, \<open>ke_pte\<close>: the entries of the kernel's own page tables that cover
    an address; \<open>ke_kmap\<close>: \<^verbatim>\<open>kmap\<close> of a page structure;
  \<^item> \<open>ke_vm\<close>, \<open>ke_sizeof_vm\<close>: the address of the \<^verbatim>\<open>vm_t\<close> and \<^verbatim>\<open>sizeof(vm_t)\<close>;
  \<^item> \<open>ke_nexus\<close>: what \<^verbatim>\<open>nexus.S\<close> holds in the fields of \<^verbatim>\<open>nexus_t\<close>, and the addresses of its labels.
\<close>

record kenv =
  ke_getPage :: "vm_t \<Rightarrow> Bit32u"
  ke_vmalloc :: "vm_t \<Rightarrow> Bit32u \<Rightarrow> Bit32u"
  ke_pa :: "Bit32u \<Rightarrow> Bit32u"
  ke_pgd :: "vm_t \<Rightarrow> Bit32u \<Rightarrow> Bit32u"
  ke_pte :: "vm_t \<Rightarrow> Bit32u \<Rightarrow> Bit32u"
  ke_kmap :: "Bit32u \<Rightarrow> Bit32u"
  ke_vm :: Bit32u
  ke_sizeof_vm :: Bit32u
  ke_nexus :: nexus_t
  ke_nexus_start :: Bit32u
  ke_nexus_end :: Bit32u
  ke_host2mon :: Bit32u
  ke_mon2host :: Bit32u
  ke_mon_cs :: Bit32u
  ke_handle_fault :: Bit32u
  ke_handle_int :: Bit32u
  ke_ret_to_guest :: Bit32u

section \<open>Sizes\<close>

definition PAGESIZE :: Bit32u where "PAGESIZE = 4096"
definition IDT_STUB_SIZE :: nat where "IDT_STUB_SIZE = 15"
definition sizeof_guestStackContext :: Bit32u where "sizeof_guestStackContext = 76"
definition sizeof_tss :: Bit32u where "sizeof_tss = 104"
definition sizeof_phyPageInfo :: Bit32u where "sizeof_phyPageInfo = 16"

lemmas host_sizes [simp] = PAGESIZE_def IDT_STUB_SIZE_def sizeof_guestStackContext_def sizeof_tss_def
  sizeof_phyPageInfo_def

text \<open>The tables of the monitor that fit one page each.\<close>

definition MON_IDT_PAGES :: nat where "MON_IDT_PAGES = unat (BytesToPages (of_nat MON_IDT_SIZE))"
definition MON_GDT_PAGES :: nat where "MON_GDT_PAGES = unat (BytesToPages (of_nat MON_GDT_SIZE))"
definition MON_LDT_PAGES :: nat where "MON_LDT_PAGES = unat (BytesToPages (8 * 1))"
definition MON_TSS_PAGES :: nat where "MON_TSS_PAGES = unat (BytesToPages 104)"
definition MON_IDT_STUBS_PAGES :: nat where "MON_IDT_STUBS_PAGES = unat (BytesToPages (of_nat IDT_STUB_SIZE * 256))"

lemma mon_pages [simp]: "MON_IDT_PAGES = 1" "MON_GDT_PAGES = 1" "MON_LDT_PAGES = 1" "MON_TSS_PAGES = 1"
  "MON_IDT_STUBS_PAGES = 1"
  by (simp_all add: MON_IDT_PAGES_def MON_GDT_PAGES_def MON_LDT_PAGES_def MON_TSS_PAGES_def MON_IDT_STUBS_PAGES_def
      BytesToPages_def)

definition MON_BASE_FROM_LADDR :: "henv \<Rightarrow> Bit32u \<Rightarrow> Bit32u" where
  "MON_BASE_FROM_LADDR env laddr = laddr - he_startOffsetPageAligned env"

definition HOST_NEXUS_OFFSET :: "kenv \<Rightarrow> vm_t \<Rightarrow> Bit32u \<Rightarrow> Bit32u" where
  "HOST_NEXUS_OFFSET ke vm field = ad_nexus (vm_host_addr vm) + (field - ke_nexus_start ke)"

definition MON_NEXUS_OFFSET :: "kenv \<Rightarrow> vm_t \<Rightarrow> Bit32u \<Rightarrow> Bit32u" where
  "MON_NEXUS_OFFSET ke vm field = ad_nexus (vm_guest_addr vm) + (field - ke_nexus_start ke)"

section \<open>Mapping pages into the monitor\<close>

definition setNexusPTE :: "nat \<Rightarrow> pageEntry_t \<Rightarrow> unit mon" where
  "setNexusPTE pti e =
     thn (inBounds ''pageTable->pte'' (pti < 1024))
     (modify (\<lambda>vm. vm\<lparr>vm_nexus_page_tbl := (vm_nexus_page_tbl vm)(pti := e)\<rparr>))"

fun mapMonLoop :: "(nat \<Rightarrow> Bit32u) \<Rightarrow> bool \<Rightarrow> bool \<Rightarrow> nat \<Rightarrow> nat \<Rightarrow> nat \<Rightarrow> unit mon" where
  "mapMonLoop pages user writable i 0 pti = ret ()"
| "mapMonLoop pages user writable i (Suc n) pti =
     (if pti > 1024 then ret ()
      else
        thn (setNexusPTE pti (pe_make (pages i) user writable True))
        (mapMonLoop pages user writable (i + 1) n (pti + 1)))"

text \<open>Both return the advanced linear address.\<close>

definition hostMapMonPages :: "(nat \<Rightarrow> Bit32u) \<Rightarrow> nat \<Rightarrow> bool \<Rightarrow> bool \<Rightarrow> Bit32u \<Rightarrow> Bit32u mon" where
  "hostMapMonPages pages n user writable laddr =
     thn (mapMonLoop pages user writable 0 n (unat (drop_bit 12 laddr AND 0x3ff)))
     (ret (laddr + 4096 * of_nat n))"

definition hostMapBlankPage :: "Bit32u \<Rightarrow> Bit32u mon" where
  "hostMapBlankPage laddr =
     (let pti = unat (drop_bit 12 laddr AND 0x3ff) in
      if pti > 1024 then ret laddr
      else thn (setNexusPTE pti (pe_make 0 False False False)) (ret (laddr + 4096)))"

text \<open>
  The regions of the monitor's address space in the order of the code: whether a blank page comes
  first, where the region's address is stored, its physical pages and their number.
\<close>

record monRegion =
  mr_blank :: bool
  mr_addr :: "Bit32u \<Rightarrow> vm_addr_t \<Rightarrow> vm_addr_t"
  mr_nexus :: "Bit32u \<Rightarrow> nexus_t \<Rightarrow> nexus_t"
  mr_pages :: "(nat \<Rightarrow> Bit32u) \<Rightarrow> vm_pages_t \<Rightarrow> nat \<Rightarrow> Bit32u"
  mr_n :: "vm_pages_t \<Rightarrow> nat"

definition region ::
  "(Bit32u \<Rightarrow> vm_addr_t \<Rightarrow> vm_addr_t) \<Rightarrow> (vm_pages_t \<Rightarrow> nat \<Rightarrow> Bit32u) \<Rightarrow> nat \<Rightarrow> monRegion" where
  "region addr pages n =
     \<lparr>mr_blank = True, mr_addr = addr, mr_nexus = (\<lambda>_ nx. nx), mr_pages = (\<lambda>_. pages), mr_n = (\<lambda>_. n)\<rparr>"

text \<open>The code of the module has no pointer of its own; the pages of \<^verbatim>\<open>guestPageInfo\<close> are in an array of
  their own; the page \<^verbatim>\<open>tmp_phy_page1\<close> follows its neighbour without a blank page.\<close>

definition monRegions :: "henv \<Rightarrow> kenv \<Rightarrow> monRegion list" where
  "monRegions env ke =
     [(region (\<lambda>_ ad. ad) (\<lambda>_. he_ppi env) (unat (he_nPages env)))\<lparr>mr_blank := False\<rparr>,
      region (\<lambda>a ad. ad\<lparr>ad_nexus := a, ad_guestStackContext := a + PAGESIZE - sizeof_guestStackContext\<rparr>)
        (\<lambda>pg _. pg_nexus pg) 1,
      (region (\<lambda>_ ad. ad) pg_vm (unat (BytesToPages (ke_sizeof_vm ke))))\<lparr>mr_nexus := (\<lambda>a nx. nx\<lparr>nx_vm := a\<rparr>)\<rparr>,
      region (\<lambda>a ad. ad\<lparr>ad_idt := a\<rparr>) pg_idt MON_IDT_PAGES,
      region (\<lambda>a ad. ad\<lparr>ad_gdt := a\<rparr>) pg_gdt MON_GDT_PAGES,
      region (\<lambda>a ad. ad\<lparr>ad_ldt := a\<rparr>) pg_ldt MON_LDT_PAGES,
      region (\<lambda>a ad. ad\<lparr>ad_tss := a\<rparr>) pg_tss MON_TSS_PAGES,
      region (\<lambda>a ad. ad\<lparr>ad_idt_stubs := a\<rparr>) pg_idt_stubs MON_IDT_STUBS_PAGES,
      region (\<lambda>a ad. ad\<lparr>ad_monLogBuffer := a\<rparr>) (\<lambda>pg _. pg_monLogBuffer pg) 1,
      region (\<lambda>a ad. ad\<lparr>ad_page_dir := a\<rparr>) (\<lambda>pg _. pg_page_dir pg) 1,
      region (\<lambda>a ad. ad\<lparr>ad_nexus_page_tbl := a\<rparr>) (\<lambda>pg _. pg_nexus_page_tbl pg) 1,
      region (\<lambda>a ad. ad\<lparr>ad_page_tbl := a\<rparr>) pg_page_tbl MON_PAGE_TABLES,
      region (\<lambda>a ad. ad\<lparr>ad_page_tbl_laddr_map := a\<rparr>) (\<lambda>pg _. pg_page_tbl_laddr_map pg) 1,
      region (\<lambda>a ad. ad\<lparr>ad_guest_cpu := a\<rparr>) (\<lambda>pg _. pg_guest_cpu pg) 1,
      (region (\<lambda>a ad. ad\<lparr>ad_guestPageInfo := a\<rparr>) (\<lambda>_ _. 0) 0)\<lparr>mr_pages := (\<lambda>info _. info),
        mr_n := (\<lambda>pg. unat (BytesToPages (sizeof_phyPageInfo * pg_guest_n_pages pg)))\<rparr>,
      region (\<lambda>a ad. ad\<lparr>ad_userLogBuffer := a\<rparr>) pg_userLogBuffer 1,
      region (\<lambda>a ad. ad\<lparr>ad_code_phy_page := a\<rparr>) (\<lambda>_ _. 0) 1,
      region (\<lambda>a ad. ad\<lparr>ad_tmp_phy_page0 := a\<rparr>) (\<lambda>_ _. 0) 1,
      (region (\<lambda>a ad. ad\<lparr>ad_tmp_phy_page1 := a\<rparr>) (\<lambda>_ _. 0) 1)\<lparr>mr_blank := False\<rparr>]"

definition mapRegion :: "Bit32u \<Rightarrow> monRegion \<Rightarrow> Bit32u \<Rightarrow> Bit32u mon" where
  "mapRegion base r laddr =
     bnd (if mr_blank r then hostMapBlankPage laddr else ret laddr) (\<lambda>laddr.
     thn (modify (\<lambda>vm. vm\<lparr>vm_guest_addr := mr_addr r (laddr - base) (vm_guest_addr vm),
            vm_nexus := mr_nexus r (laddr - base) (vm_nexus vm)\<rparr>))
     (bnd (gets (\<lambda>vm. (mr_pages r (vm_guestPageInfoPages vm) (vm_pages vm), mr_n r (vm_pages vm)))) (\<lambda>(pages, n).
      hostMapMonPages pages n False True laddr)))"

fun mapRegions :: "Bit32u \<Rightarrow> monRegion list \<Rightarrow> Bit32u \<Rightarrow> Bit32u mon" where
  "mapRegions base [] laddr = ret laddr"
| "mapRegions base (r # rs) laddr = bnd (mapRegion base r laddr) (mapRegions base rs)"

definition hostMapNexus :: "henv \<Rightarrow> kenv \<Rightarrow> unit mon" where
  "hostMapNexus env ke =
     thn (modify (\<lambda>vm. vm\<lparr>vm_host_nexus_pde := pe_make (pg_nexus_page_tbl (vm_pages vm)) True True True,
            vm_nexus_page_tbl := nexusMemZero (vm_nexus_page_tbl vm) 0 1024\<rparr>))
     (bnd (mapRegions (MON_BASE_FROM_LADDR env 0) (monRegions env ke) 0) (\<lambda>laddr.
      thn (hostMapBlankPage laddr)
      (modify (\<lambda>vm. vm\<lparr>vm_mon2host := MON_NEXUS_OFFSET ke vm (ke_mon2host ke)\<rparr>))))"

section \<open>The rest of the monitor\<close>

text \<open>The data structures before anything is mapped.\<close>

definition hostInitData :: "kenv \<Rightarrow> unit mon" where
  "hostInitData ke = modify (\<lambda>vm. vm\<lparr>
     vm_host2mon := HOST_NEXUS_OFFSET ke vm (ke_host2mon ke),
     vm_host_addr := (vm_host_addr vm)\<lparr>ad_guestStackContext :=
       ad_nexus (vm_host_addr vm) + PAGESIZE - sizeof_guestStackContext\<rparr>,
     vm_userLogBuffer := (\<lambda>_. char_of (0 :: nat)), vm_userLogBufferInfo := zero_logInfo,
     vm_monLogBuffer := (\<lambda>_. char_of (0 :: nat)), vm_monLogBufferInfo := zero_logInfo,
     vm_page_dir := nexusMemZero (vm_page_dir vm) 0 1024, vm_guest_cpu := zero_guest_cpu,
     vm_idt := (\<lambda>_. zero_gate), vm_gdt := (\<lambda>_. zero_descriptor), vm_ldt := (\<lambda>_. zero_descriptor),
     vm_tss := zero_tss, vm_idt_stubs := nexusMemZero (vm_idt_stubs vm) 0 4096,
     vm_pinQueue := (vm_pinQueue vm)\<lparr>pq_nEntries := 0, pq_tail := 0\<rparr>\<rparr>)"

text \<open>The transition page table: one page of identity mapping for the code that switches page directories.\<close>

definition hostInitTransition :: "unit mon" where
  "hostInitTransition =
     bnd (gets (\<lambda>vm. ad_nexus (vm_host_addr vm) + vm_kernel_offset vm)) (\<lambda>laddr.
     (let pdi = drop_bit 22 laddr; pti = unat (drop_bit 12 laddr AND 0x3ff) in
      modify (\<lambda>vm. vm\<lparr>
        vm_nexus := (vm_nexus vm)\<lparr>
          nx_transition_pde_p_host := ad_page_dir (vm_host_addr vm) + 4 * pdi,
          nx_transition_pde_p_mon := ad_page_dir (vm_guest_addr vm) + push_bit 2 pdi,
          nx_transition_laddr := laddr,
          nx_transition_pde := pe_make (pg_transition_PT (vm_pages vm)) False True True\<rparr>,
        vm_transition_PT := (nexusMemZero (vm_transition_PT vm) 0 1024)
          (pti := pe_make (pg_nexus (vm_pages vm)) False True True)\<rparr>)))"

definition hostInitTSS :: "kenv \<Rightarrow> unit mon" where
  "hostInitTSS ke =
     thn (modify (\<lambda>vm. vm\<lparr>vm_tss := (vm_tss vm)\<lparr>tss_back := 0, tss_trap := 0, tss_io := ucast sizeof_tss,
            tss_esp0 := ad_nexus (vm_guest_addr vm) + PAGESIZE\<rparr>\<rparr>))
     (modify (\<lambda>vm. upd_nexus (\<lambda>nx. nx\<lparr>
        nx_mon_jmp_info := (nx_mon_jmp_info nx)\<lparr>fj_offset := MON_NEXUS_OFFSET ke vm (ke_mon_cs ke)\<rparr>,
        nx_mon_stack_info := (nx_mon_stack_info nx)\<lparr>fj_offset :=
          tss_esp0 (vm_tss vm) - (sizeof_guestStackContext + 48)\<rparr>\<rparr>) vm))"

section \<open>The interrupt stubs\<close>

datatype idt_type = IDT_INTERRUPT | IDT_EXCEPTION_ERROR | IDT_EXCEPTION_NOERROR

text \<open>A packed doubleword in memory, and the two kinds of stub: push the vector (after a dummy error code
  where the processor pushes none) and jump to the handler, relative to the end of the stub.\<close>

definition dwordBytes :: "Bit32u \<Rightarrow> Bit8u list" where
  "dwordBytes w = map (\<lambda>i. ucast (drop_bit (8 * i) w)) [0..<4]"

definition idt_method1 :: "Bit32u \<Rightarrow> Bit32u \<Rightarrow> Bit8u list" where
  "idt_method1 vector reloc = [0x68] @ dwordBytes vector @ [0xe9] @ dwordBytes reloc"

definition idt_method2 :: "Bit32u \<Rightarrow> Bit32u \<Rightarrow> Bit8u list" where
  "idt_method2 vector reloc = [0x68] @ dwordBytes 0 @ [0x68] @ dwordBytes vector @ [0xe9] @ dwordBytes reloc"

definition idtStub :: "kenv \<Rightarrow> Bit32u \<Rightarrow> Bit32u \<Rightarrow> idt_type \<Rightarrow> Bit8u list" where
  "idtStub ke stub_mon vec ty =
     (case ty of
        IDT_INTERRUPT \<Rightarrow> idt_method2 vec (ke_handle_int ke - (stub_mon + 15))
      | IDT_EXCEPTION_ERROR \<Rightarrow> idt_method1 vec (ke_handle_fault ke - (stub_mon + 10))
      | IDT_EXCEPTION_NOERROR \<Rightarrow> idt_method2 vec (ke_handle_fault ke - (stub_mon + 15)))"

definition putBytes :: "nat \<Rightarrow> Bit8u list \<Rightarrow> (nat \<Rightarrow> Bit8u) \<Rightarrow> (nat \<Rightarrow> Bit8u)" where
  "putBytes off bs m = (\<lambda>a. if off \<le> a \<and> a < off + length bs then bs ! (a - off) else m a)"

definition hostInitIDTSlot :: "kenv \<Rightarrow> nat \<Rightarrow> idt_type \<Rightarrow> unit mon" where
  "hostInitIDTSlot ke vec ty =
     thn (inBounds ''idt'' (vec < 256))
     (bnd (gets (\<lambda>vm. ad_idt_stubs (vm_guest_addr vm) + of_nat vec * of_nat IDT_STUB_SIZE)) (\<lambda>stub_mon.
      modify (\<lambda>vm. vm\<lparr>
        vm_idt_stubs := putBytes (vec * IDT_STUB_SIZE) (idtStub ke stub_mon (of_nat vec) ty) (vm_idt_stubs vm),
        vm_idt := (vm_idt vm)(vec := SET_INT_GATE (vm_idt vm vec) 0 stub_mon 1 0 1)\<rparr>)))"

definition idtTypeOf :: "nat \<Rightarrow> idt_type" where
  "idtTypeOf vec =
     (if vec = 2 then IDT_INTERRUPT
      else if vec \<in> {8, 10, 11, 12, 13, 14, 17} then IDT_EXCEPTION_ERROR
      else if vec < 32 then IDT_EXCEPTION_NOERROR
      else IDT_INTERRUPT)"

definition hostInitIDT :: "kenv \<Rightarrow> unit mon" where
  "hostInitIDT ke = forM [0..<256] (\<lambda>vec. hostInitIDTSlot ke vec (idtTypeOf vec))"

text \<open>The frame that the first switch to the monitor pops: the return address, EFLAGS, eight general
  registers, FS and GS.\<close>

definition hostWindStack :: "kenv \<Rightarrow> unit mon" where
  "hostWindStack ke =
     modify (\<lambda>vm. vm\<lparr>vm_context := zero_guestStackContext,
       vm_monStack := (\<lambda>n. if n = 0 then ke_ret_to_guest ke else if n = 1 then 0x02
         else if n < 12 then 0 else vm_monStack vm n)\<rparr>)"

definition KERNEL_OFFSET :: Bit32u where "KERNEL_OFFSET = 0"

definition hostInitMonitor :: "henv \<Rightarrow> kenv \<Rightarrow> bool mon" where
  "hostInitMonitor env ke =
     thn (modify (\<lambda>vm. set_INTR 0 (vm\<lparr>vm_kernel_offset := KERNEL_OFFSET\<rparr>)))
     (thn (modify (upd_io (\<lambda>io. io\<lparr>io_cpuToPitRatio := 100\<rparr>)))
     (thn (modify (\<lambda>vm. vm\<lparr>vm_nexus := zero_nexus, vm_context := zero_guestStackContext, vm_monStack := (\<lambda>_. 0)\<rparr>))
     (if ke_nexus_end ke - ke_nexus_start ke > 4096 then ret False
      else
        thn (modify (\<lambda>vm. vm\<lparr>vm_nexus := ke_nexus ke\<rparr>))
        (thn (hostInitData ke)
        (thn (hostMapNexus env ke)
        (thn hostInitTransition
        (thn (hostInitTSS ke)
        (thn (hostInitIDT ke)
        (thn (hostWindStack ke)
        (thn (modify (\<lambda>vm. vm\<lparr>vm_vmState := vm_vmState vm OR VMStateInitMonitor, vm_mon_request := MonReqNone\<rparr>))
        (ret True))))))))))) "

section \<open>The guest's physical memory\<close>

definition setAttr :: "Bit32u \<Rightarrow> (Bit32u \<Rightarrow> Bit32u) \<Rightarrow> unit mon" where
  "setAttr ppi f = updPageInfo ppi (\<lambda>p. p\<lparr>pp_attr := f (pp_attr p)\<rparr>)"

text \<open>True when the structure is missing.\<close>

definition hostInitGuestPhyMem :: "bool mon" where
  "hostInitGuestPhyMem =
     bnd (gets (\<lambda>vm. ad_guestPageInfo (vm_host_addr vm))) (\<lambda>info.
     if info = 0 then ret True
     else
       bnd (gets (\<lambda>vm. pg_guest_n_pages (vm_pages vm))) (\<lambda>n.
       thn (forM [0..<unat n] (\<lambda>i. updPageInfo (of_nat i) (\<lambda>p. p\<lparr>pp_attr := set_bit 9 0, pp_tsc := 0\<rparr>)))
       (thn (forM [0..<16] (\<lambda>i. setAttr (drop_bit 12 0xf0000 + of_nat i) (set_bit 8)))
       (thn (forM [0..<8] (\<lambda>i. setAttr (drop_bit 12 0xc0000 + of_nat i) (set_bit 8)))
       (bnd (gets vm_linuxVMMode) (\<lambda>linux.
        thn (whenM (linux = 0) (forM [0..<32] (\<lambda>i. setAttr (drop_bit 12 0xa0000 + of_nat i) (set_bit 7))))
        (ret False)))))))"

section \<open>Placing the monitor\<close>

definition D_LINUX_DS :: descriptor_t where
  "D_LINUX_DS = SET_DESCRIPTOR 0 0xfffff 1 1 0 1 3 D_DATA_WRITE"

definition hostMapMonitor :: "henv \<Rightarrow> bool mon" where
  "hostMapMonitor env =
     (let laddr = 0x70000000 :: Bit32u; base = MON_BASE_FROM_LADDR env laddr;
          monCsSel = ucast (Selector (of_nat VMMonCsSlot) 0 0) :: selector_t;
          monSsSel = ucast (Selector (of_nat VMMonDsSlot) 0 0) :: selector_t;
          monTssSel = ucast (Selector (of_nat VMMonTssSlot) 0 0) :: selector_t
      in
      thn (modify (\<lambda>vm. vm\<lparr>vm_mon_pde_mask := laddr AND 0xffc00000, vm_mon_pdi := drop_bit 22 laddr\<rparr>))
      (thn (modify (\<lambda>vm. vm\<lparr>vm_page_dir := (vm_page_dir vm)(unat (drop_bit 22 laddr) := vm_host_nexus_pde vm)\<rparr>))
      (thn (modify (\<lambda>vm. vm\<lparr>vm_gdt := (vm_gdt vm)(
             sel_index monCsSel := SET_DESCRIPTOR base 0xfffff 1 1 0 1 0 D_CODE_READ,
             sel_index monSsSel := SET_DESCRIPTOR base 0xfffff 1 1 0 1 0 D_DATA_WRITE,
             sel_index monTssSel := SET_DESCRIPTOR (base + ad_tss (vm_guest_addr vm)) (sizeof_tss - 1) 0 0 0 1 0 D_TSS)\<rparr>))
      (thn (bnd (gets vm_linuxVMMode) (\<lambda>linux. whenM (linux \<noteq> 0)
             (thn (modify (\<lambda>vm. vm\<lparr>vm_gdt := (vm_gdt vm)(LinuxKernelDsSlot := D_LINUX_DS)\<rparr>))
             (modify (\<lambda>vm. vm\<lparr>vm_gdt := (vm_gdt vm)(LinuxBootDsSlot := vm_gdt vm LinuxKernelDsSlot)\<rparr>)))))
      (thn (forM [0..<256] (\<lambda>slot. modify (\<lambda>vm. vm\<lparr>vm_idt := (vm_idt vm)(slot := (vm_idt vm slot)\<lparr>g_selector := monCsSel\<rparr>)\<rparr>)))
      (thn (modify (\<lambda>vm. upd_nexus (\<lambda>nx. nx\<lparr>
             nx_mon_gdt_info := \<lparr>gi_limit = of_nat MON_GDT_SIZE, gi_base = base + ad_gdt (vm_guest_addr vm)\<rparr>,
             nx_mon_idt_info := \<lparr>gi_limit = of_nat MON_IDT_SIZE, gi_base = base + ad_idt (vm_guest_addr vm)\<rparr>,
             nx_mon_ldt_sel := 0, nx_mon_tss_sel := monTssSel,
             nx_mon_jmp_info := (nx_mon_jmp_info nx)\<lparr>fj_selector := monCsSel\<rparr>,
             nx_mon_stack_info := (nx_mon_stack_info nx)\<lparr>fj_selector := monSsSel\<rparr>,
             nx_mon_base := base\<rparr>) vm))
      (thn (modify (\<lambda>vm. vm\<lparr>vm_tss := (vm_tss vm)\<lparr>
             tss_esp0 := ad_nexus (vm_guest_addr vm) + PAGESIZE, tss_ss0 := monSsSel\<rparr>\<rparr>))
      (thn (modify (\<lambda>vm. vm\<lparr>vm_vmState := vm_vmState vm OR VMStateMapMonitor\<rparr>))
      (ret True)))))))))"

section \<open>The devices\<close>

definition initCmosRegs :: "nat \<Rightarrow> Bit8u" where
  "initCmosRegs = (\<lambda>_. 0)(0x0a := 0x26, 0x0b := 0x02, 0x0c := 0x00, 0x0d := 0x80,
     0x00 := 0, 0x02 := 30, 0x04 := 10, 0x06 := 4, 0x07 := 0x12, 0x08 := 1, 0x09 := 3)"

definition hostInitLinuxIOEnvironment :: "unit mon" where
  "hostInitLinuxIOEnvironment = modify (upd_io (\<lambda>io. io\<lparr>
     io_picMaster := zero_pic\<lparr>pic_imr := 0xff, pic_vectorOffset := 0x20\<rparr>,
     io_picSlave := zero_pic\<lparr>pic_imr := 0xfb, pic_vectorOffset := 0x28\<rparr>,
     io_cmos := zero_cmos\<lparr>cmos_reg := initCmosRegs\<rparr>,
     io_pit := zero_pit\<lparr>pit_timer := (\<lambda>i. if i < 3 then zero_pit_timer\<lparr>t_GATE := 1, t_OUT := 1\<rparr> else zero_pit_timer)\<rparr>,
     io_vga := zero_vga\<rparr>))"

section \<open>The layout of the monitor's address space\<close>

text \<open>A run of \<open>n\<close> pages written at slot \<open>p\<close> of the table.\<close>

definition putPages :: "nat \<Rightarrow> nat \<Rightarrow> (nat \<Rightarrow> pageEntry_t) \<Rightarrow> (nat \<Rightarrow> pageEntry_t) \<Rightarrow> (nat \<Rightarrow> pageEntry_t)" where
  "putPages p n e t = (\<lambda>k. if p \<le> k \<and> k < p + n then e (k - p) else t k)"

lemma putPages_0 [simp]: "putPages p 0 e t = t"
  by (rule ext) (auto simp: putPages_def)

lemma putPages_Suc: "putPages (Suc p) n (\<lambda>j. e (Suc j)) (t(p := e 0)) = putPages p (Suc n) e t"
proof (rule ext)
  fix k
  show "putPages (Suc p) n (\<lambda>j. e (Suc j)) (t(p := e 0)) k = putPages p (Suc n) e t k"
    by (cases "k = p"; cases "k < p") (auto simp: putPages_def Suc_diff_Suc)
qed

lemma mapMonLoop_eq:
  "p + n \<le> 1024 \<Longrightarrow> mapMonLoop pages us rw i n p vm =
     Ret () (vm\<lparr>vm_nexus_page_tbl := putPages p n (\<lambda>j. pe_make (pages (i + j)) us rw True) (vm_nexus_page_tbl vm)\<rparr>)"
proof (induction n arbitrary: i p vm)
  case (Suc n)
  then show ?case
    using putPages_Suc [of p n "\<lambda>j. pe_make (pages (i + j)) us rw True" "vm_nexus_page_tbl vm"]
    by (simp add: setNexusPTE_def fun_upd_def)
qed simp

text \<open>A table that does not fit is written past its end.\<close>

lemma mapMonLoop_overrun:
  "p \<le> 1024 \<Longrightarrow> 1024 < p + n \<Longrightarrow> mapMonLoop pages us rw i n p vm = Undef ''pageTable->pte''"
proof (induction n arbitrary: i p vm)
  case (Suc n)
  then show ?case by (cases "p = 1024") (simp_all add: setNexusPTE_def)
qed simp

definition slotAddr :: "nat \<Rightarrow> Bit32u" where
  "slotAddr p = 4096 * of_nat p"

lemma slot_index: "p < 1024 \<Longrightarrow> unat (drop_bit 12 (slotAddr p) AND 0x3ff) = p"
proof -
  assume p: "p < 1024"
  have "slotAddr p = push_bit 12 (of_nat p)" by (simp add: slotAddr_def push_bit_eq_mult)
  then have "drop_bit 12 (slotAddr p) AND 0x3ff = take_bit 10 (of_nat p)"
    by (simp add: drop_push_bit_32 mask_and_eq)
  then show ?thesis
    using p by (simp add: unsigned_take_bit_eq unat_of_nat take_bit_nat_eq_self)
qed

lemma slotAddr_add: "slotAddr p + 4096 * of_nat n = slotAddr (p + n)" "slotAddr p + 4096 = slotAddr (Suc p)"
  by (simp_all add: slotAddr_def distrib_left)

lemma hostMapMonPages_eq:
  "p + n \<le> 1024 \<Longrightarrow> hostMapMonPages pages n us rw (slotAddr p) vm =
     Ret (slotAddr (p + n)) (vm\<lparr>vm_nexus_page_tbl :=
       putPages p n (\<lambda>j. pe_make (pages j) us rw True) (vm_nexus_page_tbl vm)\<rparr>)"
  by (cases n) (simp_all add: hostMapMonPages_def slot_index mapMonLoop_eq slotAddr_add del: mapMonLoop.simps(2) of_nat_Suc)

lemma hostMapBlankPage_eq:
  "p < 1024 \<Longrightarrow> hostMapBlankPage (slotAddr p) vm =
     Ret (slotAddr (Suc p)) (vm\<lparr>vm_nexus_page_tbl := (vm_nexus_page_tbl vm)(p := 0)\<rparr>)"
  by (simp add: hostMapBlankPage_def Let_def slot_index setNexusPTE_def pe_make_def slotAddr_add)

text \<open>Where a region that comes after slot \<open>p\<close> begins and ends, and what it makes of the table and the
  pointers.\<close>

definition regionStart :: "nat \<Rightarrow> monRegion \<Rightarrow> nat" where
  "regionStart p r = (if mr_blank r then Suc p else p)"

definition regionEnd :: "vm_pages_t \<Rightarrow> nat \<Rightarrow> monRegion \<Rightarrow> nat" where
  "regionEnd pg p r = regionStart p r + mr_n r pg"

definition regionTable ::
  "(nat \<Rightarrow> Bit32u) \<Rightarrow> vm_pages_t \<Rightarrow> nat \<Rightarrow> monRegion \<Rightarrow> (nat \<Rightarrow> pageEntry_t) \<Rightarrow> (nat \<Rightarrow> pageEntry_t)" where
  "regionTable info pg p r t =
     putPages (regionStart p r) (mr_n r pg) (\<lambda>j. pe_make (mr_pages r info pg j) False True True)
       (if mr_blank r then t(p := 0) else t)"

fun regionsState :: "Bit32u \<Rightarrow> nat \<Rightarrow> monRegion list \<Rightarrow> vm_t \<Rightarrow> nat \<times> vm_t" where
  "regionsState base p [] vm = (p, vm)"
| "regionsState base p (r # rs) vm =
     (let a = slotAddr (regionStart p r) - base in
      regionsState base (regionEnd (vm_pages vm) p r) rs (vm\<lparr>
        vm_guest_addr := mr_addr r a (vm_guest_addr vm), vm_nexus := mr_nexus r a (vm_nexus vm),
        vm_nexus_page_tbl := regionTable (vm_guestPageInfoPages vm) (vm_pages vm) p r (vm_nexus_page_tbl vm)\<rparr>))"

lemma mapRegion_eq:
  assumes "regionEnd (vm_pages vm) p r \<le> 1024" "regionStart p r \<le> 1024"
  shows "mapRegion base r (slotAddr p) vm = Ret (slotAddr (regionEnd (vm_pages vm) p r)) (vm\<lparr>
    vm_guest_addr := mr_addr r (slotAddr (regionStart p r) - base) (vm_guest_addr vm),
    vm_nexus := mr_nexus r (slotAddr (regionStart p r) - base) (vm_nexus vm),
    vm_nexus_page_tbl := regionTable (vm_guestPageInfoPages vm) (vm_pages vm) p r (vm_nexus_page_tbl vm)\<rparr>)"
proof -
  define t where "t = (if mr_blank r then (vm_nexus_page_tbl vm)(p := 0) else vm_nexus_page_tbl vm)"
  let ?m = "if mr_blank r then hostMapBlankPage (slotAddr p) else ret (slotAddr p)"
  have blank: "?m vm = Ret (slotAddr (regionStart p r)) (vm\<lparr>vm_nexus_page_tbl := t\<rparr>)"
    using assms(2) by (cases "mr_blank r") (simp_all add: regionStart_def t_def hostMapBlankPage_eq)
  show ?thesis
    using assms(1) unfolding mapRegion_def bnd_app(1) [where m = ?m and s = vm, OF blank] regionEnd_def regionTable_def t_def [symmetric]
    by (simp add: hostMapMonPages_eq)
qed

lemma regionsState_le: "p \<le> fst (regionsState base p rs vm)"
proof (induction rs arbitrary: p vm)
  case (Cons r rs)
  have "p \<le> regionEnd (vm_pages vm) p r" by (simp add: regionEnd_def regionStart_def)
  then show ?case using Cons order_trans by (simp add: Let_def) blast
qed simp

lemma mapRegions_eq:
  assumes "fst (regionsState base p rs vm) \<le> 1024"
  shows "mapRegions base rs (slotAddr p) vm =
     Ret (slotAddr (fst (regionsState base p rs vm))) (snd (regionsState base p rs vm))"
  using assms
proof (induction rs arbitrary: p vm)
  case (Cons r rs)
  have "regionEnd (vm_pages vm) p r \<le> 1024"
    using Cons.prems regionsState_le order_trans by (simp add: Let_def) blast
  moreover from this have "regionStart p r \<le> 1024" by (simp add: regionEnd_def)
  ultimately show ?case using Cons by (simp add: Let_def mapRegion_eq)
qed simp

text \<open>Every entry the monitor maps is for the supervisor, a region's pages are where its pointer says, and what
  lies below the first slot is left alone.\<close>

lemma pe_US_0 [simp]: "\<not> pe_US 0"
  by (simp add: pe_US_def)

lemma regionTable_US: "\<not> pe_US (t k) \<Longrightarrow> \<not> pe_US (regionTable info pg p r t k)"
  by (simp add: regionTable_def putPages_def)

lemma regionTable_below: "k < p \<Longrightarrow> regionTable info pg p r t k = t k"
  by (auto simp: regionTable_def putPages_def regionStart_def)

lemma regionsState_US:
  "\<not> pe_US (vm_nexus_page_tbl vm k) \<Longrightarrow> \<not> pe_US (vm_nexus_page_tbl (snd (regionsState base p rs vm)) k)"
  by (induction rs arbitrary: p vm) (simp_all add: Let_def regionTable_US)

lemma regionsState_below:
  "k < p \<Longrightarrow> vm_nexus_page_tbl (snd (regionsState base p rs vm)) k = vm_nexus_page_tbl vm k"
proof (induction rs arbitrary: p vm)
  case (Cons r rs)
  then have "k < regionEnd (vm_pages vm) p r" by (simp add: regionEnd_def regionStart_def)
  then show ?case using Cons by (simp add: Let_def regionTable_below)
qed simp

lemma regionsState_frame:
  "\<exists>ga nx t. snd (regionsState base p rs vm) = vm\<lparr>vm_guest_addr := ga, vm_nexus := nx, vm_nexus_page_tbl := t\<rparr>"
proof (induction rs arbitrary: p vm)
  case Nil
  show ?case
    by (rule exI [of _ "vm_guest_addr vm"], rule exI [of _ "vm_nexus vm"], rule exI [of _ "vm_nexus_page_tbl vm"]) simp
next
  case (Cons r rs)
  let ?vm = "vm\<lparr>vm_guest_addr := mr_addr r (slotAddr (regionStart p r) - base) (vm_guest_addr vm),
        vm_nexus := mr_nexus r (slotAddr (regionStart p r) - base) (vm_nexus vm),
        vm_nexus_page_tbl := regionTable (vm_guestPageInfoPages vm) (vm_pages vm) p r (vm_nexus_page_tbl vm)\<rparr>"
  show ?case
    using Cons [of "regionEnd (vm_pages vm) p r" ?vm] by (auto simp: Let_def)
qed

lemma regionsState_same:
  "vm_pages (snd (regionsState base p rs vm)) = vm_pages vm"
  "vm_guestPageInfoPages (snd (regionsState base p rs vm)) = vm_guestPageInfoPages vm"
  using regionsState_frame [of base p rs vm] by auto

lemma regionsState_append:
  "regionsState base p (rs @ rs') vm = regionsState base (fst (regionsState base p rs vm)) rs' (snd (regionsState base p rs vm))"
  by (induction rs arbitrary: p vm) (simp_all add: Let_def)

lemma regionsState_maps:
  assumes "j < mr_n r (vm_pages vm)"
  shows "vm_nexus_page_tbl (snd (regionsState base p (rs @ r # rs') vm)) (regionStart (fst (regionsState base p rs vm)) r + j) =
     pe_make (mr_pages r (vm_guestPageInfoPages vm) (vm_pages vm) j) False True True"
  using assms
  by (simp add: regionsState_append Let_def regionsState_below regionsState_same regionEnd_def)
    (simp add: regionTable_def putPages_def)

text \<open>The slots used: the pages of the module, of \<^verbatim>\<open>vm_t\<close> and of the page information, and 112 more.\<close>

definition monSlotsUsed :: "henv \<Rightarrow> kenv \<Rightarrow> vm_pages_t \<Rightarrow> nat" where
  "monSlotsUsed env ke pg = unat (he_nPages env) + unat (BytesToPages (ke_sizeof_vm ke)) +
     unat (BytesToPages (sizeof_phyPageInfo * pg_guest_n_pages pg)) + 112"

lemmas region_simps = region_def regionStart_def regionEnd_def Let_def

lemma monRegions_slots: "fst (regionsState base 0 (monRegions env ke) vm) = monSlotsUsed env ke (vm_pages vm)"
  by (simp add: monRegions_def monSlotsUsed_def region_simps)

text \<open>The pointers of the monitor.\<close>

lemma monRegions_windows:
  "ad_code_phy_page (vm_guest_addr (snd (regionsState base 0 (monRegions env ke) vm))) =
     slotAddr (monSlotsUsed env ke (vm_pages vm) - 4) - base"
  "ad_tmp_phy_page0 (vm_guest_addr (snd (regionsState base 0 (monRegions env ke) vm))) =
     slotAddr (monSlotsUsed env ke (vm_pages vm) - 2) - base"
  "ad_tmp_phy_page1 (vm_guest_addr (snd (regionsState base 0 (monRegions env ke) vm))) =
     slotAddr (monSlotsUsed env ke (vm_pages vm) - 1) - base"
  by (simp_all add: monRegions_def monSlotsUsed_def region_simps)

text \<open>The slot of region \<open>i\<close>, computed without the state.\<close>

fun regionsEnd :: "vm_pages_t \<Rightarrow> nat \<Rightarrow> monRegion list \<Rightarrow> nat" where
  "regionsEnd pg p [] = p"
| "regionsEnd pg p (r # rs) = regionsEnd pg (regionEnd pg p r) rs"

lemma regionsEnd_eq: "fst (regionsState base p rs vm) = regionsEnd (vm_pages vm) p rs"
  by (induction rs arbitrary: p vm) (simp_all add: Let_def)

definition regionSlot :: "vm_pages_t \<Rightarrow> monRegion list \<Rightarrow> nat \<Rightarrow> nat" where
  "regionSlot pg rs i = regionStart (regionsEnd pg 0 (take i rs)) (rs ! i)"

lemma regionsState_slots:
  assumes "i < length rs" "j < mr_n (rs ! i) (vm_pages vm)"
  shows "vm_nexus_page_tbl (snd (regionsState base 0 rs vm)) (regionSlot (vm_pages vm) rs i + j) =
     pe_make (mr_pages (rs ! i) (vm_guestPageInfoPages vm) (vm_pages vm) j) False True True"
  using regionsState_maps [of j "rs ! i" vm base 0 "take i rs" "drop (Suc i) rs"] assms
  by (simp add: regionSlot_def regionsEnd_eq id_take_nth_drop [symmetric])

lemma regionsEnd_append: "regionsEnd pg p (rs @ rs') = regionsEnd pg (regionsEnd pg p rs) rs'"
  by (induction rs arbitrary: p) simp_all

lemma regionsEnd_le: "p \<le> regionsEnd pg p rs"
proof (induction rs arbitrary: p)
  case (Cons r rs)
  have "p \<le> regionEnd pg p r" by (simp add: regionEnd_def regionStart_def)
  then show ?case using Cons order_trans by simp blast
qed simp

lemma regionSlot_end:
  assumes "i < k" "k \<le> length rs"
  shows "regionSlot pg rs i + mr_n (rs ! i) pg \<le> regionsEnd pg 0 (take k rs)"
proof -
  have "regionSlot pg rs i + mr_n (rs ! i) pg = regionsEnd pg 0 (take (Suc i) rs)"
    using assms by (simp add: take_Suc_conv_app_nth regionsEnd_append regionSlot_def regionEnd_def)
  also have "\<dots> \<le> regionsEnd pg 0 (take (Suc i) rs @ drop (Suc i) (take k rs))"
    unfolding regionsEnd_append by (rule regionsEnd_le)
  also have "take (Suc i) rs @ drop (Suc i) (take k rs) = take k rs"
    using assms append_take_drop_id [of "Suc i" "take k rs"] by (simp add: min_def)
  finally show ?thesis .
qed

text \<open>The whole page table of the monitor.\<close>

definition nexusTableOK :: "henv \<Rightarrow> kenv \<Rightarrow> vm_t \<Rightarrow> bool" where
  "nexusTableOK env ke vm \<longleftrightarrow>
     (let pg = vm_pages vm; rs = monRegions env ke; used = monSlotsUsed env ke pg; ga = vm_guest_addr vm in
      (\<forall>k < 1024. \<not> pe_US (vm_nexus_page_tbl vm k)) \<and>
      (\<forall>i < length rs. \<forall>j < mr_n (rs ! i) pg.
         vm_nexus_page_tbl vm (regionSlot pg rs i + j) = pe_make (mr_pages (rs ! i) (vm_guestPageInfoPages vm) pg j) False True True) \<and>
      (\<forall>i < 16. regionSlot pg rs i + mr_n (rs ! i) pg \<le> used - 5) \<and>
      map (\<lambda>a. unat (drop_bit 12 (a - he_startOffsetPageAligned env) AND 0x3ff)) [ad_code_phy_page ga, ad_tmp_phy_page0 ga, ad_tmp_phy_page1 ga] =
        [used - 4, used - 2, used - 1])"

lemma hostMapNexus_twp:
  assumes "monSlotsUsed env ke (vm_pages vm) < 1024"
  shows "twp (hostMapNexus env ke) (\<lambda>_ vm'. nexusTableOK env ke vm' \<and>
     (\<exists>ga nx t m. vm' = vm\<lparr>vm_host_nexus_pde := pe_make (pg_nexus_page_tbl (vm_pages vm)) True True True,
        vm_guest_addr := ga, vm_nexus := nx, vm_nexus_page_tbl := t, vm_mon2host := m\<rparr>)) vm"
proof -
  let ?base = "MON_BASE_FROM_LADDR env 0" and ?rs = "monRegions env ke"
  define vm1 where "vm1 = vm\<lparr>vm_host_nexus_pde := pe_make (pg_nexus_page_tbl (vm_pages vm)) True True True,
            vm_nexus_page_tbl := nexusMemZero (vm_nexus_page_tbl vm) 0 1024\<rparr>"
  let ?s = "regionsState ?base 0 ?rs vm1" and ?used = "monSlotsUsed env ke (vm_pages vm)"
  have used: "fst ?s = ?used" by (simp add: monRegions_slots vm1_def)
  have pg: "vm_pages vm1 = vm_pages vm" "vm_guestPageInfoPages vm1 = vm_guestPageInfoPages vm"
    and zero: "\<And>k. k < 1024 \<Longrightarrow> vm_nexus_page_tbl vm1 k = 0"
    by (simp_all add: vm1_def nexusMemZero_apply)
  have run: "mapRegions ?base ?rs 0 vm1 = Ret (slotAddr ?used) (snd ?s)"
    using mapRegions_eq [of ?base 0 ?rs vm1] assms by (simp add: used) (simp add: slotAddr_def)
  obtain ga nx t where s: "snd ?s = vm1\<lparr>vm_guest_addr := ga, vm_nexus := nx, vm_nexus_page_tbl := t\<rparr>"
    using regionsState_frame [of ?base 0 ?rs vm1] by blast
  let ?m = "MON_NEXUS_OFFSET ke (snd ?s) (ke_mon2host ke)"
  have eq: "hostMapNexus env ke vm = Ret () (vm1\<lparr>vm_guest_addr := ga, vm_nexus := nx,
      vm_nexus_page_tbl := t(?used := 0), vm_mon2host := ?m\<rparr>)"
    unfolding hostMapNexus_def
    by (simp add: vm1_def [symmetric] run hostMapBlankPage_eq [OF assms] s MON_NEXUS_OFFSET_def)
  have slots: "regionSlot (vm_pages vm) ?rs i + mr_n (?rs ! i) (vm_pages vm) \<le> ?used - 5" if "i < 16" for i
  proof -
    have "regionsEnd (vm_pages vm) 0 (take 16 ?rs) = ?used - 5"
      by (simp add: monRegions_def monSlotsUsed_def region_simps)
    then show ?thesis using regionSlot_end [OF that, of ?rs "vm_pages vm"] by (simp add: monRegions_def)
  qed
  have len: "regionSlot (vm_pages vm) ?rs i + mr_n (?rs ! i) (vm_pages vm) \<le> ?used" if "i < length ?rs" for i
    using regionSlot_end [of i "length ?rs" ?rs "vm_pages vm"] that monRegions_slots [of ?base env ke vm]
    by (simp add: regionsEnd_eq)
  have maps: "t (regionSlot (vm_pages vm) ?rs i + j) =
      pe_make (mr_pages (?rs ! i) (vm_guestPageInfoPages vm) (vm_pages vm) j) False True True"
    if "i < length ?rs" "j < mr_n (?rs ! i) (vm_pages vm)" for i j
    using regionsState_slots [of i ?rs j vm1 ?base] that by (simp add: s pg)
  have us: "\<not> pe_US (t k)" if "k < 1024" for k
    using regionsState_US [of vm1 k ?base 0 ?rs] that by (simp add: s zero)
  have win: "ad_code_phy_page ga = slotAddr (?used - 4) - ?base" "ad_tmp_phy_page0 ga = slotAddr (?used - 2) - ?base"
    "ad_tmp_phy_page1 ga = slotAddr (?used - 1) - ?base"
    using monRegions_windows [of ?base env ke vm1] by (simp_all add: s pg)
  have off: "slotAddr p - ?base - he_startOffsetPageAligned env = slotAddr p" for p
    by (simp add: MON_BASE_FROM_LADDR_def)
  have "nexusTableOK env ke (vm1\<lparr>vm_guest_addr := ga, vm_nexus := nx, vm_nexus_page_tbl := t(?used := 0), vm_mon2host := ?m\<rparr>)"
    unfolding nexusTableOK_def Let_def
    using slots len maps us assms by (auto simp: pg win off slot_index) (fastforce dest: len)
  moreover have "vm1\<lparr>vm_guest_addr := ga, vm_nexus := nx, vm_nexus_page_tbl := t(?used := 0), vm_mon2host := ?m\<rparr> =
     vm\<lparr>vm_host_nexus_pde := pe_make (pg_nexus_page_tbl (vm_pages vm)) True True True,
        vm_guest_addr := ga, vm_nexus := nx, vm_nexus_page_tbl := t(?used := 0), vm_mon2host := ?m\<rparr>"
    by (simp add: vm1_def)
  ultimately show ?thesis unfolding twp_iff eq by blast
qed

text \<open>Nothing bounds the memory of the guest: with too many pages of page information the table is written past
  its end.\<close>

lemma mapRegion_overrun:
  assumes "regionStart p r < 1024" "1024 < regionEnd (vm_pages vm) p r"
  shows "mapRegion base r (slotAddr p) vm = Undef ''pageTable->pte''"
proof -
  let ?m = "if mr_blank r then hostMapBlankPage (slotAddr p) else ret (slotAddr p)"
  obtain t where blank: "?m vm = Ret (slotAddr (regionStart p r)) (vm\<lparr>vm_nexus_page_tbl := t\<rparr>)"
  proof (cases "mr_blank r")
    case True
    then show ?thesis using assms(1) that by (simp add: regionStart_def hostMapBlankPage_eq)
  next
    case False
    then show ?thesis using that [of "vm_nexus_page_tbl vm"] by (simp add: regionStart_def)
  qed
  show ?thesis
    unfolding mapRegion_def bnd_app(1) [where m = ?m and s = vm, OF blank]
    using assms by (simp add: hostMapMonPages_def slot_index mapMonLoop_overrun regionEnd_def)
qed

lemma mapRegions_append:
  "mapRegions base (rs @ rs') l vm = bnd (mapRegions base rs l) (mapRegions base rs') vm"
proof (induction rs arbitrary: l vm)
  case (Cons r rs)
  then show ?case by (simp add: bnd_def split: outcome.split)
qed simp

lemma hostMapNexus_overrun:
  fixes env ke vm
  defines "k \<equiv> unat (he_nPages env) + unat (BytesToPages (ke_sizeof_vm ke)) + 105"
  assumes fits: "k < 1024" and over: "1024 < k + unat (BytesToPages (sizeof_phyPageInfo * pg_guest_n_pages (vm_pages vm)))"
  shows "hostMapNexus env ke vm = Undef ''pageTable->pte''"
proof -
  let ?base = "MON_BASE_FROM_LADDR env 0" and ?rs = "monRegions env ke"
  define vm1 where "vm1 = vm\<lparr>vm_host_nexus_pde := pe_make (pg_nexus_page_tbl (vm_pages vm)) True True True,
            vm_nexus_page_tbl := nexusMemZero (vm_nexus_page_tbl vm) 0 1024\<rparr>"
  have rs: "?rs = take 14 ?rs @ ?rs ! 14 # drop 15 ?rs"
    by (simp add: monRegions_def)
  have at: "fst (regionsState ?base 0 (take 14 ?rs) vm1) = k - 1"
    by (simp add: monRegions_def region_simps k_def)
  have pre: "mapRegions ?base (take 14 ?rs) 0 vm1 = Ret (slotAddr (k - 1)) (snd (regionsState ?base 0 (take 14 ?rs) vm1))"
    using mapRegions_eq [of ?base 0 "take 14 ?rs" vm1] fits by (simp add: at) (simp add: slotAddr_def)
  have "mapRegion ?base (?rs ! 14) (slotAddr (k - 1)) (snd (regionsState ?base 0 (take 14 ?rs) vm1)) = Undef ''pageTable->pte''"
    by (rule mapRegion_overrun) (use fits over in \<open>simp_all add: monRegions_def region_simps regionsState_same vm1_def k_def\<close>)
  then have "mapRegions ?base ?rs 0 vm1 = Undef ''pageTable->pte''"
    by (subst rs) (simp add: mapRegions_append pre)
  then show ?thesis
    unfolding hostMapNexus_def by (simp add: vm1_def [symmetric])
qed

section \<open>The interrupt descriptor table\<close>

definition gateOK :: "Bit32u \<Rightarrow> gate_t \<Rightarrow> bool" where
  "gateOK a g \<longleftrightarrow> gate_offset g = a \<and> g_p g = 1 \<and> g_dpl g = 0 \<and> g_type g = 14"

definition stubAt :: "(nat \<Rightarrow> Bit8u) \<Rightarrow> nat \<Rightarrow> Bit8u list \<Rightarrow> bool" where
  "stubAt m off bs \<longleftrightarrow> (\<forall>i < length bs. m (off + i) = bs ! i)"

text \<open>Each vector's gate enters at its stub, and the stub is in place.\<close>

definition idtOK :: "kenv \<Rightarrow> nat \<Rightarrow> vm_t \<Rightarrow> bool" where
  "idtOK ke n vm \<longleftrightarrow> (\<forall>v < n. (let a = ad_idt_stubs (vm_guest_addr vm) + of_nat (v * IDT_STUB_SIZE) in
     gateOK a (vm_idt vm v) \<and> stubAt (vm_idt_stubs vm) (v * IDT_STUB_SIZE) (idtStub ke a (of_nat v) (idtTypeOf v))))"

lemma idtStub_length: "length (idtStub ke a v ty) \<le> 15"
  by (cases ty) (simp_all add: idtStub_def idt_method1_def idt_method2_def dwordBytes_def)

lemma hostInitIDT_twp:
  "twp (hostInitIDT ke) (\<lambda>_ vm'. idtOK ke 256 vm' \<and> (\<exists>idt st. vm' = vm\<lparr>vm_idt := idt, vm_idt_stubs := st\<rparr>)) vm"
  unfolding hostInitIDT_def
proof (rule twp_forM_upt)
  show "idtOK ke 0 vm \<and> (\<exists>idt st. vm = vm\<lparr>vm_idt := idt, vm_idt_stubs := st\<rparr>)"
    by (simp add: idtOK_def) (rule exI [of _ "vm_idt vm"], rule exI [of _ "vm_idt_stubs vm"], simp)
next
  fix i vm1
  assume i: "i < (256 :: nat)" and vm1: "idtOK ke i vm1 \<and> (\<exists>idt st. vm1 = vm\<lparr>vm_idt := idt, vm_idt_stubs := st\<rparr>)"
  let ?a = "\<lambda>v. ad_idt_stubs (vm_guest_addr vm1) + of_nat (v * IDT_STUB_SIZE)"
  let ?bs = "idtStub ke (?a i) (of_nat i) (idtTypeOf i)"
  have old: "stubAt (putBytes (i * 15) ?bs m) (v * 15) bs" if "v < i" "length bs \<le> 15" "stubAt m (v * 15) bs" for v bs m
    using that by (auto simp: stubAt_def putBytes_def)
  have new: "stubAt (putBytes off bs m) off bs" for off bs m
    by (simp add: stubAt_def putBytes_def)
  have "idtOK ke (Suc i) (vm1\<lparr>vm_idt_stubs := putBytes (i * 15) ?bs (vm_idt_stubs vm1),
        vm_idt := (vm_idt vm1)(i := SET_INT_GATE (vm_idt vm1 i) 0 (?a i) 1 0 1)\<rparr>)"
    using vm1 new old [OF _ idtStub_length]
    by (auto simp: idtOK_def Let_def less_Suc_eq gateOK_def gate_offset_SET_INT_GATE) (simp_all add: SET_INT_GATE_def)
  then show "twp (hostInitIDTSlot ke i (idtTypeOf i)) (\<lambda>_ vm'. idtOK ke (Suc i) vm' \<and>
      (\<exists>idt st. vm' = vm\<lparr>vm_idt := idt, vm_idt_stubs := st\<rparr>)) vm1"
    using vm1 i by (fastforce simp: hostInitIDTSlot_def intro: vm_t.equality)
qed

section \<open>The monitor in place\<close>

text \<open>What \<^verbatim>\<open>hostMapMonitor\<close> makes of the GDT, the IDT, the nexus and the TSS.\<close>

definition MON_LADDR :: Bit32u where "MON_LADDR = 0x70000000"

definition monGdt :: "henv \<Rightarrow> vm_t \<Rightarrow> nat \<Rightarrow> descriptor_t" where
  "monGdt env vm =
     (let base = MON_BASE_FROM_LADDR env MON_LADDR;
          gdt = (vm_gdt vm)(
            VMMonCsSlot := SET_DESCRIPTOR base 0xfffff 1 1 0 1 0 D_CODE_READ,
            VMMonDsSlot := SET_DESCRIPTOR base 0xfffff 1 1 0 1 0 D_DATA_WRITE,
            VMMonTssSlot := SET_DESCRIPTOR (base + ad_tss (vm_guest_addr vm)) (sizeof_tss - 1) 0 0 0 1 0 D_TSS)
      in if vm_linuxVMMode vm \<noteq> 0 then gdt(LinuxKernelDsSlot := D_LINUX_DS, LinuxBootDsSlot := D_LINUX_DS) else gdt)"

definition withSelector :: "nat \<Rightarrow> selector_t \<Rightarrow> (nat \<Rightarrow> gate_t) \<Rightarrow> nat \<Rightarrow> gate_t" where
  "withSelector n sel idt = (\<lambda>v. if v < n then (idt v)\<lparr>g_selector := sel\<rparr> else idt v)"

definition monNexus :: "henv \<Rightarrow> vm_t \<Rightarrow> nexus_t" where
  "monNexus env vm = (let nx = vm_nexus vm; base = MON_BASE_FROM_LADDR env MON_LADDR in nx\<lparr>
     nx_mon_gdt_info := \<lparr>gi_limit = of_nat MON_GDT_SIZE, gi_base = base + ad_gdt (vm_guest_addr vm)\<rparr>,
     nx_mon_idt_info := \<lparr>gi_limit = of_nat MON_IDT_SIZE, gi_base = base + ad_idt (vm_guest_addr vm)\<rparr>,
     nx_mon_ldt_sel := 0, nx_mon_tss_sel := 0x90,
     nx_mon_jmp_info := (nx_mon_jmp_info nx)\<lparr>fj_selector := 0x80\<rparr>,
     nx_mon_stack_info := (nx_mon_stack_info nx)\<lparr>fj_selector := 0x88\<rparr>,
     nx_mon_base := base\<rparr>)"

lemma mon_selectors:
  "ucast (Selector (of_nat VMMonCsSlot) 0 0) = (0x80 :: selector_t)"
  "ucast (Selector (of_nat VMMonDsSlot) 0 0) = (0x88 :: selector_t)"
  "ucast (Selector (of_nat VMMonTssSlot) 0 0) = (0x90 :: selector_t)"
  "sel_index 0x80 = VMMonCsSlot" "sel_index 0x88 = VMMonDsSlot" "sel_index 0x90 = VMMonTssSlot"
  by (simp_all add: Selector_def sel_index_def)

lemma withSelector_Suc:
  "(withSelector n sel idt)(n := (withSelector n sel idt n)\<lparr>g_selector := sel\<rparr>) = withSelector (Suc n) sel idt"
  by (auto simp: withSelector_def less_Suc_eq)

lemma fixSelectors:
  "forM [0..<n] (\<lambda>slot. modify (\<lambda>vm. vm\<lparr>vm_idt := (vm_idt vm)(slot := (vm_idt vm slot)\<lparr>g_selector := sel\<rparr>)\<rparr>)) vm =
     Ret () (vm\<lparr>vm_idt := withSelector n sel (vm_idt vm)\<rparr>)"
proof (induction n)
  case 0
  show ?case by (simp add: withSelector_def)
qed (simp add: forM_append withSelector_Suc [unfolded fun_upd_def] cong: if_cong)

lemma hostMapMonitor_eq:
  "hostMapMonitor env vm = Ret True (vm\<lparr>
     vm_mon_pde_mask := MON_LADDR, vm_mon_pdi := 0x1c0,
     vm_page_dir := (vm_page_dir vm)(0x1c0 := vm_host_nexus_pde vm),
     vm_gdt := monGdt env vm, vm_idt := withSelector 256 0x80 (vm_idt vm), vm_nexus := monNexus env vm,
     vm_tss := (vm_tss vm)\<lparr>tss_esp0 := ad_nexus (vm_guest_addr vm) + PAGESIZE, tss_ss0 := 0x88\<rparr>,
     vm_vmState := vm_vmState vm OR VMStateMapMonitor\<rparr>)"
  unfolding hostMapMonitor_def Let_def mon_selectors
  by (cases "vm_linuxVMMode vm = 0")
    (simp_all add: fixSelectors monGdt_def monNexus_def MON_LADDR_def Let_def)

definition updPages :: "nat \<Rightarrow> nat \<Rightarrow> (phyPageInfo_t \<Rightarrow> phyPageInfo_t) \<Rightarrow> (nat \<Rightarrow> phyPageInfo_t) \<Rightarrow> nat \<Rightarrow> phyPageInfo_t" where
  "updPages b n f info = (\<lambda>i. if b \<le> i \<and> i < b + n then f (info i) else info i)"

lemma updPages_0 [simp]: "updPages b 0 f info = info"
  by (rule ext) (auto simp: updPages_def)

lemma updPages_Suc: "(updPages b n f info)(b + n := f (updPages b n f info (b + n))) = updPages b (Suc n) f info"
  by (auto simp: updPages_def)

lemma forM_updPageInfo:
  assumes "unat b + n \<le> unat (pg_guest_n_pages (vm_pages vm))"
  shows "forM [0..<n] (\<lambda>i. updPageInfo (b + of_nat i) f) vm =
     Ret () (vm\<lparr>vm_guestPageInfo := updPages (unat b) n f (vm_guestPageInfo vm)\<rparr>)"
  using assms
proof (induction n)
  case (Suc n)
  have "unat b + n < 2 ^ 32" using Suc.prems unat_less_32 [of "pg_guest_n_pages (vm_pages vm)"] by simp
  then have u: "unat (b + of_nat n) = unat b + n" by (simp add: unat_word_ariths unat_of_nat)
  let ?g = "\<lambda>n. updPages (unat b) n f (vm_guestPageInfo vm)"
  have "updPageInfo (b + of_nat n) f (vm\<lparr>vm_guestPageInfo := ?g n\<rparr>) = Ret () (vm\<lparr>vm_guestPageInfo := ?g (Suc n)\<rparr>)"
    unfolding updPages_Suc [symmetric] using Suc.prems by (simp add: updPageInfo_def word_less_nat_alt u)
  then show ?case
    using Suc by (simp add: forM_append)
qed simp

lemma forM_setAttr:
  "unat b + n \<le> unat (pg_guest_n_pages (vm_pages vm)) \<Longrightarrow> forM [0..<n] (\<lambda>i. setAttr (b + of_nat i) f) vm =
     Ret () (vm\<lparr>vm_guestPageInfo := updPages (unat b) n (\<lambda>p. p\<lparr>pp_attr := f (pp_attr p)\<rparr>) (vm_guestPageInfo vm)\<rparr>)"
  unfolding setAttr_def by (rule forM_updPageInfo)

text \<open>The guest's pages: all allocated, none pinned; the ROMs read-only, the frame buffer memory-mapped unless
  the guest is Linux. A guest without a first megabyte would have the ROMs marked beyond the array.\<close>

definition guestPageAttr :: "bool \<Rightarrow> nat \<Rightarrow> Bit32u" where
  "guestPageAttr linux i =
     (if 0xf0 \<le> i \<and> i \<le> 0xff \<or> 0xc0 \<le> i \<and> i \<le> 0xc7 then 0x300
      else if \<not> linux \<and> 0xa0 \<le> i \<and> i \<le> 0xbf then 0x280 else 0x200)"

lemma hostInitGuestPhyMem_twp:
  assumes "ad_guestPageInfo (vm_host_addr vm) \<noteq> 0" "256 \<le> pg_guest_n_pages (vm_pages vm)"
  shows "twp hostInitGuestPhyMem (\<lambda>r vm'. \<not> r \<and> (\<exists>info. vm' = vm\<lparr>vm_guestPageInfo := info\<rparr> \<and>
     (\<forall>i < unat (pg_guest_n_pages (vm_pages vm)). info i =
       (vm_guestPageInfo vm i)\<lparr>pp_attr := guestPageAttr (vm_linuxVMMode vm \<noteq> 0) i, pp_tsc := 0\<rparr>))) vm"
proof -
  let ?n = "unat (pg_guest_n_pages (vm_pages vm))"
  have n: "256 \<le> ?n" using assms(2) by (simp add: word_le_nat_alt)
  have bits: "set_bit 8 (set_bit 9 0) = (0x300 :: Bit32u)" "set_bit 7 (set_bit 9 0) = (0x280 :: Bit32u)"
    "set_bit 9 0 = (0x200 :: Bit32u)"
    by (simp_all add: set_bit_eq_or)
  have all: "forM [0..<?n] (\<lambda>i. updPageInfo (of_nat i) f) vm =
      Ret () (vm\<lparr>vm_guestPageInfo := updPages 0 ?n f (vm_guestPageInfo vm)\<rparr>)" for f
    using forM_updPageInfo [of 0 ?n vm f] by simp
  let ?attr = "\<lambda>f p. p\<lparr>pp_attr := f (pp_attr p)\<rparr>"
  let ?roms = "updPages 0xc0 8 (?attr (set_bit 8)) (updPages 0xf0 16 (?attr (set_bit 8))
     (updPages 0 ?n (\<lambda>p. p\<lparr>pp_attr := set_bit 9 0, pp_tsc := 0\<rparr>) (vm_guestPageInfo vm)))"
  let ?info = "if vm_linuxVMMode vm = 0 then updPages 0xa0 32 (?attr (set_bit 7)) ?roms else ?roms"
  have "hostInitGuestPhyMem vm = Ret False (vm\<lparr>vm_guestPageInfo := ?info\<rparr>)"
    using assms n unfolding hostInitGuestPhyMem_def by (simp add: all forM_setAttr)
  moreover have "?info i = (vm_guestPageInfo vm i)\<lparr>pp_attr := guestPageAttr (vm_linuxVMMode vm \<noteq> 0) i, pp_tsc := 0\<rparr>"
    if "i < ?n" for i
    using that n by (auto simp: updPages_def guestPageAttr_def bits)
  ultimately show ?thesis unfolding twp_iff by blast
qed

lemma hostInitGuestPhyMem_missing:
  "ad_guestPageInfo (vm_host_addr vm) = 0 \<Longrightarrow> hostInitGuestPhyMem vm = Ret True vm"
  by (simp add: hostInitGuestPhyMem_def)

lemma hostInitGuestPhyMem_tooSmall:
  assumes "ad_guestPageInfo (vm_host_addr vm) \<noteq> 0" "pg_guest_n_pages (vm_pages vm) = 0"
  shows "hostInitGuestPhyMem vm = Undef ''guestPageInfo''"
proof -
  have "forM [0..<16] (\<lambda>i. setAttr (drop_bit 12 0xf0000 + of_nat i) (set_bit 8)) vm = Undef ''guestPageInfo''"
    using assms(2) by (simp add: upt_rec setAttr_def updPageInfo_def)
  then show ?thesis
    using assms by (simp add: hostInitGuestPhyMem_def)
qed

text \<open>The monitor after \<^verbatim>\<open>hostInitMonitor\<close>.\<close>

definition monInited :: "henv \<Rightarrow> kenv \<Rightarrow> vm_t \<Rightarrow> bool" where
  "monInited env ke vm \<longleftrightarrow> nexusTableOK env ke vm \<and> idtOK ke 256 vm \<and>
     vm_host_nexus_pde vm = pe_make (pg_nexus_page_tbl (vm_pages vm)) True True True \<and>
     vm_gdt vm = (\<lambda>_. zero_descriptor) \<and> (\<forall>i < 1024. vm_page_dir vm i = 0) \<and>
     pq_nEntries (vm_pinQueue vm) = 0 \<and> pq_tail (vm_pinQueue vm) = 0 \<and>
     io_cpuToPitRatio (vm_io vm) = 100 \<and> INTR vm = 0 \<and> vm_mon_request vm = MonReqNone \<and>
     tss_io (vm_tss vm) = 104 \<and> vm_context vm = zero_guestStackContext \<and> vm_guest_cpu vm = zero_guest_cpu"

text \<open>What it leaves alone.\<close>

definition initSame :: "vm_t \<Rightarrow> vm_t \<Rightarrow> bool" where
  "initSame vm vm' \<longleftrightarrow> vm_pages vm' = vm_pages vm \<and> vm_guestPageInfo vm' = vm_guestPageInfo vm \<and>
     vm_guestPageInfoPages vm' = vm_guestPageInfoPages vm \<and> vm_linuxVMMode vm' = vm_linuxVMMode vm \<and>
     vm_host_addr vm' = (vm_host_addr vm)\<lparr>ad_guestStackContext := ad_guestStackContext (vm_host_addr vm')\<rparr> \<and>
     vm_guestPhyMemAddr vm' = vm_guestPhyMemAddr vm \<and> vm_phymem vm' = vm_phymem vm \<and> vm_hw vm' = vm_hw vm \<and>
     vm_os vm' = vm_os vm \<and> vm_guestCPUIDInfo vm' = vm_guestCPUIDInfo vm"

lemma nexusTableOK_cong:
  "nexusTableOK env ke vm \<Longrightarrow> vm_nexus_page_tbl vm' = vm_nexus_page_tbl vm \<Longrightarrow> vm_guest_addr vm' = vm_guest_addr vm \<Longrightarrow>
   vm_pages vm' = vm_pages vm \<Longrightarrow> vm_guestPageInfoPages vm' = vm_guestPageInfoPages vm \<Longrightarrow> nexusTableOK env ke vm'"
  by (simp add: nexusTableOK_def)

lemma idtOK_cong:
  "idtOK ke n vm \<Longrightarrow> vm_idt vm' = vm_idt vm \<Longrightarrow> vm_idt_stubs vm' = vm_idt_stubs vm \<Longrightarrow> vm_guest_addr vm' = vm_guest_addr vm \<Longrightarrow>
   idtOK ke n vm'"
  by (simp add: idtOK_def Let_def)

lemma hostInitMonitor_twp:
  assumes "\<not> ke_nexus_end ke - ke_nexus_start ke > 4096" "monSlotsUsed env ke (vm_pages vm) < 1024"
  shows "twp (hostInitMonitor env ke) (\<lambda>r vm'. r \<and> monInited env ke vm' \<and> initSame vm vm' \<and>
     vm_vmState vm' = vm_vmState vm OR VMStateInitMonitor) vm"
proof -
  have tail: "twp (thn hostInitTransition (thn (hostInitTSS ke) (thn (hostInitIDT ke) (thn (hostWindStack ke)
        (thn (modify (\<lambda>vm. vm\<lparr>vm_vmState := vm_vmState vm OR VMStateInitMonitor, vm_mon_request := MonReqNone\<rparr>)) (ret True))))))
      (\<lambda>r vm'. r \<and> monInited env ke vm' \<and> initSame vm vm' \<and> vm_vmState vm' = vm_vmState vm OR VMStateInitMonitor) vm1"
    if "nexusTableOK env ke vm1" "initSame vm vm1" "vm_vmState vm1 = vm_vmState vm"
      "vm_host_nexus_pde vm1 = pe_make (pg_nexus_page_tbl (vm_pages vm1)) True True True"
      "vm_gdt vm1 = (\<lambda>_. zero_descriptor)" "\<forall>i < 1024. vm_page_dir vm1 i = 0"
      "pq_nEntries (vm_pinQueue vm1) = 0" "pq_tail (vm_pinQueue vm1) = 0"
      "io_cpuToPitRatio (vm_io vm1) = 100" "INTR vm1 = 0" "vm_guest_cpu vm1 = zero_guest_cpu" for vm1
    using that unfolding hostInitTransition_def hostInitTSS_def hostWindStack_def
    by (auto simp: Let_def monInited_def initSame_def intro!: twp_mono [OF hostInitIDT_twp]
        elim!: nexusTableOK_cong idtOK_cong)
  show ?thesis
    using assms unfolding hostInitMonitor_def hostInitData_def
    by (simp add: KERNEL_OFFSET_def)
      (rule twp_mono [OF hostMapNexus_twp], simp, rule tail [unfolded vm_state_bits mon_reqs],
        auto simp: initSame_def nexusMemZero_apply elim: nexusTableOK_cong)
qed

end
