(* ===== verification/Host_Alloc.thy ===== *)
theory Host_Alloc
  imports Host_Init "HOL-Library.Multiset"
begin

text \<open>
  The memory of a virtual machine: \<^verbatim>\<open>hostAllocVmPages\<close>, \<^verbatim>\<open>hostUnallocVmPages\<close> and
  \<^verbatim>\<open>hostReleasePinnedUserPages\<close> of \<^verbatim>\<open>host-space/monitor.c\<close>, on the allocation functions of
  \<^verbatim>\<open>host-kernel/linux/linux2.4.c\<close>. Every page or region taken from the kernel and given back is an
  event of \<open>vm_os\<close>. A structure just allocated is zero; the amount of memory is taken to be small enough
  (below \<open>2 ^ 20\<close> MB) for the sizes not to wrap.
\<close>

section \<open>Memory of the host kernel\<close>

definition logOs :: "os_ev \<Rightarrow> unit mon" where
  "logOs e = modify (\<lambda>vm. vm\<lparr>vm_os := e # vm_os vm\<rparr>)"

text \<open>\<^verbatim>\<open>nexusMemZero\<close> writes through the pointer that \<^verbatim>\<open>vmalloc\<close> returned, whatever it is.\<close>

definition hostOSAllocZeroedMem :: "kenv \<Rightarrow> Bit32u \<Rightarrow> Bit32u mon" where
  "hostOSAllocZeroedMem ke sz =
     bnd (gets (\<lambda>vm. ke_vmalloc ke vm sz)) (\<lambda>ptr.
     thn (whenM (ptr \<noteq> 0) (logOs (OsAlloc ptr)))
     (if ptr AND 0xfff \<noteq> 0 then ret 0
      else thn (inBounds ''nexusMemZero(NULL)'' (ptr \<noteq> 0 \<or> sz = 0)) (ret ptr)))"

definition hostOSAllocZeroedPage :: "kenv \<Rightarrow> Bit32u mon" where
  "hostOSAllocZeroedPage ke =
     bnd (gets (ke_getPage ke)) (\<lambda>ptr. thn (whenM (ptr \<noteq> 0) (logOs (OsAlloc ptr))) (ret ptr))"

definition hostOSFreePage :: "Bit32u \<Rightarrow> unit mon" where "hostOSFreePage ptr = logOs (OsFree ptr)"
definition hostOSFreeMem :: "Bit32u \<Rightarrow> unit mon" where "hostOSFreeMem ptr = logOs (OsFree ptr)"

definition hostOSGetAllocedPagePhyPage :: "kenv \<Rightarrow> Bit32u \<Rightarrow> Bit32u" where
  "hostOSGetAllocedPagePhyPage ke ptr = (if ptr = 0 then 0 else drop_bit 12 (ke_pa ke ptr))"

text \<open>The walk of the kernel's page tables, a 4 KB page or a 4 MB one; the result is the value
  returned and the pages stored.\<close>

definition kernelPhyPage :: "kenv \<Rightarrow> vm_t \<Rightarrow> Bit32u \<Rightarrow> Bit32u option" where
  "kernelPhyPage ke vm laddr =
     (let pgd = ke_pgd ke vm laddr in
      if pgd AND 0x81 = 0x1 then
        (let pte = ke_pte ke vm laddr in if pte AND 1 \<noteq> 0 then Some (pte AND 0xfffff000) else None)
      else if pgd AND 0x81 = 0x81 then
        (if pgd AND 0x003fe000 = 0 then Some ((pgd AND 0xffc00000) OR (laddr AND 0x003ff000)) else None)
      else None)"

fun phyPagesLoop :: "kenv \<Rightarrow> vm_t \<Rightarrow> bool \<Rightarrow> nat \<Rightarrow> nat \<Rightarrow> nat \<Rightarrow> nat \<Rightarrow> Bit32u \<Rightarrow> nat \<times> Bit32u list" where
  "phyPagesLoop ke vm sizeUnknown n_pages max_pages i 0 addr = (n_pages, [])"
| "phyPagesLoop ke vm sizeUnknown n_pages max_pages i (Suc k) addr =
     (case kernelPhyPage ke vm (KERNEL_OFFSET + addr) of
        None \<Rightarrow> (if sizeUnknown then i else 0, [])
      | Some a \<Rightarrow>
          if i \<ge> max_pages then (0, [])
          else (let (r, ps) = phyPagesLoop ke vm sizeUnknown n_pages max_pages (i + 1) k (addr + 4096)
                in (r, drop_bit 12 a # ps)))"

definition retrievePhyPages :: "kenv \<Rightarrow> vm_t \<Rightarrow> nat \<Rightarrow> Bit32u \<Rightarrow> Bit32u \<Rightarrow> nat \<times> Bit32u list" where
  "retrievePhyPages ke vm max_pages addr sz =
     (if addr AND 0xfff \<noteq> 0 then (0, [])
      else if addr = 0 then (0, [])
      else
        let n_pages = (if sz = 0 then max_pages + 1 else unat (BytesToPages sz)) in
        if sz \<noteq> 0 \<and> n_pages > max_pages then (0, [])
        else phyPagesLoop ke vm (sz = 0) n_pages max_pages 0 n_pages addr)"

definition hostOSGetAllocedMemPhyPages :: "kenv \<Rightarrow> vm_t \<Rightarrow> nat \<Rightarrow> Bit32u \<Rightarrow> Bit32u \<Rightarrow> nat \<times> Bit32u list" where
  "hostOSGetAllocedMemPhyPages ke vm max_pages ptr sz = retrievePhyPages ke vm max_pages ptr sz"

text \<open>\<^verbatim>\<open>kernelModulePages\<close>, at module load: first page, number of pages, and the pages.\<close>

definition Plex86MaxKernelModulePages :: nat where "Plex86MaxKernelModulePages = 128"

definition retrieveKernelModulePages :: "kenv \<Rightarrow> vm_t \<Rightarrow> Bit32u \<Rightarrow> Bit32u \<Rightarrow> (Bit32u \<times> nat \<times> Bit32u list) option" where
  "retrieveKernelModulePages ke vm driverStartAddr sz =
     (let aligned = driverStartAddr AND NOT 0xfff;
          size' = (if driverStartAddr \<noteq> aligned \<and> sz \<noteq> 0 then sz + (driverStartAddr AND 0xfff) else sz);
          (n, ps) = retrievePhyPages ke vm Plex86MaxKernelModulePages aligned size'
      in if n = 0 then None else Some (aligned, n, ps))"

text \<open>A window of user memory, pinned and mapped into the kernel: the page structure, the page and the
  kernel address.\<close>

definition hostOSPinWindow :: "henv \<Rightarrow> kenv \<Rightarrow> Bit32u \<Rightarrow> (Bit32u \<times> Bit32u \<times> Bit32u) option mon" where
  "hostOSPinWindow env ke userAddr =
     bnd (gets (\<lambda>vm. he_pin env vm userAddr)) (\<lambda>r.
     case r of
       None \<Rightarrow> ret None
     | Some (osPtr, ppi) \<Rightarrow> thn (logOs (OsPin userAddr ppi)) (ret (Some (osPtr, ppi, ke_kmap ke osPtr))))"

section \<open>Giving the memory back\<close>

text \<open>The array is read through \<^verbatim>\<open>vm->host.addr.guestPageInfo\<close>, which must not be NULL.\<close>

definition releasePage :: "Bit32u \<Rightarrow> unit mon" where
  "releasePage ppi =
     bnd (gets (\<lambda>vm. ad_guestPageInfo (vm_host_addr vm))) (\<lambda>info.
     thn (inBounds ''guestPageInfo(NULL)'' (info \<noteq> 0))
     (bnd (pageInfo ppi) (\<lambda>p.
      whenM (pp_pinned p)
        (bnd (gets (\<lambda>vm. (vm_guestPhyMemAddr vm + push_bit 12 ppi, vm_guestPageInfoHostAdjunct vm (unat ppi)))) (\<lambda>(addr, osPtr).
         thn (hostOSUnpinUserPage addr osPtr)
         (updPageInfo ppi (pp_set_pinned False)))))))"

definition hostReleasePinnedUserPages :: "unit mon" where
  "hostReleasePinnedUserPages =
     bnd (gets (\<lambda>vm. pg_guest_n_pages (vm_pages vm))) (\<lambda>nPages.
     thn (forM [0..<unat nPages] (\<lambda>ppi. releasePage (of_nat ppi)))
     (bnd (gets (\<lambda>vm. (pg_guest_cpu_hostOSPtr (vm_pages vm), pg_userLogBuffer_hostOSPtr (vm_pages vm) 0))) (\<lambda>(cpu, log).
      thn (hostOSUnpinUserPage 0 cpu)
      (hostOSUnpinUserPage 0 log))))"

definition freeIf :: "Bit32u \<Rightarrow> unit mon" where
  "freeIf ptr = whenM (ptr \<noteq> 0) (hostOSFreeMem ptr)"

text \<open>What is freed, in the order of the code.\<close>

definition heldMem :: "vm_t \<Rightarrow> Bit32u list" where
  "heldMem vm = (let ad = vm_host_addr vm; pg = vm_pages vm in
     [ad_monLogBuffer ad, ad_page_dir ad, ad_page_tbl ad, ad_page_tbl_laddr_map ad, ad_nexus_page_tbl ad,
      ad_transition_PT ad, ad_nexus ad, ad_idt ad, ad_gdt ad, ad_ldt ad, ad_tss ad, ad_idt_stubs ad,
      ad_guestPageInfo ad, ad_guestPageInfoHostAdjunct ad, pg_guestPageInfo pg, pg_guestPageInfoHostAdjunct pg])"

definition clearVMState :: "Bit32u \<Rightarrow> unit mon" where
  "clearVMState bits = modify (\<lambda>vm. vm\<lparr>vm_vmState := vm_vmState vm AND NOT bits\<rparr>)"

definition setVMState :: "Bit32u \<Rightarrow> unit mon" where
  "setVMState bits = modify (\<lambda>vm. vm\<lparr>vm_vmState := vm_vmState vm OR bits\<rparr>)"

definition hostUnallocVmPages :: "unit mon" where
  "hostUnallocVmPages =
     bnd (gets vm_guestPhyMemAddr) (\<lambda>a.
     thn (whenM (a \<noteq> 0) (thn hostReleasePinnedUserPages (modify (\<lambda>vm. vm\<lparr>vm_guestPhyMemAddr := 0\<rparr>))))
     (thn (clearVMState VMStateRegisteredPhyMem)
     (bnd (gets heldMem) (\<lambda>mem.
      thn (forM mem freeIf)
      (modify (\<lambda>vm. vm\<lparr>vm_pages := zero_vm_pages, vm_host_addr := zero_vm_addr\<rparr>))))))"

section \<open>Taking the memory\<close>

record plex86IoctlRegisterMem_t =
  rm_nMegs :: Bit32u
  rm_guestPhyMemVector :: Bit32u
  rm_logBufferWindow :: Bit32u
  rm_guestCPUWindow :: Bit32u

definition MON_LDT_SIZE :: Bit32u where "MON_LDT_SIZE = 8 * 1"
definition MON_TSS_SIZE :: Bit32u where "MON_TSS_SIZE = 104"
definition MON_IDT_STUBS_SIZE :: Bit32u where "MON_IDT_STUBS_SIZE = of_nat IDT_STUB_SIZE * 256"
definition MAX_VM_STRUCT_PAGES :: nat where "MAX_VM_STRUCT_PAGES = 68"

lemmas alloc_sizes [simp] = MON_LDT_SIZE_def MON_TSS_SIZE_def MON_IDT_STUBS_SIZE_def MAX_VM_STRUCT_PAGES_def

definition putList :: "'a list \<Rightarrow> (nat \<Rightarrow> 'a) \<Rightarrow> nat \<Rightarrow> 'a" where
  "putList xs f = (\<lambda>i. if i < length xs then xs ! i else f i)"

abbreviation upd_host_addr :: "(vm_addr_t \<Rightarrow> vm_addr_t) \<Rightarrow> vm_t \<Rightarrow> vm_t" where
  "upd_host_addr f vm \<equiv> vm\<lparr>vm_host_addr := f (vm_host_addr vm)\<rparr>"

abbreviation upd_pages :: "(vm_pages_t \<Rightarrow> vm_pages_t) \<Rightarrow> vm_t \<Rightarrow> vm_t" where
  "upd_pages f vm \<equiv> vm\<lparr>vm_pages := f (vm_pages vm)\<rparr>"

text \<open>
  The statements of \<^verbatim>\<open>hostAllocVmPages\<close> have four forms: allocate a page or a region and store its
  address, look up the physical page of one and store it; each goes to \<^verbatim>\<open>error\<close> when the result is 0.
\<close>

definition allocPage :: "kenv \<Rightarrow> (Bit32u \<Rightarrow> vm_addr_t \<Rightarrow> vm_addr_t) \<Rightarrow> (vm_t \<Rightarrow> vm_t) \<Rightarrow> bool mon" where
  "allocPage ke store clear =
     bnd (hostOSAllocZeroedPage ke) (\<lambda>a.
     thn (modify (upd_host_addr (store a)))
     (thn (whenM (a \<noteq> 0) (modify clear))
     (ret (a \<noteq> 0))))"

definition allocMem :: "kenv \<Rightarrow> Bit32u \<Rightarrow> (Bit32u \<Rightarrow> vm_t \<Rightarrow> vm_t) \<Rightarrow> (vm_t \<Rightarrow> vm_t) \<Rightarrow> bool mon" where
  "allocMem ke sz store clear =
     bnd (hostOSAllocZeroedMem ke sz) (\<lambda>a.
     thn (modify (store a))
     (thn (whenM (a \<noteq> 0) (modify clear))
     (ret (a \<noteq> 0))))"

definition physPage :: "kenv \<Rightarrow> (vm_addr_t \<Rightarrow> Bit32u) \<Rightarrow> (Bit32u \<Rightarrow> vm_pages_t \<Rightarrow> vm_pages_t) \<Rightarrow> bool mon" where
  "physPage ke ptr store =
     bnd (gets (\<lambda>vm. hostOSGetAllocedPagePhyPage ke (ptr (vm_host_addr vm)))) (\<lambda>p.
     thn (modify (upd_pages (store p)))
     (ret (p \<noteq> 0)))"

definition physMem ::
  "kenv \<Rightarrow> nat \<Rightarrow> (vm_addr_t \<Rightarrow> Bit32u) \<Rightarrow> Bit32u \<Rightarrow> (Bit32u list \<Rightarrow> vm_t \<Rightarrow> vm_t) \<Rightarrow> bool mon" where
  "physMem ke n ptr sz store =
     bnd (gets (\<lambda>vm. hostOSGetAllocedMemPhyPages ke vm n (ptr (vm_host_addr vm)) sz)) (\<lambda>(r, ps).
     thn (modify (store ps))
     (ret (r \<noteq> 0)))"

definition pinGuestCPU :: "henv \<Rightarrow> kenv \<Rightarrow> Bit32u \<Rightarrow> bool mon" where
  "pinGuestCPU env ke window =
     bnd (hostOSPinWindow env ke window) (\<lambda>r.
     case r of
       None \<Rightarrow> ret False
     | Some (osPtr, hostPPI, kernelAddr) \<Rightarrow>
         thn (modify (\<lambda>vm. vm\<lparr>vm_host_addr := (vm_host_addr vm)\<lparr>ad_guest_cpu := kernelAddr\<rparr>,
                vm_pages := (vm_pages vm)\<lparr>pg_guest_cpu_hostOSPtr := osPtr, pg_guest_cpu := hostPPI\<rparr>\<rparr>))
         (thn (setVMState VMStateRegisteredGuestCPU) (ret True)))"

definition pinLogBuffer :: "henv \<Rightarrow> kenv \<Rightarrow> Bit32u \<Rightarrow> bool mon" where
  "pinLogBuffer env ke window =
     bnd (hostOSPinWindow env ke window) (\<lambda>r.
     case r of
       None \<Rightarrow> ret False
     | Some (osPtr, hostPPI, kernelAddr) \<Rightarrow>
         thn (modify (\<lambda>vm. vm\<lparr>vm_host_addr := (vm_host_addr vm)\<lparr>ad_userLogBuffer := kernelAddr\<rparr>,
                vm_pages := (vm_pages vm)\<lparr>
                  pg_userLogBuffer_hostOSPtr := (pg_userLogBuffer_hostOSPtr (vm_pages vm))(0 := osPtr),
                  pg_userLogBuffer := (pg_userLogBuffer (vm_pages vm))(0 := hostPPI)\<rparr>\<rparr>))
         (thn (setVMState VMStateRegisteredPrintBuffer) (ret True)))"

text \<open>The statements in their order; the flag tells whether \<^verbatim>\<open>where\<close> is counted up after one.\<close>

definition allocMonitor :: "kenv \<Rightarrow> (bool mon \<times> bool) list" where
  "allocMonitor ke =
     [(allocPage ke (\<lambda>a ad. ad\<lparr>ad_monLogBuffer := a\<rparr>) (\<lambda>vm. vm\<lparr>vm_monLogBuffer := (\<lambda>_. char_of (0 :: nat))\<rparr>), True),
      (physPage ke ad_monLogBuffer (\<lambda>p pg. pg\<lparr>pg_monLogBuffer := p\<rparr>), True),
      (allocPage ke (\<lambda>a ad. ad\<lparr>ad_page_dir := a\<rparr>) (\<lambda>vm. vm\<lparr>vm_page_dir := (\<lambda>_. 0)\<rparr>), True),
      (physPage ke ad_page_dir (\<lambda>p pg. pg\<lparr>pg_page_dir := p\<rparr>), True),
      (allocMem ke (4096 * of_nat MON_PAGE_TABLES) (\<lambda>a vm. upd_host_addr (\<lambda>ad. ad\<lparr>ad_page_tbl := a\<rparr>) vm) (\<lambda>vm. vm\<lparr>vm_page_tbl := (\<lambda>_ _. 0)\<rparr>), True),
      (physMem ke MON_PAGE_TABLES ad_page_tbl (4096 * of_nat MON_PAGE_TABLES) (\<lambda>ps. upd_pages (\<lambda>pg. pg\<lparr>pg_page_tbl := putList ps (pg_page_tbl pg)\<rparr>)), True),
      (allocPage ke (\<lambda>a ad. ad\<lparr>ad_page_tbl_laddr_map := a\<rparr>) (\<lambda>vm. vm\<lparr>vm_page_tbl_laddr_map := (\<lambda>_. 0)\<rparr>), True),
      (physPage ke ad_page_tbl_laddr_map (\<lambda>p pg. pg\<lparr>pg_page_tbl_laddr_map := p\<rparr>), True),
      (allocPage ke (\<lambda>a ad. ad\<lparr>ad_nexus_page_tbl := a\<rparr>) (\<lambda>vm. vm\<lparr>vm_nexus_page_tbl := (\<lambda>_. 0)\<rparr>), True),
      (physPage ke ad_nexus_page_tbl (\<lambda>p pg. pg\<lparr>pg_nexus_page_tbl := p\<rparr>), True),
      (allocPage ke (\<lambda>a ad. ad\<lparr>ad_transition_PT := a\<rparr>) (\<lambda>vm. vm\<lparr>vm_transition_PT := (\<lambda>_. 0)\<rparr>), True),
      (physPage ke ad_transition_PT (\<lambda>p pg. pg\<lparr>pg_transition_PT := p\<rparr>), True),
      (allocPage ke (\<lambda>a ad. ad\<lparr>ad_nexus := a\<rparr>) (\<lambda>vm. vm\<lparr>vm_nexus := zero_nexus, vm_context := zero_guestStackContext, vm_monStack := (\<lambda>_. 0)\<rparr>), True),
      (physPage ke ad_nexus (\<lambda>p pg. pg\<lparr>pg_nexus := p\<rparr>), True),
      (allocMem ke (4096 * of_nat MON_IDT_PAGES) (\<lambda>a vm. upd_host_addr (\<lambda>ad. ad\<lparr>ad_idt := a\<rparr>) vm) (\<lambda>vm. vm\<lparr>vm_idt := (\<lambda>_. zero_gate)\<rparr>), True),
      (physMem ke MON_IDT_PAGES ad_idt (of_nat MON_IDT_SIZE) (\<lambda>ps. upd_pages (\<lambda>pg. pg\<lparr>pg_idt := putList ps (pg_idt pg)\<rparr>)), True),
      (allocMem ke (4096 * of_nat MON_GDT_PAGES) (\<lambda>a vm. upd_host_addr (\<lambda>ad. ad\<lparr>ad_gdt := a\<rparr>) vm) (\<lambda>vm. vm\<lparr>vm_gdt := (\<lambda>_. zero_descriptor)\<rparr>), True),
      (physMem ke MON_GDT_PAGES ad_gdt (of_nat MON_GDT_SIZE) (\<lambda>ps. upd_pages (\<lambda>pg. pg\<lparr>pg_gdt := putList ps (pg_gdt pg)\<rparr>)), True),
      (allocMem ke (4096 * of_nat MON_LDT_PAGES) (\<lambda>a vm. upd_host_addr (\<lambda>ad. ad\<lparr>ad_ldt := a\<rparr>) vm) (\<lambda>vm. vm\<lparr>vm_ldt := (\<lambda>_. zero_descriptor)\<rparr>), True),
      (physMem ke MON_LDT_PAGES ad_ldt MON_LDT_SIZE (\<lambda>ps. upd_pages (\<lambda>pg. pg\<lparr>pg_ldt := putList ps (pg_ldt pg)\<rparr>)), True),
      (allocMem ke (4096 * of_nat MON_TSS_PAGES) (\<lambda>a vm. upd_host_addr (\<lambda>ad. ad\<lparr>ad_tss := a\<rparr>) vm) (\<lambda>vm. vm\<lparr>vm_tss := zero_tss\<rparr>), True),
      (physMem ke MON_TSS_PAGES ad_tss MON_TSS_SIZE (\<lambda>ps. upd_pages (\<lambda>pg. pg\<lparr>pg_tss := putList ps (pg_tss pg)\<rparr>)), True),
      (allocMem ke (4096 * of_nat MON_IDT_STUBS_PAGES) (\<lambda>a vm. upd_host_addr (\<lambda>ad. ad\<lparr>ad_idt_stubs := a\<rparr>) vm) (\<lambda>vm. vm\<lparr>vm_idt_stubs := (\<lambda>_. 0)\<rparr>), True),
      (physMem ke MON_IDT_STUBS_PAGES ad_idt_stubs MON_IDT_STUBS_SIZE (\<lambda>ps. upd_pages (\<lambda>pg. pg\<lparr>pg_idt_stubs := putList ps (pg_idt_stubs pg)\<rparr>)), True)]"

definition allocPageInfo :: "kenv \<Rightarrow> Bit32u \<Rightarrow> (bool mon \<times> bool) list" where
  "allocPageInfo ke nMegs =
     (let infoBytes = sizeof_phyPageInfo * push_bit 8 nMegs; infoPages = BytesToPages infoBytes;
          infoListPages = BytesToPages (4 * infoPages);
          adjBytes = 4 * push_bit 8 nMegs; adjPages = BytesToPages adjBytes;
          adjListPages = BytesToPages (4 * adjPages)
      in
      [(allocMem ke (push_bit 12 infoPages) (\<lambda>a vm. upd_host_addr (\<lambda>ad. ad\<lparr>ad_guestPageInfo := a\<rparr>) vm)
          (\<lambda>vm. vm\<lparr>vm_guestPageInfo := (\<lambda>_. zero_phyPageInfo)\<rparr>), True),
       (allocMem ke (push_bit 12 infoListPages) (\<lambda>a vm. upd_pages (\<lambda>pg. pg\<lparr>pg_guestPageInfo := a\<rparr>) vm)
          (\<lambda>vm. vm\<lparr>vm_guestPageInfoPages := (\<lambda>_. 0)\<rparr>), False),
       (physMem ke (unat infoPages) ad_guestPageInfo infoBytes
          (\<lambda>ps vm. vm\<lparr>vm_guestPageInfoPages := putList ps (vm_guestPageInfoPages vm)\<rparr>), True),
       (allocMem ke (push_bit 12 adjPages) (\<lambda>a vm. upd_host_addr (\<lambda>ad. ad\<lparr>ad_guestPageInfoHostAdjunct := a\<rparr>) vm)
          (\<lambda>vm. vm\<lparr>vm_guestPageInfoHostAdjunct := (\<lambda>_. 0)\<rparr>), True),
       (allocMem ke (push_bit 12 adjListPages) (\<lambda>a vm. upd_pages (\<lambda>pg. pg\<lparr>pg_guestPageInfoHostAdjunct := a\<rparr>) vm)
          (\<lambda>vm. vm\<lparr>vm_guestPageInfoHostAdjunctPages := (\<lambda>_. 0)\<rparr>), False),
       (physMem ke (unat adjPages) ad_guestPageInfoHostAdjunct adjBytes
          (\<lambda>ps vm. vm\<lparr>vm_guestPageInfoHostAdjunctPages := putList ps (vm_guestPageInfoHostAdjunctPages vm)\<rparr>), True),
       (physMem ke MAX_VM_STRUCT_PAGES (\<lambda>_. ke_vm ke) (ke_sizeof_vm ke)
          (\<lambda>ps. upd_pages (\<lambda>pg. pg\<lparr>pg_vm := putList ps (pg_vm pg)\<rparr>)), True)])"

text \<open>Where the first statement fails, if one does.\<close>

fun runSteps :: "(bool mon \<times> bool) list \<Rightarrow> Bit32u \<Rightarrow> Bit32u option mon" where
  "runSteps [] pos = ret None"
| "runSteps ((m, counts) # ms) pos =
     bnd m (\<lambda>ok. if ok then runSteps ms (if counts then pos + 1 else pos) else ret (Some pos))"

definition hostAllocVmPages :: "henv \<Rightarrow> kenv \<Rightarrow> plex86IoctlRegisterMem_t \<Rightarrow> Bit32u mon" where
  "hostAllocVmPages env ke msg =
     thn (modify (\<lambda>vm. vm\<lparr>vm_pages := zero_vm_pages, vm_host_addr := zero_vm_addr\<rparr>))
     (thn (modify (\<lambda>vm. vm\<lparr>vm_pages := (vm_pages vm)\<lparr>pg_guest_n_megs := rm_nMegs msg,
            pg_guest_n_pages := rm_nMegs msg * 256, pg_guest_n_bytes := rm_nMegs msg * 1024 * 1024\<rparr>,
            vm_guestPhyMemAddr := rm_guestPhyMemVector msg\<rparr>))
     (thn (setVMState VMStateRegisteredPhyMem)
     (bnd (runSteps ([(pinGuestCPU env ke (rm_guestCPUWindow msg), True), (pinLogBuffer env ke (rm_logBufferWindow msg), True)] @
              allocMonitor ke @ allocPageInfo ke (rm_nMegs msg)) 2) (\<lambda>r.
      case r of
        None \<Rightarrow> thn (setVMState VMStateMemAllocated) (ret 0)
      | Some pos \<Rightarrow> thn hostUnallocVmPages (ret pos)))))"

section \<open>Every page and region is given back\<close>

text \<open>The memory taken from the kernel and not given back, from the events.\<close>

fun live :: "os_ev list \<Rightarrow> Bit32u multiset" where
  "live [] = {#}"
| "live (OsAlloc a # es) = add_mset a (live es)"
| "live (OsFree a # es) = live es - {#a#}"
| "live (e # es) = live es"

text \<open>The pointers to it in the order of allocation. After \<open>k\<close> allocations the first \<open>k\<close> are set.\<close>

definition heldList :: "vm_t \<Rightarrow> Bit32u list" where
  "heldList vm = (let ad = vm_host_addr vm; pg = vm_pages vm in
     [ad_monLogBuffer ad, ad_page_dir ad, ad_page_tbl ad, ad_page_tbl_laddr_map ad, ad_nexus_page_tbl ad,
      ad_transition_PT ad, ad_nexus ad, ad_idt ad, ad_gdt ad, ad_ldt ad, ad_tss ad, ad_idt_stubs ad,
      ad_guestPageInfo ad, pg_guestPageInfo pg, ad_guestPageInfoHostAdjunct ad, pg_guestPageInfoHostAdjunct pg])"

lemma heldMem_mset: "mset (heldMem vm) = mset (heldList vm)"
  by (simp add: heldMem_def heldList_def Let_def)

definition took :: "Bit32u multiset \<Rightarrow> nat \<Rightarrow> vm_t \<Rightarrow> bool" where
  "took M k vm \<longleftrightarrow> (\<exists>as. length as = k \<and> (\<forall>a \<in> set as. a \<noteq> 0 \<and> a AND 0xfff = 0) \<and>
     heldList vm = as @ replicate (16 - k) 0 \<and> live (vm_os vm) = M + mset as)"

lemma took_same: "took M k vm \<Longrightarrow> heldList vm' = heldList vm \<Longrightarrow> live (vm_os vm') = live (vm_os vm) \<Longrightarrow> took M k vm'"
  by (simp add: took_def)

lemma heldList_upd [simp]:
  "heldList (vm\<lparr>vm_os := os\<rparr>) = heldList vm" "heldList (vm\<lparr>vm_guestPageInfo := info\<rparr>) = heldList vm"
  "heldList (vm\<lparr>vm_guestPhyMemAddr := a\<rparr>) = heldList vm" "heldList (vm\<lparr>vm_vmState := st\<rparr>) = heldList vm"
  by (simp_all add: heldList_def)

text \<open>\<open>f a\<close> stores the pointer \<open>a\<close> of allocation \<open>k\<close>.\<close>

definition storesAt :: "nat \<Rightarrow> (Bit32u \<Rightarrow> vm_t \<Rightarrow> vm_t) \<Rightarrow> bool" where
  "storesAt k f \<longleftrightarrow> k < 16 \<and> (\<forall>a vm. heldList (f a vm) = (heldList vm)[k := a] \<and> vm_os (f a vm) = vm_os vm)"

lemma took_alloc:
  assumes t: "took M k vm" and a: "a \<noteq> 0" "a AND 0xfff = 0" and f: "storesAt k f"
  shows "took M (Suc k) (f a (vm\<lparr>vm_os := OsAlloc a # vm_os vm\<rparr>))"
proof -
  obtain as where as: "length as = k" "\<forall>a \<in> set as. a \<noteq> 0 \<and> a AND 0xfff = 0" "heldList vm = as @ replicate (16 - k) 0" "live (vm_os vm) = M + mset as"
    using t by (auto simp: took_def)
  have k: "k < 16" using f by (simp add: storesAt_def)
  have "replicate (16 - k) (0 :: Bit32u) = 0 # replicate (16 - Suc k) 0"
    using k by (cases "16 - k") (auto simp: Suc_diff_Suc)
  then have "(heldList vm)[k := a] = (as @ [a]) @ replicate (16 - Suc k) 0"
    using as(1,3) by (simp add: list_update_append)
  then show ?thesis
    unfolding took_def using as a f by (intro exI [of _ "as @ [a]"]) (simp add: storesAt_def)
qed

lemma took_store_0:
  assumes t: "took M k vm" and f: "storesAt k f"
  shows "took M k (f 0 vm)"
proof -
  have "heldList vm ! k = 0" "k < length (heldList vm)" using t f by (auto simp: took_def nth_append storesAt_def)
  then have "(heldList vm)[k := 0] = heldList vm" by (simp add: list_update_same_conv)
  then show ?thesis using t f by (auto intro: took_same simp: storesAt_def)
qed

text \<open>One statement of \<^verbatim>\<open>hostAllocVmPages\<close>: \<open>k\<close> pointers are set before it, \<open>k'\<close> when it succeeds.\<close>

definition stepOK :: "Bit32u multiset \<Rightarrow> nat \<Rightarrow> nat \<Rightarrow> bool mon \<Rightarrow> bool" where
  "stepOK M k k' m \<longleftrightarrow> (\<forall>vm. took M k vm \<longrightarrow> post m (\<lambda>ok vm'. took M (if ok then k' else k) vm') vm)"

definition pageAligned :: "kenv \<Rightarrow> bool" where
  "pageAligned ke \<longleftrightarrow> (\<forall>vm. ke_getPage ke vm AND 0xfff = 0) \<and> (\<forall>vm sz. ke_vmalloc ke vm sz AND 0xfff = 0)"

lemma allocPage_step:
  assumes "pageAligned ke" "storesAt k (\<lambda>a. upd_host_addr (store a))" "\<And>vm. heldList (clear vm) = heldList vm" "\<And>vm. vm_os (clear vm) = vm_os vm"
  shows "stepOK M k (Suc k) (allocPage ke store clear)"
proof -
  have "storesAt k (\<lambda>a vm. clear (upd_host_addr (store a) vm))"
    using assms by (simp add: storesAt_def)
  from took_alloc [OF _ _ _ this] show ?thesis
    using took_store_0 [OF _ assms(2)] assms(1)
    by (auto simp: stepOK_def allocPage_def hostOSAllocZeroedPage_def logOs_def pageAligned_def)
qed

lemma allocMem_step:
  assumes "pageAligned ke" "storesAt k store" "\<And>vm. heldList (clear vm) = heldList vm" "\<And>vm. vm_os (clear vm) = vm_os vm"
  shows "stepOK M k (Suc k) (allocMem ke sz store clear)"
proof -
  have "storesAt k (\<lambda>a vm. clear (store a vm))"
    using assms by (simp add: storesAt_def)
  from took_alloc [OF _ _ _ this] show ?thesis
    using took_store_0 [OF _ assms(2)] assms(1)
    by (auto simp: stepOK_def allocMem_def hostOSAllocZeroedMem_def logOs_def pageAligned_def)
qed

lemma physPage_step:
  assumes "\<And>p vm. heldList (upd_pages (store p) vm) = heldList vm"
  shows "stepOK M k k (physPage ke ptr store)"
  using assms by (auto simp: stepOK_def physPage_def intro: took_same)

lemma physMem_step:
  assumes "\<And>ps vm. heldList (store ps vm) = heldList vm" "\<And>ps vm. vm_os (store ps vm) = vm_os vm"
  shows "stepOK M k k (physMem ke n ptr sz store)"
  using assms by (auto simp: stepOK_def physMem_def case_prod_unfold intro: took_same)

lemma pinWindow_step:
  "stepOK M k k (pinGuestCPU env ke w)" "stepOK M k k (pinLogBuffer env ke w)"
  by (auto simp: stepOK_def pinGuestCPU_def pinLogBuffer_def hostOSPinWindow_def logOs_def setVMState_def
      heldList_def Let_def intro: took_same split: option.split)

text \<open>A run of statements.\<close>

inductive stepsOK :: "Bit32u multiset \<Rightarrow> nat \<Rightarrow> nat \<Rightarrow> (bool mon \<times> bool) list \<Rightarrow> bool" for M where
  none: "stepsOK M k k []"
| step: "stepOK M k k' m \<Longrightarrow> stepsOK M k' k'' ms \<Longrightarrow> stepsOK M k k'' ((m, c) # ms)"

lemma stepsOK_append: "stepsOK M k k' ms \<Longrightarrow> stepsOK M k' k'' ms' \<Longrightarrow> stepsOK M k k'' (ms @ ms')"
  by (induction rule: stepsOK.induct) (auto intro: stepsOK.step)

lemma runSteps_took:
  "stepsOK M k k' ms \<Longrightarrow> took M k vm \<Longrightarrow>
   post (runSteps ms pos) (\<lambda>r vm'. case r of None \<Rightarrow> took M k' vm' | Some _ \<Rightarrow> \<exists>j. took M j vm') vm"
proof (induction arbitrary: pos vm rule: stepsOK.induct)
  case (step k k' m k'' ms c)
  have "post m (\<lambda>ok vm'. took M (if ok then k' else k) vm') vm"
    using step by (simp add: stepOK_def)
  then show ?case
    using step.IH by (auto elim!: post_mono)
qed simp

lemma allocMonitor_steps:
  assumes "pageAligned ke"
  shows "stepsOK M 0 12 (allocMonitor ke)"
proof -
  have "stepsOK M 12 12 []" by (rule stepsOK.none)
  then show ?thesis
    unfolding allocMonitor_def
    by (intro stepsOK.step [OF allocPage_step [OF assms]] stepsOK.step [OF allocMem_step [OF assms]] stepsOK.step [OF physPage_step]
        stepsOK.step [OF physMem_step]) (simp_all add: storesAt_def heldList_def Let_def numeral_eq_Suc)
qed

lemma allocPageInfo_steps:
  assumes "pageAligned ke"
  shows "stepsOK M 12 16 (allocPageInfo ke nMegs)"
proof -
  have "stepsOK M 16 16 []" by (rule stepsOK.none)
  then show ?thesis
    unfolding allocPageInfo_def Let_def
    by (intro stepsOK.step [OF allocMem_step [OF assms]] stepsOK.step [OF physMem_step])
      (simp_all add: storesAt_def heldList_def Let_def numeral_eq_Suc)
qed

text \<open>Giving back.\<close>

lemma post_freeIf: "post (freeIf a) Q vm = Q () (if a = 0 then vm else vm\<lparr>vm_os := OsFree a # vm_os vm\<rparr>)"
  by (simp add: post_def freeIf_def hostOSFreeMem_def logOs_def)

lemma freeIf_forM:
  "post (forM as freeIf) (\<lambda>_ vm'. \<exists>os. vm' = vm\<lparr>vm_os := os\<rparr> \<and> live os = live (vm_os vm) - mset (filter (\<lambda>a. a \<noteq> 0) as)) vm"
proof (induction as arbitrary: vm)
  case Nil
  show ?case by (simp add: exI [of _ "vm_os vm"])
next
  case (Cons a as)
  let ?vm = "if a = 0 then vm else vm\<lparr>vm_os := OsFree a # vm_os vm\<rparr>"
  have "post (forM as freeIf) (\<lambda>_ vm'. \<exists>os. vm' = vm\<lparr>vm_os := os\<rparr> \<and>
      live os = live (vm_os vm) - mset (filter (\<lambda>a. a \<noteq> 0) (a # as))) ?vm"
    by (rule post_mono [OF Cons]) (auto split: if_splits)
  then show ?case
    by (simp only: forM.simps post_thn post_freeIf)
qed

definition releaseSame :: "vm_t \<Rightarrow> vm_t \<Rightarrow> bool" where
  "releaseSame vm vm' \<longleftrightarrow> (\<exists>info os. vm' = vm\<lparr>vm_guestPageInfo := info, vm_os := os\<rparr> \<and> live os = live (vm_os vm))"

lemma releaseSame_refl [simp]: "releaseSame vm vm"
  unfolding releaseSame_def by (rule exI [of _ "vm_guestPageInfo vm"], rule exI [of _ "vm_os vm"]) simp

lemma releasePages_post:
  "post hostReleasePinnedUserPages (\<lambda>_ vm'. releaseSame vm vm') vm"
proof -
  have page: "post (releasePage ppi) (\<lambda>_. releaseSame vm) vm1" if "releaseSame vm vm1" for ppi vm1
    using that by (fastforce simp: releasePage_def pageInfo_def updPageInfo_def hostOSUnpinUserPage_def releaseSame_def
        intro: vm_t.equality)
  show ?thesis
    unfolding hostReleasePinnedUserPages_def
    by (auto intro!: post_mono [OF post_forM [where I = "releaseSame vm"]] page simp: hostOSUnpinUserPage_def)
      (fastforce simp: releaseSame_def intro: vm_t.equality)
qed

lemma hostUnallocVmPages_post:
  assumes "mset (filter (\<lambda>a. a \<noteq> 0) (heldList vm)) \<subseteq># live (vm_os vm)"
  shows "post hostUnallocVmPages (\<lambda>_ vm'. live (vm_os vm') = live (vm_os vm) - mset (filter (\<lambda>a. a \<noteq> 0) (heldList vm)) \<and>
     vm_pages vm' = zero_vm_pages \<and> vm_host_addr vm' = zero_vm_addr \<and> vm_guestPhyMemAddr vm' = 0 \<and>
     vm_vmState vm' = vm_vmState vm AND NOT VMStateRegisteredPhyMem) vm"
  unfolding hostUnallocVmPages_def clearVMState_def
  by (auto intro!: post_mono [OF releasePages_post] post_mono [OF freeIf_forM] simp: releaseSame_def heldMem_mset)

section \<open>Allocation as a whole\<close>

lemma runSteps_keeps: "(\<And>m c. (m, c) \<in> set ms \<Longrightarrow> keeps f m) \<Longrightarrow> keeps f (runSteps ms pos)"
proof (induction ms arbitrary: pos)
  case (Cons mc ms)
  then show ?case by (cases mc) (auto intro!: keeps_rules)
qed (simp add: keeps_ret)

lemma post_runSteps_append:
  "post (runSteps as pos) (\<lambda>r t. case r of None \<Rightarrow> (\<forall>p. post (runSteps bs p) Q t) | Some e \<Rightarrow> Q (Some e) t) s \<Longrightarrow>
   post (runSteps (as @ bs) pos) Q s"
proof (induction as arbitrary: pos s)
  case (Cons mc as)
  then show ?case by (cases mc) (auto elim!: post_mono split: if_splits)
qed simp

text \<open>What the allocation of the monitor's own pages does not touch.\<close>

definition allocCore where
  "allocCore (vm :: vm_t) = (pg_guest_n_pages (vm_pages vm), pg_guest_n_bytes (vm_pages vm), vm_guestPhyMemAddr vm, vm_linuxVMMode vm,
     vm_hw vm, vm_phymem vm, vm_guestCPUIDInfo vm, vm_vmState vm, vm_mon_request vm)"

lemma allocPage_keeps:
  "(\<And>a vm. f (upd_host_addr (store a) vm) = f vm) \<Longrightarrow> (\<And>vm. f (clear vm) = f vm) \<Longrightarrow> (\<And>vm os. f (vm\<lparr>vm_os := os\<rparr>) = f vm) \<Longrightarrow>
   keeps f (allocPage ke store clear)"
  unfolding allocPage_def hostOSAllocZeroedPage_def logOs_def by (intro keeps_rules keeps_modify) simp_all

lemma allocMem_keeps:
  "(\<And>a vm. f (store a vm) = f vm) \<Longrightarrow> (\<And>vm. f (clear vm) = f vm) \<Longrightarrow> (\<And>vm os. f (vm\<lparr>vm_os := os\<rparr>) = f vm) \<Longrightarrow>
   keeps f (allocMem ke sz store clear)"
  unfolding allocMem_def hostOSAllocZeroedMem_def logOs_def by (intro keeps_rules keeps_modify) simp_all

lemma physPage_keeps: "(\<And>p vm. f (upd_pages (store p) vm) = f vm) \<Longrightarrow> keeps f (physPage ke ptr store)"
  unfolding physPage_def by (intro keeps_rules keeps_modify) simp

lemma physMem_keeps: "(\<And>ps vm. f (store ps vm) = f vm) \<Longrightarrow> keeps f (physMem ke n ptr sz store)"
  unfolding physMem_def by (intro keeps_rules keeps_modify) simp

lemmas alloc_keeps = allocPage_keeps allocMem_keeps physPage_keeps physMem_keeps

lemma allocMonitor_keeps: "(m, c) \<in> set (allocMonitor ke) \<Longrightarrow> keeps allocCore m"
  unfolding allocMonitor_def list.set by (auto intro!: alloc_keeps simp: allocCore_def)

lemma allocPageInfo_keeps: "(m, c) \<in> set (allocPageInfo ke n) \<Longrightarrow> keeps allocCore m"
  unfolding allocPageInfo_def list.set Let_def by (auto intro!: alloc_keeps simp: allocCore_def)

lemma allocPageInfo_tl_keeps: "(m, c) \<in> set (tl (allocPageInfo ke n)) \<Longrightarrow> keeps vm_guestPageInfo m"
  unfolding allocPageInfo_def list.set list.sel Let_def by (auto intro!: alloc_keeps)

lemma allocPageInfo_zero:
  "post (runSteps (allocPageInfo ke n) pos) (\<lambda>r vm'. r = None \<longrightarrow> vm_guestPageInfo vm' = (\<lambda>_. zero_phyPageInfo)) vm"
proof -
  obtain a store where list: "allocPageInfo ke n =
      (allocMem ke a store (\<lambda>vm. vm\<lparr>vm_guestPageInfo := (\<lambda>_. zero_phyPageInfo)\<rparr>), True) # tl (allocPageInfo ke n)"
    by (simp add: allocPageInfo_def Let_def)
  have tail: "post (runSteps (tl (allocPageInfo ke n)) pos')
      (\<lambda>r vm'. r = None \<longrightarrow> vm_guestPageInfo vm' = (\<lambda>_. zero_phyPageInfo)) vm1"
    if "vm_guestPageInfo vm1 = (\<lambda>_. zero_phyPageInfo)" for pos' vm1
    using that by (intro post_keeps [OF runSteps_keeps [OF allocPageInfo_tl_keeps]]) auto
  show ?thesis
    by (subst list) (auto simp: allocMem_def hostOSAllocZeroedMem_def logOs_def intro!: tail)
qed

definition VMStateAllocated :: Bit32u where
  "VMStateAllocated = VMStateRegisteredPhyMem OR VMStateRegisteredGuestCPU OR VMStateRegisteredPrintBuffer OR VMStateMemAllocated"

definition allocOK :: "plex86IoctlRegisterMem_t \<Rightarrow> vm_t \<Rightarrow> vm_t \<Rightarrow> bool" where
  "allocOK msg vm vm' \<longleftrightarrow> pg_guest_n_pages (vm_pages vm') = rm_nMegs msg * 256 \<and>
     pg_guest_n_bytes (vm_pages vm') = rm_nMegs msg * 1024 * 1024 \<and> vm_guestPhyMemAddr vm' = rm_guestPhyMemVector msg \<and>
     vm_guestPageInfo vm' = (\<lambda>_. zero_phyPageInfo) \<and> 0 \<notin> set (heldList vm') \<and>
     vm_linuxVMMode vm' = vm_linuxVMMode vm \<and> vm_hw vm' = vm_hw vm \<and> vm_phymem vm' = vm_phymem vm \<and>
     vm_guestCPUIDInfo vm' = vm_guestCPUIDInfo vm \<and> vm_vmState vm' = vm_vmState vm OR VMStateAllocated"

lemma runSteps_pos:
  "post (runSteps ms pos) (\<lambda>r vm'. \<forall>p. r = Some p \<longrightarrow> (\<exists>j < length ms. p = pos + of_nat j)) vm"
proof (induction ms arbitrary: pos vm)
  case (Cons mc ms)
  obtain m c where mc: "mc = (m, c)" by (cases mc)
  have tail: "post (runSteps ms (if c then pos + 1 else pos)) (\<lambda>r vm'. \<forall>p. r = Some p \<longrightarrow>
      (\<exists>j < length (mc # ms). p = pos + of_nat j)) vm1" for vm1
  proof (rule post_mono [OF Cons.IH], intro allI impI)
    fix r p assume "\<forall>p. r = Some p \<longrightarrow> (\<exists>j<length ms. p = (if c then pos + 1 else pos) + of_nat j)" "r = Some p"
    then obtain j where "j < length ms" "p = (if c then pos + 1 else pos) + of_nat j" by blast
    then show "\<exists>j < length (mc # ms). p = pos + of_nat j"
      by (intro exI [of _ "if c then Suc j else j"]) (auto simp: algebra_simps)
  qed
  show ?case
    unfolding mc runSteps.simps post_bnd
    by (rule post_mono [where P = "\<lambda>_ _. True"]) (use tail mc in \<open>auto simp: post_def\<close>)
qed simp

lemma allocSteps_length: "length (allocMonitor ke) = 24" "length (allocPageInfo ke n) = 7"
  by (simp_all add: allocMonitor_def allocPageInfo_def Let_def)

definition pinnedCore :: "vm_t \<Rightarrow> vm_t \<Rightarrow> bool" where
  "pinnedCore vm vm' \<longleftrightarrow> (let (np, nb, a, lin, hw, mem, ci, st, r) = allocCore vm in
     allocCore vm' = (np, nb, a, lin, hw, mem, ci, st OR VMStateRegisteredGuestCPU OR VMStateRegisteredPrintBuffer, r))"

lemma pinSteps_core:
  "post (runSteps [(pinGuestCPU env ke w, True), (pinLogBuffer env ke w', True)] pos) (\<lambda>r vm'. r = None \<longrightarrow> pinnedCore vm vm') vm"
  by (auto simp: pinGuestCPU_def pinLogBuffer_def hostOSPinWindow_def logOs_def setVMState_def pinnedCore_def allocCore_def Let_def
      or.assoc split: option.splits prod.splits)

lemma allocSteps_post:
  fixes env w w' n
  assumes al: "pageAligned ke" and vm: "took M 0 vm"
  defines "ms \<equiv> [(pinGuestCPU env ke w, True), (pinLogBuffer env ke w', True)] @ allocMonitor ke @ allocPageInfo ke n"
  shows "post (runSteps ms 2) (\<lambda>r vm'. case r of Some p \<Rightarrow> p \<noteq> 0 \<and> (\<exists>j. took M j vm')
     | None \<Rightarrow> took M 16 vm' \<and> vm_guestPageInfo vm' = (\<lambda>_. zero_phyPageInfo) \<and> pinnedCore vm vm') vm"
proof -
  have steps: "stepsOK M 0 16 ms"
    unfolding ms_def
    by (intro stepsOK_append [OF _ stepsOK_append [OF allocMonitor_steps [OF al] allocPageInfo_steps [OF al]]]
        stepsOK.step [OF pinWindow_step(1)] stepsOK.step [OF pinWindow_step(2)] stepsOK.none)
  have took: "post (runSteps ms 2) (\<lambda>r vm'. case r of None \<Rightarrow> took M 16 vm' | Some _ \<Rightarrow> \<exists>j. took M j vm') vm"
    by (rule runSteps_took [OF steps vm])
  have pos: "post (runSteps ms 2) (\<lambda>r _. \<forall>p. r = Some p \<longrightarrow> p \<noteq> 0) vm"
  proof (rule post_mono [OF runSteps_pos], intro allI impI)
    fix r and p :: Bit32u assume "\<forall>p. r = Some p \<longrightarrow> (\<exists>j < length ms. p = 2 + of_nat j)" "r = Some p"
    then obtain j where j: "j < 33" "p = 2 + of_nat j" by (auto simp: ms_def allocSteps_length)
    then have "unat p = 2 + j" by (simp add: unat_word_ariths unat_of_nat)
    then show "p \<noteq> 0" by auto
  qed
  have tail: "post (runSteps (allocMonitor ke @ allocPageInfo ke n) p)
      (\<lambda>r vm'. r = None \<longrightarrow> vm_guestPageInfo vm' = (\<lambda>_. zero_phyPageInfo) \<and> pinnedCore vm vm') vm1" if "pinnedCore vm vm1" for p vm1
  proof (rule post_runSteps_append, rule post_keeps [OF runSteps_keeps [OF allocMonitor_keeps]])
    fix r vm2 assume vm2: "allocCore vm2 = allocCore vm1"
    have "post (runSteps (allocPageInfo ke n) p) (\<lambda>r vm'. r = None \<longrightarrow> vm_guestPageInfo vm' = (\<lambda>_. zero_phyPageInfo) \<and>
        pinnedCore vm vm') vm2" for p
      by (rule post_mono [OF post_conj [OF allocPageInfo_zero post_keeps [OF runSteps_keeps [OF allocPageInfo_keeps],
            where Q = "\<lambda>_ vm'. pinnedCore vm vm'"]]])
        (use that vm2 in \<open>simp_all add: pinnedCore_def\<close>)
    then show "case r of None \<Rightarrow> \<forall>p. post (runSteps (allocPageInfo ke n) p)
        (\<lambda>r vm'. r = None \<longrightarrow> vm_guestPageInfo vm' = (\<lambda>_. zero_phyPageInfo) \<and> pinnedCore vm vm') vm2
      | Some e \<Rightarrow> Some e = None \<longrightarrow> vm_guestPageInfo vm2 = (\<lambda>_. zero_phyPageInfo) \<and> pinnedCore vm vm2"
      by (simp split: option.split)
  qed
  have core: "post (runSteps ms 2) (\<lambda>r vm'. r = None \<longrightarrow> vm_guestPageInfo vm' = (\<lambda>_. zero_phyPageInfo) \<and> pinnedCore vm vm') vm"
    unfolding ms_def
    by (rule post_runSteps_append, rule post_mono [OF pinSteps_core]) (use tail in \<open>auto split: option.split\<close>)
  show ?thesis
    by (rule post_mono [OF post_conj [OF took post_conj [OF pos core]]]) (auto split: option.splits)
qed

lemma took_16: "took M 16 vm \<Longrightarrow> 0 \<notin> set (heldList vm) \<and> live (vm_os vm) = M + mset (heldList vm)"
  by (auto simp: took_def)

lemma took_held:
  assumes "took M j vm"
  shows "live (vm_os vm) = M + mset (filter (\<lambda>a. a \<noteq> 0) (heldList vm))"
proof -
  obtain as where as: "\<forall>a \<in> set as. a \<noteq> 0 \<and> a AND 0xfff = 0" "heldList vm = as @ replicate (16 - j) 0" "live (vm_os vm) = M + mset as"
    using assms by (auto simp: took_def)
  have "filter (\<lambda>a. a \<noteq> 0) as = as" using as(1) by (induction as) auto
  then show ?thesis using as by simp
qed

text \<open>On success every pointer is set, and the memory taken is what they point to. On failure everything is
  given back.\<close>

lemma hostAllocVmPages_post:
  assumes "pageAligned ke"
  shows "post (hostAllocVmPages env ke msg) (\<lambda>r vm'.
     if r = 0 then allocOK msg vm vm' \<and> live (vm_os vm') = live (vm_os vm) + mset (heldList vm')
     else live (vm_os vm') = live (vm_os vm) \<and> vm_pages vm' = zero_vm_pages \<and> vm_host_addr vm' = zero_vm_addr) vm"
proof -
  let ?ms = "[(pinGuestCPU env ke (rm_guestCPUWindow msg), True), (pinLogBuffer env ke (rm_logBufferWindow msg), True)] @
              allocMonitor ke @ allocPageInfo ke (rm_nMegs msg)"
  let ?Q = "\<lambda>r vm'. if r = 0 then allocOK msg vm vm' \<and> live (vm_os vm') = live (vm_os vm) + mset (heldList vm')
     else live (vm_os vm') = live (vm_os vm) \<and> vm_pages vm' = zero_vm_pages \<and> vm_host_addr vm' = zero_vm_addr"
  define vm1 where "vm1 = vm\<lparr>vm_pages := zero_vm_pages\<lparr>pg_guest_n_megs := rm_nMegs msg,
     pg_guest_n_pages := rm_nMegs msg * 256, pg_guest_n_bytes := rm_nMegs msg * 1024 * 1024\<rparr>, vm_host_addr := zero_vm_addr,
     vm_guestPhyMemAddr := rm_guestPhyMemVector msg, vm_vmState := vm_vmState vm OR VMStateRegisteredPhyMem\<rparr>"
  have took0: "took (live (vm_os vm)) 0 vm1"
    by (simp add: took_def heldList_def vm1_def zero_vm_pages_def zero_vm_addr_def numeral_eq_Suc)
  have "post (bnd (runSteps ?ms 2) (\<lambda>r. case r of None \<Rightarrow> thn (setVMState VMStateMemAllocated) (ret 0)
      | Some pos \<Rightarrow> thn hostUnallocVmPages (ret pos))) ?Q vm1"
    unfolding post_bnd
  proof (rule post_mono [OF allocSteps_post [OF assms took0]])
    fix r :: "Bit32u option" and vm2
    assume vm2: "case r of Some p \<Rightarrow> p \<noteq> 0 \<and> (\<exists>j. took (live (vm_os vm)) j vm2)
      | None \<Rightarrow> took (live (vm_os vm)) 16 vm2 \<and> vm_guestPageInfo vm2 = (\<lambda>_. zero_phyPageInfo) \<and> pinnedCore vm1 vm2"
    show "post (case r of None \<Rightarrow> thn (setVMState VMStateMemAllocated) (ret 0) | Some pos \<Rightarrow> thn hostUnallocVmPages (ret pos)) ?Q vm2"
    proof (cases r)
      case None
      then show ?thesis
        using vm2 took_16 by (auto simp: setVMState_def allocOK_def pinnedCore_def allocCore_def vm1_def VMStateAllocated_def or.assoc)
    next
      case (Some p)
      then obtain j where j: "took (live (vm_os vm)) j vm2" "p \<noteq> 0" using vm2 by auto
      then show ?thesis
        using Some took_held [OF j(1)] by (auto intro!: post_mono [OF hostUnallocVmPages_post])
    qed
  qed
  then show ?thesis
    unfolding hostAllocVmPages_def setVMState_def [of VMStateRegisteredPhyMem] post_thn post_modify
    by (rule back_subst [where P = "post m Q" for m Q]) (simp add: vm1_def)
qed

text \<open>A failure before \<^verbatim>\<open>guestPageInfo\<close> is allocated is cleaned up through the missing array.\<close>

lemma releasePages_NULL:
  assumes "ad_guestPageInfo (vm_host_addr vm) = 0" "pg_guest_n_pages (vm_pages vm) \<noteq> 0"
  shows "hostReleasePinnedUserPages vm = Undef ''guestPageInfo(NULL)''"
proof -
  have "0 < unat (pg_guest_n_pages (vm_pages vm))" using assms(2) by (simp add: unat_gt_0)
  then show ?thesis
    using assms by (simp add: hostReleasePinnedUserPages_def releasePage_def upt_rec)
qed

lemma hostAllocVmPages_pin_fails:
  assumes "rm_nMegs msg * 256 \<noteq> 0" "rm_guestPhyMemVector msg \<noteq> 0" and "\<And>vm. he_pin env vm (rm_guestCPUWindow msg) = None"
  shows "hostAllocVmPages env ke msg vm = Undef ''guestPageInfo(NULL)''"
  using assms
  by (simp add: hostAllocVmPages_def setVMState_def pinGuestCPU_def hostOSPinWindow_def hostUnallocVmPages_def releasePages_NULL
      zero_vm_addr_def)

text \<open>A failure of \<^verbatim>\<open>vmalloc\<close> is not noticed before the memory is cleared.\<close>

lemma hostOSAllocZeroedMem_NULL:
  "ke_vmalloc ke vm sz = 0 \<Longrightarrow> sz \<noteq> 0 \<Longrightarrow> hostOSAllocZeroedMem ke sz vm = Undef ''nexusMemZero(NULL)''"
  by (simp add: hostOSAllocZeroedMem_def)

section \<open>Physical pages\<close>

text \<open>The pages found are those the kernel's tables hold, one for each page of the region.\<close>

lemma phyPagesLoop_ok:
  "phyPagesLoop ke vm u n m i k addr = (n, ps) \<Longrightarrow> length ps = k \<Longrightarrow>
   \<forall>j < k. kernelPhyPage ke vm (KERNEL_OFFSET + (addr + 4096 * of_nat j)) \<noteq> None \<and>
     ps ! j = drop_bit 12 (the (kernelPhyPage ke vm (KERNEL_OFFSET + (addr + 4096 * of_nat j))))"
proof (induction k arbitrary: i addr ps)
  case (Suc k)
  obtain a r qs where a: "kernelPhyPage ke vm (KERNEL_OFFSET + addr) = Some a" and
    qs: "phyPagesLoop ke vm u n m (i + 1) k (addr + 4096) = (r, qs)" "ps = drop_bit 12 a # qs" "r = n"
    using Suc.prems by (auto split: option.splits if_splits prod.splits)
  have len: "length qs = k" using Suc.prems(2) qs(2) by simp
  have IH: "\<forall>j < k. kernelPhyPage ke vm (KERNEL_OFFSET + (addr + 4096 + 4096 * of_nat j)) \<noteq> None \<and>
     qs ! j = drop_bit 12 (the (kernelPhyPage ke vm (KERNEL_OFFSET + (addr + 4096 + 4096 * of_nat j))))"
    using Suc.IH [OF _ len] qs by simp
  show ?case
  proof (intro allI impI)
    fix j assume "j < Suc k"
    then show "kernelPhyPage ke vm (KERNEL_OFFSET + (addr + 4096 * of_nat j)) \<noteq> None \<and>
        ps ! j = drop_bit 12 (the (kernelPhyPage ke vm (KERNEL_OFFSET + (addr + 4096 * of_nat j))))"
      using a qs(2) IH by (cases j) (auto simp: algebra_simps)
  qed
qed simp

section \<open>A kernel that has the memory\<close>

text \<open>Every page and region asked for is granted, every page of it is in the kernel's page tables, and user
  pages can be pinned.\<close>

definition kernelGrants :: "henv \<Rightarrow> kenv \<Rightarrow> bool" where
  "kernelGrants env ke \<longleftrightarrow> pageAligned ke \<and> (\<forall>vm. ke_getPage ke vm \<noteq> 0) \<and> (\<forall>vm sz. sz \<noteq> 0 \<longrightarrow> ke_vmalloc ke vm sz \<noteq> 0) \<and>
     (\<forall>a. a \<noteq> 0 \<longrightarrow> a AND 0xfff = 0 \<longrightarrow> drop_bit 12 (ke_pa ke a) \<noteq> 0) \<and> (\<forall>vm a. kernelPhyPage ke vm a \<noteq> None) \<and>
     (\<forall>vm a. he_pin env vm a \<noteq> None) \<and>
     ke_vm ke \<noteq> 0 \<and> ke_vm ke AND 0xfff = 0 \<and> ke_sizeof_vm ke \<noteq> 0 \<and> unat (BytesToPages (ke_sizeof_vm ke)) \<le> MAX_VM_STRUCT_PAGES \<and>
     BytesToPages (ke_sizeof_vm ke) \<noteq> 0"

definition stepSucceeds :: "Bit32u multiset \<Rightarrow> nat \<Rightarrow> nat \<Rightarrow> bool mon \<Rightarrow> bool" where
  "stepSucceeds M k k' m \<longleftrightarrow> (\<forall>vm. took M k vm \<longrightarrow> twp m (\<lambda>ok vm'. ok \<and> took M k' vm') vm)"

lemma stepSucceedsI:
  assumes "stepOK M k k' m" "\<And>vm. took M k vm \<Longrightarrow> twp m (\<lambda>ok _. ok) vm"
  shows "stepSucceeds M k k' m"
  using assms by (fastforce simp: stepSucceeds_def stepOK_def post_def twp_iff)

lemma took_nth:
  assumes "took M k vm" "j < k" "k \<le> 16"
  shows "heldList vm ! j \<noteq> 0" "heldList vm ! j AND 0xfff = 0"
proof -
  obtain as where as: "length as = k" "\<forall>a \<in> set as. a \<noteq> 0 \<and> a AND 0xfff = 0" "heldList vm = as @ replicate (16 - k) 0"
    using assms(1) by (auto simp: took_def)
  then have "heldList vm ! j \<in> set as" using assms(2) by (simp add: nth_append)
  then show "heldList vm ! j \<noteq> 0" "heldList vm ! j AND 0xfff = 0" using as(2) by blast+
qed

lemma allocPage_succeeds:
  assumes "kernelGrants env ke" "storesAt k (\<lambda>a. upd_host_addr (store a))" "\<And>vm. heldList (clear vm) = heldList vm"
    "\<And>vm. vm_os (clear vm) = vm_os vm"
  shows "stepSucceeds M k (Suc k) (allocPage ke store clear)"
  by (rule stepSucceedsI [OF allocPage_step])
    (use assms in \<open>auto simp: kernelGrants_def allocPage_def hostOSAllocZeroedPage_def logOs_def\<close>)

lemma allocMem_succeeds:
  assumes "kernelGrants env ke" "sz \<noteq> 0" "storesAt k store" "\<And>vm. heldList (clear vm) = heldList vm"
    "\<And>vm. vm_os (clear vm) = vm_os vm"
  shows "stepSucceeds M k (Suc k) (allocMem ke sz store clear)"
  by (rule stepSucceedsI [OF allocMem_step])
    (use assms in \<open>auto simp: kernelGrants_def pageAligned_def allocMem_def hostOSAllocZeroedMem_def logOs_def\<close>)

lemma physPage_succeeds:
  assumes "kernelGrants env ke" "j < k" "k \<le> 16" "\<And>vm. ptr (vm_host_addr vm) = heldList vm ! j"
    "\<And>p vm. heldList (upd_pages (store p) vm) = heldList vm"
  shows "stepSucceeds M k k (physPage ke ptr store)"
  by (rule stepSucceedsI [OF physPage_step])
    (use assms took_nth in \<open>auto simp: kernelGrants_def physPage_def hostOSGetAllocedPagePhyPage_def\<close>)

lemma phyPagesLoop_all:
  "(\<And>a. kernelPhyPage ke vm a \<noteq> None) \<Longrightarrow> i + k \<le> m \<Longrightarrow> fst (phyPagesLoop ke vm u n m i k addr) = n"
proof (induction k arbitrary: i addr)
  case (Suc k)
  obtain a where "kernelPhyPage ke vm (KERNEL_OFFSET + addr) = Some a" using Suc.prems(1) by blast
  then show ?case using Suc.IH [of "i + 1" "addr + 4096"] Suc.prems by (simp add: case_prod_unfold)
qed simp

lemma retrievePhyPages_all:
  assumes "\<And>a. kernelPhyPage ke vm a \<noteq> None" "addr AND 0xfff = 0" "addr \<noteq> 0" "sz \<noteq> 0" "unat (BytesToPages sz) \<le> n" "BytesToPages sz \<noteq> 0"
  shows "fst (retrievePhyPages ke vm n addr sz) \<noteq> 0"
  using assms phyPagesLoop_all [of ke vm 0 "unat (BytesToPages sz)" n]
  by (simp add: retrievePhyPages_def Let_def unat_gt_0)

lemma physMem_succeeds:
  assumes "kernelGrants env ke" "j < k" "k \<le> 16" "\<And>vm. ptr (vm_host_addr vm) = heldList vm ! j"
    "sz \<noteq> 0" "unat (BytesToPages sz) \<le> n" "BytesToPages sz \<noteq> 0"
    "\<And>ps vm. heldList (store ps vm) = heldList vm" "\<And>ps vm. vm_os (store ps vm) = vm_os vm"
  shows "stepSucceeds M k k (physMem ke n ptr sz store)"
proof (rule stepSucceedsI [OF physMem_step [OF assms(8,9)]])
  fix vm assume "took M k vm"
  then have "fst (retrievePhyPages ke vm n (ptr (vm_host_addr vm)) sz) \<noteq> 0"
    using assms took_nth [of M k vm j] by (intro retrievePhyPages_all) (auto simp: kernelGrants_def)
  then show "twp (physMem ke n ptr sz store) (\<lambda>ok _. ok) vm"
    by (simp add: physMem_def hostOSGetAllocedMemPhyPages_def case_prod_unfold)
qed

lemma physVm_succeeds:
  assumes "kernelGrants env ke" "\<And>ps vm. heldList (store ps vm) = heldList vm" "\<And>ps vm. vm_os (store ps vm) = vm_os vm"
  shows "stepSucceeds M k k (physMem ke MAX_VM_STRUCT_PAGES (\<lambda>_. ke_vm ke) (ke_sizeof_vm ke) store)"
proof (rule stepSucceedsI [OF physMem_step [OF assms(2,3)]])
  fix vm
  have "fst (retrievePhyPages ke vm MAX_VM_STRUCT_PAGES (ke_vm ke) (ke_sizeof_vm ke)) \<noteq> 0"
    using assms(1) by (intro retrievePhyPages_all) (auto simp: kernelGrants_def)
  then show "twp (physMem ke MAX_VM_STRUCT_PAGES (\<lambda>_. ke_vm ke) (ke_sizeof_vm ke) store) (\<lambda>ok _. ok) vm"
    by (simp add: physMem_def hostOSGetAllocedMemPhyPages_def case_prod_unfold)
qed

lemma pinWindow_succeeds:
  assumes "kernelGrants env ke"
  shows "stepSucceeds M k k (pinGuestCPU env ke w)" "stepSucceeds M k k (pinLogBuffer env ke w)"
proof -
  have pin: "\<exists>p. he_pin env vm w = Some p" for vm using assms by (auto simp: kernelGrants_def)
  show "stepSucceeds M k k (pinGuestCPU env ke w)"
  proof (rule stepSucceedsI [OF pinWindow_step(1)])
    fix vm
    show "twp (pinGuestCPU env ke w) (\<lambda>ok _. ok) vm"
      using pin [of vm] by (auto simp: pinGuestCPU_def hostOSPinWindow_def logOs_def setVMState_def)
  qed
  show "stepSucceeds M k k (pinLogBuffer env ke w)"
  proof (rule stepSucceedsI [OF pinWindow_step(2)])
    fix vm
    show "twp (pinLogBuffer env ke w) (\<lambda>ok _. ok) vm"
      using pin [of vm] by (auto simp: pinLogBuffer_def hostOSPinWindow_def logOs_def setVMState_def)
  qed
qed

inductive stepsSucceed :: "Bit32u multiset \<Rightarrow> nat \<Rightarrow> nat \<Rightarrow> (bool mon \<times> bool) list \<Rightarrow> bool" for M where
  none: "stepsSucceed M k k []"
| step: "stepSucceeds M k k' m \<Longrightarrow> stepsSucceed M k' k'' ms \<Longrightarrow> stepsSucceed M k k'' ((m, c) # ms)"

lemma stepsSucceed_append: "stepsSucceed M k k' ms \<Longrightarrow> stepsSucceed M k' k'' ms' \<Longrightarrow> stepsSucceed M k k'' (ms @ ms')"
  by (induction rule: stepsSucceed.induct) (auto intro: stepsSucceed.step)

lemma runSteps_succeeds: "stepsSucceed M k k' ms \<Longrightarrow> took M k vm \<Longrightarrow> twp (runSteps ms pos) (\<lambda>r _. r = None) vm"
proof (induction arbitrary: pos vm rule: stepsSucceed.induct)
  case (step k k' m k'' ms c)
  have "twp m (\<lambda>ok vm'. ok \<and> took M k' vm') vm"
    using step by (simp add: stepSucceeds_def)
  then show ?case
    using step.IH by (auto elim!: twp_mono)
qed simp

lemma unat_BytesToPages: "unat b \<le> 2 ^ 31 \<Longrightarrow> unat (BytesToPages b) = (unat b + 4095) div 4096"
  by (simp add: BytesToPages_def unat_drop_bit_eq drop_bit_eq_div unat_word_ariths)

lemma BytesToPages_range:
  assumes "b \<noteq> 0" "unat b \<le> 2 ^ 31"
  shows "0 < unat (BytesToPages b)" "unat (BytesToPages b) \<le> 2 ^ 19" "BytesToPages b \<noteq> 0"
proof -
  have b: "0 < unat b" using assms(1) by (simp add: unat_gt_0)
  show pos: "0 < unat (BytesToPages b)" using b by (simp add: unat_BytesToPages [OF assms(2)] div_greater_zero_iff)
  show "unat (BytesToPages b) \<le> 2 ^ 19"
    unfolding unat_BytesToPages [OF assms(2)] using div_le_mono [of "unat b + 4095" "2 ^ 31 + 4095" 4096] assms(2) by simp
  show "BytesToPages b \<noteq> 0" using pos by auto
qed

lemma pages_bytes: "0 < unat p \<Longrightarrow> unat p \<le> 2 ^ 19 \<Longrightarrow> push_bit 12 p \<noteq> (0 :: Bit32u)"
proof -
  assume p: "0 < unat p" "unat p \<le> 2 ^ 19"
  have "unat (push_bit 12 p) = unat p * 4096"
    using p by (simp add: push_bit_eq_mult unat_word_ariths)
  then show ?thesis using p by auto
qed

lemma push_bit_megs:
  "unat (n :: Bit32u) < 2 ^ 19 \<Longrightarrow> k \<le> 12 \<Longrightarrow> unat (push_bit k n) = unat n * 2 ^ k"
proof -
  assume n: "unat n < 2 ^ 19" and k: "k \<le> 12"
  have "unat n * 2 ^ k < 2 ^ 19 * 2 ^ 12"
    using n power_increasing [OF k, of "2 :: nat"] by (intro mult_less_le_imp_less) auto
  then have "unat n * 2 ^ k < 2 ^ 32" by simp
  then show ?thesis
    by (simp add: unsigned_push_bit_eq) (simp add: push_bit_eq_mult take_bit_eq_mod)
qed

lemma allocMonitor_succeeds:
  assumes "kernelGrants env ke"
  shows "stepsSucceed M 0 12 (allocMonitor ke)"
proof -
  have "stepsSucceed M (Suc (Suc (Suc (Suc (Suc (Suc (Suc (Suc (Suc (Suc (Suc (Suc 0)))))))))))) 12 []"
    using stepsSucceed.none [of M 12] by (simp add: numeral_eq_Suc)
  then show ?thesis
    unfolding allocMonitor_def
    by (intro stepsSucceed.step [OF allocPage_succeeds [OF assms]] stepsSucceed.step [OF allocMem_succeeds [OF assms]]
        stepsSucceed.step [OF physPage_succeeds [OF assms, where j = "k - 1" and k = k for k]]
        stepsSucceed.step [OF physMem_succeeds [OF assms, where j = "k - 1" and k = k for k]])
      (simp_all add: storesAt_def heldList_def Let_def BytesToPages_def)
qed

lemma allocPageInfo_succeeds:
  assumes k: "kernelGrants env ke" and n: "nMegs \<noteq> 0" "unat nMegs < 2 ^ 19"
  shows "stepsSucceed M 12 16 (allocPageInfo ke nMegs)"
proof -
  define b b' where "b = push_bit 12 nMegs" and "b' = 4 * push_bit 8 nMegs"
  have four: "4 * w = push_bit 2 w" "16 * w = push_bit 4 w" for w :: Bit32u
    by (simp_all add: push_bit_eq_mult)
  have n0: "0 < unat nMegs" using n(1) by (simp add: unat_gt_0)
  have ub: "unat b = unat nMegs * 4096" "unat b' = unat nMegs * 1024"
    using n(2) by (simp_all add: b_def b'_def four push_bit_megs)
  then have b: "b \<noteq> 0" "unat b \<le> 2 ^ 31" "b' \<noteq> 0" "unat b' \<le> 2 ^ 31" using n0 n(2) by auto
  have list: "4 * BytesToPages c \<noteq> 0" "unat (4 * BytesToPages c) \<le> 2 ^ 31" if "c \<noteq> 0" "unat c \<le> 2 ^ 31" for c
  proof -
    have "unat (4 * BytesToPages c) = 4 * unat (BytesToPages c)"
      using BytesToPages_range(2) [OF that] by (simp add: unat_word_ariths)
    then show "4 * BytesToPages c \<noteq> 0" "unat (4 * BytesToPages c) \<le> 2 ^ 31"
      using BytesToPages_range(1,2) [OF that] by auto
  qed
  note range = BytesToPages_range [OF b(1,2)] BytesToPages_range [OF b(3,4)]
    BytesToPages_range [OF list [OF b(1,2)]] BytesToPages_range [OF list [OF b(3,4)]]
  note bytes = pages_bytes [OF range(1,2)] pages_bytes [OF range(4,5)] pages_bytes [OF range(7,8)] pages_bytes [OF range(10,11)]
  have info: "sizeof_phyPageInfo * push_bit 8 nMegs = b"
    by (simp add: b_def four)
  note mem = allocMem_succeeds [OF k bytes(1)] allocMem_succeeds [OF k bytes(2)] allocMem_succeeds [OF k bytes(3)]
    allocMem_succeeds [OF k bytes(4)]
  note phys = physMem_succeeds [OF k _ _ _ b(1) order_refl range(3), where j = 12 and k = "Suc (Suc 12)"]
    physMem_succeeds [OF k _ _ _ b(3) order_refl range(6), where j = 14 and k = "Suc (Suc (Suc (Suc 12)))"]
  have "stepsSucceed M (Suc (Suc (Suc (Suc 12)))) 16 []"
    using stepsSucceed.none [of M 16] by (simp add: numeral_eq_Suc)
  then show ?thesis
    unfolding allocPageInfo_def Let_def info b'_def [symmetric]
    by (intro stepsSucceed.step [OF mem(1)] stepsSucceed.step [OF mem(2)] stepsSucceed.step [OF mem(3)]
        stepsSucceed.step [OF mem(4)] stepsSucceed.step [OF phys(1)] stepsSucceed.step [OF phys(2)]
        stepsSucceed.step [OF physVm_succeeds [OF k]])
      (simp_all add: storesAt_def heldList_def Let_def numeral_eq_Suc)
qed

text \<open>Then the allocation succeeds.\<close>

lemma hostAllocVmPages_succeeds:
  assumes k: "kernelGrants env ke" and n: "rm_nMegs msg \<noteq> 0" "unat (rm_nMegs msg) < 2 ^ 19"
  shows "twp (hostAllocVmPages env ke msg) (\<lambda>r _. r = 0) vm"
proof -
  let ?ms = "[(pinGuestCPU env ke (rm_guestCPUWindow msg), True), (pinLogBuffer env ke (rm_logBufferWindow msg), True)] @
              allocMonitor ke @ allocPageInfo ke (rm_nMegs msg)"
  have steps: "stepsSucceed M 0 16 ?ms" for M
    by (intro stepsSucceed_append [OF _ stepsSucceed_append [OF allocMonitor_succeeds [OF k] allocPageInfo_succeeds [OF k n]]]
        stepsSucceed.step [OF pinWindow_succeeds(1) [OF k]] stepsSucceed.step [OF pinWindow_succeeds(2) [OF k]] stepsSucceed.none)
  have run: "twp (runSteps ?ms 2) (\<lambda>r _. r = None) vm'" if "heldList vm' = replicate 16 0" for vm'
    by (rule runSteps_succeeds [OF steps, where M = "live (vm_os vm')"]) (simp add: took_def that)
  show ?thesis
    unfolding hostAllocVmPages_def setVMState_def twp_bnd twp_thn twp_modify
    by (rule twp_mono [OF run]) (simp_all add: heldList_def zero_vm_pages_def zero_vm_addr_def numeral_eq_Suc)
qed

end
