(* ===== verification/Host_Exec.thy ===== *)
theory Host_Exec
  imports Host_Alloc Emu_Correct
begin

text \<open>
  The ioctls of the device, \<^verbatim>\<open>hostIoctlGeneric\<close>, \<^verbatim>\<open>hostIoctlRegisterMem\<close> and the entry of
  \<^verbatim>\<open>hostIoctlExecute\<close> (\<^verbatim>\<open>host-space/monitor.c\<close>), and the file operations of
  \<^verbatim>\<open>host-kernel/linux/linux2.4.c\<close>. An ioctl that starts or resumes the guest does not return here:
  its result is \<open>None\<close>, and control is in the monitor. What happens until the monitor asks the host for
  something is \<open>mon_step\<close>, and the rest of the ioctl is \<open>mon2host\<close>.
\<close>

section \<open>Messages and codes\<close>

record plex86MonitorState_t =
  ms_state :: Bit32u
  ms_request :: Bit32u
  ms_guestFaultNo :: Bit32u
  ms_guestFaultError :: Bit32u

record plex86IoctlExecute_t =
  ex_executeMethod :: Bit32u
  ex_cyclesRequested :: Bit64u
  ex_instructionsRequested :: Bit32u
  ex_cyclesExecuted :: Bit64u
  ex_instructionsExecuted :: Bit32u
  ex_monitorState :: plex86MonitorState_t

definition Plex86ErrnoEBUSY :: int where "Plex86ErrnoEBUSY = 1"
definition Plex86ErrnoENOMEM :: int where "Plex86ErrnoENOMEM = 2"
definition Plex86ErrnoEFAULT :: int where "Plex86ErrnoEFAULT = 3"
definition Plex86ErrnoEINVAL :: int where "Plex86ErrnoEINVAL = 4"
definition Plex86ErrnoEACCES :: int where "Plex86ErrnoEACCES = 5"
definition Plex86ErrnoEAGAIN :: int where "Plex86ErrnoEAGAIN = 6"

lemmas plex86_errnos [simp] = Plex86ErrnoEBUSY_def Plex86ErrnoENOMEM_def Plex86ErrnoEFAULT_def Plex86ErrnoEINVAL_def
  Plex86ErrnoEACCES_def Plex86ErrnoEAGAIN_def

text \<open>The numbers of the host kernel (\<^verbatim>\<open>asm/errno.h\<close>).\<close>

definition hostOSConvertPlex86Errno :: "int \<Rightarrow> int" where
  "hostOSConvertPlex86Errno r =
     (if r = 0 then 0
      else if r = Plex86ErrnoEBUSY then 16
      else if r = Plex86ErrnoENOMEM then 12
      else if r = Plex86ErrnoEFAULT then 14
      else if r = Plex86ErrnoEINVAL then 22
      else if r = Plex86ErrnoEACCES then 13
      else if r = Plex86ErrnoEAGAIN then 11
      else 22)"

definition Plex86NoExecute_Method :: int where "Plex86NoExecute_Method = 1"
definition Plex86NoExecute_CR0 :: int where "Plex86NoExecute_CR0 = 2"
definition Plex86NoExecute_CR4 :: int where "Plex86NoExecute_CR4 = 3"
definition Plex86NoExecute_CS :: int where "Plex86NoExecute_CS = 4"
definition Plex86NoExecute_Selector :: int where "Plex86NoExecute_Selector = 6"
definition Plex86NoExecute_EFlags :: int where "Plex86NoExecute_EFlags = 8"
definition Plex86NoExecute_VMState :: int where "Plex86NoExecute_VMState = 10"

lemmas no_execute_codes [simp] = Plex86NoExecute_Method_def Plex86NoExecute_CR0_def Plex86NoExecute_CR4_def
  Plex86NoExecute_CS_def Plex86NoExecute_Selector_def Plex86NoExecute_EFlags_def Plex86NoExecute_VMState_def

definition Plex86ExecuteMethodNative :: Bit32u where "Plex86ExecuteMethodNative = 10"

section \<open>May this guest state run in the virtual machine?\<close>

text \<open>The test of one segment, \<open>True\<close> when it passes.\<close>

definition executeSegLinux :: "Bit32u \<Rightarrow> nat \<Rightarrow> guest_sreg_t \<Rightarrow> bool" where
  "executeSegLinux cpl s sr =
     (let gdtSlot = sel_index (sr_sel sr); dpl = ucast (d_dpl (sr_des sr)) :: Bit32u in
      if sel_rpl (sr_sel sr) \<noteq> dpl then False
      else if dpl \<noteq> 0 \<and> dpl \<noteq> 3 then False
      else if cpl = 0 then
        (if s = SRegCS then \<not> (gdtSlot \<noteq> LinuxBootCsSlot \<and> gdtSlot \<noteq> LinuxKernelCsSlot)
         else \<not> (gdtSlot \<noteq> LinuxBootDsSlot \<and> gdtSlot \<noteq> LinuxKernelDsSlot \<and> gdtSlot \<noteq> LinuxUserDsSlot))
      else if s = SRegCS then gdtSlot = LinuxUserCsSlot
      else gdtSlot = LinuxUserDsSlot)"

definition executeSeg :: "bool \<Rightarrow> Bit32u \<Rightarrow> nat \<Rightarrow> guest_sreg_t \<Rightarrow> bool" where
  "executeSeg linux cpl s sr =
     (if s = SRegCS \<or> sr_sel sr AND 0xfffc \<noteq> 0 then
        (if sel_ti (sr_sel sr) then False
         else if linux then executeSegLinux cpl s sr
         else if sel_rpl (sr_sel sr) \<noteq> 3 \<or> d_dpl (sr_des sr) \<noteq> 3 then False
         else OKGuestSlot (sel_index (sr_sel sr)))
      else True)"

definition executeEFlags :: "bool \<Rightarrow> Bit32u \<Rightarrow> Bit32u \<Rightarrow> bool" where
  "executeEFlags linux cpl fl =
     (if linux \<and> cpl = 0 then fl AND 0x001b7102 = 0x00000002 else fl AND 0x001b7302 = 0x00000202)"

text \<open>The reason not to execute, if there is one.\<close>

definition executeRefusal :: "bool \<Rightarrow> guest_cpu_t \<Rightarrow> int option" where
  "executeRefusal linux cpu =
     (let cpl = ucast (d_dpl (sr_des (cpu_sreg cpu SRegCS))) :: Bit32u in
      if cpu_cr0 cpu AND 0x60000033 \<noteq> 0x00000033 then Some Plex86NoExecute_CR0
      else if cpu_cr4 cpu AND 0x0000077f \<noteq> 0x00000000 then Some Plex86NoExecute_CR4
      else case List.find (\<lambda>s. \<not> executeSeg linux cpl s (cpu_sreg cpu s)) [0..<6] of
          Some s \<Rightarrow> Some (if s = SRegCS then Plex86NoExecute_CS else Plex86NoExecute_Selector)
        | None \<Rightarrow> if executeEFlags linux cpl (cpu_eflags cpu) then None else Some Plex86NoExecute_EFlags)"

section \<open>Installing the guest\<close>

definition installDescriptors :: "unit mon" where
  "installDescriptors =
     bnd (gets (\<lambda>vm. (vm_guest_cpu vm, vm_guestCPL vm))) (\<lambda>(cpu, cpl).
     forM [0..<6] (\<lambda>s.
       (let sr = cpu_sreg cpu s; gdtSlot = sel_index (sr_sel sr) in
        whenM (sr_sel sr AND 0xfffc \<noteq> 0)
          (thn (inBounds ''gdt'' (gdtSlot < 512))
          (thn (modify (\<lambda>vm. vm\<lparr>vm_gdt := (vm_gdt vm)(gdtSlot := sr_des sr)\<rparr>))
          (whenM (cpl = 0)
            (modify (\<lambda>vm. vm\<lparr>vm_gdt := (vm_gdt vm)(gdtSlot := (vm_gdt vm gdtSlot)\<lparr>d_dpl := 3\<rparr>)\<rparr>))))))))"

definition installContext :: "unit mon" where
  "installContext = modify (\<lambda>vm.
     let cpu = vm_guest_cpu vm;
         sel = (\<lambda>s. if vm_guestCPL vm = 0 then ucast (sr_sel (cpu_sreg cpu s)) OR 3 else ucast (sr_sel (cpu_sreg cpu s)) :: Bit32u);
         fl = cpu_eflags cpu OR push_bit 9 1;
         linuxKernel = vm_linuxVMMode vm \<noteq> 0 \<and> vm_guestCPL vm = 0
     in vm\<lparr>vm_context := (vm_context vm)\<lparr>
            sc_gs := sel SRegGS, sc_fs := sel SRegFS, sc_ds := sel SRegDS, sc_es := sel SRegES,
            sc_cs := sel SRegCS, sc_ss := sel SRegSS,
            sc_edi := cpu_genReg cpu GenRegEDI, sc_esi := cpu_genReg cpu GenRegESI, sc_ebp := cpu_genReg cpu GenRegEBP,
            sc_dummy_esp := 0, sc_ebx := cpu_genReg cpu GenRegEBX, sc_edx := cpu_genReg cpu GenRegEDX,
            sc_ecx := cpu_genReg cpu GenRegECX, sc_eax := cpu_genReg cpu GenRegEAX, sc_eip := cpu_eip cpu,
            sc_eflags := (if linuxKernel \<and> bit (cpu_eflags cpu) 9 then fl OR push_bit 19 1 else fl),
            sc_esp := cpu_genReg cpu GenRegESP\<rparr>,
          vm_nexus := (vm_nexus vm)\<lparr>
            nx_mon_cr4 := (if linuxKernel then 0x00000002 else 0x00000000),
            nx_mon_cr0 := 0x8001003b OR (cpu_cr0 cpu AND 0x00040000),
            nx_mon_cr3 := push_bit 12 (pg_page_dir (vm_pages vm))\<rparr>,
          vm_veflags := 0\<rparr>)"

section \<open>PLEX86-EXECUTE\<close>

definition reportState :: "int \<Rightarrow> plex86IoctlExecute_t \<Rightarrow> (int \<times> plex86IoctlExecute_t) option mon" where
  "reportState retval msg =
     bnd (gets (\<lambda>vm. (vm_vmState vm, vm_mon_request vm))) (\<lambda>(st, r).
     ret (Some (retval, msg\<lparr>ex_monitorState := (ex_monitorState msg)\<lparr>ms_state := st, ms_request := r\<rparr>\<rparr>)))"

definition executePanic :: "int \<Rightarrow> plex86IoctlExecute_t \<Rightarrow> (int \<times> plex86IoctlExecute_t) option mon" where
  "executePanic retval msg =
     thn (modify (\<lambda>vm. vm\<lparr>vm_vmState := vm_vmState vm OR VMStatePanic, vm_mon_request := MonReqPanic\<rparr>))
     (reportState retval msg)"

text \<open>The top of the loop: the transition to the monitor, from which the ioctl does not return here.\<close>

definition executeVMLoop :: "henv \<Rightarrow> plex86IoctlExecute_t \<Rightarrow> (int \<times> plex86IoctlExecute_t) option mon" where
  "executeVMLoop env msg =
     (if \<not> bit (he_hostEflags env) 9 then executePanic 101 msg
      else thn (enterMonitor env) (ret None))"

definition hostIoctlExecute :: "henv \<Rightarrow> plex86IoctlExecute_t \<Rightarrow> (int \<times> plex86IoctlExecute_t) option mon" where
  "hostIoctlExecute env msg =
     bnd (gets vm_vmState) (\<lambda>st.
     if st \<noteq> VMStateReady then executePanic Plex86NoExecute_VMState msg
     else
       thn (modify (\<lambda>vm. set_INTR (cpu_INTR (vm_guest_cpu vm)) vm))
       (bnd (gets vm_mon_request) (\<lambda>r.
        if r = MonReqHalCall then
          thn copyGenRegsFromCpu
          (thn (modify (\<lambda>vm. vm\<lparr>vm_mon_request := MonReqNone\<rparr>)) (executeVMLoop env msg))
        else if r = MonReqFlushPrintBuf \<or> r = MonReqBogus \<or> r = MonReqRedirect then
          thn (modify (\<lambda>vm. vm\<lparr>vm_mon_request := MonReqNone\<rparr>)) (executeVMLoop env msg)
        else if r \<noteq> MonReqNone then executePanic Plex86NoExecute_VMState msg
        else if ex_executeMethod msg \<noteq> Plex86ExecuteMethodNative then reportState Plex86NoExecute_Method msg
        else
          thn (modify (\<lambda>vm. vm\<lparr>vm_guestCPL := ucast (d_dpl (sr_des (cpu_sreg (vm_guest_cpu vm) SRegCS)))\<rparr>))
          (bnd (gets (\<lambda>vm. executeRefusal (vm_linuxVMMode vm \<noteq> 0) (vm_guest_cpu vm))) (\<lambda>refusal.
           case refusal of
             Some code \<Rightarrow> reportState code msg
           | None \<Rightarrow>
               thn installDescriptors
               (thn installContext
               (thn (hostInitShadowPaging env)
               (executeVMLoop env msg))))))))"

section \<open>PLEX86-REGISTER-MEMORY\<close>

definition userRegions :: "plex86IoctlRegisterMem_t \<Rightarrow> (Bit32u \<times> Bit32u) list" where
  "userRegions msg =
     [(rm_guestPhyMemVector msg, rm_guestPhyMemVector msg + push_bit 20 (rm_nMegs msg) - 1),
      (rm_logBufferWindow msg, rm_logBufferWindow msg + of_nat LOG_BUFF_SIZE - 1),
      (rm_guestCPUWindow msg, rm_guestCPUWindow msg + 4096 - 1)]"

definition NumUserRegions :: nat where "NumUserRegions = 3"

text \<open>The loops of the code start at region 1.\<close>

definition regionsOverlap :: "plex86IoctlRegisterMem_t \<Rightarrow> bool" where
  "regionsOverlap msg =
     list_ex (\<lambda>i. list_ex (\<lambda>j.
       (let (imin, imax) = userRegions msg ! i; (jmin, jmax) = userRegions msg ! j in
        j \<noteq> i \<and> (jmin \<ge> imin \<and> jmin \<le> imax \<or> jmax \<ge> imin \<and> jmax \<le> imax)))
       [1..<NumUserRegions]) [1..<NumUserRegions]"

definition registerInit :: "henv \<Rightarrow> kenv \<Rightarrow> int mon" where
  "registerInit env ke =
     bnd hostInitGuestPhyMem (\<lambda>failed.
     if failed then thn hostUnallocVmPages (ret (- Plex86ErrnoEFAULT))
     else
       bnd (hostInitMonitor env ke) (\<lambda>ok.
       bnd (if ok then hostMapMonitor env else ret False) (\<lambda>ok.
       if \<not> ok then thn hostUnallocVmPages (ret (- Plex86ErrnoEFAULT))
       else thn hostInitLinuxIOEnvironment (ret 0))))"

definition hostIoctlRegisterMem :: "henv \<Rightarrow> kenv \<Rightarrow> plex86IoctlRegisterMem_t \<Rightarrow> int mon" where
  "hostIoctlRegisterMem env ke msg =
     bnd (gets (\<lambda>vm. (vm_vmState vm, pg_guest_n_megs (vm_pages vm)))) (\<lambda>(st, megs).
     if st AND NOT VMStateGuestCPUID \<noteq> VMStateFDOpened then ret (- Plex86ErrnoEBUSY)
     else if megs \<noteq> 0 then ret (- Plex86ErrnoEBUSY)
     else if rm_nMegs msg AND 0x3 \<noteq> 0 then ret (- Plex86ErrnoEINVAL)
     else if rm_guestPhyMemVector msg AND 0xfff \<noteq> 0 then ret (- Plex86ErrnoEINVAL)
     else if rm_logBufferWindow msg AND 0xfff \<noteq> 0 then ret (- Plex86ErrnoEINVAL)
     else if rm_guestCPUWindow msg AND 0xfff \<noteq> 0 then ret (- Plex86ErrnoEINVAL)
     else if regionsOverlap msg then ret (- Plex86ErrnoEINVAL)
     else
       bnd (hostAllocVmPages env ke msg) (\<lambda>error.
       if error \<noteq> 0 then ret (- Plex86ErrnoENOMEM) else registerInit env ke))"

section \<open>The dispatch\<close>

text \<open>The numbers of the ioctls, as \<^verbatim>\<open>asm/ioctl.h\<close> builds them from direction, size, type and number.\<close>

definition IOC :: "Bit32u \<Rightarrow> Bit32u \<Rightarrow> Bit32u \<Rightarrow> Bit32u" where
  "IOC dir sz nr = push_bit 30 dir OR push_bit 16 sz OR push_bit 8 0x6b OR nr"

definition PLEX86_RESET :: Bit32u where "PLEX86_RESET = IOC 0 0 3"
definition PLEX86_TEARDOWN :: Bit32u where "PLEX86_TEARDOWN = IOC 0 0 4"
definition PLEX86_EXECUTE :: Bit32u where "PLEX86_EXECUTE = IOC 3 44 5"
definition PLEX86_CPUID :: Bit32u where "PLEX86_CPUID = IOC 1 20 6"
definition PLEX86_REGISTER_MEMORY :: Bit32u where "PLEX86_REGISTER_MEMORY = IOC 1 16 7"
definition PLEX86_UNREGISTER_MEMORY :: Bit32u where "PLEX86_UNREGISTER_MEMORY = IOC 0 0 8"
definition PLEX86_LINUX_VM_MODE :: Bit32u where "PLEX86_LINUX_VM_MODE = IOC 0 0 9"

lemma ioctl_numbers [simp]:
  "PLEX86_RESET = 0x6b03" "PLEX86_TEARDOWN = 0x6b04" "PLEX86_EXECUTE = 0xc02c6b05" "PLEX86_CPUID = 0x40146b06"
  "PLEX86_REGISTER_MEMORY = 0x40106b07" "PLEX86_UNREGISTER_MEMORY = 0x6b08" "PLEX86_LINUX_VM_MODE = 0x6b09"
  by (simp_all add: IOC_def PLEX86_RESET_def PLEX86_TEARDOWN_def PLEX86_EXECUTE_def PLEX86_CPUID_def
      PLEX86_REGISTER_MEMORY_def PLEX86_UNREGISTER_MEMORY_def PLEX86_LINUX_VM_MODE_def)

text \<open>The user memory an ioctl reads and writes: \<open>copy_from_user\<close> of each message, \<open>None\<close> when it
  faults, and whether \<open>copy_to_user\<close> of the result faults.\<close>

record uenv =
  ue_cpuid :: "Bit32u \<Rightarrow> cpuid_info_t option"
  ue_registerMem :: "Bit32u \<Rightarrow> plex86IoctlRegisterMem_t option"
  ue_execute :: "Bit32u \<Rightarrow> plex86IoctlExecute_t option"
  ue_putExecute :: "Bit32u \<Rightarrow> plex86IoctlExecute_t \<Rightarrow> bool"

definition hostIoctlGeneric :: "henv \<Rightarrow> kenv \<Rightarrow> uenv \<Rightarrow> Bit32u \<Rightarrow> Bit32u \<Rightarrow> int option mon" where
  "hostIoctlGeneric env ke ue cmd arg =
     (if cmd = PLEX86_CPUID then
        bnd (gets vm_vmState) (\<lambda>st.
        if st AND VMStateGuestCPUID \<noteq> 0 then ret (Some (- Plex86ErrnoEINVAL))
        else
          case ue_cpuid ue arg of
            None \<Rightarrow> ret (Some (- Plex86ErrnoEFAULT))
          | Some info \<Rightarrow>
              thn (modify (\<lambda>vm. vm\<lparr>vm_guestCPUIDInfo := info\<rparr>))
              (thn (setVMState VMStateGuestCPUID) (ret (Some 0))))
      else if cmd = PLEX86_REGISTER_MEMORY then
        (case ue_registerMem ue arg of
           None \<Rightarrow> ret (Some (- Plex86ErrnoEFAULT))
         | Some msg \<Rightarrow> bnd (hostIoctlRegisterMem env ke msg) (\<lambda>r. ret (Some r)))
      else if cmd = PLEX86_UNREGISTER_MEMORY then
        thn (clearVMState VMStateRegisteredAll) (ret (Some 0))
      else if cmd = PLEX86_LINUX_VM_MODE then
        thn (modify (\<lambda>vm. vm\<lparr>vm_linuxVMMode := 1\<rparr>)) (ret (Some 0))
      else if cmd = PLEX86_TEARDOWN then
        bnd (gets vm_vmState) (\<lambda>st.
        if st AND VMStateRegisteredAll \<noteq> 0 then ret (Some (- Plex86ErrnoEBUSY))
        else
          thn hostUnallocVmPages
          (thn (modify (\<lambda>vm. vm\<lparr>vm_vmState := VMStateFDOpened\<rparr>)) (ret (Some 0))))
      else if cmd = PLEX86_EXECUTE then
        (case ue_execute ue arg of
           None \<Rightarrow> ret (Some (- Plex86ErrnoEFAULT))
         | Some msg \<Rightarrow>
             bnd (hostIoctlExecute env msg) (\<lambda>r.
             case r of
               None \<Rightarrow> ret None
             | Some (code, msg') \<Rightarrow> ret (Some (if ue_putExecute ue arg msg' then - Plex86ErrnoEFAULT else code))))
      else if cmd = PLEX86_RESET then ret (Some 0)
      else ret (Some (- Plex86ErrnoEINVAL)))"

section \<open>File operations\<close>

text \<open>Opening allocates the \<^verbatim>\<open>vm_t\<close>; all of it is zero.\<close>

definition hostDeviceOpen :: "unit mon" where
  "hostDeviceOpen = modify (\<lambda>vm. vm_zeroed\<lparr>vm_vmState := VMStateFDOpened, vm_phymem := vm_phymem vm, vm_hw := vm_hw vm,
     vm_os := vm_os vm\<rparr>)"

definition plex86_open :: "kenv \<Rightarrow> int mon" where
  "plex86_open ke =
     bnd (hostOSAllocZeroedMem ke (ke_sizeof_vm ke)) (\<lambda>vmPtr.
     if vmPtr = 0 then ret (- 12)
     else thn hostDeviceOpen (ret 0))"

definition plex86_release :: "kenv \<Rightarrow> int mon" where
  "plex86_release ke = thn hostUnallocVmPages (thn (hostOSFreeMem (ke_vm ke)) (ret 0))"

definition plex86_ioctl :: "henv \<Rightarrow> kenv \<Rightarrow> uenv \<Rightarrow> Bit32u \<Rightarrow> Bit32u \<Rightarrow> int option mon" where
  "plex86_ioctl env ke ue cmd arg =
     bnd (hostIoctlGeneric env ke ue cmd arg) (\<lambda>r.
     ret (map_option (\<lambda>code. if code < 0 then - hostOSConvertPlex86Errno (- code) else code) r))"

section \<open>A machine ready to run\<close>

text \<open>What \<^verbatim>\<open>hostIoctlRegisterMem\<close> leaves and the ioctls keep until the guest runs.\<close>

definition hostReady :: "vm_t \<Rightarrow> bool" where
  "hostReady vm \<longleftrightarrow> vm_mon_pdi vm = 0x1c0 \<and> vm_mon_pde_mask vm = MON_LADDR \<and>
     vm_page_dir vm 0x1c0 = pe_make (pg_nexus_page_tbl (vm_pages vm)) True True True \<and>
     (\<forall>k < 1024. \<not> pe_US (vm_nexus_page_tbl vm k)) \<and>
     (\<forall>s < 512. s \<notin> set monSlots \<longrightarrow> d_p (vm_gdt vm s) = 0 \<or> d_dpl (vm_gdt vm s) = 3) \<and>
     pq_nEntries (vm_pinQueue vm) = 0 \<and> pq_tail (vm_pinQueue vm) = 0 \<and>
     (\<forall>i < unat (pg_guest_n_pages (vm_pages vm)). \<not> pp_pinned (vm_guestPageInfo vm i)) \<and>
     io_cpuToPitRatio (vm_io vm) \<noteq> 0 \<and> vm_mon_request vm = MonReqNone"

definition nexusPDE :: "vm_t \<Rightarrow> pageEntry_t" where
  "nexusPDE vm = pe_make (pg_nexus_page_tbl (vm_pages vm)) True True True"

lemma hostReady_isolated:
  assumes "hostReady vm"
  shows "isolated 0x1c0 (nexusPDE vm) (shadowReset env vm)"
proof -
  have q: "pinQ_contents (vm_pinQueue vm) = []" "pinQ_wf (vm_pinQueue vm)"
    using assms by (simp_all add: hostReady_def pinQ_contents_def pinQ_full_def pinQ_wf_def)
  have "pin_inv (shadowReset env vm)"
    using assms q by (auto simp: pin_inv_def hostReady_def word_less_nat_alt)
  moreover have "shadow_wf (shadowReset env vm)"
    using assms pe_make_fields(1) [of "pg_nexus_page_tbl (vm_pages vm)" True True True]
    by (auto simp: shadow_wf_def hostReady_def MON_LADDR_def shadowReset_def) (simp add: pe_P_def)
  ultimately show ?thesis
    using assms by (simp add: isolated_def shadow_inv_def hostReady_def nexusPDE_def)
qed

section \<open>An accepted guest\<close>

lemma and_eq_bit: "w AND m = v \<Longrightarrow> bit m n \<Longrightarrow> bit w n = bit v n" for w m v :: "'a::len word"
  by (auto simp: bit_and_iff)

lemma executeSeg_slot:
  assumes "executeSeg linux cpl s sr" "s = SRegCS \<or> sr_sel sr AND 0xfffc \<noteq> 0"
  shows "OKGuestSlot (sel_index (sr_sel sr))"
  using assms by (auto simp: executeSeg_def executeSegLinux_def OKGuestSlot_def Let_def split: if_splits)

lemma executeRefusal_None:
  assumes "executeRefusal linux cpu = None"
  defines "cpl \<equiv> ucast (d_dpl (sr_des (cpu_sreg cpu SRegCS))) :: Bit32u"
  shows "s < 6 \<Longrightarrow> executeSeg linux cpl s (cpu_sreg cpu s)" "executeEFlags linux cpl (cpu_eflags cpu)"
    "cpl = 0 \<or> cpl = 3" "sel_rpl (sr_sel (cpu_sreg cpu SRegCS)) = cpl" "cpl = 0 \<Longrightarrow> linux"
    "cpu_cr0 cpu AND 0x60000033 = 0x33" "cpu_cr4 cpu AND 0x77f = 0"
proof -
  show segs: "executeSeg linux cpl s (cpu_sreg cpu s)" if "s < 6" for s
    using assms(1) that unfolding executeRefusal_def cpl_def
    by (auto simp: Let_def find_None_iff split: if_splits option.splits)
  have three: "ucast (3 :: 2 word) = (3 :: Bit32u)" by simp
  have "executeSeg linux cpl SRegCS (cpu_sreg cpu SRegCS)" using segs by simp
  then show "cpl = 0 \<or> cpl = 3" "sel_rpl (sr_sel (cpu_sreg cpu SRegCS)) = cpl" "cpl = 0 \<Longrightarrow> linux"
    by (auto simp: executeSeg_def executeSegLinux_def Let_def cpl_def three split: if_splits)
  show "executeEFlags linux cpl (cpu_eflags cpu)" "cpu_cr0 cpu AND 0x60000033 = 0x33" "cpu_cr4 cpu AND 0x77f = 0"
    using assms(1) unfolding executeRefusal_def cpl_def
    by (auto simp: Let_def split: if_splits option.splits)
qed

lemma executeEFlags_ctxFlags:
  assumes "executeEFlags linux cpl fl"
  shows "ctxFlags (fl OR push_bit 9 1)" "ctxFlags ((fl OR push_bit 9 1) OR push_bit 19 1)"
proof -
  have "fl AND 0x001b7102 = 2 \<or> fl AND 0x001b7302 = 0x202"
    using assms by (auto simp: executeEFlags_def split: if_splits)
  then have "\<not> bit fl 12 \<and> \<not> bit fl 13 \<and> \<not> bit fl 17"
    using and_eq_bit [of fl "0x001b7102" 2] and_eq_bit [of fl "0x001b7302" "0x202"] by auto
  then show "ctxFlags (fl OR push_bit 9 1)" "ctxFlags ((fl OR push_bit 9 1) OR push_bit 19 1)"
    by (simp_all add: ctxFlags_def bit_simps)
qed

text \<open>The segments of a guest that does not run in ring 0: the code checks their DPL against their RPL,
  and both against 0 and 3, but in \<^verbatim>\<open>linuxVMMode\<close> not against the CPL, and it does not check a null \<^verbatim>\<open>SS\<close>.\<close>

definition userSegments :: "guest_cpu_t \<Rightarrow> bool" where
  "userSegments cpu \<longleftrightarrow> sel_rpl (sr_sel (cpu_sreg cpu SRegSS)) = 3 \<and>
     (\<forall>s < 6. sr_sel (cpu_sreg cpu s) AND 0xfffc \<noteq> 0 \<longrightarrow> d_dpl (sr_des (cpu_sreg cpu s)) = 3)"

definition segmentsOK :: "vm_t \<Rightarrow> bool" where
  "segmentsOK vm \<longleftrightarrow> vm_guestCPL vm = 0 \<or> userSegments (vm_guest_cpu vm)"

lemma installDescriptors_twp:
  assumes ok: "\<And>s. s < 6 \<Longrightarrow> executeSeg linux (vm_guestCPL vm) s (cpu_sreg (vm_guest_cpu vm) s)"
    and segs: "segmentsOK vm" and gdt: "gdtOK g (vm_gdt vm)"
  shows "twp installDescriptors (\<lambda>_ vm'. \<exists>gdt. vm' = vm\<lparr>vm_gdt := gdt\<rparr> \<and> gdtOK g gdt) vm"
proof -
  let ?I = "\<lambda>vm'. \<exists>gdt. vm' = vm\<lparr>vm_gdt := gdt\<rparr> \<and> gdtOK g gdt"
  have upd: "gdtOK g (gdt(slot := d))" if "gdtOK g gdt" "OKGuestSlot slot" "d_dpl d = 3" for gdt slot d
    using that OKGuestSlot_bounds [OF that(2)] by (auto simp: gdtOK_def monSlots_def)
  have I0: "?I vm" by (rule exI [of _ "vm_gdt vm"]) (simp add: gdt)
  show ?thesis
    unfolding installDescriptors_def
    proof (simp only: twp_bnd twp_gets prod.case, rule twp_forM_upt [where I = "\<lambda>_. ?I"])
    fix s :: nat and vm1
    assume s: "s < 6" and "?I vm1"
    then obtain gdt where vm1: "vm1 = vm\<lparr>vm_gdt := gdt\<rparr>" "gdtOK g gdt" by blast
    let ?sr = "cpu_sreg (vm_guest_cpu vm) s"
    have slot: "OKGuestSlot (sel_index (sr_sel ?sr))" if "sr_sel ?sr AND 0xfffc \<noteq> 0"
      using executeSeg_slot [OF ok [OF s]] that by blast
    have dpl: "d_dpl (sr_des ?sr) = 3" if "sr_sel ?sr AND 0xfffc \<noteq> 0" "vm_guestCPL vm \<noteq> 0"
      using segs s that by (simp add: segmentsOK_def userSegments_def)
    show "twp (let sr = cpu_sreg (vm_guest_cpu vm) s; gdtSlot = sel_index (sr_sel sr) in
        whenM (sr_sel sr AND 0xfffc \<noteq> 0)
          (thn (inBounds ''gdt'' (gdtSlot < 512))
          (thn (modify (\<lambda>vm. vm\<lparr>vm_gdt := (vm_gdt vm)(gdtSlot := sr_des sr)\<rparr>))
          (whenM (vm_guestCPL vm = 0)
            (modify (\<lambda>vm. vm\<lparr>vm_gdt := (vm_gdt vm)(gdtSlot := (vm_gdt vm gdtSlot)\<lparr>d_dpl := 3\<rparr>)\<rparr>)))))) (\<lambda>_. ?I) vm1"
      using upd [OF vm1(2) slot dpl] upd [OF vm1(2) slot, of "(sr_des ?sr)\<lparr>d_dpl := 3\<rparr>"] slot OKGuestSlot_bounds(1) vm1
      by (auto simp: Let_def)
  qed (rule I0)
qed

lemma sel_rpl_3: "sel_rpl sel = 3 \<Longrightarrow> ucast sel AND 3 = (3 :: Bit32u)"
  by (simp add: sel_rpl_def unsigned_and_eq)

lemma ucast_or_3: "(ucast (sel :: selector_t) OR 3) AND 3 = (3 :: Bit32u)"
proof -
  have three: "(3 :: Bit32u) = mask 2" by (simp add: mask_eq_exp_minus_1)
  show ?thesis
    unfolding three by (rule bit_word_eqI) (auto simp: bit_simps)
qed

lemma installContext_twp:
  assumes none: "executeRefusal (vm_linuxVMMode vm \<noteq> 0) (vm_guest_cpu vm) = None"
    and cpl: "vm_guestCPL vm = ucast (d_dpl (sr_des (cpu_sreg (vm_guest_cpu vm) SRegCS)))" and segs: "segmentsOK vm"
  shows "twp installContext (\<lambda>_ vm'. \<exists>c nx. vm' = vm\<lparr>vm_context := c, vm_nexus := nx, vm_veflags := 0\<rparr> \<and> ring3 c \<and>
     (bit (nx_mon_cr4 nx) 1 \<longleftrightarrow> vm_guestCPL vm = 0) \<and> (vm_guestCPL vm = 0 \<or> vm_guestCPL vm = 3)) vm"
proof -
  note ok = executeRefusal_None [OF none, folded cpl]
  have ss: "sel_rpl (sr_sel (cpu_sreg (vm_guest_cpu vm) SRegSS)) = 3" if "vm_guestCPL vm \<noteq> 0"
    using segs that by (simp add: segmentsOK_def userSegments_def)
  show ?thesis
    unfolding installContext_def twp_modify Let_def
    by (rule exI, rule exI, rule conjI, rule refl)
      (use ok executeEFlags_ctxFlags [OF ok(2)] ss in \<open>auto simp: ring3_def sel_rpl_3 ucast_or_3\<close>)
qed

lemma enter_inv: "mon_inv m c g vm \<Longrightarrow> mon_inv m c g (vm\<lparr>vm_hostSysenterCS := x, vm_hw := h\<rparr>)"
  by (simp add: mon_inv_def isolated_print.print_fr)

lemma execute_accepted:
  assumes ready: "hostReady vm" "vm_vmState vm = VMStateReady"
    and msg: "ex_executeMethod msg = Plex86ExecuteMethodNative" "bit (he_hostEflags env) 9"
    and none: "executeRefusal (vm_linuxVMMode vm \<noteq> 0) (vm_guest_cpu vm) = None"
    and segs: "d_dpl (sr_des (cpu_sreg (vm_guest_cpu vm) SRegCS)) = 0 \<or> userSegments (vm_guest_cpu vm)"
    and tables: "tablesDistinct (vm_pages vm)"
  shows "twp (hostIoctlExecute env msg) (\<lambda>r vm'. r = None \<and>
     mon_inv 0x1c0 (nexusPDE vm) (map (vm_gdt vm) monSlots) vm' \<and> pvi_inv vm' \<and> vm_pages vm' = vm_pages vm) vm"
proof -
  let ?g = "map (vm_gdt vm) monSlots"
  define vm1 where "vm1 = (set_INTR (cpu_INTR (vm_guest_cpu vm)) vm)
    \<lparr>vm_guestCPL := ucast (d_dpl (sr_des (cpu_sreg (vm_guest_cpu vm) SRegCS)))\<rparr>"
  have none1: "executeRefusal (vm_linuxVMMode vm1 \<noteq> 0) (vm_guest_cpu vm1) = None"
    and cpl1: "vm_guestCPL vm1 = ucast (d_dpl (sr_des (cpu_sreg (vm_guest_cpu vm1) SRegCS)))"
    and segs1: "segmentsOK vm1" and gdt1: "gdtOK ?g (vm_gdt vm1)"
    using none segs ready(1) by (auto simp: vm1_def segmentsOK_def gdtOK_def hostReady_def)
  note ok = executeRefusal_None(1) [OF none1, folded cpl1]
  have rest: "twp (thn installContext (thn (hostInitShadowPaging env) (executeVMLoop env msg)))
      (\<lambda>r vm'. r = None \<and> mon_inv 0x1c0 (nexusPDE vm) ?g vm' \<and> pvi_inv vm' \<and> vm_pages vm' = vm_pages vm) vm2"
    if vm2: "vm2 = vm1\<lparr>vm_gdt := gdt\<rparr>" "gdtOK ?g gdt" for vm2 gdt
    unfolding twp_thn
  proof (rule twp_mono [OF installContext_twp], goal_cases)
    case (4 _ vm3)
    then obtain c nx where vm3: "vm3 = vm2\<lparr>vm_context := c, vm_nexus := nx, vm_veflags := 0\<rparr>" "ring3 c"
      "bit (nx_mon_cr4 nx) 1 \<longleftrightarrow> vm_guestCPL vm2 = 0" "vm_guestCPL vm2 = 0 \<or> vm_guestCPL vm2 = 3"
      by blast
    have r: "hostReady vm3" using ready(1) vm2 by (auto simp: vm3(1) vm1_def hostReady_def gdtOK_def)
    have iso: "isolated 0x1c0 (nexusPDE vm) (shadowReset env vm3)"
      using hostReady_isolated [OF r, of env] by (simp add: nexusPDE_def vm3(1) vm2(1) vm1_def)
    have "mon_inv 0x1c0 (nexusPDE vm) ?g (shadowReset env vm3)"
      using iso vm3(2) vm2(2) tables ready(1)
      by (simp add: mon_inv_def monTableOK_def nexusPDE_def vm3(1) vm2(1) vm1_def shadowReset_def hostReady_def)
    moreover have "pvi_inv (shadowReset env vm3)"
      using vm3 by (simp add: pvi_inv_def shadowReset_def)
    ultimately show ?case
      using msg(2) enter_inv vm3(1) vm2(1) by (simp add: vm1_def pvi_inv_def twp_Ret_eq [OF hostInitShadowPaging_eq] executeVMLoop_def enterMonitor_def)
  qed (use none1 cpl1 segs1 vm2 in \<open>simp_all add: segmentsOK_def\<close>)
  have run: "twp (thn installDescriptors (thn installContext (thn (hostInitShadowPaging env) (executeVMLoop env msg))))
      (\<lambda>r vm'. r = None \<and> mon_inv 0x1c0 (nexusPDE vm) ?g vm' \<and> pvi_inv vm' \<and> vm_pages vm' = vm_pages vm) vm1"
    by (subst twp_thn, rule twp_mono [OF installDescriptors_twp [OF ok segs1 gdt1]]) (use rest in auto)
  show ?thesis
    using ready msg none run unfolding hostIoctlExecute_def
    by (simp add: hostReady_def vm1_def)
qed

end
