(* ===== verification/Host_Life.thy ===== *)
theory Host_Life
  imports Host_Exec
begin

text \<open>
  The life of a virtual machine, from opening the device through any sequence of ioctls to the running
  guest: every state an ioctl can leave is harmless until the machine is ready, and a machine that is ready
  is one whose monitor, tables and descriptors are in order.
\<close>

section \<open>Setting up keeps the monitor's table to the supervisor\<close>

definition mapFrame :: "vm_t \<Rightarrow> vm_t \<Rightarrow> bool" where
  "mapFrame vm vm' \<longleftrightarrow> (\<exists>ga nx t. vm' = vm\<lparr>vm_guest_addr := ga, vm_nexus := nx, vm_nexus_page_tbl := t\<rparr> \<and>
     (\<forall>k < 1024. \<not> pe_US (t k)))"

lemma mapFrame_upd:
  assumes "mapFrame vm vm1"
  shows "mapFrame vm (vm1\<lparr>vm_guest_addr := ga, vm_nexus := nx\<rparr>)"
    "\<not> pe_US e \<Longrightarrow> mapFrame vm (vm1\<lparr>vm_nexus_page_tbl := (vm_nexus_page_tbl vm1)(k := e)\<rparr>)"
proof -
  obtain ga0 nx0 t where vm1: "vm1 = vm\<lparr>vm_guest_addr := ga0, vm_nexus := nx0, vm_nexus_page_tbl := t\<rparr>" "\<forall>k < 1024. \<not> pe_US (t k)"
    using assms by (auto simp: mapFrame_def)
  have "vm1\<lparr>vm_guest_addr := ga, vm_nexus := nx\<rparr> = vm\<lparr>vm_guest_addr := ga, vm_nexus := nx, vm_nexus_page_tbl := t\<rparr>"
    unfolding vm1(1) by (rule vm_t.equality) simp_all
  then show "mapFrame vm (vm1\<lparr>vm_guest_addr := ga, vm_nexus := nx\<rparr>)"
    unfolding mapFrame_def using vm1(2) by blast
  show "mapFrame vm (vm1\<lparr>vm_nexus_page_tbl := (vm_nexus_page_tbl vm1)(k := e)\<rparr>)" if "\<not> pe_US e"
    unfolding mapFrame_def vm1(1)
    by (rule exI [of _ ga0], rule exI [of _ nx0], rule exI [of _ "t(k := e)"]) (use that vm1(2) in simp)
qed

lemma mapMonLoop_frame: "mapFrame vm vm1 \<Longrightarrow> post (mapMonLoop pages False rw i n pti) (\<lambda>_. mapFrame vm) vm1"
  by (induction n arbitrary: i pti vm1) (auto simp: setNexusPTE_def mapFrame_upd)

lemma mapRegion_frame: "mapFrame vm vm1 \<Longrightarrow> post (mapRegion base r laddr) (\<lambda>_. mapFrame vm) vm1"
  unfolding mapRegion_def hostMapMonPages_def hostMapBlankPage_def setNexusPTE_def
  by (auto simp: Let_def mapFrame_upd intro!: post_mono [OF mapMonLoop_frame])

lemma mapRegions_frame: "mapFrame vm vm1 \<Longrightarrow> post (mapRegions base rs laddr) (\<lambda>_. mapFrame vm) vm1"
proof (induction rs arbitrary: laddr vm1)
  case (Cons r rs)
  then show ?case by (auto intro!: post_mono [OF mapRegion_frame])
qed simp

lemma hostMapNexus_post:
  "post (hostMapNexus env ke) (\<lambda>_ vm'. \<exists>ga nx t m. vm' = vm\<lparr>vm_host_nexus_pde := nexusPDE vm,
     vm_guest_addr := ga, vm_nexus := nx, vm_nexus_page_tbl := t, vm_mon2host := m\<rparr> \<and> (\<forall>k < 1024. \<not> pe_US (t k))) vm"
proof -
  define vm1 where "vm1 = vm\<lparr>vm_host_nexus_pde := nexusPDE vm, vm_nexus_page_tbl := nexusMemZero (vm_nexus_page_tbl vm) 0 1024\<rparr>"
  have start: "mapFrame vm1 vm1"
    unfolding mapFrame_def
    by (rule exI [of _ "vm_guest_addr vm1"], rule exI [of _ "vm_nexus vm1"], rule exI [of _ "vm_nexus_page_tbl vm1"])
      (simp add: vm1_def nexusMemZero_apply)
  have "post (bnd (mapRegions (MON_BASE_FROM_LADDR env 0) (monRegions env ke) 0) (\<lambda>laddr.
      thn (hostMapBlankPage laddr) (modify (\<lambda>vm. vm\<lparr>vm_mon2host := MON_NEXUS_OFFSET ke vm (ke_mon2host ke)\<rparr>))))
    (\<lambda>_ vm'. \<exists>vm2 m. mapFrame vm1 vm2 \<and> vm' = vm2\<lparr>vm_mon2host := m\<rparr>) vm1"
    unfolding hostMapBlankPage_def setNexusPTE_def
    by (auto simp: Let_def intro!: post_mono [OF mapRegions_frame [OF start]]) (blast intro: mapFrame_upd pe_make_fields(3) [THEN iffD1])+
  then have "post (hostMapNexus env ke) (\<lambda>_ vm'. \<exists>vm2 m. mapFrame vm1 vm2 \<and> vm' = vm2\<lparr>vm_mon2host := m\<rparr>) vm"
    unfolding hostMapNexus_def by (simp add: vm1_def nexusPDE_def)
  then show ?thesis
    by (rule post_mono) (auto simp: mapFrame_def vm1_def)
qed

section \<open>The machine is ready after registration\<close>

lemma hostInitGuestPhyMem_post:
  assumes "\<And>i. \<not> pp_pinned (vm_guestPageInfo vm i)"
  shows "post hostInitGuestPhyMem (\<lambda>_ vm'. \<exists>info. vm' = vm\<lparr>vm_guestPageInfo := info\<rparr> \<and> (\<forall>i. \<not> pp_pinned (info i))) vm"
proof -
  define I where "I vm' \<longleftrightarrow> (\<exists>info. vm' = vm\<lparr>vm_guestPageInfo := info\<rparr> \<and> (\<forall>i. \<not> pp_pinned (info i)))" for vm'
  have start: "I vm" using assms unfolding I_def by (intro exI [of _ "vm_guestPageInfo vm"]) simp
  have upd: "post (updPageInfo b f) (\<lambda>_. I) vm1" if vm1: "I vm1" and f: "\<And>p. \<not> pp_pinned p \<Longrightarrow> \<not> pp_pinned (f p)" for b f vm1
  proof -
    obtain info where vm1: "vm1 = vm\<lparr>vm_guestPageInfo := info\<rparr>" "\<forall>i. \<not> pp_pinned (info i)"
      using vm1 by (auto simp: I_def)
    have "I (vm\<lparr>vm_guestPageInfo := info(unat b := f (info (unat b)))\<rparr>)"
      unfolding I_def by (rule exI [of _ "info(unat b := f (info (unat b)))"]) (use vm1(2) f in simp)
    then show ?thesis by (simp add: updPageInfo_def vm1(1))
  qed
  have loop: "post (forM [0..<n] (\<lambda>i. setAttr (b + of_nat i) (set_bit k))) (\<lambda>_. I) vm1" if "I vm1" "k \<noteq> 10" for n b k vm1
    unfolding setAttr_def
    by (rule post_forM, rule upd) (use that in \<open>auto simp: pp_pinned_def bit_simps\<close>)
  have all: "post (forM [0..<n] (\<lambda>i. updPageInfo (of_nat i) (\<lambda>p. p\<lparr>pp_attr := 0x200, pp_tsc := 0\<rparr>))) (\<lambda>_. I) vm" for n
    by (rule post_forM, rule upd) (use start in \<open>auto simp: pp_pinned_def\<close>)
  show ?thesis
    unfolding I_def [symmetric] hostInitGuestPhyMem_def
    using start by (auto intro!: post_mono [OF all] post_mono [OF loop] simp del: upt_Suc)
qed

text \<open>The machine of \<^verbatim>\<open>hostInitMonitor\<close>, whether or not the tables fit.\<close>

definition monitorBuilt :: "vm_t \<Rightarrow> vm_t \<Rightarrow> bool" where
  "monitorBuilt vm vm' \<longleftrightarrow> vm_host_nexus_pde vm' = nexusPDE vm' \<and> (\<forall>k < 1024. \<not> pe_US (vm_nexus_page_tbl vm' k)) \<and>
     vm_gdt vm' = (\<lambda>_. zero_descriptor) \<and> pq_nEntries (vm_pinQueue vm') = 0 \<and> pq_tail (vm_pinQueue vm') = 0 \<and>
     io_cpuToPitRatio (vm_io vm') = 100 \<and> vm_mon_request vm' = MonReqNone \<and> vm_guestPageInfo vm' = vm_guestPageInfo vm \<and>
     vm_pages vm' = vm_pages vm \<and> vm_linuxVMMode vm' = vm_linuxVMMode vm \<and> vm_os vm' = vm_os vm \<and>
     heldList vm' = heldList vm \<and> vm_vmState vm' = vm_vmState vm OR VMStateInitMonitor"

lemma hostInitIDT_post: "post (hostInitIDT ke) (\<lambda>_ vm'. \<exists>idt st. vm' = vm\<lparr>vm_idt := idt, vm_idt_stubs := st\<rparr>) vm"
  by (rule post_wp [OF twp_wp [OF twp_mono [OF hostInitIDT_twp]]]) blast

lemma hostInitMonitor_post:
  "post (hostInitMonitor env ke) (\<lambda>r vm'. if r then monitorBuilt vm vm'
     else heldList vm' = heldList vm \<and> vm_os vm' = vm_os vm \<and> vm_vmState vm' = vm_vmState vm) vm"
  unfolding hostInitMonitor_def hostInitData_def hostInitTransition_def hostInitTSS_def hostWindStack_def
  by (auto simp: Let_def KERNEL_OFFSET_def intro!: post_mono [OF hostMapNexus_post] post_mono [OF hostInitIDT_post])
    (auto simp: monitorBuilt_def nexusPDE_def heldList_def Let_def)

lemma hostMapMonitor_ready:
  assumes "monitorBuilt vm vm1" "\<And>i. \<not> pp_pinned (vm_guestPageInfo vm i)"
  shows "twp (hostMapMonitor env) (\<lambda>r vm'. r \<and> hostReady vm' \<and> vm_pages vm' = vm_pages vm1 \<and> vm_os vm' = vm_os vm1 \<and>
     heldList vm' = heldList vm1 \<and> vm_linuxVMMode vm' = vm_linuxVMMode vm1 \<and>
     vm_vmState vm' = vm_vmState vm1 OR VMStateMapMonitor) vm1"
  using assms unfolding twp_iff hostMapMonitor_eq
  by (auto simp: hostReady_def monitorBuilt_def nexusPDE_def monGdt_def Let_def monSlots_def zero_descriptor_def D_LINUX_DS_def
      SET_DESCRIPTOR_def heldList_def)

lemma hostReady_io: "hostReady vm \<Longrightarrow> hostReady (upd_io f vm) = (io_cpuToPitRatio (f (vm_io vm)) \<noteq> 0)"
  by (auto simp: hostReady_def)

text \<open>The bit of \<^verbatim>\<open>vmState\<close> that only \<^verbatim>\<open>hostMapMonitor\<close> sets.\<close>

abbreviation mapped :: "vm_t \<Rightarrow> bool" where "mapped vm \<equiv> bit (vm_vmState vm) 7"

lemma releasePages_keeps [keeps_rules]: "keeps mapped hostReleasePinnedUserPages"
  unfolding hostReleasePinnedUserPages_def releasePage_def pageInfo_def updPageInfo_def hostOSUnpinUserPage_def
  by (intro keeps_rules keeps_modify) simp_all

lemma hostUnallocVmPages_keeps [keeps_rules]: "keeps mapped hostUnallocVmPages"
  unfolding hostUnallocVmPages_def clearVMState_def freeIf_def hostOSFreeMem_def logOs_def
  by (intro keeps_rules keeps_modify) (simp_all add: bit_simps)

lemma setVMState_keeps: "\<not> bit bits 7 \<Longrightarrow> keeps mapped (setVMState bits)"
  unfolding setVMState_def by (intro keeps_modify) (simp add: bit_simps)

lemma pinWindow_keeps: "keeps mapped (pinGuestCPU env ke w)" "keeps mapped (pinLogBuffer env ke w)"
  unfolding pinGuestCPU_def pinLogBuffer_def hostOSPinWindow_def logOs_def
  by (intro keeps_rules keeps_modify setVMState_keeps; simp)+

lemma hostAllocVmPages_keeps: "keeps mapped (hostAllocVmPages env ke msg)"
proof -
  have steps: "keeps mapped m" if "(m, c) \<in> set (allocMonitor ke @ allocPageInfo ke n)" for m c n
  proof -
    have "keeps allocCore m" using that allocMonitor_keeps allocPageInfo_keeps by auto
    then show ?thesis by (auto simp: keeps_def allocCore_def)
  qed
  have pos: "keeps mapped (runSteps ms 2)"
    if "ms = [(pinGuestCPU env ke w, True), (pinLogBuffer env ke w', True)] @ allocMonitor ke @ allocPageInfo ke n" for ms w w' n
    using that steps [of _ _ n] pinWindow_keeps by (intro runSteps_keeps) auto
  show ?thesis
    unfolding hostAllocVmPages_def
    by (intro keeps_rules keeps_modify setVMState_keeps pos [OF refl]) simp_all
qed

definition VMStateRegistered :: Bit32u where "VMStateRegistered = VMStateAllocated OR VMStateInitMonitor OR VMStateMapMonitor"

lemma VMStateRegistered_val [simp]: "VMStateRegistered = 0xfa"
  by (simp add: VMStateRegistered_def VMStateAllocated_def)

lemma heldList_filter [simp]: "0 \<notin> set (heldList vm) \<Longrightarrow> {#a \<in># mset (heldList vm). a \<noteq> 0#} = mset (heldList vm)"
  by (metis (mono_tags, lifting) filter_id_conv mset_filter)

text \<open>The steps of \<^verbatim>\<open>hostIoctlRegisterMem\<close> after the allocation.\<close>

definition registerOK :: "vm_t \<Rightarrow> int \<Rightarrow> vm_t \<Rightarrow> bool" where
  "registerOK vm r vm' \<longleftrightarrow>
     (if r = 0 then hostReady vm' \<and> vm_vmState vm' = vm_vmState vm OR VMStateRegistered \<and> 0 \<notin> set (heldList vm') \<and>
        live (vm_os vm') = live (vm_os vm) + mset (heldList vm')
      else live (vm_os vm') = live (vm_os vm) \<and> (\<not> mapped vm \<longrightarrow> \<not> mapped vm'))"

lemma registerFails:
  assumes "live (vm_os vm1) = live (vm_os vm) + mset (heldList vm1)" "0 \<notin> set (heldList vm1)" "mapped vm1 = mapped vm" "e \<noteq> 0"
  shows "post hostUnallocVmPages (\<lambda>_. registerOK vm e) vm1"
proof -
  have "post hostUnallocVmPages (\<lambda>_ vm'. live (vm_os vm') = live (vm_os vm1) - mset (heldList vm1)) vm1"
    using hostUnallocVmPages_post [of vm1] assms(1,2) by (auto elim!: post_mono)
  from post_conj [OF this post_keeps [OF hostUnallocVmPages_keeps, where Q = "\<lambda>_ vm'. mapped vm' = mapped vm1"]] show ?thesis
    by (rule post_mono) (use assms in \<open>auto simp: registerOK_def\<close>)
qed

lemma post_fun: "post (bnd m f) Q = post m (\<lambda>x. post (f x) Q)" "post (thn m k) Q = post m (\<lambda>_. post k Q)"
  "post (ret x) Q = Q x"
  by (simp_all add: fun_eq_iff)

lemma registerInit_post:
  assumes ok: "allocOK msg vm vm1" "live (vm_os vm1) = live (vm_os vm) + mset (heldList vm1)" and m: "mapped vm1 = mapped vm"
  shows "post (registerInit env ke) (registerOK vm) vm1"
proof -
  have held: "0 \<notin> set (heldList vm1)" and st: "vm_vmState vm1 = vm_vmState vm OR VMStateAllocated"
    and pin: "\<And>i. \<not> pp_pinned (vm_guestPageInfo vm1 i)"
    using ok(1) by (auto simp: allocOK_def pp_pinned_def zero_phyPageInfo_def)
  have fails: "post (thn hostUnallocVmPages (ret (- Plex86ErrnoEFAULT))) (registerOK vm) vm2"
    if "heldList vm2 = heldList vm1" "vm_os vm2 = vm_os vm1" "vm_vmState vm2 = vm_vmState vm1" for vm2
    unfolding post_fun by (rule registerFails) (use that ok(2) held m in simp_all)
  have map: "post (bnd (hostMapMonitor env) (\<lambda>ok. if \<not> ok then thn hostUnallocVmPages (ret (- Plex86ErrnoEFAULT))
      else thn hostInitLinuxIOEnvironment (ret 0))) (registerOK vm) vm3"
    if "monitorBuilt (vm1\<lparr>vm_guestPageInfo := info\<rparr>) vm3" "\<forall>i. \<not> pp_pinned (info i)" for vm3 info
    unfolding post_fun
    by (rule post_wp [OF twp_wp [OF twp_mono [OF hostMapMonitor_ready [OF that(1)]]]])
      (use that ok(2) held st in \<open>auto simp: hostInitLinuxIOEnvironment_def registerOK_def hostReady_io monitorBuilt_def
        hostReady_def VMStateAllocated_def heldList_def or.assoc\<close>)
  show ?thesis
    unfolding registerInit_def post_fun(1)
  proof (rule post_mono [OF hostInitGuestPhyMem_post [OF pin]], elim exE conjE)
    fix failed vm2 info assume vm2: "vm2 = vm1\<lparr>vm_guestPageInfo := info\<rparr>" "\<forall>i. \<not> pp_pinned (info i)"
    show "post (if failed then thn hostUnallocVmPages (ret (- Plex86ErrnoEFAULT))
         else
           bnd (hostInitMonitor env ke) (\<lambda>ok.
           bnd (if ok then hostMapMonitor env else ret False) (\<lambda>ok.
           if \<not> ok then thn hostUnallocVmPages (ret (- Plex86ErrnoEFAULT))
           else thn hostInitLinuxIOEnvironment (ret 0)))) (registerOK vm) vm2"
    proof (cases failed)
      case False
      have "post (hostInitMonitor env ke) (\<lambda>ok. post (bnd (if ok then hostMapMonitor env else ret False) (\<lambda>ok.
           if \<not> ok then thn hostUnallocVmPages (ret (- Plex86ErrnoEFAULT))
           else thn hostInitLinuxIOEnvironment (ret 0))) (registerOK vm)) vm2"
        by (rule post_mono [OF hostInitMonitor_post]) (use map [OF _ vm2(2)] fails vm2(1) in \<open>auto simp: post_fun(3) split: if_splits\<close>)
      then show ?thesis using False by (simp only: post_fun(1) if_False)
    qed (use fails vm2 in simp)
  qed
qed

lemma hostIoctlRegisterMem_post:
  assumes "pageAligned ke"
  shows "post (hostIoctlRegisterMem env ke msg) (\<lambda>r vm'. vm' = vm \<and> r \<noteq> 0 \<or>
     vm_vmState vm AND NOT VMStateGuestCPUID = VMStateFDOpened \<and> registerOK vm r vm') vm"
proof -
  have alloc: "post (bnd (hostAllocVmPages env ke msg) (\<lambda>error. if error \<noteq> 0 then ret (- Plex86ErrnoENOMEM) else registerInit env ke))
      (registerOK vm) vm"
    unfolding post_bnd
    by (rule post_mono [OF post_conj [OF hostAllocVmPages_post [OF assms]
          post_keeps [OF hostAllocVmPages_keeps, where Q = "\<lambda>_ vm'. mapped vm' = mapped vm"]]])
      (auto simp: registerOK_def split: if_splits intro!: registerInit_post)
  show ?thesis
    unfolding hostIoctlRegisterMem_def
    using post_mono [OF alloc] by auto
qed

section \<open>Every ioctl keeps the machine in order\<close>

text \<open>The states in which the guest may be started.\<close>

definition startable :: "vm_t \<Rightarrow> bool" where
  "startable vm \<longleftrightarrow> vm_vmState vm OR VMStateGuestCPUID = VMStateReady"

definition host_inv :: "vm_t \<Rightarrow> bool" where
  "host_inv vm \<longleftrightarrow> (startable vm \<longrightarrow> hostReady vm)"

lemma startable_mapped: "startable vm \<Longrightarrow> mapped vm"
proof -
  assume "startable vm"
  then have "bit (vm_vmState vm OR 4) 7 = bit (0xff :: Bit32u) 7" by (simp add: startable_def)
  then show ?thesis by (simp add: bit_or_iff)
qed

lemma opened_not_mapped: "st AND NOT VMStateGuestCPUID = VMStateFDOpened \<Longrightarrow> \<not> bit st 7"
proof -
  assume "st AND NOT VMStateGuestCPUID = VMStateFDOpened"
  then have "bit (st AND NOT 4) 7 = bit (1 :: Bit32u) 7" by simp
  then show ?thesis by (simp add: bit_simps)
qed

lemma hostIoctlRegisterMem_inv:
  assumes "pageAligned ke" "host_inv vm"
  shows "post (hostIoctlRegisterMem env ke msg) (\<lambda>_. host_inv) vm"
  by (rule post_mono [OF hostIoctlRegisterMem_post [OF assms(1)]])
    (use assms(2) startable_mapped opened_not_mapped in \<open>auto simp: host_inv_def registerOK_def split: if_splits\<close>)

text \<open>A refused execution changes the interrupt line and the privilege level at most, or ends in the panic
  state.\<close>

lemma hostReady_cpl [simp]: "hostReady (set_INTR i vm) = hostReady vm" "hostReady (vm\<lparr>vm_guestCPL := c\<rparr>) = hostReady vm"
  "startable (set_INTR i vm) = startable vm" "startable (vm\<lparr>vm_guestCPL := c\<rparr>) = startable vm"
  by (simp_all add: hostReady_def startable_def)

lemma executePanic_inv: "post (executePanic code msg) (\<lambda>r vm'. r \<noteq> None \<and> host_inv vm') vm"
proof -
  have "(st OR VMStatePanic) OR VMStateGuestCPUID \<noteq> VMStateReady" for st :: Bit32u
  proof
    assume "(st OR VMStatePanic) OR VMStateGuestCPUID = VMStateReady"
    then have "bit ((st OR 0x100) OR 4) 8 = bit (0xff :: Bit32u) 8" by simp
    then show False by (simp add: bit_or_iff)
  qed
  then show ?thesis by (simp add: executePanic_def reportState_def host_inv_def startable_def)
qed

lemma executeVMLoop_post:
  "post (executeVMLoop env msg) (\<lambda>r vm'. case r of Some _ \<Rightarrow> host_inv vm' | None \<Rightarrow> bit (he_hostEflags env) 9) vm"
  unfolding executeVMLoop_def
  by (auto simp: enterMonitor_def intro!: post_mono [OF executePanic_inv])

definition entered :: "vm_t \<Rightarrow> vm_t \<Rightarrow> bool" where
  "entered vm vm' \<longleftrightarrow> mon_inv 0x1c0 (nexusPDE vm) (map (vm_gdt vm) monSlots) vm' \<and> pvi_inv vm' \<and> vm_pages vm' = vm_pages vm"

lemma post_any: "(\<And>s. post k Q s) \<Longrightarrow> post (thn m k) Q s"
  by (auto simp: post_def thn_def bnd_Ret)

lemma hostIoctlExecute_inv:
  assumes inv: "host_inv vm"
  shows "post (hostIoctlExecute env msg) (\<lambda>r vm'. case r of Some _ \<Rightarrow> host_inv vm'
     | None \<Rightarrow> hostReady vm \<and> (d_dpl (sr_des (cpu_sreg (vm_guest_cpu vm) SRegCS)) = 0 \<or> userSegments (vm_guest_cpu vm) \<longrightarrow>
         tablesDistinct (vm_pages vm) \<longrightarrow> entered vm vm')) vm"
proof (cases "vm_vmState vm = VMStateReady")
  case False
  then show ?thesis
    by (auto simp: hostIoctlExecute_def intro!: post_mono [OF executePanic_inv])
next
  case st: True
  then have ready: "hostReady vm" and su: "startable vm" using inv by (auto simp: host_inv_def startable_def)
  show ?thesis
  proof (cases "ex_executeMethod msg = Plex86ExecuteMethodNative \<and>
      executeRefusal (vm_linuxVMMode vm \<noteq> 0) (vm_guest_cpu vm) = None")
    case False
    then show ?thesis
      using st ready unfolding hostIoctlExecute_def
      by (auto simp: reportState_def host_inv_def hostReady_def split: option.split)
  next
    case True
    show ?thesis
    proof (cases "bit (he_hostEflags env) 9 \<and> tablesDistinct (vm_pages vm) \<and>
        (d_dpl (sr_des (cpu_sreg (vm_guest_cpu vm) SRegCS)) = 0 \<or> userSegments (vm_guest_cpu vm))")
      case ok: True
      show ?thesis
        by (rule post_wp [OF twp_wp [OF twp_mono [OF execute_accepted [OF ready st]]]])
          (use True ok ready in \<open>auto simp: entered_def\<close>)
    next
      case False
      have install: "post (thn installDescriptors (thn installContext (thn (hostInitShadowPaging env) (executeVMLoop env msg))))
          (\<lambda>r vm'. case r of Some _ \<Rightarrow> host_inv vm' | None \<Rightarrow> bit (he_hostEflags env) 9) vm1" for vm1
        by (intro post_any executeVMLoop_post)
      have "post (hostIoctlExecute env msg) (\<lambda>r vm'. case r of Some _ \<Rightarrow> host_inv vm' | None \<Rightarrow> bit (he_hostEflags env) 9) vm"
        using st ready True install unfolding hostIoctlExecute_def by (simp add: hostReady_def)
      then show ?thesis
        by (rule post_mono) (use False ready in \<open>auto split: option.splits\<close>)
    qed
  qed
qed

text \<open>All ioctls.\<close>

lemma not_startable: "\<not> startable (vm\<lparr>vm_vmState := VMStateFDOpened\<rparr>)" "\<not> startable (vm\<lparr>vm_vmState := st AND NOT VMStateRegisteredAll\<rparr>)"
proof -
  show "\<not> startable (vm\<lparr>vm_vmState := VMStateFDOpened\<rparr>)" by (simp add: startable_def)
  show "\<not> startable (vm\<lparr>vm_vmState := st AND NOT VMStateRegisteredAll\<rparr>)"
  proof
    assume "startable (vm\<lparr>vm_vmState := st AND NOT VMStateRegisteredAll\<rparr>)"
    then have "bit ((st AND NOT 0x38) OR 4) 3 = bit (0xff :: Bit32u) 3" by (simp add: startable_def)
    then show False by (simp add: bit_simps)
  qed
qed

lemma startable_cpuid: "startable (vm\<lparr>vm_vmState := vm_vmState vm OR VMStateGuestCPUID\<rparr>) = startable vm"
  by (simp add: startable_def or.assoc)

lemma hostIoctlGeneric_inv:
  assumes al: "pageAligned ke" and inv: "host_inv vm"
  shows "post (hostIoctlGeneric env ke ue cmd arg) (\<lambda>r vm'. case r of Some _ \<Rightarrow> host_inv vm'
     | None \<Rightarrow> hostReady vm \<and> (d_dpl (sr_des (cpu_sreg (vm_guest_cpu vm) SRegCS)) = 0 \<or> userSegments (vm_guest_cpu vm) \<longrightarrow>
         tablesDistinct (vm_pages vm) \<longrightarrow> entered vm vm')) vm"
proof -
  have teardown: "post hostUnallocVmPages (\<lambda>_ vm'. host_inv (vm'\<lparr>vm_vmState := VMStateFDOpened\<rparr>)) vm"
    using not_startable(1) by (simp add: host_inv_def post_def)
  have cpuid: "host_inv (vm\<lparr>vm_guestCPUIDInfo := info, vm_vmState := vm_vmState vm OR VMStateGuestCPUID\<rparr>)" for info
    using inv startable_cpuid [of vm] by (simp add: host_inv_def startable_def hostReady_def)
  have linux: "host_inv (vm\<lparr>vm_linuxVMMode := 1\<rparr>)"
    using inv by (simp add: host_inv_def startable_def hostReady_def)
  have unregister: "host_inv (vm\<lparr>vm_vmState := vm_vmState vm AND NOT VMStateRegisteredAll\<rparr>)"
    using not_startable(2) by (simp add: host_inv_def)
  have register: "post (hostIoctlRegisterMem env ke msg) (\<lambda>r. post (ret (Some r)) (\<lambda>r vm'. case r of Some _ \<Rightarrow> host_inv vm'
     | None \<Rightarrow> Q r vm')) vm" for msg Q
    using hostIoctlRegisterMem_inv [OF al inv] by (simp add: post_fun)
  show ?thesis
    unfolding hostIoctlGeneric_def
    using inv cpuid linux unregister teardown register post_mono [OF hostIoctlExecute_inv [OF inv]]
    by (auto simp: setVMState_def clearVMState_def post_fun split: option.splits elim!: post_mono)
qed

section \<open>The life of a machine\<close>

text \<open>
  The machine is in the hands of its user process (\<open>False\<close>), which issues ioctls and writes to the guest CPU
  page and to the guest's memory as it likes, until an ioctl starts the guest; then (\<open>True\<close>) the guest and
  the monitor run, and the user process answers the monitor's requests inside \<open>mon_step\<close>. Two conditions of
  the start are not checked by the code: the segments of a guest outside ring 0 are ring 3 segments
  (\<open>userSegments\<close>), and the kernel gave the page tables different physical pages.
\<close>

inductive plex_reach :: "henv \<Rightarrow> kenv \<Rightarrow> bool \<Rightarrow> vm_t \<Rightarrow> bool" for env ke where
  opened: "plex86_open ke vm0 = Ret 0 vm \<Longrightarrow> plex_reach env ke False vm"
| user: "plex_reach env ke False vm \<Longrightarrow> plex_reach env ke False (vm\<lparr>vm_guest_cpu := cpu, vm_phymem := mem\<rparr>)"
| ioctl: "plex_reach env ke False vm \<Longrightarrow> plex86_ioctl env ke ue cmd arg vm = Ret (Some r) vm' \<Longrightarrow> plex_reach env ke False vm'"
| start: "plex_reach env ke False vm \<Longrightarrow> plex86_ioctl env ke ue cmd arg vm = Ret None vm' \<Longrightarrow>
    d_dpl (sr_des (cpu_sreg (vm_guest_cpu vm) SRegCS)) = 0 \<or> userSegments (vm_guest_cpu vm) \<Longrightarrow> tablesDistinct (vm_pages vm) \<Longrightarrow>
    plex_reach env ke True vm'"
| run: "plex_reach env ke True vm \<Longrightarrow> mon_step env vm vm' \<Longrightarrow> plex_reach env ke True vm'"

lemma plex86_ioctl_post:
  assumes "post (hostIoctlGeneric env ke ue cmd arg) (\<lambda>r vm'. case r of Some _ \<Rightarrow> P vm' | None \<Rightarrow> Q vm') vm"
  shows "post (plex86_ioctl env ke ue cmd arg) (\<lambda>r vm'. case r of Some _ \<Rightarrow> P vm' | None \<Rightarrow> Q vm') vm"
  unfolding plex86_ioctl_def post_bnd by (rule post_mono [OF assms]) (auto split: option.splits)

lemma plex86_open_post: "post (plex86_open ke) (\<lambda>r vm'. r = 0 \<longrightarrow> host_inv vm') vm"
  unfolding plex86_open_def hostOSAllocZeroedMem_def hostDeviceOpen_def logOs_def
  by (auto simp: host_inv_def startable_def)

lemma plex_reach_inv:
  assumes "plex_reach env ke b vm" "pageAligned ke"
  shows "if b then \<exists>c g. mon_inv 0x1c0 c g vm else host_inv vm"
  using assms(1)
proof (induction rule: plex_reach.induct)
  case (opened vm0 vm)
  then show ?case using postD [OF plex86_open_post] by auto
next
  case (user vm cpu mem)
  then show ?case by (simp add: host_inv_def startable_def hostReady_def)
next
  case (ioctl vm ue cmd arg r vm')
  then show ?case
    using postD [OF plex86_ioctl_post [OF hostIoctlGeneric_inv [OF assms(2)]] ioctl.hyps(2)] by simp
next
  case (start vm ue cmd arg vm')
  then show ?case
    using postD [OF plex86_ioctl_post [OF hostIoctlGeneric_inv [OF assms(2)]] start.hyps(2)] by (auto simp: entered_def)
next
  case (run vm vm')
  then show ?case using mon_step_inv by fastforce
qed

text \<open>Memory: a machine that was registered is released without a leak.\<close>

lemma registered_release:
  assumes "pageAligned ke" "hostIoctlRegisterMem env ke msg vm = Ret 0 vm1" "plex86_release ke vm1 = Ret r vm2"
  shows "live (vm_os vm2) = live (vm_os vm) - {#ke_vm ke#}"
proof -
  have ok: "registerOK vm 0 vm1" using postD [OF hostIoctlRegisterMem_post [OF assms(1)] assms(2)] by simp
  have "post hostUnallocVmPages (\<lambda>_ vm'. live (vm_os vm') = live (vm_os vm)) vm1"
    using hostUnallocVmPages_post [of vm1] ok
    by (auto simp: registerOK_def elim!: post_mono)
  then have "post (plex86_release ke) (\<lambda>_ vm'. live (vm_os vm') = live (vm_os vm) - {#ke_vm ke#}) vm1"
    by (auto simp: plex86_release_def hostOSFreeMem_def logOs_def post_fun elim!: post_mono)
  from postD [OF this assms(3)] show ?thesis .
qed

section \<open>Registration succeeds\<close>

lemma registerInit_succeeds:
  assumes ok: "allocOK msg vm vm1" and n: "rm_nMegs msg \<noteq> 0" "unat (rm_nMegs msg) < 2 ^ 19"
    and fits: "\<not> ke_nexus_end ke - ke_nexus_start ke > 4096" "monSlotsUsed env ke (vm_pages vm1) < 1024"
  shows "twp (registerInit env ke) (\<lambda>r _. r = 0) vm1"
proof -
  have "256 \<le> pg_guest_n_pages (vm_pages vm1)"
    using ok n by (simp add: allocOK_def word_le_nat_alt unat_word_ariths unat_gt_0 Suc_leI)
  moreover have "ad_guestPageInfo (vm_host_addr vm1) \<noteq> 0"
    using ok by (auto simp: allocOK_def heldList_def Let_def)
  ultimately show ?thesis
    unfolding registerInit_def twp_bnd
  proof (rule_tac twp_mono [OF hostInitGuestPhyMem_twp], simp, simp)
    fix r vm2
    assume "\<not> r \<and> (\<exists>info. vm2 = vm1\<lparr>vm_guestPageInfo := info\<rparr> \<and> (\<forall>i < unat (pg_guest_n_pages (vm_pages vm1)). info i =
       (vm_guestPageInfo vm1 i)\<lparr>pp_attr := guestPageAttr (vm_linuxVMMode vm1 \<noteq> 0) i, pp_tsc := 0\<rparr>))"
    then have vm2: "\<not> r" "vm_pages vm2 = vm_pages vm1" by auto
    show "twp (if r then thn hostUnallocVmPages (ret (- Plex86ErrnoEFAULT)) else bnd (hostInitMonitor env ke) (\<lambda>ok.
       bnd (if ok then hostMapMonitor env else ret False) (\<lambda>ok.
       if \<not> ok then thn hostUnallocVmPages (ret (- Plex86ErrnoEFAULT)) else thn hostInitLinuxIOEnvironment (ret 0))))
       (\<lambda>r _. r = 0) vm2"
      using vm2 fits
      by (auto intro!: twp_mono [OF hostInitMonitor_twp] simp: hostMapMonitor_eq hostInitLinuxIOEnvironment_def twp_Ret_eq [OF hostMapMonitor_eq])
  qed
qed

text \<open>The conditions of \<^verbatim>\<open>hostIoctlRegisterMem\<close> on the message, and the room the tables need.\<close>

definition registerChecks :: "kenv \<Rightarrow> plex86IoctlRegisterMem_t \<Rightarrow> bool" where
  "registerChecks ke msg \<longleftrightarrow> rm_nMegs msg AND 3 = 0 \<and> rm_guestPhyMemVector msg AND 0xfff = 0 \<and>
     rm_logBufferWindow msg AND 0xfff = 0 \<and> rm_guestCPUWindow msg AND 0xfff = 0 \<and> \<not> regionsOverlap msg \<and>
     rm_nMegs msg \<noteq> 0 \<and> unat (rm_nMegs msg) < 2 ^ 19 \<and> \<not> ke_nexus_end ke - ke_nexus_start ke > 4096"

definition registerMsgOK :: "henv \<Rightarrow> kenv \<Rightarrow> plex86IoctlRegisterMem_t \<Rightarrow> bool" where
  "registerMsgOK env ke msg \<longleftrightarrow> registerChecks ke msg \<and>
     monSlotsUsed env ke (zero_vm_pages\<lparr>pg_guest_n_pages := rm_nMegs msg * 256\<rparr>) < 1024"

lemma register_succeeds:
  assumes state: "vm_vmState vm AND NOT VMStateGuestCPUID = VMStateFDOpened" "pg_guest_n_megs (vm_pages vm) = 0"
    and k: "kernelGrants env ke" and msg: "registerMsgOK env ke msg"
  shows "twp (hostIoctlRegisterMem env ke msg) (\<lambda>r vm'. r = 0 \<and> registerOK vm 0 vm') vm"
proof -
  have al: "pageAligned ke" using k by (simp add: kernelGrants_def)
  have n: "rm_nMegs msg \<noteq> 0" "unat (rm_nMegs msg) < 2 ^ 19" using msg by (simp_all add: registerMsgOK_def registerChecks_def)
  have "twp (hostIoctlRegisterMem env ke msg) (\<lambda>r _. r = 0) vm"
    using state msg unfolding hostIoctlRegisterMem_def
    by (auto simp: registerMsgOK_def registerChecks_def monSlotsUsed_def allocOK_def 
        intro!: twp_mono [OF twp_post [OF hostAllocVmPages_succeeds [OF k n] hostAllocVmPages_post [OF al]]] registerInit_succeeds)
  from twp_post [OF this hostIoctlRegisterMem_post [OF al]] show ?thesis
    by (rule twp_mono) auto
qed

end
