(* ===== verification/Host_Start.thy ===== *)
theory Host_Start
  imports Host_Life
begin

text \<open>
  Starting a guest: the page tables that a registration records are the frames the kernel gave, and the
  sequence of ioctls that \<^verbatim>\<open>host-user/linuxvm.c\<close> issues ends in a running guest whenever the kernel grants what is
  asked of it.
\<close>

section \<open>The page tables are the kernel's frames\<close>

text \<open>A value that one statement sets and no later one changes.\<close>

lemma runSteps_establish:
  assumes m: "\<And>vm. post m (\<lambda>ok vm'. ok \<longrightarrow> P (f vm')) vm" and bs: "\<And>m c. (m, c) \<in> set bs \<Longrightarrow> keeps f m"
  shows "post (runSteps (as @ (m, c) # bs) pos) (\<lambda>r vm'. r = None \<longrightarrow> P (f vm')) vm"
proof (rule post_runSteps_append)
  have tail: "post (runSteps bs p) (\<lambda>r vm'. r = None \<longrightarrow> P (f vm')) vm1" if "P (f vm1)" for p vm1
    using that by (intro post_keeps [OF runSteps_keeps [OF bs]]) auto
  have "post (runSteps ((m, c) # bs) p) (\<lambda>r vm'. r = None \<longrightarrow> P (f vm')) vm1" for p vm1
    using tail by (auto intro!: post_mono [OF m])
  then show "post (runSteps as pos) (\<lambda>r t. case r of None \<Rightarrow> \<forall>p. post (runSteps ((m, c) # bs) p) (\<lambda>r vm'. r = None \<longrightarrow> P (f vm')) t
      | Some e \<Rightarrow> Some e = None \<longrightarrow> P (f t)) vm"
    by (auto simp: post_def split: option.splits)
qed

lemma runSteps_nth:
  assumes "j < length ms" "ms ! j = (m, c)" "\<And>vm. post m (\<lambda>ok vm'. ok \<longrightarrow> P (f vm')) vm"
    "\<And>m c. (m, c) \<in> set (drop (Suc j) ms) \<Longrightarrow> keeps f m"
  shows "post (runSteps ms pos) (\<lambda>r vm'. r = None \<longrightarrow> P (f vm')) vm"
  using runSteps_establish [of m P f "drop (Suc j) ms" "take j ms" c pos vm] assms id_take_nth_drop [of j ms] by simp

definition allocSteps :: "henv \<Rightarrow> kenv \<Rightarrow> plex86IoctlRegisterMem_t \<Rightarrow> (bool mon \<times> bool) list" where
  "allocSteps env ke msg = [(pinGuestCPU env ke (rm_guestCPUWindow msg), True), (pinLogBuffer env ke (rm_logBufferWindow msg), True)] @
              allocMonitor ke @ allocPageInfo ke (rm_nMegs msg)"

text \<open>The address and the frames of a region, as \<^verbatim>\<open>vmalloc\<close> and the kernel's page tables gave them, and of a page.\<close>

definition tablesAt :: "kenv \<Rightarrow> Bit32u \<times> (nat \<Rightarrow> Bit32u) \<Rightarrow> bool" where
  "tablesAt ke = (\<lambda>(a, ps). \<exists>vm0. \<forall>i < MON_PAGE_TABLES. kernelPhyPage ke vm0 (KERNEL_OFFSET + (a + 4096 * of_nat i)) \<noteq> None \<and>
     ps i = drop_bit 12 (the (kernelPhyPage ke vm0 (KERNEL_OFFSET + (a + 4096 * of_nat i)))))"

lemma phyPagesLoop_length: 
  "phyPagesLoop ke vm False n m i k addr = (r, ps) \<Longrightarrow> r \<noteq> 0 \<Longrightarrow> n = i + k \<Longrightarrow> length ps = k"
  by (induction k arbitrary: i addr ps) (auto split: option.splits if_splits prod.splits)

lemma phyPagesLoop_result: "phyPagesLoop ke vm False n m i k addr = (r, ps) \<Longrightarrow> r \<noteq> 0 \<Longrightarrow> r = n"
  by (induction k arbitrary: i addr ps) (auto split: option.splits if_splits prod.splits)

lemma physMem_tables:
  "post (physMem ke MON_PAGE_TABLES ad_page_tbl (4096 * of_nat MON_PAGE_TABLES) (\<lambda>ps. upd_pages (\<lambda>pg. pg\<lparr>pg_page_tbl := putList ps (pg_page_tbl pg)\<rparr>)))
     (\<lambda>ok vm'. ok \<longrightarrow> tablesAt ke (ad_page_tbl (vm_host_addr vm'), pg_page_tbl (vm_pages vm'))) vm"
proof -
  obtain r ps where rp: "hostOSGetAllocedMemPhyPages ke vm MON_PAGE_TABLES (ad_page_tbl (vm_host_addr vm)) (4096 * of_nat MON_PAGE_TABLES) = (r, ps)"
    by (cases "hostOSGetAllocedMemPhyPages ke vm MON_PAGE_TABLES (ad_page_tbl (vm_host_addr vm)) (4096 * of_nat MON_PAGE_TABLES)")
  have "length ps = MON_PAGE_TABLES \<and> (\<forall>j < MON_PAGE_TABLES. kernelPhyPage ke vm (KERNEL_OFFSET + (ad_page_tbl (vm_host_addr vm) + 4096 * of_nat j)) \<noteq> None \<and>
     ps ! j = drop_bit 12 (the (kernelPhyPage ke vm (KERNEL_OFFSET + (ad_page_tbl (vm_host_addr vm) + 4096 * of_nat j)))))" if "r \<noteq> 0"
  proof -
    have loop: "phyPagesLoop ke vm False 80 80 0 80 (ad_page_tbl (vm_host_addr vm)) = (r, ps)"
      using rp that by (auto simp: hostOSGetAllocedMemPhyPages_def retrievePhyPages_def BytesToPages_def MON_PAGE_TABLES_def split: if_splits)
    have len: "length ps = 80" using phyPagesLoop_length [OF loop that] by simp
    have "r = 80" using loop that phyPagesLoop_result by blast
    then show ?thesis using phyPagesLoop_ok [of ke vm False 80 80 0 80 "ad_page_tbl (vm_host_addr vm)" ps] loop len by (simp add: MON_PAGE_TABLES_def)
  qed
  then show ?thesis
    unfolding physMem_def using rp by (auto simp: tablesAt_def putList_def)
qed

text \<open>The statements after the one of index \<open>j\<close> of the monitor's.\<close>

lemma allocSteps_nth: "j < 24 \<Longrightarrow> allocSteps env ke msg ! (2 + j) = allocMonitor ke ! j"
  by (simp add: allocSteps_def nth_append allocMonitor_def [THEN arg_cong [where f = length]])

lemma allocSteps_drop:
  "j < 24 \<Longrightarrow> set (drop (Suc (2 + j)) (allocSteps env ke msg)) = set (drop (Suc j) (allocMonitor ke)) \<union> set (allocPageInfo ke (rm_nMegs msg))"
  by (simp add: allocSteps_def allocMonitor_def [THEN arg_cong [where f = length]])

lemma allocSteps_set:
  assumes "j < 24" "allocMonitor ke ! j = (m, c)" "\<And>vm. post m (\<lambda>ok vm'. ok \<longrightarrow> P (f vm')) vm"
    "\<And>m c. (m, c) \<in> set (drop (Suc j) (allocMonitor ke)) \<Longrightarrow> keeps f m"
    "\<And>m c. (m, c) \<in> set (allocPageInfo ke (rm_nMegs msg)) \<Longrightarrow> keeps f m"
  shows "post (runSteps (allocSteps env ke msg) 2) (\<lambda>r vm'. r = None \<longrightarrow> P (f vm')) vm"
  using assms allocSteps_nth [OF assms(1), of env ke msg] allocSteps_drop [OF assms(1), of env ke msg]
  by (intro runSteps_nth [where j = "2 + j" and f = f and P = P, OF _ _ assms(3)])
    (auto simp: allocSteps_def allocMonitor_def [THEN arg_cong [where f = length]])

definition tableFields where "tableFields vm = (ad_page_tbl (vm_host_addr vm), pg_page_tbl (vm_pages vm))"
definition nexusFields where "nexusFields vm = (ad_nexus_page_tbl (vm_host_addr vm), pg_nexus_page_tbl (vm_pages vm))"

lemma pageInfo_table_keeps:
  assumes "(m, c) \<in> set (allocPageInfo ke n)"
  shows "keeps tableFields m" "keeps nexusFields m" "keeps (\<lambda>vm. fst (tableFields vm)) m" "keeps (\<lambda>vm. fst (nexusFields vm)) m"
  using assms unfolding allocPageInfo_def list.set Let_def by (auto intro!: alloc_keeps simp: tableFields_def nexusFields_def)

lemma monitor_table_keeps:
  "(m, c) \<in> set (drop 6 (allocMonitor ke)) \<Longrightarrow> keeps tableFields m"
  "(m, c) \<in> set (drop 5 (allocMonitor ke)) \<Longrightarrow> keeps (\<lambda>vm. fst (tableFields vm)) m"
  "(m, c) \<in> set (drop 10 (allocMonitor ke)) \<Longrightarrow> keeps nexusFields m"
  "(m, c) \<in> set (drop 9 (allocMonitor ke)) \<Longrightarrow> keeps (\<lambda>vm. fst (nexusFields vm)) m"
  unfolding allocMonitor_def numeral_eq_Suc drop_Suc_Cons pred_numeral_simps Num.BitM.simps drop_0 list.set
  by (auto intro!: alloc_keeps simp: tableFields_def nexusFields_def)

text \<open>Where the tables are, and their frames.\<close>

definition tablesFrom :: "kenv \<Rightarrow> vm_t \<Rightarrow> bool" where
  "tablesFrom ke vm \<longleftrightarrow> tablesAt ke (tableFields vm) \<and> (\<exists>vm0. fst (tableFields vm) = ke_vmalloc ke vm0 (4096 * of_nat MON_PAGE_TABLES)) \<and>
     snd (nexusFields vm) = hostOSGetAllocedPagePhyPage ke (fst (nexusFields vm)) \<and> (\<exists>vm0. fst (nexusFields vm) = ke_getPage ke vm0)"

lemma allocMem_from: "post (allocMem ke sz store clear) (\<lambda>ok vm'. ok \<longrightarrow> P vm') vm"
  if "\<And>a vm. P (store a vm) \<Longrightarrow> P (clear (store a vm))" "\<And>vm0 vm. P (store (ke_vmalloc ke vm0 sz) vm)"
  using that by (auto simp: allocMem_def hostOSAllocZeroedMem_def logOs_def)

lemma allocPage_from: "post (allocPage ke store clear) (\<lambda>ok vm'. ok \<longrightarrow> P vm') vm"
  if "\<And>vm0 vm. P (clear (upd_host_addr (store (ke_getPage ke vm0)) vm))"
proof -
  have "P (clear (upd_host_addr (store (ke_getPage ke vm0)) (vm1\<lparr>vm_os := os\<rparr>)))" for vm0 vm1 os by (rule that)
  then show ?thesis by (auto simp: allocPage_def hostOSAllocZeroedPage_def logOs_def)
qed

lemma allocSteps_tables:
  "post (runSteps (allocSteps env ke msg) 2) (\<lambda>r vm'. r = None \<longrightarrow> tablesFrom ke vm') vm"
proof -
  let ?run = "runSteps (allocSteps env ke msg) 2"
  have "post ?run (\<lambda>r vm'. r = None \<longrightarrow> tablesAt ke (tableFields vm')) vm"
    by (rule allocSteps_set [where j = 5 and f = tableFields, OF _ _ physMem_tables [folded tableFields_def]
        monitor_table_keeps(1) pageInfo_table_keeps(1)]) (simp_all add: allocMonitor_def)
  moreover have "post ?run (\<lambda>r vm'. r = None \<longrightarrow> (\<exists>vm0. fst (tableFields vm') = ke_vmalloc ke vm0 (4096 * of_nat MON_PAGE_TABLES))) vm"
    by (rule allocSteps_set [where j = 4, OF _ _ _ monitor_table_keeps(2) pageInfo_table_keeps(3)])
      (auto simp: allocMonitor_def tableFields_def intro!: allocMem_from)
  moreover have "post ?run (\<lambda>r vm'. r = None \<longrightarrow> (\<exists>vm0. fst (nexusFields vm') = ke_getPage ke vm0)) vm"
    by (rule allocSteps_set [where j = 8, OF _ _ _ monitor_table_keeps(4) pageInfo_table_keeps(4)])
      (auto simp: allocMonitor_def nexusFields_def intro!: allocPage_from)
  moreover have "post ?run (\<lambda>r vm'. r = None \<longrightarrow> snd (nexusFields vm') = hostOSGetAllocedPagePhyPage ke (fst (nexusFields vm'))) vm"
    by (rule allocSteps_set [where j = 9, OF _ _ _ monitor_table_keeps(3) pageInfo_table_keeps(2)])
      (auto simp: allocMonitor_def nexusFields_def physPage_def)
  ultimately show ?thesis
    unfolding tablesFrom_def by (simp add: post_def)
qed

lemma tablesFrom_state [simp]: "tablesFrom ke (vm\<lparr>vm_vmState := st\<rparr>) = tablesFrom ke vm"
  "tablesFrom ke (vm\<lparr>vm_io := io\<rparr>) = tablesFrom ke vm" "tablesFrom ke (vm\<lparr>vm_guestCPUIDInfo := info\<rparr>) = tablesFrom ke vm"
  "tablesFrom ke (vm\<lparr>vm_linuxVMMode := l\<rparr>) = tablesFrom ke vm"
  "tablesFrom ke (vm\<lparr>vm_guest_cpu := cpu, vm_phymem := mem\<rparr>) = tablesFrom ke vm"
  by (simp_all add: tablesFrom_def tableFields_def nexusFields_def)

lemma allocSteps_fail: "post (runSteps (allocSteps env ke msg) 2) (\<lambda>r vm'. r \<noteq> Some 0) vm"
proof (rule post_mono [OF runSteps_pos], rule notI)
  fix r :: "Bit32u option" and vm' assume "\<forall>p. r = Some p \<longrightarrow> (\<exists>j < length (allocSteps env ke msg). p = 2 + of_nat j)" "r = Some 0"
  then obtain j where j: "j < length (allocSteps env ke msg)" "(2 + of_nat j :: Bit32u) = 0" by auto
  have "length (allocSteps env ke msg) = 33" by (simp add: allocSteps_def allocMonitor_def allocPageInfo_def Let_def)
  with j(1) have "unat (2 + of_nat j :: Bit32u) = 2 + j" by (simp add: unat_word_ariths unat_of_nat)
  with j(2) show False by simp
qed

lemma post_undo: "p \<noteq> 0 \<Longrightarrow> post m (\<lambda>_. post (ret p) (\<lambda>r vm'. r = 0 \<longrightarrow> P vm')) vm"
  by (simp add: post_fun post_def)

lemma hostAllocVmPages_tables: "post (hostAllocVmPages env ke msg) (\<lambda>r vm'. r = 0 \<longrightarrow> tablesFrom ke vm') vm"
proof -
  have "post (bnd (runSteps (allocSteps env ke msg) 2) (\<lambda>r. case r of None \<Rightarrow> thn (setVMState VMStateMemAllocated) (ret 0)
      | Some pos \<Rightarrow> thn hostUnallocVmPages (ret pos))) (\<lambda>r vm'. r = 0 \<longrightarrow> tablesFrom ke vm') vm1" for vm1
    unfolding post_bnd
    by (rule post_mono [OF post_conj [OF allocSteps_tables allocSteps_fail]])
      (auto simp: setVMState_def intro!: post_undo split: option.splits)
  then show ?thesis
    unfolding hostAllocVmPages_def allocSteps_def [symmetric] setVMState_def [of VMStateRegisteredPhyMem] post_thn post_modify
    by blast
qed

text \<open>What registration does afterwards keeps them.\<close>

lemma tablesFrom_cong:
  "tablesFrom ke vm \<Longrightarrow> vm_pages vm' = vm_pages vm \<Longrightarrow> ad_page_tbl (vm_host_addr vm') = ad_page_tbl (vm_host_addr vm) \<Longrightarrow>
   ad_nexus_page_tbl (vm_host_addr vm') = ad_nexus_page_tbl (vm_host_addr vm) \<Longrightarrow> tablesFrom ke vm'"
  by (simp add: tablesFrom_def tableFields_def nexusFields_def)

lemma registerInit_tables:
  assumes "tablesFrom ke vm"
  shows "post (registerInit env ke) (\<lambda>r vm'. r = 0 \<longrightarrow> tablesFrom ke vm') vm"
proof -
  define I where "I vm' \<longleftrightarrow> vm_pages vm' = vm_pages vm \<and> vm_host_addr vm' = vm_host_addr vm" for vm'
  have "keeps (\<lambda>vm. (vm_pages vm, vm_host_addr vm)) hostInitGuestPhyMem"
    unfolding hostInitGuestPhyMem_def updPageInfo_def setAttr_def by (intro keeps_rules keeps_modify) simp_all
  then have mem: "post hostInitGuestPhyMem (\<lambda>_. tablesFrom ke) vm"
    by (rule post_keeps) (use assms tablesFrom_cong in auto)
  have mon: "post (hostInitMonitor env ke) (\<lambda>r vm'. r \<longrightarrow> tablesFrom ke vm') vm1" if "tablesFrom ke vm1" for vm1
    using that unfolding hostInitMonitor_def hostInitData_def hostInitTransition_def hostInitTSS_def hostWindStack_def
    by (auto simp: Let_def KERNEL_OFFSET_def intro!: post_mono [OF hostMapNexus_post] post_mono [OF hostInitIDT_post] elim!: tablesFrom_cong)
  have map: "post (hostMapMonitor env) (\<lambda>_. tablesFrom ke) vm1" if "tablesFrom ke vm1" for vm1
    using that by (auto simp: post_def hostMapMonitor_eq elim!: tablesFrom_cong)
  show ?thesis
    unfolding registerInit_def
    by (auto intro!: post_mono [OF mem] post_mono [OF mon] post_mono [OF map] post_undo simp: hostInitLinuxIOEnvironment_def)
qed

lemma hostIoctlRegisterMem_tables:
  "post (hostIoctlRegisterMem env ke msg) (\<lambda>r vm'. r = 0 \<longrightarrow> tablesFrom ke vm') vm"
  unfolding hostIoctlRegisterMem_def
  by (auto intro!: post_mono [OF hostAllocVmPages_tables] registerInit_tables)

section \<open>A guest can be started\<close>

text \<open>
  The sequence of \<^verbatim>\<open>plex86\<close>: open, register the memory, give the CPUID, ask for the Linux mode, write the
  guest's registers, execute.
\<close>

lemma plex86_open_succeeds:
  assumes "kernelGrants env ke"
  shows "\<exists>vm. plex86_open ke vm0 = Ret 0 vm \<and> vm_vmState vm = VMStateFDOpened \<and> pg_guest_n_megs (vm_pages vm) = 0"
proof -
  have "twp (plex86_open ke) (\<lambda>r vm. r = 0 \<and> vm_vmState vm = VMStateFDOpened \<and> pg_guest_n_megs (vm_pages vm) = 0) vm0"
    using assms by (auto simp: plex86_open_def hostOSAllocZeroedMem_def hostDeviceOpen_def logOs_def kernelGrants_def pageAligned_def
        vm_zeroed_def zero_vm_pages_def)
  then show ?thesis by (auto simp: twp_iff)
qed

text \<open>Up to the execution.\<close>

lemma guest_prepared:
  fixes ue :: uenv
  assumes k: "kernelGrants env ke" and ue: "ue_cpuid ue a0 = Some info" "ue_registerMem ue a1 = Some msg"
    and msg: "registerMsgOK env ke msg"
  shows "\<exists>vm. plex_reach env ke False vm \<and> vm_vmState vm = VMStateReady \<and> vm_linuxVMMode vm = 1 \<and> tablesFrom ke vm"
proof -
  obtain vm1 where vm1: "plex86_open ke vm0 = Ret 0 vm1" "vm_vmState vm1 = 1" "pg_guest_n_megs (vm_pages vm1) = 0"
    using plex86_open_succeeds [OF k] by (metis vm_state_bits(1))
  have "twp (hostIoctlRegisterMem env ke msg) (\<lambda>r vm. (r = 0 \<and> registerOK vm1 0 vm) \<and> (r = 0 \<longrightarrow> tablesFrom ke vm)) vm1"
    by (rule twp_post [OF register_succeeds [OF _ vm1(3) k msg] hostIoctlRegisterMem_tables]) (simp add: vm1(2))
  then obtain vm2 where vm2: "hostIoctlRegisterMem env ke msg vm1 = Ret 0 vm2" "vm_vmState vm2 = 0xfb" "tablesFrom ke vm2"
    using vm1(2) by (auto simp: twp_iff registerOK_def)
  define vm3 where "vm3 = vm2\<lparr>vm_guestCPUIDInfo := info, vm_vmState := 0xff\<rparr>"
  have r1: "plex_reach env ke False vm1" by (rule opened [OF vm1(1)])
  have r2: "plex_reach env ke False vm2"
    by (rule ioctl [OF r1, of ue PLEX86_REGISTER_MEMORY a1 0])
      (simp add: plex86_ioctl_def hostIoctlGeneric_def ue bnd_def vm2(1) ret_def)
  have r3: "plex_reach env ke False vm3"
    by (rule ioctl [OF r2, of ue PLEX86_CPUID a0 0])
      (simp add: plex86_ioctl_def hostIoctlGeneric_def ue vm2(2) vm3_def setVMState_def bnd_def thn_def ret_def gets_def modify_def)
  have "plex_reach env ke False (vm3\<lparr>vm_linuxVMMode := 1\<rparr>)"
    by (rule ioctl [OF r3, of ue PLEX86_LINUX_VM_MODE 0 0])
      (simp add: plex86_ioctl_def hostIoctlGeneric_def bnd_def thn_def ret_def modify_def)
  then show ?thesis
    by (rule_tac exI [of _ "vm3\<lparr>vm_linuxVMMode := 1\<rparr>"]) (use vm2(3) in \<open>simp add: vm3_def\<close>)
qed

lemma guest_starts:
  fixes ue :: uenv
  assumes k: "kernelGrants env ke" and distinct: "\<And>vm. tablesFrom ke vm \<Longrightarrow> tablesDistinct (vm_pages vm)"
    and ue: "ue_cpuid ue a0 = Some info" "ue_registerMem ue a1 = Some msg" "ue_execute ue a2 = Some ex"
    and msg: "registerMsgOK env ke msg" and ex: "ex_executeMethod ex = Plex86ExecuteMethodNative" "bit (he_hostEflags env) 9"
    and cpu: "executeRefusal True cpu = None" "d_dpl (sr_des (cpu_sreg cpu SRegCS)) = 0 \<or> userSegments cpu"
  shows "\<exists>vm. plex_reach env ke True vm"
proof -
  have al: "pageAligned ke" using k by (simp add: kernelGrants_def)
  obtain vm4 where vm4: "plex_reach env ke False vm4" "vm_vmState vm4 = VMStateReady" "vm_linuxVMMode vm4 = 1" "tablesFrom ke vm4"
    using guest_prepared [OF k ue(1,2) msg] by blast
  define vm5 where "vm5 = vm4\<lparr>vm_guest_cpu := cpu, vm_phymem := vm_phymem vm4\<rparr>"
  have r5: "plex_reach env ke False vm5"
    unfolding vm5_def by (rule user [OF vm4(1)])
  have st: "vm_vmState vm5 = VMStateReady" "vm_linuxVMMode vm5 = 1" "vm_guest_cpu vm5 = cpu"
    using vm4 by (simp_all add: vm5_def)
  have ready: "hostReady vm5" using plex_reach_inv [OF r5 al] st(1) by (simp add: host_inv_def startable_def)
  have d: "tablesDistinct (vm_pages vm5)" using distinct [OF vm4(4)] by (simp add: vm5_def)
  obtain vm6 where vm6: "hostIoctlExecute env ex vm5 = Ret None vm6"
    using execute_accepted [OF ready st(1) ex _ _ d] cpu st by (auto simp: twp_iff)
  have "plex_reach env ke True vm6"
    by (rule start [OF r5, of ue PLEX86_EXECUTE a2])
      (use cpu(2) d in \<open>simp_all add: plex86_ioctl_def hostIoctlGeneric_def ue bnd_def vm6 ret_def st(3)\<close>)
  then show ?thesis by blast
qed

section \<open>Too much memory\<close>

text \<open>The size of the guest is not bounded by the code: from some size on, the table that maps the monitor overflows.\<close>

lemma hostInitMonitor_overrun:
  fixes env ke vm
  defines "k \<equiv> unat (he_nPages env) + unat (BytesToPages (ke_sizeof_vm ke)) + 105"
  assumes "k < 1024" "1024 < k + unat (BytesToPages (sizeof_phyPageInfo * pg_guest_n_pages (vm_pages vm)))"
    and "\<not> ke_nexus_end ke - ke_nexus_start ke > 4096"
  shows "hostInitMonitor env ke vm = Undef ''pageTable->pte''"
  using assms(4) unfolding hostInitMonitor_def hostInitData_def
  by (simp add: mon_defs Let_def KERNEL_OFFSET_def hostMapNexus_overrun assms(2,3) [unfolded k_def, simplified])

lemma register_overruns:
  fixes env ke msg vm
  defines "k \<equiv> unat (he_nPages env) + unat (BytesToPages (ke_sizeof_vm ke)) + 105"
  assumes state: "vm_vmState vm AND NOT VMStateGuestCPUID = VMStateFDOpened" "pg_guest_n_megs (vm_pages vm) = 0"
    and g: "kernelGrants env ke"
    and msg: "registerChecks ke msg"
    and over: "k < 1024" "1024 < k + unat (BytesToPages (sizeof_phyPageInfo * (rm_nMegs msg * 256)))"
  shows "hostIoctlRegisterMem env ke msg vm = Undef ''pageTable->pte''"
proof -
  have n: "rm_nMegs msg \<noteq> 0" "unat (rm_nMegs msg) < 2 ^ 19" "\<not> ke_nexus_end ke - ke_nexus_start ke > 4096"
    using msg by (simp_all add: registerChecks_def)
  have al: "pageAligned ke" using g by (simp add: kernelGrants_def)
  obtain vm1 where vm1: "hostAllocVmPages env ke msg vm = Ret 0 vm1" "allocOK msg vm vm1"
    using twp_post [OF hostAllocVmPages_succeeds [OF g n(1,2)] hostAllocVmPages_post [OF al]] by (auto simp: twp_iff)
  have "256 \<le> pg_guest_n_pages (vm_pages vm1)"
    using vm1(2) n(1,2) by (simp add: allocOK_def word_le_nat_alt unat_word_ariths unat_gt_0 Suc_leI)
  moreover have "ad_guestPageInfo (vm_host_addr vm1) \<noteq> 0"
    using vm1(2) by (auto simp: allocOK_def heldList_def Let_def)
  ultimately obtain info where vm2: "hostInitGuestPhyMem vm1 = Ret False (vm1\<lparr>vm_guestPageInfo := info\<rparr>)"
    using hostInitGuestPhyMem_twp [of vm1] by (auto simp: twp_iff)
  have "hostInitMonitor env ke (vm1\<lparr>vm_guestPageInfo := info\<rparr>) = Undef ''pageTable->pte''"
    by (rule hostInitMonitor_overrun) (use over vm1(2) n(3) in \<open>simp_all add: allocOK_def k_def\<close>)
  then have "registerInit env ke vm1 = Undef ''pageTable->pte''"
    by (simp add: registerInit_def vm2 bnd_def)
  then show ?thesis
    using state msg vm1(1) by (simp add: registerChecks_def hostIoctlRegisterMem_def bnd_def gets_def)
qed

end
