(* ===== verification/Sample_Host.thy ===== *)
theory Sample_Host
  imports Host_Start Sample_Vm
begin

text \<open>
  A concrete host kernel that grants everything, with an identity mapping in 4 MB pages, a user process with
  a 4 MB guest, and a guest kernel about to run: the sequence of ioctls starts it.
\<close>

definition sample_ke :: kenv where
  "sample_ke = \<lparr>ke_getPage = (\<lambda>vm. 0x03000000 OR (push_bit 12 (of_nat (length (vm_os vm))) AND 0xff000)),
     ke_vmalloc = (\<lambda>vm sz. if sz = 4096 * of_nat MON_PAGE_TABLES then 0x01000000 else 0x02000000),
     ke_pa = (\<lambda>a. a), ke_pgd = (\<lambda>vm a. (a AND 0xffc00000) OR 0x81), ke_pte = (\<lambda>vm a. 0), ke_kmap = (\<lambda>a. a),
     ke_vm = 0x04000000, ke_sizeof_vm = 0x1000, ke_nexus = zero_nexus, ke_nexus_start = 0, ke_nexus_end = 0x200,
     ke_host2mon = 0x40, ke_mon2host = 0x80, ke_mon_cs = 0x100, ke_handle_fault = 0x1000, ke_handle_int = 0x1100,
     ke_ret_to_guest = 0x1200\<rparr>"

lemma sample_page:
  "bit (ke_getPage sample_ke vm) 25" "ke_getPage sample_ke vm AND 0xfff = 0"
  by (simp_all add: sample_ke_def bit_simps bit.conj_disj_distrib2 and.assoc)

lemma sample_kernelPhyPage: "kernelPhyPage sample_ke vm a = Some (((a AND 0xffc00000) OR 0x81) AND 0xffc00000 OR (a AND 0x003ff000))"
  by (simp add: kernelPhyPage_def sample_ke_def Let_def bit.conj_disj_distrib2 and.assoc)

lemma drop_12: "(a :: Bit32u) AND 0xfff = 0 \<Longrightarrow> a \<noteq> 0 \<Longrightarrow> drop_bit 12 a \<noteq> 0"
proof
  assume a: "a AND 0xfff = 0" "a \<noteq> 0" "drop_bit 12 a = 0"
  have "a = take_bit 12 a" using a(3) by (metis add_0_right bits_ident push_bit_of_0 add.commute)
  also have "\<dots> = 0" using a(1) by (simp add: take_bit_eq_mask mask_eq_exp_minus_1)
  finally show False using a(2) by simp
qed

lemma sample_page_nonzero: "ke_getPage sample_ke vm \<noteq> 0"
  using sample_page(1) [of vm] by auto

lemma sample_vmalloc:
  "ke_vmalloc sample_ke vm sz = (if sz = 4096 * of_nat MON_PAGE_TABLES then 0x01000000 else 0x02000000)"
  by (simp add: sample_ke_def)

lemma sample_fields [simp]:
  "ke_pa sample_ke a = a" "ke_vm sample_ke = 0x04000000" "ke_sizeof_vm sample_ke = 0x1000" "ke_nexus_start sample_ke = 0"
  "ke_nexus_end sample_ke = 0x200" "he_nPages sample_env = 1" "he_pin sample_env vm x = Some (x, drop_bit 12 x)"
  "he_hostEflags sample_env = 0x202"
  by (simp_all add: sample_ke_def sample_env_def)

lemma sample_grants: "kernelGrants sample_env sample_ke"
  using sample_page(2) sample_page_nonzero drop_12
  by (simp add: kernelGrants_def pageAligned_def sample_kernelPhyPage sample_vmalloc BytesToPages_def MAX_VM_STRUCT_PAGES_def)

text \<open>Its page tables are 80 frames from \<open>0x1000\<close>, and its single pages lie above \<open>0x2000\<close>.\<close>

lemma sample_frames:
  "list_all (\<lambda>i. take_bit 20 (drop_bit 12 (the (kernelPhyPage sample_ke vm (KERNEL_OFFSET + (0x01000000 + 4096 * of_nat i))))) =
     (0x1000 + of_nat i :: Bit32u)) [0..<80]"
  unfolding sample_kernelPhyPage KERNEL_OFFSET_def by (simp add: upt_rec)

lemma sample_tablesDistinct:
  assumes "tablesFrom sample_ke vm"
  shows "tablesDistinct (vm_pages vm)"
proof -
  have t: "take_bit 20 (pg_page_tbl (vm_pages vm) i) = 0x1000 + of_nat i" if "i < 80" for i
    using assms that sample_frames by (auto simp: tablesFrom_def tablesAt_def tableFields_def sample_vmalloc list_all_iff)
  have u: "unat (0x1000 + of_nat i :: Bit32u) = 0x1000 + i" if "i < 80" for i
    using that by (simp add: unat_word_ariths unat_of_nat)
  obtain vm0 where n: "pg_nexus_page_tbl (vm_pages vm) = drop_bit 12 (ke_getPage sample_ke vm0)"
    using assms sample_page_nonzero by (auto simp: tablesFrom_def nexusFields_def hostOSGetAllocedPagePhyPage_def)
  have b: "bit (take_bit 20 (pg_nexus_page_tbl (vm_pages vm))) 13"
    using sample_page(1) by (simp add: n bit_simps)
  have nb: "\<not> bit (0x1000 + of_nat i :: Bit32u) 13" if "i < 80" for i
  proof -
    have "take_bit 13 (0x1000 + of_nat i :: Bit32u) = 0x1000 + of_nat i"
      using u [OF that] that by (simp add: word_unat_eq_iff of_nat_take_bit [symmetric] take_bit_nat_eq_self unsigned_take_bit_eq)
    then show ?thesis by (metis bit_take_bit_iff less_irrefl)
  qed
  have "take_bit 20 (pg_page_tbl (vm_pages vm) i) \<noteq> take_bit 20 (pg_nexus_page_tbl (vm_pages vm))" if "i < 80" for i
    using b nb [OF that] unfolding t [OF that] by metis
  moreover have "i = j" if "i < 80" "j < 80" "take_bit 20 (pg_page_tbl (vm_pages vm) i) = take_bit 20 (pg_page_tbl (vm_pages vm) j)" for i j
    using that(3) u [OF that(1)] u [OF that(2)] unfolding t [OF that(1)] t [OF that(2)] by (metis add_left_cancel)
  moreover have n80: "MON_PAGE_TABLES = 80" by simp
  ultimately show ?thesis
    unfolding tablesDistinct_def n80 by blast
qed

definition sample_msg :: plex86IoctlRegisterMem_t where
  "sample_msg = \<lparr>rm_nMegs = 4, rm_guestPhyMemVector = 0x40000000, rm_logBufferWindow = 0x50000000, rm_guestCPUWindow = 0x60000000\<rparr>"

definition sample_execute :: plex86IoctlExecute_t where
  "sample_execute = \<lparr>ex_executeMethod = Plex86ExecuteMethodNative, ex_cyclesRequested = 0, ex_instructionsRequested = 0,
     ex_cyclesExecuted = 0, ex_instructionsExecuted = 0, ex_monitorState =
       \<lparr>ms_state = 0, ms_request = 0, ms_guestFaultNo = 0, ms_guestFaultError = 0\<rparr>\<rparr>"

definition sample_ue :: uenv where
  "sample_ue = \<lparr>ue_cpuid = (\<lambda>_. Some zero_cpuid_info), ue_registerMem = (\<lambda>_. Some sample_msg),
     ue_execute = (\<lambda>_. Some sample_execute), ue_putExecute = (\<lambda>_ _. False)\<rparr>"

text \<open>A guest kernel about to run: protected mode, a flat code segment in its slot, the data segments null.\<close>

definition sample_cpu :: guest_cpu_t where
  "sample_cpu = zero_guest_cpu\<lparr>cpu_cr0 := 0x80000033, cpu_eflags := 0x202, cpu_eip := 0xc0100000,
     cpu_sreg := (\<lambda>_. zero_guest_sreg)(SRegCS := zero_guest_sreg\<lparr>sr_sel := 0x10, sr_des := SET_DESCRIPTOR 0 0xfffff 1 1 0 1 0 0xa\<rparr>)\<rparr>"

lemma sample_msg_ok: "registerMsgOK sample_env sample_ke sample_msg"
proof -
  have "\<not> regionsOverlap sample_msg"
    by (simp add: regionsOverlap_def NumUserRegions_def userRegions_def sample_msg_def LOG_BUFF_SIZE_def upt_rec)
  then show ?thesis
    by (simp add: registerMsgOK_def registerChecks_def sample_msg_def monSlotsUsed_def BytesToPages_def zero_vm_pages_def)
qed

lemma sample_cpu_ok: "executeRefusal True sample_cpu = None" "d_dpl (sr_des (cpu_sreg sample_cpu SRegCS)) = 0"
  by (simp_all add: executeRefusal_def sample_cpu_def zero_guest_cpu_def zero_guest_sreg_def SET_DESCRIPTOR_def upt_rec
      executeSeg_def executeSegLinux_def executeEFlags_def Let_def sel_rpl_def sel_ti_def sel_index_def LinuxKernelCsSlot_def LinuxBootCsSlot_def)

lemma sample_starts: "\<exists>vm. plex_reach sample_env sample_ke True vm"
  by (rule guest_starts [OF sample_grants sample_tablesDistinct, where ue = sample_ue and msg = sample_msg and ex = sample_execute
        and cpu = sample_cpu and info = zero_cpuid_info])
    (use sample_msg_ok sample_cpu_ok in \<open>simp_all add: sample_ue_def sample_execute_def\<close>)

end
