(* ===== verification/Host_Module.thy ===== *)
theory Host_Module
  imports Host_Exec
begin

text \<open>
  Loading and unloading the kernel module (\<^verbatim>\<open>init_module\<close>, \<^verbatim>\<open>cleanup_module\<close>, the capabilities of the
  processor, the pages of the module) and its status file, from \<^verbatim>\<open>host-kernel/linux/linux2.4.c\<close> and
  \<^verbatim>\<open>host-space/monitor.c\<close>. The calls into the kernel are parameters; what the module has registered is kept
  as a set.
\<close>

section \<open>The module and the kernel\<close>

datatype kernelEntry = Chrdev int | ProcEntry | DevfsEntry Bit32u

record module_t =
  md_plex_major :: int
  md_startOffset :: Bit32u
  md_startOffsetPageAligned :: Bit32u
  md_nPages :: nat
  md_ppi :: "Bit32u list"
  md_interruptRedirCount :: "nat \<Rightarrow> Bit32u"
  md_hostCpuIDInfo :: cpuid_info_t
  md_devfs_entry :: Bit32u
  md_entries :: "kernelEntry set"

type_synonym 'a modul = "(module_t, 'a) comp"

text \<open>The configuration of the kernel, the results of its calls, and the processor: \<open>register_chrdev\<close> of a
  major number, whether the \<^verbatim>\<open>/proc\<close> entry is created, the devfs handle, \<open>CPUID\<close> of a level (EAX, EBX, ECX,
  EDX), and where the module lies.\<close>

record modenv =
  me_procFS :: bool
  me_devFS :: bool
  me_register_chrdev :: "int \<Rightarrow> int"
  me_create_proc :: bool
  me_devfs_register :: Bit32u
  me_cpuid :: "Bit32u \<Rightarrow> Bit32u \<times> Bit32u \<times> Bit32u \<times> Bit32u"
  me_module :: Bit32u
  me_module_size :: Bit32u

section \<open>Capabilities of the processor\<close>

definition hostGetCpuCapabilities :: "modenv \<Rightarrow> bool modul" where
  "hostGetCpuCapabilities me =
     (let (eax, ebx, ecx, edx) = me_cpuid me 0 in
      if eax < 1 then ret False
      else
        thn (modify (\<lambda>md. md\<lparr>md_hostCpuIDInfo := (md_hostCpuIDInfo md)\<lparr>ci_vendorDWord0 := ebx, ci_vendorDWord1 := edx,
               ci_vendorDWord2 := ecx\<rparr>\<rparr>))
        (let (eax, ebx, ecx, edx) = me_cpuid me 1 in
         thn (modify (\<lambda>md. md\<lparr>md_hostCpuIDInfo := (md_hostCpuIDInfo md)\<lparr>ci_procSignature := eax, ci_featureFlags := edx\<rparr>\<rparr>))
         (if \<not> bit edx 4 then ret False
          else if \<not> bit edx 1 then ret False
          else ret True)))"

definition hostModuleInit :: "modenv \<Rightarrow> bool modul" where
  "hostModuleInit me = bnd (hostGetCpuCapabilities me) (\<lambda>ok. if \<not> ok then ret False else ret True)"

section \<open>Loading and unloading\<close>

definition retrieveModulePages :: "modenv \<Rightarrow> kenv \<Rightarrow> bool modul" where
  "retrieveModulePages me ke =
     (case retrieveKernelModulePages ke vm_zeroed (me_module me) (me_module_size me) of
        None \<Rightarrow> ret False
      | Some (aligned, n, ps) \<Rightarrow>
          thn (modify (\<lambda>md. md\<lparr>md_startOffset := me_module me, md_startOffsetPageAligned := aligned, md_nPages := n, md_ppi := ps\<rparr>))
          (ret True))"

definition addEntry :: "kernelEntry \<Rightarrow> unit modul" where
  "addEntry e = modify (\<lambda>md. md\<lparr>md_entries := insert e (md_entries md)\<rparr>)"

definition delEntry :: "kernelEntry \<Rightarrow> unit modul" where
  "delEntry e = modify (\<lambda>md. md\<lparr>md_entries := md_entries md - {e}\<rparr>)"

text \<open>The exit of \<^verbatim>\<open>init_module\<close> after an error.\<close>

definition initFailed :: "modenv \<Rightarrow> int modul" where
  "initFailed me =
     thn (whenM (me_procFS me) (delEntry ProcEntry))
     (bnd (gets md_plex_major) (\<lambda>major. thn (delEntry (Chrdev major)) (ret (- 22))))"

definition init_module :: "modenv \<Rightarrow> kenv \<Rightarrow> int modul" where
  "init_module me ke =
     thn (modify (\<lambda>md. md\<lparr>md_startOffset := 0, md_startOffsetPageAligned := 0, md_nPages := 0, md_ppi := [],
            md_interruptRedirCount := (\<lambda>_. 0)\<rparr>))
     (bnd (gets md_plex_major) (\<lambda>major.
      let err = me_register_chrdev me major in
      if err < 0 then ret err
      else
        thn (addEntry (Chrdev (if major = 0 then err else major)))
        (thn (whenM (major = 0) (modify (\<lambda>md. md\<lparr>md_plex_major := err\<rparr>)))
        (thn (whenM (me_procFS me \<and> me_create_proc me) (addEntry ProcEntry))
        (thn (whenM (me_devFS me)
               (thn (modify (\<lambda>md. md\<lparr>md_devfs_entry := me_devfs_register me\<rparr>))
                (whenM (me_devfs_register me \<noteq> 0) (addEntry (DevfsEntry (me_devfs_register me))))))
        (bnd (retrieveModulePages me ke) (\<lambda>ok.
         if \<not> ok then initFailed me
         else bnd (hostModuleInit me) (\<lambda>ok. if \<not> ok then initFailed me else ret 0))))))))"

definition cleanup_module :: "modenv \<Rightarrow> unit modul" where
  "cleanup_module me =
     bnd (gets (\<lambda>md. (md_plex_major md, md_devfs_entry md))) (\<lambda>(major, e).
     thn (delEntry (Chrdev major))
     (thn (whenM (me_procFS me) (delEntry ProcEntry))
     (whenM (me_devFS me) (delEntry (DevfsEntry e)))))"

text \<open>Mapping the device is refused.\<close>

definition plex86_mmap :: "module_t \<Rightarrow> int" where "plex86_mmap md = - 22"

section \<open>The status file\<close>

text \<open>A counter per vector, and a line for each that is not zero: \<^verbatim>\<open>"  0x%2x:%10u\n"\<close>.\<close>

definition hostOSInstrumentIntRedirCount :: "nat \<Rightarrow> unit modul" where
  "hostOSInstrumentIntRedirCount v =
     thn (inBounds ''interruptRedirCount'' (v < 256))
     (modify (\<lambda>md. md\<lparr>md_interruptRedirCount := (md_interruptRedirCount md)(v := md_interruptRedirCount md v + 1)\<rparr>))"

fun digits :: "nat \<Rightarrow> nat \<Rightarrow> nat list" where
  "digits b n = (if b < 2 \<or> n < b then [n] else digits b (n div b) @ [n mod b])"

declare digits.simps [simp del]

definition digitChar :: "nat \<Rightarrow> char" where
  "digitChar d = (if d < 10 then char_of (48 + d) else char_of (87 + d))"

definition padTo :: "nat \<Rightarrow> string \<Rightarrow> string" where
  "padTo w s = replicate (w - length s) CHR '' '' @ s"

definition redirLine :: "nat \<Rightarrow> Bit32u \<Rightarrow> string" where
  "redirLine v n = ''  0x'' @ padTo 2 (map digitChar (digits 16 v)) @ '':'' @ padTo 10 (map digitChar (digits 10 (unat n))) @ [CHR 0x0A]"

definition plex86_read_procmem :: "module_t \<Rightarrow> string" where
  "plex86_read_procmem md =
     ''monitor-->host interrupt reflection counts'' @ [CHR 0x0A] @
     concat (map (\<lambda>v. if md_interruptRedirCount md v \<noteq> 0 then redirLine v (md_interruptRedirCount md v) else []) [0..<256])"

section \<open>What loading leaves behind\<close>

lemma initFailed_twp:
  "twp (initFailed me) (\<lambda>r md'. r = - 22 \<and> md_entries md' = md_entries md - (if me_procFS me then {ProcEntry} else {}) -
     {Chrdev (md_plex_major md)}) md"
  by (auto simp: initFailed_def delEntry_def)

text \<open>What was registered, if anything.\<close>

definition registered :: "modenv \<Rightarrow> int \<Rightarrow> kernelEntry set" where
  "registered me major = {Chrdev (if major = 0 then me_register_chrdev me 0 else major)} \<union>
     (if me_procFS me \<and> me_create_proc me then {ProcEntry} else {}) \<union>
     (if me_devFS me \<and> me_devfs_register me \<noteq> 0 then {DevfsEntry (me_devfs_register me)} else {})"

definition cpuOK :: "modenv \<Rightarrow> bool" where
  "cpuOK me \<longleftrightarrow> fst (me_cpuid me 0) \<ge> 1 \<and> (let (_, _, _, edx) = me_cpuid me 1 in bit edx 4 \<and> bit edx 1)"

lemma hostModuleInit_twp:
  "twp (hostModuleInit me) (\<lambda>ok md'. ok = cpuOK me \<and> (\<exists>c. md' = md\<lparr>md_hostCpuIDInfo := c\<rparr>)) md"
  unfolding hostModuleInit_def hostGetCpuCapabilities_def cpuOK_def
  by (cases "me_cpuid me 0"; cases "me_cpuid me 1") (auto simp: word_less_nat_alt word_le_nat_alt intro: exI [of _ "md_hostCpuIDInfo md"])

text \<open>The kernel gives a page of the module or none.\<close>

lemma retrieveModulePages_twp:
  "twp (retrieveModulePages me ke) (\<lambda>ok md'. ok = (retrieveKernelModulePages ke vm_zeroed (me_module me) (me_module_size me) \<noteq> None) \<and>
     (\<exists>a b n ps. md' = md\<lparr>md_startOffset := a, md_startOffsetPageAligned := b, md_nPages := n, md_ppi := ps\<rparr>)) md"
proof (cases "retrieveKernelModulePages ke vm_zeroed (me_module me) (me_module_size me)")
  case None
  have md: "md = md\<lparr>md_startOffset := md_startOffset md, md_startOffsetPageAligned := md_startOffsetPageAligned md,
     md_nPages := md_nPages md, md_ppi := md_ppi md\<rparr>" by simp
  show ?thesis
    unfolding retrieveModulePages_def None option.case twp_ret using md by blast
next
  case (Some r)
  then show ?thesis by (cases r) (auto simp: retrieveModulePages_def)
qed

text \<open>Loading: what it returns, and what is left registered. After an error the device and the status file are
  gone, but not the devfs entry.\<close>

definition loads :: "modenv \<Rightarrow> kenv \<Rightarrow> bool" where
  "loads me ke \<longleftrightarrow> retrieveKernelModulePages ke vm_zeroed (me_module me) (me_module_size me) \<noteq> None \<and> cpuOK me"

definition devfsEntries :: "modenv \<Rightarrow> kernelEntry set" where
  "devfsEntries me = (if me_devFS me \<and> me_devfs_register me \<noteq> 0 then {DevfsEntry (me_devfs_register me)} else {})"

lemma init_rest_twp:
  "twp (bnd (retrieveModulePages me ke) (\<lambda>ok. if \<not> ok then initFailed me
      else bnd (hostModuleInit me) (\<lambda>ok. if \<not> ok then initFailed me else ret 0)))
     (\<lambda>r md'. if loads me ke then r = 0 \<and> md_entries md' = md_entries md \<and> md_plex_major md' = md_plex_major md \<and>
         md_devfs_entry md' = md_devfs_entry md
       else r = - 22 \<and> md_entries md' = md_entries md - (if me_procFS me then {ProcEntry} else {}) - {Chrdev (md_plex_major md)}) md"
  unfolding twp_bnd
  by (rule twp_mono [OF retrieveModulePages_twp])
    (auto simp: loads_def intro!: twp_mono [OF hostModuleInit_twp] twp_mono [OF initFailed_twp])

definition majorOf :: "modenv \<Rightarrow> int \<Rightarrow> int" where
  "majorOf me major = (if major = 0 then me_register_chrdev me 0 else major)"

lemma registered_eq: "registered me major = insert (Chrdev (majorOf me major))
    ((if me_procFS me \<and> me_create_proc me then {ProcEntry} else {}) \<union> devfsEntries me)"
  by (simp add: registered_def devfsEntries_def majorOf_def)

lemma devfsEntries_only [simp]: "ProcEntry \<notin> devfsEntries me" "Chrdev c \<notin> devfsEntries me"
  by (simp_all add: devfsEntries_def)

lemma registered_taken_back:
  "registered me major - (if me_procFS me then {ProcEntry} else {}) - {Chrdev (majorOf me major)} = devfsEntries me"
  by (auto simp: registered_eq)

lemma init_module_twp:
  assumes "md_entries md = {}" "me_register_chrdev me (md_plex_major md) \<ge> 0"
  shows "twp (init_module me ke) (\<lambda>r md'.
     if loads me ke then r = 0 \<and> md_entries md' = registered me (md_plex_major md) \<and> md_plex_major md' = majorOf me (md_plex_major md) \<and>
       (me_devFS me \<longrightarrow> md_devfs_entry md' = me_devfs_register me)
     else r = - 22 \<and> md_entries md' = devfsEntries me) md"
proof -
  define rest where "rest = bnd (retrieveModulePages me ke) (\<lambda>ok. if \<not> ok then initFailed me
      else bnd (hostModuleInit me) (\<lambda>ok. if \<not> ok then initFailed me else ret 0))"
  define Q :: "int \<Rightarrow> module_t \<Rightarrow> bool" where "Q = (\<lambda>r md'. if loads me ke then r = 0 \<and> md_entries md' = registered me (md_plex_major md) \<and>
        md_plex_major md' = majorOf me (md_plex_major md) \<and> (me_devFS me \<longrightarrow> md_devfs_entry md' = me_devfs_register me)
      else r = - 22 \<and> md_entries md' = devfsEntries me)"
  have rest: "twp rest Q md1"
    if "md_entries md1 = registered me (md_plex_major md)" "md_plex_major md1 = majorOf me (md_plex_major md)"
      "me_devFS me \<Longrightarrow> md_devfs_entry md1 = me_devfs_register me" for md1
    unfolding rest_def
    by (rule twp_mono [OF init_rest_twp])
      (use that in \<open>cases "loads me ke"; simp add: registered_taken_back [simplified] Q_def\<close>)
  show ?thesis
    unfolding init_module_def rest_def [symmetric] Q_def [symmetric] using assms
    by (auto simp: addEntry_def registered_def majorOf_def Let_def intro!: rest)
qed

text \<open>Unloading takes back what loading registered.\<close>

lemma cleanup_registered:
  assumes "md_entries md = registered me major" "md_plex_major md = majorOf me major"
    "me_devFS me \<Longrightarrow> md_devfs_entry md = me_devfs_register me"
  shows "twp (cleanup_module me) (\<lambda>_ md'. md_entries md' = {}) md"
  using assms by (auto simp: cleanup_module_def delEntry_def registered_eq devfsEntries_def)

section \<open>The size of the status file\<close>

lemma digits_length: "n < b ^ k \<Longrightarrow> 0 < k \<Longrightarrow> 2 \<le> b \<Longrightarrow> length (digits b n) \<le> k"
proof (induction k arbitrary: n)
  case (Suc k)
  show ?case
  proof (cases "n < b")
    case False
    then have "0 < k" using Suc.prems by (cases k) auto
    moreover have "n div b < b ^ k" using Suc.prems by (simp add: less_mult_imp_div_less mult.commute)
    ultimately show ?thesis using Suc.IH [of "n div b"] Suc.prems False by (subst digits.simps) simp
  qed (subst digits.simps, simp)
qed simp

lemma redirLine_length:
  assumes "v < 256"
  shows "length (redirLine v n) = 18"
proof -
  have "unat n < 10 ^ 10" by (rule order_less_le_trans [OF unsigned_less]) simp
  then have "length (digits 10 (unat n)) \<le> 10" "length (digits 16 v) \<le> 2"
    using assms by (auto intro!: digits_length)
  then show ?thesis by (simp add: redirLine_def padTo_def)
qed

lemma procmem_length:
  "length (plex86_read_procmem md) = 43 + 18 * card {v. v < 256 \<and> md_interruptRedirCount md v \<noteq> 0}"
proof -
  have "length (concat (map (\<lambda>v. if md_interruptRedirCount md v \<noteq> 0 then redirLine v (md_interruptRedirCount md v) else []) [0..<k])) =
      18 * card {v. v < k \<and> md_interruptRedirCount md v \<noteq> 0}" if "k \<le> 256" for k
    using that
  proof (induction k)
    case (Suc k)
    have "{v. v < Suc k \<and> md_interruptRedirCount md v \<noteq> 0} =
        (if md_interruptRedirCount md k \<noteq> 0 then insert k else id) {v. v < k \<and> md_interruptRedirCount md v \<noteq> 0}"
      by (auto simp: less_Suc_eq)
    then show ?case using Suc by (simp add: redirLine_length)
  qed simp
  then show ?thesis by (simp add: plex86_read_procmem_def)
qed

end
