(* ===== verification/Host_Layout.thy ===== *)
theory Host_Layout
  imports Host_Init
begin

text \<open>
  What the processor finds in the monitor that \<^verbatim>\<open>host-space/monitor.c\<close> builds: the bytes of the interrupt stubs as
  it executes them, and the pages behind the monitor's pointers.
\<close>

section \<open>The stubs of the interrupt table\<close>

definition dwordAt :: "(nat \<Rightarrow> Bit8u) \<Rightarrow> nat \<Rightarrow> Bit32u" where
  "dwordAt m a = ucast (m a) OR push_bit 8 (ucast (m (a + 1))) OR push_bit 16 (ucast (m (a + 2))) OR push_bit 24 (ucast (m (a + 3)))"

text \<open>The processor on a stub: \<^verbatim>\<open>push imm32\<close> and \<^verbatim>\<open>jmp rel32\<close>, until the jump; where it goes and the stack, top first.\<close>

fun runStub :: "(nat \<Rightarrow> Bit8u) \<Rightarrow> Bit32u \<Rightarrow> nat \<Rightarrow> Bit32u \<Rightarrow> Bit32u list \<Rightarrow> (Bit32u \<times> Bit32u list) option" where
  "runStub m base 0 eip st = None"
| "runStub m base (Suc k) eip st =
     (let a = unat (eip - base) in
      if m a = 0x68 then runStub m base k (eip + 5) (dwordAt m (a + 1) # st)
      else if m a = 0xe9 then Some (eip + 5 + dwordAt m (a + 1), st)
      else None)"

text \<open>The exceptions for which the processor pushes an error code.\<close>

definition pushesErrorCode :: "nat \<Rightarrow> bool" where
  "pushesErrorCode v \<longleftrightarrow> v = 8 \<or> 10 \<le> v \<and> v \<le> 14 \<or> v = 17"

lemma dword_join:
  "ucast (ucast w :: Bit8u) OR push_bit 8 (ucast (ucast (drop_bit 8 w) :: Bit8u)) OR
   push_bit 16 (ucast (ucast (drop_bit 16 w) :: Bit8u)) OR push_bit 24 (ucast (ucast (drop_bit 24 w) :: Bit8u)) = w" for w :: Bit32u
proof (rule bit_word_eqI)
  fix n assume "n < LENGTH(32)"
  then consider "n < 8" | "8 \<le> n \<and> n < 16" | "16 \<le> n \<and> n < 24" | "24 \<le> n \<and> n < 32" by fastforce
  then show "bit (ucast (ucast w :: Bit8u) OR push_bit 8 (ucast (ucast (drop_bit 8 w) :: Bit8u)) OR
   push_bit 16 (ucast (ucast (drop_bit 16 w) :: Bit8u)) OR push_bit 24 (ucast (ucast (drop_bit 24 w) :: Bit8u)) :: Bit32u) n = bit w n"
    by cases (auto simp: bit_simps)
qed

lemma dwordAt_stub:
  assumes "stubAt m off bs" "i + 3 < length bs" "take 4 (drop i bs) = dwordBytes w"
  shows "dwordAt m (off + i) = w"
proof -
  have b: "bs ! (i + k) = dwordBytes w ! k" if "k < 4" for k
    using that assms(2) assms(3) [symmetric] by simp
  have m: "m (off + (i + k)) = ucast (drop_bit (8 * k) w)" if "k < 4" for k
  proof -
    have "m (off + (i + k)) = bs ! (i + k)" using assms(1,2) that by (simp add: stubAt_def)
    then show ?thesis using b [OF that] that by (simp add: dwordBytes_def)
  qed
  show ?thesis
    using m [of 0] m [of 1] m [of 2] m [of 3] dword_join [of w]
    by (simp add: dwordAt_def add.assoc)
qed

lemma stub_addr:
  fixes a base :: Bit32u
  assumes "unat (a - base) = off" "off + 15 < 2 ^ 32"
  shows "unat (a + 5 - base) = off + 5" "unat (a + 10 - base) = off + 10"
proof -
  have e: "a + 5 - base = a - base + 5" "a + 10 - base = a - base + 10" by simp_all
  show "unat (a + 5 - base) = off + 5" "unat (a + 10 - base) = off + 10"
    unfolding e using assms unat_word_ariths(1) [of "a - base" 5] unat_word_ariths(1) [of "a - base" 10] by simp_all
qed

lemma runStub_push:
  "m (unat (eip - base)) = 0x68 \<Longrightarrow> runStub m base (Suc k) eip st = runStub m base k (eip + 5) (dwordAt m (unat (eip - base) + 1) # st)"
  by (simp add: Let_def)

lemma runStub_jmp:
  "m (unat (eip - base)) = 0xe9 \<Longrightarrow> runStub m base (Suc k) eip st = Some (eip + 5 + dwordAt m (unat (eip - base) + 1), st)"
  by (simp add: Let_def)

lemma runStub_method2:
  assumes s: "stubAt m off (idt_method2 vec rel)" and a: "unat (a - base) = off" "off + 15 < 2 ^ 32"
  shows "runStub m base 3 a st = Some (a + 15 + rel, vec # 0 # st)"
proof -
  have len: "length (idt_method2 vec rel) = 15" by (simp add: idt_method2_def dwordBytes_def)
  have at: "m (off + i) = idt_method2 vec rel ! i" if "i < 15" for i
    using s that unfolding stubAt_def len by simp
  have b: "m off = 0x68" "m (off + 5) = 0x68" "m (off + 10) = 0xe9"
    using at [of 0] at [of 5] at [of 10] by (simp_all add: idt_method2_def dwordBytes_def upt_rec)
  have d: "dwordAt m (off + 1) = 0" "dwordAt m (off + 6) = vec" "dwordAt m (off + 11) = rel"
    by (rule dwordAt_stub [OF s]; simp add: idt_method2_def dwordBytes_def)+
  have d': "dwordAt m (off + 5 + 1) = vec" "dwordAt m (off + 10 + 1) = rel" using d by (simp_all add: add.commute)
  have e: "unat (a + 5 - base) = off + 5" "unat (a + 5 + 5 - base) = off + 10" using stub_addr [OF a] by (simp_all add: add.commute)
  have "runStub m base (Suc (Suc (Suc 0))) a st = Some (a + 5 + 5 + 5 + rel, vec # 0 # st)"
    by (subst runStub_push, simp add: a b, subst runStub_push, simp add: e b, subst runStub_jmp, simp only: e b)
      (simp only: a e d d')
  then show ?thesis by (simp add: numeral_3_eq_3)
qed

lemma runStub_method1:
  assumes s: "stubAt m off (idt_method1 vec rel)" and a: "unat (a - base) = off" "off + 15 < 2 ^ 32"
  shows "runStub m base 3 a st = Some (a + 10 + rel, vec # st)"
proof -
  have len: "length (idt_method1 vec rel) = 10" by (simp add: idt_method1_def dwordBytes_def)
  have at: "m (off + i) = idt_method1 vec rel ! i" if "i < 10" for i
    using s that unfolding stubAt_def len by simp
  have b: "m off = 0x68" "m (off + 5) = 0xe9"
    using at [of 0] at [of 5] by (simp_all add: idt_method1_def dwordBytes_def upt_rec)
  have d: "dwordAt m (off + 1) = vec" "dwordAt m (off + 6) = rel"
    by (rule dwordAt_stub [OF s]; simp add: idt_method1_def dwordBytes_def)+
  have d': "dwordAt m (off + 5 + 1) = rel" using d by (simp add: add.commute)
  have e: "unat (a + 5 - base) = off + 5" using stub_addr [OF a] by simp
  have "runStub m base (Suc (Suc (Suc 0))) a st = Some (a + 5 + 5 + rel, vec # st)"
    by (subst runStub_push, simp add: a b, subst runStub_jmp, simp add: e b)
      (simp only: a e d d')
  then show ?thesis by (simp add: numeral_3_eq_3)
qed

lemma hostInitIDT_enters:
  "twp (hostInitIDT ke) (\<lambda>_ vm'. \<forall>v < 256. \<forall>st.
     (let g = vm_idt vm' v in g_p g = 1 \<and> g_dpl g = 0 \<and> g_type g = 14 \<and>
      runStub (vm_idt_stubs vm') (ad_idt_stubs (vm_guest_addr vm')) 3 (gate_offset g) st =
        Some (if v = 2 \<or> 32 \<le> v then ke_handle_int ke else ke_handle_fault ke,
              of_nat v # (if pushesErrorCode v then st else 0 # st)))) vm"
proof (rule twp_mono [OF hostInitIDT_twp], intro allI impI)
  fix vm' v st
  assume ok: "idtOK ke 256 vm' \<and> (\<exists>idt s. vm' = vm\<lparr>vm_idt := idt, vm_idt_stubs := s\<rparr>)" and v: "v < (256 :: nat)"
  let ?base = "ad_idt_stubs (vm_guest_addr vm')" and ?off = "v * IDT_STUB_SIZE"
  let ?a = "?base + of_nat ?off"
  have g: "gateOK ?a (vm_idt vm' v)" and s: "stubAt (vm_idt_stubs vm') ?off (idtStub ke ?a (of_nat v) (idtTypeOf v))"
    using ok v by (simp_all add: idtOK_def Let_def)
  have a: "unat (?a - ?base) = ?off" "?off + 15 < 2 ^ 32" using v by (simp_all add: unat_of_nat unat_word_ariths)
  have "runStub (vm_idt_stubs vm') ?base 3 ?a st =
        Some (if v = 2 \<or> 32 \<le> v then ke_handle_int ke else ke_handle_fault ke,
              of_nat v # (if pushesErrorCode v then st else 0 # st))"
  proof (cases "idtTypeOf v")
    case IDT_INTERRUPT
    then have "v = 2 \<or> 32 \<le> v" by (auto simp: idtTypeOf_def split: if_splits)
    then show ?thesis using runStub_method2 [OF _ a, of _ "of_nat v"] s IDT_INTERRUPT by (auto simp: idtStub_def pushesErrorCode_def)
  next
    case IDT_EXCEPTION_ERROR
    then have "v \<in> {8, 10, 11, 12, 13, 14, 17}" by (auto simp: idtTypeOf_def split: if_splits)
    then show ?thesis using runStub_method1 [OF _ a, of _ "of_nat v"] s IDT_EXCEPTION_ERROR by (auto simp: idtStub_def pushesErrorCode_def)
  next
    case IDT_EXCEPTION_NOERROR
    then have "v \<noteq> 2" "v < 32" "v \<notin> {8, 10, 11, 12, 13, 14, 17}" by (auto simp: idtTypeOf_def split: if_splits)
    moreover from this have "\<not> pushesErrorCode v" unfolding pushesErrorCode_def by auto
    ultimately show ?thesis using runStub_method2 [OF _ a, of _ "of_nat v"] s IDT_EXCEPTION_NOERROR by (simp add: idtStub_def)
  qed
  then show "let g = vm_idt vm' v in g_p g = 1 \<and> g_dpl g = 0 \<and> g_type g = 14 \<and>
      runStub (vm_idt_stubs vm') ?base 3 (gate_offset g) st =
        Some (if v = 2 \<or> 32 \<le> v then ke_handle_int ke else ke_handle_fault ke,
              of_nat v # (if pushesErrorCode v then st else 0 # st))"
    using g by (simp add: gateOK_def Let_def)
qed

section \<open>The pages of the monitor\<close>

text \<open>The pointers are where the regions are.\<close>

lemma monRegions_pointers:
  fixes env ke vm base
  defines "rs \<equiv> monRegions env ke" and "s \<equiv> snd (regionsState base 0 (monRegions env ke) vm)"
  shows "map (\<lambda>f. f (vm_guest_addr s)) [ad_nexus, \<lambda>_. nx_vm (vm_nexus s), ad_idt, ad_gdt, ad_ldt, ad_tss, ad_idt_stubs, ad_monLogBuffer, ad_page_dir,
     ad_nexus_page_tbl, ad_page_tbl, ad_page_tbl_laddr_map, ad_guest_cpu, ad_guestPageInfo, ad_userLogBuffer, ad_code_phy_page,
     ad_tmp_phy_page0, ad_tmp_phy_page1] = map (\<lambda>i. slotAddr (regionSlot (vm_pages vm) rs i) - base) [1..<19]"
    "ad_guestStackContext (vm_guest_addr s) = ad_nexus (vm_guest_addr s) + 4096 - 76"
  by (simp_all add: assms monRegions_def region_simps regionSlot_def upt_rec)

text \<open>The slot of the monitor's page table that the processor uses for an address of the monitor's segments, the
  regions by their pointers with the pages that belong there, and the windows.\<close>

definition monSlot :: "henv \<Rightarrow> Bit32u \<Rightarrow> nat" where
  "monSlot env a = unat (drop_bit 12 (MON_BASE_FROM_LADDR env MON_LADDR + a) AND 0x3ff)"

definition monMap :: "henv \<Rightarrow> kenv \<Rightarrow> vm_t \<Rightarrow> (Bit32u \<times> nat \<times> (nat \<Rightarrow> Bit32u)) list" where
  "monMap env ke vm =
     (let ga = vm_guest_addr vm; pg = vm_pages vm in
      [(he_startOffsetPageAligned env, unat (he_nPages env), he_ppi env),
       (ad_nexus ga, 1, \<lambda>_. pg_nexus pg),
       (nx_vm (vm_nexus vm), unat (BytesToPages (ke_sizeof_vm ke)), pg_vm pg),
       (ad_idt ga, 1, pg_idt pg), (ad_gdt ga, 1, pg_gdt pg), (ad_ldt ga, 1, pg_ldt pg), (ad_tss ga, 1, pg_tss pg),
       (ad_idt_stubs ga, 1, pg_idt_stubs pg), (ad_monLogBuffer ga, 1, \<lambda>_. pg_monLogBuffer pg),
       (ad_page_dir ga, 1, \<lambda>_. pg_page_dir pg), (ad_nexus_page_tbl ga, 1, \<lambda>_. pg_nexus_page_tbl pg),
       (ad_page_tbl ga, MON_PAGE_TABLES, pg_page_tbl pg), (ad_page_tbl_laddr_map ga, 1, \<lambda>_. pg_page_tbl_laddr_map pg),
       (ad_guest_cpu ga, 1, \<lambda>_. pg_guest_cpu pg),
       (ad_guestPageInfo ga, unat (BytesToPages (16 * pg_guest_n_pages pg)), vm_guestPageInfoPages vm),
       (ad_userLogBuffer ga, 1, pg_userLogBuffer pg)])"

definition monWindows :: "vm_t \<Rightarrow> Bit32u list" where
  "monWindows vm = (let ga = vm_guest_addr vm in [ad_code_phy_page ga, ad_tmp_phy_page0 ga, ad_tmp_phy_page1 ga])"

lemma monSlot_slotAddr: "p < 1024 \<Longrightarrow> monSlot env (slotAddr p - MON_BASE_FROM_LADDR env 0) = p"
proof -
  assume p: "p < 1024"
  have "MON_BASE_FROM_LADDR env MON_LADDR + (slotAddr p - MON_BASE_FROM_LADDR env 0) = 0x70000000 + slotAddr p"
    by (simp add: MON_BASE_FROM_LADDR_def MON_LADDR_def)
  moreover have "0x70000000 + slotAddr p = slotAddr (0x70000 + p)" by (simp add: slotAddr_def)
  moreover have "slotAddr q = push_bit 12 (of_nat q)" for q by (simp add: slotAddr_def push_bit_eq_mult)
  then have "drop_bit 12 (slotAddr (0x70000 + p)) AND 0x3ff = take_bit 10 (of_nat (0x70000 + p))"
    by (simp add: drop_push_bit_32 mask_and_eq)
  moreover have "unat (take_bit 10 (of_nat (0x70000 + p)) :: Bit32u) = p"
    using p by (simp only: unsigned_take_bit_eq unat_of_nat) (use mod_mult_self3 [of 448 1024 p] in \<open>simp add: take_bit_eq_mod\<close>)
  ultimately show ?thesis by (simp add: monSlot_def)
qed

lemma regionSlot_before:
  assumes "i < j" "j < length rs"
  shows "regionSlot pg rs i + mr_n (rs ! i) pg \<le> regionSlot pg rs j"
  using regionSlot_end [of i j rs pg] assms by (simp add: regionSlot_def [of _ _ j] regionStart_def)

lemma distinct_intervals:
  fixes f n :: "nat \<Rightarrow> nat"
  assumes "\<And>i j. i < j \<Longrightarrow> j < k \<Longrightarrow> f i + n i \<le> f j"
  shows "distinct (concat (map (\<lambda>i. [f i..<f i + n i]) [0..<k]))"
  using assms
proof (induction k)
  case (Suc k)
  have "set (concat (map (\<lambda>i. [f i..<f i + n i]) [0..<k])) \<inter> set [f k..<f k + n k] = {}"
  proof -
    have "x \<notin> {f k..<f k + n k}" if "i < k" "x \<in> {f i..<f i + n i}" for i x
      using Suc.prems [of i k] that by simp
    then show ?thesis by fastforce
  qed
  then show ?case using Suc by simp
qed simp

lemma region_indices:
  "[Suc 0..<19] = [1, 2, 3, 4, 5, 6, 7, 8, 9, 10, 11, 12, 13, 14, 15, 16, 17, 18 :: nat]"
  "[16..<19] = [16, 17, 18 :: nat]" "[0..<16] = [0, 1, 2, 3, 4, 5, 6, 7, 8, 9, 10, 11, 12, 13, 14, 15 :: nat]"
  by (simp_all add: upt_rec numeral_eq_Suc)

lemma monRegions_parts:
  "map (\<lambda>i. (mr_n (monRegions env ke ! i) pg, mr_pages (monRegions env ke ! i) info pg)) [0..<16] =
     [(unat (he_nPages env), he_ppi env), (1, \<lambda>_. pg_nexus pg), (unat (BytesToPages (ke_sizeof_vm ke)), pg_vm pg),
      (1, pg_idt pg), (1, pg_gdt pg), (1, pg_ldt pg), (1, pg_tss pg), (1, pg_idt_stubs pg), (1, \<lambda>_. pg_monLogBuffer pg),
      (1, \<lambda>_. pg_page_dir pg), (1, \<lambda>_. pg_nexus_page_tbl pg), (MON_PAGE_TABLES, pg_page_tbl pg), (1, \<lambda>_. pg_page_tbl_laddr_map pg),
      (1, \<lambda>_. pg_guest_cpu pg), (unat (BytesToPages (16 * pg_guest_n_pages pg)), info), (1, pg_userLogBuffer pg)]"
  by (simp add: region_indices monRegions_def region_def)

text \<open>What \<^verbatim>\<open>hostMapNexus\<close> leaves, region by region.\<close>

lemma hostMapNexus_regions:
  assumes "monSlotsUsed env ke (vm_pages vm) < 1024"
  shows "twp (hostMapNexus env ke) (\<lambda>_ vm'. vm_pages vm' = vm_pages vm \<and> vm_guestPageInfoPages vm' = vm_guestPageInfoPages vm \<and>
     (\<forall>k < 1024. \<not> pe_US (vm_nexus_page_tbl vm' k)) \<and>
     (let pg = vm_pages vm; rs = monRegions env ke; R = (\<lambda>i. (slotAddr (regionSlot pg rs i) - MON_BASE_FROM_LADDR env 0,
        mr_n (rs ! i) pg, mr_pages (rs ! i) (vm_guestPageInfoPages vm) pg)) in
      monMap env ke vm' = map R [0..<16] \<and> monWindows vm' = map (fst \<circ> R) [16..<19] \<and>
      (\<forall>i < 19. regionSlot pg rs i + mr_n (rs ! i) pg < 1024 \<and> (\<forall>j < mr_n (rs ! i) pg.
         vm_nexus_page_tbl vm' (regionSlot pg rs i + j) = pe_make (mr_pages (rs ! i) (vm_guestPageInfoPages vm) pg j) False True True))) \<and>
     ad_guestStackContext (vm_guest_addr vm') = ad_nexus (vm_guest_addr vm') + 4096 - 76) vm"
proof -
  let ?base = "MON_BASE_FROM_LADDR env 0" and ?rs = "monRegions env ke" and ?pg = "vm_pages vm"
  define vm1 where "vm1 = vm\<lparr>vm_host_nexus_pde := pe_make (pg_nexus_page_tbl (vm_pages vm)) True True True,
            vm_nexus_page_tbl := nexusMemZero (vm_nexus_page_tbl vm) 0 1024\<rparr>"
  let ?s = "regionsState ?base 0 ?rs vm1" and ?used = "monSlotsUsed env ke (vm_pages vm)"
  have pg: "vm_pages vm1 = vm_pages vm" "vm_guestPageInfoPages vm1 = vm_guestPageInfoPages vm"
    by (simp_all add: vm1_def)
  have zero: "vm_nexus_page_tbl vm1 k = 0" if "k < 1024" for k
    using that by (simp add: vm1_def nexusMemZero_apply)
  have used: "fst ?s = ?used" by (simp add: monRegions_slots pg)
  have run: "mapRegions ?base ?rs 0 vm1 = Ret (slotAddr ?used) (snd ?s)"
    using mapRegions_eq [of ?base 0 ?rs vm1] assms by (simp add: used) (simp add: slotAddr_def)
  obtain ga nx t where s: "snd ?s = vm1\<lparr>vm_guest_addr := ga, vm_nexus := nx, vm_nexus_page_tbl := t\<rparr>"
    using regionsState_frame [of ?base 0 ?rs vm1] by blast
  let ?vm' = "vm1\<lparr>vm_guest_addr := ga, vm_nexus := nx, vm_nexus_page_tbl := t(?used := 0),
      vm_mon2host := MON_NEXUS_OFFSET ke (snd ?s) (ke_mon2host ke)\<rparr>"
  have eq: "hostMapNexus env ke vm = Ret () ?vm'"
    unfolding hostMapNexus_def
    by (simp add: vm1_def [symmetric] run hostMapBlankPage_eq [OF assms] s MON_NEXUS_OFFSET_def)
  have len: "regionSlot ?pg ?rs i + mr_n (?rs ! i) ?pg \<le> ?used" if "i < 19" for i
    using regionSlot_end [of i 19 ?rs ?pg] that monRegions_slots [of ?base env ke vm]
    by (simp add: regionsEnd_eq) (simp add: monRegions_def)
  have maps: "t (regionSlot ?pg ?rs i + j) = pe_make (mr_pages (?rs ! i) (vm_guestPageInfoPages vm) ?pg j) False True True"
    if "i < 19" "j < mr_n (?rs ! i) ?pg" for i j
    using regionsState_slots [of i ?rs j vm1 ?base] that by (simp add: s pg) (simp add: monRegions_def)
  have us: "\<not> pe_US (t k)" if "k < 1024" for k
    using regionsState_US [of vm1 k ?base 0 ?rs] that by (simp add: s zero)
  have pt: "map (\<lambda>f. f ga) [ad_nexus, \<lambda>_. nx_vm nx, ad_idt, ad_gdt, ad_ldt, ad_tss, ad_idt_stubs, ad_monLogBuffer, ad_page_dir,
     ad_nexus_page_tbl, ad_page_tbl, ad_page_tbl_laddr_map, ad_guest_cpu, ad_guestPageInfo, ad_userLogBuffer, ad_code_phy_page,
     ad_tmp_phy_page0, ad_tmp_phy_page1] = map (\<lambda>i. slotAddr (regionSlot ?pg ?rs i) - ?base) [1..<19]"
    "ad_guestStackContext ga = ad_nexus ga + 4096 - 76"
    using monRegions_pointers [of ?base env ke vm1] by (simp_all only: s pg) simp_all
  have first: "slotAddr (regionSlot ?pg ?rs 0) - ?base = he_startOffsetPageAligned env"
    by (simp add: monRegions_def regionSlot_def regionStart_def region_def slotAddr_def MON_BASE_FROM_LADDR_def)
  define a where "a i = slotAddr (regionSlot ?pg ?rs i) - ?base" for i
  have "monMap env ke ?vm' = map (\<lambda>i. (a i, mr_n (?rs ! i) ?pg, mr_pages (?rs ! i) (vm_guestPageInfoPages vm) ?pg)) [0..<16]"
    using pt(1) first monRegions_parts [of env ke ?pg "vm_guestPageInfoPages vm"] unfolding a_def [symmetric]
    by (simp add: monMap_def Let_def pg region_indices)
  moreover have "monWindows ?vm' = map a [16..<19]"
    using pt(1) unfolding a_def [symmetric] by (simp add: monWindows_def Let_def region_indices)
  ultimately show ?thesis
    unfolding twp_iff eq
    using us len maps pt(2) assms by (auto simp: pg Let_def o_def a_def) (use len in fastforce)+
qed

lemma hostMapNexus_layout:
  assumes "unat (he_nPages env) + unat (BytesToPages (ke_sizeof_vm ke)) +
     unat (BytesToPages (16 * pg_guest_n_pages (vm_pages vm))) + 112 < 1024"
  shows "twp (hostMapNexus env ke) (\<lambda>_ vm'. vm_pages vm' = vm_pages vm \<and>
     (\<forall>(a, n, pages) \<in> set (monMap env ke vm'). \<forall>j < n. let e = vm_nexus_page_tbl vm' (monSlot env a + j) in
        monSlot env a + j < 1024 \<and> pe_P e \<and> pe_RW e \<and> \<not> pe_US e \<and> pe_base e = take_bit 20 (pages j)) \<and>
     (\<forall>k < 1024. \<not> pe_US (vm_nexus_page_tbl vm' k)) \<and>
     distinct (concat (map (\<lambda>(a, n, _). [monSlot env a..<monSlot env a + n]) (monMap env ke vm')) @ map (monSlot env) (monWindows vm')) \<and>
     ad_guestStackContext (vm_guest_addr vm') = ad_nexus (vm_guest_addr vm') + 4096 - 76) vm"
proof (rule twp_mono [OF hostMapNexus_regions])
  show "monSlotsUsed env ke (vm_pages vm) < 1024" using assms by (simp add: monSlotsUsed_def)
next
  fix r vm'
  let ?pg = "vm_pages vm" and ?rs = "monRegions env ke"
  define f where "f i = regionSlot ?pg ?rs i" for i
  define n where "n i = mr_n (?rs ! i) ?pg" for i
  define a where "a i = slotAddr (f i) - MON_BASE_FROM_LADDR env 0" for i
  define p where "p i = mr_pages (?rs ! i) (vm_guestPageInfoPages vm) ?pg" for i
  assume "vm_pages vm' = vm_pages vm \<and> vm_guestPageInfoPages vm' = vm_guestPageInfoPages vm \<and>
     (\<forall>k < 1024. \<not> pe_US (vm_nexus_page_tbl vm' k)) \<and>
     (let pg = vm_pages vm; rs = monRegions env ke; R = (\<lambda>i. (slotAddr (regionSlot pg rs i) - MON_BASE_FROM_LADDR env 0,
        mr_n (rs ! i) pg, mr_pages (rs ! i) (vm_guestPageInfoPages vm) pg)) in
      monMap env ke vm' = map R [0..<16] \<and> monWindows vm' = map (fst \<circ> R) [16..<19] \<and>
      (\<forall>i < 19. regionSlot pg rs i + mr_n (rs ! i) pg < 1024 \<and> (\<forall>j < mr_n (rs ! i) pg.
         vm_nexus_page_tbl vm' (regionSlot pg rs i + j) = pe_make (mr_pages (rs ! i) (vm_guestPageInfoPages vm) pg j) False True True))) \<and>
     ad_guestStackContext (vm_guest_addr vm') = ad_nexus (vm_guest_addr vm') + 4096 - 76"
  then have pg: "vm_pages vm' = vm_pages vm" and us: "\<forall>k < 1024. \<not> pe_US (vm_nexus_page_tbl vm' k)"
    and maps: "monMap env ke vm' = map (\<lambda>i. (a i, n i, p i)) [0..<16]" and wins: "monWindows vm' = map a [16..<19]"
    and fits: "\<And>i. i < 19 \<Longrightarrow> f i + n i < 1024"
    and tbl: "\<And>i j. i < 19 \<Longrightarrow> j < n i \<Longrightarrow> vm_nexus_page_tbl vm' (f i + j) = pe_make (p i j) False True True"
    and ctx: "ad_guestStackContext (vm_guest_addr vm') = ad_nexus (vm_guest_addr vm') + 4096 - 76"
    unfolding a_def f_def n_def p_def Let_def by (simp_all add: o_def)
  have slot: "monSlot env (a i) = f i" if "i < 19" for i
    using fits [OF that] by (simp add: a_def monSlot_slotAddr)
  have one: "n i = 1" if "i \<in> {16, 17, 18}" for i
    using that by (auto simp: n_def monRegions_def region_def)
  have "distinct (concat (map (\<lambda>i. [f i..<f i + n i]) [0..<19]))"
    by (rule distinct_intervals) (use regionSlot_before [of _ _ ?rs ?pg] in \<open>simp add: f_def n_def monRegions_def\<close>)
  moreover have "[0..<19] = [0..<16] @ [16, 17, 18 :: nat]" by (simp add: upt_rec numeral_eq_Suc)
  ultimately have "distinct (concat (map (\<lambda>i. [f i..<f i + n i]) [0..<16]) @ [f 16, f 17, f 18])"
    using one by simp
  moreover have "concat (map (\<lambda>(a, n, _). [monSlot env a..<monSlot env a + n]) (monMap env ke vm')) =
      concat (map (\<lambda>i. [f i..<f i + n i]) [0..<16])"
    unfolding maps map_map o_def by (rule arg_cong [where f = concat], rule map_cong) (simp_all add: slot)
  moreover have "map (monSlot env) (monWindows vm') = [f 16, f 17, f 18]"
    unfolding wins region_indices by (simp add: slot)
  ultimately have d: "distinct (concat (map (\<lambda>(a, n, _). [monSlot env a..<monSlot env a + n]) (monMap env ke vm')) @ map (monSlot env) (monWindows vm'))"
    by simp
  have m: "let e = vm_nexus_page_tbl vm' (monSlot env (a i) + j) in
        monSlot env (a i) + j < 1024 \<and> pe_P e \<and> pe_RW e \<and> \<not> pe_US e \<and> pe_base e = take_bit 20 (p i j)"
    if "i < 16" "j < n i" for i j
    using that fits [of i] tbl [of i j] slot [of i] pe_make_fields [of "p i j" False True True] by (simp add: Let_def)
  show "vm_pages vm' = vm_pages vm \<and>
     (\<forall>(a, n, pages) \<in> set (monMap env ke vm'). \<forall>j < n. let e = vm_nexus_page_tbl vm' (monSlot env a + j) in
        monSlot env a + j < 1024 \<and> pe_P e \<and> pe_RW e \<and> \<not> pe_US e \<and> pe_base e = take_bit 20 (pages j)) \<and>
     (\<forall>k < 1024. \<not> pe_US (vm_nexus_page_tbl vm' k)) \<and>
     distinct (concat (map (\<lambda>(a, n, _). [monSlot env a..<monSlot env a + n]) (monMap env ke vm')) @ map (monSlot env) (monWindows vm')) \<and>
     ad_guestStackContext (vm_guest_addr vm') = ad_nexus (vm_guest_addr vm') + 4096 - 76"
    using pg us ctx d m by (auto simp: maps)
qed

end
