(* ===== verification/Props_Host.thy ===== *)
theory Props_Host
  imports Sample_Host Host_Module Host_Layout
begin

text \<open>
  The properties of the host side: registration of a guest's memory, construction of the monitor, the checks
  of a guest state before it runs, and the machine over its whole life.
\<close>

section \<open>The life of a machine\<close>


lemma sample_aligned: "pageAligned sample_ke"
  using sample_grants by (simp add: kernelGrants_def)


text \<open>C4: A machine that ioctls have brought into a state from which the guest could be started is one that is
  fit for it, whatever the order of the ioctls and whichever of them failed: monitor range and page directory entry in
  place, the monitor's table closed to user mode, no descriptor below DPL 3 but the monitor's, no page pinned, no
  request pending.\<close>

theorem ioctl_states_fit:
  assumes "plex_reach env ke False vm" "pageAligned ke" "vm_vmState vm = VMStateReady"
  shows "hostReady vm"
  using plex_reach_inv [OF assms(1,2)] assms(3) by (simp add: host_inv_def startable_def)

lemma sample_ready: "\<exists>vm. plex_reach sample_env sample_ke False vm \<and> vm_vmState vm = VMStateReady"
  using guest_prepared [OF sample_grants, where ue = sample_ue and msg = sample_msg and info = zero_cpuid_info] sample_msg_ok
  by (auto simp: sample_ue_def)

theorem ioctl_states_fit_witness:
  "\<exists>vm. plex_reach sample_env sample_ke False vm \<and> vm_vmState vm = VMStateReady \<and> hostReady vm"
  using sample_ready ioctl_states_fit [OF _ sample_aligned] by blast



section \<open>Registering memory\<close>

text \<open>C9: A registration that the kernel can serve returns 0, and leaves a machine fit to run with every page and
  region it took from the kernel recorded: the kernel memory in use has grown by exactly those.\<close>

theorem registration_succeeds:
  assumes "vm_vmState vm AND NOT VMStateGuestCPUID = VMStateFDOpened" "pg_guest_n_megs (vm_pages vm) = 0"
    "kernelGrants env ke" "registerMsgOK env ke msg"
  shows "twp (hostIoctlRegisterMem env ke msg) (\<lambda>r vm'. r = 0 \<and> hostReady vm' \<and>
     live (vm_os vm') = live (vm_os vm) + mset (heldList vm')) vm"
  using register_succeeds [OF assms] by (auto simp: registerOK_def elim!: twp_mono)

definition opened_vm :: vm_t where "opened_vm = vm_zeroed\<lparr>vm_vmState := VMStateFDOpened, vm_os := [OsAlloc 0x04000000]\<rparr>"

lemma opened_fields [simp]: "vm_vmState opened_vm = 1" "pg_guest_n_megs (vm_pages opened_vm) = 0" "live (vm_os opened_vm) = {#0x04000000#}"
  by (simp_all add: opened_vm_def vm_zeroed_def zero_vm_pages_def)

theorem registration_succeeds_witness:
  "twp (hostIoctlRegisterMem sample_env sample_ke sample_msg) (\<lambda>r vm'. r = 0 \<and> hostReady vm' \<and>
     live (vm_os vm') = {#0x04000000#} + mset (heldList vm')) opened_vm"
  using registration_succeeds [OF _ _ sample_grants sample_msg_ok, of opened_vm] by simp



text \<open>C33: The size of the guest is not bounded by the registration: a multiple of 4 MB whose page information does not
  fit in the monitor's 4 MB range passes the checks and makes the set-up write behind the page table that maps the
  monitor. 1 GB is enough.\<close>

theorem registration_overruns:
  assumes "vm_vmState vm AND NOT VMStateGuestCPUID = VMStateFDOpened" "pg_guest_n_megs (vm_pages vm) = 0"
    "kernelGrants env ke" "registerChecks ke msg"
    "unat (he_nPages env) + unat (BytesToPages (ke_sizeof_vm ke)) + 105 < 1024"
    "1024 < unat (he_nPages env) + unat (BytesToPages (ke_sizeof_vm ke)) + 105 +
       unat (BytesToPages (sizeof_phyPageInfo * (rm_nMegs msg * 256)))"
  shows "hostIoctlRegisterMem env ke msg vm = Undef ''pageTable->pte''"
  by (rule register_overruns [OF assms])

theorem registration_overruns_witness:
  "hostIoctlRegisterMem sample_env sample_ke (sample_msg\<lparr>rm_nMegs := 1024, rm_guestPhyMemVector := 0x80000000\<rparr>) opened_vm =
     Undef ''pageTable->pte''"
proof -
  have "registerChecks sample_ke (sample_msg\<lparr>rm_nMegs := 1024, rm_guestPhyMemVector := 0x80000000\<rparr>)"
    by (simp add: registerChecks_def regionsOverlap_def NumUserRegions_def userRegions_def sample_msg_def LOG_BUFF_SIZE_def upt_rec)
  then show ?thesis
    by (intro registration_overruns [OF _ _ sample_grants]) (simp_all add: BytesToPages_def)
qed

text \<open>C35: When the page of the guest's registers cannot be pinned, the clean-up of the registration goes through the
  array of page information before it exists: a null pointer is dereferenced in the host kernel.\<close>

theorem pin_failure_crashes:
  assumes "rm_nMegs msg * 256 \<noteq> 0" "rm_guestPhyMemVector msg \<noteq> 0" "\<And>vm. he_pin env vm (rm_guestCPUWindow msg) = None"
  shows "hostAllocVmPages env ke msg vm = Undef ''guestPageInfo(NULL)''"
  by (rule hostAllocVmPages_pin_fails [OF assms])

theorem pin_failure_crashes_witness:
  "hostAllocVmPages (sample_env\<lparr>he_pin := (\<lambda>_ _. None)\<rparr>) sample_ke sample_msg opened_vm = Undef ''guestPageInfo(NULL)''"
  by (rule pin_failure_crashes) (simp_all add: sample_msg_def)

section \<open>Construction of the monitor\<close>

text \<open>C20: When the module's, the machine's and the page information's pages leave room in the 1024 slots, the table that
  \<^verbatim>\<open>hostMapNexus\<close> fills maps, at the slots that the processor uses for each of the monitor's pointers, page by page
  the pages that were allocated for what the pointer names: code, \<^verbatim>\<open>nexus\<close>, \<^verbatim>\<open>vm_t\<close>, IDT, GDT, LDT, TSS, stubs,
  log buffers, page directory and tables, the guest's registers and page information. All slots are closed to user mode,
  no two regions share one, the three windows through which the monitor opens guest pages have slots of their own, and the
  guest's stack frame is at the end of the nexus page. The room is not checked by the code.\<close>

theorem nexus_layout:
  assumes "unat (he_nPages env) + unat (BytesToPages (ke_sizeof_vm ke)) +
     unat (BytesToPages (16 * pg_guest_n_pages (vm_pages vm))) + 112 < 1024"
  shows "twp (hostMapNexus env ke) (\<lambda>_ vm'. vm_pages vm' = vm_pages vm \<and>
     (\<forall>(a, n, pages) \<in> set (monMap env ke vm'). \<forall>j < n. let e = vm_nexus_page_tbl vm' (monSlot env a + j) in
        monSlot env a + j < 1024 \<and> pe_P e \<and> pe_RW e \<and> \<not> pe_US e \<and> pe_base e = take_bit 20 (pages j)) \<and>
     (\<forall>k < 1024. \<not> pe_US (vm_nexus_page_tbl vm' k)) \<and>
     distinct (concat (map (\<lambda>(a, n, _). [monSlot env a..<monSlot env a + n]) (monMap env ke vm')) @ map (monSlot env) (monWindows vm')) \<and>
     ad_guestStackContext (vm_guest_addr vm') = ad_nexus (vm_guest_addr vm') + 4096 - 76) vm"
  by (rule hostMapNexus_layout [OF assms])

definition layout_vm :: vm_t where
  "layout_vm = opened_vm\<lparr>vm_pages := zero_vm_pages\<lparr>pg_guest_n_pages := 0x400, pg_idt := (\<lambda>_. 0x777), pg_gdt := (\<lambda>_. 0x888)\<rparr>\<rparr>"

theorem nexus_layout_witness:
  "twp (hostMapNexus sample_env sample_ke) (\<lambda>_ vm'.
     pe_base (vm_nexus_page_tbl vm' (monSlot sample_env (ad_idt (vm_guest_addr vm')))) = 0x777 \<and>
     pe_base (vm_nexus_page_tbl vm' (monSlot sample_env (ad_gdt (vm_guest_addr vm')))) = 0x888 \<and>
     \<not> pe_US (vm_nexus_page_tbl vm' (monSlot sample_env (ad_idt (vm_guest_addr vm'))))) layout_vm"
proof -
  have in_map: "(ad_idt (vm_guest_addr vm'), 1, \<lambda>_. 0x777) \<in> set (monMap sample_env sample_ke vm')"
    "(ad_gdt (vm_guest_addr vm'), 1, \<lambda>_. 0x888) \<in> set (monMap sample_env sample_ke vm')"
    if "vm_pages vm' = vm_pages layout_vm" for vm'
    using that by (simp_all add: monMap_def Let_def layout_vm_def)
  have one: "pe_base (t (monSlot env a)) = take_bit 20 p \<and> \<not> pe_US (t (monSlot env a))"
    if "\<forall>(a, n, pages) \<in> set ms. \<forall>j < n. let e = t (monSlot env a + j) in
      monSlot env a + j < 1024 \<and> pe_P e \<and> pe_RW e \<and> \<not> pe_US e \<and> pe_base e = take_bit 20 (pages j)"
      "(a, 1, \<lambda>_. p) \<in> set ms" for ms t env a p
    using bspec [OF that] by (simp add: Let_def)
  show ?thesis
  proof (rule twp_mono [OF nexus_layout])
    show "unat (he_nPages sample_env) + unat (BytesToPages (ke_sizeof_vm sample_ke)) +
        unat (BytesToPages (16 * pg_guest_n_pages (vm_pages layout_vm))) + 112 < 1024"
      by (simp add: BytesToPages_def layout_vm_def)
  next
    fix r vm'
    assume *: "vm_pages vm' = vm_pages layout_vm \<and>
     (\<forall>(a, n, pages) \<in> set (monMap sample_env sample_ke vm'). \<forall>j < n. let e = vm_nexus_page_tbl vm' (monSlot sample_env a + j) in
        monSlot sample_env a + j < 1024 \<and> pe_P e \<and> pe_RW e \<and> \<not> pe_US e \<and> pe_base e = take_bit 20 (pages j)) \<and>
     (\<forall>k < 1024. \<not> pe_US (vm_nexus_page_tbl vm' k)) \<and>
     distinct (concat (map (\<lambda>(a, n, _). [monSlot sample_env a..<monSlot sample_env a + n]) (monMap sample_env sample_ke vm')) @
       map (monSlot sample_env) (monWindows vm')) \<and>
     ad_guestStackContext (vm_guest_addr vm') = ad_nexus (vm_guest_addr vm') + 4096 - 76"
    then show "pe_base (vm_nexus_page_tbl vm' (monSlot sample_env (ad_idt (vm_guest_addr vm')))) = 0x777 \<and>
     pe_base (vm_nexus_page_tbl vm' (monSlot sample_env (ad_gdt (vm_guest_addr vm')))) = 0x888 \<and>
     \<not> pe_US (vm_nexus_page_tbl vm' (monSlot sample_env (ad_idt (vm_guest_addr vm'))))"
      using one [OF _ in_map(1)] one [OF _ in_map(2)] by simp
  qed
qed

text \<open>C21: After \<^verbatim>\<open>hostInitMonitor\<close> each of the 256 vectors has a present 32-bit interrupt gate of ring 0, and the
  processor that enters at its offset and executes the bytes there (\<^verbatim>\<open>push imm32\<close>, \<^verbatim>\<open>jmp rel32\<close>) arrives at the interrupt
  entry of the monitor, for the NMI and the vectors from 32, and at its fault entry for the others, with the vector on
  the stack and below it the processor's error code or, for the vectors for which the processor pushes none, a zero.\<close>

theorem idt_complete:
  "twp (hostInitIDT ke) (\<lambda>_ vm'. \<forall>v < 256. \<forall>st.
     (let g = vm_idt vm' v in g_p g = 1 \<and> g_dpl g = 0 \<and> g_type g = 14 \<and>
      runStub (vm_idt_stubs vm') (ad_idt_stubs (vm_guest_addr vm')) 3 (gate_offset g) st =
        Some (if v = 2 \<or> 32 \<le> v then ke_handle_int ke else ke_handle_fault ke,
              of_nat v # (if pushesErrorCode v then st else 0 # st)))) vm"
  by (rule hostInitIDT_enters)

text \<open>A page fault with the error code 6 on the stack, a division by zero, and a timer interrupt of the host.\<close>

theorem idt_complete_witness:
  "twp (hostInitIDT sample_ke) (\<lambda>_ vm'.
     let run = (\<lambda>v st. runStub (vm_idt_stubs vm') (ad_idt_stubs (vm_guest_addr vm')) 3 (gate_offset (vm_idt vm' v)) st) in
     run 14 [6] = Some (0x1000, [14, 6]) \<and> run 0 [] = Some (0x1000, [0, 0]) \<and> run 0x20 [] = Some (0x1100, [0x20, 0])) opened_vm"
proof -
  have "ke_handle_fault sample_ke = 0x1000" "ke_handle_int sample_ke = 0x1100" by (simp_all add: sample_ke_def)
  then show ?thesis
    by (intro twp_mono [OF idt_complete]) (auto simp: Let_def pushesErrorCode_def)
qed

lemma guestPageAttr_bits:
  "bit (guestPageAttr l i) 8 = (0xf0 \<le> i \<and> i \<le> 0xff \<or> 0xc0 \<le> i \<and> i \<le> 0xc7)"
  "bit (guestPageAttr l i) 7 = (\<not> l \<and> 0xa0 \<le> i \<and> i \<le> 0xbf)"
  "bit (guestPageAttr l i) 9" "\<not> bit (guestPageAttr l i) 10"
  unfolding guestPageAttr_def by (simp_all split: if_split)

text \<open>The guest's pages after the set-up: the BIOS and VGA BIOS ranges are read-only, the VGA memory is marked as
  device memory unless Linux runs, every other page is ordinary memory, and none is pinned.\<close>

theorem guest_pages_marked:
  assumes "ad_guestPageInfo (vm_host_addr vm) \<noteq> 0" "256 \<le> pg_guest_n_pages (vm_pages vm)"
  shows "twp hostInitGuestPhyMem (\<lambda>r vm'. \<not> r \<and> (\<forall>i < unat (pg_guest_n_pages (vm_pages vm)).
     pp_RO (vm_guestPageInfo vm' i) = (0xf0 \<le> i \<and> i \<le> 0xff \<or> 0xc0 \<le> i \<and> i \<le> 0xc7) \<and>
     pp_memMapIO (vm_guestPageInfo vm' i) = (vm_linuxVMMode vm = 0 \<and> 0xa0 \<le> i \<and> i \<le> 0xbf) \<and>
     pp_allocated (vm_guestPageInfo vm' i) \<and> \<not> pp_pinned (vm_guestPageInfo vm' i))) vm"
  by (rule twp_mono [OF hostInitGuestPhyMem_twp [OF assms]])
    (auto simp: pp_RO_def pp_memMapIO_def pp_allocated_def pp_pinned_def guestPageAttr_bits)

definition info_vm :: vm_t where
  "info_vm = vm_zeroed\<lparr>vm_host_addr := zero_vm_addr\<lparr>ad_guestPageInfo := 0x02000000\<rparr>, vm_pages := zero_vm_pages\<lparr>pg_guest_n_pages := 0x400\<rparr>\<rparr>"

theorem guest_pages_marked_witness:
  "twp hostInitGuestPhyMem (\<lambda>_ vm'. pp_RO (vm_guestPageInfo vm' 0xf5) \<and> pp_memMapIO (vm_guestPageInfo vm' 0xa0) \<and>
     \<not> pp_RO (vm_guestPageInfo vm' 0x100)) info_vm"
  by (rule twp_mono [OF guest_pages_marked]) (simp_all add: info_vm_def vm_zeroed_def)

section \<open>May the guest run?\<close>


definition ready_vm :: vm_t where
  "ready_vm = vm_zeroed\<lparr>vm_vmState := VMStateReady, vm_linuxVMMode := 1, vm_mon_pdi := 0x1c0, vm_mon_pde_mask := MON_LADDR,
     vm_pages := sample_pages, vm_page_dir := (\<lambda>_. 0)(0x1c0 := pe_make 0x100 True True True), vm_io := sample_io,
     vm_guest_cpu := sample_cpu\<rparr>"

lemma ready_fields [simp]: "vm_vmState ready_vm = 0xff" "vm_linuxVMMode ready_vm = 1" "vm_guest_cpu ready_vm = sample_cpu"
  "vm_pages ready_vm = sample_pages" "vm_gdt ready_vm = (\<lambda>_. zero_descriptor)"
  by (simp_all add: ready_vm_def vm_zeroed_def)

lemma ready_vm_ready: "hostReady ready_vm"
  by (simp add: hostReady_def ready_vm_def vm_zeroed_def sample_pages_def sample_io_def pe_US_def zero_descriptor_def
      zero_pinQueue_def pp_pinned_def zero_phyPageInfo_def)


text \<open>A guest state that does not pass is refused with the code of the first check it fails, and the machine keeps
  everything but the interrupt line and the privilege level it copied: the next execution starts afresh.\<close>

theorem execution_refused:
  assumes "hostReady vm" "vm_vmState vm = VMStateReady" "ex_executeMethod msg = Plex86ExecuteMethodNative"
    "executeRefusal (vm_linuxVMMode vm \<noteq> 0) (vm_guest_cpu vm) = Some code"
  shows "hostIoctlExecute env msg vm =
     Ret (Some (code, msg\<lparr>ex_monitorState := (ex_monitorState msg)\<lparr>ms_state := VMStateReady, ms_request := MonReqNone\<rparr>\<rparr>))
       ((set_INTR (cpu_INTR (vm_guest_cpu vm)) vm)\<lparr>vm_guestCPL := ucast (d_dpl (sr_des (cpu_sreg (vm_guest_cpu vm) SRegCS)))\<rparr>)"
  using assms by (simp add: hostIoctlExecute_def mon_defs hostReady_def reportState_def)

definition iopl_vm :: vm_t where "iopl_vm = ready_vm\<lparr>vm_guest_cpu := sample_cpu\<lparr>cpu_eflags := 0x3202\<rparr>\<rparr>"

theorem execution_refused_witness:
  "\<exists>m vm'. hostIoctlExecute sample_env sample_execute iopl_vm = Ret (Some (Plex86NoExecute_EFlags, m)) vm' \<and> vm_gdt vm' = vm_gdt ready_vm"
proof -
  have refused: "executeRefusal (vm_linuxVMMode iopl_vm \<noteq> 0) (vm_guest_cpu iopl_vm) = Some Plex86NoExecute_EFlags"
    by (simp add: iopl_vm_def executeRefusal_def sample_cpu_def zero_guest_cpu_def zero_guest_sreg_def SET_DESCRIPTOR_def upt_rec
      executeSeg_def executeSegLinux_def executeEFlags_def Let_def sel_rpl_def sel_ti_def sel_index_def LinuxKernelCsSlot_def LinuxBootCsSlot_def)
  have "hostReady iopl_vm" using ready_vm_ready by (simp add: iopl_vm_def hostReady_def)
  then show ?thesis
    using execution_refused [OF _ _ _ refused, of sample_execute sample_env] by (simp add: sample_execute_def iopl_vm_def)
qed

section \<open>The module\<close>

text \<open>Loading the module succeeds exactly when its pages can be found and the processor has a time stamp counter and
  virtual mode extensions, and unloading it then takes back all it registered. When loading fails after the device was
  registered, the device and the status file are taken back, but the devfs entry stays.\<close>

theorem module_loading:
  assumes "md_entries md = {}" "me_register_chrdev me (md_plex_major md) \<ge> 0"
  shows "twp (init_module me ke) (\<lambda>r md'.
     if loads me ke then r = 0 \<and> twp (cleanup_module me) (\<lambda>_ md''. md_entries md'' = {}) md'
     else r = - 22 \<and> md_entries md' = devfsEntries me) md"
  by (rule twp_mono [OF init_module_twp [OF assms]])
    (simp add: cleanup_registered)

definition sample_me :: modenv where
  "sample_me = \<lparr>me_procFS = True, me_devFS = True, me_register_chrdev = (\<lambda>_. 254), me_create_proc = True, me_devfs_register = 0x05000000,
     me_cpuid = (\<lambda>n. if n = 0 then (2, 0, 0, 0) else (0x633, 0, 0, 0x12)), me_module = 0x06000060, me_module_size = 0x8000\<rparr>"

definition sample_md :: module_t where
  "sample_md = \<lparr>md_plex_major = 0, md_startOffset = 0, md_startOffsetPageAligned = 0, md_nPages = 0, md_ppi = [],
     md_interruptRedirCount = (\<lambda>_. 0), md_hostCpuIDInfo = zero_cpuid_info, md_devfs_entry = 0, md_entries = {}\<rparr>"

text \<open>A processor without virtual mode extensions: the devfs entry is left.\<close>

theorem module_loading_witness:
  "\<exists>md'. init_module (sample_me\<lparr>me_cpuid := (\<lambda>n. (2, 0, 0, 0x10))\<rparr>) sample_ke sample_md = Ret (- 22) md' \<and>
     md_entries md' = {DevfsEntry 0x05000000}"
  using module_loading [of sample_md "sample_me\<lparr>me_cpuid := (\<lambda>n. (2, 0, 0, 0x10))\<rparr>" sample_ke]
  by (auto simp: twp_iff sample_md_def sample_me_def loads_def cpuOK_def devfsEntries_def)

text \<open>The status file has a line of 18 characters for each interrupt vector that was passed to the host, after a
  heading of 43; from 226 such vectors on, it is longer than the page the kernel gives for it.\<close>

theorem status_file_overflows:
  assumes "226 \<le> card {v. v < 256 \<and> md_interruptRedirCount md v \<noteq> 0}"
  shows "4096 < length (plex86_read_procmem md) \<and>
     length (plex86_read_procmem md) = 43 + 18 * card {v. v < 256 \<and> md_interruptRedirCount md v \<noteq> 0}"
  using assms by (simp add: procmem_length)

theorem status_file_overflows_witness: "length (plex86_read_procmem (sample_md\<lparr>md_interruptRedirCount := (\<lambda>_. 1)\<rparr>)) = 4651"
  using status_file_overflows [of "sample_md\<lparr>md_interruptRedirCount := (\<lambda>_. 1)\<rparr>"] by simp

end
