(* ===== verification/Hal_State.thy ===== *)
theory Hal_State
  imports Host_Exec
begin

text \<open>
  The state of the user process of \<^verbatim>\<open>host-user\<close>: the guest's physical memory that it has allocated, the page
  with the guest's registers that it shares with the kernel module, and the devices it offers to the guest;
  the calls it makes to its operating system; and \<^verbatim>\<open>plex86TearDown\<close> of \<^verbatim>\<open>host-user/linuxvm.c\<close>, which every
  error path of the devices runs. Messages to the standard error stream are not modelled, except for what the
  guest itself prints.
\<close>

section \<open>The devices\<close>

definition HalNetMaxDevices :: nat where "HalNetMaxDevices = 2"
definition HalConMaxDevices :: nat where "HalConMaxDevices = 1"
definition HalDiskMaxDisks :: nat where "HalDiskMaxDisks = 4"
definition MaxEthernetFrameSize :: nat where "MaxEthernetFrameSize = 1514"
definition MaxConsoleFrameSize :: nat where "MaxConsoleFrameSize = 1024"
definition NAME_MAX :: nat where "NAME_MAX = 255"

definition HalCallNetGuestTx :: Bit32u where "HalCallNetGuestTx = 1"
definition HalCallNetGuestRegDev :: Bit32u where "HalCallNetGuestRegDev = 2"
definition HalCallConGuestWrite :: Bit32u where "HalCallConGuestWrite = 3"
definition HalCallConGuestRegDev :: Bit32u where "HalCallConGuestRegDev = 4"
definition HalCallDiskGetInfo :: Bit32u where "HalCallDiskGetInfo = 5"
definition HalCallDiskWrite :: Bit32u where "HalCallDiskWrite = 6"
definition HalCallDiskRead :: Bit32u where "HalCallDiskRead = 7"
definition HalCallDiskCleanup :: Bit32u where "HalCallDiskCleanup = 8"

lemmas hal_sizes [simp] = HalNetMaxDevices_def HalConMaxDevices_def HalDiskMaxDisks_def MaxEthernetFrameSize_def
  MaxConsoleFrameSize_def NAME_MAX_def
lemmas hal_calls [simp] = HalCallNetGuestTx_def HalCallNetGuestRegDev_def HalCallConGuestWrite_def
  HalCallConGuestRegDev_def HalCallDiskGetInfo_def HalCallDiskWrite_def HalCallDiskRead_def HalCallDiskCleanup_def

text \<open>The areas in guest memory. \<^verbatim>\<open>halNetGuestRxArea_t\<close> is a flag, a length and a frame, padded to a multiple of
  four bytes; \<^verbatim>\<open>halConGuestRwArea_t\<close> a flag, a length, a receive and a transmit buffer; \<^verbatim>\<open>halDiskInfo_t\<close> five words.\<close>

definition halNetGuestRxArea_size :: nat where "halNetGuestRxArea_size = 1524"
definition halConGuestRwArea_size :: nat where "halConGuestRwArea_size = 4 + 4 + MaxConsoleFrameSize + MaxConsoleFrameSize"
definition halDiskInfo_size :: nat where "halDiskInfo_size = 20"

definition rx_rxBufferFull :: nat where "rx_rxBufferFull = 0"
definition rx_rxBufferLen :: nat where "rx_rxBufferLen = 4"
definition rx_rxBuffer :: nat where "rx_rxBuffer = 8"
definition con_txBuffer :: nat where "con_txBuffer = 4 + 4 + MaxConsoleFrameSize"

lemmas hal_areas [simp] = halNetGuestRxArea_size_def halConGuestRwArea_size_def halDiskInfo_size_def
  rx_rxBufferFull_def rx_rxBufferLen_def rx_rxBuffer_def con_txBuffer_def

text \<open>The members \<^verbatim>\<open>guestRwArea\<close> and \<^verbatim>\<open>guestRxArea\<close> point into guest memory: \<open>None\<close> is the null pointer,
  \<open>Some a\<close> is \<^verbatim>\<open>&plex86MemPtr[a]\<close>.\<close>

record halConDev_t =
  cd_registered :: Bit32u
  cd_guestRwAreaPAddr :: Bit32u
  cd_guestRwAreaLen :: Bit32u
  cd_guestRwArea :: "nat option"

record halNetDev_t =
  nd_registered :: Bit32u
  nd_guestRxAreaPAddr :: Bit32u
  nd_guestRxAreaLen :: Bit32u
  nd_guestRxArea :: "nat option"

record halDisk_t =
  dk_enabled :: Bit32u
  dk_fileNo :: int
  dk_pathName :: "Bit8u list"
  dk_numSectors :: Bit32u
  dk_cylinders :: Bit32u
  dk_heads :: Bit32u
  dk_spt :: Bit32u

definition zero_halNetDev :: halNetDev_t where
  "zero_halNetDev = \<lparr>nd_registered = 0, nd_guestRxAreaPAddr = 0, nd_guestRxAreaLen = 0, nd_guestRxArea = None\<rparr>"

section \<open>The process and its operating system\<close>

text \<open>
  \<open>us_mem\<close> and \<open>us_memLive\<close> are the block behind \<^verbatim>\<open>plex86MemPtr\<close> and whether it is still allocated. \<open>us_stderr\<close>
  holds the strings that \<^verbatim>\<open>halconsole.c\<close> and \<^verbatim>\<open>doVGADump\<close> print, in order. \<open>us_os\<close> is the state of the operating
  system, of which the model knows nothing.
\<close>

record 'o user_t =
  us_mem :: "nat \<Rightarrow> Bit8u"
  us_memLive :: bool
  us_memSize :: Bit32u
  us_cpu :: guest_cpu_t
  us_guestCPUID :: cpuid_info_t
  us_stderr :: "Bit8u list list"
  us_state :: Bit32u
  us_fd :: int
  us_vgaDump :: bool
  us_conDev :: "nat \<Rightarrow> halConDev_t"
  us_conLine :: "nat \<Rightarrow> Bit8u"
  us_conLineI :: Bit32u
  us_disk :: "nat \<Rightarrow> halDisk_t"
  us_netDev :: "nat \<Rightarrow> halNetDev_t"
  us_fdTunTap :: int
  us_netConsumer :: Bit32u
  us_netProducer :: Bit32u
  us_os :: 'o

text \<open>
  The calls to the operating system: the result and the new state. \<open>os_read\<close> gives the result, \<^verbatim>\<open>errno\<close> and the
  bytes stored in the buffer. \<open>os_execute\<close> is the ioctl \<^verbatim>\<open>PLEX86_EXECUTE\<close>: while it lasts the guest and the
  kernel module may write the guest's memory and the page of its registers, and signals arrive; it gives the
  result, the request of the monitor and the number of frames that were signalled. \<open>os_fstat\<close> gives the result
  and the size of a file.
\<close>

record 'o halenv =
  os_open :: "'o \<Rightarrow> Bit8u list \<Rightarrow> int \<times> 'o"
  os_close :: "'o \<Rightarrow> int \<Rightarrow> int \<times> 'o"
  os_lseek :: "'o \<Rightarrow> int \<Rightarrow> int \<Rightarrow> int \<times> 'o"
  os_read :: "'o \<Rightarrow> int \<Rightarrow> nat \<Rightarrow> (int \<times> int \<times> Bit8u list) \<times> 'o"
  os_write :: "'o \<Rightarrow> int \<Rightarrow> Bit8u list \<Rightarrow> int \<times> 'o"
  os_fstat :: "'o \<Rightarrow> int \<Rightarrow> (int \<times> Bit32u) \<times> 'o"
  os_ioctl :: "'o \<Rightarrow> int \<Rightarrow> Bit32u \<Rightarrow> int \<times> 'o"
  os_execute :: "'o \<Rightarrow> int \<Rightarrow> guest_cpu_t \<Rightarrow> (nat \<Rightarrow> Bit8u) \<Rightarrow> (int \<times> Bit32u \<times> Bit32u \<times> guest_cpu_t \<times> (nat \<Rightarrow> Bit8u)) \<times> 'o"
  os_script :: "'o \<Rightarrow> Bit8u list \<Rightarrow> (bool \<times> bool \<times> Bit8u) \<times> 'o"

type_synonym ('o, 'a) usr = "('o user_t, 'a) comp"

definition osCall :: "('o \<Rightarrow> 'a \<times> 'o) \<Rightarrow> ('o, 'a) usr" where
  "osCall f u = (let (r, os') = f (us_os u) in Ret r (u\<lparr>us_os := os'\<rparr>))"

section \<open>Guest memory and registers\<close>

definition memFits :: "'o user_t \<Rightarrow> nat \<Rightarrow> nat \<Rightarrow> bool" where
  "memFits u a n \<longleftrightarrow> us_memLive u \<and> a + n \<le> unat (us_memSize u)"

definition peekBytes :: "(nat \<Rightarrow> Bit8u) \<Rightarrow> nat \<Rightarrow> nat \<Rightarrow> Bit8u list" where
  "peekBytes m a n = map (\<lambda>i. m (a + i)) [0..<n]"

definition memRead :: "nat \<Rightarrow> nat \<Rightarrow> ('o, Bit8u list) usr" where
  "memRead a n = bnd (gets (\<lambda>u. memFits u a n)) (\<lambda>ok.
     thn (inBounds ''plex86MemPtr'' ok) (gets (\<lambda>u. peekBytes (us_mem u) a n)))"

definition memWrite :: "nat \<Rightarrow> Bit8u list \<Rightarrow> ('o, unit) usr" where
  "memWrite a bs = bnd (gets (\<lambda>u. memFits u a (length bs))) (\<lambda>ok.
     thn (inBounds ''plex86MemPtr'' ok)
     (modify (\<lambda>u. u\<lparr>us_mem := putBytes a bs (us_mem u)\<rparr>)))"

definition word_bytes :: "Bit32u \<Rightarrow> Bit8u list" where
  "word_bytes w = map (\<lambda>i. ucast (drop_bit (8 * i) w)) [0..<4]"

definition memRead32 :: "nat \<Rightarrow> ('o, Bit32u) usr" where
  "memRead32 a = bnd (memRead a 4) (\<lambda>bs. ret (le_word bs))"

definition memWrite32 :: "nat \<Rightarrow> Bit32u \<Rightarrow> ('o, unit) usr" where
  "memWrite32 a w = memWrite a (word_bytes w)"

lemma length_peekBytes [simp]: "length (peekBytes m a n) = n" "length (word_bytes w) = 4"
  by (simp_all add: peekBytes_def word_bytes_def)

lemma peek_putBytes:
  "n = length bs \<Longrightarrow> peekBytes (putBytes a bs m) a n = bs"
  "a + n \<le> b \<or> b + length bs \<le> a \<Longrightarrow> peekBytes (putBytes b bs m) a n = peekBytes m a n"
  by (auto simp: peekBytes_def putBytes_def intro!: nth_equalityI)

lemma le_word_bytes [simp]: "le_word (word_bytes w) = w"
proof (rule bit_word_eqI)
  fix n assume "n < LENGTH(32)"
  then have "n < 24 \<or> 24 + (n - 24) = n" by linarith
  with \<open>n < LENGTH(32)\<close> show "bit (le_word (word_bytes w) :: Bit32u) n = bit w n"
    by (auto simp: le_word_def word_bytes_def upt_rec bit_simps)
qed

lemma twp_osCall [simp]: "twp (osCall f) Q u = (case f (us_os u) of (r, s') \<Rightarrow> Q r (u\<lparr>us_os := s'\<rparr>))"
  by (simp add: osCall_def twp_def split: prod.split)

lemma twp_memRead [simp]: "twp (memRead a n) Q u = (memFits u a n \<and> Q (peekBytes (us_mem u) a n) u)"
  by (simp add: memRead_def)

lemma twp_memWrite [simp]: "twp (memWrite a bs) Q u = (memFits u a (length bs) \<and> Q () (u\<lparr>us_mem := putBytes a bs (us_mem u)\<rparr>))"
  by (simp add: memWrite_def)

lemma memFits_upd [simp]:
  "memFits (u\<lparr>us_mem := m\<rparr>) = memFits u" "memFits (u\<lparr>us_os := s\<rparr>) = memFits u" "memFits (u\<lparr>us_cpu := c\<rparr>) = memFits u"
  by (simp_all add: memFits_def fun_eq_iff)

definition usReg :: "nat \<Rightarrow> ('o, Bit32u) usr" where
  "usReg r = gets (\<lambda>u. cpu_genReg (us_cpu u) r)"

definition setEAX :: "Bit32u \<Rightarrow> ('o, unit) usr" where
  "setEAX v = modify (\<lambda>u. u\<lparr>us_cpu := (us_cpu u)\<lparr>cpu_genReg := (cpu_genReg (us_cpu u))(GenRegEAX := v)\<rparr>\<rparr>)"

definition isgraph :: "Bit8u \<Rightarrow> bool" where
  "isgraph c \<longleftrightarrow> 0x21 \<le> c \<and> c \<le> 0x7e"

section \<open>Tearing down\<close>

definition Plex86StateMemAllocated :: Bit32u where "Plex86StateMemAllocated = 0x01"
definition Plex86StateMemRegistered :: Bit32u where "Plex86StateMemRegistered = 0x02"
definition Plex86StateReady :: Bit32u where "Plex86StateReady = 0x03"

lemmas plex86States [simp] = Plex86StateMemAllocated_def Plex86StateMemRegistered_def Plex86StateReady_def

text \<open>The text screen of the guest, without the lines that show nothing.\<close>

definition vgaLine :: "nat \<Rightarrow> ('o, unit) usr" where
  "vgaLine i =
     bnd (memRead (0xb8000 + i) 160) (\<lambda>row.
     (let cs = map (\<lambda>col. row ! (2 * col)) [0..<80] in
      whenM (list_ex isgraph cs)
        (modify (\<lambda>u. u\<lparr>us_stderr := us_stderr u @ [map (\<lambda>c. if isgraph c then c else 0x20) cs @ [0x0a]]\<rparr>))))"

definition doVGADump :: "('o, unit) usr" where
  "doVGADump = forM [0..<204] (\<lambda>line. vgaLine (line * (2 * 80)))"

text \<open>The connection to the kernel module: whether it is closed in the end.\<close>

definition tearDownVM :: "'o halenv \<Rightarrow> ('o, bool) usr" where
  "tearDownVM he =
     bnd (gets us_fd) (\<lambda>fd.
     if fd < 0 then ret True
     else
       bnd (osCall (\<lambda>s. os_ioctl he s fd PLEX86_UNREGISTER_MEMORY)) (\<lambda>r.
       if r = - 1 then ret False
       else
         thn (modify (\<lambda>u. u\<lparr>us_state := us_state u AND NOT Plex86StateMemRegistered\<rparr>))
         (bnd (osCall (\<lambda>s. os_ioctl he s fd PLEX86_TEARDOWN)) (\<lambda>r.
          if r < 0 then ret False
          else
            bnd (osCall (\<lambda>s. os_close he s fd)) (\<lambda>r.
            if r = - 1 then ret False
            else
              thn (modify (\<lambda>u. u\<lparr>us_fd := - 1\<rparr>))
              (bnd (gets us_vgaDump) (\<lambda>dump. thn (whenM dump doVGADump) (ret True))))))))"

definition plex86TearDown :: "'o halenv \<Rightarrow> ('o, Bit32u) usr" where
  "plex86TearDown he =
     bnd (tearDownVM he) (\<lambda>closed.
     if \<not> closed then ret 0
     else
       thn (modify (\<lambda>u. if us_state u AND Plex86StateMemAllocated \<noteq> 0
              then u\<lparr>us_memLive := False, us_state := us_state u AND NOT Plex86StateMemAllocated\<rparr> else u))
       (thn (modify (\<lambda>u. if us_state u \<noteq> 0 then u\<lparr>us_state := 0\<rparr> else u))
       (ret 1)))"

text \<open>The label \<^verbatim>\<open>error\<close> of the console and the network: the process ends.\<close>

definition halExit :: "'o halenv \<Rightarrow> ('o, 'a) usr" where
  "halExit he = thn (setEAX 0) (thn (plex86TearDown he) (halt ''exit(1)''))"

end
