(* ===== verification/Hal_Console.thy ===== *)
theory Hal_Console
  imports Hal_State
begin

text \<open>
  The console of the guest, \<^verbatim>\<open>host-user/halconsole.c\<close>: characters are collected in a line buffer and printed
  line by line. The buffer is an array with an index; the last section shows that it works as a list.
\<close>

section \<open>The line buffer\<close>

definition LineLen :: nat where "LineLen = 81"

abbreviation newline :: Bit8u where "newline \<equiv> 0x0a"

text \<open>\<^verbatim>\<open>halConLine[halConLineI++] = c\<close> and \<^verbatim>\<open>halConLine[halConLineI] = c\<close>; the array has \<^verbatim>\<open>LineLen + 2\<close> elements.\<close>

definition conSet :: "Bit8u \<Rightarrow> ('o, unit) usr" where
  "conSet c = bnd (gets us_conLineI) (\<lambda>i.
     thn (inBounds ''halConLine'' (unat i < LineLen + 2))
     (modify (\<lambda>u. u\<lparr>us_conLine := (us_conLine u)(unat i := c)\<rparr>)))"

definition conStore :: "Bit8u \<Rightarrow> ('o, unit) usr" where
  "conStore c = thn (conSet c) (modify (\<lambda>u. u\<lparr>us_conLineI := us_conLineI u + 1\<rparr>))"

text \<open>\<^verbatim>\<open>fputs("> ", stderr); fputs(halConLine, stderr); halConLineI = 0;\<close> The string ends at the first zero byte,
  which must be in the array.\<close>

definition conPrompt :: "Bit8u list" where
  "conPrompt = [0x3e, 0x20]"

definition conPrint :: "('o, unit) usr" where
  "conPrint = bnd (gets (\<lambda>u. map (us_conLine u) [0..<LineLen + 2])) (\<lambda>line.
     thn (inBounds ''halConLine'' (0 \<in> set line))
     (modify (\<lambda>u. u\<lparr>us_stderr := us_stderr u @ [conPrompt, takeWhile (\<lambda>c. c \<noteq> 0) line], us_conLineI := 0\<rparr>)))"

text \<open>The two halves of a turn of the loop: a full line is printed, then the next character is taken.\<close>

definition conFlush :: "('o, unit) usr" where
  "conFlush = bnd (gets us_conLineI) (\<lambda>i.
     whenM (unat i \<ge> LineLen) (thn (conStore newline) (thn (conSet 0) conPrint)))"

definition conPut :: "Bit8u \<Rightarrow> ('o, unit) usr" where
  "conPut c =
     (if c = newline then thn (conStore c) (thn (conStore 0) conPrint)
      else if isgraph c then conStore c
      else conStore 0x20)"

definition conFetch :: "nat \<Rightarrow> ('o, Bit8u) usr" where
  "conFetch i = bnd (gets (\<lambda>u. cd_guestRwArea (us_conDev u 0))) (\<lambda>area.
     case area of
       None \<Rightarrow> undef ''guestRwArea''
     | Some a \<Rightarrow>
         thn (inBounds ''txBuffer'' (i < MaxConsoleFrameSize))
         (bnd (memRead (a + con_txBuffer + i) 1) (\<lambda>bs. ret (hd bs))))"

definition conTurn :: "nat \<Rightarrow> ('o, unit) usr" where
  "conTurn i = thn conFlush (bnd (conFetch i) conPut)"

section \<open>The calls\<close>

definition halConInit :: "('o, Bit32u) usr" where
  "halConInit = ret 1"

definition halConRegDev :: "'o halenv \<Rightarrow> ('o, unit) usr" where
  "halConRegDev he =
     bnd (usReg GenRegEBX) (\<lambda>deviceNo.
     bnd (usReg GenRegECX) (\<lambda>rwAreaPAddr.
     bnd (usReg GenRegEDX) (\<lambda>rwAreaLen.
     if unat deviceNo \<ge> HalConMaxDevices then halExit he
     else
       bnd (gets (\<lambda>u. (cd_registered (us_conDev u (unat deviceNo)), us_memSize u))) (\<lambda>(registered, memSize).
       if registered \<noteq> 0 then halExit he
       else if unat rwAreaLen < halConGuestRwArea_size then halExit he
       else if rwAreaPAddr \<ge> memSize - of_nat halConGuestRwArea_size then halExit he
       else
         thn (modify (\<lambda>u. u\<lparr>us_conDev := (us_conDev u)(unat deviceNo := \<lparr>cd_registered = 1,
                cd_guestRwAreaPAddr = rwAreaPAddr, cd_guestRwAreaLen = rwAreaLen,
                cd_guestRwArea = Some (unat rwAreaPAddr)\<rparr>)\<rparr>))
         (setEAX 1)))))"

definition halConWrite :: "'o halenv \<Rightarrow> ('o, unit) usr" where
  "halConWrite he =
     bnd (usReg GenRegEBX) (\<lambda>deviceNo.
     bnd (usReg GenRegEDX) (\<lambda>writeLen.
     if unat deviceNo \<ge> HalConMaxDevices then halExit he
     else if unat writeLen > MaxConsoleFrameSize then halExit he
     else thn (forM [0..<unat writeLen] conTurn) (setEAX 1)))"

definition halConCall :: "'o halenv \<Rightarrow> Bit32u \<Rightarrow> ('o, unit) usr" where
  "halConCall he callNo =
     (if callNo = HalCallConGuestRegDev then halConRegDev he
      else if callNo = HalCallConGuestWrite then halConWrite he
      else halExit he)"

section \<open>The line buffer is a list\<close>

text \<open>What has been printed, and the line in the making.\<close>

type_synonym conState = "Bit8u list list \<times> Bit8u list"

definition conView :: "'o user_t \<Rightarrow> conState" where
  "conView u = (us_stderr u, map (us_conLine u) [0..<unat (us_conLineI u)])"

definition conOK :: "'o user_t \<Rightarrow> bool" where
  "conOK u \<longleftrightarrow> unat (us_conLineI u) \<le> LineLen \<and> (\<forall>j < unat (us_conLineI u). us_conLine u j \<noteq> 0)"

definition conShown :: "Bit8u \<Rightarrow> Bit8u" where
  "conShown c = (if c = newline \<or> isgraph c then c else 0x20)"

definition conBreak :: "conState \<Rightarrow> conState" where
  "conBreak = (\<lambda>(out, cur). (out @ [conPrompt, cur @ [newline]], []))"

definition conAdd :: "conState \<Rightarrow> Bit8u \<Rightarrow> conState" where
  "conAdd s c =
     (let s' = (if length (snd s) \<ge> LineLen then conBreak s else s) in
      if c = newline then conBreak s' else (fst s', snd s' @ [conShown c]))"

lemma conShown_nonzero: "conShown c \<noteq> 0"
  by (auto simp: conShown_def isgraph_def)

text \<open>What the console leaves alone.\<close>

definition conRest where
  "conRest u = (us_mem u, us_memLive u, us_memSize u, us_cpu u, us_state u, us_fd u, us_conDev u, us_disk u, us_netDev u,
     us_fdTunTap u, us_netConsumer u, us_netProducer u, us_os u)"

lemma unat_inc: "unat (i :: Bit32u) \<le> LineLen + 1 \<Longrightarrow> unat (i + 1) = unat i + 1"
  by (simp add: LineLen_def unat_word_ariths)

lemma conBreak_twp:
  assumes "conOK u"
  shows "twp (thn (conStore newline) (thn (if full then conSet 0 else conStore 0) conPrint))
    (\<lambda>_ u'. conOK u' \<and> conView u' = conBreak (conView u) \<and> conRest u' = conRest u) u"
proof -
  let ?i = "unat (us_conLineI u)"
  define line where "line = map ((us_conLine u)(?i := newline, Suc ?i := 0)) [0..<LineLen + 2]"
  have i: "?i \<le> 81" "\<forall>j < ?i. us_conLine u j \<noteq> 0"
    using assms by (auto simp: conOK_def LineLen_def)
  have "[0..<LineLen + 2] = [0..<?i] @ [?i..<LineLen + 2]"
    using i(1) upt_add_eq_append [of 0 ?i "83 - ?i"] by (simp add: LineLen_def)
  then have "[0..<LineLen + 2] = [0..<?i] @ ?i # Suc ?i # [Suc (Suc ?i)..<LineLen + 2]"
    using i(1) by (simp add: LineLen_def upt_conv_Cons)
  then have line': "line = map (us_conLine u) [0..<?i] @ newline # 0 # map (us_conLine u) [Suc (Suc ?i)..<LineLen + 2]"
    by (simp add: line_def)
  have zero: "0 \<in> set line" and take: "takeWhile (\<lambda>c. c \<noteq> 0) line = map (us_conLine u) [0..<?i] @ [newline]"
    using i(2) by (auto simp: line' takeWhile_append)
  have j: "unat (us_conLineI u + 1) = Suc ?i"
    using i(1) unat_inc [of "us_conLineI u"] by (simp add: LineLen_def)
  show ?thesis
    using i(1) zero take
    by (auto simp: conStore_def conSet_def conPrint_def j LineLen_def line_def conOK_def conView_def conBreak_def conRest_def)
qed

lemma conStore_twp:
  assumes "conOK u" "unat (us_conLineI u) < LineLen" "c \<noteq> 0"
  shows "twp (conStore c) (\<lambda>_ u'. conOK u' \<and> conView u' = (us_stderr u, snd (conView u) @ [c]) \<and> conRest u' = conRest u) u"
  using assms unat_inc [of "us_conLineI u"]
  by (auto simp: conStore_def conSet_def conOK_def conView_def conRest_def LineLen_def less_Suc_eq)

lemma length_conView: "length (snd (conView u)) = unat (us_conLineI u)" "fst (conView u) = us_stderr u"
  by (simp_all add: conView_def)

lemma conFlush_twp:
  assumes "conOK u"
  shows "twp conFlush (\<lambda>_ u'. conOK u' \<and> unat (us_conLineI u') < LineLen \<and>
     conView u' = (if length (snd (conView u)) \<ge> LineLen then conBreak (conView u) else conView u) \<and> conRest u' = conRest u) u"
proof (cases "unat (us_conLineI u) \<ge> LineLen")
  case True
  have "unat (us_conLineI u') < LineLen" if "conView u' = conBreak (conView u)" for u' :: "'a user_t"
    using that by (simp add: conBreak_def split_beta LineLen_def conView_def)
  then show ?thesis
    using True conBreak_twp [OF assms, of True] by (auto simp: conFlush_def length_conView elim!: twp_mono)
qed (use assms in \<open>simp add: conFlush_def length_conView\<close>)

lemma conPut_twp:
  assumes "conOK u" "unat (us_conLineI u) < LineLen"
  shows "twp (conPut c) (\<lambda>_ u'. conOK u' \<and> conView u' =
     (if c = newline then conBreak (conView u) else (us_stderr u, snd (conView u) @ [conShown c])) \<and> conRest u' = conRest u) u"
  using conBreak_twp [OF assms(1), of False] conStore_twp [OF assms conShown_nonzero, of c]
  by (auto simp: conPut_def conShown_def)

lemma conTurn_twp:
  assumes "conOK u" "cd_guestRwArea (us_conDev u 0) = Some a" "memFits u a halConGuestRwArea_size" "i < MaxConsoleFrameSize"
  shows "twp (conTurn i) (\<lambda>_ u'. conOK u' \<and> conView u' = conAdd (conView u) (us_mem u (a + con_txBuffer + i)) \<and>
     conRest u' = conRest u) u"
proof -
  have fetch: "twp (conFetch i) (\<lambda>c u''. u'' = u' \<and> c = us_mem u (a + con_txBuffer + i)) u'" if "conRest u' = conRest u" for u'
    using that assms(2-4) by (simp add: conFetch_def peekBytes_def conRest_def memFits_def)
  show ?thesis
    unfolding conTurn_def twp_thn twp_bnd
    by (rule twp_mono [OF conFlush_twp [OF assms(1)]], rule twp_mono [OF fetch], blast, rule twp_mono [OF conPut_twp])
      (auto simp: conAdd_def Let_def length_conView(2) [symmetric] split_beta)
qed

text \<open>A write is the addition of its characters, whatever earlier writes left in the buffer.\<close>

lemma halConWrite_twp:
  assumes "conOK u" "cd_guestRwArea (us_conDev u 0) = Some a" "memFits u a halConGuestRwArea_size"
    and "cpu_genReg (us_cpu u) GenRegEBX = 0" "unat (cpu_genReg (us_cpu u) GenRegEDX) \<le> MaxConsoleFrameSize"
  shows "twp (halConWrite he) (\<lambda>_ u'. conOK u' \<and> us_mem u' = us_mem u \<and> cpu_genReg (us_cpu u') GenRegEAX = 1 \<and>
     conRest u' = conRest (u\<lparr>us_cpu := (us_cpu u)\<lparr>cpu_genReg := (cpu_genReg (us_cpu u))(GenRegEAX := 1)\<rparr>\<rparr>) \<and>
     conView u' = foldl conAdd (conView u)
       (map (\<lambda>i. us_mem u (a + con_txBuffer + i)) [0..<unat (cpu_genReg (us_cpu u) GenRegEDX)])) u"
proof -
  let ?n = "unat (cpu_genReg (us_cpu u) GenRegEDX)"
  let ?I = "\<lambda>k u'. conOK u' \<and> conRest u' = conRest u \<and>
     conView u' = foldl conAdd (conView u) (map (\<lambda>i. us_mem u (a + con_txBuffer + i)) [0..<k])"
  have "twp (forM [0..<?n] conTurn) (\<lambda>_. ?I ?n) u"
  proof (rule twp_forM_upt)
    fix i u' assume "i < ?n" and I: "?I i u'"
    then show "twp (conTurn i) (\<lambda>_. ?I (Suc i)) u'"
      using assms by (intro twp_mono [OF conTurn_twp [of u' a]]) (auto simp: conRest_def memFits_def)
  qed (use assms in simp)
  then show ?thesis
    using assms by (auto simp: halConWrite_def usReg_def setEAX_def conOK_def conView_def conRest_def elim!: twp_mono)
qed

section \<open>What is printed\<close>

text \<open>The characters on the paper and in the line, without the prompts.\<close>

definition conText :: "conState \<Rightarrow> Bit8u list" where
  "conText s = concat (removeAll conPrompt (fst s)) @ snd s"

text \<open>No line has more than 80 characters, the first one counted from \<open>k\<close>.\<close>

fun shortLines :: "nat \<Rightarrow> Bit8u list \<Rightarrow> bool" where
  "shortLines k [] = True"
| "shortLines k (c # cs) = (if c = newline then shortLines 0 cs else Suc k < LineLen \<and> shortLines (Suc k) cs)"

lemma conText_break: "conText (conBreak s) = conText s @ [newline]"
proof -
  have "conPrompt \<noteq> cur @ [newline]" for cur
    by (auto simp: conPrompt_def Cons_eq_append_conv)
  then show ?thesis by (simp add: conText_def conBreak_def split_beta)
qed

lemma conText_put: "conText (out, cur @ [c]) = conText (out, cur) @ [c]"
  by (simp add: conText_def)

lemma conAdd_text:
  "filter (\<lambda>c. c \<noteq> newline) (conText (conAdd s c)) = filter (\<lambda>c. c \<noteq> newline) (conText s @ [conShown c])"
proof -
  let ?s = "if length (snd s) \<ge> LineLen then conBreak s else s"
  have "filter (\<lambda>c. c \<noteq> newline) (conText ?s) = filter (\<lambda>c. c \<noteq> newline) (conText s)"
    by (simp add: conText_break)
  moreover have "conText (conAdd s c) = conText ?s @ [conShown c]"
    by (simp add: conAdd_def Let_def conText_break conText_put conShown_def)
  ultimately show ?thesis by simp
qed

lemma console_chars: "filter (\<lambda>c. c \<noteq> newline) (conText (foldl conAdd s bs)) =
  filter (\<lambda>c. c \<noteq> newline) (conText s @ map conShown bs)"
  by (induction bs arbitrary: s) (auto simp: conAdd_text)

text \<open>Lines of at most 80 characters come out as they are: this is what the extra place in the buffer is for.\<close>

lemma console_lines:
  assumes "shortLines (length (snd s)) bs" "length (snd s) < LineLen"
  shows "conText (foldl conAdd s bs) = conText s @ map conShown bs"
  using assms
proof (induction bs arbitrary: s)
  case (Cons c bs)
  have "conText (conAdd s c) = conText s @ [conShown c]"
    using Cons.prems by (auto simp: conAdd_def Let_def conText_break conText_put conShown_def)
  moreover have "shortLines (length (snd (conAdd s c))) bs" "length (snd (conAdd s c)) < LineLen"
    using Cons.prems by (auto simp: conAdd_def Let_def conBreak_def split_beta LineLen_def split: if_splits)
  ultimately show ?case using Cons.IH by simp
qed simp

end
