(* ===== verification/Hal_Disk.thy ===== *)
theory Hal_Disk
  imports Hal_State
begin

text \<open>
  The disks of the guest, \<^verbatim>\<open>host-user/haldisk.c\<close>: their parameters from the command line and the calls of the
  guest that read and write sectors of the image files. The last sections show that an image file is an array
  of sectors, as long as the number of a sector has at most 22 bits.
\<close>

section \<open>Parameters\<close>

definition bytesOf :: "string \<Rightarrow> Bit8u list" where
  "bytesOf s = map of_char s"

text \<open>\<^verbatim>\<open>sscanf\<close> with the conversion \<^verbatim>\<open>%u\<close>: white space, a sign, digits; a number that is too large becomes the
  largest one.\<close>

definition isspaceB :: "Bit8u \<Rightarrow> bool" where
  "isspaceB c \<longleftrightarrow> c = 0x20 \<or> (0x09 \<le> c \<and> c \<le> 0x0d)"

definition isdigitB :: "Bit8u \<Rightarrow> bool" where
  "isdigitB c \<longleftrightarrow> 0x30 \<le> c \<and> c \<le> 0x39"

definition digitsVal :: "Bit8u list \<Rightarrow> nat" where
  "digitsVal ds = foldl (\<lambda>v d. 10 * v + unat (d - 0x30)) 0 ds"

definition scanU :: "Bit8u list \<Rightarrow> (Bit32u \<times> Bit8u list) option" where
  "scanU xs =
     (let ys = dropWhile isspaceB xs;
          signed = (ys \<noteq> [] \<and> (hd ys = 0x2b \<or> hd ys = 0x2d));
          neg = (ys \<noteq> [] \<and> hd ys = 0x2d);
          zs = (if signed then tl ys else ys);
          v = digitsVal (takeWhile isdigitB zs)
      in if takeWhile isdigitB zs = [] then None
         else Some (if v \<ge> 2 ^ 32 then - 1 else if neg then - of_nat v else of_nat v, dropWhile isdigitB zs))"

definition scanLit :: "string \<Rightarrow> Bit8u list \<Rightarrow> Bit8u list option" where
  "scanLit s xs = (if take (length s) xs = bytesOf s then Some (drop (length s) xs) else None)"

text \<open>The values that are stored before the input stops matching.\<close>

fun scanFields :: "string list \<Rightarrow> Bit8u list \<Rightarrow> Bit32u list" where
  "scanFields [] xs = []"
| "scanFields (l # ls) xs =
     (case scanLit l xs of
        None \<Rightarrow> []
      | Some ys \<Rightarrow> (case scanU ys of None \<Rightarrow> [] | Some (v, zs) \<Rightarrow> v # scanFields ls zs))"

definition storeField :: "halDisk_t \<Rightarrow> nat \<Rightarrow> Bit32u \<Rightarrow> halDisk_t" where
  "storeField d i v =
     (if i = 0 then d\<lparr>dk_numSectors := v\<rparr> else if i = 1 then d\<lparr>dk_cylinders := v\<rparr>
      else if i = 2 then d\<lparr>dk_heads := v\<rparr> else d\<lparr>dk_spt := v\<rparr>)"

definition updDisk :: "nat \<Rightarrow> (halDisk_t \<Rightarrow> halDisk_t) \<Rightarrow> ('o, unit) usr" where
  "updDisk unit f = modify (\<lambda>u. u\<lparr>us_disk := (us_disk u)(unit := f (us_disk u unit))\<rparr>)"

text \<open>The file name and what follows it, if the name is there and fits.\<close>

definition diskFileName :: "Bit8u list \<Rightarrow> (Bit8u list \<times> Bit8u list) option" where
  "diskFileName params =
     (case scanLit ''file='' params of
        None \<Rightarrow> None
      | Some xs \<Rightarrow>
          (let name = takeWhile (\<lambda>c. c \<noteq> 0x2c) xs; rest = dropWhile (\<lambda>c. c \<noteq> 0x2c) xs in
           if name = [] \<or> length name \<ge> NAME_MAX then None else Some (name, drop 1 rest)))"

definition diskGeometryOK :: "halDisk_t \<Rightarrow> bool" where
  "diskGeometryOK d \<longleftrightarrow>
     \<not> (dk_numSectors d = 0 \<or> dk_cylinders d = 0 \<or> dk_heads d = 0 \<or> dk_spt d = 0) \<and>
     \<not> dk_numSectors d \<noteq> dk_cylinders d * dk_heads d * dk_spt d"

definition diskUnitInit :: "nat \<Rightarrow> Bit8u list \<Rightarrow> ('o, bool) usr" where
  "diskUnitInit unit params =
     (if params = [] then ret True
      else
        case diskFileName params of
          None \<Rightarrow> ret False
        | Some (name, rest) \<Rightarrow>
            (let vs = scanFields [''sectors='', '',chs='', ''/'', ''/''] rest in
             thn (updDisk unit (\<lambda>d. d\<lparr>dk_pathName := name\<rparr>))
             (thn (forM [0..<length vs] (\<lambda>i. updDisk unit (\<lambda>d. storeField d i (vs ! i))))
             (bnd (gets (\<lambda>u. us_disk u unit)) (\<lambda>d.
              if length vs \<noteq> 4 then ret False
              else if \<not> diskGeometryOK d then ret False
              else thn (updDisk unit (\<lambda>d. d\<lparr>dk_enabled := 1\<rparr>)) (ret True))))))"

fun diskUnitsInit :: "(nat \<Rightarrow> Bit8u list) \<Rightarrow> nat list \<Rightarrow> ('o, bool) usr" where
  "diskUnitsInit params [] = ret True"
| "diskUnitsInit params (unit # us) =
     bnd (diskUnitInit unit (params unit)) (\<lambda>ok. if ok then diskUnitsInit params us else ret False)"

definition halDiskInit :: "'o halenv \<Rightarrow> (nat \<Rightarrow> Bit8u list) \<Rightarrow> ('o, Bit32u) usr" where
  "halDiskInit he params =
     bnd (diskUnitsInit params [0..<HalDiskMaxDisks]) (\<lambda>ok.
     if ok then ret 1 else thn (plex86TearDown he) (ret 0))"

section \<open>The calls of the guest\<close>

text \<open>The label \<^verbatim>\<open>error\<close>: unlike that of the console and the network it does not end the process.\<close>

definition diskError :: "'o halenv \<Rightarrow> ('o, unit) usr" where
  "diskError he = thn (setEAX 0) (thn (plex86TearDown he) (ret ()))"

definition diskInfoUnit :: "'o halenv \<Rightarrow> nat \<Rightarrow> nat \<Rightarrow> ('o, bool) usr" where
  "diskInfoUnit he info unit =
     bnd (gets (\<lambda>u. us_disk u unit)) (\<lambda>d.
     (let a = info + unit * halDiskInfo_size in
      if dk_enabled d \<noteq> 0 then
        thn (memWrite32 a (dk_enabled d))
        (thn (memWrite32 (a + 4) (dk_cylinders d))
        (thn (memWrite32 (a + 8) (dk_heads d))
        (thn (memWrite32 (a + 12) (dk_spt d))
        (thn (memWrite32 (a + 16) (dk_numSectors d))
        (bnd (osCall (\<lambda>s. os_open he s (dk_pathName d))) (\<lambda>fd.
         thn (updDisk unit (\<lambda>d. d\<lparr>dk_fileNo := fd\<rparr>))
         (ret (0 \<le> fd))))))))
      else
        thn (memWrite a (replicate halDiskInfo_size 0))
        (thn (updDisk unit (\<lambda>d. d\<lparr>dk_fileNo := - 1\<rparr>)) (ret True))))"

fun diskInfoUnits :: "'o halenv \<Rightarrow> nat \<Rightarrow> nat list \<Rightarrow> ('o, bool) usr" where
  "diskInfoUnits he info [] = ret True"
| "diskInfoUnits he info (unit # us) =
     bnd (diskInfoUnit he info unit) (\<lambda>ok. if ok then diskInfoUnits he info us else ret False)"

definition halDiskGetInfo :: "'o halenv \<Rightarrow> ('o, unit) usr" where
  "halDiskGetInfo he =
     bnd (usReg GenRegEBX) (\<lambda>infoPAddr.
     bnd (gets us_memSize) (\<lambda>memSize.
     if infoPAddr \<ge> memSize - of_nat halDiskInfo_size then diskError he
     else
       bnd (diskInfoUnits he (unat infoPAddr) [0..<HalDiskMaxDisks]) (\<lambda>ok.
       if ok then ret () else diskError he)))"

text \<open>The checks that reading and writing share, and the seek: the offset is computed in 32 bits and then
  passed as the signed \<^verbatim>\<open>off_t\<close>.\<close>

definition diskSeek :: "'o halenv \<Rightarrow> (nat \<Rightarrow> int \<Rightarrow> ('o, bool) usr) \<Rightarrow> ('o, unit) usr" where
  "diskSeek he transfer =
     bnd (usReg GenRegEBX) (\<lambda>bufferPAddr.
     bnd (usReg GenRegECX) (\<lambda>sector.
     bnd (usReg GenRegEDX) (\<lambda>unit.
     bnd (gets us_memSize) (\<lambda>memSize.
     if bufferPAddr \<ge> memSize - 512 then diskError he
     else if unat unit \<ge> HalDiskMaxDisks then diskError he
     else
       bnd (gets (\<lambda>u. dk_fileNo (us_disk u (unat unit)))) (\<lambda>fd.
       bnd (osCall (\<lambda>s. os_lseek he s fd (sint (push_bit 9 sector)))) (\<lambda>r.
       if r < 0 then diskError he
       else
         bnd (transfer (unat bufferPAddr) fd) (\<lambda>ok.
         if ok then setEAX 1 else diskError he)))))))"

definition halDiskWrite :: "'o halenv \<Rightarrow> ('o, unit) usr" where
  "halDiskWrite he = diskSeek he (\<lambda>a fd.
     bnd (memRead a 512) (\<lambda>bs.
     bnd (osCall (\<lambda>s. os_write he s fd bs)) (\<lambda>r. ret (r = 512))))"

definition halDiskRead :: "'o halenv \<Rightarrow> ('o, unit) usr" where
  "halDiskRead he = diskSeek he (\<lambda>a fd.
     bnd (osCall (\<lambda>s. os_read he s fd 512)) (\<lambda>(r, err, bs).
     thn (memWrite a bs) (ret (r = 512))))"

definition halDiskCleanup :: "'o halenv \<Rightarrow> ('o, unit) usr" where
  "halDiskCleanup he =
     thn (forM [0..<HalDiskMaxDisks] (\<lambda>unit.
       bnd (gets (\<lambda>u. dk_fileNo (us_disk u unit))) (\<lambda>fd.
       whenM (fd \<ge> 0) (bnd (osCall (\<lambda>s. os_close he s fd)) (\<lambda>_. ret ())))))
     (setEAX 1)"

definition halDiskCall :: "'o halenv \<Rightarrow> Bit32u \<Rightarrow> ('o, unit) usr" where
  "halDiskCall he callNo =
     (if callNo = HalCallDiskGetInfo then halDiskGetInfo he
      else if callNo = HalCallDiskWrite then halDiskWrite he
      else if callNo = HalCallDiskRead then halDiskRead he
      else if callNo = HalCallDiskCleanup then halDiskCleanup he
      else diskError he)"

section \<open>Files\<close>

text \<open>
  What a write at an offset makes of a file: a gap is filled with zeros. An open regular file on a device that
  has room behaves as POSIX has it: \<open>pos\<close> and \<open>data\<close> are the offset of the descriptor and the contents.
\<close>

definition fileWrite :: "Bit8u list \<Rightarrow> nat \<Rightarrow> Bit8u list \<Rightarrow> Bit8u list" where
  "fileWrite xs p bs = take p (xs @ replicate (p - length xs) 0) @ bs @ drop (p + length bs) xs"

definition regularFile :: "'o halenv \<Rightarrow> int \<Rightarrow> ('o \<Rightarrow> nat) \<Rightarrow> ('o \<Rightarrow> Bit8u list) \<Rightarrow> bool" where
  "regularFile he fd pos data \<longleftrightarrow>
     (\<forall>s off. 0 \<le> off \<longrightarrow> (\<exists>s'. os_lseek he s fd off = (off, s') \<and> pos s' = nat off \<and> data s' = data s)) \<and>
     (\<forall>s bs. \<exists>s'. os_write he s fd bs = (int (length bs), s') \<and> data s' = fileWrite (data s) (pos s) bs) \<and>
     (\<forall>s n. \<exists>s' e. os_read he s fd n = ((int (length (take n (drop (pos s) (data s)))), e, take n (drop (pos s) (data s))), s') \<and>
        data s' = data s)"

lemma regular_lseek:
  assumes "regularFile he fd pos data" "0 \<le> off"
  obtains s' where "os_lseek he s fd off = (off, s')" "pos s' = nat off" "data s' = data s"
  using assms unfolding regularFile_def by blast

lemma regular_write:
  assumes "regularFile he fd pos data"
  obtains s' where "os_write he s fd bs = (int (length bs), s')" "data s' = fileWrite (data s) (pos s) bs"
  using assms unfolding regularFile_def by blast

lemma regular_read:
  assumes "regularFile he fd pos data"
  obtains s' e where "os_read he s fd n = ((int (length (take n (drop (pos s) (data s)))), e, take n (drop (pos s) (data s))), s')"
    "data s' = data s"
  using assms unfolding regularFile_def by blast

text \<open>A sector of a file; what lies behind its end reads as zero.\<close>

definition diskSector :: "Bit8u list \<Rightarrow> nat \<Rightarrow> Bit8u list" where
  "diskSector xs k = map (\<lambda>i. if i < length xs then xs ! i else 0) [512 * k..<512 * k + 512]"

lemma nth_fileWrite:
  "i < length (fileWrite xs p bs) \<Longrightarrow> fileWrite xs p bs ! i =
     (if p \<le> i \<and> i < p + length bs then bs ! (i - p) else if i < length xs then xs ! i else 0)"
  by (auto simp: fileWrite_def nth_append not_less min_def split: if_splits)

lemma length_fileWrite: "length (fileWrite xs p bs) = max (length xs) (p + length bs)"
  by (auto simp: fileWrite_def)

lemma diskSector_write:
  assumes "length bs = 512"
  shows "diskSector (fileWrite xs (512 * k) bs) k' = (if k' = k then bs else diskSector xs k')"
proof (cases "k' = k")
  case True
  then show ?thesis using assms
    by (auto simp: diskSector_def length_fileWrite nth_fileWrite intro!: nth_equalityI)
next
  case False
  have "fileWrite xs (512 * k) bs ! i = (if i < length xs then xs ! i else 0)"
    if "512 * k' \<le> i" "i < 512 * k' + 512" "i < max (length xs) (512 * k + 512)" for i
  proof -
    have "\<not> (512 * k \<le> i \<and> i < 512 * k + 512)"
      using that False by linarith
    then show ?thesis using that nth_fileWrite [of i xs "512 * k" bs] assms by (simp only: length_fileWrite) simp
  qed
  then show ?thesis using False assms
    by (auto simp: diskSector_def length_fileWrite)
qed

lemma diskSector_read:
  assumes "512 * k + 512 \<le> length xs"
  shows "take 512 (drop (512 * k) xs) = diskSector xs k"
  using assms by (auto simp: diskSector_def intro!: nth_equalityI)

lemma sector_offset:
  assumes "sector < 0x400000"
  shows "sint (push_bit 9 (sector :: Bit32u)) = 512 * int (unat sector)" "0 \<le> sint (push_bit 9 sector)"
proof -
  have lt: "unat sector < 2 ^ 22" using assms by (simp add: word_less_nat_alt)
  then have u: "unat (push_bit 9 sector) = 512 * unat sector"
    by (simp add: push_bit_eq_mult unat_word_ariths)
  have x: "uint (push_bit 9 sector) = 512 * int (unat sector)"
    using arg_cong [OF u, of int] unfolding uint_nat by simp
  show off: "sint (push_bit 9 sector) = 512 * int (unat sector)"
  proof -
    obtain k where k: "unat sector = k" "k < 2 ^ 22" using lt by blast
    show ?thesis unfolding sint_uint x k(1) using k(2) by (intro signed_take_bit_int_eq_self) simp_all
  qed
  show "0 \<le> sint (push_bit 9 sector)" by (simp only: off)
qed

section \<open>Reading and writing sectors\<close>

text \<open>A transfer of sector \<open>ECX\<close> of unit \<open>EDX\<close> at the guest address \<open>EBX\<close> that the checks let through.\<close>

definition diskRequest :: "'o user_t \<Rightarrow> nat \<Rightarrow> nat \<Rightarrow> nat \<Rightarrow> bool" where
  "diskRequest u a sector unit \<longleftrightarrow> us_memLive u \<and> a + 512 < unat (us_memSize u) \<and> unit < HalDiskMaxDisks \<and>
     cpu_genReg (us_cpu u) GenRegEBX = of_nat a \<and> cpu_genReg (us_cpu u) GenRegECX = of_nat sector \<and>
     cpu_genReg (us_cpu u) GenRegEDX = of_nat unit"

definition diskDone :: "'o user_t \<Rightarrow> 'o user_t" where
  "diskDone u = u\<lparr>us_cpu := (us_cpu u)\<lparr>cpu_genReg := (cpu_genReg (us_cpu u))(GenRegEAX := 1)\<rparr>\<rparr>"

lemma diskRequest_checks:
  assumes "diskRequest u a sector unit"
  shows "\<not> cpu_genReg (us_cpu u) GenRegEBX \<ge> us_memSize u - 512" "unat (cpu_genReg (us_cpu u) GenRegEBX) = a"
    "unat (cpu_genReg (us_cpu u) GenRegEDX) = unit"
proof -
  have a: "a + 512 < unat (us_memSize u)" "unat (us_memSize u) < 2 ^ 32"
    using assms unsigned_less [of "us_memSize u", where 'a = nat] by (auto simp: diskRequest_def)
  then show "unat (cpu_genReg (us_cpu u) GenRegEBX) = a"
    using assms by (simp add: diskRequest_def unat_of_nat)
  then show "\<not> cpu_genReg (us_cpu u) GenRegEBX \<ge> us_memSize u - 512"
    using a by (simp add: word_le_nat_alt unat_sub)
  show "unat (cpu_genReg (us_cpu u) GenRegEDX) = unit"
    using assms by (auto simp: diskRequest_def unat_of_nat)
qed

lemma diskSeek_twp:
  assumes "diskRequest u a sector unit" "sector < 0x400000" "regularFile he (dk_fileNo (us_disk u unit)) pos data"
    and "\<And>s'. pos s' = 512 * sector \<Longrightarrow> data s' = data (us_os u) \<Longrightarrow>
      twp (transfer a (dk_fileNo (us_disk u unit))) (\<lambda>ok u'. ok \<and> Q (diskDone u')) (u\<lparr>us_os := s'\<rparr>)"
  shows "twp (diskSeek he transfer) (\<lambda>_. Q) u"
proof -
  let ?fd = "dk_fileNo (us_disk u unit)" and ?off = "sint (push_bit 9 (of_nat sector :: Bit32u))"
  have s: "unat (of_nat sector :: Bit32u) = sector" using assms(2) by (simp add: unat_of_nat)
  then have off: "?off = 512 * int sector" "0 \<le> ?off"
    using sector_offset [of "of_nat sector"] assms(2) by (simp_all add: word_less_nat_alt)
  obtain s' where seek: "os_lseek he (us_os u) ?fd ?off = (?off, s')" "pos s' = nat ?off" "data s' = data (us_os u)"
    by (rule regular_lseek [OF assms(3) off(2)])
  have ecx: "cpu_genReg (us_cpu u) GenRegECX = of_nat sector" "unit < HalDiskMaxDisks"
    using assms(1) by (auto simp: diskRequest_def)
  have osc: "osCall (\<lambda>s. os_lseek he s ?fd ?off) u = Ret ?off (u\<lparr>us_os := s'\<rparr>)"
    using seek(1) by (simp add: osCall_def)
  have "twp (bnd (transfer a ?fd) (\<lambda>ok. if ok then setEAX 1 else diskError he)) (\<lambda>_. Q) (u\<lparr>us_os := s'\<rparr>)"
    unfolding twp_bnd using off(1) seek
    by (intro twp_mono [OF assms(4)]) (auto simp: setEAX_def diskDone_def)
  then show ?thesis
    unfolding diskSeek_def usReg_def using diskRequest_checks [OF assms(1)] ecx off(2) osc
    by (simp add: twp_def bnd_def gets_def)
qed

lemma halDiskWrite_twp:
  assumes "diskRequest u a sector unit" "sector < 0x400000" "regularFile he (dk_fileNo (us_disk u unit)) pos data"
  shows "twp (halDiskWrite he) (\<lambda>_ u'. u' = (diskDone u)\<lparr>us_os := us_os u'\<rparr> \<and>
     data (us_os u') = fileWrite (data (us_os u)) (512 * sector) (peekBytes (us_mem u) a 512)) u"
  unfolding halDiskWrite_def
proof (rule diskSeek_twp [OF assms])
  fix s' assume s': "pos s' = 512 * sector" "data s' = data (us_os u)"
  let ?fd = "dk_fileNo (us_disk u unit)" and ?bs = "peekBytes (us_mem u) a 512"
  have "memFits u a 512"
    using assms(1) by (simp add: memFits_def diskRequest_def)
  moreover obtain s'' where "os_write he s' ?fd ?bs = (int (length ?bs), s'')" "data s'' = fileWrite (data s') (pos s') ?bs"
    by (rule regular_write [OF assms(3)])
  ultimately show "twp (bnd (memRead a 512) (\<lambda>bs. bnd (osCall (\<lambda>s. os_write he s ?fd bs)) (\<lambda>r. ret (r = 512))))
      (\<lambda>ok u'. ok \<and> diskDone u' = (diskDone u)\<lparr>us_os := us_os (diskDone u')\<rparr> \<and>
         data (us_os (diskDone u')) = fileWrite (data (us_os u)) (512 * sector) ?bs) (u\<lparr>us_os := s'\<rparr>)"
    using s' by (simp add: diskDone_def)
qed

lemma halDiskRead_twp:
  assumes "diskRequest u a sector unit" "sector < 0x400000" "regularFile he (dk_fileNo (us_disk u unit)) pos data"
    and "512 * sector + 512 \<le> length (data (us_os u))"
  shows "twp (halDiskRead he) (\<lambda>_ u'. u' = (diskDone u)\<lparr>us_os := us_os u', us_mem := us_mem u'\<rparr> \<and>
     data (us_os u') = data (us_os u) \<and>
     us_mem u' = putBytes a (diskSector (data (us_os u)) sector) (us_mem u)) u"
  unfolding halDiskRead_def
proof (rule diskSeek_twp [OF assms(1-3)])
  fix s' assume s': "pos s' = 512 * sector" "data s' = data (us_os u)"
  let ?fd = "dk_fileNo (us_disk u unit)" and ?bs = "diskSector (data (us_os u)) sector"
  have len: "length ?bs = 512" by (simp add: diskSector_def)
  have "take 512 (drop (pos s') (data s')) = ?bs"
    using s' diskSector_read [OF assms(4)] by simp
  then obtain s'' e where "os_read he s' ?fd 512 = ((int 512, e, ?bs), s'')" "data s'' = data s'"
    using regular_read [OF assms(3), of s' 512] len by metis
  moreover have "memFits u a 512"
    using assms(1) by (simp add: memFits_def diskRequest_def)
  ultimately show "twp (bnd (osCall (\<lambda>s. os_read he s ?fd 512)) (\<lambda>(r, err, bs). thn (memWrite a bs) (ret (r = 512))))
      (\<lambda>ok u'. ok \<and> diskDone u' = (diskDone u)\<lparr>us_os := us_os (diskDone u'), us_mem := us_mem (diskDone u')\<rparr> \<and>
         data (us_os (diskDone u')) = data (us_os u) \<and>
         us_mem (diskDone u') = putBytes a ?bs (us_mem u)) (u\<lparr>us_os := s'\<rparr>)"
    using s' len by (simp add: diskDone_def)
qed

end
