(* ===== verification/Hal_Net.thy ===== *)
theory Hal_Net
  imports Hal_State
begin

text \<open>
  The network devices of the guest, \<^verbatim>\<open>host-user/halnet.c\<close>: frames pass between the guest's memory and a TUN/TAP
  device of the host. The last sections show what a received frame leaves in the guest's memory and that
  the frames for a guest without a driver are drained.
\<close>

section \<open>Setting up\<close>

definition EAGAIN :: int where "EAGAIN = 11"
definition EINTR :: int where "EINTR = 4"
definition HalNet0Irq :: Bit32u where "HalNet0Irq = 3"
definition TUNSETIFF :: Bit32u where "TUNSETIFF = 0x400454ca"

lemmas hal_net_ids [simp] = EAGAIN_def EINTR_def HalNet0Irq_def

text \<open>\<open>os_script\<close>: whether \<^verbatim>\<open>wait\<close> returned the child, whether it exited, and its exit code.\<close>

definition execute_script :: "'o halenv \<Rightarrow> Bit8u list \<Rightarrow> ('o, int) usr" where
  "execute_script he script =
     bnd (osCall (\<lambda>s. os_script he s script)) (\<lambda>(waited, exited, code).
     ret (if \<not> waited then - 1 else if \<not> exited then - 1 else sint code))"

definition initTunTap :: "'o halenv \<Rightarrow> Bit8u list \<Rightarrow> ('o, Bit32u) usr" where
  "initTunTap he script =
     bnd (osCall (\<lambda>s. os_open he s (map of_char ''/dev/net/tun''))) (\<lambda>fd.
     thn (modify (\<lambda>u. u\<lparr>us_fdTunTap := fd\<rparr>))
     (if fd < 0 then ret 0
      else
        bnd (osCall (\<lambda>s. os_ioctl he s fd TUNSETIFF)) (\<lambda>err.
        if err < 0 then bnd (osCall (\<lambda>s. os_close he s fd)) (\<lambda>_. ret 0)
        else
          bnd (if script \<noteq> [] \<and> script \<noteq> map of_char ''none'' then execute_script he script else ret 0) (\<lambda>r.
          if r \<noteq> 0 then bnd (osCall (\<lambda>s. os_close he s fd)) (\<lambda>_. ret 0) else ret 1))))"

definition halNetInit :: "'o halenv \<Rightarrow> Bit8u list \<Rightarrow> ('o, Bit32u) usr" where
  "halNetInit he tunScript =
     thn (modify (\<lambda>u. u\<lparr>us_netDev := (\<lambda>_. zero_halNetDev)\<rparr>)) (initTunTap he tunScript)"

text \<open>The handler of \<^verbatim>\<open>SIGIO\<close>.\<close>

definition tuntapDev0SigIO :: "('o, unit) usr" where
  "tuntapDev0SigIO = modify (\<lambda>u. u\<lparr>us_netProducer := us_netProducer u + 1\<rparr>)"

section \<open>The calls of the guest\<close>

definition halNetRegDev :: "'o halenv \<Rightarrow> ('o, unit) usr" where
  "halNetRegDev he =
     bnd (usReg GenRegEBX) (\<lambda>deviceNo.
     bnd (usReg GenRegECX) (\<lambda>rxAreaPAddr.
     bnd (usReg GenRegEDX) (\<lambda>rxAreaLen.
     if unat deviceNo \<ge> HalNetMaxDevices then halExit he
     else
       bnd (gets (\<lambda>u. (nd_registered (us_netDev u (unat deviceNo)), us_memSize u))) (\<lambda>(registered, memSize).
       if registered \<noteq> 0 then halExit he
       else if unat rxAreaLen < halNetGuestRxArea_size then halExit he
       else if rxAreaPAddr \<ge> memSize - of_nat halNetGuestRxArea_size then halExit he
       else
         thn (modify (\<lambda>u. u\<lparr>us_netDev := (us_netDev u)(unat deviceNo := \<lparr>nd_registered = 1,
                nd_guestRxAreaPAddr = rxAreaPAddr, nd_guestRxAreaLen = rxAreaLen,
                nd_guestRxArea = Some (unat rxAreaPAddr)\<rparr>)\<rparr>))
         (setEAX 1)))))"

definition halNetTx :: "'o halenv \<Rightarrow> ('o, unit) usr" where
  "halNetTx he =
     bnd (usReg GenRegEBX) (\<lambda>deviceNo.
     bnd (usReg GenRegECX) (\<lambda>packetPAddr.
     bnd (usReg GenRegEDX) (\<lambda>packetLen.
     if unat deviceNo \<ge> HalNetMaxDevices then halExit he
     else
       bnd (gets (\<lambda>u. (nd_registered (us_netDev u (unat deviceNo)), us_memSize u, us_fdTunTap u))) (\<lambda>(registered, memSize, fd).
       if registered = 0 then halExit he
       else if unat packetLen > MaxEthernetFrameSize then halExit he
       else if packetPAddr \<ge> memSize - packetLen then halExit he
       else
         bnd (memRead (unat packetPAddr) (unat packetLen)) (\<lambda>bs.
         bnd (osCall (\<lambda>s. os_write he s fd bs)) (\<lambda>r.
         if (word_of_int r :: Bit32u) \<noteq> packetLen then halExit he else setEAX 1))))))"

definition halNetCall :: "'o halenv \<Rightarrow> Bit32u \<Rightarrow> ('o, unit) usr" where
  "halNetCall he callNo =
     (if callNo = HalCallNetGuestRegDev then halNetRegDev he
      else if callNo = HalCallNetGuestTx then halNetTx he
      else halExit he)"

section \<open>Receiving\<close>

definition netConsumed :: "('o, unit) usr" where
  "netConsumed = modify (\<lambda>u. u\<lparr>us_netConsumer := us_netConsumer u + 1\<rparr>)"

text \<open>The loop that drops the frames of a guest without a driver. It ends when the device has no more, which
  need not happen.\<close>

partial_function (option) drainLoop :: "'o halenv \<Rightarrow> int \<Rightarrow> 'o \<Rightarrow> 'o option" where
  "drainLoop he fd s =
     (case os_read he s fd MaxEthernetFrameSize of
        ((r, err, bs), s') \<Rightarrow> if r > 0 then drainLoop he fd s' else Some s')"

definition netDrain :: "'o halenv \<Rightarrow> ('o, unit) usr" where
  "netDrain he u =
     (case drainLoop he (us_fdTunTap u) (us_os u) of None \<Rightarrow> Hang | Some s \<Rightarrow> Ret () (u\<lparr>us_os := s\<rparr>))"

definition rxArea :: "nat \<Rightarrow> ('o, nat) usr" where
  "rxArea deviceNo = bnd (gets (\<lambda>u. nd_guestRxArea (us_netDev u deviceNo))) (\<lambda>area.
     case area of None \<Rightarrow> undef ''guestRxArea'' | Some a \<Rightarrow> ret a)"

definition halNetReadPacketToGuest :: "'o halenv \<Rightarrow> nat \<Rightarrow> ('o, unit) usr" where
  "halNetReadPacketToGuest he deviceNo =
     bnd (gets (\<lambda>u. nd_registered (us_netDev u deviceNo))) (\<lambda>registered.
     if registered \<noteq> 0 then
       bnd (rxArea deviceNo) (\<lambda>a.
       bnd (memRead32 (a + rx_rxBufferFull)) (\<lambda>full.
       if full = 0 then
         bnd (gets us_fdTunTap) (\<lambda>fd.
         bnd (osCall (\<lambda>s. os_read he s fd MaxEthernetFrameSize)) (\<lambda>(packetLen, err, bs).
         thn (memWrite (a + rx_rxBuffer) bs)
         (if packetLen > 0 then
            thn (memWrite32 (a + rx_rxBufferFull) 1)
            (thn (memWrite32 (a + rx_rxBufferLen) (word_of_int (if packetLen < 60 then 60 else packetLen)))
            (modify (\<lambda>u. u\<lparr>us_cpu := (us_cpu u)\<lparr>cpu_halIrq := HalNet0Irq\<rparr>\<rparr>)))
          else if packetLen < 0 \<and> err = EAGAIN then netConsumed
          else if packetLen < 0 \<and> err \<noteq> EAGAIN \<and> err \<noteq> EINTR then ret ()
          else if packetLen = 0 then netConsumed
          else ret ())))
       else ret ()))
     else thn (netDrain he) netConsumed)"

section \<open>A received frame\<close>

text \<open>A call of \<^verbatim>\<open>read\<close> stores at most as many bytes as it was asked for, and as many as it returns.\<close>

definition readFits :: "'o halenv \<Rightarrow> bool" where
  "readFits he \<longleftrightarrow> (\<forall>s fd n r err bs s'. os_read he s fd n = ((r, err, bs), s') \<longrightarrow> length bs = nat r \<and> nat r \<le> n)"

lemma readFitsD: "readFits he \<Longrightarrow> os_read he s fd n = ((r, err, bs), s') \<Longrightarrow> length bs = nat r \<and> nat r \<le> n"
  unfolding readFits_def by blast

text \<open>The receive area of a device: inside the memory, which has not been given back.\<close>

definition netArea :: "'o user_t \<Rightarrow> nat \<Rightarrow> nat \<Rightarrow> bool" where
  "netArea u k a \<longleftrightarrow> nd_registered (us_netDev u k) \<noteq> 0 \<and> nd_guestRxArea (us_netDev u k) = Some a \<and>
     memFits u a halNetGuestRxArea_size"

lemma rxArea_twp [simp]: "netArea u k a \<Longrightarrow> twp (rxArea k) Q u = Q a u"
  by (simp add: netArea_def rxArea_def)

lemma netArea_registered: "netArea u k a \<Longrightarrow> nd_registered (us_netDev u k) \<noteq> 0"
  by (simp add: netArea_def)

lemma netArea_fits:
  "netArea u k a \<Longrightarrow> memFits u a 4 \<and> memFits u (a + 4) 4 \<and> (n \<le> MaxEthernetFrameSize \<longrightarrow> memFits u (a + 8) n)"
  by (auto simp: netArea_def memFits_def)

text \<open>The members of the receive area.\<close>

definition rxFull :: "'o user_t \<Rightarrow> nat \<Rightarrow> Bit32u" where
  "rxFull u a = le_word (peekBytes (us_mem u) (a + rx_rxBufferFull) 4)"

definition rxLen :: "'o user_t \<Rightarrow> nat \<Rightarrow> Bit32u" where
  "rxLen u a = le_word (peekBytes (us_mem u) (a + rx_rxBufferLen) 4)"

lemma putBytes_outside: "i < a \<or> a + length bs \<le> i \<Longrightarrow> putBytes a bs m i = m i"
  by (auto simp: putBytes_def)

lemma receive_full:
  assumes "netArea u k a" "rxFull u a \<noteq> 0"
  shows "halNetReadPacketToGuest he k u = Ret () u"
proof -
  have "twp (halNetReadPacketToGuest he k) (\<lambda>_ u'. u' = u) u"
    using assms netArea_fits [OF assms(1)]
    by (simp add: halNetReadPacketToGuest_def memRead32_def rxFull_def netArea_registered)
  then show ?thesis by (auto simp: twp_iff)
qed

lemma receive_twp:
  assumes "netArea u k a" "rxFull u a = 0" "readFits he"
    and read: "os_read he (us_os u) (us_fdTunTap u) MaxEthernetFrameSize = ((r, err, bs), s')" "0 < r"
  shows "twp (halNetReadPacketToGuest he k) (\<lambda>_ u'. rxFull u' a = 1 \<and> unat (rxLen u' a) = max 60 (length bs) \<and>
     length bs \<le> MaxEthernetFrameSize \<and> peekBytes (us_mem u') (a + rx_rxBuffer) (length bs) = bs \<and>
     (\<forall>i. i < a \<or> a + halNetGuestRxArea_size \<le> i \<longrightarrow> us_mem u' i = us_mem u i) \<and>
     cpu_halIrq (us_cpu u') = HalNet0Irq \<and>
     u' = u\<lparr>us_os := s', us_mem := us_mem u', us_cpu := (us_cpu u)\<lparr>cpu_halIrq := HalNet0Irq\<rparr>\<rparr>) u"
proof -
  have len: "length bs = nat r" "nat r \<le> 1514"
    using readFitsD [OF assms(3) read(1)] by simp_all
  let ?l = "word_of_int (if r < 60 then 60 else r) :: Bit32u"
  let ?u = "u\<lparr>us_os := s', us_mem := putBytes (a + 4) (word_bytes ?l) (putBytes a (word_bytes 1) (putBytes (a + 8) bs (us_mem u))),
     us_cpu := (us_cpu u)\<lparr>cpu_halIrq := 3\<rparr>\<rparr>"
  have "twp (halNetReadPacketToGuest he k) (\<lambda>_ u'. u' = ?u) u"
    using assms(1,2) netArea_fits [OF assms(1), of "length bs"] read len
    by (simp add: halNetReadPacketToGuest_def memRead32_def memWrite32_def rxFull_def netArea_registered)
  moreover have "unat ?l = max 60 (length bs)"
  proof -
    have "(if r < 60 then 60 else r) = int (max 60 (length bs))" using read(2) len by auto
    then show ?thesis using len by (simp only: of_int_of_nat_eq unat_of_nat) simp
  qed
  ultimately show ?thesis
    by (elim twp_mono) (use len in \<open>auto simp: rxFull_def rxLen_def peek_putBytes putBytes_outside\<close>)
qed

section \<open>Frames for nobody\<close>

text \<open>A device with a queue: each read with a buffer for a whole frame takes one until none is left.\<close>

definition frameQueue :: "'o halenv \<Rightarrow> int \<Rightarrow> ('o \<Rightarrow> nat) \<Rightarrow> bool" where
  "frameQueue he fd waiting \<longleftrightarrow> (\<forall>s r err bs s'. os_read he s fd MaxEthernetFrameSize = ((r, err, bs), s') \<longrightarrow>
     (0 < r \<longleftrightarrow> 0 < waiting s) \<and> waiting s' = waiting s - 1)"

lemma drainLoop_ends:
  assumes "frameQueue he fd waiting"
  shows "\<exists>s'. drainLoop he fd s = Some s' \<and> waiting s' = 0"
proof (induction "waiting s" arbitrary: s)
  case 0
  obtain r err bs s' where "os_read he s fd MaxEthernetFrameSize = ((r, err, bs), s')" by (metis surj_pair)
  then show ?case
    using assms 0 unfolding frameQueue_def by (subst drainLoop.simps) force
next
  case (Suc n)
  obtain r err bs s' where read: "os_read he s fd MaxEthernetFrameSize = ((r, err, bs), s')" by (metis surj_pair)
  then have "0 < r" "n = waiting s'"
    using assms Suc(2) unfolding frameQueue_def by (metis zero_less_Suc, metis diff_Suc_1)
  then show ?case
    using Suc(1) [of s'] read by (subst drainLoop.simps) simp
qed

lemma drain_twp:
  assumes "frameQueue he (us_fdTunTap u) waiting" "nd_registered (us_netDev u k) = 0"
  shows "twp (halNetReadPacketToGuest he k) (\<lambda>_ u'. waiting (us_os u') = 0 \<and>
     u' = u\<lparr>us_os := us_os u', us_netConsumer := us_netConsumer u + 1\<rparr>) u"
  using drainLoop_ends [OF assms(1), of "us_os u"] assms(2)
  by (auto simp: halNetReadPacketToGuest_def netDrain_def netConsumed_def twp_def thn_def bnd_def)

end
