(* ===== verification/Linux_Vm.thy ===== *)
theory Linux_Vm
  imports Hal_Console Hal_Disk Hal_Net
begin

text \<open>
  The program that runs a Linux guest, \<^verbatim>\<open>host-user/linuxvm.c\<close> and \<^verbatim>\<open>host-user/hal-user.c\<close>: the dispatch of the
  guest's calls to its devices, the connection to the kernel module, loading the images, the first state
  of the guest, the loop that executes it, and the command line.
\<close>

section \<open>Devices\<close>

definition initHal :: "'o halenv \<Rightarrow> Bit8u list \<Rightarrow> (nat \<Rightarrow> Bit8u list) \<Rightarrow> ('o, Bit32u) usr" where
  "initHal he tunScript diskParams =
     bnd (halNetInit he tunScript) (\<lambda>ok.
     if ok = 0 then ret 0
     else
       bnd (halDiskInit he diskParams) (\<lambda>ok.
       if ok = 0 then ret 0 else bnd halConInit (\<lambda>ok. if ok = 0 then ret 0 else ret 1)))"

definition halCall :: "'o halenv \<Rightarrow> ('o, Bit32u) usr" where
  "halCall he =
     bnd (usReg GenRegEAX) (\<lambda>callNo.
     if callNo = HalCallNetGuestRegDev \<or> callNo = HalCallNetGuestTx then thn (halNetCall he callNo) (ret 1)
     else if callNo = HalCallConGuestRegDev \<or> callNo = HalCallConGuestWrite then thn (halConCall he callNo) (ret 1)
     else if callNo = HalCallDiskGetInfo \<or> callNo = HalCallDiskWrite \<or> callNo = HalCallDiskRead \<or>
       callNo = HalCallDiskCleanup then thn (halDiskCall he callNo) (ret 1)
     else ret 0)"

section \<open>The kernel module\<close>

definition openFD :: "'o halenv \<Rightarrow> ('o, int) usr" where
  "openFD he =
     bnd (gets us_state) (\<lambda>state.
     if state \<noteq> Plex86StateMemAllocated then ret 0
     else
       bnd (osCall (\<lambda>s. os_open he s (bytesOf ''/dev/misc/plex86''))) (\<lambda>fd.
       thn (modify (\<lambda>u. u\<lparr>us_fd := fd\<rparr>))
       (if fd < 0 then
          bnd (osCall (\<lambda>s. os_open he s (bytesOf ''/dev/plex86''))) (\<lambda>fd.
          thn (modify (\<lambda>u. u\<lparr>us_fd := fd\<rparr>))
          (if fd < 0 then ret (- 1) else ret 1))
        else ret 1)))"

text \<open>\<open>cpuid\<close> is the instruction: EAX, EBX, ECX and EDX for a level.\<close>

definition plex86CpuInfo :: "'o halenv \<Rightarrow> (Bit32u \<Rightarrow> Bit32u \<times> Bit32u \<times> Bit32u \<times> Bit32u) \<Rightarrow> ('o, Bit32u) usr" where
  "plex86CpuInfo he cpuid =
     bnd (gets us_fd) (\<lambda>fd.
     bnd (if fd < 0 then openFD he else ret 1) (\<lambda>opened.
     if opened = 0 then ret 0
     else
       case cpuid 0 of (eax, ebx, ecx, edx) \<Rightarrow>
       if eax < 1 then ret 0
       else
         case cpuid 1 of (eax1, ebx1, ecx1, edx1) \<Rightarrow>
         thn (modify (\<lambda>u. u\<lparr>us_guestCPUID := \<lparr>ci_vendorDWord0 = ebx, ci_vendorDWord1 = edx, ci_vendorDWord2 = ecx,
                ci_procSignature = eax1, ci_featureFlags = edx1\<rparr>\<rparr>))
         (if \<not> bit edx1 4 then ret 0
          else if \<not> bit edx1 1 then ret 0
          else
            bnd (gets us_fd) (\<lambda>fd.
            bnd (osCall (\<lambda>s. os_ioctl he s fd PLEX86_CPUID)) (\<lambda>r. if r \<noteq> 0 then ret 0 else ret 1)))))"

section \<open>Images\<close>

text \<open>The loop of \<^verbatim>\<open>loadImage\<close>: \<open>False\<close> when a read fails.\<close>

partial_function (option) loadLoop ::
  "'o halenv \<Rightarrow> int \<Rightarrow> nat \<Rightarrow> Bit32u \<Rightarrow> 'o user_t \<Rightarrow> ('o user_t, bool) outcome option" where
  "loadLoop he fd a sz u =
     (if sz = 0 then Some (Ret True u)
      else case bnd (osCall (\<lambda>s. os_read he s fd (unat sz))) (\<lambda>(r, err, bs). thn (memWrite a bs) (ret r)) u of
             Ret r u' \<Rightarrow> if r \<le> 0 then Some (Ret False u') else loadLoop he fd (a + nat r) (sz - word_of_int r) u'
           | Panic e u' \<Rightarrow> Some (Panic e u')
           | Undef e \<Rightarrow> Some (Undef e)
           | Hang \<Rightarrow> Some Hang)"

definition loadRest :: "'o halenv \<Rightarrow> int \<Rightarrow> nat \<Rightarrow> Bit32u \<Rightarrow> ('o, bool) usr" where
  "loadRest he fd a sz u = (case loadLoop he fd a sz u of None \<Rightarrow> Hang | Some r \<Rightarrow> r)"

definition loadImage :: "'o halenv \<Rightarrow> Bit8u list \<Rightarrow> Bit32u \<Rightarrow> Bit32u \<Rightarrow> ('o, Bit32u) usr" where
  "loadImage he path imagePhyAddr sizeMax =
     bnd (osCall (\<lambda>s. os_open he s path)) (\<lambda>fd.
     (let failed = bnd (if fd \<noteq> - 1 then osCall (\<lambda>s. os_close he s fd) else ret 0) (\<lambda>_. ret 0) in
      if fd < 0 then failed
      else
        bnd (osCall (\<lambda>s. os_fstat he s fd)) (\<lambda>(r, st_size).
        if r \<noteq> 0 then failed
        else if st_size > sizeMax then failed
        else
          bnd (loadRest he fd (unat imagePhyAddr) st_size) (\<lambda>ok.
          if \<not> ok then failed
          else bnd (osCall (\<lambda>s. os_close he s fd)) (\<lambda>_. ret st_size)))))"

section \<open>The first state of the guest\<close>

definition KernelCLAddr :: nat where "KernelCLAddr = 0x00090800"
definition BootloaderGDTAddr :: nat where "BootloaderGDTAddr = 0x00091000"
definition BootloaderCLAddr :: nat where "BootloaderCLAddr = 0x00091800"
definition BootloaderStackAddr :: Bit32u where "BootloaderStackAddr = 0x00092000"
definition BootloaderCodeAddr :: Bit32u where "BootloaderCodeAddr = 0x00093000"

definition initLinuxIOenvironment :: "('o, unit) usr" where
  "initLinuxIOenvironment = modify (\<lambda>u. u\<lparr>us_cpu := (us_cpu u)\<lparr>cpu_INTR := 0, cpu_halIrq := - 1\<rparr>\<rparr>)"

text \<open>An element of the boot loader's GDT: its low and its high word.\<close>

definition bootGdt :: "nat \<Rightarrow> ('o, Bit32u \<times> Bit32u) usr" where
  "bootGdt slot =
     bnd (memRead32 (BootloaderGDTAddr + 8 * slot)) (\<lambda>low.
     bnd (memRead32 (BootloaderGDTAddr + 8 * slot + 4)) (\<lambda>high. ret (low, high)))"

definition bootDesc :: "Bit32u \<times> Bit32u \<Rightarrow> descriptor_t" where
  "bootDesc e = desc_of_word (ucast (fst e) OR push_bit 32 (ucast (snd e)))"

definition bootSreg :: "nat \<Rightarrow> Bit32u \<times> Bit32u \<Rightarrow> guest_sreg_t" where
  "bootSreg slot e = \<lparr>sr_sel = ucast (Selector (of_nat slot) 0 0), sr_des = bootDesc e, sr_valid = 1\<rparr>"

definition initLinuxCPUMemenvironment :: "'o halenv \<Rightarrow> ('o, unit) usr" where
  "initLinuxCPUMemenvironment he =
     bnd (bootGdt LinuxBootCsSlot) (\<lambda>cs.
     bnd (bootGdt LinuxBootDsSlot) (\<lambda>ds.
     if snd cs \<noteq> 0x00cf9b00 \<or> fst cs \<noteq> 0x0000ffff \<or> snd ds \<noteq> 0x00cf9300 \<or> fst ds \<noteq> 0x0000ffff then
       thn (plex86TearDown he) (halt ''exit(1)'')
     else
       modify (\<lambda>u. u\<lparr>us_cpu := (us_cpu u)\<lparr>
         cpu_cr0 := 0x00000033, cpu_eflags := 0x00000002,
         cpu_gdtr := \<lparr>gi_limit = 0x400, gi_base = of_nat BootloaderGDTAddr\<rparr>,
         cpu_sreg := (cpu_sreg (us_cpu u))(SRegCS := bootSreg LinuxBootCsSlot cs, SRegSS := bootSreg LinuxBootDsSlot ds),
         cpu_eip := BootloaderCodeAddr,
         cpu_genReg := (cpu_genReg (us_cpu u))(GenRegESP := BootloaderStackAddr + 4096)\<rparr>\<rparr>)))"

section \<open>Execution\<close>

text \<open>One turn of \<^verbatim>\<open>executeLoop\<close>: whether there is another.\<close>

definition executeTurn :: "'o halenv \<Rightarrow> ('o, bool) usr" where
  "executeTurn he =
     bnd (gets (\<lambda>u. us_netConsumer u \<noteq> us_netProducer u)) (\<lambda>frames.
     thn (whenM frames (halNetReadPacketToGuest he 0))
     (bnd (gets (\<lambda>u. (us_fd u, us_cpu u, us_mem u))) (\<lambda>(fd, cpu, mem).
      bnd (osCall (\<lambda>s. os_execute he s fd cpu mem)) (\<lambda>(r, request, signals, cpu', mem').
      thn (modify (\<lambda>u. u\<lparr>us_cpu := cpu', us_mem := mem', us_netProducer := us_netProducer u + signals\<rparr>))
      (if r \<noteq> 0 then ret False
       else if request = MonReqFlushPrintBuf then ret True
       else if request = MonReqRedirect then ret True
       else if request = MonReqHalCall then bnd (halCall he) (\<lambda>ok. ret (ok \<noteq> 0))
       else if request = MonReqPanic then ret False
       else if request = MonReqBogus then ret True
       else ret False)))))"

partial_function (option) executeLoop :: "'o halenv \<Rightarrow> 'o user_t \<Rightarrow> ('o user_t, unit) outcome option" where
  "executeLoop he u =
     (case executeTurn he u of
        Ret again u' \<Rightarrow> if again then executeLoop he u' else Some (Ret () u')
      | Panic e u' \<Rightarrow> Some (Panic e u')
      | Undef e \<Rightarrow> Some (Undef e)
      | Hang \<Rightarrow> Some Hang)"

definition executeLinux :: "'o halenv \<Rightarrow> ('o, Bit32u) usr" where
  "executeLinux he =
     bnd (gets us_state) (\<lambda>state.
     if state \<noteq> Plex86StateReady then ret 0
     else
       thn (\<lambda>u. case executeLoop he u of None \<Rightarrow> Hang | Some r \<Rightarrow> r)
       (thn (plex86TearDown he) (ret 0)))"

definition myCtrlCHandler :: "'o halenv \<Rightarrow> ('o, unit) usr" where
  "myCtrlCHandler he = thn (plex86TearDown he) (halt ''exit(1)'')"

section \<open>From the command line to the guest\<close>

record options_t =
  op_nMegs :: Bit32u
  op_linuxImage :: "Bit8u list"
  op_initrdLoadAddr :: Bit32u
  op_initrdImage :: "Bit8u list"
  op_blImage :: "Bit8u list"
  op_tunScript :: "Bit8u list"
  op_kernelCL :: "Bit8u list"
  op_disks :: "nat \<Rightarrow> Bit8u list"
  op_vgaDump :: bool

text \<open>\<^verbatim>\<open>sprintf\<close> of an unsigned number.\<close>

function showBase :: "nat \<Rightarrow> nat \<Rightarrow> string" where
  "showBase b n =
     (if n < b \<or> b < 2 then [''0123456789abcdef'' ! (n mod 16)] else showBase b (n div b) @ showBase b (n mod b))"
  by pat_completeness auto

termination
  by (relation "measure snd") (auto simp: not_less intro: div_less_dividend less_le_trans [OF mod_less_divisor])

declare showBase.simps [simp del]

definition bootloaderArgs :: "Bit32u \<Rightarrow> Bit32u \<Rightarrow> Bit32u \<Rightarrow> string" where
  "bootloaderArgs nMegs addr sz =
     ''-megs '' @ showBase 10 (unat nMegs) @ '' -initrd-image 0x'' @ showBase 16 (unat addr) @ '' 0x'' @ showBase 16 (unat sz)"

definition linuxImageLoadAddr :: Bit32u where "linuxImageLoadAddr = 0x100000"

text \<open>The guest's memory: \<open>allocated\<close> is whether \<^verbatim>\<open>malloc\<close> succeeded, which is not acted on.\<close>

definition allocGuestMemory :: "bool \<Rightarrow> Bit32u \<Rightarrow> ('o, unit) usr" where
  "allocGuestMemory allocated nMegs =
     thn (modify (\<lambda>u. u\<lparr>us_memSize := push_bit 20 nMegs, us_memLive := allocated,
            us_state := us_state u OR Plex86StateMemAllocated\<rparr>))
     (thn (inBounds ''memset(NULL)'' allocated)
     (modify (\<lambda>u. u\<lparr>us_mem := (\<lambda>_. 0), us_cpu := zero_guest_cpu\<rparr>)))"

text \<open>The images, then the arguments of the kernel and of the boot loader; \<open>False\<close> after an error.\<close>

definition loadImages :: "'o halenv \<Rightarrow> options_t \<Rightarrow> ('o, bool) usr" where
  "loadImages he op =
     bnd (gets us_memSize) (\<lambda>memSize.
     bnd (loadImage he (op_linuxImage op) linuxImageLoadAddr (memSize - linuxImageLoadAddr)) (\<lambda>linuxSize.
     if linuxSize = 0 then ret False
     else
       bnd (if op_initrdLoadAddr op \<noteq> 0
            then loadImage he (op_initrdImage op) (op_initrdLoadAddr op) (memSize - op_initrdLoadAddr op)
            else ret 0) (\<lambda>initrdSize.
       if op_initrdLoadAddr op \<noteq> 0 \<and> initrdSize = 0 then ret False
       else
         bnd (loadImage he (op_blImage op) 0x90000 0x10000) (\<lambda>blSize.
         if blSize = 0 then ret False
         else
           thn (whenM (op_kernelCL op \<noteq> []) (memWrite KernelCLAddr (op_kernelCL op @ [0])))
           (thn (memWrite BootloaderCLAddr
                  (bytesOf (bootloaderArgs (op_nMegs op) (op_initrdLoadAddr op) initrdSize) @ [0]))
           (ret True))))))"

definition runLinux ::
  "'o halenv \<Rightarrow> (Bit32u \<Rightarrow> Bit32u \<times> Bit32u \<times> Bit32u \<times> Bit32u) \<Rightarrow> bool \<Rightarrow> options_t \<Rightarrow> ('o, int) usr" where
  "runLinux he cpuid allocated op =
     (let failed = thn (plex86TearDown he) (ret 1) in
      thn (modify (\<lambda>u. u\<lparr>us_vgaDump := op_vgaDump op\<rparr>))
      (thn (allocGuestMemory allocated (op_nMegs op))
      (bnd (openFD he) (\<lambda>opened.
       if opened = 0 then failed
       else
         bnd (gets us_fd) (\<lambda>fd.
         bnd (osCall (\<lambda>s. os_ioctl he s fd PLEX86_LINUX_VM_MODE)) (\<lambda>r.
         if r \<noteq> 0 then failed
         else
           bnd (osCall (\<lambda>s. os_ioctl he s fd PLEX86_REGISTER_MEMORY)) (\<lambda>r.
           if r = - 1 then failed
           else
             thn (modify (\<lambda>u. u\<lparr>us_state := us_state u OR Plex86StateMemRegistered\<rparr>))
             (bnd (plex86CpuInfo he cpuid) (\<lambda>ok.
              if ok = 0 then failed
              else
                bnd (loadImages he op) (\<lambda>loaded.
                if \<not> loaded then failed
                else
                  thn initLinuxIOenvironment
                  (thn (initLinuxCPUMemenvironment he)
                  (bnd (initHal he (op_tunScript op) (op_disks op)) (\<lambda>ok.
                   if ok = 0 then failed
                   else
                     thn (bnd (executeLinux he) (\<lambda>_. ret ()))
                     (thn (plex86TearDown he) (ret 0)))))))))))))))"

section \<open>The command line\<close>

text \<open>\<^verbatim>\<open>atoi\<close>, and \<^verbatim>\<open>strtoul\<close> with the base given by the prefix; a number that is too large becomes the largest one.\<close>

definition atoi :: "Bit8u list \<Rightarrow> Bit32u" where
  "atoi xs =
     (let ys = dropWhile isspaceB xs; neg = (ys \<noteq> [] \<and> hd ys = 0x2d);
          zs = (if ys \<noteq> [] \<and> (hd ys = 0x2b \<or> hd ys = 0x2d) then tl ys else ys);
          v = int (digitsVal (takeWhile isdigitB zs))
      in word_of_int (if neg then max (- (2 ^ 31)) (- v) else min (2 ^ 31 - 1) v))"

definition digitIn :: "Bit8u \<Rightarrow> nat" where
  "digitIn c =
     (if isdigitB c then unat (c - 0x30) else if 0x61 \<le> c \<and> c \<le> 0x7a then unat (c - 0x61) + 10
      else if 0x41 \<le> c \<and> c \<le> 0x5a then unat (c - 0x41) + 10 else 36)"

definition strtoul0 :: "Bit8u list \<Rightarrow> Bit32u" where
  "strtoul0 xs =
     (let ys = dropWhile isspaceB xs; neg = (ys \<noteq> [] \<and> hd ys = 0x2d);
          zs = (if ys \<noteq> [] \<and> (hd ys = 0x2b \<or> hd ys = 0x2d) then tl ys else ys);
          hex = (length zs > 2 \<and> hd zs = 0x30 \<and> (zs ! 1 = 0x78 \<or> zs ! 1 = 0x58) \<and> digitIn (zs ! 2) < 16);
          base = (if hex then 16 else if zs \<noteq> [] \<and> hd zs = 0x30 then 8 else 10);
          ds = takeWhile (\<lambda>c. digitIn c < base) (if hex then drop 2 zs else zs);
          v = foldl (\<lambda>v d. base * v + digitIn d) 0 ds
      in if v \<ge> 2 ^ 32 then - 1 else if neg then - of_nat v else of_nat v)"

datatype argError = ArgsUnderflow "Bit8u list" | ArgUnrecognized "Bit8u list" | ErrorUsage

definition no_options :: options_t where
  "no_options = \<lparr>op_nMegs = 0, op_linuxImage = [], op_initrdLoadAddr = 0, op_initrdImage = [], op_blImage = [],
     op_tunScript = [], op_kernelCL = [], op_disks = (\<lambda>_. []), op_vgaDump = False\<rparr>"

text \<open>\<open>-disk\<close> is followed by the number of the unit.\<close>

definition diskOption :: "Bit8u list \<Rightarrow> nat option" where
  "diskOption arg =
     (if length arg > 5 \<and> isdigitB (arg ! 5) \<and> unat (arg ! 5 - 0x30) < HalDiskMaxDisks then Some (unat (arg ! 5 - 0x30)) else None)"

fun parseArgs :: "Bit8u list list \<Rightarrow> options_t \<Rightarrow> argError + options_t" where
  "parseArgs [] op = Inr op"
| "parseArgs (arg # rest) op =
     (if arg = bytesOf ''-megs'' then
        (case rest of [] \<Rightarrow> Inl (ArgsUnderflow arg) | v # rest' \<Rightarrow> parseArgs rest' (op\<lparr>op_nMegs := atoi v\<rparr>))
      else if arg = bytesOf ''-linux-image'' then
        (case rest of [] \<Rightarrow> Inl (ArgsUnderflow arg)
         | v # rest' \<Rightarrow> parseArgs rest' (op\<lparr>op_linuxImage := take (NAME_MAX - 1) v\<rparr>))
      else if arg = bytesOf ''-initrd-image'' then
        (case rest of
           a # v # rest' \<Rightarrow>
             if strtoul0 a = 0 then Inl ErrorUsage
             else parseArgs rest' (op\<lparr>op_initrdLoadAddr := strtoul0 a, op_initrdImage := take (NAME_MAX - 1) v\<rparr>)
         | _ \<Rightarrow> Inl (ArgsUnderflow arg))
      else if arg = bytesOf ''-bootloader-image'' then
        (case rest of [] \<Rightarrow> Inl (ArgsUnderflow arg)
         | v # rest' \<Rightarrow> parseArgs rest' (op\<lparr>op_blImage := take (NAME_MAX - 1) v\<rparr>))
      else if arg = bytesOf ''-linux-commandline'' then
        (case rest of [] \<Rightarrow> Inl (ArgsUnderflow arg)
         | v # rest' \<Rightarrow> parseArgs rest' (op\<lparr>op_kernelCL := take 2047 v\<rparr>))
      else if arg = bytesOf ''-bootloader-commandline'' then
        (case rest of [] \<Rightarrow> Inl (ArgsUnderflow arg) | v # rest' \<Rightarrow> parseArgs rest' op)
      else if arg = bytesOf ''-dump-vga'' then parseArgs rest (op\<lparr>op_vgaDump := True\<rparr>)
      else if arg = bytesOf ''-tun-script'' then
        (case rest of [] \<Rightarrow> Inl (ArgsUnderflow arg)
         | v # rest' \<Rightarrow> parseArgs rest' (op\<lparr>op_tunScript := take (NAME_MAX - 1) v\<rparr>))
      else if take 5 arg = bytesOf ''-disk'' then
        (case diskOption arg of
           None \<Rightarrow> Inl ErrorUsage
         | Some unit \<Rightarrow>
             (case rest of [] \<Rightarrow> Inl (ArgsUnderflow arg)
              | v # rest' \<Rightarrow> parseArgs rest' (op\<lparr>op_disks := (op_disks op)(unit := take 255 v)\<rparr>)))
      else Inl (ArgUnrecognized arg))"

definition optionsOK :: "options_t \<Rightarrow> bool" where
  "optionsOK op \<longleftrightarrow> \<not> op_nMegs op = 0 \<and> \<not> op_nMegs op AND 3 \<noteq> 0 \<and> \<not> op_linuxImage op = [] \<and> \<not> op_blImage op = []"

definition plex86Main ::
  "'o halenv \<Rightarrow> (Bit32u \<Rightarrow> Bit32u \<times> Bit32u \<times> Bit32u \<times> Bit32u) \<Rightarrow> bool \<Rightarrow> Bit8u list list \<Rightarrow> ('o, int) usr" where
  "plex86Main he cpuid allocated args =
     (case parseArgs args no_options of
        Inl e \<Rightarrow> ret 1
      | Inr op \<Rightarrow> if \<not> optionsOK op then ret 1 else runLinux he cpuid allocated op)"

end
