(* ===== verification/Hal_Correct.thy ===== *)
theory Hal_Correct
  imports Linux_Vm
begin

text \<open>
  What holds of the user process as a whole: the guest's calls stay inside the guest's memory, an image is
  loaded as it is, and the first state of the guest is one that the kernel module executes.
\<close>

section \<open>The calls stay inside the guest's memory\<close>

text \<open>A registered area lies in the memory; \<open>hal_inv\<close> is what every call relies on.\<close>

definition conAreasOK :: "'o user_t \<Rightarrow> bool" where
  "conAreasOK u \<longleftrightarrow> (\<forall>k < HalConMaxDevices. cd_registered (us_conDev u k) \<noteq> 0 \<longrightarrow>
     (\<exists>a. cd_guestRwArea (us_conDev u k) = Some a \<and> a + halConGuestRwArea_size \<le> unat (us_memSize u)))"

definition netAreasOK :: "'o user_t \<Rightarrow> bool" where
  "netAreasOK u \<longleftrightarrow> (\<forall>k < HalNetMaxDevices. nd_registered (us_netDev u k) \<noteq> 0 \<longrightarrow>
     (\<exists>a. nd_guestRxArea (us_netDev u k) = Some a \<and> a + halNetGuestRxArea_size \<le> unat (us_memSize u)))"

definition hal_ok :: "'o user_t \<Rightarrow> bool" where
  "hal_ok u \<longleftrightarrow> 0x400000 \<le> unat (us_memSize u) \<and> conOK u \<and> conAreasOK u \<and> netAreasOK u"

definition hal_inv :: "'o user_t \<Rightarrow> bool" where
  "hal_inv u \<longleftrightarrow> hal_ok u \<and> us_memLive u"

lemmas hal_inv_defs = hal_inv_def hal_ok_def conAreasOK_def netAreasOK_def

lemma wp_osCall [simp]: "wp (osCall f) Q u = (case f (us_os u) of (r, s') \<Rightarrow> Q r (u\<lparr>us_os := s'\<rparr>))"
  by (simp add: osCall_def wp_def split: prod.split)

lemma wp_memRead [simp]: "wp (memRead a n) Q u = (memFits u a n \<and> Q (peekBytes (us_mem u) a n) u)"
  by (simp add: memRead_def)

lemma wp_memWrite [simp]: "wp (memWrite a bs) Q u = (memFits u a (length bs) \<and> Q () (u\<lparr>us_mem := putBytes a bs (us_mem u)\<rparr>))"
  by (simp add: memWrite_def)

lemma hal_ok_upd [simp]:
  "hal_ok (u\<lparr>us_os := s\<rparr>) = hal_ok u" "hal_ok (u\<lparr>us_cpu := c\<rparr>) = hal_ok u" "hal_ok (u\<lparr>us_mem := m\<rparr>) = hal_ok u"
  "hal_ok (u\<lparr>us_stderr := l\<rparr>) = hal_ok u" "hal_ok (u\<lparr>us_state := st\<rparr>) = hal_ok u" "hal_ok (u\<lparr>us_fd := fd\<rparr>) = hal_ok u"
  "hal_ok (u\<lparr>us_memLive := b\<rparr>) = hal_ok u" "hal_ok (u\<lparr>us_disk := d\<rparr>) = hal_ok u" "hal_ok (u\<lparr>us_netConsumer := n\<rparr>) = hal_ok u"
  "hal_ok (u\<lparr>us_netProducer := n\<rparr>) = hal_ok u"
  by (simp_all add: hal_ok_def conOK_def conAreasOK_def netAreasOK_def)

lemma hal_inv_upd [simp]:
  "hal_inv (u\<lparr>us_os := s\<rparr>) = hal_inv u" "hal_inv (u\<lparr>us_cpu := c\<rparr>) = hal_inv u" "hal_inv (u\<lparr>us_mem := m\<rparr>) = hal_inv u"
  "hal_inv (u\<lparr>us_stderr := l\<rparr>) = hal_inv u" "hal_inv (u\<lparr>us_state := st\<rparr>) = hal_inv u" "hal_inv (u\<lparr>us_fd := fd\<rparr>) = hal_inv u"
  "hal_inv (u\<lparr>us_disk := d\<rparr>) = hal_inv u" "hal_inv (u\<lparr>us_netConsumer := n\<rparr>) = hal_inv u"
  "hal_inv (u\<lparr>us_netProducer := n\<rparr>) = hal_inv u"
  by (simp_all add: hal_inv_def)

lemma hal_inv_fits: "hal_inv u \<Longrightarrow> a + n \<le> 0x400000 \<Longrightarrow> memFits u a n"
  by (simp add: hal_inv_defs memFits_def)

lemma doVGADump_pres: "pres hal_inv (doVGADump :: ('o, unit) usr)"
  unfolding doVGADump_def
proof (rule pres_forM)
  fix i assume "i \<in> set [0..<204]"
  then have "memFits u (0xb8000 + i * (2 * 80)) 160" if "hal_inv u" for u :: "'o user_t"
    using that by (intro hal_inv_fits) auto
  then show "pres hal_inv (vgaLine (i * (2 * 80)) :: ('o, unit) usr)"
    by (auto simp: vgaLine_def pres_def Let_def)
qed

text \<open>Tearing down keeps the invariant until the memory is given back.\<close>

definition hal_left :: "'o user_t \<Rightarrow> bool" where
  "hal_left u \<longleftrightarrow> hal_inv u \<or> \<not> us_memLive u"

lemma hal_left_inv: "hal_inv u \<Longrightarrow> hal_left u"
  by (simp add: hal_left_def)

lemma tearDownVM_pres: "pres hal_inv (tearDownVM he)"
  by (auto simp: tearDownVM_def pres_def split: prod.splits intro!: presD [OF doVGADump_pres])

lemma plex86TearDown_wp: "hal_inv u \<Longrightarrow> wp (plex86TearDown he) (\<lambda>_. hal_left) u"
  unfolding plex86TearDown_def wp_bnd
  by (rule wp_mono [OF presD [OF tearDownVM_pres]]) (auto simp: hal_left_def hal_inv_def)

lemma setEAX_left: "hal_inv u \<Longrightarrow> wp (setEAX v) (\<lambda>_. hal_left) u"
  by (simp add: setEAX_def hal_left_def)

lemma halExit_wp: "hal_inv u \<Longrightarrow> wp (halExit he) Q u"
  unfolding halExit_def wp_thn
  by (rule wp_mono [where P = "\<lambda>_. hal_inv"], simp add: setEAX_def,
      rule wp_mono [OF plex86TearDown_wp], auto)

lemma diskError_wp: "hal_inv u \<Longrightarrow> wp (diskError he) (\<lambda>_. hal_left) u"
  unfolding diskError_def wp_thn
  by (rule wp_mono [where P = "\<lambda>_. hal_inv"], simp add: setEAX_def,
      rule wp_mono [OF plex86TearDown_wp], auto)

text \<open>A check of an address against the size of the memory, in unsigned arithmetic.\<close>

lemma addr_check:
  assumes "\<not> a \<ge> (sz :: Bit32u) - of_nat n" "n \<le> unat sz"
  shows "unat a + n < unat sz"
proof -
  have "n < 2 ^ 32" using assms(2) unsigned_less [of sz, where 'a = nat] by simp
  then have "unat (of_nat n :: Bit32u) = n" by (simp add: unat_of_nat)
  then have "unat (sz - of_nat n) = unat sz - n"
    using assms(2) by (simp add: unat_sub word_le_nat_alt)
  then show ?thesis using assms by (simp add: not_le word_less_nat_alt)
qed

lemma halConRegDev_wp: "hal_inv u \<Longrightarrow> wp (halConRegDev he) (\<lambda>_. hal_left) u"
  using addr_check [of "us_memSize u" halConGuestRwArea_size "cpu_genReg (us_cpu u) GenRegECX"]
  by (auto simp: halConRegDev_def usReg_def setEAX_def halExit_wp hal_left_def hal_inv_defs conOK_def)

lemma halNetRegDev_wp: "hal_inv u \<Longrightarrow> wp (halNetRegDev he) (\<lambda>_. hal_left) u"
  using addr_check [of "us_memSize u" halNetGuestRxArea_size "cpu_genReg (us_cpu u) GenRegECX"]
  by (auto simp: halNetRegDev_def usReg_def setEAX_def halExit_wp hal_left_def hal_inv_defs conOK_def)

lemma halNetTx_wp: "hal_inv u \<Longrightarrow> wp (halNetTx he) (\<lambda>_. hal_left) u"
proof -
  assume inv: "hal_inv u"
  have "memFits u (unat (cpu_genReg (us_cpu u) GenRegECX)) (unat (cpu_genReg (us_cpu u) GenRegEDX))"
    if "\<not> cpu_genReg (us_cpu u) GenRegECX \<ge> us_memSize u - cpu_genReg (us_cpu u) GenRegEDX"
      "unat (cpu_genReg (us_cpu u) GenRegEDX) \<le> MaxEthernetFrameSize"
    using addr_check [of _ "unat (cpu_genReg (us_cpu u) GenRegEDX)"] that inv
    by (simp add: hal_inv_defs memFits_def less_imp_le)
  then show ?thesis
    using inv by (auto simp: halNetTx_def usReg_def setEAX_def halExit_wp hal_left_def not_less split: prod.splits)
qed

lemma halConWrite_wp:
  assumes "hal_inv u" "cd_registered (us_conDev u 0) \<noteq> 0"
  shows "wp (halConWrite he) (\<lambda>_. hal_left) u"
proof -
  obtain a where a: "cd_guestRwArea (us_conDev u 0) = Some a" "memFits u a halConGuestRwArea_size"
    using assms by (auto simp: hal_inv_defs memFits_def)
  have "wp (forM [0..<n] conTurn) (\<lambda>_. hal_inv) u" if "n \<le> MaxConsoleFrameSize" for n
  proof (rule twp_wp, rule twp_mono)
    show "twp (forM [0..<n] conTurn) (\<lambda>_ u'. conOK u' \<and> conRest u' = conRest u) u"
    proof (rule twp_forM_upt)
      show "conOK u \<and> conRest u = conRest u" using assms(1) by (simp add: hal_inv_defs)
      fix i u' assume "i < n" "conOK u' \<and> conRest u' = conRest u"
      then show "twp (conTurn i) (\<lambda>_ u'. conOK u' \<and> conRest u' = conRest u) u'"
        using a that by (intro twp_mono [OF conTurn_twp [of u' a]]) (auto simp: conRest_def memFits_def)
    qed
    show "hal_inv u'" if "conOK u' \<and> conRest u' = conRest u" for u'
      using that assms(1) by (auto simp: hal_inv_defs conRest_def)
  qed
  then have "wp (forM [0..<n] conTurn) (\<lambda>_. wp (setEAX 1) (\<lambda>_. hal_left)) u" if "n \<le> MaxConsoleFrameSize" for n
    using that setEAX_left by (blast intro: wp_mono)
  then show ?thesis
    using assms(1) by (auto simp: halConWrite_def usReg_def halExit_wp not_less)
qed

lemma diskSeek_wp:
  assumes "hal_inv u" "\<And>a fd u'. hal_inv u' \<Longrightarrow> memFits u' a 512 \<Longrightarrow> wp (transfer a fd) (\<lambda>_. hal_inv) u'"
  shows "wp (diskSeek he transfer) (\<lambda>_. hal_left) u"
proof -
  have "memFits u (unat (cpu_genReg (us_cpu u) GenRegEBX)) 512"
    if "\<not> cpu_genReg (us_cpu u) GenRegEBX \<ge> us_memSize u - 512"
    using addr_check [of _ 512] that assms(1) by (simp add: hal_inv_defs memFits_def less_imp_le)
  then show ?thesis
    using assms(1) by (auto simp: diskSeek_def usReg_def intro!: diskError_wp setEAX_left wp_mono [OF assms(2)] split: prod.splits)
qed

lemma halDiskRW_wp:
  assumes "hal_inv u" "readFits he"
  shows "wp (halDiskWrite he) (\<lambda>_. hal_left) u" "wp (halDiskRead he) (\<lambda>_. hal_left) u"
proof -
  show "wp (halDiskWrite he) (\<lambda>_. hal_left) u"
    unfolding halDiskWrite_def using assms(1) by (intro diskSeek_wp) (auto split: prod.splits)
  have "memFits u' a (length bs)" if "memFits u' a 512" "os_read he s fd 512 = ((r, err, bs), s')" for u' :: "'a user_t" and a fd s r err bs s'
    using that readFitsD [OF assms(2) that(2)] by (simp add: memFits_def)
  then show "wp (halDiskRead he) (\<lambda>_. hal_left) u"
    unfolding halDiskRead_def using assms(1) by (intro diskSeek_wp) (auto split: prod.splits)
qed

lemma diskInfoUnit_wp:
  assumes "hal_inv u" "memFits u (info + unit * halDiskInfo_size) halDiskInfo_size"
  shows "wp (diskInfoUnit he info unit) (\<lambda>_ u'. hal_inv u' \<and> us_memSize u' = us_memSize u) u"
  using assms by (auto simp: diskInfoUnit_def Let_def memWrite32_def updDisk_def memFits_def split: prod.splits)

lemma diskInfoUnits_wp:
  assumes "hal_inv u" "\<And>k. k \<in> set ks \<Longrightarrow> info + k * halDiskInfo_size + halDiskInfo_size \<le> unat (us_memSize u)"
  shows "wp (diskInfoUnits he info ks) (\<lambda>_. hal_inv) u"
  using assms
proof (induction ks arbitrary: u)
  case (Cons k ks)
  have fits: "memFits u (info + k * halDiskInfo_size) halDiskInfo_size"
    using Cons.prems by (simp add: hal_inv_def memFits_def)
  show ?case
    unfolding diskInfoUnits.simps wp_bnd
    by (rule wp_mono [OF diskInfoUnit_wp [OF Cons.prems(1) fits]]) (use Cons.IH Cons.prems(2) in auto)
qed simp

lemma halDiskGetInfo_wp:
  assumes "hal_inv u" "unat (cpu_genReg (us_cpu u) GenRegEBX) + HalDiskMaxDisks * halDiskInfo_size \<le> unat (us_memSize u)"
  shows "wp (halDiskGetInfo he) (\<lambda>_. hal_left) u"
proof -
  have "wp (diskInfoUnits he (unat (cpu_genReg (us_cpu u) GenRegEBX)) [0..<HalDiskMaxDisks]) (\<lambda>_. hal_inv) u"
    using assms by (intro diskInfoUnits_wp) auto
  then show ?thesis
    using assms(1) by (auto simp: halDiskGetInfo_def usReg_def diskError_wp hal_left_def elim!: wp_mono)
qed

lemma halDiskCleanup_wp: "hal_inv u \<Longrightarrow> wp (halDiskCleanup he) (\<lambda>_. hal_left) u"
proof -
  have "pres hal_inv (halDiskCleanup he)"
    unfolding halDiskCleanup_def setEAX_def
    by (intro pres_thn pres_forM pres_bnd pres_gets pres_whenM pres_ret) (auto simp: pres_def split: prod.splits)
  then show "hal_inv u \<Longrightarrow> ?thesis"
    by (auto dest!: presD simp: hal_left_def elim!: wp_mono)
qed

text \<open>The two calls that need more than the code checks.\<close>

definition halRequestOK :: "'o user_t \<Rightarrow> bool" where
  "halRequestOK u \<longleftrightarrow>
     (cpu_genReg (us_cpu u) GenRegEAX = HalCallConGuestWrite \<longrightarrow> cd_registered (us_conDev u 0) \<noteq> 0) \<and>
     (cpu_genReg (us_cpu u) GenRegEAX = HalCallDiskGetInfo \<longrightarrow>
        unat (cpu_genReg (us_cpu u) GenRegEBX) + HalDiskMaxDisks * halDiskInfo_size \<le> unat (us_memSize u))"

lemma halCall_wp:
  assumes "hal_inv u" "readFits he" "halRequestOK u"
  shows "wp (halCall he) (\<lambda>_. hal_left) u"
  unfolding halCall_def usReg_def wp_bnd wp_gets
  using halConRegDev_wp [OF assms(1)] halNetRegDev_wp [OF assms(1)] halNetTx_wp [OF assms(1)] halConWrite_wp [OF assms(1)]
    halDiskRW_wp [OF assms(1,2)] halDiskGetInfo_wp [OF assms(1)] halDiskCleanup_wp [OF assms(1)] assms(1,3)
  by (auto simp: halNetCall_def halConCall_def halDiskCall_def halRequestOK_def hal_left_inv elim!: wp_mono)

lemma halNetReadPacketToGuest_wp:
  assumes "hal_inv u" "readFits he" "k < HalNetMaxDevices"
  shows "wp (halNetReadPacketToGuest he k) (\<lambda>_. hal_inv) u"
proof (cases "nd_registered (us_netDev u k) = 0")
  case True
  then show ?thesis using assms(1)
    by (auto simp: halNetReadPacketToGuest_def netConsumed_def netDrain_def wp_def thn_def bnd_def split: option.split)
next
  case False
  then obtain a where a: "nd_guestRxArea (us_netDev u k) = Some a" "memFits u a halNetGuestRxArea_size"
    using assms(1,3) by (auto simp: hal_inv_defs memFits_def)
  have "memFits u (a + 8) (length bs)" if "os_read he s fd MaxEthernetFrameSize = ((r, err, bs), s')" for s fd r err bs s'
    using a(2) readFitsD [OF assms(2) that] by (simp add: memFits_def)
  moreover have "memFits u a 4" "memFits u (a + 4) 4"
    using a(2) by (simp_all add: memFits_def)
  ultimately show ?thesis
    using False a assms(1)
    by (auto simp: halNetReadPacketToGuest_def rxArea_def memRead32_def memWrite32_def netConsumed_def split: prod.splits)
qed

section \<open>Images\<close>

text \<open>A file of which every read before the end returns some of the bytes that follow.\<close>

definition imageFile :: "'o halenv \<Rightarrow> int \<Rightarrow> ('o \<Rightarrow> nat) \<Rightarrow> Bit8u list \<Rightarrow> bool" where
  "imageFile he fd pos data \<longleftrightarrow> (\<forall>s n r err bs s'. os_read he s fd n = ((r, err, bs), s') \<longrightarrow> 0 < n \<longrightarrow> pos s < length data \<longrightarrow>
     0 < r \<and> nat r \<le> n \<and> length bs = nat r \<and> bs = take (nat r) (drop (pos s) data) \<and> pos s' = pos s + nat r)"

lemma imageFileD:
  assumes "imageFile he fd pos data" "os_read he s fd n = ((r, err, bs), s')" "0 < n" "pos s < length data"
  shows "0 < r" "nat r \<le> n" "length bs = nat r" "bs = take (nat r) (drop (pos s) data)" "pos s' = pos s + nat r"
  using assms unfolding imageFile_def by blast+

lemma putBytes_append: "putBytes (a + length xs) ys (putBytes a xs m) = putBytes a (xs @ ys) m"
  by (auto simp: putBytes_def nth_append fun_eq_iff)

lemma putBytes_Nil [simp]: "putBytes a [] m = m"
  by (auto simp: putBytes_def fun_eq_iff)

lemma loadLoop_loads:
  assumes "imageFile he fd pos data" "memFits u a (unat sz)" "pos (us_os u) + unat sz = length data"
  shows "\<exists>s'. loadLoop he fd a sz u =
    Some (Ret True (u\<lparr>us_mem := putBytes a (drop (pos (us_os u)) data) (us_mem u), us_os := s'\<rparr>))"
  using assms(2,3)
proof (induction "unat sz" arbitrary: a sz u rule: less_induct)
  case less
  show ?case
  proof (cases "sz = 0")
    case True
    then show ?thesis
      using less.prems by (subst loadLoop.simps) (auto intro!: exI [of _ "us_os u"])
  next
    case False
    then have n: "0 < unat sz" by (simp add: unat_gt_0)
    let ?p = "pos (us_os u)"
    obtain r err bs s' where read: "os_read he (us_os u) fd (unat sz) = ((r, err, bs), s')" by (metis surj_pair)
    note bs = imageFileD [OF assms(1) read n]
    have r: "0 < r" "nat r \<le> unat sz" "length bs = nat r" "bs = take (nat r) (drop ?p data)" "pos s' = ?p + nat r"
      using bs less.prems(2) n by simp_all
    let ?u = "u\<lparr>us_os := s', us_mem := putBytes a bs (us_mem u)\<rparr>" and ?sz = "sz - word_of_int r"
    have "word_of_int r = (of_nat (nat r) :: Bit32u)" using r(1) by simp
    then have sz: "unat ?sz = unat sz - nat r"
      using r(2) unsigned_less [of sz, where 'a = nat] by (simp add: unat_sub word_le_nat_alt unat_of_nat)
    obtain s'' where IH: "loadLoop he fd (a + nat r) ?sz ?u =
       Some (Ret True (?u\<lparr>us_mem := putBytes (a + nat r) (drop (pos s') data) (us_mem ?u), us_os := s''\<rparr>))"
      using less.hyps [of ?sz ?u "a + nat r"] less.prems r sz n by (auto simp: memFits_def)
    have "putBytes (a + nat r) (drop (pos s') data) (us_mem ?u) = putBytes a (drop ?p data) (us_mem u)"
    proof -
      have "bs @ drop (pos s') data = drop ?p data"
        using append_take_drop_id [of "nat r" "drop ?p data"] r(4,5) by (simp add: add.commute)
      then show ?thesis using putBytes_append [of a bs "drop (pos s') data" "us_mem u"] r(3) by simp
    qed
    moreover have "loadLoop he fd a sz u = loadLoop he fd (a + nat r) ?sz ?u"
      using False read r less.prems
      by (subst loadLoop.simps) (simp add: osCall_def memWrite_def memFits_def bnd_def thn_def)
    ultimately show ?thesis using IH by auto
  qed
qed

lemma loadImage_twp:
  assumes "os_open he (us_os u) path = (fd, s1)" "0 \<le> fd" "os_fstat he s1 fd = ((0, sz), s2)" "pos s2 = 0" "unat sz = length data"
    and "imageFile he fd pos data" "sz \<le> sizeMax" "memFits u (unat addr) (unat sz)"
  shows "twp (loadImage he path addr sizeMax) (\<lambda>r u'. r = sz \<and>
     u' = u\<lparr>us_mem := putBytes (unat addr) data (us_mem u), us_os := us_os u'\<rparr>) u"
proof -
  obtain s' where "loadLoop he fd (unat addr) sz (u\<lparr>us_os := s2\<rparr>) =
      Some (Ret True (u\<lparr>us_mem := putBytes (unat addr) data (us_mem u), us_os := s'\<rparr>))"
    using loadLoop_loads [of he fd pos data "u\<lparr>us_os := s2\<rparr>" "unat addr" sz] assms(4-8) by auto
  then have "twp (loadRest he fd (unat addr) sz)
      (\<lambda>ok u'. ok \<and> u' = u\<lparr>us_mem := putBytes (unat addr) data (us_mem u), us_os := s'\<rparr>) (u\<lparr>us_os := s2\<rparr>)"
    by (simp add: loadRest_def twp_def)
  then show ?thesis
    using assms(1-3,7) by (auto simp: loadImage_def Let_def split: prod.splits elim!: twp_mono)
qed

text \<open>Where the load address lies behind the memory, the size that is left wraps around.\<close>

lemma loadImage_outside:
  assumes "os_open he (us_os u) path = (fd, s1)" "0 \<le> fd" "os_fstat he s1 fd = ((0, sz), s2)" "0 < sz"
    and "os_read he s2 fd (unat sz) = ((r, err, bs), s3)" "0 < r" "length bs = nat r"
    and "us_memSize u \<le> addr" "sz \<le> us_memSize u - addr"
  shows "loadImage he path addr (us_memSize u - addr) u = Undef ''plex86MemPtr''"
proof -
  have "\<not> memFits u (unat addr) (length bs)"
    using assms(6-8) zero_less_nat_eq [of r] by (auto simp: memFits_def word_le_nat_alt)
  then have "loadLoop he fd (unat addr) sz (u\<lparr>us_os := s2\<rparr>) = Some (Undef ''plex86MemPtr'')"
    using assms(4,5) by (subst loadLoop.simps) (simp add: osCall_def memWrite_def bnd_def thn_def)
  then have "loadRest he fd (unat addr) sz (u\<lparr>us_os := s2\<rparr>) = Undef ''plex86MemPtr''"
    by (simp add: loadRest_def)
  then show ?thesis
    using assms(1-3) leD [OF assms(9)] by (simp add: loadImage_def osCall_def bnd_def Let_def)
qed

section \<open>The first state of the guest\<close>

definition bootGdtOK :: "'o user_t \<Rightarrow> bool" where
  "bootGdtOK u \<longleftrightarrow> (\<forall>(slot, high) \<in> {(LinuxBootCsSlot, 0x00cf9b00), (LinuxBootDsSlot, 0x00cf9300)}.
     le_word (peekBytes (us_mem u) (BootloaderGDTAddr + 8 * slot) 4) = (0x0000ffff :: Bit32u) \<and>
     le_word (peekBytes (us_mem u) (BootloaderGDTAddr + 8 * slot + 4) 4) = (high :: Bit32u))"

lemma boot_dpl:
  "d_dpl (bootDesc (0x0000ffff, 0x00cf9b00)) = 0" "d_dpl (bootDesc (0x0000ffff, 0x00cf9300)) = 0"
  by (simp_all add: bootDesc_def desc_of_word_def)

lemma initLinuxCPUMem_twp:
  assumes "hal_inv u" "bootGdtOK u" "cpu_cr4 (us_cpu u) = 0" "\<And>s. sr_sel (cpu_sreg (us_cpu u) s) = 0"
  shows "twp (initLinuxCPUMemenvironment he) (\<lambda>_ u'. executeRefusal True (us_cpu u') = None \<and>
     d_dpl (sr_des (cpu_sreg (us_cpu u') SRegCS)) = 0 \<and> us_mem u' = us_mem u) u"
proof -
  have fits: "memFits u (BootloaderGDTAddr + i) 4" if "i \<le> 100" for i
    using that assms(1) by (intro hal_inv_fits) (simp_all add: BootloaderGDTAddr_def)
  have sel: "sr_sel (bootSreg 2 e) = 0x10" "sr_sel (bootSreg 3 e) = 0x18" "sr_des (bootSreg k e) = bootDesc e" for e k
    by (simp_all add: bootSreg_def Selector_def)
  show ?thesis
    using fits [of 16] fits [of 20] fits [of 24] fits [of 28] assms(2-4)
    by (simp add: initLinuxCPUMemenvironment_def bootGdt_def memRead32_def bootGdtOK_def add.assoc sel boot_dpl
        executeRefusal_def executeSeg_def executeSegLinux_def executeEFlags_def upt_rec Let_def
        sel_rpl_def sel_ti_def sel_index_def)
qed

section \<open>After an error\<close>

text \<open>An operating system that lets the process tear down its machine.\<close>

definition tearDownOK :: "'o halenv \<Rightarrow> bool" where
  "tearDownOK he \<longleftrightarrow> (\<forall>s fd req. fst (os_ioctl he s fd req) = 0) \<and> (\<forall>s fd. fst (os_close he s fd) = 0)"

lemma tearDown_twp:
  assumes "tearDownOK he" "us_state u AND Plex86StateMemAllocated \<noteq> 0" "\<not> us_vgaDump u"
  shows "twp (plex86TearDown he) (\<lambda>r u'. r = 1 \<and> \<not> us_memLive u' \<and> us_netDev u' = us_netDev u) u"
proof -
  have state: "(us_state u AND - 3) AND 1 \<noteq> 0"
    using assms(2) by (simp add: and.assoc)
  have "twp (tearDownVM he) (\<lambda>ok u'. ok \<and> us_state u' AND 1 \<noteq> 0 \<and> us_netDev u' = us_netDev u) u"
    using assms state unfolding tearDownOK_def
    by (auto simp: tearDownVM_def split: prod.splits) (metis fst_conv zero_neq_neg_one less_irrefl)+
  then show ?thesis
    unfolding plex86TearDown_def twp_bnd by (rule twp_mono) auto
qed

end
