(* ===== verification/Props_Hal.thy ===== *)
theory Props_Hal
  imports Hal_Correct Props_Host
begin

text \<open>
  The properties of the user process: its console, disks and network devices, the images it loads and the
  state in which it starts the guest.
\<close>

section \<open>A process\<close>

text \<open>An operating system with one file, given by the offset of its descriptor and its contents.\<close>

definition sample_fs :: "(nat \<times> Bit8u list) halenv" where
  "sample_fs = \<lparr>os_open = (\<lambda>s path. (3, s)), os_close = (\<lambda>s fd. (0, s)),
     os_lseek = (\<lambda>s fd off. if 0 \<le> off then (off, (nat off, snd s)) else (- 1, s)),
     os_read = (\<lambda>s fd n. let bs = take n (drop (fst s) (snd s)) in ((int (length bs), 0, bs), (fst s + length bs, snd s))),
     os_write = (\<lambda>s fd bs. (int (length bs), (fst s + length bs, fileWrite (snd s) (fst s) bs))),
     os_fstat = (\<lambda>s fd. ((0, of_nat (length (snd s))), s)), os_ioctl = (\<lambda>s fd req. (0, s)),
     os_execute = (\<lambda>s fd cpu mem. ((0, 0, 0, cpu, mem), s)), os_script = (\<lambda>s path. ((True, True, 0), s))\<rparr>"

text \<open>One with a network device on which \<open>n\<close> frames of 64 bytes wait.\<close>

definition sample_tap :: "nat halenv" where
  "sample_tap = \<lparr>os_open = (\<lambda>s path. (3, s)), os_close = (\<lambda>s fd. (0, s)), os_lseek = (\<lambda>s fd off. (- 1, s)),
     os_read = (\<lambda>s fd n. if s = 0 \<or> n < 64 then ((- 1, EAGAIN, []), s) else ((64, 0, replicate 64 1), s - 1)),
     os_write = (\<lambda>s fd bs. (int (length bs), s)), os_fstat = (\<lambda>s fd. ((- 1, 0), s)), os_ioctl = (\<lambda>s fd req. (0, s)),
     os_execute = (\<lambda>s fd cpu mem. ((0, 0, 0, cpu, mem), s)), os_script = (\<lambda>s path. ((True, True, 0), s))\<rparr>"

definition sample_user :: "'o \<Rightarrow> 'o user_t" where
  "sample_user s = \<lparr>us_mem = (\<lambda>_. 0), us_memLive = True, us_memSize = 0x400000, us_cpu = zero_guest_cpu,
     us_guestCPUID = zero_cpuid_info, us_stderr = [], us_state = 3, us_fd = 4, us_vgaDump = False,
     us_conDev = (\<lambda>_. \<lparr>cd_registered = 1, cd_guestRwAreaPAddr = 0x1000, cd_guestRwAreaLen = 0x1000, cd_guestRwArea = Some 0x1000\<rparr>),
     us_conLine = (\<lambda>_. 0), us_conLineI = 0,
     us_disk = (\<lambda>_. \<lparr>dk_enabled = 1, dk_fileNo = 3, dk_pathName = [], dk_numSectors = 4, dk_cylinders = 1, dk_heads = 1, dk_spt = 4\<rparr>),
     us_netDev = (\<lambda>_. \<lparr>nd_registered = 1, nd_guestRxAreaPAddr = 0x2000, nd_guestRxAreaLen = 0x1000, nd_guestRxArea = Some 0x2000\<rparr>),
     us_fdTunTap = 3, us_netConsumer = 0, us_netProducer = 0, us_os = s\<rparr>"

definition call_regs :: "Bit32u \<Rightarrow> Bit32u \<Rightarrow> Bit32u \<Rightarrow> Bit32u \<Rightarrow> guest_cpu_t" where
  "call_regs eax ebx ecx edx = zero_guest_cpu\<lparr>cpu_genReg := (\<lambda>_. 0)(GenRegEAX := eax, GenRegEBX := ebx, GenRegECX := ecx, GenRegEDX := edx)\<rparr>"

lemma call_regs_simps [simp]:
  "cpu_genReg (call_regs eax ebx ecx edx) 0 = eax" "cpu_genReg (call_regs eax ebx ecx edx) 3 = ebx"
  "cpu_genReg (call_regs eax ebx ecx edx) (Suc 0) = ecx" "cpu_genReg (call_regs eax ebx ecx edx) 2 = edx"
  by (simp_all add: call_regs_def)

lemma sample_user_simps [simp]:
  "us_mem (sample_user s) = (\<lambda>_. 0)" "us_memLive (sample_user s)" "us_memSize (sample_user s) = 0x400000"
  "us_cpu (sample_user s) = zero_guest_cpu" "us_conLineI (sample_user s) = 0" "us_stderr (sample_user s) = []"
  "cd_guestRwArea (us_conDev (sample_user s) k) = Some 0x1000" "cd_registered (us_conDev (sample_user s) k) = 1"
  "nd_guestRxArea (us_netDev (sample_user s) k) = Some 0x2000" "nd_registered (us_netDev (sample_user s) k) = 1"
  "dk_fileNo (us_disk (sample_user s) k) = 3" "us_os (sample_user s) = s" "us_fdTunTap (sample_user s) = 3"
  "us_state (sample_user s) = 3" "\<not> us_vgaDump (sample_user s)" "us_fd (sample_user s) = 4"
  by (simp_all add: sample_user_def)

lemma sample_user_ok: "hal_inv (sample_user s)" "conOK (sample_user s)"
  by (auto simp: hal_inv_defs conOK_def)

lemma sample_fits: "memFits (sample_user s) a n = (a + n \<le> 0x400000)"
  by (simp add: memFits_def)

lemma sample_reads: "readFits sample_fs" "readFits sample_tap"
  by (auto simp: readFits_def sample_fs_def sample_tap_def Let_def split: if_splits)

lemma sample_file: "regularFile sample_fs fd fst snd"
  by (auto simp: regularFile_def sample_fs_def Let_def)

section \<open>Console\<close>

text \<open>What the guest writes to its console is appended character by character to what is printed, however the
  text is split into calls: the array with its index implements a list of lines and a line in the making. Lines of at
  most 80 characters come out exactly as they are, with control characters shown as spaces.\<close>

theorem console_prints:
  assumes "conOK u" "cd_guestRwArea (us_conDev u 0) = Some a" "memFits u a halConGuestRwArea_size"
    "cpu_genReg (us_cpu u) GenRegEBX = 0" "unat (cpu_genReg (us_cpu u) GenRegEDX) \<le> MaxConsoleFrameSize"
    "bs = peekBytes (us_mem u) (a + con_txBuffer) (unat (cpu_genReg (us_cpu u) GenRegEDX))"
  shows "twp (halConCall he HalCallConGuestWrite) (\<lambda>_ u'. conOK u' \<and> us_mem u' = us_mem u \<and>
     cpu_genReg (us_cpu u') GenRegEAX = 1 \<and> conView u' = foldl conAdd (conView u) bs \<and>
     (shortLines (unat (us_conLineI u)) bs \<and> unat (us_conLineI u) < LineLen \<longrightarrow>
        conText (conView u') = conText (conView u) @ map conShown bs)) u"
proof -
  have "bs = map (\<lambda>i. us_mem u (a + con_txBuffer + i)) [0..<unat (cpu_genReg (us_cpu u) GenRegEDX)]"
    using assms(6) by (simp add: peekBytes_def)
  then show ?thesis
    using halConWrite_twp [OF assms(1-5), of he] console_lines [of "conView u" bs]
    by (auto simp: halConCall_def length_conView elim!: twp_mono)
qed

definition con_user :: "(nat \<times> Bit8u list) user_t" where
  "con_user = (sample_user (0, []))\<lparr>us_mem := putBytes 0x1408 [0x48, 0x07, 0x0a] (\<lambda>_. 0), us_cpu := call_regs 3 0 0 3\<rparr>"

theorem console_prints_witness:
  "twp (halConCall sample_fs HalCallConGuestWrite) (\<lambda>_ u'. conText (conView u') = [0x48, 0x20, 0x0a]) con_user"
proof -
  have *: "[0x48, 0x07, 0x0a] = peekBytes (us_mem con_user) (0x1000 + con_txBuffer) (unat (cpu_genReg (us_cpu con_user) GenRegEDX))"
    by (simp add: con_user_def peek_putBytes)
  have "conOK con_user" "cd_guestRwArea (us_conDev con_user 0) = Some 0x1000" "memFits con_user 0x1000 halConGuestRwArea_size"
    "cpu_genReg (us_cpu con_user) GenRegEBX = 0" "unat (cpu_genReg (us_cpu con_user) GenRegEDX) \<le> MaxConsoleFrameSize"
    "unat (us_conLineI con_user) = 0" "conText (conView con_user) = []"
    by (simp_all add: con_user_def conOK_def memFits_def conText_def conView_def)
  then show ?thesis
    by (intro twp_mono [OF console_prints [OF _ _ _ _ _ *, where he = sample_fs]])
      (auto simp: LineLen_def conShown_def isgraph_def)
qed

section \<open>Disks\<close>

text \<open>A sector that the guest writes is the one it reads back, at any other address, and no other sector of the
  disk changes: an image file is an array of sectors, for sector numbers below 2 to the 22.\<close>

theorem disk_roundtrip:
  assumes "diskRequest u a sector unit" "sector < 0x400000" "regularFile he (dk_fileNo (us_disk u unit)) pos data"
    "diskRequest (u\<lparr>us_cpu := cpu\<rparr>) b sector unit"
  shows "twp (thn (halDiskCall he HalCallDiskWrite) (thn (modify (\<lambda>u. u\<lparr>us_cpu := cpu\<rparr>)) (halDiskCall he HalCallDiskRead)))
    (\<lambda>_ u'. us_mem u' = putBytes b (peekBytes (us_mem u) a 512) (us_mem u) \<and> cpu_genReg (us_cpu u') GenRegEAX = 1 \<and>
       (\<forall>k. diskSector (data (us_os u')) k =
          (if k = sector then peekBytes (us_mem u) a 512 else diskSector (data (us_os u)) k))) u"
proof -
  let ?bs = "peekBytes (us_mem u) a 512"
  have read: "twp (halDiskRead he) (\<lambda>_ u'. us_mem u' = putBytes b ?bs (us_mem u) \<and> cpu_genReg (us_cpu u') GenRegEAX = 1 \<and>
       (\<forall>k. diskSector (data (us_os u')) k = (if k = sector then ?bs else diskSector (data (us_os u)) k))) (u'\<lparr>us_cpu := cpu\<rparr>)"
    if u': "u' = (diskDone u)\<lparr>us_os := us_os u'\<rparr>" and d: "data (us_os u') = fileWrite (data (us_os u)) (512 * sector) ?bs" for u'
  proof -
    have *: "diskRequest (u'\<lparr>us_cpu := cpu\<rparr>) b sector unit" "us_mem u' = us_mem u" "us_disk u' = us_disk u"
      using assms(4) by (subst u', simp add: diskRequest_def diskDone_def)+
    have sec: "diskSector (data (us_os u')) k = (if k = sector then ?bs else diskSector (data (us_os u)) k)" for k
      unfolding d by (rule diskSector_write) simp
    have "twp (halDiskRead he) (\<lambda>_ u''. u'' = (diskDone (u'\<lparr>us_cpu := cpu\<rparr>))\<lparr>us_os := us_os u'', us_mem := us_mem u''\<rparr> \<and>
        data (us_os u'') = data (us_os u') \<and> us_mem u'' = putBytes b (diskSector (data (us_os u')) sector) (us_mem u')) (u'\<lparr>us_cpu := cpu\<rparr>)"
      using halDiskRead_twp [OF *(1) assms(2), of he pos data] assms(3) *(3) d by (simp add: length_fileWrite)
    then show ?thesis
      by (rule twp_mono) (use sec *(2) in \<open>auto simp: diskDone_def dest!: arg_cong [where f = us_cpu]\<close>)
  qed
  show ?thesis
    unfolding twp_thn
    by (rule twp_mono [where P = "\<lambda>_ u'. u' = (diskDone u)\<lparr>us_os := us_os u'\<rparr> \<and>
          data (us_os u') = fileWrite (data (us_os u)) (512 * sector) ?bs"])
      (use halDiskWrite_twp [OF assms(1-3)] read in \<open>auto simp: halDiskCall_def\<close>)
qed

definition disk_user :: "(nat \<times> Bit8u list) user_t" where
  "disk_user = (sample_user (0, []))\<lparr>us_mem := (\<lambda>i. of_nat i), us_cpu := call_regs 6 0x3000 2 1\<rparr>"

theorem disk_roundtrip_witness:
  "twp (thn (halDiskCall sample_fs HalCallDiskWrite)
     (thn (modify (\<lambda>u. u\<lparr>us_cpu := call_regs 7 0x5000 2 1\<rparr>)) (halDiskCall sample_fs HalCallDiskRead)))
    (\<lambda>_ u'. peekBytes (us_mem u') 0x5000 512 = peekBytes (\<lambda>i. of_nat i) 0x3000 512) disk_user"
proof -
  have "diskRequest disk_user 0x3000 2 1" "diskRequest (disk_user\<lparr>us_cpu := call_regs 7 0x5000 2 1\<rparr>) 0x5000 2 1"
    by (simp_all add: disk_user_def diskRequest_def)
  then show ?thesis
    by (intro twp_mono [OF disk_roundtrip [OF _ _ sample_file]]) (auto simp: disk_user_def peek_putBytes)
qed

text \<open>The offset of a sector is computed in 32 bits: sector numbers that differ by 2 to the 23 are the same place of the file.\<close>

lemma disk_sectors_alias: "push_bit 9 (sector + 0x800000 :: Bit32u) = push_bit 9 sector"
  by (simp add: push_bit_add)

text \<open>The example in the comment of \<^verbatim>\<open>halDiskInit\<close> is refused: the format has the geometry in lower case.\<close>

lemma disk_comment_example:
  "scanFields [''sectors='', '',chs='', ''/'', ''/''] (bytesOf ''sectors=4096,CHS=64/4/16'') = [4096]"
  "scanFields [''sectors='', '',chs='', ''/'', ''/''] (bytesOf ''sectors=4096,chs=64/4/16'') = [4096, 64, 4, 16]"
  by (simp_all add: scanLit_def bytesOf_def scanU_def Let_def isspaceB_def isdigitB_def digitsVal_def)

section \<open>Memory\<close>



text \<open>The two provisos are needed. The check on the address leaves room for one entry, but one per unit is written.\<close>

lemma disk_info_overruns:
  assumes "us_memLive u" "\<And>k. dk_enabled (us_disk u k) = 0" "0x400000 \<le> unat (us_memSize u)"
    "cpu_genReg (us_cpu u) GenRegEBX = us_memSize u - 21"
  shows "halDiskCall he HalCallDiskGetInfo u = Undef ''plex86MemPtr''"
proof -
  let ?sz = "unat (us_memSize u)"
  have a: "unat (us_memSize u - 21) = ?sz - 21" "\<not> us_memSize u - 20 \<le> us_memSize u - 21"
    using assms(3) by (simp_all add: unat_sub word_le_nat_alt)
  have fits: "?sz - 21 + 20 \<le> ?sz" "\<not> ?sz - 21 + 20 + 20 \<le> ?sz"
    using assms(3) by linarith+
  show ?thesis
    using a fits assms
    by (simp add: halDiskCall_def halDiskGetInfo_def usReg_def upt_rec diskInfoUnit_def memWrite_def memFits_def updDisk_def
        bnd_def thn_def)
qed

lemma console_unregistered:
  assumes "conOK u" "cd_guestRwArea (us_conDev u 0) = None" "cpu_genReg (us_cpu u) GenRegEBX = 0"
    "0 < unat (cpu_genReg (us_cpu u) GenRegEDX)" "unat (cpu_genReg (us_cpu u) GenRegEDX) \<le> MaxConsoleFrameSize"
  shows "halConCall he HalCallConGuestWrite u = Undef ''guestRwArea''"
proof -
  obtain u' where "conFlush u = Ret () u'" "conRest u' = conRest u"
    using conFlush_twp [OF assms(1)] by (auto simp: twp_iff)
  then have "conTurn 0 u = Undef ''guestRwArea''"
    using assms(2) by (simp add: conTurn_def conFetch_def conRest_def bnd_def thn_def)
  then show ?thesis
    using assms by (simp add: halConCall_def halConWrite_def usReg_def upt_rec bnd_def thn_def)
qed

text \<open>C36: After a disk call that fails the process goes on although its memory is gone: the next frame for the guest is
  written through a dangling pointer.\<close>

theorem disk_error_dangles:
  assumes "tearDownOK he" "us_state u AND Plex86StateMemAllocated \<noteq> 0" "\<not> us_vgaDump u"
    "cpu_genReg (us_cpu u) GenRegEAX = HalCallDiskRead" "HalDiskMaxDisks \<le> unat (cpu_genReg (us_cpu u) GenRegEDX)"
    "nd_registered (us_netDev u 0) \<noteq> 0" "nd_guestRxArea (us_netDev u 0) = Some a"
  shows "twp (halCall he) (\<lambda>r u'. r = 1 \<and> \<not> us_memLive u' \<and>
     halNetReadPacketToGuest he 0 u' = Undef ''plex86MemPtr'') u"
proof -
  let ?u = "u\<lparr>us_cpu := (us_cpu u)\<lparr>cpu_genReg := (cpu_genReg (us_cpu u))(GenRegEAX := 0)\<rparr>\<rparr>"
  have "halNetReadPacketToGuest he 0 u' = Undef ''plex86MemPtr''"
    if "\<not> us_memLive u'" "us_netDev u' = us_netDev u" for u'
    using that assms(6,7) by (simp add: halNetReadPacketToGuest_def rxArea_def memRead32_def memRead_def memFits_def bnd_def thn_def)
  then have "twp (plex86TearDown he) (\<lambda>_ u'. \<not> us_memLive u' \<and> halNetReadPacketToGuest he 0 u' = Undef ''plex86MemPtr'') ?u"
    using tearDown_twp [OF assms(1), of ?u] assms(2,3) by (auto elim!: twp_mono)
  then show ?thesis
    using assms(4,5)
    by (simp add: halCall_def usReg_def halDiskCall_def halDiskRead_def diskSeek_def diskError_def setEAX_def)
qed

definition bad_user :: "(nat \<times> Bit8u list) user_t" where
  "bad_user = (sample_user (0, []))\<lparr>us_cpu := call_regs 7 0x3000 0 9\<rparr>"

theorem disk_error_dangles_witness:
  "twp (halCall sample_fs) (\<lambda>r u'. r = 1 \<and> halNetReadPacketToGuest sample_fs 0 u' = Undef ''plex86MemPtr'') bad_user"
  by (rule twp_mono [OF disk_error_dangles [where a = "0x2000"]])
    (auto simp: tearDownOK_def sample_fs_def bad_user_def)

section \<open>Network\<close>

text \<open>A frame goes into the receive area of the guest when that is free, with its length padded to the 60 bytes of the
  shortest Ethernet frame and the interrupt line of the device; no byte outside the area changes, and a frame that
  the guest has not taken is never overwritten.\<close>

theorem net_receive:
  assumes "netArea u k a" "readFits he"
    "os_read he (us_os u) (us_fdTunTap u) MaxEthernetFrameSize = ((r, err, bs), s')" "0 < r"
  shows "if rxFull u a \<noteq> 0 then halNetReadPacketToGuest he k u = Ret () u
    else twp (halNetReadPacketToGuest he k) (\<lambda>_ u'. rxFull u' a = 1 \<and> unat (rxLen u' a) = max 60 (length bs) \<and>
     length bs \<le> MaxEthernetFrameSize \<and> peekBytes (us_mem u') (a + rx_rxBuffer) (length bs) = bs \<and>
     (\<forall>i. i < a \<or> a + halNetGuestRxArea_size \<le> i \<longrightarrow> us_mem u' i = us_mem u i) \<and> cpu_halIrq (us_cpu u') = HalNet0Irq) u"
  proof (cases "rxFull u a = 0")
  case True
  show ?thesis
    using twp_mono [OF receive_twp [OF assms(1) True assms(2-4)]] True by simp
qed (use receive_full [OF assms(1)] in simp)

lemma sample_netArea: "netArea (sample_user s) 0 0x2000"
  by (simp add: netArea_def sample_fits)

theorem net_receive_witness:
  "twp (halNetReadPacketToGuest sample_tap 0) (\<lambda>_ u'. unat (rxLen u' 0x2000) = 64) (sample_user 2)"
proof -
  have read: "os_read sample_tap (us_os (sample_user 2)) (us_fdTunTap (sample_user (2 :: nat))) MaxEthernetFrameSize =
      ((64, 0, replicate 64 1), 1)"
    by (simp add: sample_tap_def)
  have "rxFull (sample_user (2 :: nat)) 0x2000 = 0" by (simp add: rxFull_def peekBytes_def le_word_def upt_rec)
  then show ?thesis
    using net_receive [OF sample_netArea sample_reads(2) read] by (auto elim!: twp_mono)
qed

text \<open>While the guest has no driver, the frames that arrive are dropped until none is left, and the guest's memory stays
  as it is. The loop that drops them ends if the queue is finite.\<close>

theorem net_drains:
  assumes "frameQueue he (us_fdTunTap u) waiting" "nd_registered (us_netDev u k) = 0"
  shows "twp (halNetReadPacketToGuest he k) (\<lambda>_ u'. waiting (us_os u') = 0 \<and>
     u' = u\<lparr>us_os := us_os u', us_netConsumer := us_netConsumer u + 1\<rparr>) u"
  by (rule drain_twp [OF assms])

theorem net_drains_witness:
  "twp (halNetReadPacketToGuest sample_tap 0) (\<lambda>_ u'. us_os u' = 0) ((sample_user (5::nat))\<lparr>us_netDev := (\<lambda>_. zero_halNetDev)\<rparr>)"
  by (rule twp_mono [OF net_drains [where waiting = "\<lambda>s. s"]])
    (auto simp: frameQueue_def sample_tap_def zero_halNetDev_def split: if_splits)

section \<open>Loading and starting\<close>

text \<open>An image that fits between its load address and the end of the memory is loaded whole, whatever pieces the
  operating system reads it in, and nothing else in the memory changes: the loop ends and returns the size of the file.\<close>

theorem image_loaded:
  assumes "us_memLive u" "addr \<le> us_memSize u" "os_open he (us_os u) path = (fd, s1)" "0 \<le> fd"
    "os_fstat he s1 fd = ((0, sz), s2)" "pos s2 = 0" "unat sz = length data" "imageFile he fd pos data"
    "sz \<le> us_memSize u - addr"
  shows "twp (loadImage he path addr (us_memSize u - addr)) (\<lambda>r u'. r = sz \<and>
     u' = u\<lparr>us_mem := putBytes (unat addr) data (us_mem u), us_os := us_os u'\<rparr>) u"
proof -
  have "memFits u (unat addr) (unat sz)"
    using assms(1,2,9) by (simp add: memFits_def word_le_nat_alt unat_sub)
  then show ?thesis
    by (rule loadImage_twp [OF assms(3-9)])
qed

text \<open>An operating system that reads a file of seven bytes in pieces of three.\<close>

definition seven :: "Bit8u list" where "seven = [1, 2, 3, 4, 5, 6, 7]"

definition sample_image :: "nat halenv" where
  "sample_image = \<lparr>os_open = (\<lambda>s path. (3, 0)), os_close = (\<lambda>s fd. (0, s)), os_lseek = (\<lambda>s fd off. (- 1, s)),
     os_read = (\<lambda>s fd n. let bs = take (min 3 n) (drop s seven) in ((int (length bs), 0, bs), s + length bs)),
     os_write = (\<lambda>s fd bs. (- 1, s)), os_fstat = (\<lambda>s fd. ((0, 7), s)), os_ioctl = (\<lambda>s fd req. (0, s)),
     os_execute = (\<lambda>s fd cpu mem. ((0, 0, 0, cpu, mem), s)), os_script = (\<lambda>s path. ((True, True, 0), s))\<rparr>"

theorem image_loaded_witness:
  "twp (loadImage sample_image [] 0x3ffff9 7) (\<lambda>r u'. r = 7 \<and> peekBytes (us_mem u') 0x3ffff9 7 = seven) (sample_user 0)"
proof -
  have "imageFile sample_image 3 (\<lambda>s. s) seven"
    by (auto simp: imageFile_def sample_image_def seven_def Let_def min_def)
  then have "twp (loadImage sample_image [] 0x3ffff9 (us_memSize (sample_user (0 :: nat)) - 0x3ffff9)) (\<lambda>r u'. r = 7 \<and>
      u' = (sample_user 0)\<lparr>us_mem := putBytes (unat (0x3ffff9 :: Bit32u)) seven (us_mem (sample_user (0 :: nat))), us_os := us_os u'\<rparr>)
      (sample_user 0)"
    by (intro image_loaded [of "sample_user 0" "0x3ffff9" sample_image "[]" 3 0 7 0 "\<lambda>s. s" seven])
      (simp_all add: sample_image_def seven_def)
  then have "twp (loadImage sample_image [] 0x3ffff9 7) (\<lambda>r u'. r = 7 \<and> us_mem u' = putBytes 0x3ffff9 seven (\<lambda>_. 0)) (sample_user 0)"
    by (auto elim!: twp_mono dest!: arg_cong [where f = us_mem])
  then show ?thesis by (rule twp_mono) (simp add: peek_putBytes seven_def)
qed

text \<open>Where the load address lies behind the memory the room that is left wraps around, and the image is written outside;
  \<^verbatim>\<open>main\<close> only prints a message in this case.\<close>

lemma image_overruns:
  assumes "os_open he (us_os u) path = (fd, s1)" "0 \<le> fd" "os_fstat he s1 fd = ((0, sz), s2)" "0 < sz"
    "os_read he s2 fd (unat sz) = ((r, err, bs), s3)" "0 < r" "length bs = nat r"
    "us_memSize u \<le> addr" "sz \<le> us_memSize u - addr"
  shows "loadImage he path addr (us_memSize u - addr) u = Undef ''plex86MemPtr''"
  by (rule loadImage_outside [OF assms])

text \<open>\<^verbatim>\<open>openFD\<close> answers -1 when there is no device, and its callers test for 0: a failed open goes unnoticed.\<close>

lemma open_failure_unnoticed:
  assumes "us_state u = Plex86StateMemAllocated" "\<And>s path. fst (os_open he s path) = - 1"
  shows "twp (openFD he) (\<lambda>r u'. r = - 1 \<and> r \<noteq> 0 \<and> us_fd u' = - 1) u"
proof -
  have "\<exists>s'. os_open he s path = (- 1, s')" for s path
    using assms(2) [of s path] by (cases "os_open he s path") simp
  then obtain f where "\<And>s path. os_open he s path = (- 1, f s path)" by metis
  then show ?thesis using assms(1) by (simp add: openFD_def)
qed

text \<open>C11: The state in which the process starts the guest is one the kernel module accepts: with the descriptors of the
  boot loader in memory and the page of registers cleared, the first execution on a machine that is ready enters the guest
  with the monitor's invariant.\<close>

theorem boot_state_runs:
  assumes "hal_inv u" "bootGdtOK u" "us_cpu u = zero_guest_cpu"
    "hostReady vm" "vm_vmState vm = VMStateReady" "vm_linuxVMMode vm \<noteq> 0" "ex_executeMethod msg = Plex86ExecuteMethodNative"
    "bit (he_hostEflags env) 9" "tablesDistinct (vm_pages vm)"
  shows "twp (thn initLinuxIOenvironment (initLinuxCPUMemenvironment he)) (\<lambda>_ u'.
     twp (hostIoctlExecute env msg) (\<lambda>r vm'. r = None \<and> pvi_inv vm' \<and>
       mon_inv 0x1c0 (nexusPDE vm) (map (vm_gdt vm) monSlots) vm') (vm\<lparr>vm_guest_cpu := us_cpu u'\<rparr>)) u"
proof -
  let ?u = "u\<lparr>us_cpu := (us_cpu u)\<lparr>cpu_INTR := 0, cpu_halIrq := - 1\<rparr>\<rparr>"
  have "twp (hostIoctlExecute env msg) (\<lambda>r vm'. r = None \<and> pvi_inv vm' \<and>
       mon_inv 0x1c0 (nexusPDE vm) (map (vm_gdt vm) monSlots) vm') (vm\<lparr>vm_guest_cpu := cpu\<rparr>)"
    if "executeRefusal True cpu = None" "d_dpl (sr_des (cpu_sreg cpu SRegCS)) = 0" for cpu
  proof -
    let ?vm = "vm\<lparr>vm_guest_cpu := cpu\<rparr>"
    have "hostReady ?vm" "nexusPDE ?vm = nexusPDE vm" using assms(4) by (simp_all add: hostReady_def nexusPDE_def)
    then show ?thesis
      using execute_accepted [of ?vm msg env] assms that by (auto elim!: twp_mono)
  qed
  moreover have "bootGdtOK ?u" using assms(2) by (simp add: bootGdtOK_def)
  ultimately have "twp (initLinuxCPUMemenvironment he) (\<lambda>_ u'.
     twp (hostIoctlExecute env msg) (\<lambda>r vm'. r = None \<and> pvi_inv vm' \<and>
       mon_inv 0x1c0 (nexusPDE vm) (map (vm_gdt vm) monSlots) vm') (vm\<lparr>vm_guest_cpu := us_cpu u'\<rparr>)) ?u"
    using assms(1,3) by (intro twp_mono [OF initLinuxCPUMem_twp]) (auto simp: zero_guest_cpu_def zero_guest_sreg_def)
  then show ?thesis by (simp add: initLinuxIOenvironment_def)
qed

definition boot_user :: "(nat \<times> Bit8u list) user_t" where
  "boot_user = (sample_user (0, []))\<lparr>us_mem := putBytes 0x91010 (word_bytes 0xffff) (putBytes 0x91014 (word_bytes 0x00cf9b00)
     (putBytes 0x91018 (word_bytes 0xffff) (putBytes 0x9101c (word_bytes 0x00cf9300) (\<lambda>_. 0))))\<rparr>"

theorem boot_state_runs_witness:
  "twp (thn initLinuxIOenvironment (initLinuxCPUMemenvironment sample_fs)) (\<lambda>_ u'.
     twp (hostIoctlExecute sample_env sample_execute) (\<lambda>r vm'. r = None \<and> ring3 (vm_context vm')) (ready_vm\<lparr>vm_guest_cpu := us_cpu u'\<rparr>)) boot_user"
proof -
  have "hal_inv boot_user" using sample_user_ok by (simp add: boot_user_def)
  moreover have "bootGdtOK boot_user"
    by (simp add: bootGdtOK_def boot_user_def BootloaderGDTAddr_def peek_putBytes)
  moreover have "us_cpu boot_user = zero_guest_cpu" by (simp add: boot_user_def)
  ultimately show ?thesis
    using ready_vm_ready sample_tables
    by (intro twp_mono [OF boot_state_runs [where vm = ready_vm and msg = sample_execute and env = sample_env]])
      (auto simp: sample_execute_def mon_inv_def elim!: twp_mono)
qed

end
