(* ===== verification/Boot_Vga.thy ===== *)
theory Boot_Vga
  imports Plex86_Prelude
begin

text \<open>
  The table of \<^verbatim>\<open>guest-kernel/linux/setup32.c\<close> with the accesses that bring a VGA adapter into text mode: the
  length of the access in bytes, whether it reads (0) or writes (1), the port and the value. For a read the value is the
  one that was seen when the table was recorded; the code does not look at it.
\<close>

type_synonym vgaIOEntry = "Bit16u \<times> Bit16u \<times> Bit16u \<times> Bit16u"

definition vgaIOLog :: "vgaIOEntry list" where
  "vgaIOLog =
    [(1, 0, 0x03cc, 0xc3), (1, 1, 0x03c2, 0xc3), (2, 1, 0x03b4, 0xaa0d), (1, 1, 0x03b4, 0x0d), (1, 0, 0x03b5, 0xff),
     (1, 0, 0x03cc, 0xc3), (1, 1, 0x03c2, 0xc2), (2, 1, 0x03d4, 0xaa0d), (1, 1, 0x03d4, 0x0d), (1, 0, 0x03d5, 0xff),
     (1, 0, 0x03da, 0xff), (1, 0, 0x03ba, 0x00), (1, 1, 0x03c0, 0x00), (2, 1, 0x03c4, 0x0100), (1, 1, 0x03c2, 0x67),
     (2, 1, 0x03c4, 0x0001), (2, 1, 0x03c4, 0x0302), (2, 1, 0x03c4, 0x0003), (2, 1, 0x03c4, 0x0204), (2, 1, 0x03c4, 0x0300),
     (2, 1, 0x03d4, 0x2011), (2, 1, 0x03d4, 0x5f00), (2, 1, 0x03d4, 0x4f01), (2, 1, 0x03d4, 0x5002), (2, 1, 0x03d4, 0x8203),
     (2, 1, 0x03d4, 0x5504), (2, 1, 0x03d4, 0x8105), (2, 1, 0x03d4, 0xbf06), (2, 1, 0x03d4, 0x1f07), (2, 1, 0x03d4, 0x0008),
     (2, 1, 0x03d4, 0x4f09), (2, 1, 0x03d4, 0x0d0a), (2, 1, 0x03d4, 0x0e0b), (2, 1, 0x03d4, 0x000c), (2, 1, 0x03d4, 0x000d),
     (2, 1, 0x03d4, 0x000e), (2, 1, 0x03d4, 0x000f), (2, 1, 0x03d4, 0x9c10), (2, 1, 0x03d4, 0x8e11), (2, 1, 0x03d4, 0x8f12),
     (2, 1, 0x03d4, 0x2813), (2, 1, 0x03d4, 0x1f14), (2, 1, 0x03d4, 0x9615), (2, 1, 0x03d4, 0xb916), (2, 1, 0x03d4, 0xa317),
     (2, 1, 0x03d4, 0xff18), (2, 1, 0x03ce, 0x0000), (2, 1, 0x03ce, 0x0001), (2, 1, 0x03ce, 0x0002), (2, 1, 0x03ce, 0x0003),
     (2, 1, 0x03ce, 0x0004), (2, 1, 0x03ce, 0x1005), (2, 1, 0x03ce, 0x0e06), (2, 1, 0x03ce, 0x0007), (2, 1, 0x03ce, 0xff08),
     (1, 1, 0x03da, 0x00), (1, 1, 0x03c4, 0x01), (1, 0, 0x03c5, 0x00), (2, 1, 0x03c4, 0x2001), (1, 0, 0x03da, 0x00),
     (1, 1, 0x03c0, 0x00), (1, 1, 0x03c0, 0x00), (1, 1, 0x03c0, 0x01), (1, 1, 0x03c0, 0x01), (1, 1, 0x03c0, 0x02),
     (1, 1, 0x03c0, 0x02), (1, 1, 0x03c0, 0x03), (1, 1, 0x03c0, 0x03), (1, 1, 0x03c0, 0x04), (1, 1, 0x03c0, 0x04),
     (1, 1, 0x03c0, 0x05), (1, 1, 0x03c0, 0x05), (1, 1, 0x03c0, 0x06), (1, 1, 0x03c0, 0x14), (1, 1, 0x03c0, 0x07),
     (1, 1, 0x03c0, 0x07), (1, 1, 0x03c0, 0x08), (1, 1, 0x03c0, 0x38), (1, 1, 0x03c0, 0x09), (1, 1, 0x03c0, 0x39),
     (1, 1, 0x03c0, 0x0a), (1, 1, 0x03c0, 0x3a), (1, 1, 0x03c0, 0x0b), (1, 1, 0x03c0, 0x3b), (1, 1, 0x03c0, 0x0c),
     (1, 1, 0x03c0, 0x3c), (1, 1, 0x03c0, 0x0d), (1, 1, 0x03c0, 0x3d), (1, 1, 0x03c0, 0x0e), (1, 1, 0x03c0, 0x3e),
     (1, 1, 0x03c0, 0x0f), (1, 1, 0x03c0, 0x3f), (1, 1, 0x03c0, 0x10), (1, 1, 0x03c0, 0x0c), (1, 1, 0x03c0, 0x11),
     (1, 1, 0x03c0, 0x00), (1, 1, 0x03c0, 0x12), (1, 1, 0x03c0, 0x0f), (1, 1, 0x03c0, 0x13), (1, 1, 0x03c0, 0x08),
     (1, 0, 0x03da, 0x00), (1, 1, 0x03c0, 0x14), (1, 1, 0x03c0, 0x00), (1, 1, 0x03c6, 0xff), (1, 1, 0x03c8, 0x00),
     (1, 1, 0x03c9, 0x00), (1, 1, 0x03c9, 0x00), (1, 1, 0x03c9, 0x00), (1, 1, 0x03c9, 0x00), (1, 1, 0x03c9, 0x00),
     (1, 1, 0x03c9, 0x2a), (1, 1, 0x03c9, 0x00), (1, 1, 0x03c9, 0x2a), (1, 1, 0x03c9, 0x00), (1, 1, 0x03c9, 0x00),
     (1, 1, 0x03c9, 0x2a), (1, 1, 0x03c9, 0x2a), (1, 1, 0x03c9, 0x2a), (1, 1, 0x03c9, 0x00), (1, 1, 0x03c9, 0x00),
     (1, 1, 0x03c9, 0x2a), (1, 1, 0x03c9, 0x00), (1, 1, 0x03c9, 0x2a), (1, 1, 0x03c9, 0x2a), (1, 1, 0x03c9, 0x2a),
     (1, 1, 0x03c9, 0x00), (1, 1, 0x03c9, 0x2a), (1, 1, 0x03c9, 0x2a), (1, 1, 0x03c9, 0x2a), (1, 1, 0x03c9, 0x00),
     (1, 1, 0x03c9, 0x00), (1, 1, 0x03c9, 0x15), (1, 1, 0x03c9, 0x00), (1, 1, 0x03c9, 0x00), (1, 1, 0x03c9, 0x3f),
     (1, 1, 0x03c9, 0x00), (1, 1, 0x03c9, 0x2a), (1, 1, 0x03c9, 0x15), (1, 1, 0x03c9, 0x00), (1, 1, 0x03c9, 0x2a),
     (1, 1, 0x03c9, 0x3f), (1, 1, 0x03c9, 0x2a), (1, 1, 0x03c9, 0x00), (1, 1, 0x03c9, 0x15), (1, 1, 0x03c9, 0x2a),
     (1, 1, 0x03c9, 0x00), (1, 1, 0x03c9, 0x3f), (1, 1, 0x03c9, 0x2a), (1, 1, 0x03c9, 0x2a), (1, 1, 0x03c9, 0x15),
     (1, 1, 0x03c9, 0x2a), (1, 1, 0x03c9, 0x2a), (1, 1, 0x03c9, 0x3f), (1, 1, 0x03c9, 0x00), (1, 1, 0x03c9, 0x15),
     (1, 1, 0x03c9, 0x00), (1, 1, 0x03c9, 0x00), (1, 1, 0x03c9, 0x15), (1, 1, 0x03c9, 0x2a), (1, 1, 0x03c9, 0x00),
     (1, 1, 0x03c9, 0x3f), (1, 1, 0x03c9, 0x00), (1, 1, 0x03c9, 0x00), (1, 1, 0x03c9, 0x3f), (1, 1, 0x03c9, 0x2a),
     (1, 1, 0x03c9, 0x2a), (1, 1, 0x03c9, 0x15), (1, 1, 0x03c9, 0x00), (1, 1, 0x03c9, 0x2a), (1, 1, 0x03c9, 0x15),
     (1, 1, 0x03c9, 0x2a), (1, 1, 0x03c9, 0x2a), (1, 1, 0x03c9, 0x3f), (1, 1, 0x03c9, 0x00), (1, 1, 0x03c9, 0x2a),
     (1, 1, 0x03c9, 0x3f), (1, 1, 0x03c9, 0x2a), (1, 1, 0x03c9, 0x00), (1, 1, 0x03c9, 0x15), (1, 1, 0x03c9, 0x15),
     (1, 1, 0x03c9, 0x00), (1, 1, 0x03c9, 0x15), (1, 1, 0x03c9, 0x3f), (1, 1, 0x03c9, 0x00), (1, 1, 0x03c9, 0x3f),
     (1, 1, 0x03c9, 0x15), (1, 1, 0x03c9, 0x00), (1, 1, 0x03c9, 0x3f), (1, 1, 0x03c9, 0x3f), (1, 1, 0x03c9, 0x2a),
     (1, 1, 0x03c9, 0x15), (1, 1, 0x03c9, 0x15), (1, 1, 0x03c9, 0x2a), (1, 1, 0x03c9, 0x15), (1, 1, 0x03c9, 0x3f),
     (1, 1, 0x03c9, 0x2a), (1, 1, 0x03c9, 0x3f), (1, 1, 0x03c9, 0x15), (1, 1, 0x03c9, 0x2a), (1, 1, 0x03c9, 0x3f),
     (1, 1, 0x03c9, 0x3f), (1, 1, 0x03c9, 0x15), (1, 1, 0x03c9, 0x00), (1, 1, 0x03c9, 0x00), (1, 1, 0x03c9, 0x15),
     (1, 1, 0x03c9, 0x00), (1, 1, 0x03c9, 0x2a), (1, 1, 0x03c9, 0x15), (1, 1, 0x03c9, 0x2a), (1, 1, 0x03c9, 0x00),
     (1, 1, 0x03c9, 0x15), (1, 1, 0x03c9, 0x2a), (1, 1, 0x03c9, 0x2a), (1, 1, 0x03c9, 0x3f), (1, 1, 0x03c9, 0x00),
     (1, 1, 0x03c9, 0x00), (1, 1, 0x03c9, 0x3f), (1, 1, 0x03c9, 0x00), (1, 1, 0x03c9, 0x2a), (1, 1, 0x03c9, 0x3f),
     (1, 1, 0x03c9, 0x2a), (1, 1, 0x03c9, 0x00), (1, 1, 0x03c9, 0x3f), (1, 1, 0x03c9, 0x2a), (1, 1, 0x03c9, 0x2a),
     (1, 1, 0x03c9, 0x15), (1, 1, 0x03c9, 0x00), (1, 1, 0x03c9, 0x15), (1, 1, 0x03c9, 0x15), (1, 1, 0x03c9, 0x00),
     (1, 1, 0x03c9, 0x3f), (1, 1, 0x03c9, 0x15), (1, 1, 0x03c9, 0x2a), (1, 1, 0x03c9, 0x15), (1, 1, 0x03c9, 0x15),
     (1, 1, 0x03c9, 0x2a), (1, 1, 0x03c9, 0x3f), (1, 1, 0x03c9, 0x3f), (1, 1, 0x03c9, 0x00), (1, 1, 0x03c9, 0x15),
     (1, 1, 0x03c9, 0x3f), (1, 1, 0x03c9, 0x00), (1, 1, 0x03c9, 0x3f), (1, 1, 0x03c9, 0x3f), (1, 1, 0x03c9, 0x2a),
     (1, 1, 0x03c9, 0x15), (1, 1, 0x03c9, 0x3f), (1, 1, 0x03c9, 0x2a), (1, 1, 0x03c9, 0x3f), (1, 1, 0x03c9, 0x15),
     (1, 1, 0x03c9, 0x15), (1, 1, 0x03c9, 0x00), (1, 1, 0x03c9, 0x15), (1, 1, 0x03c9, 0x15), (1, 1, 0x03c9, 0x2a),
     (1, 1, 0x03c9, 0x15), (1, 1, 0x03c9, 0x3f), (1, 1, 0x03c9, 0x00), (1, 1, 0x03c9, 0x15), (1, 1, 0x03c9, 0x3f),
     (1, 1, 0x03c9, 0x2a), (1, 1, 0x03c9, 0x3f), (1, 1, 0x03c9, 0x15), (1, 1, 0x03c9, 0x00), (1, 1, 0x03c9, 0x3f),
     (1, 1, 0x03c9, 0x15), (1, 1, 0x03c9, 0x2a), (1, 1, 0x03c9, 0x3f), (1, 1, 0x03c9, 0x3f), (1, 1, 0x03c9, 0x00),
     (1, 1, 0x03c9, 0x3f), (1, 1, 0x03c9, 0x3f), (1, 1, 0x03c9, 0x2a), (1, 1, 0x03c9, 0x15), (1, 1, 0x03c9, 0x15),
     (1, 1, 0x03c9, 0x15), (1, 1, 0x03c9, 0x15), (1, 1, 0x03c9, 0x15), (1, 1, 0x03c9, 0x3f), (1, 1, 0x03c9, 0x15),
     (1, 1, 0x03c9, 0x3f), (1, 1, 0x03c9, 0x15), (1, 1, 0x03c9, 0x15), (1, 1, 0x03c9, 0x3f), (1, 1, 0x03c9, 0x3f),
     (1, 1, 0x03c9, 0x3f), (1, 1, 0x03c9, 0x15), (1, 1, 0x03c9, 0x15), (1, 1, 0x03c9, 0x3f), (1, 1, 0x03c9, 0x15),
     (1, 1, 0x03c9, 0x3f), (1, 1, 0x03c9, 0x3f), (1, 1, 0x03c9, 0x3f), (1, 1, 0x03c9, 0x15), (1, 1, 0x03c9, 0x3f),
     (1, 1, 0x03c9, 0x3f), (1, 1, 0x03c9, 0x3f), (2, 1, 0x03ce, 0x0005), (1, 1, 0x03ce, 0x06), (1, 0, 0x03cf, 0x0c),
     (2, 1, 0x03ce, 0x0406), (2, 1, 0x03c4, 0x0402), (2, 1, 0x03c4, 0x0604), (1, 1, 0x03c4, 0x01), (1, 0, 0x03c5, 0x20),
     (1, 0, 0x03cc, 0x67), (2, 1, 0x03ce, 0x0e06), (2, 1, 0x03ce, 0x1005), (2, 1, 0x03c4, 0x0302), (2, 1, 0x03c4, 0x0204),
     (1, 1, 0x03c4, 0x01), (1, 0, 0x03c5, 0x20), (2, 1, 0x03c4, 0x0001), (1, 0, 0x03da, 0x00), (1, 0, 0x03ba, 0xff),
     (1, 1, 0x03c0, 0x20), (1, 0, 0x03da, 0x00), (1, 0, 0x03ba, 0xff), (2, 1, 0x03d4, 0x000e), (2, 1, 0x03d4, 0x000f),
     (2, 1, 0x03d4, 0x000e), (2, 1, 0x03d4, 0x010f), (2, 1, 0x03d4, 0x000e), (2, 1, 0x03d4, 0x020f), (2, 1, 0x03d4, 0x000e),
     (2, 1, 0x03d4, 0x030f), (2, 1, 0x03d4, 0x000e), (2, 1, 0x03d4, 0x040f), (2, 1, 0x03d4, 0x000e), (2, 1, 0x03d4, 0x050f),
     (2, 1, 0x03d4, 0x000e), (2, 1, 0x03d4, 0x060f), (2, 1, 0x03d4, 0x000e), (2, 1, 0x03d4, 0x070f), (2, 1, 0x03d4, 0x000e),
     (2, 1, 0x03d4, 0x080f), (2, 1, 0x03d4, 0x000e), (2, 1, 0x03d4, 0x090f), (2, 1, 0x03d4, 0x000e), (2, 1, 0x03d4, 0x0a0f),
     (2, 1, 0x03d4, 0x000e), (2, 1, 0x03d4, 0x0b0f), (2, 1, 0x03d4, 0x000e), (2, 1, 0x03d4, 0x0c0f), (2, 1, 0x03d4, 0x000e),
     (2, 1, 0x03d4, 0x0d0f), (2, 1, 0x03d4, 0x000e), (2, 1, 0x03d4, 0x0e0f), (2, 1, 0x03d4, 0x000e), (2, 1, 0x03d4, 0x0f0f),
     (2, 1, 0x03d4, 0x000e), (2, 1, 0x03d4, 0x100f), (2, 1, 0x03d4, 0x000e), (2, 1, 0x03d4, 0x110f), (2, 1, 0x03d4, 0x000e),
     (2, 1, 0x03d4, 0x120f), (2, 1, 0x03d4, 0x000e), (2, 1, 0x03d4, 0x130f), (2, 1, 0x03d4, 0x000e), (2, 1, 0x03d4, 0x140f),
     (2, 1, 0x03d4, 0x000e), (2, 1, 0x03d4, 0x150f), (2, 1, 0x03d4, 0x000e), (2, 1, 0x03d4, 0x160f), (2, 1, 0x03d4, 0x000e),
     (2, 1, 0x03d4, 0x170f), (2, 1, 0x03d4, 0x000e), (2, 1, 0x03d4, 0x180f), (2, 1, 0x03d4, 0x000e), (2, 1, 0x03d4, 0x000f),
     (2, 1, 0x03d4, 0x000e), (2, 1, 0x03d4, 0x000f), (2, 1, 0x03d4, 0x000e), (2, 1, 0x03d4, 0x500f), (2, 1, 0x03d4, 0x000e),
     (2, 1, 0x03d4, 0x500f), (2, 1, 0x03d4, 0x000e), (2, 1, 0x03d4, 0x510f), (2, 1, 0x03d4, 0x000e), (2, 1, 0x03d4, 0x520f),
     (2, 1, 0x03d4, 0x000e), (2, 1, 0x03d4, 0x530f), (2, 1, 0x03d4, 0x000e), (2, 1, 0x03d4, 0x540f), (2, 1, 0x03d4, 0x000e),
     (2, 1, 0x03d4, 0x550f), (2, 1, 0x03d4, 0x000e), (2, 1, 0x03d4, 0x560f), (2, 1, 0x03d4, 0x000e), (2, 1, 0x03d4, 0x570f),
     (2, 1, 0x03d4, 0x000e), (2, 1, 0x03d4, 0x580f), (2, 1, 0x03d4, 0x000e), (2, 1, 0x03d4, 0x590f), (2, 1, 0x03d4, 0x000e),
     (2, 1, 0x03d4, 0x5a0f), (2, 1, 0x03d4, 0x000e), (2, 1, 0x03d4, 0x5b0f), (2, 1, 0x03d4, 0x000e), (2, 1, 0x03d4, 0x5c0f),
     (2, 1, 0x03d4, 0x000e), (2, 1, 0x03d4, 0x5d0f), (2, 1, 0x03d4, 0x000e), (2, 1, 0x03d4, 0x5e0f), (2, 1, 0x03d4, 0x000e),
     (2, 1, 0x03d4, 0x5f0f), (2, 1, 0x03d4, 0x000e), (2, 1, 0x03d4, 0x600f), (2, 1, 0x03d4, 0x000e), (2, 1, 0x03d4, 0x610f),
     (2, 1, 0x03d4, 0x000e), (2, 1, 0x03d4, 0x620f), (2, 1, 0x03d4, 0x000e), (2, 1, 0x03d4, 0x630f), (2, 1, 0x03d4, 0x000e),
     (2, 1, 0x03d4, 0x640f), (2, 1, 0x03d4, 0x000e), (2, 1, 0x03d4, 0x650f), (2, 1, 0x03d4, 0x000e), (2, 1, 0x03d4, 0x660f),
     (2, 1, 0x03d4, 0x000e), (2, 1, 0x03d4, 0x670f), (2, 1, 0x03d4, 0x000e), (2, 1, 0x03d4, 0x680f), (2, 1, 0x03d4, 0x000e),
     (2, 1, 0x03d4, 0x690f), (2, 1, 0x03d4, 0x000e), (2, 1, 0x03d4, 0x6a0f), (2, 1, 0x03d4, 0x000e), (2, 1, 0x03d4, 0x6b0f),
     (2, 1, 0x03d4, 0x000e), (2, 1, 0x03d4, 0x6c0f), (2, 1, 0x03d4, 0x000e), (2, 1, 0x03d4, 0x6d0f), (2, 1, 0x03d4, 0x000e),
     (2, 1, 0x03d4, 0x6e0f), (2, 1, 0x03d4, 0x000e), (2, 1, 0x03d4, 0x6f0f), (2, 1, 0x03d4, 0x000e), (2, 1, 0x03d4, 0x700f),
     (2, 1, 0x03d4, 0x000e), (2, 1, 0x03d4, 0x710f), (2, 1, 0x03d4, 0x000e), (2, 1, 0x03d4, 0x720f), (2, 1, 0x03d4, 0x000e),
     (2, 1, 0x03d4, 0x730f), (2, 1, 0x03d4, 0x000e), (2, 1, 0x03d4, 0x740f), (2, 1, 0x03d4, 0x000e), (2, 1, 0x03d4, 0x750f),
     (2, 1, 0x03d4, 0x000e), (2, 1, 0x03d4, 0x760f), (2, 1, 0x03d4, 0x000e), (2, 1, 0x03d4, 0x770f), (2, 1, 0x03d4, 0x000e),
     (2, 1, 0x03d4, 0x780f), (2, 1, 0x03d4, 0x000e), (2, 1, 0x03d4, 0x790f), (2, 1, 0x03d4, 0x000e), (2, 1, 0x03d4, 0x7a0f),
     (2, 1, 0x03d4, 0x000e), (2, 1, 0x03d4, 0x7b0f), (2, 1, 0x03d4, 0x000e), (2, 1, 0x03d4, 0x500f), (2, 1, 0x03d4, 0x000e),
     (2, 1, 0x03d4, 0x500f), (2, 1, 0x03d4, 0x000e), (2, 1, 0x03d4, 0xa00f), (2, 1, 0x03d4, 0x000e), (2, 1, 0x03d4, 0xa00f),
     (2, 1, 0x03d4, 0x000e), (2, 1, 0x03d4, 0xa10f), (2, 1, 0x03d4, 0x000e), (2, 1, 0x03d4, 0xa20f), (2, 1, 0x03d4, 0x000e),
     (2, 1, 0x03d4, 0xa30f), (2, 1, 0x03d4, 0x000e), (2, 1, 0x03d4, 0xa40f), (2, 1, 0x03d4, 0x000e), (2, 1, 0x03d4, 0xa50f),
     (2, 1, 0x03d4, 0x000e), (2, 1, 0x03d4, 0xa60f), (2, 1, 0x03d4, 0x000e), (2, 1, 0x03d4, 0xa70f), (2, 1, 0x03d4, 0x000e),
     (2, 1, 0x03d4, 0xa80f), (2, 1, 0x03d4, 0x000e), (2, 1, 0x03d4, 0xa90f), (2, 1, 0x03d4, 0x000e), (2, 1, 0x03d4, 0xaa0f),
     (2, 1, 0x03d4, 0x000e), (2, 1, 0x03d4, 0xab0f), (2, 1, 0x03d4, 0x000e), (2, 1, 0x03d4, 0xac0f), (2, 1, 0x03d4, 0x000e),
     (2, 1, 0x03d4, 0xad0f), (2, 1, 0x03d4, 0x000e), (2, 1, 0x03d4, 0xae0f), (2, 1, 0x03d4, 0x000e), (2, 1, 0x03d4, 0xaf0f),
     (2, 1, 0x03d4, 0x000e), (2, 1, 0x03d4, 0xb00f), (2, 1, 0x03d4, 0x000e), (2, 1, 0x03d4, 0xb10f), (2, 1, 0x03d4, 0x000e),
     (2, 1, 0x03d4, 0xb20f), (2, 1, 0x03d4, 0x000e), (2, 1, 0x03d4, 0xb30f), (2, 1, 0x03d4, 0x000e), (2, 1, 0x03d4, 0xb40f),
     (2, 1, 0x03d4, 0x000e), (2, 1, 0x03d4, 0xa00f), (2, 1, 0x03d4, 0x000e), (2, 1, 0x03d4, 0xa00f), (2, 1, 0x03d4, 0x000e),
     (2, 1, 0x03d4, 0xf00f), (2, 1, 0x03d4, 0x000e), (2, 1, 0x03d4, 0xf00f), (2, 1, 0x03d4, 0x000e), (2, 1, 0x03d4, 0xf00f),
     (2, 1, 0x03d4, 0x000e), (2, 1, 0x03d4, 0xf00f), (2, 1, 0x03d4, 0x000e), (2, 1, 0x03d4, 0xf00f), (2, 1, 0x03d4, 0x010e),
     (2, 1, 0x03d4, 0x400f), (2, 1, 0x03d4, 0x010e), (2, 1, 0x03d4, 0x400f), (2, 1, 0x03d4, 0x010e), (2, 1, 0x03d4, 0x410f),
     (2, 1, 0x03d4, 0x010e), (2, 1, 0x03d4, 0x420f), (2, 1, 0x03d4, 0x010e), (2, 1, 0x03d4, 0x430f), (2, 1, 0x03d4, 0x010e),
     (2, 1, 0x03d4, 0x440f), (2, 1, 0x03d4, 0x010e), (2, 1, 0x03d4, 0x450f), (2, 1, 0x03d4, 0x010e), (2, 1, 0x03d4, 0x460f),
     (2, 1, 0x03d4, 0x010e), (2, 1, 0x03d4, 0x470f), (2, 1, 0x03d4, 0x010e), (2, 1, 0x03d4, 0x480f), (2, 1, 0x03d4, 0x010e),
     (2, 1, 0x03d4, 0x490f), (2, 1, 0x03d4, 0x010e), (2, 1, 0x03d4, 0x4a0f), (2, 1, 0x03d4, 0x010e), (2, 1, 0x03d4, 0x4b0f),
     (2, 1, 0x03d4, 0x010e), (2, 1, 0x03d4, 0x4c0f), (2, 1, 0x03d4, 0x010e), (2, 1, 0x03d4, 0x4d0f), (2, 1, 0x03d4, 0x010e),
     (2, 1, 0x03d4, 0x4e0f), (2, 1, 0x03d4, 0x010e), (2, 1, 0x03d4, 0x4f0f), (2, 1, 0x03d4, 0x010e), (2, 1, 0x03d4, 0x500f),
     (2, 1, 0x03d4, 0x010e), (2, 1, 0x03d4, 0x510f), (2, 1, 0x03d4, 0x010e), (2, 1, 0x03d4, 0x520f), (2, 1, 0x03d4, 0x010e),
     (2, 1, 0x03d4, 0x530f), (2, 1, 0x03d4, 0x010e), (2, 1, 0x03d4, 0x540f), (2, 1, 0x03d4, 0x010e), (2, 1, 0x03d4, 0x550f),
     (2, 1, 0x03d4, 0x010e), (2, 1, 0x03d4, 0x560f), (2, 1, 0x03d4, 0x010e), (2, 1, 0x03d4, 0x570f), (2, 1, 0x03d4, 0x010e),
     (2, 1, 0x03d4, 0x580f), (2, 1, 0x03d4, 0x010e), (2, 1, 0x03d4, 0x590f), (2, 1, 0x03d4, 0x010e), (2, 1, 0x03d4, 0x5a0f),
     (2, 1, 0x03d4, 0x010e), (2, 1, 0x03d4, 0x5b0f), (2, 1, 0x03d4, 0x010e), (2, 1, 0x03d4, 0x5c0f), (2, 1, 0x03d4, 0x010e),
     (2, 1, 0x03d4, 0x5d0f), (2, 1, 0x03d4, 0x010e), (2, 1, 0x03d4, 0x5e0f), (2, 1, 0x03d4, 0x010e), (2, 1, 0x03d4, 0x5f0f),
     (2, 1, 0x03d4, 0x010e), (2, 1, 0x03d4, 0x600f), (2, 1, 0x03d4, 0x010e), (2, 1, 0x03d4, 0x610f), (2, 1, 0x03d4, 0x010e),
     (2, 1, 0x03d4, 0x620f), (2, 1, 0x03d4, 0x010e), (2, 1, 0x03d4, 0x630f), (2, 1, 0x03d4, 0x010e), (2, 1, 0x03d4, 0x640f),
     (2, 1, 0x03d4, 0x010e), (2, 1, 0x03d4, 0x650f), (2, 1, 0x03d4, 0x010e), (2, 1, 0x03d4, 0x660f), (2, 1, 0x03d4, 0x010e),
     (2, 1, 0x03d4, 0x670f), (2, 1, 0x03d4, 0x010e), (2, 1, 0x03d4, 0x680f), (2, 1, 0x03d4, 0x010e), (2, 1, 0x03d4, 0x690f),
     (2, 1, 0x03d4, 0x010e), (2, 1, 0x03d4, 0x6a0f), (2, 1, 0x03d4, 0x010e), (2, 1, 0x03d4, 0x6b0f), (2, 1, 0x03d4, 0x010e),
     (2, 1, 0x03d4, 0x6c0f), (2, 1, 0x03d4, 0x010e), (2, 1, 0x03d4, 0x6d0f), (2, 1, 0x03d4, 0x010e), (2, 1, 0x03d4, 0x6e0f),
     (2, 1, 0x03d4, 0x010e), (2, 1, 0x03d4, 0x6f0f), (2, 1, 0x03d4, 0x010e), (2, 1, 0x03d4, 0x700f), (2, 1, 0x03d4, 0x010e),
     (2, 1, 0x03d4, 0x710f), (2, 1, 0x03d4, 0x010e), (2, 1, 0x03d4, 0x720f), (2, 1, 0x03d4, 0x010e), (2, 1, 0x03d4, 0x730f),
     (2, 1, 0x03d4, 0x010e), (2, 1, 0x03d4, 0x740f), (2, 1, 0x03d4, 0x010e), (2, 1, 0x03d4, 0x750f), (2, 1, 0x03d4, 0x010e),
     (2, 1, 0x03d4, 0x760f), (2, 1, 0x03d4, 0x010e), (2, 1, 0x03d4, 0x770f), (2, 1, 0x03d4, 0x010e), (2, 1, 0x03d4, 0x780f),
     (2, 1, 0x03d4, 0x010e), (2, 1, 0x03d4, 0x790f), (2, 1, 0x03d4, 0x010e), (2, 1, 0x03d4, 0x7a0f), (2, 1, 0x03d4, 0x010e),
     (2, 1, 0x03d4, 0x7b0f), (2, 1, 0x03d4, 0x010e), (2, 1, 0x03d4, 0x7c0f), (2, 1, 0x03d4, 0x010e), (2, 1, 0x03d4, 0x7d0f),
     (2, 1, 0x03d4, 0x010e), (2, 1, 0x03d4, 0x7e0f), (2, 1, 0x03d4, 0x010e), (2, 1, 0x03d4, 0x7f0f), (2, 1, 0x03d4, 0x010e),
     (2, 1, 0x03d4, 0x800f), (2, 1, 0x03d4, 0x010e), (2, 1, 0x03d4, 0x810f), (2, 1, 0x03d4, 0x010e), (2, 1, 0x03d4, 0x820f),
     (2, 1, 0x03d4, 0x010e), (2, 1, 0x03d4, 0x400f), (2, 1, 0x03d4, 0x010e), (2, 1, 0x03d4, 0x400f), (2, 1, 0x03d4, 0x010e),
     (2, 1, 0x03d4, 0x900f), (2, 1, 0x03d4, 0x010e), (2, 1, 0x03d4, 0x900f), (2, 1, 0x03d4, 0x010e), (2, 1, 0x03d4, 0x910f),
     (2, 1, 0x03d4, 0x010e), (2, 1, 0x03d4, 0x920f), (2, 1, 0x03d4, 0x010e), (2, 1, 0x03d4, 0x930f), (2, 1, 0x03d4, 0x010e),
     (2, 1, 0x03d4, 0x940f), (2, 1, 0x03d4, 0x010e), (2, 1, 0x03d4, 0x950f), (2, 1, 0x03d4, 0x010e), (2, 1, 0x03d4, 0x960f),
     (2, 1, 0x03d4, 0x010e), (2, 1, 0x03d4, 0x970f), (2, 1, 0x03d4, 0x010e), (2, 1, 0x03d4, 0x980f), (2, 1, 0x03d4, 0x010e),
     (2, 1, 0x03d4, 0x990f), (2, 1, 0x03d4, 0x010e), (2, 1, 0x03d4, 0x9a0f), (2, 1, 0x03d4, 0x010e), (2, 1, 0x03d4, 0x9b0f),
     (2, 1, 0x03d4, 0x010e), (2, 1, 0x03d4, 0x9c0f), (2, 1, 0x03d4, 0x010e), (2, 1, 0x03d4, 0x9d0f), (2, 1, 0x03d4, 0x010e),
     (2, 1, 0x03d4, 0x9e0f), (2, 1, 0x03d4, 0x010e), (2, 1, 0x03d4, 0x9f0f), (2, 1, 0x03d4, 0x010e), (2, 1, 0x03d4, 0xa00f),
     (2, 1, 0x03d4, 0x010e), (2, 1, 0x03d4, 0xa10f), (2, 1, 0x03d4, 0x010e), (2, 1, 0x03d4, 0xa20f), (2, 1, 0x03d4, 0x010e),
     (2, 1, 0x03d4, 0xa30f), (2, 1, 0x03d4, 0x010e), (2, 1, 0x03d4, 0xa40f), (2, 1, 0x03d4, 0x010e), (2, 1, 0x03d4, 0xa50f),
     (2, 1, 0x03d4, 0x010e), (2, 1, 0x03d4, 0xa60f), (2, 1, 0x03d4, 0x010e), (2, 1, 0x03d4, 0xa70f), (2, 1, 0x03d4, 0x010e),
     (2, 1, 0x03d4, 0xa80f), (2, 1, 0x03d4, 0x010e), (2, 1, 0x03d4, 0xa90f), (2, 1, 0x03d4, 0x010e), (2, 1, 0x03d4, 0xaa0f),
     (2, 1, 0x03d4, 0x010e), (2, 1, 0x03d4, 0xab0f), (2, 1, 0x03d4, 0x010e), (2, 1, 0x03d4, 0xac0f), (2, 1, 0x03d4, 0x010e),
     (2, 1, 0x03d4, 0xad0f), (2, 1, 0x03d4, 0x010e), (2, 1, 0x03d4, 0xae0f), (2, 1, 0x03d4, 0x010e), (2, 1, 0x03d4, 0xaf0f),
     (2, 1, 0x03d4, 0x010e), (2, 1, 0x03d4, 0xb00f), (2, 1, 0x03d4, 0x010e), (2, 1, 0x03d4, 0xb10f), (2, 1, 0x03d4, 0x010e),
     (2, 1, 0x03d4, 0xb20f), (2, 1, 0x03d4, 0x010e), (2, 1, 0x03d4, 0xb30f), (2, 1, 0x03d4, 0x010e), (2, 1, 0x03d4, 0xb40f),
     (2, 1, 0x03d4, 0x010e), (2, 1, 0x03d4, 0xb50f), (2, 1, 0x03d4, 0x010e), (2, 1, 0x03d4, 0xb60f), (2, 1, 0x03d4, 0x010e),
     (2, 1, 0x03d4, 0xb70f), (2, 1, 0x03d4, 0x010e), (2, 1, 0x03d4, 0xb80f), (2, 1, 0x03d4, 0x010e), (2, 1, 0x03d4, 0xb90f),
     (2, 1, 0x03d4, 0x010e), (2, 1, 0x03d4, 0xba0f), (2, 1, 0x03d4, 0x010e), (2, 1, 0x03d4, 0xbb0f), (2, 1, 0x03d4, 0x010e),
     (2, 1, 0x03d4, 0xbc0f), (2, 1, 0x03d4, 0x010e), (2, 1, 0x03d4, 0xbd0f), (2, 1, 0x03d4, 0x010e), (2, 1, 0x03d4, 0xbe0f),
     (2, 1, 0x03d4, 0x010e), (2, 1, 0x03d4, 0xbf0f), (2, 1, 0x03d4, 0x010e), (2, 1, 0x03d4, 0xc00f), (2, 1, 0x03d4, 0x010e),
     (2, 1, 0x03d4, 0xc10f), (2, 1, 0x03d4, 0x010e), (2, 1, 0x03d4, 0x900f), (2, 1, 0x03d4, 0x010e), (2, 1, 0x03d4, 0xe00f),
     (2, 1, 0x03d4, 0x020e), (2, 1, 0x03d4, 0x300f), (2, 1, 0x03d4, 0x020e), (2, 1, 0x03d4, 0x310f), (2, 1, 0x03d4, 0x020e),
     (2, 1, 0x03d4, 0x320f), (2, 1, 0x03d4, 0x020e), (2, 1, 0x03d4, 0x330f), (2, 1, 0x03d4, 0x020e), (2, 1, 0x03d4, 0x340f),
     (2, 1, 0x03d4, 0x020e), (2, 1, 0x03d4, 0x350f), (2, 1, 0x03d4, 0x020e), (2, 1, 0x03d4, 0x360f), (2, 1, 0x03d4, 0x020e),
     (2, 1, 0x03d4, 0x370f), (2, 1, 0x03d4, 0x020e), (2, 1, 0x03d4, 0x380f), (2, 1, 0x03d4, 0x020e), (2, 1, 0x03d4, 0x390f),
     (2, 1, 0x03d4, 0x020e), (2, 1, 0x03d4, 0x3a0f), (2, 1, 0x03d4, 0x020e), (2, 1, 0x03d4, 0x3b0f), (2, 1, 0x03d4, 0x020e),
     (2, 1, 0x03d4, 0x3c0f), (2, 1, 0x03d4, 0x020e), (2, 1, 0x03d4, 0x3d0f), (2, 1, 0x03d4, 0x020e), (2, 1, 0x03d4, 0x3e0f),
     (2, 1, 0x03d4, 0x020e), (2, 1, 0x03d4, 0x3f0f), (2, 1, 0x03d4, 0x020e), (2, 1, 0x03d4, 0x400f), (2, 1, 0x03d4, 0x020e),
     (2, 1, 0x03d4, 0x410f), (2, 1, 0x03d4, 0x020e), (2, 1, 0x03d4, 0x420f), (2, 1, 0x03d4, 0x020e), (2, 1, 0x03d4, 0x300f),
     (2, 1, 0x03d4, 0x020e), (2, 1, 0x03d4, 0x800f), (2, 1, 0x03d4, 0x020e), (2, 1, 0x03d4, 0xd00f)]"

text \<open>No entry reaches the \<^verbatim>\<open>panic\<close> of the loop over the table, and the values of single bytes fit.\<close>

definition vgaEntryOK :: "vgaIOEntry \<Rightarrow> bool" where
  "vgaEntryOK e = (case e of (len, op, port, val) \<Rightarrow> (len = 1 \<and> val < 0x100 \<or> len = 2) \<and> (op = 0 \<or> op = 1))"

lemma vgaIOLog_ok: "list_all vgaEntryOK vgaIOLog"
  by (simp add: vgaIOLog_def vgaEntryOK_def)

end
