(* ===== verification/Boot_Loader.thy ===== *)
theory Boot_Loader
  imports Boot_Vga Hal_Disk
begin

text \<open>
  The boot loader that runs inside the guest before its kernel, \<^verbatim>\<open>guest-kernel/linux/setup32.c\<close>: the split of its
  command line, its options, the setup page it leaves for the Linux kernel, and the accesses to the devices. The
  machine code of \<^verbatim>\<open>setup32-entry.S\<close> that calls it, its stack and the text of the program are not part of the state.
\<close>

section \<open>The machine under the boot loader\<close>

text \<open>
  Physical memory of \<open>bt_memSize\<close> bytes, through flat segments; an access behind it has no result. \<open>bt_io\<close> are the
  accesses to ports, in order. What the devices answer is an argument \<open>bus\<close> of the definitions that read a port: a function
  of the accesses so far.
\<close>

datatype busOp = InB Bit16u | InW Bit16u | OutB Bit16u Bit8u | OutW Bit16u Bit16u

record boot_t =
  bt_mem :: "nat \<Rightarrow> Bit8u"
  bt_memSize :: nat
  bt_plex86MemSize :: Bit32u
  bt_initrdImageLoadAddr :: Bit32u
  bt_initrdImageSize :: Bit32u
  bt_initIO :: Bit32u
  bt_io :: "busOp list"

type_synonym 'a boot = "(boot_t, 'a) comp"
type_synonym bus = "busOp list \<Rightarrow> Bit16u \<Rightarrow> Bit16u"

text \<open>The variables at the start.\<close>

definition boot_start :: "(nat \<Rightarrow> Bit8u) \<Rightarrow> nat \<Rightarrow> boot_t" where
  "boot_start m n = \<lparr>bt_mem = m, bt_memSize = n, bt_plex86MemSize = 0, bt_initrdImageLoadAddr = 0, bt_initrdImageSize = 0,
     bt_initIO = 0, bt_io = []\<rparr>"

definition LinuxKernelStart :: Bit32u where "LinuxKernelStart = 0x100000"
definition KernelSetupSize :: nat where "KernelSetupSize = 2048"
definition BootloaderCLSize :: nat where "BootloaderCLSize = 2048"
definition kernelSetupArea :: nat where "kernelSetupArea = 0x90000"
definition bootloaderCommandLine :: nat where "bootloaderCommandLine = 0x91800"
definition ARGV_MAX :: nat where "ARGV_MAX = 64"

lemmas boot_consts [simp] = KernelSetupSize_def BootloaderCLSize_def kernelSetupArea_def bootloaderCommandLine_def ARGV_MAX_def

text \<open>\<^verbatim>\<open>cli; hlt\<close>: the processor stops with interrupts masked. Only an NMI would go on behind it, and the monitor delivers
  none: its emulation of HLT with the interrupts masked is a panic of the machine.\<close>

definition boot_panic :: "'a boot" where "boot_panic = halt ''cli; hlt''"

definition peek :: "nat \<Rightarrow> Bit8u boot" where
  "peek a = bnd (gets (\<lambda>s. a < bt_memSize s)) (\<lambda>ok. thn (inBounds ''memory'' ok) (gets (\<lambda>s. bt_mem s a)))"

definition poke :: "nat \<Rightarrow> Bit8u \<Rightarrow> unit boot" where
  "poke a b = bnd (gets (\<lambda>s. a < bt_memSize s)) (\<lambda>ok. thn (inBounds ''memory'' ok)
     (modify (\<lambda>s. s\<lparr>bt_mem := (bt_mem s)(a := b)\<rparr>)))"

section \<open>Ports\<close>

definition busStep :: "busOp \<Rightarrow> unit boot" where
  "busStep b = modify (\<lambda>s. s\<lparr>bt_io := bt_io s @ [b]\<rparr>)"

definition inb :: "bus \<Rightarrow> Bit16u \<Rightarrow> Bit8u boot" where
  "inb bus port = bnd (gets bt_io) (\<lambda>io. thn (busStep (InB port)) (ret (ucast (bus io port))))"

definition inw :: "bus \<Rightarrow> Bit16u \<Rightarrow> Bit16u boot" where
  "inw bus port = bnd (gets bt_io) (\<lambda>io. thn (busStep (InW port)) (ret (bus io port)))"

definition outb :: "Bit16u \<Rightarrow> Bit8u \<Rightarrow> unit boot" where
  "outb port val = busStep (OutB port val)"

definition outw :: "Bit16u \<Rightarrow> Bit16u \<Rightarrow> unit boot" where
  "outw port val = busStep (OutW port val)"

section \<open>Strings and memory\<close>

text \<open>The second string of \<^verbatim>\<open>strcmp\<close> is a literal of the program: its bytes with the terminating 0.\<close>

fun bl_strcmp :: "nat \<Rightarrow> Bit8u list \<Rightarrow> int boot" where
  "bl_strcmp s1 [] = undef ''strcmp''"
| "bl_strcmp s1 (c2 # s2) =
     (if s1 = 0 then boot_panic
      else bnd (peek s1) (\<lambda>c1.
        if c1 < c2 then ret (- 1)
        else if c1 > c2 then ret 1
        else if c1 \<noteq> 0 \<and> c2 \<noteq> 0 then bl_strcmp (Suc s1) s2
        else ret 0))"

definition cLit :: "string \<Rightarrow> Bit8u list" where
  "cLit s = bytesOf s @ [0]"

definition hexDigit :: "Bit8u \<Rightarrow> Bit32u option" where
  "hexDigit c =
     (if 0x30 \<le> c \<and> c \<le> 0x39 then Some (ucast (c - 0x30))
      else if 0x61 \<le> c \<and> c \<le> 0x66 then Some (10 + ucast (c - 0x61))
      else if 0x41 \<le> c \<and> c \<le> 0x46 then Some (10 + ucast (c - 0x41))
      else None)"

definition decDigit :: "Bit8u \<Rightarrow> Bit32u option" where
  "decDigit c = (if 0x30 \<le> c \<and> c \<le> 0x39 then Some (ucast (c - 0x30)) else None)"

text \<open>The two loops of \<^verbatim>\<open>stringToUInt\<close>: the outcome from the address of the next character.\<close>

function hexLoop :: "nat \<Rightarrow> Bit32u \<Rightarrow> Bit32u boot" where
  "hexLoop p val s =
     (if bt_memSize s \<le> p then Undef ''memory''
      else case hexDigit (bt_mem s p) of
             None \<Rightarrow> boot_panic s
           | Some d \<Rightarrow>
               (let val' = push_bit 4 val OR d in
                if bt_memSize s \<le> Suc p then Undef ''memory''
                else if bt_mem s (Suc p) = 0 then Ret val' s else hexLoop (Suc p) val' s))"
  by pat_completeness auto
termination by (relation "measure (\<lambda>(p, val, s). bt_memSize s - p)") auto

function decLoop :: "nat \<Rightarrow> Bit32u \<Rightarrow> Bit32u boot" where
  "decLoop p val s =
     (if bt_memSize s \<le> p then Undef ''memory''
      else case decDigit (bt_mem s p) of
             None \<Rightarrow> boot_panic s
           | Some d \<Rightarrow>
               (let val' = val * 10 + d in
                if bt_memSize s \<le> Suc p then Undef ''memory''
                else if bt_mem s (Suc p) = 0 then Ret val' s else decLoop (Suc p) val' s))"
  by pat_completeness auto
termination by (relation "measure (\<lambda>(p, val, s). bt_memSize s - p)") auto

declare hexLoop.simps [simp del] decLoop.simps [simp del]

definition stringToUInt :: "nat \<Rightarrow> Bit32u boot" where
  "stringToUInt str =
     (if str = 0 then boot_panic
      else
        bnd (peek str) (\<lambda>c0.
        bnd (if c0 = 0x30 then bnd (peek (str + 1)) (\<lambda>c1. ret (c1 = 0x78)) else ret False) (\<lambda>hex.
        if hex then bnd (peek (str + 2)) (\<lambda>c. if c = 0 then boot_panic else hexLoop (str + 2) 0)
        else if c0 = 0 then boot_panic else decLoop str 0)))"

primrec bl_memset :: "nat \<Rightarrow> Bit8u \<Rightarrow> nat \<Rightarrow> unit boot" where
  "bl_memset ptr c 0 = ret ()"
| "bl_memset ptr c (Suc n) = thn (poke ptr c) (bl_memset (Suc ptr) c n)"

fun bl_memcpy :: "nat \<Rightarrow> Bit8u list \<Rightarrow> nat \<Rightarrow> unit boot" where
  "bl_memcpy dest src 0 = ret ()"
| "bl_memcpy dest [] (Suc n) = undef ''memcpy''"
| "bl_memcpy dest (b # src) (Suc n) = thn (poke dest b) (bl_memcpy (Suc dest) src n)"

section \<open>The command line\<close>

text \<open>The loops over blanks and to the end of an argument, over memory \<open>m\<close> of \<open>n\<close> bytes.\<close>

function skipBlanks :: "(nat \<Rightarrow> Bit8u) \<Rightarrow> nat \<Rightarrow> nat \<Rightarrow> nat option" where
  "skipBlanks m n p = (if n \<le> p then None else if m p = 0x20 then skipBlanks m n (Suc p) else Some p)"
  by pat_completeness auto
termination by (relation "measure (\<lambda>(m, n, p). n - p)") auto

function findEnd :: "(nat \<Rightarrow> Bit8u) \<Rightarrow> nat \<Rightarrow> nat \<Rightarrow> nat option" where
  "findEnd m n p = (if n \<le> p then None else if m p \<noteq> 0 \<and> m p \<noteq> 0x20 then findEnd m n (Suc p) else Some p)"
  by pat_completeness auto
termination by (relation "measure (\<lambda>(m, n, p). n - p)") auto

declare skipBlanks.simps [simp del] findEnd.simps [simp del]

lemma skipBlanks_bounds: "skipBlanks m n p = Some q \<Longrightarrow> p \<le> q \<and> q < n"
  by (induction m n p rule: skipBlanks.induct) (subst (asm) (2) skipBlanks.simps, fastforce split: if_splits)

lemma findEnd_bounds: "findEnd m n p = Some q \<Longrightarrow> p \<le> q \<and> q < n"
  by (induction m n p rule: findEnd.induct) (subst (asm) (2) findEnd.simps, fastforce split: if_splits)

text \<open>The turns of the loop that cuts the command line in place into arguments, from the address of the next character and
  the arguments so far; \<open>None\<close> when there are too many.\<close>

function splitArgs :: "nat \<Rightarrow> nat list \<Rightarrow> nat list option boot" where
  "splitArgs p argv s =
     (case skipBlanks (bt_mem s) (bt_memSize s) p of
        None \<Rightarrow> Undef ''memory''
      | Some start \<Rightarrow>
          if bt_mem s start = 0 then Ret (Some argv) s
          else if length argv + 1 \<ge> ARGV_MAX then Ret None s
          else
            case findEnd (bt_mem s) (bt_memSize s) start of
              None \<Rightarrow> Undef ''memory''
            | Some stop \<Rightarrow>
                if bt_mem s stop = 0 then Ret (Some (argv @ [start])) s
                else
                  (let s' = s\<lparr>bt_mem := (bt_mem s)(stop := 0)\<rparr> in
                   if bt_memSize s \<le> Suc stop then Undef ''memory''
                   else if bt_mem s' (Suc stop) = 0 then Ret (Some (argv @ [start])) s'
                   else splitArgs (Suc stop) (argv @ [start]) s'))"
  by pat_completeness auto
termination
  by (relation "measure (\<lambda>(p, argv, s). bt_memSize s - p)") (auto dest!: skipBlanks_bounds findEnd_bounds)

declare splitArgs.simps [simp del]

text \<open>The loop over the arguments: an error label, or the number of megabytes. All labels lead to \<^verbatim>\<open>panic\<close>.\<close>

datatype blError = ErrorArgUnrecognized | ErrorUsage | ErrorArgsUnderflow | ErrorOther

fun blArgs :: "nat list \<Rightarrow> Bit32u \<Rightarrow> (blError + Bit32u) boot" where
  "blArgs [] nMegs = ret (Inr nMegs)"
| "blArgs (arg # rest) nMegs =
     bnd (bl_strcmp arg (cLit ''-megs'')) (\<lambda>c.
     if c = 0 then
       (case rest of
          v # rest' \<Rightarrow>
            bnd (stringToUInt v) (\<lambda>n.
            thn (modify (\<lambda>s. s\<lparr>bt_plex86MemSize := push_bit 20 n\<rparr>))
            (blArgs rest' n))
        | _ \<Rightarrow> ret (Inl ErrorArgsUnderflow))
     else
       bnd (bl_strcmp arg (cLit ''-initrd-image'')) (\<lambda>c.
       if c = 0 then
         (case rest of
            a # z # rest' \<Rightarrow>
              bnd (stringToUInt a) (\<lambda>addr.
              thn (modify (\<lambda>s. s\<lparr>bt_initrdImageLoadAddr := addr\<rparr>))
              (if addr = 0 then ret (Inl ErrorUsage)
               else
                 bnd (stringToUInt z) (\<lambda>sz.
                 thn (modify (\<lambda>s. s\<lparr>bt_initrdImageSize := sz\<rparr>))
                 (if sz = 0 then ret (Inl ErrorOther) else blArgs rest' nMegs))))
          | _ \<Rightarrow> ret (Inl ErrorArgsUnderflow))
       else
         bnd (bl_strcmp arg (cLit ''-init-io'')) (\<lambda>c.
         if c = 0 then thn (modify (\<lambda>s. s\<lparr>bt_initIO := 1\<rparr>)) (blArgs rest nMegs)
         else ret (Inl ErrorArgUnrecognized))))"

section \<open>The setup page\<close>

text \<open>\<^verbatim>\<open>linuxSetupParams_t\<close>: the members in the order of the declaration, with their sizes; the structure is packed.\<close>

datatype setupField =
    Orig_x | Orig_y | Ext_mem_k | Orig_video_page | Orig_video_mode | Orig_video_cols | Unused1 |
    Orig_video_ega_bx | Unused2 | Orig_video_lines | Orig_video_isVGA | Orig_video_points | Pad0 | Cl_magic |
    Cl_offset | Pad1 | Apm_bios_info | Pad2 | Hd0_info | Hd1_info | Sys_description_len | Sys_description_table |
    Pad3 | Alt_mem_k | Pad4 | E820map_entries | Eddbuf_entries | Pad5 | Setup_sects | Mount_root_rdonly |
    Sys_size | Swap_dev | Ramdisk_flags | Vga_mode | Orig_root_dev | Pad6 | Aux_device_info | Jump_setup |
    Setup_signature | Header_format_version | Setup_S_temp0 | Loader_type | Loadflags | Setup_S_temp1 |
    Kernel_start | Initrd_start | Initrd_size | Setup_S_temp2 | Setup_S_heap_end_pointer | Pad7 | E820map |
    Pad8 | Eddbuf | Pad9

definition E820MAX :: nat where "E820MAX = 32"

definition linuxSetupParams :: "(setupField \<times> nat) list" where
  "linuxSetupParams =
    [(Orig_x, 1), (Orig_y, 1), (Ext_mem_k, 2), (Orig_video_page, 2), (Orig_video_mode, 1), (Orig_video_cols, 1),
     (Unused1, 2), (Orig_video_ega_bx, 2), (Unused2, 2), (Orig_video_lines, 1), (Orig_video_isVGA, 1),
     (Orig_video_points, 2), (Pad0, 14), (Cl_magic, 2), (Cl_offset, 2), (Pad1, 28), (Apm_bios_info, 20),
     (Pad2, 44), (Hd0_info, 16), (Hd1_info, 16), (Sys_description_len, 2), (Sys_description_table, 14),
     (Pad3, 304), (Alt_mem_k, 4), (Pad4, 4), (E820map_entries, 1), (Eddbuf_entries, 1), (Pad5, 7),
     (Setup_sects, 1), (Mount_root_rdonly, 2), (Sys_size, 2), (Swap_dev, 2), (Ramdisk_flags, 2), (Vga_mode, 2),
     (Orig_root_dev, 2), (Pad6, 1), (Aux_device_info, 1), (Jump_setup, 2), (Setup_signature, 4),
     (Header_format_version, 2), (Setup_S_temp0, 8), (Loader_type, 1), (Loadflags, 1), (Setup_S_temp1, 2),
     (Kernel_start, 4), (Initrd_start, 4), (Initrd_size, 4), (Setup_S_temp2, 4), (Setup_S_heap_end_pointer, 2),
     (Pad7, 170), (E820map, E820MAX * (8 + 8 + 4)), (Pad8, 176), (Eddbuf, 468), (Pad9, 44)]"

definition layoutOff :: "('f \<times> nat) list \<Rightarrow> 'f \<Rightarrow> nat" where
  "layoutOff l f = sum_list (map snd (takeWhile (\<lambda>e. fst e \<noteq> f) l))"

definition layoutSize :: "('f \<times> nat) list \<Rightarrow> 'f \<Rightarrow> nat" where
  "layoutSize l f = (case map_of l f of Some n \<Rightarrow> n | None \<Rightarrow> 0)"

definition sizeof_linuxSetupParams :: nat where
  "sizeof_linuxSetupParams = sum_list (map snd linuxSetupParams)"

definition sizeof_loadGDT :: nat where "sizeof_loadGDT = 2 + 4"

definition fieldOff :: "setupField \<Rightarrow> nat" where "fieldOff = layoutOff linuxSetupParams"
definition fieldSize :: "setupField \<Rightarrow> nat" where "fieldSize = layoutSize linuxSetupParams"

text \<open>An assignment to a scalar member, which cuts the value to its size, and one to an element of an array of bytes.\<close>

primrec pokes :: "nat \<Rightarrow> Bit8u list \<Rightarrow> unit boot" where
  "pokes a [] = ret ()"
| "pokes a (b # bs) = thn (poke a b) (pokes (Suc a) bs)"

definition setField :: "setupField \<Rightarrow> Bit32u \<Rightarrow> unit boot" where
  "setField f v = pokes (kernelSetupArea + fieldOff f) (take (fieldSize f) (word_bytes v))"

definition setElem :: "setupField \<Rightarrow> nat \<Rightarrow> Bit8u \<Rightarrow> unit boot" where
  "setElem f i b = poke (kernelSetupArea + fieldOff f + i) b"

definition fieldAt :: "(nat \<Rightarrow> Bit8u) \<Rightarrow> setupField \<Rightarrow> Bit32u" where
  "fieldAt m f = le_word (peekBytes m (kernelSetupArea + fieldOff f) (fieldSize f))"

text \<open>\<^verbatim>\<open>initLinuxSetupPage\<close>, its assignments in the order of the code.\<close>

definition setupVideo :: "Bit32u \<Rightarrow> unit boot" where
  "setupVideo memNMegs =
     thn (setField Orig_x 0)
     (thn (setField Orig_y 0)
     (thn (setField Ext_mem_k ((memNMegs - 1) * 1024))
     (thn (setField Orig_video_page 0)
     (thn (setField Orig_video_mode 3)
     (thn (setField Orig_video_cols 80)
     (thn (setField Orig_video_ega_bx 3)
     (thn (setField Orig_video_lines 25)
     (thn (setField Orig_video_isVGA 1)
     (thn (setField Orig_video_points 16)
     (thn (setField Cl_magic 0xa33f)
     (setField Cl_offset 0x800)))))))))))"

definition setupSystem :: "unit boot" where
  "setupSystem =
     thn (setField Sys_description_len 0)
     (thn (setElem Sys_description_table 0 0)
     (thn (setElem Sys_description_table 1 0)
     (thn (setElem Sys_description_table 2 0)
     (thn (setElem Sys_description_table 3 0)
     (bnd (gets (\<lambda>s. fieldAt (bt_mem s) Ext_mem_k)) (\<lambda>ext_mem_k.
      thn (setField Alt_mem_k ext_mem_k)
      (thn (setField E820map_entries 0)
      (thn (setField Eddbuf_entries 0)
      (thn (setField Setup_sects 0)
      (thn (setField Mount_root_rdonly 0)
      (thn (setField Sys_size 0)
      (setField Swap_dev 0))))))))))))"

definition setupHeader :: "unit boot" where
  "setupHeader =
     bnd (gets bt_initrdImageLoadAddr) (\<lambda>initrdImageLoadAddr.
     thn (if initrdImageLoadAddr \<noteq> 0 then setField Ramdisk_flags 0 else setField Ramdisk_flags 0)
     (thn (setField Vga_mode 3)
     (thn (setField Orig_root_dev 0)
     (thn (setField Aux_device_info 0)
     (thn (setField Jump_setup 0)
     (thn (bl_memcpy (kernelSetupArea + fieldOff Setup_signature) (cLit ''HdrS'') 4)
     (thn (setField Header_format_version 0x0203)
     (thn (setField Loader_type 1)
     (thn (setField Loadflags 1)
     (thn (setField Setup_S_temp1 0)
     (thn (setField Kernel_start LinuxKernelStart)
     (thn (setField Initrd_start initrdImageLoadAddr)
     (bnd (gets bt_initrdImageSize) (\<lambda>initrdImageSize.
      thn (setField Initrd_size initrdImageSize)
      (setField Setup_S_heap_end_pointer 0)))))))))))))))"

definition initLinuxSetupPage :: "unit boot" where
  "initLinuxSetupPage =
     bnd (gets (\<lambda>s. drop_bit 20 (bt_plex86MemSize s))) (\<lambda>memNMegs.
     thn (bl_memset kernelSetupArea 0 KernelSetupSize)
     (thn (setupVideo memNMegs)
     (thn setupSystem setupHeader)))"

section \<open>The boot loader\<close>

definition vgaInit :: "bus \<Rightarrow> unit boot" where
  "vgaInit bus =
     forM vgaIOLog (\<lambda>(len, op, port, val).
       if op = 0 then
         (if len = 1 then bnd (inb bus port) (\<lambda>_. ret ()) else bnd (inw bus port) (\<lambda>_. ret ()))
       else if op = 1 then (if len = 1 then outb port (ucast val) else outw port val)
       else boot_panic)"

text \<open>The interrupt controllers, then the bit of the clock's address port that masks the NMI.\<close>

definition picInit :: "unit boot" where
  "picInit =
     forM [(0x20, 0x11), (0xA0, 0x11), (0x21, 0x20), (0xA1, 0x28), (0x21, 0x04), (0xA1, 0x02),
           (0x21, 0x01), (0xA1, 0x01), (0x21, 0xFF), (0xA1, 0xFB), (0x70, 0x80)] (\<lambda>(port, val). outb port val)"

text \<open>\<open>Ret (eip, esi)\<close> is the jump to the kernel with the address of the setup page in ESI.\<close>

definition bootloaderMain :: "bus \<Rightarrow> (Bit32u \<times> Bit32u) boot" where
  "bootloaderMain bus =
     (if sizeof_linuxSetupParams \<noteq> KernelSetupSize then boot_panic
      else if sizeof_loadGDT \<noteq> 6 then boot_panic
      else
        bnd (splitArgs bootloaderCommandLine []) (\<lambda>args.
        case args of
          None \<Rightarrow> boot_panic
        | Some argv \<Rightarrow>
            bnd (blArgs argv 0) (\<lambda>r.
            case r of
              Inl e \<Rightarrow> boot_panic
            | Inr nMegs \<Rightarrow>
                if nMegs = 0 then boot_panic
                else
                  bnd (gets bt_initIO) (\<lambda>initIO.
                  thn (whenM (initIO \<noteq> 0) (vgaInit bus))
                  (thn initLinuxSetupPage
                  (thn (whenM (initIO \<noteq> 0) picInit)
                  (ret (LinuxKernelStart, of_nat kernelSetupArea))))))))"

end
