(* ===== verification/Boot_Correct.thy ===== *)
theory Boot_Correct
  imports Boot_Loader
begin

text \<open>
  What the boot loader computes, as functions on strings: its command line cut at blanks, the numbers and the options, and
  the contents of the setup page; and the lemmas that the code of \<^verbatim>\<open>Boot_Loader\<close> computes them in memory.
\<close>

section \<open>Primitive operations\<close>

lemma peek_eq: "peek a s = (if a < bt_memSize s then Ret (bt_mem s a) s else Undef ''memory'')"
  by (simp add: peek_def mon_defs)

lemma poke_eq: "poke a b s = (if a < bt_memSize s then Ret () (s\<lparr>bt_mem := (bt_mem s)(a := b)\<rparr>) else Undef ''memory'')"
  by (simp add: poke_def mon_defs)

lemma twp_poke [simp]: "twp (poke a b) Q s = (a < bt_memSize s \<and> Q () (s\<lparr>bt_mem := (bt_mem s)(a := b)\<rparr>))"
  by (simp add: poke_def)

lemma twp_boot_panic [simp]: "\<not> twp boot_panic Q s"
  by (simp add: boot_panic_def)

lemma putBytes_Cons: "putBytes a (b # bs) m = putBytes (Suc a) bs (m(a := b))"
  by (auto simp: putBytes_def fun_eq_iff nth_Cons' Suc_diff_Suc not_less_eq_eq le_Suc_eq)

lemma twp_pokes [simp]:
  "twp (pokes a bs) Q s = ((bs = [] \<or> a + length bs \<le> bt_memSize s) \<and> Q () (s\<lparr>bt_mem := putBytes a bs (bt_mem s)\<rparr>))"
proof (induction bs arbitrary: a s)
  case Nil
  have "putBytes a [] (bt_mem s) = bt_mem s" by (auto simp: putBytes_def fun_eq_iff)
  then show ?case by simp
next
  case (Cons b bs)
  then show ?case by (auto simp: putBytes_Cons fun_upd_def)
qed

lemma bl_memset_pokes: "bl_memset a c n = pokes a (replicate n c)"
  by (induction n arbitrary: a) simp_all

lemma bl_memcpy_pokes: "n \<le> length src \<Longrightarrow> bl_memcpy a src n = pokes a (take n src)"
  by (induction a src n rule: bl_memcpy.induct) simp_all

section \<open>The layout of a packed structure\<close>

lemma layout_disjoint:
  assumes "f \<noteq> g"
  shows "layoutOff l f + layoutSize l f \<le> layoutOff l g \<or> layoutOff l g + layoutSize l g \<le> layoutOff l f \<or>
     f \<notin> fst ` set l \<or> g \<notin> fst ` set l"
proof (induction l)
  case (Cons e l)
  then show ?case using assms by (cases e) (auto simp: layoutOff_def layoutSize_def)
qed simp

lemma layout_inside: "f \<in> fst ` set l \<Longrightarrow> layoutOff l f + layoutSize l f \<le> sum_list (map snd l)"
  by (induction l) (auto simp: layoutOff_def layoutSize_def)

lemma linuxSetupParams_all: "f \<in> fst ` set linuxSetupParams"
  by (cases f) (simp_all add: linuxSetupParams_def)

lemma sizeof_setup: "sizeof_linuxSetupParams = 2048"
  by (simp add: sizeof_linuxSetupParams_def linuxSetupParams_def E820MAX_def)

lemma fields_disjoint:
  "f \<noteq> g \<Longrightarrow> fieldOff f + fieldSize f \<le> fieldOff g \<or> fieldOff g + fieldSize g \<le> fieldOff f"
  using layout_disjoint [of f g linuxSetupParams] linuxSetupParams_all unfolding fieldOff_def fieldSize_def by blast

lemma field_inside: "fieldOff f + fieldSize f \<le> 2048"
  using layout_inside [OF linuxSetupParams_all [of f]] sizeof_setup
  by (simp add: fieldOff_def fieldSize_def sizeof_linuxSetupParams_def)

section \<open>The setup page\<close>

definition fieldBytes :: "(nat \<Rightarrow> Bit8u) \<Rightarrow> setupField \<Rightarrow> Bit8u list" where
  "fieldBytes m f = peekBytes m (kernelSetupArea + fieldOff f) (fieldSize f)"

definition putField :: "setupField \<Rightarrow> Bit8u list \<Rightarrow> (nat \<Rightarrow> Bit8u) \<Rightarrow> (nat \<Rightarrow> Bit8u)" where
  "putField f bs m = putBytes (kernelSetupArea + fieldOff f) (take (fieldSize f) bs) m"

definition samePage :: "(nat \<Rightarrow> Bit8u) \<Rightarrow> (nat \<Rightarrow> Bit8u) \<Rightarrow> bool" where
  "samePage m m' \<longleftrightarrow> (\<forall>a. a < 0x90000 \<or> 0x90800 \<le> a \<longrightarrow> m' a = m a)"

lemma fieldBytes_putField:
  "fieldBytes (putField g bs m) f = (if f = g \<and> fieldSize g \<le> length bs then take (fieldSize g) bs else
     if f = g then fieldBytes (putField g bs m) g else fieldBytes m f)"
proof (cases "f = g")
  case True
  then show ?thesis by (simp add: fieldBytes_def putField_def peek_putBytes)
next
  case False
  then show ?thesis
    using fields_disjoint [OF False] unfolding fieldBytes_def putField_def
    by (auto simp: peekBytes_def putBytes_def)
qed

lemma samePage_putField: "samePage m m' \<Longrightarrow> samePage m (putField f bs m')"
  using field_inside [of f] by (auto simp: samePage_def putField_def putBytes_def)

lemma samePage_upd: "samePage m m' \<Longrightarrow> i < fieldSize f \<Longrightarrow> samePage m (m'(0x90000 + fieldOff f + i := b))"
  using field_inside [of f] by (auto simp: samePage_def)

text \<open>\<open>onPage s P t\<close>: since \<open>s\<close> only the setup page has changed, and its members are \<open>P\<close>.\<close>

definition onPage :: "boot_t \<Rightarrow> (setupField \<Rightarrow> Bit8u list) \<Rightarrow> boot_t \<Rightarrow> bool" where
  "onPage s P t \<longleftrightarrow> t = s\<lparr>bt_mem := bt_mem t\<rparr> \<and> 0x90800 \<le> bt_memSize s \<and> samePage (bt_mem s) (bt_mem t) \<and>
     (\<forall>f. fieldBytes (bt_mem t) f = P f)"

lemma onPage_mem: "onPage s P t \<Longrightarrow> bt_memSize t = bt_memSize s \<and> 0x90800 \<le> bt_memSize s"
  unfolding onPage_def by (elim conjE, drule arg_cong [of _ _ bt_memSize]) simp

lemma onPage_vars:
  "onPage s P t \<Longrightarrow> bt_initrdImageLoadAddr t = bt_initrdImageLoadAddr s \<and> bt_initrdImageSize t = bt_initrdImageSize s"
  unfolding onPage_def
  by (elim conjE, frule arg_cong [of _ _ bt_initrdImageSize], drule arg_cong [of _ _ bt_initrdImageLoadAddr]) simp

lemma onPage_io: "onPage s P t \<Longrightarrow> bt_io t = bt_io s"
  unfolding onPage_def by (elim conjE, drule arg_cong [of _ _ bt_io]) simp

lemma onPage_upd: "onPage s P t \<Longrightarrow> t\<lparr>bt_mem := m\<rparr> = s\<lparr>bt_mem := m\<rparr>"
  unfolding onPage_def by (elim conjE, drule arg_cong [of _ _ "\<lambda>t. t\<lparr>bt_mem := m\<rparr>"]) simp

lemma onPage_pokes:
  assumes "onPage s P t" "length bs = fieldSize f"
  shows "twp (pokes (kernelSetupArea + fieldOff f) bs) (\<lambda>_. onPage s (P(f := bs))) t"
proof -
  have "putBytes (kernelSetupArea + fieldOff f) bs (bt_mem t) = putField f bs (bt_mem t)"
    using assms(2) by (simp add: putField_def)
  then show ?thesis
    using assms onPage_mem [OF assms(1)] field_inside [of f] onPage_upd [OF assms(1)]
    by (auto simp: onPage_def fieldBytes_putField samePage_putField)
qed

lemma onPage_setField:
  assumes "onPage s P t" "fieldSize f \<le> 4"
  shows "twp (setField f v) (\<lambda>_. onPage s (P(f := take (fieldSize f) (word_bytes v)))) t"
  unfolding setField_def using assms(2) by (intro onPage_pokes [OF assms(1)]) simp

text \<open>Clearing an element that is clear.\<close>

lemma onPage_setElem:
  assumes "onPage s P t" "i < fieldSize f" "P f = replicate (fieldSize f) 0"
  shows "twp (setElem f i 0) (\<lambda>_. onPage s P) t"
proof -
  have "peekBytes (bt_mem t) (kernelSetupArea + fieldOff f) (fieldSize f) = replicate (fieldSize f) 0"
    using assms(1,3) by (simp add: onPage_def fieldBytes_def)
  then have "peekBytes (bt_mem t) (kernelSetupArea + fieldOff f) (fieldSize f) ! i = 0" using assms(2) by simp
  then have "bt_mem t (kernelSetupArea + fieldOff f + i) = 0" using assms(2) by (simp add: peekBytes_def)
  then have "t\<lparr>bt_mem := (bt_mem t)(kernelSetupArea + fieldOff f + i := 0)\<rparr> = t" by (cases t) (simp add: fun_upd_idem)
  then show ?thesis
    using assms(1,2) onPage_mem [OF assms(1)] field_inside [of f] by (simp add: setElem_def)
qed

lemma onPage_memset:
  assumes "0x90800 \<le> bt_memSize s"
  shows "twp (bl_memset kernelSetupArea 0 KernelSetupSize) (\<lambda>_. onPage s (\<lambda>f. replicate (fieldSize f) 0)) s"
proof -
  have "peekBytes (putBytes 0x90000 (replicate 2048 0) (bt_mem s)) (0x90000 + fieldOff f) (fieldSize f) = replicate (fieldSize f) 0" for f
    using field_inside [of f] by (intro nth_equalityI) (auto simp: peekBytes_def putBytes_def)
  then show ?thesis
    using assms by (simp add: bl_memset_pokes onPage_def fieldBytes_def samePage_def putBytes_def)
qed

lemma onPage_fieldAt: "onPage s P t \<Longrightarrow> fieldAt (bt_mem t) f = le_word (P f)"
  by (simp add: onPage_def fieldAt_def fieldBytes_def)

lemma onPage_seq:
  assumes "onPage s P t" "fieldSize f \<le> 4" "\<And>t. onPage s (P(f := take (fieldSize f) (word_bytes v))) t \<Longrightarrow> twp k Q t"
  shows "twp (thn (setField f v) k) Q t"
  using twp_mono [OF onPage_setField [OF assms(1,2)] assms(3)] by simp

lemma onPage_elem:
  assumes "onPage s P t" "i < fieldSize f" "P f = replicate (fieldSize f) 0" "\<And>t. onPage s P t \<Longrightarrow> twp k Q t"
  shows "twp (thn (setElem f i 0) k) Q t"
  using twp_mono [OF onPage_setElem [OF assms(1-3)] assms(4)] by simp

lemma onPage_last:
  assumes "onPage s P t" "fieldSize f \<le> 4" "P(f := take (fieldSize f) (word_bytes v)) = P'"
  shows "twp (setField f v) (\<lambda>_. onPage s P') t"
  using onPage_setField [OF assms(1,2), of v] assms(3) by simp

lemma onPage_initrd:
  assumes "onPage s P t"
  shows "onPage s P t \<Longrightarrow> twp (k (bt_initrdImageLoadAddr s)) Q t \<Longrightarrow> twp (bnd (gets bt_initrdImageLoadAddr) k) Q t"
    "onPage s P t \<Longrightarrow> twp (k' (bt_initrdImageSize s)) Q t \<Longrightarrow> twp (bnd (gets bt_initrdImageSize) k') Q t"
  using onPage_vars [OF assms] by simp_all

lemma thn_bnd: "thn (bnd m f) k = bnd m (\<lambda>x. thn (f x) k)"
  by (simp add: fun_eq_iff thn_def bnd_def split: outcome.splits)

lemma onPage_gets:
  assumes "onPage s P t" "twp (k (le_word (P f))) Q t"
  shows "twp (bnd (gets (\<lambda>s. fieldAt (bt_mem s) f)) k) Q t"
  using assms(2) onPage_fieldAt [OF assms(1), of f] by simp

lemma onPage_copy:
  assumes "onPage s P t" "fieldSize f = 4" "4 \<le> length src" "\<And>t. onPage s (P(f := take 4 src)) t \<Longrightarrow> twp k Q t"
  shows "twp (thn (bl_memcpy (kernelSetupArea + fieldOff f) src 4) k) Q t"
  using onPage_pokes [OF assms(1), of "take 4 src" f] assms(2-4) by (auto simp: bl_memcpy_pokes elim: twp_mono)

text \<open>The contents of the page, for a machine of \<open>nMegs\<close> megabytes and an initial RAM disk at \<open>addr\<close> of \<open>sz\<close> bytes.\<close>

definition setupValue :: "Bit32u \<Rightarrow> Bit32u \<Rightarrow> Bit32u \<Rightarrow> setupField \<Rightarrow> Bit32u" where
  "setupValue nMegs addr sz f =
     (case f of
        Ext_mem_k \<Rightarrow> (nMegs - 1) * 1024
      | Orig_video_mode \<Rightarrow> 3 | Orig_video_cols \<Rightarrow> 80 | Orig_video_ega_bx \<Rightarrow> 3 | Orig_video_lines \<Rightarrow> 25
      | Orig_video_isVGA \<Rightarrow> 1 | Orig_video_points \<Rightarrow> 16
      | Cl_magic \<Rightarrow> 0xa33f | Cl_offset \<Rightarrow> 0x800
      | Alt_mem_k \<Rightarrow> take_bit 16 ((nMegs - 1) * 1024)
      | Vga_mode \<Rightarrow> 3 | Setup_signature \<Rightarrow> 0x53726448 | Header_format_version \<Rightarrow> 0x0203
      | Loader_type \<Rightarrow> 1 | Loadflags \<Rightarrow> 1
      | Kernel_start \<Rightarrow> LinuxKernelStart | Initrd_start \<Rightarrow> addr | Initrd_size \<Rightarrow> sz
      | _ \<Rightarrow> 0)"

definition setupBytes :: "Bit32u \<Rightarrow> Bit32u \<Rightarrow> Bit32u \<Rightarrow> setupField \<Rightarrow> Bit8u list" where
  "setupBytes nMegs addr sz f =
     (if fieldSize f \<le> 4 then take (fieldSize f) (word_bytes (setupValue nMegs addr sz f)) else replicate (fieldSize f) 0)"

lemma fieldSize_simps [simp]:
  "fieldSize Orig_x = 1" "fieldSize Orig_y = 1" "fieldSize Ext_mem_k = 2" "fieldSize Orig_video_page = 2"
  "fieldSize Orig_video_mode = 1" "fieldSize Orig_video_cols = 1" "fieldSize Unused1 = 2"
  "fieldSize Orig_video_ega_bx = 2" "fieldSize Unused2 = 2" "fieldSize Orig_video_lines = 1"
  "fieldSize Orig_video_isVGA = 1" "fieldSize Orig_video_points = 2" "fieldSize Pad0 = 14" "fieldSize Cl_magic = 2"
  "fieldSize Cl_offset = 2" "fieldSize Pad1 = 28" "fieldSize Apm_bios_info = 20" "fieldSize Pad2 = 44"
  "fieldSize Hd0_info = 16" "fieldSize Hd1_info = 16" "fieldSize Sys_description_len = 2"
  "fieldSize Sys_description_table = 14" "fieldSize Pad3 = 304" "fieldSize Alt_mem_k = 4" "fieldSize Pad4 = 4"
  "fieldSize E820map_entries = 1" "fieldSize Eddbuf_entries = 1" "fieldSize Pad5 = 7" "fieldSize Setup_sects = 1"
  "fieldSize Mount_root_rdonly = 2" "fieldSize Sys_size = 2" "fieldSize Swap_dev = 2" "fieldSize Ramdisk_flags = 2"
  "fieldSize Vga_mode = 2" "fieldSize Orig_root_dev = 2" "fieldSize Pad6 = 1" "fieldSize Aux_device_info = 1"
  "fieldSize Jump_setup = 2" "fieldSize Setup_signature = 4" "fieldSize Header_format_version = 2"
  "fieldSize Setup_S_temp0 = 8" "fieldSize Loader_type = 1" "fieldSize Loadflags = 1" "fieldSize Setup_S_temp1 = 2"
  "fieldSize Kernel_start = 4" "fieldSize Initrd_start = 4" "fieldSize Initrd_size = 4" "fieldSize Setup_S_temp2 = 4"
  "fieldSize Setup_S_heap_end_pointer = 2" "fieldSize Pad7 = 170" "fieldSize E820map = 640" "fieldSize Pad8 = 176"
  "fieldSize Eddbuf = 468" "fieldSize Pad9 = 44"
  by (simp_all add: fieldSize_def layoutSize_def linuxSetupParams_def E820MAX_def)

lemma le_word_half: "le_word (take 2 (word_bytes v)) = (take_bit 16 v :: Bit32u)"
proof (rule bit_word_eqI)
  fix n assume "n < LENGTH(32)"
  then have "n < 8 \<or> 8 + (n - 8) = n" by linarith
  with \<open>n < LENGTH(32)\<close> show "bit (le_word (take 2 (word_bytes v)) :: Bit32u) n = bit (take_bit 16 v) n"
    by (auto simp: le_word_def word_bytes_def upt_rec bit_simps)
qed

lemma word_bytes_0: "word_bytes 0 = [0, 0, 0, 0]" and word_bytes_HdrS: "word_bytes 0x53726448 = [0x48, 0x64, 0x72, 0x53]"
  by (simp_all add: word_bytes_def upt_rec)

lemma initLinuxSetupPage_twp:
  assumes "0x90800 \<le> bt_memSize s"
  shows "twp initLinuxSetupPage (\<lambda>_. onPage s (setupBytes (drop_bit 20 (bt_plex86MemSize s)) (bt_initrdImageLoadAddr s)
     (bt_initrdImageSize s))) s"
proof -
  let ?n = "drop_bit 20 (bt_plex86MemSize s)"
  let ?a = "bt_initrdImageLoadAddr s" and ?z = "bt_initrdImageSize s"
  have "twp (thn (setupVideo ?n) (thn setupSystem setupHeader)) (\<lambda>_. onPage s (setupBytes ?n ?a ?z)) t"
    if "onPage s (\<lambda>f. replicate (fieldSize f) 0) t" for t
    using that
    unfolding setupVideo_def setupSystem_def setupHeader_def thn_assoc thn_bnd if_cancel
    apply -
    apply (erule onPage_seq, simp)+
    apply (erule onPage_elem, simp, simp)+
    apply (rule onPage_gets, assumption)
    apply (erule onPage_seq, simp)+
    apply (rule onPage_initrd, assumption, assumption)
    apply (erule onPage_seq, simp)+
    apply (erule onPage_copy, simp, simp add: cLit_def bytesOf_def)
    apply (erule onPage_seq, simp)+
    apply (rule onPage_initrd, assumption, assumption)
    apply (erule onPage_seq, simp)+
    apply (erule onPage_last, simp)
    apply (rule ext, rename_tac f, case_tac f)
    apply (simp_all add: setupBytes_def setupValue_def le_word_half word_bytes_0 word_bytes_HdrS cLit_def bytesOf_def)
    apply (simp_all add: numeral_eq_Suc)
    done
  then show ?thesis
    using onPage_memset [OF assms] by (auto simp: initLinuxSetupPage_def elim: twp_mono)
qed

section \<open>Strings in memory\<close>

text \<open>\<open>cstrAt m n p xs\<close>: in \<open>n\<close> bytes of memory, the string at \<open>p\<close> is \<open>xs\<close>, with its terminating 0.\<close>

definition cstrAt :: "(nat \<Rightarrow> Bit8u) \<Rightarrow> nat \<Rightarrow> nat \<Rightarrow> Bit8u list \<Rightarrow> bool" where
  "cstrAt m n p xs \<longleftrightarrow> p + length xs < n \<and> peekBytes m p (Suc (length xs)) = xs @ [0] \<and> 0 \<notin> set xs"

lemma peekBytes_Suc: "peekBytes m p (Suc k) = m p # peekBytes m (Suc p) k"
  by (simp add: peekBytes_def map_upt_Suc del: upt_Suc)

lemma cstrAt_Nil: "cstrAt m n p [] = (p < n \<and> m p = 0)"
  by (auto simp: cstrAt_def peekBytes_def)

lemma cstrAt_Cons: "cstrAt m n p (x # xs) = (p < n \<and> m p = x \<and> x \<noteq> 0 \<and> cstrAt m n (Suc p) xs)"
  by (auto simp: cstrAt_def peekBytes_Suc)

lemmas cstrAt_simps = cstrAt_Nil cstrAt_Cons

lemma cstrAt_append: "cstrAt m n p (xs @ ys) \<Longrightarrow> cstrAt m n (p + length xs) ys"
  by (induction xs arbitrary: p) (auto simp: cstrAt_simps simp flip: add_Suc)

lemma cstrAt_same: "cstrAt m n p xs \<Longrightarrow> (\<And>a. p \<le> a \<Longrightarrow> a \<le> p + length xs \<Longrightarrow> m' a = m a) \<Longrightarrow> cstrAt m' n p xs"
  by (induction xs arbitrary: p) (auto simp: cstrAt_simps)

text \<open>Cutting a string: the first part ends where a 0 is written.\<close>

lemma cstrAt_cut: "cstrAt m n p (xs @ y # ys) \<Longrightarrow> cstrAt (m(p + length xs := 0)) n p xs"
  by (induction xs arbitrary: p) (auto simp: cstrAt_simps simp flip: add_Suc)

lemma cstrAt_bounds: "cstrAt m n p xs \<Longrightarrow> p + length xs < n"
  by (simp add: cstrAt_def)

lemma skipBlanks_cstr:
  "cstrAt m n p xs \<Longrightarrow> skipBlanks m n p = Some (p + length (takeWhile ((=) 0x20) xs))"
  by (induction xs arbitrary: p) (auto simp: cstrAt_simps skipBlanks.simps [of m n])

lemma findEnd_cstr:
  "cstrAt m n p xs \<Longrightarrow> findEnd m n p = Some (p + length (takeWhile ((\<noteq>) 0x20) xs))"
  by (induction xs arbitrary: p) (auto simp: cstrAt_simps findEnd.simps [of m n])

lemma bl_strcmp_cstr:
  assumes "cstrAt (bt_mem s) (bt_memSize s) p xs" "0 < p" "0 \<notin> set ys"
  shows "\<exists>c. bl_strcmp p (ys @ [0]) s = Ret c s \<and> (c = 0 \<longleftrightarrow> xs = ys)"
  using assms
proof (induction ys arbitrary: p xs)
  case Nil
  then show ?case by (cases xs) (auto simp: cstrAt_simps bnd_def peek_eq ret_def word_gt_0)
next
  case (Cons y ys)
  then show ?case
  proof (cases xs)
    case Nil
    then show ?thesis using Cons.prems by (auto simp: cstrAt_simps bnd_def peek_eq ret_def word_gt_0)
  next
    case (Cons x xs')
    then show ?thesis using Cons.prems Cons.IH [of "Suc p" xs']
      by (cases x y rule: linorder_cases) (auto simp: cstrAt_simps bnd_def peek_eq ret_def)
  qed
qed

section \<open>Numbers\<close>

fun digitsOf :: "Bit32u \<Rightarrow> (Bit8u \<Rightarrow> Bit32u option) \<Rightarrow> Bit32u \<Rightarrow> Bit8u list \<Rightarrow> Bit32u option" where
  "digitsOf b dig v [] = Some v"
| "digitsOf b dig v (c # cs) = (case dig c of None \<Rightarrow> None | Some d \<Rightarrow> digitsOf b dig (v * b + d) cs)"

text \<open>The number a string stands for, modulo \<open>2 ^ 32\<close>: hexadecimal after \<^verbatim>\<open>0x\<close>, else decimal.\<close>

definition numOf :: "Bit8u list \<Rightarrow> Bit32u option" where
  "numOf xs =
     (if take 2 xs = [0x30, 0x78] then if drop 2 xs = [] then None else digitsOf 16 hexDigit 0 (drop 2 xs)
      else if xs = [] then None else digitsOf 10 decDigit 0 xs)"

lemma hexDigit_less: "hexDigit c = Some d \<Longrightarrow> d < 16"
proof -
  assume h: "hexDigit c = Some d"
  have c: "unat (c - 0x30) = unat c - 0x30" if "0x30 \<le> c" using that by (simp add: unat_sub)
  have c': "unat (c - 0x61) = unat c - 0x61" if "0x61 \<le> c" using that by (simp add: unat_sub)
  have c'': "unat (c - 0x41) = unat c - 0x41" if "0x41 \<le> c" using that by (simp add: unat_sub)
  have u: "unat (ucast b :: Bit32u) = unat b" for b :: Bit8u 
    by (simp add: unsigned_ucast_eq take_bit_nat_eq_self less_le_trans [OF unsigned_less])
  show ?thesis
    using h c c' c'' by (auto simp: hexDigit_def word_less_nat_alt word_le_nat_alt unat_word_ariths u split: if_splits)
qed

lemma hex_step: "d < 16 \<Longrightarrow> push_bit 4 v OR d = v * 16 + (d :: Bit32u)"
proof -
  assume "d < 16"
  then have "take_bit 4 d = d" by (simp add: take_bit_eq_mask less_mask_eq)
  then have "\<not> bit (push_bit 4 v) n \<or> \<not> bit d n" for n
    by (metis bit_push_bit_iff bit_take_bit_iff not_le)
  then show ?thesis by (subst disjunctive_add [symmetric]) (auto simp: push_bit_eq_mult)
qed

lemma hexLoop_cstr:
  "cstrAt (bt_mem s) (bt_memSize s) p (x # xs) \<Longrightarrow>
   hexLoop p v s = (case digitsOf 16 hexDigit v (x # xs) of None \<Rightarrow> boot_panic s | Some w \<Rightarrow> Ret w s)"
proof (induction xs arbitrary: p v x)
  case Nil
  then show ?case by (subst hexLoop.simps) (auto simp: cstrAt_simps hex_step hexDigit_less split: option.split)
next
  case (Cons y ys)
  then show ?case
    by (subst hexLoop.simps) (auto simp: cstrAt_simps hex_step hexDigit_less split: option.split)
qed

lemma decLoop_cstr:
  "cstrAt (bt_mem s) (bt_memSize s) p (x # xs) \<Longrightarrow>
   decLoop p v s = (case digitsOf 10 decDigit v (x # xs) of None \<Rightarrow> boot_panic s | Some w \<Rightarrow> Ret w s)"
proof (induction xs arbitrary: p v x)
  case Nil
  then show ?case by (subst decLoop.simps) (auto simp: cstrAt_simps split: option.split)
next
  case (Cons y ys)
  then show ?case by (subst decLoop.simps) (auto simp: cstrAt_simps split: option.split)
qed

lemma stringToUInt_cstr:
  assumes "cstrAt (bt_mem s) (bt_memSize s) p xs" "0 < p"
  shows "stringToUInt p s = (case numOf xs of None \<Rightarrow> boot_panic s | Some v \<Rightarrow> Ret v s)"
proof (cases "take 2 xs = [0x30, 0x78]")
  case True
  then obtain ys where xs: "xs = 0x30 # 0x78 # ys" by (cases xs; cases "tl xs") auto
  then show ?thesis
    using assms by (cases ys) (auto simp: stringToUInt_def numOf_def cstrAt_simps mon_defs peek_eq hexLoop_cstr)
next
  case False
  show ?thesis
  proof (cases xs)
    case Nil
    then show ?thesis using assms by (simp add: stringToUInt_def numOf_def cstrAt_simps mon_defs peek_eq)
  next
    case (Cons x ys)
    have "p + 1 < bt_memSize s" and "x = 0x30 \<Longrightarrow> bt_mem s (Suc p) \<noteq> 0x78"
      using assms(1) False Cons by (cases ys; auto simp: cstrAt_simps)+
    then show ?thesis
      using assms Cons False decLoop_cstr [of s p x ys 0]
      by (auto simp: stringToUInt_def numOf_def cstrAt_simps mon_defs peek_eq)
  qed
qed

section \<open>The arguments\<close>

text \<open>A string cut at its blanks.\<close>

function argWords :: "Bit8u list \<Rightarrow> Bit8u list list" where
  "argWords xs =
     (let ys = dropWhile ((=) 0x20) xs in
      if ys = [] then [] else takeWhile ((\<noteq>) 0x20) ys # argWords (dropWhile ((\<noteq>) 0x20) ys))"
  by pat_completeness auto
termination
proof (relation "measure length", simp)
  fix xs ys :: "Bit8u list"
  assume ys: "ys = dropWhile ((=) 0x20) xs" "ys \<noteq> []"
  then have "hd ys \<noteq> 0x20" using hd_dropWhile [of "(=) 0x20" xs] by metis
  then have "length (dropWhile ((\<noteq>) 0x20) ys) < length ys"
    using ys(2) length_dropWhile_le [of "(\<noteq>) 0x20" "tl ys"] by (cases ys) (auto simp: le_imp_less_Suc)
  then show "(dropWhile ((\<noteq>) 0x20) ys, xs) \<in> measure length"
    using ys(1) length_dropWhile_le [of "(=) 0x20" xs] by simp
qed

declare argWords.simps [simp del]

lemma argWords_blank [simp]: "argWords (0x20 # xs) = argWords xs"
  by (subst (1 2) argWords.simps) simp

lemma argWords_Nil [simp]: "argWords [] = []"
  by (simp add: argWords.simps)

lemma takeWhile_word: "0x20 \<notin> set w \<Longrightarrow> takeWhile (\<lambda>y. y \<noteq> 0x20) (w @ 0x20 # xs) = w"
  and dropWhile_word: "0x20 \<notin> set w \<Longrightarrow> dropWhile (\<lambda>y. y \<noteq> 0x20) (w @ 0x20 # xs) = 0x20 # xs"
  and takeWhile_last: "0x20 \<notin> set w \<Longrightarrow> takeWhile (\<lambda>y. y \<noteq> 0x20) w = w"
  and dropWhile_last: "0x20 \<notin> set w \<Longrightarrow> dropWhile (\<lambda>y. y \<noteq> 0x20) w = []" for w xs :: "Bit8u list"
  by (induction w) auto

lemma argWords_Cons:
  assumes "w \<noteq> []" "0x20 \<notin> set w"
  shows "argWords (w @ 0x20 # xs) = w # argWords xs" "argWords w = [w]"
proof -
  have "dropWhile ((=) 0x20) (w @ ys) = w @ ys" for ys using assms by (cases w) auto
  from this [of "0x20 # xs"] this [of "[]"] show "argWords (w @ 0x20 # xs) = w # argWords xs" "argWords w = [w]"
    using assms
    by (simp_all add: argWords.simps [of "w @ 0x20 # xs"] argWords.simps [of w] Let_def
        takeWhile_word dropWhile_word takeWhile_last dropWhile_last del: dropWhile_eq_self_iff takeWhile_eq_all_conv)
qed

definition sameBut :: "nat \<Rightarrow> nat \<Rightarrow> (nat \<Rightarrow> Bit8u) \<Rightarrow> (nat \<Rightarrow> Bit8u) \<Rightarrow> bool" where
  "sameBut a b m m' \<longleftrightarrow> (\<forall>i. i < a \<or> b \<le> i \<longrightarrow> m' i = m i)"

definition argsAt :: "(nat \<Rightarrow> Bit8u) \<Rightarrow> nat \<Rightarrow> nat \<Rightarrow> nat list \<Rightarrow> Bit8u list list \<Rightarrow> bool" where
  "argsAt m n p = list_all2 (\<lambda>q w. p \<le> q \<and> cstrAt m n q w)"

lemma argsAt_mono: "argsAt m n p' qs ws \<Longrightarrow> p \<le> p' \<Longrightarrow> argsAt m n p qs ws"
  unfolding argsAt_def by (erule list_all2_mono) auto

definition splitInto :: "nat \<Rightarrow> nat list \<Rightarrow> boot_t \<Rightarrow> Bit8u list \<Rightarrow> bool" where
  "splitInto p argv s xs \<longleftrightarrow>
     (\<exists>m'. sameBut p (p + length xs) (bt_mem s) m' \<and>
        (if length argv + length (argWords xs) < ARGV_MAX
         then \<exists>ps. splitArgs p argv s = Ret (Some (argv @ ps)) (s\<lparr>bt_mem := m'\<rparr>) \<and> argsAt m' (bt_memSize s) p ps (argWords xs)
         else splitArgs p argv s = Ret None (s\<lparr>bt_mem := m'\<rparr>)))"

lemma splitInto_last:
  assumes "splitArgs p argv s = Ret (Some (argv @ [q])) (s\<lparr>bt_mem := m'\<rparr>)" "argWords xs = [w]"
    "sameBut p (p + length xs) (bt_mem s) m'" "p \<le> q" "cstrAt m' (bt_memSize s) q w" "length argv + 1 < ARGV_MAX"
  shows "splitInto p argv s xs"
  using assms unfolding splitInto_def argsAt_def by (intro exI [of _ m']) (auto intro!: exI [of _ "[q]"])

lemma splitInto_next:
  assumes "splitArgs p argv s = splitArgs p' (argv @ [q]) (s\<lparr>bt_mem := m1\<rparr>)" "argWords xs = w # argWords ys"
    "splitInto p' (argv @ [q]) (s\<lparr>bt_mem := m1\<rparr>) ys" "sameBut p p' (bt_mem s) m1" "p' + length ys = p + length xs"
    "p \<le> q" "q + length w < p'" "cstrAt m1 (bt_memSize s) q w"
  shows "splitInto p argv s xs"
proof -
  from assms(3) obtain m' where "sameBut p' (p' + length ys) m1 m'"
    "if length (argv @ [q]) + length (argWords ys) < ARGV_MAX
     then \<exists>ps. splitArgs p' (argv @ [q]) (s\<lparr>bt_mem := m1\<rparr>) = Ret (Some ((argv @ [q]) @ ps)) (s\<lparr>bt_mem := m1, bt_mem := m'\<rparr>) \<and>
       argsAt m' (bt_memSize (s\<lparr>bt_mem := m1\<rparr>)) p' ps (argWords ys)
     else splitArgs p' (argv @ [q]) (s\<lparr>bt_mem := m1\<rparr>) = Ret None (s\<lparr>bt_mem := m1, bt_mem := m'\<rparr>)"
    unfolding splitInto_def by (auto simp del: ARGV_MAX_def)
  then have m': "sameBut p' (p + length xs) m1 m'"
    "if length argv + length (argWords xs) < ARGV_MAX
     then \<exists>ps. splitArgs p argv s = Ret (Some (argv @ q # ps)) (s\<lparr>bt_mem := m'\<rparr>) \<and> argsAt m' (bt_memSize s) p' ps (argWords ys)
     else splitArgs p argv s = Ret None (s\<lparr>bt_mem := m'\<rparr>)"
    using assms(1,2,5) by (simp_all split: if_splits)
  have "cstrAt m' (bt_memSize s) q w"
    using assms(7,8) m'(1) by (auto simp: sameBut_def intro: cstrAt_same)
  then have "argsAt m' (bt_memSize s) p (q # ps) (argWords xs)" if "argsAt m' (bt_memSize s) p' ps (argWords ys)" for ps
    using argsAt_mono [OF that, of p] assms(2,6,7) by (simp add: argsAt_def)
  moreover have "sameBut p (p + length xs) (bt_mem s) m'"
    using m'(1) assms(4,5,6,7) by (auto simp: sameBut_def)
  ultimately show ?thesis
    using m'(2) unfolding splitInto_def by (intro exI [of _ m']) (auto split: if_splits)
qed

lemma splitArgs_words:
  assumes "cstrAt (bt_mem s) (bt_memSize s) p xs" "length argv < ARGV_MAX"
  shows "splitInto p argv s xs"
  using assms
proof (induction "length xs" arbitrary: p xs argv s rule: less_induct)
  case less
  let ?m = "bt_mem s" and ?n = "bt_memSize s"
  define bs ys where "bs = takeWhile ((=) 0x20) xs" and "ys = dropWhile ((=) 0x20) xs"
  define w zs where "w = takeWhile ((\<noteq>) 0x20) ys" and "zs = dropWhile ((\<noteq>) 0x20) ys"
  let ?q = "p + length bs" and ?e = "p + length bs + length w"
  have xs: "xs = bs @ ys" "ys = w @ zs" by (simp_all add: bs_def ys_def w_def zs_def)
  have words: "argWords xs = (if ys = [] then [] else w # argWords zs)"
    by (subst argWords.simps) (simp add: ys_def w_def zs_def Let_def)
  have at: "cstrAt ?m ?n ?q ys" "cstrAt ?m ?n ?e zs"
    using less.prems(1) cstrAt_append [of ?m ?n p bs ys] cstrAt_append [of ?m ?n ?q w zs] xs by (simp_all add: add.assoc)
  have start: "skipBlanks ?m ?n p = Some ?q" "findEnd ?m ?n ?q = Some ?e"
    using skipBlanks_cstr [OF less.prems(1)] findEnd_cstr [OF at(1)] by (simp_all add: bs_def w_def)
  note step = splitArgs.simps [of p argv s]
  show ?case
  proof (cases ys)
    case Nil
    then have "?m ?q = 0" using at(1) by (simp add: cstrAt_simps)
    then have "splitArgs p argv s = Ret (Some argv) s" by (subst step) (simp add: start)
    then show ?thesis
      using less.prems(2) words Nil unfolding splitInto_def
      by (intro exI [of _ ?m]) (auto simp: sameBut_def argsAt_def)
  next
    case (Cons y ys')
    then have q: "?m ?q \<noteq> 0" using at(1) by (simp add: cstrAt_simps)
    show ?thesis
    proof (cases "length argv + 1 < ARGV_MAX")
      case False
      then have "splitArgs p argv s = Ret None s" using q by (subst step) (simp add: start)
      then show ?thesis
        using False words Cons unfolding splitInto_def by (intro exI [of _ ?m]) (auto simp: sameBut_def)
    next
      case room: True
      show ?thesis
      proof (cases zs)
        case Nil
        then have e: "?m ?e = 0" using at(2) by (simp add: cstrAt_simps)
        show ?thesis
        proof (rule splitInto_last [where q = ?q and m' = ?m and w = w])
          show "splitArgs p argv s = Ret (Some (argv @ [?q])) (s\<lparr>bt_mem := ?m\<rparr>)"
            using q room e by (subst step) (simp add: start)
          show "cstrAt ?m ?n ?q w" using at(1) xs(2) Nil by simp
        qed (use room words Cons Nil in \<open>simp_all add: sameBut_def\<close>)
      next
        case (Cons z zs')
        then have z: "z = 0x20" using hd_dropWhile [of "(\<noteq>) 0x20" ys] by (simp add: zs_def)
        let ?m1 = "?m(?e := 0)" and ?s1 = "s\<lparr>bt_mem := ?m(?e := 0)\<rparr>"
        have e: "?m ?e = 0x20" "cstrAt ?m ?n (Suc ?e) zs'" using at(2) Cons z by (simp_all add: cstrAt_simps)
        have w1: "cstrAt ?m1 ?n ?q w" using cstrAt_cut [of ?m ?n ?q w z zs'] at(1) xs(2) Cons by simp
        have rest: "cstrAt ?m1 ?n (Suc ?e) zs'" by (rule cstrAt_same [OF e(2)]) simp
        have len: "Suc ?e + length zs' = p + length xs" using xs Cons by simp
        have words': "argWords xs = w # argWords zs'" using words \<open>ys = y # ys'\<close> Cons z by simp
        have same: "sameBut p (Suc ?e) ?m ?m1" by (auto simp: sameBut_def)
        show ?thesis
        proof (cases zs')
          case Nil
          show ?thesis
          proof (rule splitInto_last [where q = ?q and m' = ?m1 and w = w])
            show "splitArgs p argv s = Ret (Some (argv @ [?q])) ?s1"
              using q room e Nil by (subst step) (simp add: start cstrAt_simps)
            show "sameBut p (p + length xs) ?m ?m1" using same len Nil by (metis add_0_right list.size(3))
          qed (use room words' w1 Nil in simp_all)
        next
          case (Cons u us)
          show ?thesis
          proof (rule splitInto_next [where p' = "Suc ?e" and q = ?q and ?m1.0 = ?m1 and w = w and ys = zs'])
            show "splitArgs p argv s = splitArgs (Suc ?e) (argv @ [?q]) ?s1"
              using q room e Cons by (subst step) (auto simp: start cstrAt_simps Let_def)
            show "splitInto (Suc ?e) (argv @ [?q]) ?s1 zs'"
              by (rule less.hyps) (use rest len room in simp_all)
          qed (use words' same len w1 in simp_all)
        qed
      qed
    qed
  qed
qed

section \<open>The options\<close>

record bootOpts =
  bo_nMegs :: Bit32u
  bo_addr :: Bit32u
  bo_size :: Bit32u
  bo_io :: bool

definition no_bootOpts :: bootOpts where
  "no_bootOpts = \<lparr>bo_nMegs = 0, bo_addr = 0, bo_size = 0, bo_io = False\<rparr>"

fun bootOptions :: "Bit8u list list \<Rightarrow> bootOpts \<Rightarrow> bootOpts option" where
  "bootOptions [] opts = Some opts"
| "bootOptions (w # ws) opts =
     (if w = bytesOf ''-megs'' then
        (case ws of
           v # ws' \<Rightarrow> (case numOf v of None \<Rightarrow> None | Some n \<Rightarrow> bootOptions ws' (opts\<lparr>bo_nMegs := n\<rparr>))
         | _ \<Rightarrow> None)
      else if w = bytesOf ''-initrd-image'' then
        (case ws of
           a # z # ws' \<Rightarrow>
             (case numOf a of None \<Rightarrow> None
              | Some addr \<Rightarrow>
                  if addr = 0 then None
                  else
                    (case numOf z of None \<Rightarrow> None
                     | Some sz \<Rightarrow> if sz = 0 then None else bootOptions ws' (opts\<lparr>bo_addr := addr, bo_size := sz\<rparr>)))
         | _ \<Rightarrow> None)
      else if w = bytesOf ''-init-io'' then bootOptions ws (opts\<lparr>bo_io := True\<rparr>)
      else None)"

definition withOpts :: "bootOpts \<Rightarrow> boot_t \<Rightarrow> boot_t" where
  "withOpts opts s = s\<lparr>bt_plex86MemSize := push_bit 20 (bo_nMegs opts), bt_initrdImageLoadAddr := bo_addr opts,
     bt_initrdImageSize := bo_size opts, bt_initIO := (if bo_io opts then 1 else 0)\<rparr>"

lemma withOpts_mem [simp]:
  "bt_mem (withOpts opts s) = bt_mem s" "bt_memSize (withOpts opts s) = bt_memSize s" "bt_io (withOpts opts s) = bt_io s"
  by (simp_all add: withOpts_def)

lemma withOpts_upd:
  "(withOpts opts s)\<lparr>bt_plex86MemSize := push_bit 20 n\<rparr> = withOpts (opts\<lparr>bo_nMegs := n\<rparr>) s"
  "(withOpts opts s)\<lparr>bt_initrdImageLoadAddr := addr, bt_initrdImageSize := sz\<rparr> = withOpts (opts\<lparr>bo_addr := addr, bo_size := sz\<rparr>) s"
  "(withOpts opts s)\<lparr>bt_initIO := 1\<rparr> = withOpts (opts\<lparr>bo_io := True\<rparr>) s"
  "(withOpts opts s)\<lparr>bt_initrdImageLoadAddr := addr\<rparr> = withOpts (opts\<lparr>bo_addr := addr\<rparr>) s"
  "(withOpts opts s)\<lparr>bt_initrdImageSize := sz\<rparr> = withOpts (opts\<lparr>bo_size := sz\<rparr>) s"
  by (simp_all add: withOpts_def)

text \<open>The arguments are not accepted: an error label, or a number that is none. Memory and devices are as before.\<close>

definition refusedArgs :: "boot_t \<Rightarrow> (boot_t, blError + Bit32u) outcome \<Rightarrow> bool" where
  "refusedArgs s r \<longleftrightarrow> (\<exists>s'. bt_mem s' = bt_mem s \<and> bt_io s' = bt_io s \<and>
     (r = Panic ''cli; hlt'' s' \<or> (\<exists>e. r = Ret (Inl e) s')))"

lemma refusedI:
  "bt_mem s' = bt_mem s \<Longrightarrow> bt_io s' = bt_io s \<Longrightarrow> refusedArgs s (Ret (Inl e) s')"
  "bt_mem s' = bt_mem s \<Longrightarrow> bt_io s' = bt_io s \<Longrightarrow> refusedArgs s (boot_panic s')"
  by (auto simp: refusedArgs_def ret_def boot_panic_def halt_def)

lemma strcmp_if:
  assumes "cstrAt (bt_mem s) (bt_memSize s) p w" "0 < p" "0 \<notin> set (bytesOf str)"
  shows "bnd (bl_strcmp p (cLit str)) (\<lambda>c. if c = 0 then m else m') s = (if w = bytesOf str then m s else m' s)"
  using bl_strcmp_cstr [OF assms] by (auto simp: cLit_def bnd_def)

lemma stringToUInt_bnd:
  assumes "cstrAt (bt_mem s) (bt_memSize s) p w" "0 < p"
  shows "bnd (stringToUInt p) k s = (case numOf w of None \<Rightarrow> boot_panic s | Some n \<Rightarrow> k n s)"
  using stringToUInt_cstr [OF assms] by (simp add: bnd_def boot_panic_def halt_def split: option.split)

lemma literals: "0 \<notin> set (bytesOf ''-megs'')" "0 \<notin> set (bytesOf ''-initrd-image'')" "0 \<notin> set (bytesOf ''-init-io'')"
  by (simp_all add: bytesOf_def)

text \<open>The loop over the arguments, its calls of \<^verbatim>\<open>strcmp\<close> and \<^verbatim>\<open>stringToUInt\<close> replaced by what they compute.\<close>

lemma blArgs_Cons:
  assumes "cstrAt (bt_mem s) (bt_memSize s) p w" "0 < p"
  shows "blArgs (p # rest) n s =
    (if w = bytesOf ''-megs'' then
       (case rest of
          v # rest' \<Rightarrow> bnd (stringToUInt v) (\<lambda>n. thn (modify (\<lambda>s. s\<lparr>bt_plex86MemSize := push_bit 20 n\<rparr>)) (blArgs rest' n)) s
        | _ \<Rightarrow> ret (Inl ErrorArgsUnderflow) s)
     else if w = bytesOf ''-initrd-image'' then
       (case rest of
          a # z # rest' \<Rightarrow>
            bnd (stringToUInt a) (\<lambda>addr.
            thn (modify (\<lambda>s. s\<lparr>bt_initrdImageLoadAddr := addr\<rparr>))
            (if addr = 0 then ret (Inl ErrorUsage)
             else
               bnd (stringToUInt z) (\<lambda>sz.
               thn (modify (\<lambda>s. s\<lparr>bt_initrdImageSize := sz\<rparr>))
               (if sz = 0 then ret (Inl ErrorOther) else blArgs rest' n)))) s
        | _ \<Rightarrow> ret (Inl ErrorArgsUnderflow) s)
     else if w = bytesOf ''-init-io'' then blArgs rest n (s\<lparr>bt_initIO := 1\<rparr>)
     else ret (Inl ErrorArgUnrecognized) s)"
  unfolding blArgs.simps(2) strcmp_if [OF assms literals(1)] strcmp_if [OF assms literals(2)] strcmp_if [OF assms literals(3)]
  by (simp add: thn_def bnd_def modify_def split: list.split)

declare blArgs.simps [simp del]

lemma blArgs_options:
  assumes "argsAt (bt_mem s) (bt_memSize s) lo ps ws" "0 < lo"
  shows "case bootOptions ws opts of
       Some opts' \<Rightarrow> blArgs ps (bo_nMegs opts) (withOpts opts s) = Ret (Inr (bo_nMegs opts')) (withOpts opts' s)
     | None \<Rightarrow> refusedArgs s (blArgs ps (bo_nMegs opts) (withOpts opts s))"
  using assms(1)
proof (induction ws opts arbitrary: ps rule: bootOptions.induct)
  case (1 opts)
  then show ?case by (simp add: argsAt_def blArgs.simps(1) ret_def)
next
  case (2 w ws opts)
  from "2.prems" obtain p qs where ps: "ps = p # qs" "cstrAt (bt_mem s) (bt_memSize s) p w" "0 < p"
    and qs: "argsAt (bt_mem s) (bt_memSize s) lo qs ws"
    using assms(2) by (auto simp: argsAt_def list_all2_Cons2)
  have other: "refusedArgs s (Ret (Inl e) (withOpts opts s))" for e by (simp add: refusedI)
  have num: "bnd (stringToUInt q) k (withOpts opts' s) =
      (case numOf v of None \<Rightarrow> boot_panic (withOpts opts' s) | Some n \<Rightarrow> k n (withOpts opts' s))"
    if "cstrAt (bt_mem s) (bt_memSize s) q v \<and> lo \<le> q" for q v opts' and k :: "Bit32u \<Rightarrow> (blError + Bit32u) boot"
    using stringToUInt_bnd [of "withOpts opts' s" q v k] that assms(2) by simp
  note step = blArgs_Cons [of "withOpts opts s" p w _ "bo_nMegs opts", unfolded withOpts_mem, OF ps(2,3)]
  show ?case
  proof (cases "w = bytesOf ''-megs''")
    case megs: True
    show ?thesis
    proof (cases ws)
      case Nil
      then show ?thesis using qs megs other by (simp add: ps(1) step argsAt_def)
    next
      case (Cons v ws')
      then obtain q qs' where q: "qs = q # qs'" "cstrAt (bt_mem s) (bt_memSize s) q v \<and> lo \<le> q"
          "argsAt (bt_mem s) (bt_memSize s) lo qs' ws'"
        using qs by (auto simp: argsAt_def list_all2_Cons2)
      show ?thesis
        using "2.IH"(1) [OF megs Cons _ q(3)] megs Cons
        by (auto simp: ps(1) step q(1) num [OF q(2)] withOpts_upd refusedI thn_def bnd_def [of "modify _"] modify_def
            split: option.splits)
    qed
  next
    case not_megs: False
    show ?thesis
    proof (cases "w = bytesOf ''-initrd-image''")
      case initrd: True
      show ?thesis
      proof (cases "\<exists>a z ws'. ws = a # z # ws'")
        case False
        then have "ws = [] \<or> (\<exists>a. ws = [a])" by (cases ws; cases "tl ws") auto
        then show ?thesis using qs not_megs initrd other by (auto simp: ps(1) step argsAt_def list_all2_Cons2)
      next
        case True
        then obtain a z ws' where ws: "ws = a # z # ws'" by blast
        then obtain q r qs' where q: "qs = q # r # qs'" "cstrAt (bt_mem s) (bt_memSize s) q a \<and> lo \<le> q"
            "cstrAt (bt_mem s) (bt_memSize s) r z \<and> lo \<le> r" "argsAt (bt_mem s) (bt_memSize s) lo qs' ws'"
          using qs by (auto simp: argsAt_def list_all2_Cons2)
        note simps = ps(1) step q(1) num [OF q(2)] num [OF q(3)] withOpts_upd thn_def bnd_def [of "modify _"] modify_def
        show ?thesis
        proof (cases "\<exists>x y. numOf a = Some x \<and> x \<noteq> 0 \<and> numOf z = Some y \<and> y \<noteq> 0")
          case True
          then obtain x y where xy: "numOf a = Some x" "x \<noteq> 0" "numOf z = Some y" "y \<noteq> 0" by blast
          then show ?thesis
            using "2.IH"(2) [OF not_megs initrd ws refl xy q(4)] not_megs initrd ws by (simp add: simps split: option.splits)
        next
          case False
          then show ?thesis using not_megs initrd ws by (auto simp: simps refusedI split: option.split)
        qed
      qed
    next
      case not_initrd: False
      show ?thesis
        using "2.IH"(3) [OF not_megs not_initrd _ qs] not_megs not_initrd other
        by (auto simp: ps(1) step withOpts_upd split: option.splits)
    qed
  qed
qed

section \<open>Ports\<close>

definition vgaBusOp :: "vgaIOEntry \<Rightarrow> busOp" where
  "vgaBusOp e = (case e of (len, op, port, val) \<Rightarrow>
     if op = 0 then (if len = 1 then InB port else InW port)
     else if len = 1 then OutB port (ucast val) else OutW port val)"

definition picBusOps :: "busOp list" where
  "picBusOps = [OutB 0x20 0x11, OutB 0xA0 0x11, OutB 0x21 0x20, OutB 0xA1 0x28, OutB 0x21 0x04, OutB 0xA1 0x02,
     OutB 0x21 0x01, OutB 0xA1 0x01, OutB 0x21 0xFF, OutB 0xA1 0xFB, OutB 0x70 0x80]"

lemma bus_app:
  "inb bus port s = Ret (ucast (bus (bt_io s) port)) (s\<lparr>bt_io := bt_io s @ [InB port]\<rparr>)"
  "inw bus port s = Ret (bus (bt_io s) port) (s\<lparr>bt_io := bt_io s @ [InW port]\<rparr>)"
  "outb port b s = Ret () (s\<lparr>bt_io := bt_io s @ [OutB port b]\<rparr>)"
  "outw port w s = Ret () (s\<lparr>bt_io := bt_io s @ [OutW port w]\<rparr>)"
  by (simp_all add: inb_def inw_def outb_def outw_def busStep_def mon_defs)

lemma vgaInit_eq: "vgaInit bus s = Ret () (s\<lparr>bt_io := bt_io s @ map vgaBusOp vgaIOLog\<rparr>)"
proof -
  have "forM log (\<lambda>(len, op, port, val).
       if op = 0 then
         (if len = 1 then bnd (inb bus port) (\<lambda>_. ret ()) else bnd (inw bus port) (\<lambda>_. ret ()))
       else if op = 1 then (if len = 1 then outb port (ucast val) else outw port val)
       else boot_panic) s = Ret () (s\<lparr>bt_io := bt_io s @ map vgaBusOp log\<rparr>)" if "list_all vgaEntryOK log" for log
    using that
  proof (induction log arbitrary: s)
    case (Cons e log)
    then show ?case by (cases e) (auto simp: mon_defs bus_app vgaBusOp_def vgaEntryOK_def)
  qed (simp add: mon_defs)
  from this [OF vgaIOLog_ok] show ?thesis by (simp add: vgaInit_def)
qed

lemma picInit_eq: "picInit s = Ret () (s\<lparr>bt_io := bt_io s @ picBusOps\<rparr>)"
  by (simp add: picInit_def mon_defs bus_app picBusOps_def)

section \<open>The boot loader\<close>

text \<open>The options a command line stands for, if the boot loader accepts it, and the accesses to ports they lead to.\<close>

definition bootSpec :: "Bit8u list \<Rightarrow> bootOpts option" where
  "bootSpec cl =
     (if length (argWords cl) < ARGV_MAX then
        (case bootOptions (argWords cl) no_bootOpts of
           None \<Rightarrow> None
         | Some opts \<Rightarrow> if bo_nMegs opts = 0 then None else Some opts)
      else None)"

definition bootBus :: "bootOpts \<Rightarrow> busOp list" where
  "bootBus opts = (if bo_io opts then map vgaBusOp vgaIOLog @ picBusOps else [])"

text \<open>The kernel is entered with the setup page for \<open>opts\<close>; only the page and the command line have changed.\<close>

definition entersKernel :: "bootOpts \<Rightarrow> nat \<Rightarrow> (nat \<Rightarrow> Bit8u) \<Rightarrow> (boot_t, Bit32u \<times> Bit32u) outcome \<Rightarrow> bool" where
  "entersKernel opts k m r \<longleftrightarrow>
     (\<exists>s'. r = Ret (0x100000, 0x90000) s' \<and>
        (\<forall>f. fieldBytes (bt_mem s') f = setupBytes (take_bit 12 (bo_nMegs opts)) (bo_addr opts) (bo_size opts) f) \<and>
        bt_io s' = bootBus opts \<and>
        (\<forall>a. (a < 0x90000 \<or> 0x90800 \<le> a) \<and> (a < 0x91800 \<or> 0x91800 + k \<le> a) \<longrightarrow> bt_mem s' a = m a))"

definition stops :: "nat \<Rightarrow> (nat \<Rightarrow> Bit8u) \<Rightarrow> (boot_t, Bit32u \<times> Bit32u) outcome \<Rightarrow> bool" where
  "stops k m r \<longleftrightarrow>
     (\<exists>s'. r = Panic ''cli; hlt'' s' \<and> bt_io s' = [] \<and> sameBut 0x91800 (0x91800 + k) m (bt_mem s'))"

lemma memNMegs: "drop_bit 20 (push_bit 20 n) = take_bit 12 (n :: Bit32u)"
  by (rule bit_word_eqI) (auto simp: bit_simps)

lemma no_bootOpts_nMegs: "bo_nMegs no_bootOpts = 0"
  by (simp add: no_bootOpts_def)

lemma boot_start_simps [simp]:
  "bt_mem (boot_start m n) = m" "bt_memSize (boot_start m n) = n" "bt_io (boot_start m n) = []"
  "(boot_start m n)\<lparr>bt_mem := m'\<rparr> = boot_start m' n" "withOpts no_bootOpts (boot_start m n) = boot_start m n"
  by (simp_all add: withOpts_def no_bootOpts_def boot_start_def)

lemma boot_panic_stops:
  "bt_io s = [] \<Longrightarrow> sameBut 0x91800 (0x91800 + k) m (bt_mem s) \<Longrightarrow> stops k m (boot_panic s)"
  by (auto simp: stops_def boot_panic_def halt_def)

lemma enters_kernel:
  assumes "0x90800 \<le> n" "sameBut 0x91800 (0x91800 + k) m m'"
  shows "entersKernel opts k m
    (bnd (gets bt_initIO) (\<lambda>initIO.
     thn (whenM (initIO \<noteq> 0) (vgaInit bus))
     (thn initLinuxSetupPage
     (thn (whenM (initIO \<noteq> 0) picInit)
     (ret (LinuxKernelStart, of_nat kernelSetupArea))))) (withOpts opts (boot_start m' n)))"
proof -
  let ?io = "if bo_io opts then map vgaBusOp vgaIOLog else []"
  let ?s = "(withOpts opts (boot_start m' n))\<lparr>bt_io := ?io\<rparr>"
  have "0x90800 \<le> bt_memSize ?s" using assms(1) by (simp add: boot_start_def)
  from initLinuxSetupPage_twp [OF this] obtain s' where s': "initLinuxSetupPage ?s = Ret () s'"
    and page: "onPage ?s (setupBytes (take_bit 12 (bo_nMegs opts)) (bo_addr opts) (bo_size opts)) s'"
    by (auto simp: twp_iff memNMegs withOpts_def)
  have mem: "\<forall>a. a < 0x90000 \<or> 0x90800 \<le> a \<longrightarrow> bt_mem s' a = m' a"
    using page by (simp add: onPage_def samePage_def boot_start_def)
  have io: "bt_io s' = ?io"
    using onPage_io [OF page] by simp
  have start: "whenM (bt_initIO (withOpts opts (boot_start m' n)) \<noteq> 0) (vgaInit bus) (withOpts opts (boot_start m' n)) = Ret () ?s"
    by (simp add: withOpts_def whenM_def vgaInit_eq ret_def boot_start_def)
  have "(bnd (gets bt_initIO) (\<lambda>initIO.
     thn (whenM (initIO \<noteq> 0) (vgaInit bus))
     (thn initLinuxSetupPage
     (thn (whenM (initIO \<noteq> 0) picInit)
     (ret (LinuxKernelStart, of_nat kernelSetupArea))))) (withOpts opts (boot_start m' n))) =
     Ret (0x100000, 0x90000) (s'\<lparr>bt_io := bootBus opts\<rparr>)"
    using start s' io
    by (auto simp: thn_def bnd_def gets_def whenM_def picInit_eq ret_def LinuxKernelStart_def bootBus_def withOpts_def)
  then show ?thesis
    using mem assms(2) page unfolding entersKernel_def
    by (intro exI [of _ "s'\<lparr>bt_io := bootBus opts\<rparr>"]) (auto simp: sameBut_def onPage_def)
qed

lemma bootloader_computes:
  assumes "cstrAt m n 0x91800 cl"
  shows "case bootSpec cl of
       Some opts \<Rightarrow> entersKernel opts (length cl) m (bootloaderMain bus (boot_start m n))
     | None \<Rightarrow> stops (length cl) m (bootloaderMain bus (boot_start m n))"
proof -
  let ?s = "boot_start m n"
  have "splitInto 0x91800 [] ?s cl" using assms by (intro splitArgs_words) simp_all
  then obtain m' where m': "sameBut 0x91800 (0x91800 + length cl) m m'"
    and split: "if length (argWords cl) < ARGV_MAX
       then \<exists>ps. splitArgs 0x91800 [] ?s = Ret (Some ps) (boot_start m' n) \<and> argsAt m' n 0x91800 ps (argWords cl)
       else splitArgs 0x91800 [] ?s = Ret None (boot_start m' n)"
    unfolding splitInto_def by (auto split: if_splits)
  have start: "bootloaderMain bus ?s = (case splitArgs 0x91800 [] ?s of
      Ret (Some ps) s \<Rightarrow> bnd (blArgs ps 0) (\<lambda>r. case r of Inl e \<Rightarrow> boot_panic | Inr nMegs \<Rightarrow>
        if nMegs = 0 then boot_panic
        else bnd (gets bt_initIO) (\<lambda>initIO.
          thn (whenM (initIO \<noteq> 0) (vgaInit bus))
          (thn initLinuxSetupPage
          (thn (whenM (initIO \<noteq> 0) picInit)
          (ret (LinuxKernelStart, of_nat kernelSetupArea)))))) s
    | Ret None s \<Rightarrow> boot_panic s | Panic e s \<Rightarrow> Panic e s | Undef e \<Rightarrow> Undef e | Hang \<Rightarrow> Hang)"
    by (simp add: bootloaderMain_def sizeof_setup sizeof_loadGDT_def bnd_def [of "splitArgs _ _"] split: outcome.split option.split)
  show ?thesis
  proof (cases "length (argWords cl) < ARGV_MAX")
    case False
    then show ?thesis
      using split m' by (simp add: start bootSpec_def boot_panic_stops)
  next
    case True
    then obtain ps where ps: "splitArgs 0x91800 [] ?s = Ret (Some ps) (boot_start m' n)" "argsAt m' n 0x91800 ps (argWords cl)"
      using split by auto
    have blArgs: "case bootOptions (argWords cl) no_bootOpts of
         Some opts \<Rightarrow> blArgs ps 0 (boot_start m' n) = Ret (Inr (bo_nMegs opts)) (withOpts opts (boot_start m' n))
       | None \<Rightarrow> refusedArgs (boot_start m' n) (blArgs ps 0 (boot_start m' n))"
      using blArgs_options [of "boot_start m' n" "0x91800" ps "argWords cl" no_bootOpts] ps(2)
      by (simp add: no_bootOpts_nMegs split: option.splits)
    show ?thesis
    proof (cases "bootOptions (argWords cl) no_bootOpts")
      case None
      then show ?thesis
        using blArgs True m' by (auto simp: start ps(1) bootSpec_def refusedArgs_def bnd_def stops_def boot_panic_def halt_def)
    next
      case (Some opts)
      then show ?thesis
        using blArgs True m' enters_kernel [OF _ m', of n opts] cstrAt_bounds [OF assms]
        by (auto simp: start ps(1) bootSpec_def bnd_def [of "blArgs _ _"] intro: boot_panic_stops)
    qed
  qed
qed

section \<open>The numbers that the user process prints\<close>

lemma digitsOf_append:
  "digitsOf b dig v (xs @ ys) = (case digitsOf b dig v xs of None \<Rightarrow> None | Some w \<Rightarrow> digitsOf b dig w ys)"
  by (induction xs arbitrary: v) (auto split: option.split)

definition digitByte :: "nat \<Rightarrow> Bit8u" where
  "digitByte n = of_char (''0123456789abcdef'' ! n)"

lemma digitByte_all: "\<forall>n \<in> set [0..<16]. hexDigit (digitByte n) = Some (of_nat n) \<and> digitByte n \<notin> {0, 0x20, 0x78} \<and>
    (n < 10 \<longrightarrow> decDigit (digitByte n) = Some (of_nat n))"
  by code_simp

end
