(* ===== verification/Props_Boot.thy ===== *)
theory Props_Boot
  imports Boot_Correct Props_Hal
begin

text \<open>
  The properties of the boot loader, and of what the user process hands to it.
\<close>

section \<open>From the user process to the boot loader\<close>

lemma digitByte_value:
  assumes "n < 16"
  shows "hexDigit (digitByte n) = Some (of_nat n)" "digitByte n \<notin> {0, 0x20, 0x78}"
    "n < 10 \<Longrightarrow> decDigit (digitByte n) = Some (of_nat n)"
  using digitByte_all assms by auto

definition base_digits :: "nat \<Rightarrow> (Bit8u \<Rightarrow> Bit32u option) \<Rightarrow> bool" where
  "base_digits b dig \<longleftrightarrow> b = 10 \<and> dig = decDigit \<or> b = 16 \<and> dig = hexDigit"

lemma base_digit: "base_digits b dig \<Longrightarrow> n < b \<Longrightarrow> dig (digitByte n) = Some (of_nat n) \<and> n < 16 \<and> 2 \<le> b"
  by (auto simp: base_digits_def digitByte_value)

lemma showBase_single: "n < b \<Longrightarrow> b \<le> 16 \<Longrightarrow> bytesOf (showBase b n) = [digitByte n]"
  by (simp add: showBase.simps [of b n] bytesOf_def digitByte_def)

lemma showBase_step:
  "b \<le> n \<Longrightarrow> 2 \<le> b \<Longrightarrow> b \<le> 16 \<Longrightarrow> bytesOf (showBase b n) = bytesOf (showBase b (n div b)) @ [digitByte (n mod b)]"
  using showBase_single [of "n mod b" b] by (simp add: showBase.simps [of b n] bytesOf_def)

lemma showBase_digits:
  assumes "base_digits b dig"
  shows "(\<exists>k. \<forall>v. digitsOf (of_nat b) dig v (bytesOf (showBase b n)) = Some (v * k + of_nat n)) \<and>
    bytesOf (showBase b n) \<noteq> [] \<and> set (bytesOf (showBase b n)) \<inter> {0, 0x20, 0x78} = {}"
proof (induction n rule: less_induct)
  case (less n)
  have b: "2 \<le> b" "b \<le> 16" using assms by (auto simp: base_digits_def)
  show ?case
  proof (cases "n < b")
    case True
    then show ?thesis
      using base_digit [OF assms True] digitByte_value(2) [of n] b
      by (auto simp: showBase_single intro!: exI [of _ "of_nat b"])
  next
    case False
    have m: "n mod b < b" "n mod b < 16" using b by (auto intro: less_le_trans [OF mod_less_divisor])
    obtain k where k: "\<And>v. digitsOf (of_nat b) dig v (bytesOf (showBase b (n div b))) = Some (v * k + of_nat (n div b))"
        "bytesOf (showBase b (n div b)) \<noteq> []" "set (bytesOf (showBase b (n div b))) \<inter> {0, 0x20, 0x78} = {}"
      using less.IH [of "n div b"] False b by auto
    have "of_nat (n div b) * of_nat b + of_nat (n mod b) = (of_nat n :: Bit32u)"
      unfolding of_nat_mult [symmetric] of_nat_add [symmetric] by simp
    then have "(v * k + of_nat (n div b)) * of_nat b + of_nat (n mod b) = v * (k * of_nat b) + (of_nat n :: Bit32u)" for v
      by (simp add: algebra_simps)
    then show ?thesis
      using k base_digit [OF assms m(1)] digitByte_value(2) [OF m(2)] showBase_step [of b n] False b
      by (auto simp: digitsOf_append intro!: exI [of _ "k * of_nat b"])
  qed
qed

lemma numOf_dec: "numOf (bytesOf (showBase 10 n)) = Some (of_nat n)"
proof -
  note d = showBase_digits [of 10 decDigit n, unfolded base_digits_def, simplified]
  then obtain k where "\<And>v. digitsOf 10 decDigit v (bytesOf (showBase 10 n)) = Some (v * k + of_nat n)" by auto
  moreover have "take 2 (bytesOf (showBase 10 n)) \<noteq> [0x30, 0x78]"
    using d by (metis in_set_takeD list.set_intros(1,2))
  ultimately show ?thesis using d by (simp add: numOf_def)
qed

lemma numOf_hex: "numOf (bytesOf (''0x'' @ showBase 16 n)) = Some (of_nat n)"
proof -
  note d = showBase_digits [of 16 hexDigit n, unfolded base_digits_def, simplified]
  then obtain k where "\<And>v. digitsOf 16 hexDigit v (bytesOf (showBase 16 n)) = Some (v * k + of_nat n)" by auto
  then show ?thesis using d by (simp add: numOf_def bytesOf_def)
qed

lemma length_bytesOf [simp]: "length (bytesOf xs) = length xs"
  by (simp add: bytesOf_def)

lemma bytesOf_append: "bytesOf (xs @ ys) = bytesOf xs @ bytesOf ys"
  by (simp add: bytesOf_def)

lemma word_no_blank:
  "0x20 \<notin> set (bytesOf (showBase 10 n))" "0x20 \<notin> set (bytesOf (''0x'' @ showBase 16 n))"
  "0 \<notin> set (bytesOf (showBase 10 n))" "0 \<notin> set (bytesOf (showBase 16 n))" "bytesOf (showBase 10 n) \<noteq> []"
  using showBase_digits [of 10 decDigit n] showBase_digits [of 16 hexDigit n]
  by (auto simp: base_digits_def bytesOf_append) (auto simp: bytesOf_def)

lemma args_words:
  "argWords (bytesOf (bootloaderArgs nMegs addr sz)) =
     [bytesOf ''-megs'', bytesOf (showBase 10 (unat nMegs)), bytesOf ''-initrd-image'',
      bytesOf (''0x'' @ showBase 16 (unat addr)), bytesOf (''0x'' @ showBase 16 (unat sz))]"
proof -
  have "bytesOf (bootloaderArgs nMegs addr sz) = bytesOf ''-megs'' @ 0x20 # bytesOf (showBase 10 (unat nMegs)) @ 0x20 #
      bytesOf ''-initrd-image'' @ 0x20 # bytesOf (''0x'' @ showBase 16 (unat addr)) @ 0x20 # bytesOf (''0x'' @ showBase 16 (unat sz))"
    by (simp add: bootloaderArgs_def bytesOf_def)
  moreover have "bytesOf ''-megs'' \<noteq> []" "0x20 \<notin> set (bytesOf ''-megs'')" "bytesOf ''-initrd-image'' \<noteq> []"
      "0x20 \<notin> set (bytesOf ''-initrd-image'')" "bytesOf (''0x'' @ xs) \<noteq> []" for xs
    by (simp_all add: bytesOf_def)
  ultimately show ?thesis
    using word_no_blank by (simp add: argWords_Cons)
qed

lemma args_no_NUL: "0 \<notin> set (bytesOf (bootloaderArgs nMegs addr sz))"
  using word_no_blank(3) [of "unat nMegs"] word_no_blank(4) [of "unat addr"] word_no_blank(4) [of "unat sz"]
  by (simp add: bootloaderArgs_def bytesOf_def)

lemma args_spec:
  "bootSpec (bytesOf (bootloaderArgs nMegs addr sz)) =
     (if nMegs = 0 \<or> addr = 0 \<or> sz = 0 then None else Some \<lparr>bo_nMegs = nMegs, bo_addr = addr, bo_size = sz, bo_io = False\<rparr>)"
proof -
  have "bytesOf ''-initrd-image'' \<noteq> bytesOf ''-megs''" by (simp add: bytesOf_def)
  then show ?thesis
    by (simp add: bootSpec_def args_words numOf_dec numOf_hex [simplified] no_bootOpts_def)
qed

text \<open>After \<^verbatim>\<open>loadImages\<close> the command line of the boot loader is in memory.\<close>

lemma loadImages_args:
  assumes "loadImages he op u = Ret True u'"
  obtains sz where "cstrAt (us_mem u') (unat (us_memSize u')) 0x91800 (bytesOf (bootloaderArgs (op_nMegs op) (op_initrdLoadAddr op) sz))"
    "if op_initrdLoadAddr op = 0 then sz = 0
     else sz \<noteq> 0 \<and> (\<exists>u1 u2 room. loadImage he (op_initrdImage op) (op_initrdLoadAddr op) room u1 = Ret sz u2)"
proof -
  let ?args = "\<lambda>sz. bytesOf (bootloaderArgs (op_nMegs op) (op_initrdLoadAddr op) sz)"
  obtain sz u1 where sz: "memWrite BootloaderCLAddr (?args sz @ [0]) u1 = Ret () u'"
      "if op_initrdLoadAddr op = 0 then sz = 0
       else sz \<noteq> 0 \<and> (\<exists>u1 u2 room. loadImage he (op_initrdImage op) (op_initrdLoadAddr op) room u1 = Ret sz u2)"
    using assms by (cases "op_initrdLoadAddr op = 0")
      (auto simp: loadImages_def bnd_Ret thn_def ret_def split: if_splits, blast+)
  then have "u' = u1\<lparr>us_mem := putBytes 0x91800 (?args sz @ [0]) (us_mem u1)\<rparr>" "memFits u1 0x91800 (length (?args sz @ [0]))"
    using sz(1) by (auto simp: memWrite_def bnd_Ret thn_def gets_def modify_def inBounds_def ret_def undef_def BootloaderCLAddr_def
        split: if_splits)
  then have "cstrAt (us_mem u') (unat (us_memSize u')) 0x91800 (?args sz)"
    using args_no_NUL by (simp add: cstrAt_def peek_putBytes memFits_def)
  then show thesis using that sz(2) by blast
qed

section \<open>The boot loader\<close>

text \<open>C12: The boot loader computes the function \<open>bootSpec\<close> of its command line: whatever string stands at 0x91800, it either jumps
  to the kernel at 0x100000 with the address of the setup page in ESI, the page filled in for the options of the string
  and the devices programmed when it has \<^verbatim>\<open>-init-io\<close>; or, when the string is not acceptable, it stops the processor before any
  access to a port. It never leaves the memory, and writes only to the page and over its command line.\<close>

theorem bootloader_refines:
  assumes "cstrAt m n 0x91800 cl"
  shows "case bootSpec cl of
       Some opts \<Rightarrow> entersKernel opts (length cl) m (bootloaderMain bus (boot_start m n))
     | None \<Rightarrow> stops (length cl) m (bootloaderMain bus (boot_start m n))"
  by (rule bootloader_computes [OF assms])

text \<open>The command line that \<^verbatim>\<open>setup32-cmdline.c\<close> writes.\<close>

definition sample_cl :: "Bit8u list" where
  "sample_cl = bytesOf ''-megs 32 -init-io -initrd-image 0x1a00000 0x200000''"

lemma sample_cl_spec:
  "bootSpec sample_cl = Some \<lparr>bo_nMegs = 32, bo_addr = 0x1a00000, bo_size = 0x200000, bo_io = True\<rparr>"
  by code_simp

lemma sample_cl_at: "cstrAt (putBytes 0x91800 (sample_cl @ [0]) (\<lambda>_. 0)) 0x2000000 0x91800 sample_cl"
  by (simp add: cstrAt_def peek_putBytes) (simp add: sample_cl_def bytesOf_def)

theorem bootloader_refines_witness:
  "entersKernel \<lparr>bo_nMegs = 32, bo_addr = 0x1a00000, bo_size = 0x200000, bo_io = True\<rparr> (length sample_cl)
     (putBytes 0x91800 (sample_cl @ [0]) (\<lambda>_. 0))
     (bootloaderMain (\<lambda>_ _. 0) (boot_start (putBytes 0x91800 (sample_cl @ [0]) (\<lambda>_. 0)) 0x2000000))"
  using bootloader_refines [OF sample_cl_at, of "\<lambda>_ _. 0"] by (simp add: sample_cl_spec)

text \<open>C13: The arguments survive the way through guest memory: what the user process prints for a guest with an initial
  RAM disk, the boot loader reads back. It enters the kernel with a setup page that has the megabytes of the command line of
  \<^verbatim>\<open>linuxvm\<close> and the place and the size at which the RAM disk was loaded.\<close>

theorem boot_args_roundtrip:
  assumes "loadImages he op u = Ret True u'" "op_nMegs op \<noteq> 0" "op_initrdLoadAddr op \<noteq> 0"
  shows "\<exists>sz u1 u2 room. loadImage he (op_initrdImage op) (op_initrdLoadAddr op) room u1 = Ret sz u2 \<and>
    entersKernel \<lparr>bo_nMegs = op_nMegs op, bo_addr = op_initrdLoadAddr op, bo_size = sz, bo_io = False\<rparr>
      (length (bootloaderArgs (op_nMegs op) (op_initrdLoadAddr op) sz)) (us_mem u')
      (bootloaderMain bus (boot_start (us_mem u') (unat (us_memSize u'))))"
proof -
  obtain sz where at: "cstrAt (us_mem u') (unat (us_memSize u')) 0x91800 (bytesOf (bootloaderArgs (op_nMegs op) (op_initrdLoadAddr op) sz))"
    and sz: "sz \<noteq> 0" "\<exists>u1 u2 room. loadImage he (op_initrdImage op) (op_initrdLoadAddr op) room u1 = Ret sz u2"
    using loadImages_args [OF assms(1)] assms(3) by metis
  show ?thesis
    using bootloader_computes [OF at, of bus] sz assms(2,3) by (auto simp: args_spec)
qed

text \<open>An operating system whose files all have sixteen bytes.\<close>

definition sample_images :: "unit halenv" where
  "sample_images = \<lparr>os_open = (\<lambda>s path. (3, s)), os_close = (\<lambda>s fd. (0, s)), os_lseek = (\<lambda>s fd off. (- 1, s)),
     os_read = (\<lambda>s fd n. ((int n, 0, replicate n 1), s)), os_write = (\<lambda>s fd bs. (- 1, s)), os_fstat = (\<lambda>s fd. ((0, 16), s)),
     os_ioctl = (\<lambda>s fd req. (0, s)), os_execute = (\<lambda>s fd cpu mem. ((0, 0, 0, cpu, mem), s)),
     os_script = (\<lambda>s path. ((True, True, 0), s))\<rparr>"

definition sample_options :: "Bit32u \<Rightarrow> options_t" where
  "sample_options addr = no_options\<lparr>op_nMegs := 4, op_initrdLoadAddr := addr\<rparr>"

lemma sample_loadImage:
  assumes "unat addr + 16 \<le> unat (us_memSize u)" "us_memLive u" "16 \<le> room"
  shows "loadImage sample_images path addr room u =
    Ret 16 (u\<lparr>us_mem := putBytes (unat addr) (replicate 16 1) (us_mem u)\<rparr>)"
  using assms
  by (simp add: loadImage_def sample_images_def osCall_def bnd_def ret_def loadRest_def loadLoop.simps [of _ _ _ 16]
      loadLoop.simps [of _ _ _ 0] memWrite_def thn_def gets_def modify_def memFits_def Let_def)

lemma sample_args_length: "length (bootloaderArgs 4 0x200000 16) = 35" "length (bootloaderArgs 4 0 0) = 29"
  by (simp_all add: bootloaderArgs_def showBase.simps)

lemma sample_loadImages:
  "\<exists>u'. loadImages sample_images (sample_options 0x200000) (sample_user ()) = Ret True u'"
  "\<exists>u'. loadImages sample_images (sample_options 0) (sample_user ()) = Ret True u'"
  using sample_args_length
  by (simp_all add: loadImages_def sample_options_def no_options_def bnd_def thn_def gets_def ret_def whenM_def sample_loadImage
      linuxImageLoadAddr_def memWrite_def memFits_def inBounds_def modify_def BootloaderCLAddr_def)

theorem boot_args_roundtrip_witness:
  "\<exists>u' sz. loadImages sample_images (sample_options 0x200000) (sample_user ()) = Ret True u' \<and>
     entersKernel \<lparr>bo_nMegs = 4, bo_addr = 0x200000, bo_size = sz, bo_io = False\<rparr>
       (length (bootloaderArgs 4 0x200000 sz)) (us_mem u')
       (bootloaderMain (\<lambda>_ _. 0) (boot_start (us_mem u') (unat (us_memSize u'))))"
proof -
  obtain u' where u': "loadImages sample_images (sample_options 0x200000) (sample_user ()) = Ret True u'"
    using sample_loadImages(1) by blast
  show ?thesis
    using boot_args_roundtrip [OF u', of "\<lambda>_ _. 0"] u' by (auto simp: sample_options_def no_options_def)
qed

text \<open>C38: Without an initial RAM disk the guest never gets to its kernel. The user process takes \<^verbatim>\<open>-initrd-image\<close> as an
  option that may be left out, but always prints it for the boot loader, with the address 0; the boot loader takes the address
  0 for an error and stops the processor.\<close>

theorem boot_needs_initrd:
  assumes "loadImages he op u = Ret True u'" "op_initrdLoadAddr op = 0"
  shows "stops (length (bootloaderArgs (op_nMegs op) 0 0)) (us_mem u')
    (bootloaderMain bus (boot_start (us_mem u') (unat (us_memSize u'))))"
proof -
  have at: "cstrAt (us_mem u') (unat (us_memSize u')) 0x91800 (bytesOf (bootloaderArgs (op_nMegs op) 0 0))"
    using loadImages_args [OF assms(1)] assms(2) by metis
  show ?thesis using bootloader_computes [OF at, of bus] by (simp add: args_spec)
qed

theorem boot_needs_initrd_witness:
  "\<exists>u'. loadImages sample_images (sample_options 0) (sample_user ()) = Ret True u' \<and>
     stops (length (bootloaderArgs 4 0 0)) (us_mem u')
       (bootloaderMain (\<lambda>_ _. 0) (boot_start (us_mem u') (unat (us_memSize u'))))"
proof -
  obtain u' where u': "loadImages sample_images (sample_options 0) (sample_user ()) = Ret True u'"
    using sample_loadImages(2) by blast
  show ?thesis
    using boot_needs_initrd [OF u', of "\<lambda>_ _. 0"] u' by (simp add: sample_options_def no_options_def)
qed

text \<open>C34: The size of the memory that the kernel is told. Both members for the memory above one megabyte hold the number of
  kilobytes cut to 16 bits, also \<^verbatim>\<open>alt_mem_k\<close>, which has 32: the size is right for machines of up to 64 megabytes, and
  wrong for every larger one.\<close>

theorem boot_memory_report:
  assumes "cstrAt m n 0x91800 cl" "bootSpec cl = Some opts" "bo_nMegs opts < 4096"
    "bootloaderMain bus (boot_start m n) = Ret r s'"
  shows "unat (fieldAt (bt_mem s') Alt_mem_k) = ((unat (bo_nMegs opts) - 1) * 1024) mod 65536 \<and>
    fieldAt (bt_mem s') Ext_mem_k = fieldAt (bt_mem s') Alt_mem_k \<and>
    (unat (fieldAt (bt_mem s') Alt_mem_k) = (unat (bo_nMegs opts) - 1) * 1024) = (bo_nMegs opts \<le> 64)"
proof -
  let ?n = "bo_nMegs opts"
  have "entersKernel opts (length cl) m (Ret r s')"
    using bootloader_computes [OF assms(1), of bus] assms(2,4) by simp
  then have page: "fieldBytes (bt_mem s') f = setupBytes (take_bit 12 ?n) (bo_addr opts) (bo_size opts) f" for f
    by (simp add: entersKernel_def)
  have small: "take_bit 12 ?n = ?n"
    using assms(3) by (simp add: take_bit_eq_mask less_mask_eq)
  have pos: "?n \<noteq> 0" using assms(2) by (auto simp: bootSpec_def split: if_splits option.splits)
  have kb: "unat ((?n - 1) * 1024) = (unat ?n - 1) * 1024"
  proof -
    have "unat (?n - 1) = unat ?n - 1" using pos by (rule unat_minus_one)
    moreover from this have "unat (?n - 1) * unat (1024 :: Bit32u) < 2 ^ LENGTH(32)"
      using assms(3) by (simp add: word_less_nat_alt)
    ultimately show ?thesis by (simp only: unat_mult_lem [THEN iffD1]) simp
  qed
  have ext: "fieldAt (bt_mem s') Ext_mem_k = take_bit 16 ((?n - 1) * 1024)"
      "fieldAt (bt_mem s') Alt_mem_k = take_bit 16 ((?n - 1) * 1024)"
    using page [of Ext_mem_k] page [of Alt_mem_k]
    by (simp_all add: fieldAt_def fieldBytes_def setupBytes_def setupValue_def small le_word_half)
  have alt: "unat (fieldAt (bt_mem s') Alt_mem_k) = ((unat ?n - 1) * 1024) mod 65536"
    unfolding ext unsigned_take_bit_eq kb by (simp add: take_bit_eq_mod)
  moreover have "(((unat ?n - 1) * 1024) mod 65536 = (unat ?n - 1) * 1024) = (?n \<le> 64)"
    using pos by (auto simp: word_le_nat_alt unat_gt_0 mod_eq_self_iff_div_eq_0 div_eq_0_iff)
  ultimately show ?thesis by (simp add: ext)
qed

theorem boot_memory_report_witness:
  "(\<exists>r s'. bootloaderMain (\<lambda>_ _. 0) (boot_start (putBytes 0x91800 (sample_cl @ [0]) (\<lambda>_. 0)) 0x2000000) = Ret r s' \<and>
     unat (fieldAt (bt_mem s') Alt_mem_k) = 31744)"
proof -
  obtain r s' where run: "bootloaderMain (\<lambda>_ _. 0) (boot_start (putBytes 0x91800 (sample_cl @ [0]) (\<lambda>_. 0)) 0x2000000) = Ret r s'"
    using bootloader_computes [OF sample_cl_at, of "\<lambda>_ _. 0"] by (auto simp: sample_cl_spec entersKernel_def)
  show ?thesis
    using boot_memory_report [OF sample_cl_at sample_cl_spec _ run] run by simp
qed

text \<open>A machine of 65 megabytes is reported as one of one.\<close>

lemma boot_memory_wraps: "take_bit 16 ((65 - 1) * 1024 :: Bit32u) = 0"
  by simp

end
