(* ===== verification/Guest_Drv.thy ===== *)
theory Guest_Drv
  imports Linux_Vm
begin

text \<open>
  The drivers of \<^verbatim>\<open>guest-kernel/linux\<close>, modules of the guest's own Linux kernel: their state, the calls of that kernel
  they make, and \<^verbatim>\<open>int $0xff\<close>, with which they call the user process. Guest memory and the guest's registers are those of the
  user process, so that a driver and the device behind it run on one state.
\<close>

section \<open>The guest's kernel\<close>

text \<open>Numbers of \<^verbatim>\<open>errno.h\<close>.\<close>

definition ENOMEM :: int where "ENOMEM = 12"
definition EACCES :: int where "EACCES = 13"
definition EFAULT :: int where "EFAULT = 14"
definition EBUSY :: int where "EBUSY = 16"
definition ENODEV :: int where "ENODEV = 19"
definition EINVAL :: int where "EINVAL = 22"
definition ENOSYS :: int where "ENOSYS = 38"
definition EOPNOTSUPP :: int where "EOPNOTSUPP = 95"

text \<open>An element of \<^verbatim>\<open>gendisk.part\<close>.\<close>

record hd_struct =
  hd_start_sect :: Bit32u
  hd_nr_sects :: Bit32u

text \<open>
  What the kernel answers, with its new state: pages and buffers (0 when there is none), registrations, the checks on
  a caller of an ioctl, the entries of a partition table. \<open>gk_copy_to_user\<close> is whether the copy failed. \<open>PAGE_OFFSET\<close> is the
  difference between the linear and the physical address of memory that the kernel has mapped for DMA.
\<close>

record 'k gkenv =
  gk_PAGE_OFFSET :: Bit32u
  gk_jiffies :: "'k \<Rightarrow> Bit32u"
  gk_get_zeroed_page :: "'k \<Rightarrow> Bit32u \<times> 'k"
  gk_kmalloc :: "'k \<Rightarrow> bool \<times> 'k"
  gk_dev_alloc_skb :: "'k \<Rightarrow> Bit32u \<Rightarrow> Bit32u \<times> 'k"
  gk_request_irq :: "'k \<Rightarrow> int \<times> 'k"
  gk_register_netdev :: "'k \<Rightarrow> nat \<Rightarrow> int \<times> 'k"
  gk_register_blkdev :: "'k \<Rightarrow> int \<Rightarrow> int \<times> 'k"
  gk_access_ok :: "'k \<Rightarrow> Bit32u \<Rightarrow> nat \<Rightarrow> bool"
  gk_capable :: "'k \<Rightarrow> bool"
  gk_copy_to_user :: "'k \<Rightarrow> Bit32u \<Rightarrow> Bit8u list \<Rightarrow> bool \<times> 'k"
  gk_blk_ioctl :: "'k \<Rightarrow> Bit8u \<Rightarrow> Bit32u \<Rightarrow> Bit32u \<Rightarrow> int \<times> 'k"
  gk_grok_partitions :: "'k \<Rightarrow> nat \<Rightarrow> Bit32u \<Rightarrow> ((nat \<Rightarrow> hd_struct) \<times> (nat \<Rightarrow> Bit32u)) \<times> 'k"

text \<open>Calls of the kernel that answer nothing, in the order they are made.\<close>

datatype kernCall =
    Take_over_console | Free_irq | Free_skb Bit32u | Free_page Bit32u | Netif_rx nat Bit32u Bit32u
  | Unregister_netdev nat | Fsync_dev Bit8u | Invalidate_buffers Bit8u | Add_gendisk | Del_gendisk
  | Blk_init_queue bool | Blk_cleanup_queue | Register_disk Bit8u Bit32u | Unregister_blkdev
  | Mod_inc_use | Mod_dec_use | Add_timer Bit32u

section \<open>The state\<close>

text \<open>A buffer for a packet: the address and length of its data.\<close>

record sk_buff =
  sk_data :: Bit32u
  sk_len :: Bit32u

record snull_priv =
  sp_rx_packets :: Bit32u
  sp_rx_bytes :: Bit32u
  sp_tx_packets :: Bit32u
  sp_tx_bytes :: Bit32u
  sp_rx_dropped :: Bit32u
  sp_tx_errors :: Bit32u
  sp_tx_skb :: "sk_buff option"

text \<open>\<open>nv_up\<close> is \<^verbatim>\<open>flags & IFF_UP\<close>, \<open>nv_running\<close> whether the queue is started; \<open>nv_priv\<close> is \<open>None\<close> without allocated data.\<close>

record net_device =
  nv_up :: bool
  nv_base_addr :: Bit32u
  nv_irq :: Bit32u
  nv_mtu :: Bit32u
  nv_trans_start :: Bit32u
  nv_running :: bool
  nv_priv :: "snull_priv option"

datatype rqCmd = RqRead | RqWrite | RqOther

text \<open>A request of the block layer, with the buffer of its current segment.\<close>

record request_t =
  rq_dev :: Bit8u
  rq_cmd :: rqCmd
  rq_sector :: Bit32u
  rq_current_nr_sectors :: Bit32u
  rq_buffer :: Bit32u

text \<open>
  The variables of \<^verbatim>\<open>halconsole.c\<close> (\<open>gc_\<close>), \<^verbatim>\<open>halnet.c\<close> (\<open>gn_\<close>) and \<^verbatim>\<open>haldisk.c\<close> (\<open>gd_\<close>). \<open>gd_queue\<close> is the queue of the
  block layer, with an element for each segment of a request, and \<open>gd_done\<close> the segments that have been ended, with
  the status reported for them.
\<close>

record ('o, 'k) guest_t =
  g_user :: "'o user_t"
  g_kern :: 'k
  g_log :: "kernCall list"
  gc_rwArea :: Bit32u
  gn_dev :: "nat \<Rightarrow> net_device"
  gn_rxArea :: Bit32u
  gd_info :: Bit32u
  gd_rwArea :: "nat \<Rightarrow> Bit32u"
  gd_usage :: "nat \<Rightarrow> Bit32u"
  gd_parts :: "nat \<Rightarrow> hd_struct"
  gd_sizes :: "nat \<Rightarrow> Bit32u"
  gd_major :: int
  gd_rahead :: Bit32u
  gd_irq :: Bit32u
  gd_read_ahead :: Bit32u
  gd_busy :: bool
  gd_queue :: "request_t list"
  gd_done :: "(request_t \<times> bool) list"

type_synonym ('o, 'k, 'a) gst = "(('o, 'k) guest_t, 'a) comp"

section \<open>Operations\<close>

text \<open>What the user process does, and the calls of the kernel.\<close>

definition onUser :: "('o, 'a) usr \<Rightarrow> ('o, 'k, 'a) gst" where
  "onUser m g =
     (case m (g_user g) of
        Ret x u \<Rightarrow> Ret x (g\<lparr>g_user := u\<rparr>)
      | Panic e u \<Rightarrow> Panic e (g\<lparr>g_user := u\<rparr>)
      | Undef e \<Rightarrow> Undef e
      | Hang \<Rightarrow> Hang)"

definition kern :: "('k \<Rightarrow> 'a \<times> 'k) \<Rightarrow> ('o, 'k, 'a) gst" where
  "kern f g = (let (x, k) = f (g_kern g) in Ret x (g\<lparr>g_kern := k\<rparr>))"

definition kernLog :: "kernCall \<Rightarrow> ('o, 'k, unit) gst" where
  "kernLog c = modify (\<lambda>g. g\<lparr>g_log := g_log g @ [c]\<rparr>)"

text \<open>Accesses at a linear address of the kernel.\<close>

definition gPhys :: "'k gkenv \<Rightarrow> Bit32u \<Rightarrow> nat" where
  "gPhys ge lAddr = unat (lAddr - gk_PAGE_OFFSET ge)"

definition guestRead :: "'k gkenv \<Rightarrow> Bit32u \<Rightarrow> nat \<Rightarrow> ('o, 'k, Bit8u list) gst" where
  "guestRead ge lAddr n = onUser (memRead (gPhys ge lAddr) n)"

definition guestWrite :: "'k gkenv \<Rightarrow> Bit32u \<Rightarrow> Bit8u list \<Rightarrow> ('o, 'k, unit) gst" where
  "guestWrite ge lAddr bs = onUser (memWrite (gPhys ge lAddr) bs)"

definition guestRead32 :: "'k gkenv \<Rightarrow> Bit32u \<Rightarrow> ('o, 'k, Bit32u) gst" where
  "guestRead32 ge lAddr = bnd (guestRead ge lAddr 4) (\<lambda>bs. ret (le_word bs))"

definition guestWrite32 :: "'k gkenv \<Rightarrow> Bit32u \<Rightarrow> Bit32u \<Rightarrow> ('o, 'k, unit) gst" where
  "guestWrite32 ge lAddr w = guestWrite ge lAddr (word_bytes w)"

text \<open>\<^verbatim>\<open>get_zeroed_page(GFP_KERNEL | __GFP_DMA)\<close>\<close>

definition get_zeroed_page :: "'k gkenv \<Rightarrow> ('o, 'k, Bit32u) gst" where
  "get_zeroed_page ge =
     bnd (kern (gk_get_zeroed_page ge)) (\<lambda>page.
     thn (whenM (page \<noteq> 0) (guestWrite ge page (replicate 4096 0))) (ret page))"

text \<open>\<^verbatim>\<open>int $0xff\<close> with the given registers: the monitor leaves to the user process, which handles the call and executes
  the guest again, with the answer in EAX. When it does not go on the guest is over.\<close>

definition setRegs :: "(nat \<times> Bit32u) list \<Rightarrow> ('o, unit) usr" where
  "setRegs rs = modify (\<lambda>u. u\<lparr>us_cpu := (us_cpu u)\<lparr>cpu_genReg := fold (\<lambda>(r, v) f. f(r := v)) rs (cpu_genReg (us_cpu u))\<rparr>\<rparr>)"

definition halInt :: "'o halenv \<Rightarrow> (nat \<times> Bit32u) list \<Rightarrow> ('o, 'k, Bit32u) gst" where
  "halInt he rs = onUser (thn (setRegs rs) (bnd (halCall he) (\<lambda>ok.
     if ok = 0 then halt ''executeLoop'' else usReg GenRegEAX)))"

section \<open>Their weakest preconditions\<close>

lemma twp_onUser [simp]: "twp (onUser m) Q g = twp m (\<lambda>x u. Q x (g\<lparr>g_user := u\<rparr>)) (g_user g)"
  by (simp add: onUser_def twp_def split: outcome.split)

lemma twp_kern [simp]: "twp (kern f) Q g = (case f (g_kern g) of (x, k) \<Rightarrow> Q x (g\<lparr>g_kern := k\<rparr>))"
  by (simp add: kern_def twp_def split: prod.split)

lemma twp_kernLog [simp]: "twp (kernLog c) Q g = Q () (g\<lparr>g_log := g_log g @ [c]\<rparr>)"
  by (simp add: kernLog_def)

lemma twp_guestRead [simp]:
  "twp (guestRead ge a n) Q g = (memFits (g_user g) (gPhys ge a) n \<and> Q (peekBytes (us_mem (g_user g)) (gPhys ge a) n) g)"
  by (simp add: guestRead_def)

lemma twp_guestWrite [simp]:
  "twp (guestWrite ge a bs) Q g = (memFits (g_user g) (gPhys ge a) (length bs) \<and>
     Q () (g\<lparr>g_user := (g_user g)\<lparr>us_mem := putBytes (gPhys ge a) bs (us_mem (g_user g))\<rparr>\<rparr>))"
  by (simp add: guestWrite_def)

lemma twp_setRegs [simp]: "twp (setRegs rs) Q u = Q () (u\<lparr>us_cpu := (us_cpu u)\<lparr>cpu_genReg :=
    fold (\<lambda>(r, v) f. f(r := v)) rs (cpu_genReg (us_cpu u))\<rparr>\<rparr>)"
  by (simp add: setRegs_def)

lemma peek_outside: "(\<And>i. i < n \<Longrightarrow> m' (a + i) = m (a + i)) \<Longrightarrow> peekBytes m' a n = peekBytes m a n"
  by (auto simp: peekBytes_def)

text \<open>The memory behind a page of the kernel is in physical memory.\<close>

definition kernelPage :: "'k gkenv \<Rightarrow> 'o user_t \<Rightarrow> Bit32u \<Rightarrow> bool" where
  "kernelPage ge u page \<longleftrightarrow> page \<noteq> 0 \<and> memFits u (gPhys ge page) 4096"

lemma gPhys_add:
  assumes "gPhys ge page + k < 2 ^ 32"
  shows "gPhys ge (page + of_nat k) = gPhys ge page + k"
proof -
  have eq: "page + of_nat k - gk_PAGE_OFFSET ge = (page - gk_PAGE_OFFSET ge) + of_nat k" by (simp add: algebra_simps)
  show ?thesis
    using assms unfolding gPhys_def eq by (simp add: unat_word_ariths unat_of_nat)
qed

lemma kernelPage_add: "kernelPage ge u page \<Longrightarrow> k < 4096 \<Longrightarrow> gPhys ge (page + of_nat k) = gPhys ge page + k"
  using unsigned_less [of "us_memSize u", where 'a = nat]
  by (intro gPhys_add) (auto simp: kernelPage_def memFits_def)

lemma kernelPage_fits: "kernelPage ge u page \<Longrightarrow> k + n \<le> 4096 \<Longrightarrow> memFits u (gPhys ge page + k) n"
  by (auto simp: kernelPage_def memFits_def)

end
