(* ===== verification/Guest_Con.thy ===== *)
theory Guest_Con
  imports Guest_Drv
begin

text \<open>
  The console driver of the guest, \<^verbatim>\<open>guest-kernel/linux/halconsole.c\<close>. The last section puts it together with the
  console of the user process: what the guest's kernel writes is printed.
\<close>

section \<open>Calls of the user process\<close>

definition halConGuestWrite :: "'o halenv \<Rightarrow> Bit32u \<Rightarrow> Bit32u \<Rightarrow> ('o, 'k, Bit32u) gst" where
  "halConGuestWrite he device len =
     halInt he [(GenRegEAX, HalCallConGuestWrite), (GenRegEBX, device), (GenRegEDX, len)]"

definition halConGuestRegDev :: "'o halenv \<Rightarrow> Bit32u \<Rightarrow> Bit32u \<Rightarrow> Bit32u \<Rightarrow> ('o, 'k, Bit32u) gst" where
  "halConGuestRegDev he device rwAreaPAddr rwAreaLen =
     halInt he [(GenRegEAX, HalCallConGuestRegDev), (GenRegEBX, device), (GenRegECX, rwAreaPAddr), (GenRegEDX, rwAreaLen)]"

section \<open>Printing\<close>

text \<open>The loop that \<^verbatim>\<open>halcon_putcs\<close> and \<^verbatim>\<open>halcon_print\<close> share: as many characters as the area has room for, then the call.\<close>

function conSend :: "'k gkenv \<Rightarrow> 'o halenv \<Rightarrow> Bit8u list \<Rightarrow> ('o, 'k, unit) gst" where
  "conSend ge he s =
     (if s = [] then ret ()
      else
        let quantum = (if length s > MaxConsoleFrameSize then MaxConsoleFrameSize else length s) in
        thn (forM [0..<quantum] (\<lambda>i.
          bnd (gets gc_rwArea) (\<lambda>area. guestWrite ge (area + of_nat (con_txBuffer + i)) [s ! i])))
        (bnd (halConGuestWrite he 0 (of_nat quantum)) (\<lambda>_. conSend ge he (drop quantum s))))"
  by pat_completeness auto
termination by (relation "measure (\<lambda>(ge, he, s). length s)") auto

declare conSend.simps [simp del]

definition halcon_print :: "'k gkenv \<Rightarrow> 'o halenv \<Rightarrow> Bit8u list \<Rightarrow> ('o, 'k, unit) gst" where
  "halcon_print ge he s = bnd (gets gc_rwArea) (\<lambda>area. whenM (area \<noteq> 0) (conSend ge he s))"

definition halcon_putcs :: "'k gkenv \<Rightarrow> 'o halenv \<Rightarrow> Bit16u list \<Rightarrow> ('o, 'k, unit) gst" where
  "halcon_putcs ge he s =
     thn (bnd (gets gc_rwArea) (\<lambda>area. whenM (area \<noteq> 0) (conSend ge he (map (\<lambda>c. ucast (c AND 0xff)) s))))
     (halcon_print ge he [0x0a])"

section \<open>The other operations of a console\<close>

definition halcon_startup :: string where "halcon_startup = ''<<STARTUP>>''"

definition conNote :: "'k gkenv \<Rightarrow> 'o halenv \<Rightarrow> string \<Rightarrow> ('o, 'k, unit) gst" where
  "conNote ge he s = halcon_print ge he (bytesOf s)"

definition halcon_init :: "'k gkenv \<Rightarrow> 'o halenv \<Rightarrow> ('o, 'k, unit) gst" where
  "halcon_init ge he = conNote ge he ''<<INIT>>\<newline>''"
definition halcon_deinit :: "'k gkenv \<Rightarrow> 'o halenv \<Rightarrow> ('o, 'k, unit) gst" where
  "halcon_deinit ge he = conNote ge he ''<<DEINIT>>\<newline>''"
definition halcon_clear :: "'k gkenv \<Rightarrow> 'o halenv \<Rightarrow> ('o, 'k, unit) gst" where
  "halcon_clear ge he = conNote ge he ''<<CLEAR>>\<newline>''"
definition halcon_putc :: "'k gkenv \<Rightarrow> 'o halenv \<Rightarrow> ('o, 'k, unit) gst" where
  "halcon_putc ge he = conNote ge he ''<<PUTC>>\<newline>''"
definition halcon_cursor :: "('o, 'k, unit) gst" where
  "halcon_cursor = ret ()"
definition halcon_scroll :: "('o, 'k, int) gst" where
  "halcon_scroll = ret 0"
definition halcon_bmove :: "'k gkenv \<Rightarrow> 'o halenv \<Rightarrow> ('o, 'k, unit) gst" where
  "halcon_bmove ge he = conNote ge he ''<<BMOVE>>\<newline>''"
definition halcon_switch :: "'k gkenv \<Rightarrow> 'o halenv \<Rightarrow> ('o, 'k, int) gst" where
  "halcon_switch ge he = thn (conNote ge he ''<<SWITCH>>\<newline>'') (ret 1)"
definition halcon_blank :: "'k gkenv \<Rightarrow> 'o halenv \<Rightarrow> bool \<Rightarrow> ('o, 'k, int) gst" where
  "halcon_blank ge he blank =
     (if blank then thn (conNote ge he ''<<BLANK1>>\<newline>'') (ret 1) else thn (conNote ge he ''<<BLANK0>>\<newline>'') (ret 1))"
definition halcon_font_op :: "('o, 'k, int) gst" where
  "halcon_font_op = ret (- ENOSYS)"
definition halcon_invert_region :: "'k gkenv \<Rightarrow> 'o halenv \<Rightarrow> ('o, 'k, unit) gst" where
  "halcon_invert_region ge he = conNote ge he ''<<INVERT>>''"
definition halcon_dummy :: "('o, 'k, int) gst" where
  "halcon_dummy = ret 0"

section \<open>The module\<close>

definition halcon_mod_init :: "'k gkenv \<Rightarrow> 'o halenv \<Rightarrow> ('o, 'k, int) gst" where
  "halcon_mod_init ge he =
     bnd (get_zeroed_page ge) (\<lambda>page.
     thn (modify (\<lambda>g. g\<lparr>gc_rwArea := page\<rparr>))
     (if page = 0 then ret (- ENODEV)
      else
        bnd (halConGuestRegDev he 0 (page - gk_PAGE_OFFSET ge) (of_nat halConGuestRwArea_size)) (\<lambda>_.
        thn (kernLog Take_over_console) (ret 0))))"

definition halcon_mod_exit :: "('o, 'k, unit) gst" where
  "halcon_mod_exit = ret ()"

section \<open>From the guest's kernel to the paper\<close>

text \<open>The driver and the device agree on the area, and nothing else has been lost.\<close>

definition conReady :: "'k gkenv \<Rightarrow> ('o, 'k) guest_t \<Rightarrow> bool" where
  "conReady ge g \<longleftrightarrow> kernelPage ge (g_user g) (gc_rwArea g) \<and> conOK (g_user g) \<and>
     cd_guestRwArea (us_conDev (g_user g) 0) = Some (gPhys ge (gc_rwArea g))"

lemma conReady_upd:
  "conReady ge g \<Longrightarrow> conReady ge (g\<lparr>g_user := (g_user g)\<lparr>us_mem := m\<rparr>\<rparr>)"
  "conReady ge g \<Longrightarrow> conOK u \<Longrightarrow> conRest u = conRest ((g_user g)\<lparr>us_cpu := cpu\<rparr>) \<Longrightarrow> conReady ge (g\<lparr>g_user := u\<rparr>)"
  by (auto simp: conReady_def kernelPage_def conOK_def memFits_def conRest_def)

lemma conView_upd [simp]: "conView (u\<lparr>us_mem := m\<rparr>) = conView u" "conView (u\<lparr>us_cpu := c\<rparr>) = conView u"
  "conOK (u\<lparr>us_cpu := c\<rparr>) = conOK u"
  by (simp_all add: conView_def conOK_def)

text \<open>A call with \<open>n\<close> characters in the area, through the dispatch of the process.\<close>

lemma halConGuestWrite_twp:
  assumes "conReady ge g" "n \<le> MaxConsoleFrameSize"
  shows "twp (halConGuestWrite he 0 (of_nat n)) (\<lambda>_ g'. conReady ge g' \<and> gc_rwArea g' = gc_rwArea g \<and>
     conView (g_user g') = foldl conAdd (conView (g_user g))
       (map (\<lambda>i. us_mem (g_user g) (gPhys ge (gc_rwArea g) + con_txBuffer + i)) [0..<n])) g"
proof -
  let ?a = "gPhys ge (gc_rwArea g)"
  let ?f = "(cpu_genReg (us_cpu (g_user g)))(GenRegEAX := HalCallConGuestWrite, GenRegEBX := 0, GenRegEDX := of_nat n)"
  let ?u = "(g_user g)\<lparr>us_cpu := (us_cpu (g_user g))\<lparr>cpu_genReg := ?f\<rparr>\<rparr>"
  have n: "unat (of_nat n :: Bit32u) = n" using assms(2) by (simp add: unat_of_nat)
  have "twp (halConWrite he) (\<lambda>_ u'. conOK u' \<and> us_mem u' = us_mem ?u \<and> cpu_genReg (us_cpu u') GenRegEAX = 1 \<and>
     conRest u' = conRest (?u\<lparr>us_cpu := (us_cpu ?u)\<lparr>cpu_genReg := (cpu_genReg (us_cpu ?u))(GenRegEAX := 1)\<rparr>\<rparr>) \<and>
     conView u' = foldl conAdd (conView ?u)
       (map (\<lambda>i. us_mem ?u (?a + con_txBuffer + i)) [0..<unat (cpu_genReg (us_cpu ?u) GenRegEDX)])) ?u"
    using assms n by (intro halConWrite_twp) (auto simp: conReady_def kernelPage_def memFits_def)
  then have "twp (halConWrite he) (\<lambda>_ u'. conReady ge (g\<lparr>g_user := u'\<rparr>) \<and>
     conView u' = foldl conAdd (conView (g_user g)) (map (\<lambda>i. us_mem (g_user g) (?a + con_txBuffer + i)) [0..<n])) ?u"
    by (rule twp_mono) (use n assms(1) in \<open>auto intro: conReady_upd(2)\<close>)
  then show ?thesis
    by (simp add: halConGuestWrite_def halInt_def halCall_def usReg_def halConCall_def)
qed

lemma conFill_twp:
  fixes ge :: "'k gkenv" and g :: "('o, 'k) guest_t"
  assumes "conReady ge g" "n \<le> length s" "n \<le> MaxConsoleFrameSize"
  shows "twp (forM [0..<n] (\<lambda>i. bnd (gets gc_rwArea) (\<lambda>area. guestWrite ge (area + of_nat (con_txBuffer + i)) [s ! i])))
    (\<lambda>_ g'. conReady ge g' \<and> gc_rwArea g' = gc_rwArea g \<and> conView (g_user g') = conView (g_user g) \<and>
       (\<forall>i < n. us_mem (g_user g') (gPhys ge (gc_rwArea g) + con_txBuffer + i) = s ! i)) g"
proof (rule twp_forM_upt [where I = "\<lambda>k g'. conReady ge g' \<and> gc_rwArea g' = gc_rwArea g \<and> conView (g_user g') = conView (g_user g) \<and>
       (\<forall>i < k. us_mem (g_user g') (gPhys ge (gc_rwArea g) + con_txBuffer + i) = s ! i)"])
  fix k and g' :: "('o, 'k) guest_t"
  assume k: "k < n" and I: "conReady ge g' \<and> gc_rwArea g' = gc_rwArea g \<and> conView (g_user g') = conView (g_user g) \<and>
       (\<forall>i < k. us_mem (g_user g') (gPhys ge (gc_rwArea g) + con_txBuffer + i) = s ! i)"
  then have page: "kernelPage ge (g_user g') (gc_rwArea g)" by (auto simp: conReady_def)
  have at: "gPhys ge (gc_rwArea g + of_nat (con_txBuffer + k)) = gPhys ge (gc_rwArea g) + (con_txBuffer + k)"
    using k assms(3) by (intro kernelPage_add [OF page]) simp
  have "memFits (g_user g') (gPhys ge (gc_rwArea g) + (con_txBuffer + k)) 1"
    using k assms(3) by (intro kernelPage_fits [OF page]) simp
  then show "twp (bnd (gets gc_rwArea) (\<lambda>area. guestWrite ge (area + of_nat (con_txBuffer + k)) [s ! k]))
      (\<lambda>_ g'. conReady ge g' \<and> gc_rwArea g' = gc_rwArea g \<and> conView (g_user g') = conView (g_user g) \<and>
       (\<forall>i < Suc k. us_mem (g_user g') (gPhys ge (gc_rwArea g) + con_txBuffer + i) = s ! i)) g'"
    using I at conReady_upd(1) [of ge g'] by (auto simp: putBytes_def less_Suc_eq)
qed (use assms in simp)

lemma conSend_twp:
  "conReady ge g \<Longrightarrow> twp (conSend ge he s) (\<lambda>_ g'. conReady ge g' \<and> gc_rwArea g' = gc_rwArea g \<and>
     conView (g_user g') = foldl conAdd (conView (g_user g)) s) g"
proof (induction ge he s arbitrary: g rule: conSend.induct)
  case (1 ge he s)
  show ?case
  proof (cases "s = []")
    case True
    then show ?thesis using "1.prems" by (simp add: conSend.simps)
  next
    case False
    define q where "q = (if length s > MaxConsoleFrameSize then MaxConsoleFrameSize else length s)"
    have q: "q \<le> length s" "q \<le> MaxConsoleFrameSize" by (auto simp: q_def)
    have IH: "twp (conSend ge he (drop q s)) (\<lambda>_ g'. conReady ge g' \<and> gc_rwArea g' = gc_rwArea g1 \<and>
       conView (g_user g') = foldl conAdd (conView (g_user g1)) (drop q s)) g1" if "conReady ge g1" for g1
      using "1.IH" [OF False q_def that] .
    have chars: "map (\<lambda>i. s ! i) [0..<q] = take q s" using q(1) by (intro nth_equalityI) auto
    have join: "foldl conAdd (foldl conAdd v (take q s)) (drop q s) = foldl conAdd v s" for v
      unfolding foldl_append [symmetric] by simp
    have fin: "twp (bnd (halConGuestWrite he 0 (of_nat q)) (\<lambda>_. conSend ge he (drop q s)))
      (\<lambda>_ g'. conReady ge g' \<and> gc_rwArea g' = gc_rwArea g \<and> conView (g_user g') = foldl conAdd (conView (g_user g)) s) g1"
      if g1: "conReady ge g1" "gc_rwArea g1 = gc_rwArea g" "conView (g_user g1) = conView (g_user g)"
        "\<forall>i < q. us_mem (g_user g1) (gPhys ge (gc_rwArea g) + con_txBuffer + i) = s ! i" for g1
    proof -
      have "map (\<lambda>i. us_mem (g_user g1) (gPhys ge (gc_rwArea g1) + con_txBuffer + i)) [0..<q] = take q s"
        using g1(2,4) chars by (metis (no_types, lifting) atLeastLessThan_iff map_eq_conv set_upt)
      then show ?thesis
        unfolding twp_bnd
        by (intro twp_mono [OF halConGuestWrite_twp [OF g1(1) q(2)]] twp_mono [OF IH]) (auto simp: g1(2,3) join)
    qed
    have "twp (thn (forM [0..<q] (\<lambda>i. bnd (gets gc_rwArea) (\<lambda>area. guestWrite ge (area + of_nat (con_txBuffer + i)) [s ! i])))
        (bnd (halConGuestWrite he 0 (of_nat q)) (\<lambda>_. conSend ge he (drop q s))))
      (\<lambda>_ g'. conReady ge g' \<and> gc_rwArea g' = gc_rwArea g \<and> conView (g_user g') = foldl conAdd (conView (g_user g)) s) g"
      unfolding twp_thn by (rule twp_mono [OF conFill_twp [OF "1.prems" q]]) (rule fin; simp)
    then show ?thesis
      unfolding conSend.simps [of ge he s] Let_def q_def [symmetric] using False by (simp only: if_False)
  qed
qed

lemma halcon_putcs_twp:
  assumes "conReady ge g"
  shows "twp (halcon_putcs ge he s) (\<lambda>_ g'. conReady ge g' \<and>
     conView (g_user g') = foldl conAdd (conView (g_user g)) (map ucast s @ [newline])) g"
proof -
  have low: "ucast (c AND 0xff) = (ucast c :: Bit8u)" for c :: Bit16u
  proof -
    have "c AND 0xff = take_bit 8 c" by (simp add: take_bit_eq_mask mask_eq_exp_minus_1)
    then show ?thesis by (simp only:) (rule bit_word_eqI, simp add: bit_simps)
  qed
  have area: "gc_rwArea g' \<noteq> 0" if "conReady ge g'" for g' using that by (simp add: conReady_def kernelPage_def)
  have nl: "twp (halcon_print ge he [newline]) (\<lambda>_ g''. conReady ge g'' \<and>
      conView (g_user g'') = foldl conAdd (conView (g_user g)) (map ucast s @ [newline])) g'"
    if "conReady ge g' \<and> gc_rwArea g' = gc_rwArea g \<and> conView (g_user g') = foldl conAdd (conView (g_user g)) (map ucast s)" for g'
    using that area [of g'] twp_mono [OF conSend_twp [of ge g' he "[newline]"]] by (simp add: halcon_print_def)
  show ?thesis
    using area [OF assms] twp_mono [OF conSend_twp [OF assms, of he "map ucast s"] nl]
    by (simp add: halcon_putcs_def low)
qed

text \<open>The module registers the page it gets, and driver and device agree on it.\<close>

lemma halcon_mod_init_twp:
  assumes "gk_get_zeroed_page ge (g_kern g) = (page, k)" "kernelPage ge (g_user g) page" "conOK (g_user g)"
    "cd_registered (us_conDev (g_user g) 0) = 0"
  shows "twp (halcon_mod_init ge he) (\<lambda>r g'. r = 0 \<and> conReady ge g' \<and> conView (g_user g') = conView (g_user g)) g"
proof -
  have page: "page \<noteq> 0" "memFits (g_user g) (gPhys ge page) 4096" using assms(2) by (simp_all add: kernelPage_def)
  then have low: "\<not> us_memSize (g_user g) - 2056 \<le> page - gk_PAGE_OFFSET ge"
    by (auto simp: gPhys_def memFits_def word_le_nat_alt unat_sub)
  show ?thesis
    using assms page low
    by (simp add: halcon_mod_init_def get_zeroed_page_def halConGuestRegDev_def halInt_def halCall_def usReg_def halConCall_def
        halConRegDev_def setEAX_def conReady_def kernelPage_def gPhys_def conOK_def conView_def memFits_def)
qed

lemma halcon_lines_twp:
  assumes "conReady ge g"
  shows "twp (forM lines (halcon_putcs ge he)) (\<lambda>_ g'. conReady ge g' \<and>
     conView (g_user g') = foldl conAdd (conView (g_user g)) (concat (map (\<lambda>s. map ucast s @ [newline]) lines))) g"
  using assms
proof (induction lines arbitrary: g)
  case (Cons s lines)
  show ?case
    unfolding forM.simps twp_thn
    by (rule twp_mono [OF halcon_putcs_twp [OF Cons.prems]], rule twp_mono [OF Cons.IH]) simp_all
qed simp

end
