(* ===== verification/Guest_Net.thy ===== *)
theory Guest_Net
  imports Guest_Drv
begin

text \<open>
  The network driver of the guest, \<^verbatim>\<open>guest-kernel/linux/halnet.c\<close>: two devices of which the first has a receive area. The
  last section puts it together with the network device of the user process.
\<close>

definition ETH_ZLEN :: Bit32u where "ETH_ZLEN = 60"

text \<open>The sizes of \<^verbatim>\<open>struct ethhdr\<close> and \<^verbatim>\<open>struct iphdr\<close>.\<close>

definition sizeof_ethhdr :: Bit32u where "sizeof_ethhdr = 14"
definition sizeof_iphdr :: Bit32u where "sizeof_iphdr = 20"

section \<open>Calls of the user process\<close>

definition halNetGuestTx :: "'o halenv \<Rightarrow> Bit32u \<Rightarrow> Bit32u \<Rightarrow> Bit32u \<Rightarrow> ('o, 'k, Bit32u) gst" where
  "halNetGuestTx he device packetPhyAddr len =
     halInt he [(GenRegEAX, HalCallNetGuestTx), (GenRegEBX, device), (GenRegECX, packetPhyAddr), (GenRegEDX, len)]"

definition halNetGuestRegDev :: "'o halenv \<Rightarrow> Bit32u \<Rightarrow> Bit32u \<Rightarrow> Bit32u \<Rightarrow> ('o, 'k, Bit32u) gst" where
  "halNetGuestRegDev he device rxAreaPAddr rxAreaLen =
     halInt he [(GenRegEAX, HalCallNetGuestRegDev), (GenRegEBX, device), (GenRegECX, rxAreaPAddr), (GenRegEDX, rxAreaLen)]"

section \<open>The devices\<close>

text \<open>\<^verbatim>\<open>dev->priv\<close> is used without a test: it must have been allocated.\<close>

definition updDev :: "nat \<Rightarrow> (net_device \<Rightarrow> net_device) \<Rightarrow> ('o, 'k, unit) gst" where
  "updDev dev f = modify (\<lambda>g. g\<lparr>gn_dev := (gn_dev g)(dev := f (gn_dev g dev))\<rparr>)"

definition getPriv :: "nat \<Rightarrow> ('o, 'k, snull_priv) gst" where
  "getPriv dev = bnd (gets (\<lambda>g. nv_priv (gn_dev g dev))) (\<lambda>p. case p of None \<Rightarrow> undef ''dev->priv'' | Some p \<Rightarrow> ret p)"

definition updPriv :: "nat \<Rightarrow> (snull_priv \<Rightarrow> snull_priv) \<Rightarrow> ('o, 'k, unit) gst" where
  "updPriv dev f = bnd (getPriv dev) (\<lambda>p. updDev dev (\<lambda>d. d\<lparr>nv_priv := Some (f p)\<rparr>))"

definition snull_open :: "'k gkenv \<Rightarrow> nat \<Rightarrow> ('o, 'k, int) gst" where
  "snull_open ge dev =
     thn (kernLog Mod_inc_use)
     (bnd (kern (gk_request_irq ge)) (\<lambda>r.
      if r \<noteq> 0 then ret 1
      else thn (updDev dev (\<lambda>d. d\<lparr>nv_running := True\<rparr>)) (ret 0)))"

definition snull_release :: "nat \<Rightarrow> ('o, 'k, int) gst" where
  "snull_release dev =
     thn (kernLog Free_irq)
     (thn (updDev dev (\<lambda>d. d\<lparr>nv_running := False\<rparr>))
     (thn (kernLog Mod_dec_use) (ret 0)))"

definition snull_config :: "nat \<Rightarrow> Bit32u \<Rightarrow> Bit32u \<Rightarrow> ('o, 'k, int) gst" where
  "snull_config dev base_addr irq =
     bnd (gets (\<lambda>g. gn_dev g dev)) (\<lambda>d.
     if nv_up d then ret (- EBUSY)
     else if base_addr \<noteq> nv_base_addr d then ret (- EOPNOTSUPP)
     else thn (whenM (irq \<noteq> nv_irq d) (updDev dev (\<lambda>d. d\<lparr>nv_irq := irq\<rparr>))) (ret 0))"

section \<open>Receiving\<close>

definition snull_rx :: "'k gkenv \<Rightarrow> nat \<Rightarrow> Bit32u \<Rightarrow> Bit32u \<Rightarrow> ('o, 'k, unit) gst" where
  "snull_rx ge dev len buf =
     bnd (kern (\<lambda>k. gk_dev_alloc_skb ge k (len + 2))) (\<lambda>skb.
     if skb = 0 then updPriv dev (\<lambda>p. p\<lparr>sp_rx_dropped := sp_rx_dropped p + 1\<rparr>)
     else
       bnd (guestRead ge buf (unat len)) (\<lambda>bs.
       thn (guestWrite ge (skb + 2) bs)
       (thn (updPriv dev (\<lambda>p. p\<lparr>sp_rx_packets := sp_rx_packets p + 1, sp_rx_bytes := sp_rx_bytes p + len\<rparr>))
       (kernLog (Netif_rx dev (skb + 2) len)))))"

text \<open>\<^verbatim>\<open>dev\<close> is the \<^verbatim>\<open>dev_id\<close> with which the interrupt was requested; \<open>None\<close> the null pointer.\<close>

definition snull_interrupt :: "'k gkenv \<Rightarrow> nat option \<Rightarrow> ('o, 'k, unit) gst" where
  "snull_interrupt ge dev_id =
     (case dev_id of
        None \<Rightarrow> ret ()
      | Some dev \<Rightarrow>
          bnd (getPriv dev) (\<lambda>_.
          bnd (gets gn_rxArea) (\<lambda>area.
          bnd (guestRead32 ge (area + of_nat rx_rxBufferFull)) (\<lambda>full.
          whenM (full \<noteq> 0)
            (bnd (guestRead32 ge (area + of_nat rx_rxBufferLen)) (\<lambda>len.
             thn (snull_rx ge dev len (area + of_nat rx_rxBuffer))
             (guestWrite32 ge (area + of_nat rx_rxBufferFull) 0)))))))"

section \<open>Sending\<close>

definition snull_hw_tx :: "'k gkenv \<Rightarrow> 'o halenv \<Rightarrow> Bit32u \<Rightarrow> Bit32u \<Rightarrow> nat \<Rightarrow> ('o, 'k, unit) gst" where
  "snull_hw_tx ge he buf len dev =
     (if len < sizeof_ethhdr + sizeof_iphdr then ret ()
      else
        bnd (halNetGuestTx he 0 (buf - gk_PAGE_OFFSET ge) len) (\<lambda>r.
        whenM (r \<noteq> 0)
          (thn (updPriv dev (\<lambda>p. p\<lparr>sp_tx_packets := sp_tx_packets p + 1, sp_tx_bytes := sp_tx_bytes p + len\<rparr>))
          (bnd (getPriv dev) (\<lambda>p.
           case sp_tx_skb p of None \<Rightarrow> undef ''tx_skb'' | Some skb \<Rightarrow> kernLog (Free_skb (sk_data skb)))))))"

definition snull_tx :: "'k gkenv \<Rightarrow> 'o halenv \<Rightarrow> sk_buff \<Rightarrow> nat \<Rightarrow> ('o, 'k, int) gst" where
  "snull_tx ge he skb dev =
     (let len = (if sk_len skb < ETH_ZLEN then ETH_ZLEN else sk_len skb) in
      bnd (gets (\<lambda>g. gk_jiffies ge (g_kern g))) (\<lambda>jiffies.
      thn (updDev dev (\<lambda>d. d\<lparr>nv_trans_start := jiffies\<rparr>))
      (thn (updPriv dev (\<lambda>p. p\<lparr>sp_tx_skb := Some skb\<rparr>))
      (thn (snull_hw_tx ge he (sk_data skb) len dev)
      (ret 0)))))"

definition snull_tx_timeout :: "nat \<Rightarrow> ('o, 'k, unit) gst" where
  "snull_tx_timeout dev =
     bnd (getPriv dev) (\<lambda>p.
     thn (case sp_tx_skb p of None \<Rightarrow> undef ''tx_skb'' | Some skb \<Rightarrow> kernLog (Free_skb (sk_data skb)))
     (thn (updPriv dev (\<lambda>p. p\<lparr>sp_tx_errors := sp_tx_errors p + 1\<rparr>))
     (updDev dev (\<lambda>d. d\<lparr>nv_running := True\<rparr>))))"

section \<open>The other operations of a device\<close>

definition snull_ioctl :: "('o, 'k, int) gst" where
  "snull_ioctl = ret 0"

definition snull_stats :: "nat \<Rightarrow> ('o, 'k, snull_priv) gst" where
  "snull_stats dev = getPriv dev"

definition snull_change_mtu :: "nat \<Rightarrow> int \<Rightarrow> ('o, 'k, int) gst" where
  "snull_change_mtu dev new_mtu =
     bnd (getPriv dev) (\<lambda>_.
     if new_mtu < 68 \<or> new_mtu > 1500 then ret (- EINVAL)
     else thn (updDev dev (\<lambda>d. d\<lparr>nv_mtu := word_of_int new_mtu\<rparr>)) (ret 0))"

section \<open>The module\<close>

definition zero_priv :: snull_priv where
  "zero_priv = \<lparr>sp_rx_packets = 0, sp_rx_bytes = 0, sp_tx_packets = 0, sp_tx_bytes = 0, sp_rx_dropped = 0, sp_tx_errors = 0,
     sp_tx_skb = None\<rparr>"

text \<open>\<^verbatim>\<open>ether_setup\<close> gives the device the MTU of Ethernet; the other members it sets are not modelled.\<close>

definition snull_init :: "'k gkenv \<Rightarrow> nat \<Rightarrow> ('o, 'k, int) gst" where
  "snull_init ge dev =
     thn (updDev dev (\<lambda>d. d\<lparr>nv_mtu := 1500\<rparr>))
     (bnd (kern (gk_kmalloc ge)) (\<lambda>ok.
      if \<not> ok then thn (updDev dev (\<lambda>d. d\<lparr>nv_priv := None\<rparr>)) (ret (- ENOMEM))
      else thn (updDev dev (\<lambda>d. d\<lparr>nv_priv := Some zero_priv\<rparr>)) (ret 0)))"

text \<open>\<^verbatim>\<open>register_netdev\<close> calls the \<^verbatim>\<open>init\<close> of the device; what else it does may fail.\<close>

definition register_netdev :: "'k gkenv \<Rightarrow> nat \<Rightarrow> ('o, 'k, int) gst" where
  "register_netdev ge dev =
     bnd (snull_init ge dev) (\<lambda>r. if r \<noteq> 0 then ret r else kern (\<lambda>k. gk_register_netdev ge k dev))"

definition snull_init_module :: "'k gkenv \<Rightarrow> 'o halenv \<Rightarrow> ('o, 'k, int) gst" where
  "snull_init_module ge he =
     bnd (register_netdev ge 0) (\<lambda>r0.
     bnd (register_netdev ge 1) (\<lambda>r1.
     bnd (get_zeroed_page ge) (\<lambda>page.
     thn (modify (\<lambda>g. g\<lparr>gn_rxArea := page\<rparr>))
     (if page = 0 then ret (- ENODEV)
      else
        bnd (halNetGuestRegDev he 0 (page - gk_PAGE_OFFSET ge) (of_nat halNetGuestRxArea_size)) (\<lambda>_.
        ret (if r0 = 0 \<or> r1 = 0 then 0 else - ENODEV))))))"

definition snull_cleanup :: "('o, 'k, unit) gst" where
  "snull_cleanup =
     thn (forM [0..<2] (\<lambda>i. thn (updDev i (\<lambda>d. d\<lparr>nv_priv := None\<rparr>)) (kernLog (Unregister_netdev i))))
     (bnd (gets gn_rxArea) (\<lambda>area. whenM (area \<noteq> 0) (kernLog (Free_page area))))"

section \<open>Between the network and the guest's kernel\<close>

lemma twp_updDev [simp]: "twp (updDev dev f) Q g = Q () (g\<lparr>gn_dev := (gn_dev g)(dev := f (gn_dev g dev))\<rparr>)"
  by (simp add: updDev_def)

lemma twp_getPriv: "nv_priv (gn_dev g dev) = Some p \<Longrightarrow> twp (getPriv dev) Q g = Q p g"
  by (simp add: getPriv_def)

lemma twp_updPriv: "nv_priv (gn_dev g dev) = Some p \<Longrightarrow> twp (updPriv dev f) Q g =
    Q () (g\<lparr>gn_dev := (gn_dev g)(dev := (gn_dev g dev)\<lparr>nv_priv := Some (f p)\<rparr>)\<rparr>)"
  by (simp add: updPriv_def twp_getPriv)

text \<open>The driver and the device of the process agree on the receive area.\<close>

definition netReady :: "'k gkenv \<Rightarrow> ('o, 'k) guest_t \<Rightarrow> bool" where
  "netReady ge g \<longleftrightarrow> kernelPage ge (g_user g) (gn_rxArea g) \<and> netArea (g_user g) 0 (gPhys ge (gn_rxArea g)) \<and>
     nv_priv (gn_dev g 0) \<noteq> None"


lemma netReady_page: "netReady ge g \<Longrightarrow> kernelPage ge (g_user g) (gn_rxArea g)"
  by (simp add: netReady_def)

text \<open>A buffer for a frame of \<open>n\<close> bytes that the kernel has, apart from the receive area.\<close>

definition skbFits :: "'k gkenv \<Rightarrow> ('o, 'k) guest_t \<Rightarrow> Bit32u \<Rightarrow> nat \<Rightarrow> bool" where
  "skbFits ge g skb n \<longleftrightarrow> skb \<noteq> 0 \<and> memFits (g_user g) (gPhys ge (skb + 2)) n \<and>
     (gPhys ge (skb + 2) + n \<le> gPhys ge (gn_rxArea g) \<or> gPhys ge (gn_rxArea g) + 4096 \<le> gPhys ge (skb + 2))"

text \<open>The words of the receive area, by their linear addresses.\<close>

lemma netReady_at:
  assumes "netReady ge g" "k < 4096"
  shows "gPhys ge (gn_rxArea g + of_nat k) = gPhys ge (gn_rxArea g) + k"
  by (rule kernelPage_add [OF netReady_page [OF assms(1)] assms(2)])

lemma netReady_fits: "netReady ge g \<Longrightarrow> k + n \<le> 4096 \<Longrightarrow> memFits (g_user g) (gPhys ge (gn_rxArea g) + k) n"
  by (rule kernelPage_fits [OF netReady_page])

lemma netReady_upd: "netReady ge g \<Longrightarrow> netReady ge (g\<lparr>g_user := (g_user g)\<lparr>us_os := s, us_mem := m, us_cpu := c\<rparr>\<rparr>)"
  "netReady ge g \<Longrightarrow> netReady ge (g\<lparr>g_user := (g_user g)\<lparr>us_mem := m\<rparr>\<rparr>)"
  by (simp_all add: netReady_def kernelPage_def netArea_def memFits_def)

text \<open>An interrupt with a frame in the area: it goes to a buffer of the kernel, or is dropped when there is none. In both
  cases the area is free again.\<close>

definition countRx :: "Bit32u \<Rightarrow> snull_priv \<Rightarrow> snull_priv" where
  "countRx len p = p\<lparr>sp_rx_packets := sp_rx_packets p + 1, sp_rx_bytes := sp_rx_bytes p + len\<rparr>"

definition countDrop :: "snull_priv \<Rightarrow> snull_priv" where
  "countDrop p = p\<lparr>sp_rx_dropped := sp_rx_dropped p + 1\<rparr>"

lemma interrupt_idle:
  assumes "netReady ge g" "rxFull (g_user g) (gPhys ge (gn_rxArea g)) = 0"
  shows "twp (snull_interrupt ge (Some 0)) (\<lambda>_ g'. g' = g) g"
proof -
  obtain p where p: "nv_priv (gn_dev g 0) = Some p" using assms(1) by (auto simp: netReady_def)
  show ?thesis
    using assms(2) netReady_fits [OF assms(1), of 0 4]
    by (simp add: snull_interrupt_def twp_getPriv [OF p] guestRead32_def rxFull_def)
qed

lemma interrupt_twp:
  assumes "netReady ge g" "nv_priv (gn_dev g 0) = Some p" "rxFull (g_user g) (gPhys ge (gn_rxArea g)) \<noteq> 0"
    "rxLen (g_user g) (gPhys ge (gn_rxArea g)) = len" "unat len \<le> MaxEthernetFrameSize"
    "gk_dev_alloc_skb ge (g_kern g) (len + 2) = (skb, k)" "skbFits ge g skb (unat len)"
  shows "twp (snull_interrupt ge (Some 0)) (\<lambda>_ g'. \<exists>m. g' = g\<lparr>g_kern := k, g_log := g_log g @ [Netif_rx 0 (skb + 2) len],
       gn_dev := (gn_dev g)(0 := (gn_dev g 0)\<lparr>nv_priv := Some (countRx len p)\<rparr>), g_user := (g_user g)\<lparr>us_mem := m\<rparr>\<rparr> \<and>
     peekBytes m (gPhys ge (skb + 2)) (unat len) =
       peekBytes (us_mem (g_user g)) (gPhys ge (gn_rxArea g) + rx_rxBuffer) (unat len) \<and>
     rxFull (g_user g') (gPhys ge (gn_rxArea g)) = 0) g"
proof -
  let ?a = "gPhys ge (gn_rxArea g)"
  have at: "gPhys ge (gn_rxArea g + 4) = ?a + 4" "gPhys ge (gn_rxArea g + 8) = ?a + 8"
    using netReady_at [OF assms(1), of 4] netReady_at [OF assms(1), of 8] by simp_all
  have fits: "memFits (g_user g) ?a 4" "memFits (g_user g) (?a + 4) 4" "memFits (g_user g) (?a + 8) (unat len)"
    using netReady_fits [OF assms(1), of 0 4] netReady_fits [OF assms(1), of 4 4]
      netReady_fits [OF assms(1), of 8 "unat len"] assms(5) by simp_all
  have buf: "skb \<noteq> 0" "memFits (g_user g) (gPhys ge (skb + 2)) (unat len)"
    "gPhys ge (skb + 2) + unat len \<le> ?a \<or> ?a + 4096 \<le> gPhys ge (skb + 2)"
    using assms(7) by (simp_all add: skbFits_def)
  let ?bs = "peekBytes (us_mem (g_user g)) (?a + 8) (unat len)"
  let ?m = "putBytes ?a (word_bytes 0) (putBytes (gPhys ge (skb + 2)) ?bs (us_mem (g_user g)))"
  have m: "peekBytes ?m (gPhys ge (skb + 2)) (unat len) = ?bs" "peekBytes ?m ?a 4 = word_bytes 0"
    using buf(3) by (auto simp: peek_putBytes)
  have rd: "le_word (peekBytes (us_mem (g_user g)) ?a 4) \<noteq> (0 :: Bit32u)" "le_word (peekBytes (us_mem (g_user g)) (?a + 4) 4) = len"
    using assms(3,4) by (simp_all add: rxFull_def rxLen_def)
  show ?thesis
    using assms(6) m rd at fits buf(1,2)
    by (auto simp: snull_interrupt_def snull_rx_def twp_getPriv [OF assms(2)] twp_updPriv [of _ 0 p] assms(2) guestRead32_def
        guestWrite32_def countRx_def rxFull_def intro!: exI [of _ ?m])
qed

lemma interrupt_dropped:
  assumes "netReady ge g" "nv_priv (gn_dev g 0) = Some p" "rxFull (g_user g) (gPhys ge (gn_rxArea g)) \<noteq> 0"
    "gk_dev_alloc_skb ge (g_kern g) (rxLen (g_user g) (gPhys ge (gn_rxArea g)) + 2) = (0, k)"
  shows "twp (snull_interrupt ge (Some 0)) (\<lambda>_ g'. \<exists>m. g' = g\<lparr>g_kern := k,
       gn_dev := (gn_dev g)(0 := (gn_dev g 0)\<lparr>nv_priv := Some (countDrop p)\<rparr>), g_user := (g_user g)\<lparr>us_mem := m\<rparr>\<rparr> \<and>
     rxFull (g_user g') (gPhys ge (gn_rxArea g)) = 0) g"
proof -
  let ?a = "gPhys ge (gn_rxArea g)"
  have at: "gPhys ge (gn_rxArea g + 4) = ?a + 4"
    using netReady_at [OF assms(1), of 4] by simp
  have fits: "memFits (g_user g) ?a 4" "memFits (g_user g) (?a + 4) 4"
    using netReady_fits [OF assms(1), of 0 4] netReady_fits [OF assms(1), of 4 4] by simp_all
  show ?thesis
    using assms(3,4) at fits
    by (auto simp: snull_interrupt_def snull_rx_def twp_getPriv [OF assms(2)] twp_updPriv [of _ 0 p] assms(2) guestRead32_def
        guestWrite32_def countDrop_def rxFull_def rxLen_def peek_putBytes
        intro!: exI [of _ "putBytes ?a (word_bytes 0) (us_mem (g_user g))"])
qed

text \<open>From the network to the guest's kernel.\<close>

lemma frame_delivered:
  fixes ge :: "'k gkenv" and g :: "('o, 'k) guest_t"
  assumes "netReady ge g" "nv_priv (gn_dev g 0) = Some p" "rxFull (g_user g) (gPhys ge (gn_rxArea g)) = 0" "readFits he"
    and read: "os_read he (us_os (g_user g)) (us_fdTunTap (g_user g)) MaxEthernetFrameSize = ((r, err, bs), s')" "0 < r"
    and len: "n = max 60 (length bs)" "gk_dev_alloc_skb ge (g_kern g) (of_nat n + 2) = (skb, k)" "skbFits ge g skb n"
  shows "twp (thn (onUser (halNetReadPacketToGuest he 0)) (snull_interrupt ge (Some 0))) (\<lambda>_ g'. netReady ge g' \<and>
     rxFull (g_user g') (gPhys ge (gn_rxArea g')) = 0 \<and> g_log g' = g_log g @ [Netif_rx 0 (skb + 2) (of_nat n)] \<and>
     peekBytes (us_mem (g_user g')) (gPhys ge (skb + 2)) (length bs) = bs \<and>
     nv_priv (gn_dev g' 0) = Some (countRx (of_nat n) p)) g"
proof -
  let ?a = "gPhys ge (gn_rxArea g)"
  have area: "netArea (g_user g) 0 ?a" using assms(1) by (simp add: netReady_def)
  have step: "twp (snull_interrupt ge (Some 0)) (\<lambda>_ g'. netReady ge g' \<and>
     rxFull (g_user g') (gPhys ge (gn_rxArea g')) = 0 \<and> g_log g' = g_log g @ [Netif_rx 0 (skb + 2) (of_nat n)] \<and>
     peekBytes (us_mem (g_user g')) (gPhys ge (skb + 2)) (length bs) = bs \<and>
     nv_priv (gn_dev g' 0) = Some (countRx (of_nat n) p)) (g\<lparr>g_user := u\<rparr>)"
    if u: "u = (g_user g)\<lparr>us_os := s', us_mem := us_mem u, us_cpu := c\<rparr>" and rx: "rxFull u ?a = 1" "unat (rxLen u ?a) = n"
      "n \<le> MaxEthernetFrameSize" "peekBytes (us_mem u) (?a + rx_rxBuffer) (length bs) = bs" for u c
  proof -
    let ?g = "g\<lparr>g_user := u\<rparr>"
    have n: "rxLen u ?a = of_nat n" "unat (of_nat n :: Bit32u) = n" by (simp_all add: rx(2) [symmetric])
    have ready: "netReady ge ?g" by (subst u, rule netReady_upd(1) [OF assms(1)])
    have fits: "skbFits ge ?g skb n"
      using len(3) by (subst u) (simp add: skbFits_def memFits_def)
    have prefix: "take (length bs) (peekBytes m a n) = peekBytes m a (length bs)" for m a
      using len(1) by (simp add: peekBytes_def take_map)
    show ?thesis
    proof (rule twp_mono [OF interrupt_twp [where len = "of_nat n" and p = p and skb = skb and k = k]])
      fix x g' assume "\<exists>m. g' = ?g\<lparr>g_kern := k, g_log := g_log ?g @ [Netif_rx 0 (skb + 2) (of_nat n)],
          gn_dev := (gn_dev ?g)(0 := (gn_dev ?g 0)\<lparr>nv_priv := Some (countRx (of_nat n) p)\<rparr>), g_user := (g_user ?g)\<lparr>us_mem := m\<rparr>\<rparr> \<and>
        peekBytes m (gPhys ge (skb + 2)) (unat (of_nat n :: Bit32u)) =
          peekBytes (us_mem (g_user ?g)) (gPhys ge (gn_rxArea ?g) + rx_rxBuffer) (unat (of_nat n :: Bit32u)) \<and>
        rxFull (g_user g') (gPhys ge (gn_rxArea ?g)) = 0"
      then obtain m where g': "g' = ?g\<lparr>g_kern := k, g_log := g_log g @ [Netif_rx 0 (skb + 2) (of_nat n)],
          gn_dev := (gn_dev g)(0 := (gn_dev g 0)\<lparr>nv_priv := Some (countRx (of_nat n) p)\<rparr>), g_user := u\<lparr>us_mem := m\<rparr>\<rparr>"
        and m: "peekBytes m (gPhys ge (skb + 2)) n = peekBytes (us_mem u) (?a + rx_rxBuffer) n"
        and full: "rxFull (g_user g') ?a = 0" using n(2) by auto
      have "netReady ge g'"
        using netReady_upd(2) [OF ready, of m] unfolding g' netReady_def by (simp add: kernelPage_def)
      then show "netReady ge g' \<and> rxFull (g_user g') (gPhys ge (gn_rxArea g')) = 0 \<and>
          g_log g' = g_log g @ [Netif_rx 0 (skb + 2) (of_nat n)] \<and>
          peekBytes (us_mem (g_user g')) (gPhys ge (skb + 2)) (length bs) = bs \<and>
          nv_priv (gn_dev g' 0) = Some (countRx (of_nat n) p)"
        using full rx(4) prefix arg_cong [OF m, of "take (length bs)"] by (simp add: g')
    qed (use ready assms(2) rx(1,3) n len(2) fits in auto)
  qed
  show ?thesis
    unfolding twp_thn twp_onUser
    by (rule twp_mono [OF receive_twp [OF area assms(3,4) read]], rule step) (use len(1) in \<open>auto simp: rx_rxBuffer_def\<close>)
qed

text \<open>From the guest's kernel to the network: a frame of at least 60 bytes.\<close>

definition countTx :: "sk_buff \<Rightarrow> Bit32u \<Rightarrow> snull_priv \<Rightarrow> snull_priv" where
  "countTx skb len p = p\<lparr>sp_tx_skb := Some skb, sp_tx_packets := sp_tx_packets p + 1, sp_tx_bytes := sp_tx_bytes p + len\<rparr>"

lemma frame_sent:
  assumes "nv_priv (gn_dev g 0) = Some p" "nd_registered (us_netDev (g_user g) 0) \<noteq> 0" "us_memLive (g_user g)"
    "n = max 60 (unat (sk_len skb))" "n \<le> MaxEthernetFrameSize" "gPhys ge (sk_data skb) + n < unat (us_memSize (g_user g))"
    "os_write he (us_os (g_user g)) (us_fdTunTap (g_user g)) (peekBytes (us_mem (g_user g)) (gPhys ge (sk_data skb)) n) = (int n, s')"
  shows "twp (snull_tx ge he skb 0) (\<lambda>r g'. r = 0 \<and> us_os (g_user g') = s' \<and> us_mem (g_user g') = us_mem (g_user g) \<and>
     g_log g' = g_log g @ [Free_skb (sk_data skb)] \<and> nv_priv (gn_dev g' 0) = Some (countTx skb (of_nat n) p)) g"
proof -
  let ?len = "if sk_len skb < ETH_ZLEN then ETH_ZLEN else sk_len skb"
  have len: "?len = of_nat n"
    using assms(4) by (auto simp: ETH_ZLEN_def word_less_nat_alt max_def)
  have n: "unat (of_nat n :: Bit32u) = n" "\<not> of_nat n < sizeof_ethhdr + sizeof_iphdr"
    using assms(4,5) by (simp_all add: unat_of_nat sizeof_ethhdr_def sizeof_iphdr_def word_less_nat_alt)
  have addr: "\<not> us_memSize (g_user g) - of_nat n \<le> sk_data skb - gk_PAGE_OFFSET ge"
    using assms(6) n(1) by (simp add: gPhys_def word_le_nat_alt unat_sub)
  have fits: "memFits (g_user g) (gPhys ge (sk_data skb)) n"
    using assms(3,6) by (simp add: memFits_def)
  have w: "word_of_int (int n) = (of_nat n :: Bit32u)" by simp
  show ?thesis
    unfolding snull_tx_def Let_def len
    using assms(1,2,5,7) n addr fits
    by (simp add: twp_updPriv [of _ 0 p] twp_updPriv [of _ 0 "p\<lparr>sp_tx_skb := Some skb\<rparr>"] snull_hw_tx_def halNetGuestTx_def halInt_def
        halCall_def usReg_def halNetCall_def halNetTx_def setEAX_def gPhys_def twp_getPriv countTx_def)
qed

text \<open>The module registers the page it gets; the area is empty.\<close>

lemma register_netdev_twp:
  assumes "\<And>k. fst (gk_kmalloc ge k)" "\<And>k dev. fst (gk_register_netdev ge k dev) = 0"
  shows "twp (register_netdev ge dev) Q g = Q 0 (g\<lparr>
     gn_dev := (gn_dev g)(dev := (gn_dev g dev)\<lparr>nv_mtu := 1500, nv_priv := Some zero_priv\<rparr>),
     g_kern := snd (gk_register_netdev ge (snd (gk_kmalloc ge (g_kern g))) dev)\<rparr>)"
proof -
  obtain k1 where k1: "gk_kmalloc ge (g_kern g) = (True, k1)"
    using assms(1) [of "g_kern g"] by (cases "gk_kmalloc ge (g_kern g)") auto
  obtain k2 where k2: "gk_register_netdev ge k1 dev = (0, k2)"
    using assms(2) [of k1 dev] by (cases "gk_register_netdev ge k1 dev") auto
  show ?thesis by (simp add: register_netdev_def snull_init_def k1 k2)
qed

lemma snull_init_module_twp:
  fixes ge :: "'k gkenv" and g :: "('o, 'k) guest_t"
  assumes "\<And>k. fst (gk_kmalloc ge k)" "\<And>k dev. fst (gk_register_netdev ge k dev) = 0"
    "\<And>k. fst (gk_get_zeroed_page ge k) = page" "kernelPage ge (g_user g) page" "nd_registered (us_netDev (g_user g) 0) = 0"
  shows "twp (snull_init_module ge he) (\<lambda>r g'. r = 0 \<and> netReady ge g' \<and> rxFull (g_user g') (gPhys ge (gn_rxArea g')) = 0 \<and>
     us_os (g_user g') = us_os (g_user g) \<and> us_fdTunTap (g_user g') = us_fdTunTap (g_user g)) g"
proof -
  have page: "page \<noteq> 0" "memFits (g_user g) (gPhys ge page) 4096" using assms(4) by (simp_all add: kernelPage_def)
  then have low: "\<not> us_memSize (g_user g) - 1524 \<le> page - gk_PAGE_OFFSET ge"
    by (auto simp: gPhys_def memFits_def word_le_nat_alt unat_sub)
  have zero: "peekBytes (putBytes a (replicate 4096 0) m) a 4 = word_bytes 0" for a m
    by (simp add: peekBytes_def putBytes_def word_bytes_def upt_rec)
  have area: "rxFull (u\<lparr>us_mem := putBytes a (replicate 4096 0) m\<rparr>) a = 0" for u :: "'o user_t" and a m
    by (simp add: rxFull_def zero)
  have "\<exists>k'. gk_get_zeroed_page ge k = (page, k')" for k using assms(3) [of k] by (metis prod.collapse)
  then obtain f where f: "\<And>k. gk_get_zeroed_page ge k = (page, f k)" by metis
  show ?thesis
    using f assms(5) page low area
    by (simp add: snull_init_module_def register_netdev_twp [OF assms(1,2)] get_zeroed_page_def halNetGuestRegDev_def halInt_def
        halCall_def usReg_def halNetCall_def halNetRegDev_def setEAX_def netReady_def netArea_def kernelPage_def gPhys_def
        memFits_def rxFull_def zero split: prod.split)
qed

text \<open>Unloading the module gives the page back, but the process is not told: a frame that comes later is written into the
  freed page.\<close>

lemma cleanup_dangles:
  assumes "netReady ge g" "rxFull (g_user g) (gPhys ge (gn_rxArea g)) = 0" "readFits he"
    and read: "os_read he (us_os (g_user g)) (us_fdTunTap (g_user g)) MaxEthernetFrameSize = ((r, err, bs), s')" "0 < r"
  shows "twp (thn snull_cleanup (onUser (halNetReadPacketToGuest he 0))) (\<lambda>_ g'. Free_page (gn_rxArea g) \<in> set (g_log g') \<and>
     rxFull (g_user g') (gPhys ge (gn_rxArea g)) = 1 \<and>
     peekBytes (us_mem (g_user g')) (gPhys ge (gn_rxArea g) + rx_rxBuffer) (length bs) = bs) g"
proof -
  have area: "netArea (g_user g) 0 (gPhys ge (gn_rxArea g))" and page: "gn_rxArea g \<noteq> 0"
    using assms(1) by (simp_all add: netReady_def kernelPage_def)
  show ?thesis
    using page by (simp add: snull_cleanup_def upt_rec) (rule twp_mono [OF receive_twp [OF area assms(2,3) read]]; simp)
qed

end
