(* ===== verification/Guest_Disk.thy ===== *)
theory Guest_Disk
  imports Guest_Drv
begin

text \<open>
  The disk driver of the guest, \<^verbatim>\<open>guest-kernel/linux/haldisk.c\<close>: up to four disks with 16 minor numbers each. A device is
  given by its minor number. \<^verbatim>\<open>Guest_Sectors\<close> puts the driver together with the disks of the
  user process and the image file behind them.
\<close>

definition HALDISK_SHIFT :: nat where "HALDISK_SHIFT = 4"
definition NrMinors :: nat where "NrMinors = 64"

lemmas halDisk_consts [simp] = HALDISK_SHIFT_def NrMinors_def

definition DEVICE_NR :: "Bit8u \<Rightarrow> nat" where
  "DEVICE_NR minor = unat (drop_bit HALDISK_SHIFT minor)"

section \<open>Calls of the user process\<close>

definition gdGetDiskInfo :: "'o halenv \<Rightarrow> Bit32u \<Rightarrow> ('o, 'k, unit) gst" where
  "gdGetDiskInfo he phyAddr =
     bnd (halInt he [(GenRegEAX, HalCallDiskGetInfo), (GenRegEBX, phyAddr)]) (\<lambda>_. ret ())"

definition gdWrite :: "'o halenv \<Rightarrow> nat \<Rightarrow> Bit32u \<Rightarrow> Bit32u \<Rightarrow> ('o, 'k, Bit32u) gst" where
  "gdWrite he unit sector phyAddr =
     halInt he [(GenRegEAX, HalCallDiskWrite), (GenRegEBX, phyAddr), (GenRegECX, sector), (GenRegEDX, of_nat unit)]"

definition gdRead :: "'o halenv \<Rightarrow> nat \<Rightarrow> Bit32u \<Rightarrow> Bit32u \<Rightarrow> ('o, 'k, Bit32u) gst" where
  "gdRead he unit sector phyAddr =
     halInt he [(GenRegEAX, HalCallDiskRead), (GenRegEBX, phyAddr), (GenRegECX, sector), (GenRegEDX, of_nat unit)]"

definition gdCleanup :: "'o halenv \<Rightarrow> ('o, 'k, Bit32u) gst" where
  "gdCleanup he = halInt he [(GenRegEAX, HalCallDiskCleanup)]"

section \<open>The tables\<close>

text \<open>Members of \<^verbatim>\<open>halDiskInfo[unit]\<close>, at their offsets, and the elements of the arrays of the driver.\<close>

definition diskInfo32 :: "'k gkenv \<Rightarrow> nat \<Rightarrow> nat \<Rightarrow> ('o, 'k, Bit32u) gst" where
  "diskInfo32 ge unit off = bnd (gets gd_info) (\<lambda>info. guestRead32 ge (info + of_nat (unit * halDiskInfo_size + off)))"

definition info_enabled :: nat where "info_enabled = 0"
definition info_cylinders :: nat where "info_cylinders = 4"
definition info_heads :: nat where "info_heads = 8"
definition info_spt :: nat where "info_spt = 12"
definition info_numSectors :: nat where "info_numSectors = 16"

lemmas info_offsets [simp] = info_enabled_def info_cylinders_def info_heads_def info_spt_def info_numSectors_def

definition getPart :: "nat \<Rightarrow> ('o, 'k, hd_struct) gst" where
  "getPart p = (if p < NrMinors then gets (\<lambda>g. gd_parts g p) else undef ''halDisk_partitions'')"

definition setPart :: "nat \<Rightarrow> hd_struct \<Rightarrow> ('o, 'k, unit) gst" where
  "setPart p h = (if p < NrMinors then modify (\<lambda>g. g\<lparr>gd_parts := (gd_parts g)(p := h)\<rparr>) else undef ''halDisk_partitions'')"

definition setSize :: "nat \<Rightarrow> Bit32u \<Rightarrow> ('o, 'k, unit) gst" where
  "setSize p n = (if p < NrMinors then modify (\<lambda>g. g\<lparr>gd_sizes := (gd_sizes g)(p := n)\<rparr>) else undef ''halDiskPartitionSizes'')"

definition updUsage :: "nat \<Rightarrow> (Bit32u \<Rightarrow> Bit32u) \<Rightarrow> ('o, 'k, Bit32u) gst" where
  "updUsage unit f =
     (if unit < HalDiskMaxDisks
      then thn (modify (\<lambda>g. g\<lparr>gd_usage := (gd_usage g)(unit := f (gd_usage g unit))\<rparr>)) (gets (\<lambda>g. gd_usage g unit))
      else undef ''halDisk_devices'')"

section \<open>Open, close and ioctl\<close>

definition halDisk_open :: "'k gkenv \<Rightarrow> Bit8u \<Rightarrow> ('o, 'k, int) gst" where
  "halDisk_open ge i_rdev =
     (let unit = DEVICE_NR i_rdev in
      if unit \<ge> HalDiskMaxDisks then ret (- ENODEV)
      else
        bnd (diskInfo32 ge unit info_enabled) (\<lambda>enabled.
        if enabled = 0 then ret (- ENODEV)
        else bnd (updUsage unit (\<lambda>n. n + 1)) (\<lambda>_. thn (kernLog Mod_inc_use) (ret 0))))"

definition halDisk_release :: "Bit8u \<Rightarrow> ('o, 'k, int) gst" where
  "halDisk_release i_rdev =
     bnd (updUsage (DEVICE_NR i_rdev) (\<lambda>n. n - 1)) (\<lambda>usage.
     thn (whenM (usage = 0) (thn (kernLog (Fsync_dev i_rdev)) (kernLog (Invalidate_buffers i_rdev))))
     (thn (kernLog Mod_dec_use) (ret 0)))"

text \<open>The partition table is read again by the kernel, with requests to this driver; it fills in the entries of the unit
  after the first one.\<close>

definition grok_partitions :: "'k gkenv \<Rightarrow> nat \<Rightarrow> Bit32u \<Rightarrow> ('o, 'k, unit) gst" where
  "grok_partitions ge unit sz =
     bnd (kern (\<lambda>k. gk_grok_partitions ge k unit sz)) (\<lambda>(parts, sizes).
     (let inUnit = (\<lambda>p. unit * 16 < p \<and> p < unit * 16 + 16) in
      modify (\<lambda>g. g\<lparr>gd_parts := (\<lambda>p. if inUnit p then parts p else gd_parts g p),
                    gd_sizes := (\<lambda>p. if inUnit p then sizes p else gd_sizes g p)\<rparr>)))"

definition zero_hd_struct :: hd_struct where
  "zero_hd_struct = \<lparr>hd_start_sect = 0, hd_nr_sects = 0\<rparr>"

definition halDisk_revalidate :: "'k gkenv \<Rightarrow> Bit8u \<Rightarrow> ('o, 'k, int) gst" where
  "halDisk_revalidate ge i_rdev =
     (let unit = DEVICE_NR i_rdev; part1 = unit * 16 + 1; npart = 15 in
      thn (forM [0..<npart] (\<lambda>i. setSize (part1 + i) 0))
      (thn (forM [0..<npart] (\<lambda>i. setPart (part1 + i) zero_hd_struct))
      (bnd (diskInfo32 ge unit info_numSectors) (\<lambda>n.
       bnd (getPart (unit * 16)) (\<lambda>h.
       thn (setPart (unit * 16) (h\<lparr>hd_nr_sects := n\<rparr>))
       (bnd (gets (\<lambda>g. gd_sizes g (unit * 16))) (\<lambda>sz.
        thn (grok_partitions ge unit sz) (ret 0))))))))"

datatype blkCmd = BLKGETSIZE | BLKFLSBUF | BLKRAGET | BLKRASET | BLKRRPART | HDIO_GETGEO | OtherCmd Bit32u

text \<open>\<^verbatim>\<open>struct hd_geometry\<close>: heads and sectors are bytes, the cylinders a short.\<close>

definition hd_geometry_bytes :: "Bit32u \<Rightarrow> Bit32u \<Rightarrow> Bit32u \<Rightarrow> Bit32u \<Rightarrow> Bit8u list" where
  "hd_geometry_bytes cylinders heads sectors start =
     [ucast heads, ucast sectors, ucast cylinders, ucast (drop_bit 8 cylinders)] @ word_bytes start"

definition halDisk_ioctl :: "'k gkenv \<Rightarrow> Bit8u \<Rightarrow> blkCmd \<Rightarrow> Bit32u \<Rightarrow> ('o, 'k, int) gst" where
  "halDisk_ioctl ge i_rdev cmd arg =
     bnd (gets g_kern) (\<lambda>k.
     case cmd of
       BLKGETSIZE \<Rightarrow>
         (if \<not> gk_access_ok ge k arg 4 then ret (- EFAULT)
          else
            bnd (getPart (unat i_rdev)) (\<lambda>h.
            bnd (kern (\<lambda>k. gk_copy_to_user ge k arg (word_bytes (hd_nr_sects h)))) (\<lambda>failed.
            if failed then ret (- EFAULT) else ret 0)))
     | BLKFLSBUF \<Rightarrow>
         (if \<not> gk_capable ge k then ret (- EACCES)
          else thn (kernLog (Fsync_dev i_rdev)) (thn (kernLog (Invalidate_buffers i_rdev)) (ret 0)))
     | BLKRAGET \<Rightarrow>
         (if \<not> gk_access_ok ge k arg 4 then ret (- EFAULT)
          else
            bnd (gets gd_read_ahead) (\<lambda>n.
            bnd (kern (\<lambda>k. gk_copy_to_user ge k arg (word_bytes n))) (\<lambda>_. ret 0)))
     | BLKRASET \<Rightarrow>
         (if \<not> gk_capable ge k then ret (- EACCES)
          else if arg > 0xff then ret (- EINVAL)
          else thn (modify (\<lambda>g. g\<lparr>gd_read_ahead := arg\<rparr>)) (ret 0))
     | BLKRRPART \<Rightarrow> halDisk_revalidate ge i_rdev
     | HDIO_GETGEO \<Rightarrow>
         (let unit = DEVICE_NR i_rdev in
          if unit \<ge> HalDiskMaxDisks then ret (- EFAULT)
          else if \<not> gk_access_ok ge k arg 8 then ret (- EFAULT)
          else
            bnd (diskInfo32 ge unit info_cylinders) (\<lambda>cylinders.
            bnd (diskInfo32 ge unit info_heads) (\<lambda>heads.
            bnd (diskInfo32 ge unit info_spt) (\<lambda>spt.
            bnd (getPart (unat i_rdev)) (\<lambda>h.
            bnd (kern (\<lambda>k. gk_copy_to_user ge k arg (hd_geometry_bytes cylinders heads spt (hd_start_sect h)))) (\<lambda>failed.
            if failed then ret (- EFAULT) else ret 0))))))
     | OtherCmd c \<Rightarrow> kern (\<lambda>k. gk_blk_ioctl ge k i_rdev c arg))"

section \<open>Transfers\<close>

definition halDisk_locate_device :: "'k gkenv \<Rightarrow> request_t \<Rightarrow> ('o, 'k, bool) gst" where
  "halDisk_locate_device ge req =
     (let unit = DEVICE_NR (rq_dev req) in
      if unit \<ge> HalDiskMaxDisks then ret False
      else bnd (diskInfo32 ge unit info_enabled) (\<lambda>enabled. ret (enabled \<noteq> 0)))"

definition readSector :: "'k gkenv \<Rightarrow> 'o halenv \<Rightarrow> nat \<Rightarrow> Bit32u \<Rightarrow> Bit32u \<Rightarrow> Bit32u \<Rightarrow> nat \<Rightarrow> ('o, 'k, unit) gst" where
  "readSector ge he unit sector lAddr buf i =
     bnd (gdRead he unit (sector + of_nat i) (lAddr - gk_PAGE_OFFSET ge)) (\<lambda>_.
     bnd (guestRead ge lAddr 512) (\<lambda>bs. guestWrite ge (buf + of_nat (i * 512)) bs))"

definition writeSector :: "'k gkenv \<Rightarrow> 'o halenv \<Rightarrow> nat \<Rightarrow> Bit32u \<Rightarrow> Bit32u \<Rightarrow> Bit32u \<Rightarrow> nat \<Rightarrow> ('o, 'k, unit) gst" where
  "writeSector ge he unit sector lAddr buf i =
     bnd (guestRead ge (buf + of_nat (i * 512)) 512) (\<lambda>bs.
     thn (guestWrite ge lAddr bs)
     (bnd (gdWrite he unit (sector + of_nat i) (lAddr - gk_PAGE_OFFSET ge)) (\<lambda>_. ret ())))"

definition halDisk_transfer :: "'k gkenv \<Rightarrow> 'o halenv \<Rightarrow> request_t \<Rightarrow> ('o, 'k, bool) gst" where
  "halDisk_transfer ge he req =
     bnd (getPart (unat (rq_dev req))) (\<lambda>part.
     let unit = DEVICE_NR (rq_dev req);
         sector = hd_start_sect part + rq_sector req;
         sectorCount = unat (rq_current_nr_sectors req)
     in
     if rq_sector req + rq_current_nr_sectors req > hd_nr_sects part then ret False
     else
       bnd (gets (\<lambda>g. gd_rwArea g unit)) (\<lambda>lAddr.
       case rq_cmd req of
         RqRead \<Rightarrow> thn (forM [0..<sectorCount] (readSector ge he unit sector lAddr (rq_buffer req))) (ret True)
       | RqWrite \<Rightarrow> thn (forM [0..<sectorCount] (writeSector ge he unit sector lAddr (rq_buffer req))) (ret True)
       | RqOther \<Rightarrow> ret False))"

section \<open>The queue\<close>

text \<open>\<^verbatim>\<open>CURRENT\<close> and \<^verbatim>\<open>end_request\<close> of the block layer.\<close>

definition CURRENT :: "('o, 'k, request_t) gst" where
  "CURRENT = bnd (gets gd_queue) (\<lambda>q. case q of [] \<Rightarrow> undef ''CURRENT'' | r # _ \<Rightarrow> ret r)"

definition end_request :: "bool \<Rightarrow> ('o, 'k, unit) gst" where
  "end_request uptodate =
     bnd CURRENT (\<lambda>r. modify (\<lambda>g. g\<lparr>gd_queue := tl (gd_queue g), gd_done := gd_done g @ [(r, uptodate)]\<rparr>))"

text \<open>A turn of the loop of \<^verbatim>\<open>halDisk_request\<close>, and the loop: \<^verbatim>\<open>INIT_REQUEST\<close> returns when the queue is empty.\<close>

definition requestTurn :: "'k gkenv \<Rightarrow> 'o halenv \<Rightarrow> ('o, 'k, unit) gst" where
  "requestTurn ge he =
     bnd CURRENT (\<lambda>req.
     bnd (halDisk_locate_device ge req) (\<lambda>device.
     if \<not> device then end_request False
     else bnd (halDisk_transfer ge he req) (\<lambda>status. end_request status)))"

partial_function (option) requestLoop ::
  "'k gkenv \<Rightarrow> 'o halenv \<Rightarrow> ('o, 'k) guest_t \<Rightarrow> (('o, 'k) guest_t, unit) outcome option" where
  "requestLoop ge he g =
     (if gd_queue g = [] then Some (Ret () g)
      else
        case requestTurn ge he g of
          Ret _ g' \<Rightarrow> requestLoop ge he g'
        | Panic e g' \<Rightarrow> Some (Panic e g')
        | Undef e \<Rightarrow> Some (Undef e)
        | Hang \<Rightarrow> Some Hang)"

definition halDisk_request :: "'k gkenv \<Rightarrow> 'o halenv \<Rightarrow> ('o, 'k, unit) gst" where
  "halDisk_request ge he g = (case requestLoop ge he g of None \<Rightarrow> Hang | Some r \<Rightarrow> r)"

text \<open>With a timer that stands for an interrupt: the first request of a known device is transferred, and ended when the timer
  expires. The value of a turn says whether it goes on to another.\<close>

definition irqTurn :: "'k gkenv \<Rightarrow> 'o halenv \<Rightarrow> ('o, 'k, bool) gst" where
  "irqTurn ge he =
     bnd CURRENT (\<lambda>req.
     bnd (halDisk_locate_device ge req) (\<lambda>device.
     if \<not> device then thn (end_request False) (ret True)
     else
       bnd (halDisk_transfer ge he req) (\<lambda>status.
       bnd (gets (\<lambda>g. gk_jiffies ge (g_kern g) + gd_irq g)) (\<lambda>expires.
       thn (kernLog (Add_timer expires))
       (thn (modify (\<lambda>g. g\<lparr>gd_busy := True\<rparr>)) (ret False))))))"

partial_function (option) irqLoop ::
  "'k gkenv \<Rightarrow> 'o halenv \<Rightarrow> ('o, 'k) guest_t \<Rightarrow> (('o, 'k) guest_t, unit) outcome option" where
  "irqLoop ge he g =
     (if gd_queue g = [] then Some (Ret () g)
      else
        case irqTurn ge he g of
          Ret again g' \<Rightarrow> if again then irqLoop ge he g' else Some (Ret () g')
        | Panic e g' \<Rightarrow> Some (Panic e g')
        | Undef e \<Rightarrow> Some (Undef e)
        | Hang \<Rightarrow> Some Hang)"

definition halDisk_irqdriven_request :: "'k gkenv \<Rightarrow> 'o halenv \<Rightarrow> ('o, 'k, unit) gst" where
  "halDisk_irqdriven_request ge he g =
     (if gd_busy g then Ret () g else case irqLoop ge he g of None \<Rightarrow> Hang | Some r \<Rightarrow> r)"

definition halDisk_interrupt :: "'k gkenv \<Rightarrow> 'o halenv \<Rightarrow> ('o, 'k, unit) gst" where
  "halDisk_interrupt ge he =
     thn (end_request True)
     (thn (modify (\<lambda>g. g\<lparr>gd_busy := False\<rparr>))
     (bnd (gets gd_queue) (\<lambda>q. whenM (q \<noteq> []) (halDisk_irqdriven_request ge he))))"

section \<open>The module\<close>

definition diskAreas :: "'k gkenv \<Rightarrow> ('o, 'k, unit) gst" where
  "diskAreas ge =
     forM [0..<HalDiskMaxDisks] (\<lambda>unit.
       bnd (diskInfo32 ge unit info_enabled) (\<lambda>enabled.
       bnd (if enabled \<noteq> 0 then get_zeroed_page ge else ret 0) (\<lambda>page.
       modify (\<lambda>g. g\<lparr>gd_rwArea := (gd_rwArea g)(unit := page)\<rparr>))))"

text \<open>\<^verbatim>\<open>register_disk\<close> has the kernel read the partition table.\<close>

definition register_disk :: "'k gkenv \<Rightarrow> nat \<Rightarrow> Bit32u \<Rightarrow> ('o, 'k, unit) gst" where
  "register_disk ge unit sz =
     thn (kernLog (Register_disk (of_nat (unit * 16)) sz)) (grok_partitions ge unit sz)"

text \<open>The parameters of the module are arguments. The tables of sector and block sizes, which are constant, are not kept.\<close>

definition halDisk_init :: "'k gkenv \<Rightarrow> 'o halenv \<Rightarrow> int \<Rightarrow> Bit32u \<Rightarrow> Bit32u \<Rightarrow> ('o, 'k, int) gst" where
  "halDisk_init ge he major rahead irq =
     bnd (get_zeroed_page ge) (\<lambda>info.
     thn (modify (\<lambda>g. g\<lparr>gd_info := info\<rparr>))
     (thn (gdGetDiskInfo he (info - gk_PAGE_OFFSET ge))
     (thn (diskAreas ge)
     (thn (modify (\<lambda>g. g\<lparr>gd_major := major, gd_rahead := rahead\<rparr>))
     (bnd (kern (\<lambda>k. gk_register_blkdev ge k major)) (\<lambda>result.
      if result < 0 then ret result
      else
        thn (whenM (major = 0) (modify (\<lambda>g. g\<lparr>gd_major := result\<rparr>)))
        (thn (modify (\<lambda>g. g\<lparr>gd_usage := (\<lambda>_. 0), gd_sizes := (\<lambda>_. 0), gd_parts := (\<lambda>_. zero_hd_struct),
                            gd_read_ahead := rahead\<rparr>))
        (thn (forM [0..<HalDiskMaxDisks] (\<lambda>unit.
           bnd (diskInfo32 ge unit info_numSectors) (\<lambda>n.
           thn (setSize (unit * 16) (drop_bit 1 n))
           (setPart (unit * 16) \<lparr>hd_start_sect = 0, hd_nr_sects = n\<rparr>))))
        (thn (kernLog Add_gendisk)
        (thn (modify (\<lambda>g. g\<lparr>gd_irq := irq\<rparr>))
        (thn (kernLog (Blk_init_queue (irq \<noteq> 0)))
        (thn (forM [0..<HalDiskMaxDisks] (\<lambda>unit.
           bnd (diskInfo32 ge unit info_numSectors) (register_disk ge unit)))
        (ret 0)))))))))))))"

definition halDisk_cleanup :: "'o halenv \<Rightarrow> ('o, 'k, unit) gst" where
  "halDisk_cleanup he =
     thn (kernLog Unregister_blkdev)
     (thn (forM [0..<NrMinors] (\<lambda>p. kernLog (Fsync_dev (of_nat p))))
     (thn (kernLog Blk_cleanup_queue)
     (thn (modify (\<lambda>g. g\<lparr>gd_read_ahead := 0\<rparr>))
     (thn (kernLog Del_gendisk)
     (bnd (gdCleanup he) (\<lambda>_. ret ()))))))"

end
