(* ===== verification/Guest_Sectors.thy ===== *)
theory Guest_Sectors
  imports Guest_Disk
begin

text \<open>
  The disk driver of the guest and the disk behind it: a queue of requests is served as an array of sectors would
  do it. The lemmas go from one sector through \<^verbatim>\<open>int $0xff\<close> to a transfer, a turn of the loop and the queue.
\<close>

section \<open>Sectors\<close>

text \<open>Two ranges of bytes that do not meet.\<close>

definition apart :: "nat \<Rightarrow> nat \<Rightarrow> nat \<Rightarrow> nat \<Rightarrow> bool" where
  "apart a n b m \<longleftrightarrow> a + n \<le> b \<or> b + m \<le> a"

text \<open>The driver, the device and its file agree on a unit: there is an area for it, the entry for it says so, and the file is
  a regular one.\<close>

definition diskReady :: "'k gkenv \<Rightarrow> 'o halenv \<Rightarrow> ('o \<Rightarrow> nat) \<Rightarrow> ('o \<Rightarrow> Bit8u list) \<Rightarrow> ('o, 'k) guest_t \<Rightarrow> nat \<Rightarrow> bool" where
  "diskReady ge he pos data g unit \<longleftrightarrow> unit < HalDiskMaxDisks \<and>
     kernelPage ge (g_user g) (gd_rwArea g unit) \<and>
     kernelPage ge (g_user g) (gd_info g) \<and> apart (gPhys ge (gd_info g)) 4096 (gPhys ge (gd_rwArea g unit)) 4096 \<and>
     regularFile he (dk_fileNo (us_disk (g_user g) unit)) pos data"

text \<open>A buffer in memory, apart from the area of the unit and the page of the entries.\<close>

definition bufferOK :: "'k gkenv \<Rightarrow> ('o, 'k) guest_t \<Rightarrow> nat \<Rightarrow> Bit32u \<Rightarrow> nat \<Rightarrow> bool" where
  "bufferOK ge g unit buf n \<longleftrightarrow> memFits (g_user g) (gPhys ge buf) n \<and>
     apart (gPhys ge buf) n (gPhys ge (gd_rwArea g unit)) 4096 \<and> apart (gPhys ge buf) n (gPhys ge (gd_info g)) 4096"

text \<open>What a transfer changes: the process, its memory and the registers.\<close>

definition diskFrame :: "('o, 'k) guest_t \<Rightarrow> ('o, 'k) guest_t \<Rightarrow> bool" where
  "diskFrame g g' \<longleftrightarrow> (\<exists>s m c. g' = g\<lparr>g_user := (g_user g)\<lparr>us_os := s, us_mem := m, us_cpu := c\<rparr>\<rparr>)"

lemma diskFrame_refl: "diskFrame g g"
  by (auto simp: diskFrame_def intro!: exI [of _ "us_os (g_user g)"] exI [of _ "us_mem (g_user g)"] exI [of _ "us_cpu (g_user g)"])

lemma diskFrame_trans: "diskFrame g g' \<Longrightarrow> diskFrame g' g'' \<Longrightarrow> diskFrame g g''"
  unfolding diskFrame_def by (elim exE, hypsubst, simp, intro exI, rule refl)

lemma diskFrame_same:
  assumes "diskFrame g g'"
  shows "gd_rwArea g' = gd_rwArea g" "gd_info g' = gd_info g" "gd_parts g' = gd_parts g" "gd_queue g' = gd_queue g"
    "gd_done g' = gd_done g" "us_disk (g_user g') = us_disk (g_user g)" "memFits (g_user g') = memFits (g_user g)"
    "diskReady ge he pos data g' unit = diskReady ge he pos data g unit" "bufferOK ge g' unit = bufferOK ge g unit"
    "us_memSize (g_user g') = us_memSize (g_user g)"
  using assms by (auto simp: diskFrame_def diskReady_def bufferOK_def kernelPage_def memFits_def fun_eq_iff)

text \<open>One sector through \<^verbatim>\<open>int $0xff\<close>: the request is one that the process lets through.\<close>

lemma gd_request:
  assumes "diskReady ge he pos data g unit" "unat (sector :: Bit32u) < 0x400000"
  shows "diskRequest ((g_user g)\<lparr>us_cpu := (us_cpu (g_user g))\<lparr>cpu_genReg := (cpu_genReg (us_cpu (g_user g)))
     (GenRegEAX := call, GenRegEBX := gd_rwArea g unit - gk_PAGE_OFFSET ge, GenRegECX := sector, GenRegEDX := of_nat unit)\<rparr>\<rparr>)
     (gPhys ge (gd_rwArea g unit)) (unat sector) unit"
  using assms by (auto simp: diskRequest_def diskReady_def kernelPage_def memFits_def gPhys_def)

lemma gdWrite_twp:
  assumes "diskReady ge he pos data g unit" "unat sector < 0x400000"
  shows "twp (gdWrite he unit sector (gd_rwArea g unit - gk_PAGE_OFFSET ge)) (\<lambda>r g'. r = 1 \<and> diskFrame g g' \<and>
     us_mem (g_user g') = us_mem (g_user g) \<and> data (us_os (g_user g')) =
       fileWrite (data (us_os (g_user g))) (512 * unat sector) (peekBytes (us_mem (g_user g)) (gPhys ge (gd_rwArea g unit)) 512)) g"
proof -
  let ?u = "(g_user g)\<lparr>us_cpu := (us_cpu (g_user g))\<lparr>cpu_genReg := (cpu_genReg (us_cpu (g_user g)))
     (GenRegEAX := HalCallDiskWrite, GenRegEBX := gd_rwArea g unit - gk_PAGE_OFFSET ge, GenRegECX := sector,
      GenRegEDX := of_nat unit)\<rparr>\<rparr>"
  have img: "regularFile he (dk_fileNo (us_disk ?u unit)) pos data"
    using assms(1) by (simp add: diskReady_def)
  have "twp (halDiskWrite he) (\<lambda>_ u'. u' = (diskDone ?u)\<lparr>us_os := us_os u'\<rparr> \<and>
     data (us_os u') = fileWrite (data (us_os ?u)) (512 * unat sector)
       (peekBytes (us_mem ?u) (gPhys ge (gd_rwArea g unit)) 512)) ?u"
    by (rule halDiskWrite_twp [OF gd_request [OF assms(1,2)] assms(2) img])
  then have "twp (halDiskWrite he) (\<lambda>_ u'. cpu_genReg (us_cpu u') GenRegEAX = 1 \<and> diskFrame g (g\<lparr>g_user := u'\<rparr>) \<and>
     us_mem u' = us_mem (g_user g) \<and> data (us_os u') =
       fileWrite (data (us_os (g_user g))) (512 * unat sector) (peekBytes (us_mem (g_user g)) (gPhys ge (gd_rwArea g unit)) 512)) ?u"
  proof (rule twp_mono)
    fix x u' assume u': "u' = (diskDone ?u)\<lparr>us_os := us_os u'\<rparr> \<and> data (us_os u') = fileWrite (data (us_os ?u)) (512 * unat sector)
       (peekBytes (us_mem ?u) (gPhys ge (gd_rwArea g unit)) 512)"
    then obtain s where s: "u' = (diskDone ?u)\<lparr>us_os := s\<rparr>" "data s = fileWrite (data (us_os ?u)) (512 * unat sector)
       (peekBytes (us_mem ?u) (gPhys ge (gd_rwArea g unit)) 512)" by blast
    have "diskFrame g (g\<lparr>g_user := u'\<rparr>)"
      unfolding diskFrame_def s(1)
      by (intro exI [of _ s] exI [of _ "us_mem (g_user g)"] exI [of _ "us_cpu (diskDone ?u)"]) (simp add: diskDone_def)
    then show "cpu_genReg (us_cpu u') GenRegEAX = 1 \<and> diskFrame g (g\<lparr>g_user := u'\<rparr>) \<and>
     us_mem u' = us_mem (g_user g) \<and> data (us_os u') =
       fileWrite (data (us_os (g_user g))) (512 * unat sector) (peekBytes (us_mem (g_user g)) (gPhys ge (gd_rwArea g unit)) 512)"
      using s by (simp add: diskDone_def)
  qed
  then show ?thesis
    by (simp add: gdWrite_def halInt_def halCall_def usReg_def halDiskCall_def)
qed

lemma gdRead_twp:
  assumes "diskReady ge he pos data g unit" "unat sector < 0x400000"
    "512 * unat sector + 512 \<le> length (data (us_os (g_user g)))"
  shows "twp (gdRead he unit sector (gd_rwArea g unit - gk_PAGE_OFFSET ge)) (\<lambda>r g'. r = 1 \<and> diskFrame g g' \<and>
     us_mem (g_user g') = putBytes (gPhys ge (gd_rwArea g unit)) (diskSector (data (us_os (g_user g))) (unat sector)) (us_mem (g_user g)) \<and>
     data (us_os (g_user g')) = data (us_os (g_user g))) g"
proof -
  let ?u = "(g_user g)\<lparr>us_cpu := (us_cpu (g_user g))\<lparr>cpu_genReg := (cpu_genReg (us_cpu (g_user g)))
     (GenRegEAX := HalCallDiskRead, GenRegEBX := gd_rwArea g unit - gk_PAGE_OFFSET ge, GenRegECX := sector,
      GenRegEDX := of_nat unit)\<rparr>\<rparr>"
  let ?m = "putBytes (gPhys ge (gd_rwArea g unit)) (diskSector (data (us_os (g_user g))) (unat sector)) (us_mem (g_user g))"
  have img: "regularFile he (dk_fileNo (us_disk ?u unit)) pos data"
    using assms(1) by (simp add: diskReady_def)
  have "twp (halDiskRead he) (\<lambda>_ u'. u' = (diskDone ?u)\<lparr>us_os := us_os u', us_mem := us_mem u'\<rparr> \<and>
     data (us_os u') = data (us_os ?u) \<and>
     us_mem u' = putBytes (gPhys ge (gd_rwArea g unit)) (diskSector (data (us_os ?u)) (unat sector)) (us_mem ?u)) ?u"
    using assms(3) by (intro halDiskRead_twp [OF gd_request [OF assms(1,2)] assms(2) img]) simp
  then have "twp (halDiskRead he) (\<lambda>_ u'. cpu_genReg (us_cpu u') GenRegEAX = 1 \<and> diskFrame g (g\<lparr>g_user := u'\<rparr>) \<and>
     us_mem u' = ?m \<and> data (us_os u') = data (us_os (g_user g))) ?u"
  proof (rule twp_mono, elim conjE)
    fix x u' assume s1: "u' = (diskDone ?u)\<lparr>us_os := us_os u', us_mem := us_mem u'\<rparr>" and s2: "data (us_os u') = data (us_os ?u)"
      and s3: "us_mem u' = putBytes (gPhys ge (gd_rwArea g unit)) (diskSector (data (us_os ?u)) (unat sector)) (us_mem ?u)"
    have m: "us_mem u' = ?m" using s3 by simp
    obtain s where s: "u' = (diskDone ?u)\<lparr>us_os := s, us_mem := ?m\<rparr>" "data s = data (us_os (g_user g))"
      using s1 [unfolded m] s2 by simp
    have "diskFrame g (g\<lparr>g_user := u'\<rparr>)"
      unfolding diskFrame_def s(1)
      by (intro exI [of _ s] exI [of _ ?m] exI [of _ "us_cpu (diskDone ?u)"]) (simp add: diskDone_def)
    then show "cpu_genReg (us_cpu u') GenRegEAX = 1 \<and> diskFrame g (g\<lparr>g_user := u'\<rparr>) \<and>
        us_mem u' = ?m \<and> data (us_os u') = data (us_os (g_user g))"
      using s by (simp add: diskDone_def)
  qed
  then show ?thesis
    by (simp add: gdRead_def halInt_def halCall_def usReg_def halDiskCall_def)
qed

text \<open>One sector between a buffer and the file.\<close>

lemma buffer_at:
  assumes "bufferOK ge g unit buf n" "i * 512 + 512 \<le> n"
  shows "gPhys ge (buf + of_nat (i * 512)) = gPhys ge buf + i * 512" "memFits (g_user g) (gPhys ge buf + i * 512) 512"
proof -
  have fits: "memFits (g_user g) (gPhys ge buf) n" using assms(1) by (simp add: bufferOK_def)
  then show "memFits (g_user g) (gPhys ge buf + i * 512) 512" using assms(2) by (simp add: memFits_def)
  show "gPhys ge (buf + of_nat (i * 512)) = gPhys ge buf + i * 512"
    using fits assms(2) unsigned_less [of "us_memSize (g_user g)", where 'a = nat]
    by (intro gPhys_add) (simp add: memFits_def)
qed

lemma length_diskSector [simp]: "length (diskSector xs k) = 512"
  by (simp add: diskSector_def)

definition outsideSame :: "nat \<Rightarrow> nat \<Rightarrow> (nat \<Rightarrow> Bit8u) \<Rightarrow> (nat \<Rightarrow> Bit8u) \<Rightarrow> bool" where
  "outsideSame a n m m' \<longleftrightarrow> (\<forall>i. i < a \<or> a + n \<le> i \<longrightarrow> m' i = m i)"

lemma outsideSame_peek: "outsideSame a n m m' \<Longrightarrow> apart b k a n \<Longrightarrow> peekBytes m' b k = peekBytes m b k"
  by (auto simp: outsideSame_def apart_def peekBytes_def)

lemma outsideSame_put:
  "a \<le> b \<Longrightarrow> b + length bs \<le> a + n \<Longrightarrow> outsideSame a n m m' \<Longrightarrow> outsideSame a n m (putBytes b bs m')"
  by (auto simp: outsideSame_def putBytes_def)

lemma outsideSame_refl [simp]: "outsideSame a n m m"
  by (simp add: outsideSame_def)

lemma writeSector_twp:
  fixes g :: "('o, 'k) guest_t"
  assumes "diskReady ge he pos data g unit" "bufferOK ge g unit buf n" "i * 512 + 512 \<le> n" "unat (sector + of_nat i) < 0x400000"
  shows "twp (writeSector ge he unit sector (gd_rwArea g unit) buf i) (\<lambda>_ g'. diskFrame g g' \<and>
     outsideSame (gPhys ge (gd_rwArea g unit)) 4096 (us_mem (g_user g)) (us_mem (g_user g')) \<and>
     data (us_os (g_user g')) = fileWrite (data (us_os (g_user g))) (512 * unat (sector + of_nat i))
       (peekBytes (us_mem (g_user g)) (gPhys ge buf + i * 512) 512)) g"
proof -
  let ?a = "gPhys ge (gd_rwArea g unit)" and ?bs = "peekBytes (us_mem (g_user g)) (gPhys ge buf + i * 512) 512"
  let ?m = "putBytes ?a ?bs (us_mem (g_user g))"
  let ?g = "g\<lparr>g_user := (g_user g)\<lparr>us_mem := ?m\<rparr>\<rparr>"
  have fits: "memFits (g_user g) ?a 512"
    using assms(1) by (auto simp: diskReady_def kernelPage_def memFits_def)
  have frame: "diskFrame g ?g"
    unfolding diskFrame_def
    by (intro exI [of _ "us_os (g_user g)"] exI [of _ ?m] exI [of _ "us_cpu (g_user g)"]) simp
  then have ready: "diskReady ge he pos data ?g unit" using assms(1) by (simp only: diskFrame_same)
  have "twp (gdWrite he unit (sector + of_nat i) (gd_rwArea ?g unit - gk_PAGE_OFFSET ge)) (\<lambda>_ g'. diskFrame g g' \<and>
     outsideSame ?a 4096 (us_mem (g_user g)) (us_mem (g_user g')) \<and>
     data (us_os (g_user g')) = fileWrite (data (us_os (g_user g))) (512 * unat (sector + of_nat i)) ?bs) ?g"
    by (rule twp_mono [OF gdWrite_twp [OF ready assms(4)]])
      (use frame in \<open>auto simp: peek_putBytes intro: diskFrame_trans outsideSame_put\<close>)
  then show ?thesis
    using buffer_at [OF assms(2,3)] fits by (simp add: writeSector_def)
qed

lemma readSector_twp:
  fixes g :: "('o, 'k) guest_t"
  assumes "diskReady ge he pos data g unit" "bufferOK ge g unit buf n" "i * 512 + 512 \<le> n" "unat (sector + of_nat i) < 0x400000"
    "512 * unat (sector + of_nat i) + 512 \<le> length (data (us_os (g_user g)))"
  shows "twp (readSector ge he unit sector (gd_rwArea g unit) buf i) (\<lambda>_ g'. diskFrame g g' \<and>
     (\<exists>m. outsideSame (gPhys ge (gd_rwArea g unit)) 4096 (us_mem (g_user g)) m \<and>
       us_mem (g_user g') = putBytes (gPhys ge buf + i * 512) (diskSector (data (us_os (g_user g))) (unat (sector + of_nat i))) m) \<and>
     data (us_os (g_user g')) = data (us_os (g_user g))) g"
proof -
  let ?a = "gPhys ge (gd_rwArea g unit)" and ?bs = "diskSector (data (us_os (g_user g))) (unat (sector + of_nat i))"
  have fits: "memFits (g_user g) ?a 512"
    using assms(1) by (auto simp: diskReady_def kernelPage_def memFits_def)
  have store: "twp (bnd (guestRead ge (gd_rwArea g unit) 512) (\<lambda>bs. guestWrite ge (buf + of_nat (i * 512)) bs)) (\<lambda>_ g'. diskFrame g g' \<and>
     (\<exists>m. outsideSame ?a 4096 (us_mem (g_user g)) m \<and> us_mem (g_user g') = putBytes (gPhys ge buf + i * 512) ?bs m) \<and>
     data (us_os (g_user g')) = data (us_os (g_user g))) g1"
    if g1: "diskFrame g g1" "us_mem (g_user g1) = putBytes ?a ?bs (us_mem (g_user g))"
      "data (us_os (g_user g1)) = data (us_os (g_user g))" for g1
  proof -
    let ?m = "putBytes (gPhys ge buf + i * 512) ?bs (us_mem (g_user g1))"
    have "diskFrame g1 (g1\<lparr>g_user := (g_user g1)\<lparr>us_mem := ?m\<rparr>\<rparr>)"
      unfolding diskFrame_def
      by (intro exI [of _ "us_os (g_user g1)"] exI [of _ ?m] exI [of _ "us_cpu (g_user g1)"]) simp
    then have frame: "diskFrame g (g1\<lparr>g_user := (g_user g1)\<lparr>us_mem := ?m\<rparr>\<rparr>)" by (rule diskFrame_trans [OF g1(1)])
    have bs: "peekBytes (us_mem (g_user g1)) ?a 512 = ?bs" by (simp add: g1(2) peek_putBytes)
    have "outsideSame ?a 4096 (us_mem (g_user g)) (us_mem (g_user g1))"
      by (simp add: g1(2) outsideSame_put)
    then show ?thesis
      using frame bs fits buffer_at [OF assms(2,3)] g1(3) by (auto simp: diskFrame_same [OF g1(1)])
  qed
  show ?thesis
    unfolding readSector_def twp_bnd
    by (rule twp_mono [OF gdRead_twp [OF assms(1,4,5)]], unfold twp_bnd [symmetric], rule store) simp_all
qed

section \<open>Transfers as a whole\<close>

lemma unat_add_small: "unat (w :: Bit32u) + i < 2 ^ 32 \<Longrightarrow> unat (w + of_nat i) = unat w + i"
  by (simp add: unat_word_ariths unat_of_nat)

text \<open>Writing: the sectors of the file are the blocks of the buffer, the others stay.\<close>

definition sectorsWritten :: "Bit8u list \<Rightarrow> Bit8u list \<Rightarrow> nat \<Rightarrow> nat \<Rightarrow> (nat \<Rightarrow> Bit8u) \<Rightarrow> nat \<Rightarrow> bool" where
  "sectorsWritten xs ys sector n m a \<longleftrightarrow> length xs \<le> length ys \<and> (0 < n \<longrightarrow> 512 * (sector + n) \<le> length ys) \<and>
     (\<forall>j. diskSector ys j = (if sector \<le> j \<and> j < sector + n then peekBytes m (a + (j - sector) * 512) 512 else diskSector xs j))"

lemma sectorsWritten_Suc:
  assumes "sectorsWritten xs ys sector n m a"
  shows "sectorsWritten xs (fileWrite ys (512 * (sector + n)) (peekBytes m (a + n * 512) 512)) sector (Suc n) m a"
proof -
  define zs where "zs = fileWrite ys (512 * (sector + n)) (peekBytes m (a + n * 512) 512)"
  have "diskSector zs j = (if j = sector + n then peekBytes m (a + n * 512) 512 else diskSector ys j)" for j
    unfolding zs_def by (rule diskSector_write) simp
  moreover have "length zs = max (length ys) (512 * (sector + n) + 512)"
    unfolding zs_def by (simp add: length_fileWrite)
  ultimately show ?thesis
    using assms unfolding zs_def [symmetric] by (auto simp: sectorsWritten_def)
qed

lemma writeLoop_twp:
  fixes g :: "('o, 'k) guest_t"
  assumes "diskReady ge he pos data g unit" "bufferOK ge g unit buf (n * 512)" "unat sector + n \<le> 0x400000"
  shows "twp (forM [0..<n] (writeSector ge he unit sector (gd_rwArea g unit) buf)) (\<lambda>_ g'. diskFrame g g' \<and>
     outsideSame (gPhys ge (gd_rwArea g unit)) 4096 (us_mem (g_user g)) (us_mem (g_user g')) \<and>
     sectorsWritten (data (us_os (g_user g))) (data (us_os (g_user g'))) (unat sector) n (us_mem (g_user g)) (gPhys ge buf)) g"
proof (rule twp_forM_upt [where I = "\<lambda>k g'. diskFrame g g' \<and>
     outsideSame (gPhys ge (gd_rwArea g unit)) 4096 (us_mem (g_user g)) (us_mem (g_user g')) \<and>
     sectorsWritten (data (us_os (g_user g))) (data (us_os (g_user g'))) (unat sector) k (us_mem (g_user g)) (gPhys ge buf)"])
  show "diskFrame g g \<and> outsideSame (gPhys ge (gd_rwArea g unit)) 4096 (us_mem (g_user g)) (us_mem (g_user g)) \<and>
     sectorsWritten (data (us_os (g_user g))) (data (us_os (g_user g))) (unat sector) 0 (us_mem (g_user g)) (gPhys ge buf)"
    by (auto simp: diskFrame_refl sectorsWritten_def)
next
  fix k and g' :: "('o, 'k) guest_t"
  let ?a = "gPhys ge (gd_rwArea g unit)"
  assume k: "k < n" and I: "diskFrame g g' \<and> outsideSame ?a 4096 (us_mem (g_user g)) (us_mem (g_user g')) \<and>
     sectorsWritten (data (us_os (g_user g))) (data (us_os (g_user g'))) (unat sector) k (us_mem (g_user g)) (gPhys ge buf)"
  note same = diskFrame_same [OF conjunct1 [OF I]]
  have sector: "unat (sector + of_nat k) = unat sector + k" using k assms(3) by (intro unat_add_small) simp
  have block: "peekBytes (us_mem (g_user g')) (gPhys ge buf + k * 512) 512 = peekBytes (us_mem (g_user g)) (gPhys ge buf + k * 512) 512"
    using I assms(2) k by (intro outsideSame_peek [of ?a 4096]) (auto simp: bufferOK_def apart_def)
  have "twp (writeSector ge he unit sector (gd_rwArea g' unit) buf k) (\<lambda>_ g''. diskFrame g' g'' \<and>
     outsideSame (gPhys ge (gd_rwArea g' unit)) 4096 (us_mem (g_user g')) (us_mem (g_user g'')) \<and>
     data (us_os (g_user g'')) = fileWrite (data (us_os (g_user g'))) (512 * unat (sector + of_nat k))
       (peekBytes (us_mem (g_user g')) (gPhys ge buf + k * 512) 512)) g'"
    by (rule writeSector_twp [where n = "n * 512"]) (use assms k sector in \<open>simp_all add: same\<close>)
  then show "twp (writeSector ge he unit sector (gd_rwArea g unit) buf k) (\<lambda>_ g''. diskFrame g g'' \<and>
     outsideSame ?a 4096 (us_mem (g_user g)) (us_mem (g_user g'')) \<and>
     sectorsWritten (data (us_os (g_user g))) (data (us_os (g_user g''))) (unat sector) (Suc k) (us_mem (g_user g)) (gPhys ge buf)) g'"
    unfolding same(1) sector block
    by (rule twp_mono) (use I sectorsWritten_Suc [OF conjunct2 [OF conjunct2 [OF I]]] in
      \<open>auto simp: outsideSame_def intro: diskFrame_trans\<close>)
qed

text \<open>Reading: the blocks of the buffer are the sectors of the file.\<close>

definition sectorsRead :: "Bit8u list \<Rightarrow> nat \<Rightarrow> nat \<Rightarrow> (nat \<Rightarrow> Bit8u) \<Rightarrow> nat \<Rightarrow> bool" where
  "sectorsRead xs sector n m a \<longleftrightarrow> (\<forall>j < n. peekBytes m (a + j * 512) 512 = diskSector xs (sector + j))"

lemma sectorsRead_Suc:
  assumes "sectorsRead xs sector n m a" "outsideSame b 4096 m m'" "apart a (Suc n * 512) b 4096"
  shows "sectorsRead xs sector (Suc n) (putBytes (a + n * 512) (diskSector xs (sector + n)) m') a"
  unfolding sectorsRead_def
proof (intro allI impI)
  fix j assume "j < Suc n"
  then consider "j = n" | "j < n" by linarith
  then show "peekBytes (putBytes (a + n * 512) (diskSector xs (sector + n)) m') (a + j * 512) 512 = diskSector xs (sector + j)"
  proof cases
    case 2
    then have "peekBytes m' (a + j * 512) 512 = peekBytes m (a + j * 512) 512"
      using assms(3) by (intro outsideSame_peek [OF assms(2)]) (auto simp: apart_def)
    then show ?thesis using 2 assms(1) by (simp add: peek_putBytes sectorsRead_def)
  qed (simp add: peek_putBytes)
qed

lemma readLoop_twp:
  fixes g :: "('o, 'k) guest_t"
  assumes "diskReady ge he pos data g unit" "bufferOK ge g unit buf (n * 512)" "unat sector + n \<le> 0x400000"
    "512 * (unat sector + n) \<le> length (data (us_os (g_user g)))"
  shows "twp (forM [0..<n] (readSector ge he unit sector (gd_rwArea g unit) buf)) (\<lambda>_ g'. diskFrame g g' \<and>
     data (us_os (g_user g')) = data (us_os (g_user g)) \<and>
     (\<forall>i. apart i 1 (gPhys ge (gd_rwArea g unit)) 4096 \<longrightarrow> apart i 1 (gPhys ge buf) (n * 512) \<longrightarrow>
        us_mem (g_user g') i = us_mem (g_user g) i) \<and>
     sectorsRead (data (us_os (g_user g))) (unat sector) n (us_mem (g_user g')) (gPhys ge buf)) g"
proof (rule twp_forM_upt [where I = "\<lambda>k g'. diskFrame g g' \<and> data (us_os (g_user g')) = data (us_os (g_user g)) \<and>
     (\<forall>i. apart i 1 (gPhys ge (gd_rwArea g unit)) 4096 \<longrightarrow> apart i 1 (gPhys ge buf) (n * 512) \<longrightarrow>
        us_mem (g_user g') i = us_mem (g_user g) i) \<and>
     sectorsRead (data (us_os (g_user g))) (unat sector) k (us_mem (g_user g')) (gPhys ge buf)"])
  show "diskFrame g g \<and> data (us_os (g_user g)) = data (us_os (g_user g)) \<and>
     (\<forall>i. apart i 1 (gPhys ge (gd_rwArea g unit)) 4096 \<longrightarrow> apart i 1 (gPhys ge buf) (n * 512) \<longrightarrow>
        us_mem (g_user g) i = us_mem (g_user g) i) \<and>
     sectorsRead (data (us_os (g_user g))) (unat sector) 0 (us_mem (g_user g)) (gPhys ge buf)"
    by (simp add: diskFrame_refl sectorsRead_def)
next
  fix k and g' :: "('o, 'k) guest_t"
  let ?a = "gPhys ge (gd_rwArea g unit)"
  assume k: "k < n" and I: "diskFrame g g' \<and> data (us_os (g_user g')) = data (us_os (g_user g)) \<and>
     (\<forall>i. apart i 1 ?a 4096 \<longrightarrow> apart i 1 (gPhys ge buf) (n * 512) \<longrightarrow> us_mem (g_user g') i = us_mem (g_user g) i) \<and>
     sectorsRead (data (us_os (g_user g))) (unat sector) k (us_mem (g_user g')) (gPhys ge buf)"
  note same = diskFrame_same [OF conjunct1 [OF I]]
  have sector: "unat (sector + of_nat k) = unat sector + k" using k assms(3) by (intro unat_add_small) simp
  have apart: "apart (gPhys ge buf) (Suc k * 512) ?a 4096"
    using assms(2) k by (auto simp: bufferOK_def apart_def)
  have "twp (readSector ge he unit sector (gd_rwArea g' unit) buf k) (\<lambda>_ g''. diskFrame g' g'' \<and>
     (\<exists>m. outsideSame (gPhys ge (gd_rwArea g' unit)) 4096 (us_mem (g_user g')) m \<and>
       us_mem (g_user g'') = putBytes (gPhys ge buf + k * 512) (diskSector (data (us_os (g_user g'))) (unat (sector + of_nat k))) m) \<and>
     data (us_os (g_user g'')) = data (us_os (g_user g'))) g'"
    by (rule readSector_twp [where n = "n * 512"]) (use assms k sector I in \<open>simp_all add: same\<close>)
  then show "twp (readSector ge he unit sector (gd_rwArea g unit) buf k) (\<lambda>_ g''. diskFrame g g'' \<and>
     data (us_os (g_user g'')) = data (us_os (g_user g)) \<and>
     (\<forall>i. apart i 1 ?a 4096 \<longrightarrow> apart i 1 (gPhys ge buf) (n * 512) \<longrightarrow> us_mem (g_user g'') i = us_mem (g_user g) i) \<and>
     sectorsRead (data (us_os (g_user g))) (unat sector) (Suc k) (us_mem (g_user g'')) (gPhys ge buf)) g'"
    unfolding same(1) sector
  proof (rule twp_mono, elim conjE exE)
    fix x g'' m
    assume fr: "diskFrame g' g''" and m: "outsideSame ?a 4096 (us_mem (g_user g')) m"
      and put: "us_mem (g_user g'') = putBytes (gPhys ge buf + k * 512) (diskSector (data (us_os (g_user g'))) (unat sector + k)) m"
      and dat: "data (us_os (g_user g'')) = data (us_os (g_user g'))"
    have "diskFrame g g''" using I fr by (blast intro: diskFrame_trans)
    moreover have "us_mem (g_user g'') i = us_mem (g_user g) i" if "apart i 1 ?a 4096" "apart i 1 (gPhys ge buf) (n * 512)" for i
    proof -
      have "i < gPhys ge buf + k * 512 \<or> gPhys ge buf + k * 512 + 512 \<le> i" using that(2) k by (auto simp: apart_def)
      then have "us_mem (g_user g'') i = m i" by (auto simp: put putBytes_def)
      also have "m i = us_mem (g_user g') i" using m that(1) by (auto simp: outsideSame_def apart_def)
      finally show ?thesis using I that by simp
    qed
    moreover have "sectorsRead (data (us_os (g_user g))) (unat sector) (Suc k) (us_mem (g_user g'')) (gPhys ge buf)"
      unfolding put using I sectorsRead_Suc [OF conjunct2 [OF conjunct2 [OF conjunct2 [OF I]]] m apart] by simp
    ultimately show "diskFrame g g'' \<and> data (us_os (g_user g'')) = data (us_os (g_user g)) \<and>
     (\<forall>i. apart i 1 ?a 4096 \<longrightarrow> apart i 1 (gPhys ge buf) (n * 512) \<longrightarrow> us_mem (g_user g'') i = us_mem (g_user g) i) \<and>
     sectorsRead (data (us_os (g_user g))) (unat sector) (Suc k) (us_mem (g_user g'')) (gPhys ge buf)"
      using I dat by simp
  qed
qed

section \<open>Requests\<close>

text \<open>A request that lies in its partition, and the first sector of the disk that it means.\<close>

definition reqFits :: "('o, 'k) guest_t \<Rightarrow> request_t \<Rightarrow> bool" where
  "reqFits g r \<longleftrightarrow> (let h = gd_parts g (unat (rq_dev r)) in unat (rq_dev r) < NrMinors \<and>
     unat (rq_sector r) + unat (rq_current_nr_sectors r) \<le> unat (hd_nr_sects h) \<and>
     unat (hd_start_sect h) + unat (hd_nr_sects h) \<le> 0x400000)"

definition reqSector :: "('o, 'k) guest_t \<Rightarrow> request_t \<Rightarrow> nat" where
  "reqSector g r = unat (hd_start_sect (gd_parts g (unat (rq_dev r)))) + unat (rq_sector r)"

lemma reqFitsD:
  assumes "reqFits g r"
  shows "unat (rq_dev r) < NrMinors"
    "\<not> rq_sector r + rq_current_nr_sectors r > hd_nr_sects (gd_parts g (unat (rq_dev r)))"
    "unat (hd_start_sect (gd_parts g (unat (rq_dev r))) + rq_sector r) = reqSector g r"
    "reqSector g r + unat (rq_current_nr_sectors r) \<le> 0x400000"
proof -
  have r: "unat (rq_dev r) < NrMinors"
      "unat (rq_sector r) + unat (rq_current_nr_sectors r) \<le> unat (hd_nr_sects (gd_parts g (unat (rq_dev r))))"
      "unat (hd_start_sect (gd_parts g (unat (rq_dev r)))) + unat (hd_nr_sects (gd_parts g (unat (rq_dev r)))) \<le> 0x400000"
    using assms by (simp_all add: reqFits_def Let_def)
  then show "unat (rq_dev r) < NrMinors" by simp
  show "\<not> rq_sector r + rq_current_nr_sectors r > hd_nr_sects (gd_parts g (unat (rq_dev r)))"
    using r unsigned_less [of "hd_nr_sects (gd_parts g (unat (rq_dev r)))", where 'a = nat]
    by (simp add: word_less_nat_alt unat_word_ariths)
  show "unat (hd_start_sect (gd_parts g (unat (rq_dev r))) + rq_sector r) = reqSector g r"
    using r by (simp add: unat_word_ariths reqSector_def)
  show "reqSector g r + unat (rq_current_nr_sectors r) \<le> 0x400000"
    using r by (simp add: reqSector_def)
qed

lemma twp_getPart: "p < NrMinors \<Longrightarrow> twp (getPart p) Q g = Q (gd_parts g p) g"
  by (simp add: getPart_def)

lemma transfer_write:
  assumes "diskReady ge he pos data g (DEVICE_NR (rq_dev r))" "reqFits g r" "rq_cmd r = RqWrite" "n = unat (rq_current_nr_sectors r)"
    "bufferOK ge g (DEVICE_NR (rq_dev r)) (rq_buffer r) (n * 512)"
  shows "twp (halDisk_transfer ge he r) (\<lambda>ok g'. ok \<and> diskFrame g g' \<and>
     outsideSame (gPhys ge (gd_rwArea g (DEVICE_NR (rq_dev r)))) 4096 (us_mem (g_user g)) (us_mem (g_user g')) \<and>
     sectorsWritten (data (us_os (g_user g))) (data (us_os (g_user g'))) (reqSector g r) n (us_mem (g_user g)) (gPhys ge (rq_buffer r))) g"
  using reqFitsD [OF assms(2)] assms(3) twp_mono [OF writeLoop_twp [OF assms(1,5), of "hd_start_sect (gd_parts g (unat (rq_dev r))) + rq_sector r"]]
  by (simp add: halDisk_transfer_def twp_getPart Let_def assms(4))

lemma transfer_read:
  assumes "diskReady ge he pos data g (DEVICE_NR (rq_dev r))" "reqFits g r" "rq_cmd r = RqRead" "n = unat (rq_current_nr_sectors r)"
    "bufferOK ge g (DEVICE_NR (rq_dev r)) (rq_buffer r) (n * 512)" "512 * (reqSector g r + n) \<le> length (data (us_os (g_user g)))"
  shows "twp (halDisk_transfer ge he r) (\<lambda>ok g'. ok \<and> diskFrame g g' \<and> data (us_os (g_user g')) = data (us_os (g_user g)) \<and>
     (\<forall>i. apart i 1 (gPhys ge (gd_rwArea g (DEVICE_NR (rq_dev r)))) 4096 \<longrightarrow> apart i 1 (gPhys ge (rq_buffer r)) (n * 512) \<longrightarrow>
        us_mem (g_user g') i = us_mem (g_user g) i) \<and>
     sectorsRead (data (us_os (g_user g))) (reqSector g r) n (us_mem (g_user g')) (gPhys ge (rq_buffer r))) g"
  using reqFitsD [OF assms(2)] assms(3,6) twp_mono [OF readLoop_twp [OF assms(1,5), of "hd_start_sect (gd_parts g (unat (rq_dev r))) + rq_sector r"]]
  by (simp add: halDisk_transfer_def twp_getPart Let_def assms(4))

text \<open>A request past the end of its partition is refused.\<close>

lemma transfer_refused:
  assumes "unat (rq_dev r) < NrMinors" "rq_sector r + rq_current_nr_sectors r > hd_nr_sects (gd_parts g (unat (rq_dev r)))"
  shows "twp (halDisk_transfer ge he r) Q g = Q False g"
  using assms by (simp add: halDisk_transfer_def twp_getPart Let_def)

text \<open>Whether the entry of a unit says that there is a disk.\<close>

definition unitEnabled :: "'k gkenv \<Rightarrow> ('o, 'k) guest_t \<Rightarrow> nat \<Rightarrow> bool" where
  "unitEnabled ge g unit \<longleftrightarrow>
     le_word (peekBytes (us_mem (g_user g)) (gPhys ge (gd_info g) + unit * halDiskInfo_size) 4) \<noteq> (0 :: Bit32u)"

lemma locate_twp:
  assumes "kernelPage ge (g_user g) (gd_info g)" "DEVICE_NR (rq_dev r) < HalDiskMaxDisks"
  shows "twp (halDisk_locate_device ge r) Q g = Q (unitEnabled ge g (DEVICE_NR (rq_dev r))) g"
proof -
  let ?k = "DEVICE_NR (rq_dev r) * halDiskInfo_size"
  have k: "?k + 4 \<le> 4096" using assms(2) by simp
  have "gPhys ge (gd_info g + of_nat ?k) = gPhys ge (gd_info g) + ?k"
    using k by (intro kernelPage_add [OF assms(1)]) simp
  then show ?thesis
    using assms(2) kernelPage_fits [OF assms(1) k]
    by (simp add: halDisk_locate_device_def Let_def diskInfo32_def guestRead32_def unitEnabled_def)
qed

lemma unitEnabled_same:
  assumes "\<And>i. gPhys ge (gd_info g) \<le> i \<Longrightarrow> i < gPhys ge (gd_info g) + 4096 \<Longrightarrow> us_mem (g_user g') i = us_mem (g_user g) i"
    "gd_info g' = gd_info g" "unit < HalDiskMaxDisks"
  shows "unitEnabled ge g' unit = unitEnabled ge g unit"
proof -
  have "peekBytes (us_mem (g_user g')) (gPhys ge (gd_info g) + unit * halDiskInfo_size) 4 =
      peekBytes (us_mem (g_user g)) (gPhys ge (gd_info g) + unit * halDiskInfo_size) 4"
    using assms(3) by (auto simp: peekBytes_def intro!: assms(1))
  then show ?thesis by (simp only: unitEnabled_def assms(2))
qed

section \<open>The loop\<close>

lemma halDisk_request_unfold:
  "halDisk_request ge he g = (if gd_queue g = [] then Ret () g else thn (requestTurn ge he) (halDisk_request ge he) g)"
  unfolding halDisk_request_def by (subst requestLoop.simps) (simp add: thn_def bnd_def split: outcome.split)

lemma twp_request:
  "twp (halDisk_request ge he) Q g =
     (if gd_queue g = [] then Q () g else twp (requestTurn ge he) (\<lambda>_. twp (halDisk_request ge he) Q) g)"
proof -
  have "twp (halDisk_request ge he) Q g = twp (\<lambda>g. if gd_queue g = [] then Ret () g else thn (requestTurn ge he) (halDisk_request ge he) g) Q g"
    by (simp only: twp_def halDisk_request_unfold [symmetric])
  also have "\<dots> = (if gd_queue g = [] then Q () g else twp (thn (requestTurn ge he) (halDisk_request ge he)) Q g)"
    by (simp add: twp_def)
  finally show ?thesis by simp
qed

lemma twp_request_step:
  "gd_queue g \<noteq> [] \<Longrightarrow> twp (requestTurn ge he) (\<lambda>_. twp (halDisk_request ge he) Q) g \<Longrightarrow> twp (halDisk_request ge he) Q g"
  by (subst twp_request) simp

definition ended :: "bool \<Rightarrow> ('o, 'k) guest_t \<Rightarrow> ('o, 'k) guest_t" where
  "ended ok g = g\<lparr>gd_queue := tl (gd_queue g), gd_done := gd_done g @ [(hd (gd_queue g), ok)]\<rparr>"

lemma twp_CURRENT: "gd_queue g = r # q \<Longrightarrow> twp CURRENT Q g = Q r g"
  by (simp add: CURRENT_def)

lemma twp_end_request: "gd_queue g \<noteq> [] \<Longrightarrow> twp (end_request ok) Q g = Q () (ended ok g)"
  by (cases "gd_queue g") (simp_all add: end_request_def twp_CURRENT ended_def)

text \<open>A turn for a request of a known device ends it with what the transfer says.\<close>

lemma requestTurn_twp:
  assumes "gd_queue g = r # q" "kernelPage ge (g_user g) (gd_info g)" "DEVICE_NR (rq_dev r) < HalDiskMaxDisks"
    "unitEnabled ge g (DEVICE_NR (rq_dev r))"
    "twp (halDisk_transfer ge he r) (\<lambda>ok g'. gd_queue g' \<noteq> [] \<and> Q () (ended ok g')) g"
  shows "twp (requestTurn ge he) Q g"
  unfolding requestTurn_def
  using assms(1,4) twp_mono [OF assms(5)] by (simp add: twp_CURRENT locate_twp [OF assms(2,3)] twp_end_request)

lemma ended_same [simp]:
  "g_user (ended ok g) = g_user g" "gd_rwArea (ended ok g) = gd_rwArea g" "gd_info (ended ok g) = gd_info g"
  "gd_parts (ended ok g) = gd_parts g" "gd_queue (ended ok g) = tl (gd_queue g)"
  "gd_done (ended ok g) = gd_done g @ [(hd (gd_queue g), ok)]"
  "diskReady ge he pos data (ended ok g) unit = diskReady ge he pos data g unit"
  "bufferOK ge (ended ok g) unit buf n = bufferOK ge g unit buf n" "unitEnabled ge (ended ok g) unit = unitEnabled ge g unit"
  "reqFits (ended ok g) r = reqFits g r" "reqSector (ended ok g) r = reqSector g r"
  by (simp_all add: ended_def diskReady_def bufferOK_def unitEnabled_def reqFits_def reqSector_def)

lemma diskFrame_req:
  assumes "diskFrame g g'"
  shows "reqFits g' r = reqFits g r" "reqSector g' r = reqSector g r"
  by (simp_all add: reqFits_def reqSector_def diskFrame_same [OF assms])

section \<open>The disk as an array of sectors\<close>

text \<open>
  What a request means: of the sectors of the disk and the memory, outside of the area of the driver. A request past the
  end of its partition, or of an unknown kind, changes nothing.
\<close>

definition reqRefused :: "('o, 'k) guest_t \<Rightarrow> request_t \<Rightarrow> bool" where
  "reqRefused g r \<longleftrightarrow> rq_cmd r = RqOther \<or>
     rq_sector r + rq_current_nr_sectors r > hd_nr_sects (gd_parts g (unat (rq_dev r)))"

definition specRead :: "(nat \<Rightarrow> Bit8u list) \<Rightarrow> nat \<Rightarrow> nat \<Rightarrow> nat \<Rightarrow> (nat \<Rightarrow> Bit8u) \<Rightarrow> (nat \<Rightarrow> Bit8u)" where
  "specRead S sector n a M =
     (\<lambda>i. if a \<le> i \<and> i < a + n * 512 then S (sector + (i - a) div 512) ! ((i - a) mod 512) else M i)"

definition specWrite :: "(nat \<Rightarrow> Bit8u) \<Rightarrow> nat \<Rightarrow> nat \<Rightarrow> nat \<Rightarrow> (nat \<Rightarrow> Bit8u list) \<Rightarrow> (nat \<Rightarrow> Bit8u list)" where
  "specWrite M sector n a S =
     (\<lambda>j. if sector \<le> j \<and> j < sector + n then peekBytes M (a + (j - sector) * 512) 512 else S j)"

definition specReq :: "'k gkenv \<Rightarrow> ('o, 'k) guest_t \<Rightarrow> request_t \<Rightarrow> (nat \<Rightarrow> Bit8u list) \<times> (nat \<Rightarrow> Bit8u) \<Rightarrow>
    (nat \<Rightarrow> Bit8u list) \<times> (nat \<Rightarrow> Bit8u)" where
  "specReq ge g r = (\<lambda>(S, M).
     let sector = reqSector g r; n = unat (rq_current_nr_sectors r); a = gPhys ge (rq_buffer r) in
     if reqRefused g r then (S, M)
     else if rq_cmd r = RqRead then (S, specRead S sector n a M)
     else (specWrite M sector n a S, M))"

text \<open>The state of the driver stands for such a pair.\<close>

definition diskRel :: "'k gkenv \<Rightarrow> ('o \<Rightarrow> Bit8u list) \<Rightarrow> nat \<Rightarrow> ('o, 'k) guest_t \<Rightarrow> (nat \<Rightarrow> Bit8u list) \<times> (nat \<Rightarrow> Bit8u) \<Rightarrow> bool" where
  "diskRel ge data unit g = (\<lambda>(S, M). (\<forall>j. diskSector (data (us_os (g_user g))) j = S j) \<and>
     (\<forall>i. apart i 1 (gPhys ge (gd_rwArea g unit)) 4096 \<longrightarrow> us_mem (g_user g) i = M i))"

text \<open>A request of the unit that is refused, or has its sectors in the file and its buffer in memory.\<close>

definition reqOK :: "'k gkenv \<Rightarrow> ('o \<Rightarrow> Bit8u list) \<Rightarrow> nat \<Rightarrow> ('o, 'k) guest_t \<Rightarrow> request_t \<Rightarrow> bool" where
  "reqOK ge data unit g r \<longleftrightarrow> DEVICE_NR (rq_dev r) = unit \<and> unat (rq_dev r) < NrMinors \<and>
     (reqRefused g r \<or> reqFits g r \<and> bufferOK ge g unit (rq_buffer r) (unat (rq_current_nr_sectors r) * 512) \<and>
        512 * (reqSector g r + unat (rq_current_nr_sectors r)) \<le> length (data (us_os (g_user g))))"

text \<open>What holds between the requests.\<close>

definition servable :: "'k gkenv \<Rightarrow> 'o halenv \<Rightarrow> ('o \<Rightarrow> nat) \<Rightarrow> ('o \<Rightarrow> Bit8u list) \<Rightarrow> nat \<Rightarrow> ('o, 'k) guest_t \<Rightarrow> bool" where
  "servable ge he pos data unit g \<longleftrightarrow> diskReady ge he pos data g unit \<and> unitEnabled ge g unit \<and>
     (\<forall>r \<in> set (gd_queue g). reqOK ge data unit g r)"

lemma reqRefused_same: "diskFrame g g' \<Longrightarrow> reqRefused g' r = reqRefused g r"
  by (simp add: reqRefused_def diskFrame_same(3))

lemma reqOK_frame:
  assumes "diskFrame g g'" "length (data (us_os (g_user g))) \<le> length (data (us_os (g_user g')))" "reqOK ge data unit g r"
  shows "reqOK ge data unit g' r"
  using assms(2,3) by (auto simp: reqOK_def reqRefused_same [OF assms(1)] diskFrame_req [OF assms(1)] diskFrame_same [OF assms(1)])

lemma servable_next:
  assumes "servable ge he pos data unit g" "diskFrame g g'" "length (data (us_os (g_user g))) \<le> length (data (us_os (g_user g')))"
    "\<And>i. apart i 1 (gPhys ge (gd_rwArea g unit)) 4096 \<Longrightarrow> gPhys ge (gd_info g) \<le> i \<Longrightarrow> i < gPhys ge (gd_info g) + 4096 \<Longrightarrow>
       us_mem (g_user g') i = us_mem (g_user g) i"
  shows "servable ge he pos data unit (ended ok g')"
proof -
  have ready: "diskReady ge he pos data g unit" and en: "unitEnabled ge g unit" using assms(1) by (simp_all add: servable_def)
  have "apart i 1 (gPhys ge (gd_rwArea g unit)) 4096" if "gPhys ge (gd_info g) \<le> i" "i < gPhys ge (gd_info g) + 4096" for i
    using ready that by (auto simp: diskReady_def apart_def)
  then have "unitEnabled ge g' unit = unitEnabled ge g unit"
    using ready assms(4) by (intro unitEnabled_same) (auto simp: diskFrame_same [OF assms(2)] diskReady_def)
  moreover have "reqOK ge data unit (ended ok g') r" if "r \<in> set (gd_queue g)" for r
  proof -
    have "reqOK ge data unit g' r" using assms(1) that by (intro reqOK_frame [OF assms(2,3)]) (simp add: servable_def)
    then show ?thesis by (simp add: reqOK_def reqRefused_def)
  qed
  moreover have "set (tl (gd_queue g)) \<subseteq> set (gd_queue g)" by (cases "gd_queue g") auto
  ultimately show ?thesis
    using ready en by (auto simp: servable_def diskFrame_same [OF assms(2)])
qed

lemma transfer_reqRefused:
  assumes "unat (rq_dev r) < NrMinors" "reqRefused g r"
  shows "twp (halDisk_transfer ge he r) Q g = Q False g"
  using assms by (auto simp: halDisk_transfer_def twp_getPart Let_def reqRefused_def)

text \<open>A transfer keeps the relation.\<close>

lemma transfer_refines:
  fixes g :: "('o, 'k) guest_t"
  assumes "servable ge he pos data unit g" "r \<in> set (gd_queue g)" "diskRel ge data unit g SM"
  shows "twp (halDisk_transfer ge he r) (\<lambda>ok g'. diskFrame g g' \<and> (ok \<longleftrightarrow> \<not> reqRefused g r) \<and>
     servable ge he pos data unit (ended ok g') \<and> diskRel ge data unit g' (specReq ge g r SM)) g"
proof (cases "reqRefused g r")
  case True
  have "servable ge he pos data unit (ended False g)"
    using assms(1) diskFrame_refl by (rule servable_next) simp_all
  then show ?thesis
    using True assms by (simp add: transfer_reqRefused servable_def reqOK_def diskFrame_refl specReq_def split: prod.splits)
next
  case False
  obtain S M where SM: "SM = (S, M)" by (cases SM)
  define n where "n = unat (rq_current_nr_sectors r)"
  define a where "a = gPhys ge (gd_rwArea g unit)"
  have ready: "diskReady ge he pos data g unit" using assms(1) by (simp add: servable_def)
  have unit: "DEVICE_NR (rq_dev r) = unit" and fits: "reqFits g r"
    and buf: "bufferOK ge g unit (rq_buffer r) (n * 512)"
    and len: "512 * (reqSector g r + n) \<le> length (data (us_os (g_user g)))"
    using assms(1,2) False by (auto simp: servable_def reqOK_def n_def)
  have rel: "\<And>j. diskSector (data (us_os (g_user g))) j = S j" "\<And>i. apart i 1 a 4096 \<Longrightarrow> us_mem (g_user g) i = M i"
    using assms(3) by (auto simp: diskRel_def SM a_def)
  have bufapart: "apart (gPhys ge (rq_buffer r)) (n * 512) a 4096" using buf by (simp add: bufferOK_def a_def)
  consider "rq_cmd r = RqRead" | "rq_cmd r = RqWrite" using False by (cases "rq_cmd r") (auto simp: reqRefused_def)
  then show ?thesis
  proof cases
    case 1
    have post: "diskFrame g g' \<and> (ok \<longleftrightarrow> \<not> reqRefused g r) \<and> servable ge he pos data unit (ended ok g') \<and>
        diskRel ge data unit g' (specReq ge g r SM)"
      if ok: "ok" and fr: "diskFrame g g'" and dat: "data (us_os (g_user g')) = data (us_os (g_user g))"
        and mem: "\<forall>i. apart i 1 a 4096 \<longrightarrow> apart i 1 (gPhys ge (rq_buffer r)) (n * 512) \<longrightarrow> us_mem (g_user g') i = us_mem (g_user g) i"
        and rd: "sectorsRead (data (us_os (g_user g))) (reqSector g r) n (us_mem (g_user g')) (gPhys ge (rq_buffer r))" for ok g'
    proof -
      have "servable ge he pos data unit (ended ok g')"
        using assms(1) fr by (rule servable_next) (use buf mem dat in \<open>auto simp: bufferOK_def apart_def a_def\<close>)
      moreover have "us_mem (g_user g') i = specRead S (reqSector g r) n (gPhys ge (rq_buffer r)) M i" if i: "apart i 1 a 4096" for i
      proof (cases "apart i 1 (gPhys ge (rq_buffer r)) (n * 512)")
        case True
        then show ?thesis using mem i rel(2) [OF i] by (auto simp: specRead_def apart_def)
      next
        case False
        define k where "k = i - gPhys ge (rq_buffer r)"
        have k: "i = gPhys ge (rq_buffer r) + k" "k < n * 512" using False by (auto simp: apart_def k_def)
        then have "k div 512 < n" by (simp add: less_mult_imp_div_less)
        then have "peekBytes (us_mem (g_user g')) (gPhys ge (rq_buffer r) + k div 512 * 512) 512 = S (reqSector g r + k div 512)"
          using rd rel(1) by (simp add: sectorsRead_def)
        from arg_cong [OF this, of "\<lambda>xs. xs ! (k mod 512)"]
        have "us_mem (g_user g') (gPhys ge (rq_buffer r) + (k div 512 * 512 + k mod 512)) = S (reqSector g r + k div 512) ! (k mod 512)"
          by (simp add: peekBytes_def add.assoc)
        then show ?thesis using k by (simp add: specRead_def)
      qed
      ultimately show ?thesis
        using False 1 ok fr dat rel(1)
        by (simp add: diskRel_def SM specReq_def Let_def diskFrame_same [OF fr] a_def n_def)
    qed
    have "twp (halDisk_transfer ge he r) (\<lambda>ok g'. ok \<and> diskFrame g g' \<and> data (us_os (g_user g')) = data (us_os (g_user g)) \<and>
        (\<forall>i. apart i 1 a 4096 \<longrightarrow> apart i 1 (gPhys ge (rq_buffer r)) (n * 512) \<longrightarrow> us_mem (g_user g') i = us_mem (g_user g) i) \<and>
        sectorsRead (data (us_os (g_user g))) (reqSector g r) n (us_mem (g_user g')) (gPhys ge (rq_buffer r))) g"
      unfolding a_def unit [symmetric]
      by (rule transfer_read [OF _ fits 1 n_def]) (use ready buf len unit in simp_all)
    then show ?thesis by (rule twp_mono, elim conjE) (rule post)
  next
    case 2
    have post: "diskFrame g g' \<and> (ok \<longleftrightarrow> \<not> reqRefused g r) \<and> servable ge he pos data unit (ended ok g') \<and>
        diskRel ge data unit g' (specReq ge g r SM)"
      if ok: "ok" and fr: "diskFrame g g'" and out: "outsideSame a 4096 (us_mem (g_user g)) (us_mem (g_user g'))"
        and sw: "sectorsWritten (data (us_os (g_user g))) (data (us_os (g_user g'))) (reqSector g r) n (us_mem (g_user g)) (gPhys ge (rq_buffer r))"
      for ok g'
    proof -
      have mem: "us_mem (g_user g') i = us_mem (g_user g) i" if "apart i 1 a 4096" for i
        using out that by (auto simp: outsideSame_def apart_def)
      have "servable ge he pos data unit (ended ok g')"
        using assms(1) fr by (rule servable_next) (use sw mem in \<open>auto simp: sectorsWritten_def a_def\<close>)
      moreover have "peekBytes (us_mem (g_user g)) (gPhys ge (rq_buffer r) + (j - reqSector g r) * 512) 512 =
          peekBytes M (gPhys ge (rq_buffer r) + (j - reqSector g r) * 512) 512" if "reqSector g r \<le> j" "j < reqSector g r + n" for j
        using that bufapart by (intro peek_outside rel(2)) (auto simp: apart_def)
      ultimately show ?thesis
        using False 2 ok fr rel mem sw
        by (auto simp: diskRel_def SM specReq_def Let_def diskFrame_same [OF fr] a_def n_def sectorsWritten_def specWrite_def)
    qed
    have "twp (halDisk_transfer ge he r) (\<lambda>ok g'. ok \<and> diskFrame g g' \<and> outsideSame a 4096 (us_mem (g_user g)) (us_mem (g_user g')) \<and>
        sectorsWritten (data (us_os (g_user g))) (data (us_os (g_user g'))) (reqSector g r) n (us_mem (g_user g)) (gPhys ge (rq_buffer r))) g"
      unfolding a_def unit [symmetric]
      by (rule transfer_write [OF _ fits 2 n_def]) (use ready buf unit in simp_all)
    then show ?thesis by (rule twp_mono, elim conjE) (rule post)
  qed
qed

text \<open>So does a queue of requests: each is ended once, in order, and refused exactly when it should be.\<close>

lemma specReq_same: "gd_parts g' = gd_parts g \<Longrightarrow> specReq ge g' = specReq ge g" "gd_parts g' = gd_parts g \<Longrightarrow> reqRefused g' = reqRefused g"
  by (simp_all add: specReq_def reqRefused_def reqSector_def fun_eq_iff)

lemma requests_refine:
  fixes g :: "('o, 'k) guest_t"
  assumes "servable ge he pos data unit g" "diskRel ge data unit g SM"
  shows "twp (halDisk_request ge he) (\<lambda>_ g'. gd_queue g' = [] \<and> gd_rwArea g' = gd_rwArea g \<and> servable ge he pos data unit g' \<and>
     gd_done g' = gd_done g @ map (\<lambda>r. (r, \<not> reqRefused g r)) (gd_queue g) \<and>
     diskRel ge data unit g' (fold (specReq ge g) (gd_queue g) SM)) g"
  using assms
proof (induction "gd_queue g" arbitrary: g SM)
  case Nil
  then show ?case by (intro iffD2 [OF twp_request]) simp
next
  case (Cons r q)
  let ?P = "\<lambda>_ g'. gd_queue g' = [] \<and> gd_rwArea g' = gd_rwArea g \<and> servable ge he pos data unit g' \<and>
     gd_done g' = gd_done g @ map (\<lambda>r. (r, \<not> reqRefused g r)) (r # q) \<and>
     diskRel ge data unit g' (fold (specReq ge g) (r # q) SM)"
  have r: "r \<in> set (gd_queue g)" by (simp add: Cons(2) [symmetric])
  have unit: "DEVICE_NR (rq_dev r) = unit" "kernelPage ge (g_user g) (gd_info g)" "unit < HalDiskMaxDisks" "unitEnabled ge g unit"
    using Cons.prems(1) r by (auto simp: servable_def reqOK_def diskReady_def)
  have step: "gd_queue g1 \<noteq> [] \<and> twp (halDisk_request ge he) ?P (ended ok g1)"
    if fr: "diskFrame g g1" and ok: "ok \<longleftrightarrow> \<not> reqRefused g r" and sv: "servable ge he pos data unit (ended ok g1)"
      and rel: "diskRel ge data unit g1 (specReq ge g r SM)" for ok g1
  proof -
    note same = diskFrame_same [OF fr]
    have queue: "gd_queue g1 = r # q" by (simp add: same Cons(2) [symmetric])
    have rel': "diskRel ge data unit (ended ok g1) (specReq ge g r SM)" using rel by (simp add: diskRel_def split: prod.splits)
    have parts: "gd_parts (ended ok g1) = gd_parts g" by (simp add: same)
    have "twp (halDisk_request ge he) (\<lambda>_ g'. gd_queue g' = [] \<and> gd_rwArea g' = gd_rwArea (ended ok g1) \<and>
       servable ge he pos data unit g' \<and> gd_done g' = gd_done (ended ok g1) @ map (\<lambda>r. (r, \<not> reqRefused (ended ok g1) r)) (gd_queue (ended ok g1)) \<and>
       diskRel ge data unit g' (fold (specReq ge (ended ok g1)) (gd_queue (ended ok g1)) (specReq ge g r SM))) (ended ok g1)"
      by (rule Cons.hyps(1) [OF _ sv rel']) (simp add: queue)
    then have "twp (halDisk_request ge he) ?P (ended ok g1)"
      unfolding specReq_same [OF parts] by (rule twp_mono) (simp add: queue same ok)
    then show ?thesis by (simp add: queue)
  qed
  have tr: "twp (halDisk_transfer ge he r) (\<lambda>ok g'. gd_queue g' \<noteq> [] \<and> twp (halDisk_request ge he) ?P (ended ok g')) g"
    by (rule twp_mono [OF transfer_refines [OF Cons.prems(1) r Cons.prems(2)]], elim conjE) (rule step)
  have "twp (halDisk_request ge he) ?P g"
    by (rule twp_request_step [OF _ requestTurn_twp [OF Cons(2) [symmetric] unit(2) _ _ tr]])
      (use unit Cons(2) [symmetric] in simp_all)
  then show ?case by (simp only: Cons(2))
qed

section \<open>With the timer\<close>

lemma irqLoop_stop: "irqTurn ge he g = Ret False g' \<Longrightarrow> gd_queue g \<noteq> [] \<Longrightarrow> irqLoop ge he g = Some (Ret () g')"
  by (subst irqLoop.simps) simp

text \<open>A request that the transfer refuses is reported as done.\<close>

lemma irq_reports_success:
  fixes g :: "('o, 'k) guest_t"
  assumes "gd_queue g = [r]" "\<not> gd_busy g" "kernelPage ge (g_user g) (gd_info g)" "DEVICE_NR (rq_dev r) < HalDiskMaxDisks"
    "unitEnabled ge g (DEVICE_NR (rq_dev r))" "unat (rq_dev r) < NrMinors" "reqRefused g r"
  shows "twp (thn (halDisk_irqdriven_request ge he) (halDisk_interrupt ge he)) (\<lambda>_ g'. gd_queue g' = [] \<and>
     gd_done g' = gd_done g @ [(r, True)] \<and> g_user g' = g_user g) g"
proof -
  have "twp (irqTurn ge he) (\<lambda>again g'. \<not> again \<and> gd_queue g' = [r] \<and> gd_done g' = gd_done g \<and> g_user g' = g_user g) g"
    using assms(1,5) by (simp add: irqTurn_def twp_CURRENT locate_twp [OF assms(3,4)] transfer_reqRefused [OF assms(6,7)])
  then obtain g1 where g1: "irqTurn ge he g = Ret False g1" "gd_queue g1 = [r]" "gd_done g1 = gd_done g" "g_user g1 = g_user g"
    by (auto simp: twp_iff)
  then have "halDisk_irqdriven_request ge he g = Ret () g1"
    using assms(1,2) by (simp add: halDisk_irqdriven_request_def irqLoop_stop)
  then have "twp (halDisk_irqdriven_request ge he) (\<lambda>_ g'. g' = g1) g" by (simp add: twp_def)
  then show ?thesis
    unfolding twp_thn by (rule twp_mono) (use g1 in \<open>simp add: halDisk_interrupt_def twp_end_request ended_def\<close>)
qed

end
