(* ===== verification/Guest_Start.thy ===== *)
theory Guest_Start
  imports Guest_Sectors Hal_Correct
begin

text \<open>
  Loading the disk driver of the guest: the user process fills in the table of disks and opens their files, the driver
  takes a page for each disk there is and enters their sizes; after that it serves requests.
\<close>

section \<open>The table of disks\<close>

text \<open>An entry of the table, and the disk after its file has been opened with the number \<open>fd\<close>.\<close>

definition infoAt :: "(nat \<Rightarrow> Bit8u) \<Rightarrow> nat \<Rightarrow> halDisk_t \<Rightarrow> bool" where
  "infoAt m a d \<longleftrightarrow> peekBytes m a 4 = word_bytes (dk_enabled d) \<and>
     peekBytes m (a + info_numSectors) 4 = word_bytes (if dk_enabled d \<noteq> 0 then dk_numSectors d else 0)"

definition openedDisk :: "halDisk_t \<Rightarrow> int \<Rightarrow> halDisk_t" where
  "openedDisk d fd = d\<lparr>dk_fileNo := if dk_enabled d \<noteq> 0 then fd else - 1\<rparr>"

text \<open>The files of the disks can be opened, with the numbers \<open>F\<close>.\<close>

definition filesOpen :: "'o halenv \<Rightarrow> 'o user_t \<Rightarrow> (nat \<Rightarrow> int) \<Rightarrow> bool" where
  "filesOpen he u F \<longleftrightarrow> (\<forall>k < HalDiskMaxDisks. 0 \<le> F k \<and> (\<forall>s. fst (os_open he s (dk_pathName (us_disk u k))) = F k))"

definition infoFrame :: "nat \<Rightarrow> nat \<Rightarrow> 'o user_t \<Rightarrow> 'o user_t \<Rightarrow> bool" where
  "infoFrame a n u u' \<longleftrightarrow> (\<exists>m s d. u' = u\<lparr>us_mem := m, us_os := s, us_disk := d\<rparr>) \<and> outsideSame a n (us_mem u) (us_mem u')"

lemma infoFrame_same:
  assumes "infoFrame a n u u'"
  shows "us_memSize u' = us_memSize u" "us_memLive u' = us_memLive u" "us_cpu u' = us_cpu u" "memFits u' = memFits u"
  using assms by (auto simp: infoFrame_def memFits_def fun_eq_iff)

lemma infoAt_same:
  assumes "infoAt m b d" "\<And>i. b \<le> i \<Longrightarrow> i < b + halDiskInfo_size \<Longrightarrow> m' i = m i"
  shows "infoAt m' b d"
proof -
  have "peekBytes m' b 4 = peekBytes m b 4" "peekBytes m' (b + 16) 4 = peekBytes m (b + 16) 4"
    using assms(2) by (auto intro!: peek_outside)
  then show ?thesis using assms(1) by (simp add: infoAt_def)
qed

lemma infoFrame_refl: "infoFrame a n u u"
  by (auto simp: infoFrame_def intro!: exI [of _ "us_mem u"] exI [of _ "us_os u"] exI [of _ "us_disk u"])

lemma infoFrame_trans:
  assumes "infoFrame b k u u'" "infoFrame a n u' u''" "a \<le> b" "b + k \<le> a + n"
  shows "infoFrame a n u u''"
proof -
  obtain m s d m' s' d' where "u' = u\<lparr>us_mem := m, us_os := s, us_disk := d\<rparr>"
    "u'' = u'\<lparr>us_mem := m', us_os := s', us_disk := d'\<rparr>"
    using assms(1,2) unfolding infoFrame_def by blast
  then have "u'' = u\<lparr>us_mem := m', us_os := s', us_disk := d'\<rparr>" by simp
  then have "\<exists>m s d. u'' = u\<lparr>us_mem := m, us_os := s, us_disk := d\<rparr>" by blast
  moreover have "outsideSame a n (us_mem u) (us_mem u'')"
    using assms by (auto simp: infoFrame_def outsideSame_def)
  ultimately show ?thesis by (simp add: infoFrame_def)
qed

lemma diskInfoUnit_twp:
  assumes "memFits u (info + unit * halDiskInfo_size) halDiskInfo_size" "filesOpen he u F" "unit < HalDiskMaxDisks"
  shows "twp (diskInfoUnit he info unit) (\<lambda>ok u'. ok \<and> infoAt (us_mem u') (info + unit * halDiskInfo_size) (us_disk u unit) \<and>
     infoFrame (info + unit * halDiskInfo_size) halDiskInfo_size u u' \<and>
     us_disk u' = (us_disk u)(unit := openedDisk (us_disk u unit) (F unit))) u"
proof -
  define a where "a = info + unit * halDiskInfo_size"
  define d where "d = us_disk u unit"
  obtain s' where op: "os_open he (us_os u) (dk_pathName d) = (F unit, s')" "0 \<le> F unit"
    using assms(2,3) unfolding filesOpen_def d_def by (metis prod.collapse)
  have fits: "memFits u a 20" "memFits u a 4" "memFits u (a + 4) 4" "memFits u (a + 8) 4" "memFits u (a + 12) 4" "memFits u (a + 16) 4"
    using assms(1) by (auto simp: a_def memFits_def)
  show ?thesis
  proof (cases "dk_enabled d = 0")
    case True
    let ?u = "u\<lparr>us_mem := putBytes a (replicate 20 0) (us_mem u), us_disk := (us_disk u)(unit := openedDisk d (F unit))\<rparr>"
    have "twp (diskInfoUnit he info unit) (\<lambda>ok u'. ok \<and> u' = ?u) u"
      using True fits by (simp add: diskInfoUnit_def Let_def a_def [symmetric] d_def [symmetric] updDisk_def openedDisk_def)
        (simp add: a_def d_def)
    moreover have "infoAt (us_mem ?u) a d"
      using True by (auto simp: infoAt_def peekBytes_def putBytes_def word_bytes_def upt_rec)
    moreover have "infoFrame a 20 u ?u"
      unfolding infoFrame_def
      by (intro conjI exI [of _ "putBytes a (replicate 20 0) (us_mem u)"] exI [of _ "us_os u"] exI [of _ "us_disk ?u"])
        (simp_all add: outsideSame_put)
    ultimately show ?thesis unfolding a_def d_def by (elim twp_mono) auto
  next
    case False
    let ?m = "putBytes (a + 16) (word_bytes (dk_numSectors d)) (putBytes (a + 12) (word_bytes (dk_spt d))
      (putBytes (a + 8) (word_bytes (dk_heads d)) (putBytes (a + 4) (word_bytes (dk_cylinders d))
      (putBytes a (word_bytes (dk_enabled d)) (us_mem u)))))"
    let ?u = "u\<lparr>us_mem := ?m, us_os := s', us_disk := (us_disk u)(unit := openedDisk d (F unit))\<rparr>"
    have "twp (diskInfoUnit he info unit) (\<lambda>ok u'. ok \<and> u' = ?u) u"
      using False fits op by (simp add: diskInfoUnit_def Let_def a_def [symmetric] d_def [symmetric] updDisk_def openedDisk_def memWrite32_def)
        (simp add: a_def d_def)
    moreover have "infoAt (us_mem ?u) a d"
      using False by (simp add: infoAt_def peek_putBytes)
    moreover have "infoFrame a 20 u ?u"
      unfolding infoFrame_def by (auto intro!: outsideSame_put)
    ultimately show ?thesis unfolding a_def d_def by (elim twp_mono) auto
  qed
qed

lemma diskInfoUnits_twp:
  assumes "memFits u info (HalDiskMaxDisks * halDiskInfo_size)" "filesOpen he u F" "set ks \<subseteq> {..<HalDiskMaxDisks}" "distinct ks"
  shows "twp (diskInfoUnits he info ks) (\<lambda>ok u'. ok \<and> infoFrame info (HalDiskMaxDisks * halDiskInfo_size) u u' \<and>
     (\<forall>k \<in> set ks. infoAt (us_mem u') (info + k * halDiskInfo_size) (us_disk u k)) \<and>
     (\<forall>k. us_disk u' k = (if k \<in> set ks then openedDisk (us_disk u k) (F k) else us_disk u k)) \<and>
     (\<forall>i. (\<forall>k \<in> set ks. apart i 1 (info + k * halDiskInfo_size) halDiskInfo_size) \<longrightarrow> us_mem u' i = us_mem u i)) u"
  using assms
proof (induction ks arbitrary: u)
  case Nil
  then show ?case by (simp add: infoFrame_refl)
next
  case (Cons k ks)
  let ?a = "info + k * halDiskInfo_size"
  have k: "k < HalDiskMaxDisks" "k \<notin> set ks" "memFits u ?a halDiskInfo_size"
    using Cons.prems(1,3,4) by (auto simp: memFits_def)
  have rest: "twp (diskInfoUnits he info ks) (\<lambda>ok u''. ok \<and> infoFrame info (HalDiskMaxDisks * halDiskInfo_size) u u'' \<and>
     (\<forall>k \<in> set (k # ks). infoAt (us_mem u'') (info + k * halDiskInfo_size) (us_disk u k)) \<and>
     (\<forall>j. us_disk u'' j = (if j \<in> set (k # ks) then openedDisk (us_disk u j) (F j) else us_disk u j)) \<and>
     (\<forall>i. (\<forall>k \<in> set (k # ks). apart i 1 (info + k * halDiskInfo_size) halDiskInfo_size) \<longrightarrow> us_mem u'' i = us_mem u i)) u'"
    if at: "infoAt (us_mem u') ?a (us_disk u k)" and fr: "infoFrame ?a halDiskInfo_size u u'"
      and dk: "us_disk u' = (us_disk u)(k := openedDisk (us_disk u k) (F k))" for u'
  proof -
    let ?N = "HalDiskMaxDisks * halDiskInfo_size"
    note same = infoFrame_same [OF fr]
    have IH: "twp (diskInfoUnits he info ks) (\<lambda>ok u''. ok \<and> infoFrame info ?N u' u'' \<and>
       (\<forall>k \<in> set ks. infoAt (us_mem u'') (info + k * halDiskInfo_size) (us_disk u' k)) \<and>
       (\<forall>k. us_disk u'' k = (if k \<in> set ks then openedDisk (us_disk u' k) (F k) else us_disk u' k)) \<and>
       (\<forall>i. (\<forall>k \<in> set ks. apart i 1 (info + k * halDiskInfo_size) halDiskInfo_size) \<longrightarrow> us_mem u'' i = us_mem u' i)) u'"
      using Cons.prems by (intro Cons.IH) (auto simp: same filesOpen_def dk openedDisk_def)
    have blocks: "apart i 1 (info + j * halDiskInfo_size) halDiskInfo_size" if "j \<noteq> k" "?a \<le> i" "i < ?a + halDiskInfo_size" for i j
      using that by (cases "j < k") (auto simp: apart_def)
    have out: "us_mem u' i = us_mem u i" if "apart i 1 ?a halDiskInfo_size" for i
      using fr that by (auto simp: infoFrame_def outsideSame_def apart_def)
    show ?thesis
    proof (rule twp_mono [OF IH], elim conjE, intro conjI ballI allI impI)
      fix ok u''
      assume ok: "ok" and fr2: "infoFrame info ?N u' u''"
        and at2: "\<forall>k \<in> set ks. infoAt (us_mem u'') (info + k * halDiskInfo_size) (us_disk u' k)"
        and dk2: "\<forall>k. us_disk u'' k = (if k \<in> set ks then openedDisk (us_disk u' k) (F k) else us_disk u' k)"
        and out2: "\<forall>i. (\<forall>k \<in> set ks. apart i 1 (info + k * halDiskInfo_size) halDiskInfo_size) \<longrightarrow> us_mem u'' i = us_mem u' i"
      show ok by (rule ok)
      show "infoFrame info ?N u u''" using k(1) by (intro infoFrame_trans [OF fr fr2]) auto
      show "infoAt (us_mem u'') (info + j * halDiskInfo_size) (us_disk u j)" if "j \<in> set (k # ks)" for j
      proof (cases "j = k")
        case True
        have "us_mem u'' i = us_mem u' i" if "?a \<le> i" "i < ?a + halDiskInfo_size" for i
        proof -
          have "\<forall>j \<in> set ks. apart i 1 (info + j * halDiskInfo_size) halDiskInfo_size"
            using blocks [OF _ that] k(2) by metis
          then show ?thesis using out2 by blast
        qed
        then show ?thesis unfolding True by (rule infoAt_same [OF at])
      next
        case False
        then have "j \<in> set ks" "us_disk u' j = us_disk u j" using that by (auto simp: dk)
        then show ?thesis using at2 by metis
      qed
      show "us_disk u'' j = (if j \<in> set (k # ks) then openedDisk (us_disk u j) (F j) else us_disk u j)" for j
        using dk2 k(2) by (auto simp: dk)
      show "us_mem u'' i = us_mem u i" if "\<forall>j \<in> set (k # ks). apart i 1 (info + j * halDiskInfo_size) halDiskInfo_size" for i
        using that out [of i] out2 by simp
    qed
  qed
  show ?case
    unfolding diskInfoUnits.simps twp_bnd
    by (rule twp_mono [OF diskInfoUnit_twp [OF k(3) Cons.prems(2) k(1)]]) (use rest in simp)
qed

section \<open>What the driver sees of it\<close>

text \<open>The page of the driver holds the table for the disks \<open>D\<close>.\<close>

definition tableOK :: "'k gkenv \<Rightarrow> ('o, 'k) guest_t \<Rightarrow> (nat \<Rightarrow> halDisk_t) \<Rightarrow> bool" where
  "tableOK ge g D \<longleftrightarrow> kernelPage ge (g_user g) (gd_info g) \<and>
     (\<forall>k < HalDiskMaxDisks. infoAt (us_mem (g_user g)) (gPhys ge (gd_info g) + k * halDiskInfo_size) (D k))"

lemma tableOK_upd [simp]:
  "tableOK ge (g\<lparr>g_kern := x0\<rparr>) D = tableOK ge g D"
  "tableOK ge (g\<lparr>g_log := x1\<rparr>) D = tableOK ge g D"
  "tableOK ge (g\<lparr>gd_rwArea := x2\<rparr>) D = tableOK ge g D"
  "tableOK ge (g\<lparr>gd_irq := x3\<rparr>) D = tableOK ge g D"
  "tableOK ge (g\<lparr>gd_parts := x4\<rparr>) D = tableOK ge g D"
  "tableOK ge (g\<lparr>gd_sizes := x5\<rparr>) D = tableOK ge g D"
  "tableOK ge (g\<lparr>gd_usage := x6\<rparr>) D = tableOK ge g D"
  "tableOK ge (g\<lparr>gd_major := x7\<rparr>) D = tableOK ge g D"
  "tableOK ge (g\<lparr>gd_rahead := x8\<rparr>) D = tableOK ge g D"
  "tableOK ge (g\<lparr>gd_read_ahead := x9\<rparr>) D = tableOK ge g D"
  by (simp_all add: tableOK_def)

definition numSectorsOf :: "halDisk_t \<Rightarrow> Bit32u" where
  "numSectorsOf d = (if dk_enabled d \<noteq> 0 then dk_numSectors d else 0)"

lemma diskInfo32_twp:
  assumes "tableOK ge g D" "unit < HalDiskMaxDisks"
  shows "twp (diskInfo32 ge unit info_enabled) Q g = Q (dk_enabled (D unit)) g"
    "twp (diskInfo32 ge unit info_numSectors) Q g = Q (numSectorsOf (D unit)) g"
proof -
  let ?k = "unit * halDiskInfo_size"
  have page: "kernelPage ge (g_user g) (gd_info g)"
    and at: "infoAt (us_mem (g_user g)) (gPhys ge (gd_info g) + ?k) (D unit)"
    using assms by (simp_all add: tableOK_def)
  have "gPhys ge (gd_info g + of_nat (?k + off)) = gPhys ge (gd_info g) + (?k + off) \<and>
      memFits (g_user g) (gPhys ge (gd_info g) + (?k + off)) 4" if "off \<le> 16" for off
    using that assms(2) by (intro conjI kernelPage_add [OF page] kernelPage_fits [OF page]) simp_all
  from this [of 0] this [of 16] show "twp (diskInfo32 ge unit info_enabled) Q g = Q (dk_enabled (D unit)) g"
    "twp (diskInfo32 ge unit info_numSectors) Q g = Q (numSectorsOf (D unit)) g"
    using at by (simp_all add: diskInfo32_def guestRead32_def infoAt_def numSectorsOf_def add.assoc)
qed

lemma gdGetDiskInfo_twp:
  fixes ge :: "'k gkenv" and g :: "('o, 'k) guest_t"
  assumes "kernelPage ge (g_user g) (gd_info g)" "filesOpen he (g_user g) F"
  shows "twp (gdGetDiskInfo he (gd_info g - gk_PAGE_OFFSET ge)) (\<lambda>_ g'. tableOK ge g' (us_disk (g_user g)) \<and>
     (\<exists>u. g' = g\<lparr>g_user := u\<rparr> \<and> memFits u = memFits (g_user g) \<and>
       (\<forall>k < HalDiskMaxDisks. us_disk u k = openedDisk (us_disk (g_user g) k) (F k)))) g"
proof -
  let ?u = "(g_user g)\<lparr>us_cpu := (us_cpu (g_user g))\<lparr>cpu_genReg := (cpu_genReg (us_cpu (g_user g)))
     (GenRegEAX := HalCallDiskGetInfo, GenRegEBX := gd_info g - gk_PAGE_OFFSET ge)\<rparr>\<rparr>"
  have fits: "memFits (g_user g) (gPhys ge (gd_info g)) 4096" using assms(1) by (simp add: kernelPage_def)
  then have low: "\<not> us_memSize (g_user g) - 20 \<le> gd_info g - gk_PAGE_OFFSET ge"
    by (auto simp: gPhys_def memFits_def word_le_nat_alt unat_sub)
  have "twp (diskInfoUnits he (gPhys ge (gd_info g)) [0..<HalDiskMaxDisks]) (\<lambda>ok u'. ok \<and>
     infoFrame (gPhys ge (gd_info g)) (HalDiskMaxDisks * halDiskInfo_size) ?u u' \<and>
     (\<forall>k \<in> set [0..<HalDiskMaxDisks]. infoAt (us_mem u') (gPhys ge (gd_info g) + k * halDiskInfo_size) (us_disk ?u k)) \<and>
     (\<forall>k. us_disk u' k = (if k \<in> set [0..<HalDiskMaxDisks] then openedDisk (us_disk ?u k) (F k) else us_disk ?u k)) \<and>
     (\<forall>i. (\<forall>k \<in> set [0..<HalDiskMaxDisks]. apart i 1 (gPhys ge (gd_info g) + k * halDiskInfo_size) halDiskInfo_size) \<longrightarrow>
        us_mem u' i = us_mem ?u i)) ?u"
    using fits assms(2) by (intro diskInfoUnits_twp) (auto simp: memFits_def filesOpen_def)
  then have "twp (diskInfoUnits he (gPhys ge (gd_info g)) [0..<HalDiskMaxDisks]) (\<lambda>ok u'. ok \<and>
     tableOK ge (g\<lparr>g_user := u'\<rparr>) (us_disk (g_user g)) \<and> memFits u' = memFits (g_user g) \<and>
     (\<forall>k < HalDiskMaxDisks. us_disk u' k = openedDisk (us_disk (g_user g) k) (F k))) ?u"
  proof (rule twp_mono, elim conjE)
    fix ok u' assume ok: ok and fr: "infoFrame (gPhys ge (gd_info g)) (HalDiskMaxDisks * halDiskInfo_size) ?u u'"
      and at: "\<forall>k \<in> set [0..<HalDiskMaxDisks]. infoAt (us_mem u') (gPhys ge (gd_info g) + k * halDiskInfo_size) (us_disk ?u k)"
      and dk: "\<forall>k. us_disk u' k = (if k \<in> set [0..<HalDiskMaxDisks] then openedDisk (us_disk ?u k) (F k) else us_disk ?u k)"
    have mf: "memFits u' = memFits (g_user g)" using infoFrame_same(4) [OF fr] by simp
    then show "ok \<and> tableOK ge (g\<lparr>g_user := u'\<rparr>) (us_disk (g_user g)) \<and> memFits u' = memFits (g_user g) \<and>
        (\<forall>k < HalDiskMaxDisks. us_disk u' k = openedDisk (us_disk (g_user g) k) (F k))"
      using ok at dk assms(1) by (simp add: tableOK_def kernelPage_def)
  qed
  then have "twp (halDiskGetInfo he) (\<lambda>_ u'. tableOK ge (g\<lparr>g_user := u'\<rparr>) (us_disk (g_user g)) \<and> memFits u' = memFits (g_user g) \<and>
     (\<forall>k < HalDiskMaxDisks. us_disk u' k = openedDisk (us_disk (g_user g) k) (F k))) ?u"
    using low by (auto simp: halDiskGetInfo_def usReg_def gPhys_def elim!: twp_mono)
  then show ?thesis
    by (auto simp: gdGetDiskInfo_def halInt_def halCall_def usReg_def halDiskCall_def elim!: twp_mono)
qed

section \<open>The areas\<close>

text \<open>A kernel that has the pages \<open>p\<close> for the driver, in the states \<open>\<kappa>\<close>; they do not meet.\<close>

definition pagesFrom :: "'k gkenv \<Rightarrow> 'o user_t \<Rightarrow> (nat \<Rightarrow> 'k) \<Rightarrow> (nat \<Rightarrow> Bit32u) \<Rightarrow> bool" where
  "pagesFrom ge u \<kappa> p \<longleftrightarrow> (\<forall>i. gk_get_zeroed_page ge (\<kappa> i) = (p i, \<kappa> (Suc i))) \<and>
     (\<forall>i \<le> HalDiskMaxDisks. kernelPage ge u (p i)) \<and>
     (\<forall>i \<le> HalDiskMaxDisks. \<forall>j < i. apart (gPhys ge (p j)) 4096 (gPhys ge (p i)) 4096)"

text \<open>The disks before unit \<open>k\<close> have the pages after the first.\<close>

definition pageNo :: "(nat \<Rightarrow> halDisk_t) \<Rightarrow> nat \<Rightarrow> nat" where
  "pageNo D k = Suc (length (filter (\<lambda>j. dk_enabled (D j) \<noteq> 0) [0..<k]))"

lemma pageNo_simps: "pageNo D 0 = 1" "pageNo D (Suc k) = (if dk_enabled (D k) \<noteq> 0 then Suc (pageNo D k) else pageNo D k)"
  by (simp_all add: pageNo_def)

lemma pageNo_le: "pageNo D k \<le> Suc k"
  using length_filter_le [of "\<lambda>j. dk_enabled (D j) \<noteq> 0" "[0..<k]"] by (simp add: pageNo_def)

text \<open>What the set-up leaves alone.\<close>

definition startFrame :: "('o, 'k) guest_t \<Rightarrow> ('o, 'k) guest_t \<Rightarrow> bool" where
  "startFrame g g' \<longleftrightarrow> gd_info g' = gd_info g \<and> gd_queue g' = gd_queue g \<and> gd_done g' = gd_done g \<and> gd_busy g' = gd_busy g \<and>
     us_disk (g_user g') = us_disk (g_user g) \<and> memFits (g_user g') = memFits (g_user g)"

lemma startFrame_refl: "startFrame g g"
  by (simp add: startFrame_def)

lemma startFrame_trans: "startFrame g g' \<Longrightarrow> startFrame g' g'' \<Longrightarrow> startFrame g g''"
  by (simp add: startFrame_def)

lemma startFrame_upd [simp]:
  "startFrame g (g'\<lparr>g_kern := x0\<rparr>) = startFrame g g'" "startFrame (g\<lparr>g_kern := x0\<rparr>) g' = startFrame g g'"
  "startFrame g (g'\<lparr>g_log := x1\<rparr>) = startFrame g g'" "startFrame (g\<lparr>g_log := x1\<rparr>) g' = startFrame g g'"
  "startFrame g (g'\<lparr>gd_rwArea := x2\<rparr>) = startFrame g g'" "startFrame (g\<lparr>gd_rwArea := x2\<rparr>) g' = startFrame g g'"
  "startFrame g (g'\<lparr>gd_irq := x3\<rparr>) = startFrame g g'" "startFrame (g\<lparr>gd_irq := x3\<rparr>) g' = startFrame g g'"
  "startFrame g (g'\<lparr>gd_parts := x4\<rparr>) = startFrame g g'" "startFrame (g\<lparr>gd_parts := x4\<rparr>) g' = startFrame g g'"
  "startFrame g (g'\<lparr>gd_sizes := x5\<rparr>) = startFrame g g'" "startFrame (g\<lparr>gd_sizes := x5\<rparr>) g' = startFrame g g'"
  "startFrame g (g'\<lparr>gd_usage := x6\<rparr>) = startFrame g g'" "startFrame (g\<lparr>gd_usage := x6\<rparr>) g' = startFrame g g'"
  "startFrame g (g'\<lparr>gd_major := x7\<rparr>) = startFrame g g'" "startFrame (g\<lparr>gd_major := x7\<rparr>) g' = startFrame g g'"
  "startFrame g (g'\<lparr>gd_rahead := x8\<rparr>) = startFrame g g'" "startFrame (g\<lparr>gd_rahead := x8\<rparr>) g' = startFrame g g'"
  "startFrame g (g'\<lparr>gd_read_ahead := x9\<rparr>) = startFrame g g'" "startFrame (g\<lparr>gd_read_ahead := x9\<rparr>) g' = startFrame g g'"
  by (simp_all add: startFrame_def)

lemma diskAreas_twp:
  fixes ge :: "'k gkenv" and g :: "('o, 'k) guest_t"
  assumes "tableOK ge g D" "pagesFrom ge (g_user g) \<kappa> p" "g_kern g = \<kappa> 1" "gd_info g = p 0"
  shows "twp (diskAreas ge) (\<lambda>_ g'. startFrame g g' \<and> tableOK ge g' D \<and> g_kern g' = \<kappa> (pageNo D HalDiskMaxDisks) \<and>
     (\<forall>k < HalDiskMaxDisks. dk_enabled (D k) \<noteq> 0 \<longrightarrow> gd_rwArea g' k = p (pageNo D k))) g"
  unfolding diskAreas_def
proof (rule twp_forM_upt [where I = "\<lambda>n g'. startFrame g g' \<and> tableOK ge g' D \<and> g_kern g' = \<kappa> (pageNo D n) \<and>
     (\<forall>k < n. dk_enabled (D k) \<noteq> 0 \<longrightarrow> gd_rwArea g' k = p (pageNo D k))"])
  show "startFrame g g \<and> tableOK ge g D \<and> g_kern g = \<kappa> (pageNo D 0) \<and>
     (\<forall>k < 0. dk_enabled (D k) \<noteq> 0 \<longrightarrow> gd_rwArea g k = p (pageNo D k))"
    using assms by (simp add: startFrame_refl pageNo_simps)
next
  fix n and g' :: "('o, 'k) guest_t"
  assume n: "n < HalDiskMaxDisks" and I: "startFrame g g' \<and> tableOK ge g' D \<and> g_kern g' = \<kappa> (pageNo D n) \<and>
     (\<forall>k < n. dk_enabled (D k) \<noteq> 0 \<longrightarrow> gd_rwArea g' k = p (pageNo D k))"
  have table: "tableOK ge g' D" using I by simp
  show "twp (bnd (diskInfo32 ge n info_enabled) (\<lambda>enabled. bnd (if enabled \<noteq> 0 then get_zeroed_page ge else ret 0) (\<lambda>page.
      modify (\<lambda>g. g\<lparr>gd_rwArea := (gd_rwArea g)(n := page)\<rparr>)))) (\<lambda>_ g''. startFrame g g'' \<and> tableOK ge g'' D \<and>
      g_kern g'' = \<kappa> (pageNo D (Suc n)) \<and> (\<forall>k < Suc n. dk_enabled (D k) \<noteq> 0 \<longrightarrow> gd_rwArea g'' k = p (pageNo D k))) g'"
  proof (cases "dk_enabled (D n) = 0")
    case True
    then show ?thesis
      unfolding twp_bnd diskInfo32_twp(1) [OF table n] using I True by (auto simp: pageNo_simps less_Suc_eq)
  next
    case False
    have no: "pageNo D n \<le> HalDiskMaxDisks" "0 < pageNo D n" using pageNo_le [of D n] n by (simp, simp add: pageNo_def)
    have page: "gk_get_zeroed_page ge (\<kappa> (pageNo D n)) = (p (pageNo D n), \<kappa> (Suc (pageNo D n)))"
      "kernelPage ge (g_user g') (p (pageNo D n))" "apart (gPhys ge (p 0)) 4096 (gPhys ge (p (pageNo D n))) 4096"
      using assms(2) no I by (simp_all add: pagesFrom_def kernelPage_def startFrame_def)
    define m where "m = putBytes (gPhys ge (p (pageNo D n))) (replicate 4096 0) (us_mem (g_user g'))"
    have same: "m i = us_mem (g_user g') i" if "gPhys ge (gd_info g') \<le> i" "i < gPhys ge (gd_info g') + 4096" for i
      using that page(3) I assms(4) by (auto simp: m_def putBytes_def apart_def startFrame_def)
    have "infoAt m (gPhys ge (gd_info g') + k * halDiskInfo_size) (D k)" if "k < HalDiskMaxDisks" for k
    proof (rule infoAt_same)
      show "infoAt (us_mem (g_user g')) (gPhys ge (gd_info g') + k * halDiskInfo_size) (D k)"
        using table that by (simp add: tableOK_def)
      fix i assume "gPhys ge (gd_info g') + k * halDiskInfo_size \<le> i" "i < gPhys ge (gd_info g') + k * halDiskInfo_size + halDiskInfo_size"
      then show "m i = us_mem (g_user g') i" using that by (intro same) simp_all
    qed
    then have "tableOK ge (g'\<lparr>g_user := (g_user g')\<lparr>us_mem := m\<rparr>\<rparr>) D"
      using table by (simp add: tableOK_def kernelPage_def)
    moreover have "startFrame g (g'\<lparr>g_user := (g_user g')\<lparr>us_mem := m\<rparr>\<rparr>)"
      using I by (simp add: startFrame_def)
    moreover have "twp (get_zeroed_page ge) (\<lambda>page g''. page = p (pageNo D n) \<and>
        g'' = g'\<lparr>g_user := (g_user g')\<lparr>us_mem := m\<rparr>, g_kern := \<kappa> (Suc (pageNo D n))\<rparr>) g'"
      using I page(1,2) by (simp add: get_zeroed_page_def kernelPage_def m_def)
    ultimately have "twp (bnd (get_zeroed_page ge) (\<lambda>page. modify (\<lambda>g. g\<lparr>gd_rwArea := (gd_rwArea g)(n := page)\<rparr>))) (\<lambda>_ g''. startFrame g g'' \<and>
        tableOK ge g'' D \<and> g_kern g'' = \<kappa> (pageNo D (Suc n)) \<and> (\<forall>k < Suc n. dk_enabled (D k) \<noteq> 0 \<longrightarrow> gd_rwArea g'' k = p (pageNo D k))) g'"
      unfolding twp_bnd using I False by (elim twp_mono) (simp add: pageNo_simps less_Suc_eq)
    then show ?thesis
      unfolding twp_bnd diskInfo32_twp(1) [OF table n] using False by simp
  qed
qed

section \<open>The sizes\<close>

definition wholeDisk :: "halDisk_t \<Rightarrow> hd_struct" where
  "wholeDisk d = \<lparr>hd_start_sect = 0, hd_nr_sects = numSectorsOf d\<rparr>"

lemma diskSizes_twp:
  fixes ge :: "'k gkenv" and g :: "('o, 'k) guest_t"
  assumes "tableOK ge g D"
  shows "twp (forM [0..<HalDiskMaxDisks] (\<lambda>unit. bnd (diskInfo32 ge unit info_numSectors) (\<lambda>n.
       thn (setSize (unit * 16) (drop_bit 1 n)) (setPart (unit * 16) \<lparr>hd_start_sect = 0, hd_nr_sects = n\<rparr>)))) (\<lambda>_ g'.
     startFrame g g' \<and> tableOK ge g' D \<and> gd_rwArea g' = gd_rwArea g \<and> (\<forall>k < HalDiskMaxDisks. gd_parts g' (k * 16) = wholeDisk (D k))) g"
proof (rule twp_forM_upt [where I = "\<lambda>n g'. startFrame g g' \<and> tableOK ge g' D \<and> gd_rwArea g' = gd_rwArea g \<and>
     (\<forall>k < n. gd_parts g' (k * 16) = wholeDisk (D k))"])
  fix n and g' :: "('o, 'k) guest_t"
  assume n: "n < HalDiskMaxDisks" and I: "startFrame g g' \<and> tableOK ge g' D \<and> gd_rwArea g' = gd_rwArea g \<and>
     (\<forall>k < n. gd_parts g' (k * 16) = wholeDisk (D k))"
  then have table: "tableOK ge g' D" by simp
  show "twp (bnd (diskInfo32 ge n info_numSectors) (\<lambda>m.
       thn (setSize (n * 16) (drop_bit 1 m)) (setPart (n * 16) \<lparr>hd_start_sect = 0, hd_nr_sects = m\<rparr>))) (\<lambda>_ g''.
     startFrame g g'' \<and> tableOK ge g'' D \<and> gd_rwArea g'' = gd_rwArea g \<and> (\<forall>k < Suc n. gd_parts g'' (k * 16) = wholeDisk (D k))) g'"
    unfolding twp_bnd diskInfo32_twp(2) [OF table n] using I n
    by (auto simp: setSize_def setPart_def wholeDisk_def less_Suc_eq)
qed (use assms in \<open>simp_all add: startFrame_refl\<close>)

text \<open>Reading the partition tables leaves the entries of whole disks.\<close>

lemma registerDisks_twp:
  fixes ge :: "'k gkenv" and g :: "('o, 'k) guest_t"
  assumes "tableOK ge g D"
  shows "twp (forM [0..<HalDiskMaxDisks] (\<lambda>unit. bnd (diskInfo32 ge unit info_numSectors) (register_disk ge unit))) (\<lambda>_ g'.
     startFrame g g' \<and> tableOK ge g' D \<and> gd_rwArea g' = gd_rwArea g \<and> (\<forall>k. gd_parts g' (k * 16) = gd_parts g (k * 16))) g"
proof (rule twp_forM_upt [where I = "\<lambda>n g'. startFrame g g' \<and> tableOK ge g' D \<and> gd_rwArea g' = gd_rwArea g \<and>
     (\<forall>k. gd_parts g' (k * 16) = gd_parts g (k * 16))"])
  fix n and g' :: "('o, 'k) guest_t"
  assume n: "n < HalDiskMaxDisks" and I: "startFrame g g' \<and> tableOK ge g' D \<and> gd_rwArea g' = gd_rwArea g \<and>
     (\<forall>k. gd_parts g' (k * 16) = gd_parts g (k * 16))"
  then have table: "tableOK ge g' D" by simp
  have mult: "\<not> (n < k \<and> k * 16 < n * 16 + 16)" for k :: nat by presburger
  show "twp (bnd (diskInfo32 ge n info_numSectors) (register_disk ge n)) (\<lambda>_ g''.
     startFrame g g'' \<and> tableOK ge g'' D \<and> gd_rwArea g'' = gd_rwArea g \<and> (\<forall>k. gd_parts g'' (k * 16) = gd_parts g (k * 16))) g'"
    unfolding twp_bnd diskInfo32_twp(2) [OF table n] using I mult
    by (auto simp: register_disk_def grok_partitions_def Let_def split: prod.split)
qed (use assms in \<open>simp_all add: startFrame_refl\<close>)

section \<open>Loading the module\<close>

text \<open>What is needed of a disk to serve requests for it.\<close>

definition diskStarted :: "'k gkenv \<Rightarrow> ('o, 'k) guest_t \<Rightarrow> halDisk_t \<Rightarrow> nat \<Rightarrow> int \<Rightarrow> bool" where
  "diskStarted ge g d k fd \<longleftrightarrow> kernelPage ge (g_user g) (gd_rwArea g k) \<and>
     apart (gPhys ge (gd_info g)) 4096 (gPhys ge (gd_rwArea g k)) 4096 \<and>
     gd_parts g (k * 16) = wholeDisk d \<and> dk_fileNo (us_disk (g_user g) k) = fd"

lemma diskStarted_serves:
  assumes "diskStarted ge g d k fd" "tableOK ge g D" "D k = d" "k < HalDiskMaxDisks" "dk_enabled d \<noteq> 0" "regularFile he fd pos data"
    "gd_queue g = []"
  shows "servable ge he pos data k g"
proof -
  have "infoAt (us_mem (g_user g)) (gPhys ge (gd_info g) + k * halDiskInfo_size) d" using assms(2-4) by (auto simp: tableOK_def)
  then have "unitEnabled ge g k" using assms(5) by (simp add: unitEnabled_def infoAt_def)
  then show ?thesis using assms by (simp add: servable_def diskReady_def diskStarted_def tableOK_def)
qed

lemma startDisks_twp:
  fixes ge :: "'k gkenv" and g :: "('o, 'k) guest_t"
  assumes "tableOK ge g D"
  shows "twp (thn (forM [0..<HalDiskMaxDisks] (\<lambda>unit. bnd (diskInfo32 ge unit info_numSectors) (\<lambda>n.
       thn (setSize (unit * 16) (drop_bit 1 n)) (setPart (unit * 16) \<lparr>hd_start_sect = 0, hd_nr_sects = n\<rparr>))))
     (thn (kernLog Add_gendisk)
     (thn (modify (\<lambda>g. g\<lparr>gd_irq := irq\<rparr>))
     (thn (kernLog (Blk_init_queue (irq \<noteq> 0)))
     (thn (forM [0..<HalDiskMaxDisks] (\<lambda>unit. bnd (diskInfo32 ge unit info_numSectors) (register_disk ge unit))) (ret 0))))))
     (\<lambda>r g'. r = (0 :: int) \<and> startFrame g g' \<and> tableOK ge g' D \<and> gd_rwArea g' = gd_rwArea g \<and>
       (\<forall>k < HalDiskMaxDisks. gd_parts g' (k * 16) = wholeDisk (D k))) g"
  unfolding twp_thn
proof (rule twp_mono [OF diskSizes_twp [OF assms]], elim conjE)
  fix x g1 assume fr: "startFrame g g1" and table: "tableOK ge g1 D" and area: "gd_rwArea g1 = gd_rwArea g"
    and parts: "\<forall>k < HalDiskMaxDisks. gd_parts g1 (k * 16) = wholeDisk (D k)"
  let ?g = "g1\<lparr>gd_irq := irq, g_log := g_log g1 @ [Add_gendisk, Blk_init_queue (irq \<noteq> 0)]\<rparr>"
  have "tableOK ge ?g D" using table by simp
  note reg = registerDisks_twp [OF this]
  have "startFrame g g'" if "startFrame ?g g'" for g' using that startFrame_trans [OF fr] by simp
  then have "twp (forM [0..<HalDiskMaxDisks] (\<lambda>unit. bnd (diskInfo32 ge unit info_numSectors) (register_disk ge unit)))
     (\<lambda>_ g'. startFrame g g' \<and> tableOK ge g' D \<and> gd_rwArea g' = gd_rwArea g \<and>
       (\<forall>k < HalDiskMaxDisks. gd_parts g' (k * 16) = wholeDisk (D k))) ?g"
    using area parts by (intro twp_mono [OF reg]) simp
  then show "twp (kernLog Add_gendisk) (\<lambda>_. twp (modify (\<lambda>g. g\<lparr>gd_irq := irq\<rparr>)) (\<lambda>_. twp (kernLog (Blk_init_queue (irq \<noteq> 0)))
     (\<lambda>_. twp (forM [0..<HalDiskMaxDisks] (\<lambda>unit. bnd (diskInfo32 ge unit info_numSectors) (register_disk ge unit)))
     (\<lambda>_. twp (ret 0) (\<lambda>r g'. r = (0 :: int) \<and> startFrame g g' \<and> tableOK ge g' D \<and> gd_rwArea g' = gd_rwArea g \<and>
       (\<forall>k < HalDiskMaxDisks. gd_parts g' (k * 16) = wholeDisk (D k))))))) g1"
    by (simp add: twp_kernLog)
qed

lemma halDisk_init_twp:
  fixes ge :: "'k gkenv" and g :: "('o, 'k) guest_t"
  assumes "pagesFrom ge (g_user g) \<kappa> p" "g_kern g = \<kappa> 0" "filesOpen he (g_user g) F" "\<And>k. 0 \<le> fst (gk_register_blkdev ge k major)"
  shows "twp (halDisk_init ge he major rahead irq) (\<lambda>r g'. r = 0 \<and> gd_queue g' = gd_queue g \<and> tableOK ge g' (us_disk (g_user g)) \<and>
     (\<forall>k < HalDiskMaxDisks. dk_enabled (us_disk (g_user g) k) \<noteq> 0 \<longrightarrow> diskStarted ge g' (us_disk (g_user g) k) k (F k))) g"
    (is "twp _ ?P g")
proof -
  let ?D = "us_disk (g_user g)"
  define u1 where "u1 = (g_user g)\<lparr>us_mem := putBytes (gPhys ge (p 0)) (replicate 4096 0) (us_mem (g_user g))\<rparr>"
  define g1 where "g1 = g\<lparr>g_kern := \<kappa> 1, g_user := u1, gd_info := p 0\<rparr>"
  have page: "gk_get_zeroed_page ge (\<kappa> 0) = (p 0, \<kappa> 1)" "kernelPage ge (g_user g) (p 0)"
    using assms(1) by (simp_all add: pagesFrom_def)
  have g1s: "gd_info g1 = p 0" "g_user g1 = u1" by (simp_all add: g1_def)
  have u1: "memFits u1 = memFits (g_user g)" "us_disk u1 = ?D" by (simp_all add: u1_def)
  have pages: "pagesFrom ge u \<kappa> p" if "memFits u = memFits (g_user g)" for u
    using assms(1) that by (simp add: pagesFrom_def kernelPage_def)
  define start where "start = (thn (forM [0..<HalDiskMaxDisks] (\<lambda>unit.
           bnd (diskInfo32 ge unit info_numSectors) (\<lambda>n.
           thn (setSize (unit * 16) (drop_bit 1 n))
           (setPart (unit * 16) \<lparr>hd_start_sect = 0, hd_nr_sects = n\<rparr>))))
        (thn (kernLog Add_gendisk)
        (thn (modify (\<lambda>g. g\<lparr>gd_irq := irq\<rparr>))
        (thn (kernLog (Blk_init_queue (irq \<noteq> 0)))
        (thn (forM [0..<HalDiskMaxDisks] (\<lambda>unit.
           bnd (diskInfo32 ge unit info_numSectors) (register_disk ge unit)))
        (ret 0))))) :: ('o, 'k, int) gst)"
  define tail where "tail = (thn (modify (\<lambda>g. g\<lparr>gd_major := major, gd_rahead := rahead\<rparr>))
     (bnd (kern (\<lambda>k. gk_register_blkdev ge k major)) (\<lambda>result.
      if result < 0 then ret result
      else
        thn (whenM (major = 0) (modify (\<lambda>g. g\<lparr>gd_major := result\<rparr>)))
        (thn (modify (\<lambda>g. g\<lparr>gd_usage := (\<lambda>_. 0), gd_sizes := (\<lambda>_. 0), gd_parts := (\<lambda>_. zero_hd_struct),
                            gd_read_ahead := rahead\<rparr>)) start))) :: ('o, 'k, int) gst)"
  have fin: "twp tail ?P g3"
    if fr: "startFrame g2 g3" and table: "tableOK ge g3 ?D"
      and areas: "\<forall>k < HalDiskMaxDisks. dk_enabled (?D k) \<noteq> 0 \<longrightarrow> gd_rwArea g3 k = p (pageNo ?D k)"
      and g2: "gd_info g2 = p 0" "gd_queue g2 = gd_queue g" "memFits (g_user g2) = memFits (g_user g)"
        "\<forall>k < HalDiskMaxDisks. us_disk (g_user g2) k = openedDisk (?D k) (F k)" for g2 g3 :: "('o, 'k) guest_t"
  proof -
    obtain res k' where res: "gk_register_blkdev ge (g_kern g3) major = (res, k')" "0 \<le> res"
      using assms(4) [of "g_kern g3"] by (metis prod.collapse)
    have "twp start ?P g4" if g4: "startFrame g3 g4" "tableOK ge g4 ?D" "gd_rwArea g4 = gd_rwArea g3" for g4 :: "('o, 'k) guest_t"
      unfolding start_def
    proof (rule twp_mono [OF startDisks_twp [OF g4(2)]], elim conjE, intro conjI allI impI)
      fix r k and g' :: "('o, 'k) guest_t"
      assume fr': "startFrame g4 g'" and area: "gd_rwArea g' = gd_rwArea g4"
        and parts: "\<forall>k < HalDiskMaxDisks. gd_parts g' (k * 16) = wholeDisk (?D k)"
        and k: "k < HalDiskMaxDisks" "dk_enabled (?D k) \<noteq> 0"
      have no: "0 < pageNo ?D k" "pageNo ?D k \<le> HalDiskMaxDisks" using pageNo_le [of ?D k] k(1) by (simp add: pageNo_def, simp)
      have "kernelPage ge (g_user g) (p (pageNo ?D k))" "apart (gPhys ge (p 0)) 4096 (gPhys ge (p (pageNo ?D k))) 4096"
        using assms(1) no by (simp_all add: pagesFrom_def)
      then show "diskStarted ge g' (?D k) k (F k)"
        using startFrame_trans [OF fr startFrame_trans [OF g4(1) fr']] g2 area g4(3) areas parts k
        by (simp add: diskStarted_def startFrame_def kernelPage_def openedDisk_def)
    qed (use fr g4(1) g2(2) in \<open>auto simp: startFrame_def\<close>)
    then show ?thesis
      using res table by (simp add: tail_def startFrame_refl)
  qed
  have "twp (gdGetDiskInfo he (gd_info g1 - gk_PAGE_OFFSET ge)) (\<lambda>_ g'. tableOK ge g' (us_disk (g_user g1)) \<and>
     (\<exists>u. g' = g1\<lparr>g_user := u\<rparr> \<and> memFits u = memFits (g_user g1) \<and>
       (\<forall>k < HalDiskMaxDisks. us_disk u k = openedDisk (us_disk (g_user g1) k) (F k)))) g1"
    using page(2) assms(3) u1 by (intro gdGetDiskInfo_twp) (simp_all add: g1_def kernelPage_def filesOpen_def)
  then have "twp (gdGetDiskInfo he (p 0 - gk_PAGE_OFFSET ge)) (\<lambda>_. twp (thn (diskAreas ge) tail) ?P) g1"
    unfolding g1s u1
  proof (rule twp_mono, elim conjE exE)
    fix x g2 u assume table: "tableOK ge g2 ?D" and g2: "g2 = g1\<lparr>g_user := u\<rparr>"
      and u: "memFits u = memFits (g_user g)" "\<forall>k < HalDiskMaxDisks. us_disk u k = openedDisk (?D k) (F k)"
    have k2: "pagesFrom ge (g_user g2) \<kappa> p" "g_kern g2 = \<kappa> 1" "gd_info g2 = p 0" "gd_queue g2 = gd_queue g" "g_user g2 = u"
      using pages u by (simp_all add: g2 g1_def)
    show "twp (thn (diskAreas ge) tail) ?P g2"
      unfolding twp_thn
    proof (rule twp_mono [OF diskAreas_twp [OF table k2(1-3)]], elim conjE)
      fix x g3 assume "startFrame g2 g3" "tableOK ge g3 ?D"
        "\<forall>k < HalDiskMaxDisks. dk_enabled (?D k) \<noteq> 0 \<longrightarrow> gd_rwArea g3 k = p (pageNo ?D k)"
      then show "twp tail ?P g3" by (rule fin) (use k2 u in simp_all)
    qed
  qed
  then show ?thesis
    using page assms(2) unfolding halDisk_init_def tail_def [unfolded start_def, symmetric] g1_def u1_def
    by (simp add: get_zeroed_page_def kernelPage_def)
qed

end
