(* ===== verification/Props_Guest.thy ===== *)
theory Props_Guest
  imports Guest_Con Guest_Net Guest_Start Props_Hal
begin

text \<open>
  The properties of the guest's drivers together with the devices of the user process: console, network and disk
  from the guest's kernel to the host and back.
\<close>

section \<open>A guest\<close>

text \<open>A kernel that hands out pages from its second one on and has one buffer for frames.\<close>

definition sample_ge :: "nat gkenv" where
  "sample_ge = \<lparr>gk_PAGE_OFFSET = 0xc0000000, gk_jiffies = of_nat,
     gk_get_zeroed_page = (\<lambda>k. (0xc0001000 + of_nat k * 0x1000, Suc k)), gk_kmalloc = (\<lambda>k. (True, k)),
     gk_dev_alloc_skb = (\<lambda>k n. (0xc0200000, k)), gk_request_irq = (\<lambda>k. (0, k)), gk_register_netdev = (\<lambda>k dev. (0, k)),
     gk_register_blkdev = (\<lambda>k major. (254, k)), gk_access_ok = (\<lambda>k a n. True), gk_capable = (\<lambda>k. True),
     gk_copy_to_user = (\<lambda>k a bs. (False, k)), gk_blk_ioctl = (\<lambda>k dev c a. (0, k)),
     gk_grok_partitions = (\<lambda>k unit n. ((\<lambda>_. zero_hd_struct, \<lambda>_. 0), k))\<rparr>"

definition sample_netdev :: net_device where
  "sample_netdev = \<lparr>nv_up = True, nv_base_addr = 0, nv_irq = 3, nv_mtu = 1500, nv_trans_start = 0, nv_running = True,
     nv_priv = Some zero_priv\<rparr>"

definition sample_guest :: "'o user_t \<Rightarrow> ('o, nat) guest_t" where
  "sample_guest u = \<lparr>g_user = u, g_kern = 0, g_log = [], gc_rwArea = 0, gn_dev = (\<lambda>_. sample_netdev), gn_rxArea = 0xc0002000,
     gd_info = 0xc0004000, gd_rwArea = (\<lambda>_. 0xc0003000), gd_usage = (\<lambda>_. 0),
     gd_parts = (\<lambda>_. \<lparr>hd_start_sect = 0, hd_nr_sects = 4\<rparr>), gd_sizes = (\<lambda>_. 2), gd_major = 254, gd_rahead = 2, gd_irq = 0,
     gd_read_ahead = 2, gd_busy = False, gd_queue = [], gd_done = []\<rparr>"

lemma sample_ge_simps [simp]:
  "gk_PAGE_OFFSET sample_ge = 0xc0000000" "gk_get_zeroed_page sample_ge k = (0xc0001000 + of_nat k * 0x1000, Suc k)"
  "gk_dev_alloc_skb sample_ge k n = (0xc0200000, k)"
  by (simp_all add: sample_ge_def)

lemma sample_guest_simps [simp]:
  "g_user (sample_guest u) = u" "g_kern (sample_guest u) = 0" "gn_rxArea (sample_guest u) = 0xc0002000"
  "gn_dev (sample_guest u) k = sample_netdev" "gd_info (sample_guest u) = 0xc0004000" "gd_rwArea (sample_guest u) k = 0xc0003000"
  "gd_parts (sample_guest u) k = \<lparr>hd_start_sect = 0, hd_nr_sects = 4\<rparr>" "gd_queue (sample_guest u) = []" "gd_done (sample_guest u) = []"
  "g_log (sample_guest u) = []" "\<not> gd_busy (sample_guest u)"
  by (simp_all add: sample_guest_def)

section \<open>Console\<close>

text \<open>C25: Once the console driver is loaded, each line that the guest's kernel writes reaches the console of the user process
  character by character and in order, followed by a new line, however long it is; lines of at most 80 characters are
  printed as they are. The driver registers a page of its own, and both sides agree on it from then on.\<close>

theorem guest_console_prints:
  assumes "gk_get_zeroed_page ge (g_kern g) = (page, k)" "kernelPage ge (g_user g) page" "conOK (g_user g)"
    "cd_registered (us_conDev (g_user g) 0) = 0"
    and bs: "bs = concat (map (\<lambda>s. map ucast s @ [newline]) lines)"
  shows "twp (bnd (halcon_mod_init ge he) (\<lambda>r. if r = 0 then forM lines (halcon_putcs ge he) else halt ''console'')) (\<lambda>_ g'.
     conReady ge g' \<and> conView (g_user g') = foldl conAdd (conView (g_user g)) bs \<and>
     (shortLines (unat (us_conLineI (g_user g))) bs \<and> unat (us_conLineI (g_user g)) < LineLen \<longrightarrow>
        conText (conView (g_user g')) = conText (conView (g_user g)) @ map conShown bs)) g"
proof -
  have "twp (forM lines (halcon_putcs ge he)) (\<lambda>_ g'. conReady ge g' \<and> conView (g_user g') = foldl conAdd (conView (g_user g)) bs \<and>
     (shortLines (unat (us_conLineI (g_user g))) bs \<and> unat (us_conLineI (g_user g)) < LineLen \<longrightarrow>
        conText (conView (g_user g')) = conText (conView (g_user g)) @ map conShown bs)) g1"
    if "conReady ge g1" "conView (g_user g1) = conView (g_user g)" for g1
    by (rule twp_mono [OF halcon_lines_twp [OF that(1)]])
      (use that console_lines [of "conView (g_user g)" bs] assms(3) in \<open>auto simp: bs length_conView\<close>)
  then show ?thesis
    unfolding twp_bnd by (intro twp_mono [OF halcon_mod_init_twp [OF assms(1-4)]]) simp
qed

definition con_guest :: "(nat \<times> Bit8u list, nat) guest_t" where
  "con_guest = sample_guest ((sample_user (0, []))\<lparr>us_conDev := (\<lambda>_. \<lparr>cd_registered = 0, cd_guestRwAreaPAddr = 0, cd_guestRwAreaLen = 0, cd_guestRwArea = None\<rparr>)\<rparr>)"

theorem guest_console_prints_witness:
  "twp (bnd (halcon_mod_init sample_ge sample_fs) (\<lambda>r. if r = 0 then forM [[0x0748, 0x0769], [0x0721]] (halcon_putcs sample_ge sample_fs)
      else halt ''console'')) (\<lambda>_ g'. conText (conView (g_user g')) = [0x48, 0x69, 0x0a, 0x21, 0x0a]) con_guest"
proof -
  have "conOK (g_user con_guest)" "kernelPage sample_ge (g_user con_guest) 0xc0001000"
    "gk_get_zeroed_page sample_ge (g_kern con_guest) = (0xc0001000, 1)" "cd_registered (us_conDev (g_user con_guest) 0) = 0"
    "conText (conView (g_user con_guest)) = []" "us_conLineI (g_user con_guest) = 0"
    by (simp_all add: con_guest_def conOK_def kernelPage_def gPhys_def memFits_def conText_def conView_def)
  then show ?thesis
    by (intro twp_mono [OF guest_console_prints]) (auto simp: LineLen_def conShown_def isgraph_def)
qed

section \<open>Network\<close>

text \<open>C26: A frame from the network, of which the process reads at most a whole one, reaches the guest's kernel as it is, in the
  buffer that the driver hands over, and the receive area is free for the next one. While the area holds a frame
  that the driver has not taken, the process reads nothing, so that none is lost there.\<close>

theorem guest_frame_delivered:
  assumes "netReady ge g" "nv_priv (gn_dev g 0) = Some p" "readFits he"
    "os_read he (us_os (g_user g)) (us_fdTunTap (g_user g)) MaxEthernetFrameSize = ((r, err, bs), s')" "0 < r"
    "n = max 60 (length bs)" "gk_dev_alloc_skb ge (g_kern g) (of_nat n + 2) = (skb, k)" "skbFits ge g skb n"
  shows "if rxFull (g_user g) (gPhys ge (gn_rxArea g)) = 0
    then twp (thn (onUser (halNetReadPacketToGuest he 0)) (snull_interrupt ge (Some 0))) (\<lambda>_ g'. netReady ge g' \<and>
       rxFull (g_user g') (gPhys ge (gn_rxArea g')) = 0 \<and> g_log g' = g_log g @ [Netif_rx 0 (skb + 2) (of_nat n)] \<and>
       peekBytes (us_mem (g_user g')) (gPhys ge (skb + 2)) (length bs) = bs \<and>
       nv_priv (gn_dev g' 0) = Some (countRx (of_nat n) p)) g
    else twp (onUser (halNetReadPacketToGuest he 0)) (\<lambda>_ g'. g' = g) g"
proof (cases "rxFull (g_user g) (gPhys ge (gn_rxArea g)) = 0")
  case True
  then show ?thesis using frame_delivered [OF assms(1,2) True assms(3-8)] by simp
next
  case False
  have "netArea (g_user g) 0 (gPhys ge (gn_rxArea g))" using assms(1) by (simp add: netReady_def)
  then have "halNetReadPacketToGuest he 0 (g_user g) = Ret () (g_user g)" using False by (rule receive_full)
  then have "twp (halNetReadPacketToGuest he 0) (\<lambda>_ u. u = g_user g) (g_user g)" by (simp add: twp_def)
  then show ?thesis using False by (auto elim!: twp_mono)
qed

lemma sample_netReady: "netReady sample_ge (sample_guest (sample_user s))"
  using sample_netArea by (simp add: netReady_def kernelPage_def gPhys_def sample_fits sample_netdev_def)

theorem guest_frame_delivered_witness:
  "twp (thn (onUser (halNetReadPacketToGuest sample_tap 0)) (snull_interrupt sample_ge (Some 0))) (\<lambda>_ g'.
     g_log g' = [Netif_rx 0 0xc0200002 64] \<and> peekBytes (us_mem (g_user g')) 0x200002 64 = replicate 64 1) (sample_guest (sample_user 2))"
proof -
  have read: "os_read sample_tap (us_os (sample_user 2)) (us_fdTunTap (sample_user (2 :: nat))) MaxEthernetFrameSize =
      ((64, 0, replicate 64 1), 1)"
    by (simp add: sample_tap_def)
  have full: "rxFull (sample_user (2 :: nat)) (gPhys sample_ge 0xc0002000) = 0"
    by (simp add: rxFull_def peekBytes_def le_word_def upt_rec)
  have "skbFits sample_ge (sample_guest (sample_user (2 :: nat))) 0xc0200000 64"
    by (simp add: skbFits_def gPhys_def sample_fits)
  then show ?thesis
    using guest_frame_delivered [OF sample_netReady [of "2 :: nat"] _ sample_reads(2), where p = zero_priv and r = 64 and bs = "replicate 64 1"
        and n = 64 and skb = "0xc0200000" and k = 0] read full
    by (auto simp: sample_netdev_def gPhys_def elim!: twp_mono)
qed

text \<open>C31: A packet of the guest's kernel goes to the network as it lies in the guest's memory and its buffer is freed. One of less
  than 60 bytes is not padded: the frame goes on with whatever lies behind the packet in the memory of the guest's
  kernel, which thus leaves the machine.\<close>

theorem guest_frame_sent:
  assumes "nv_priv (gn_dev g 0) = Some p" "nd_registered (us_netDev (g_user g) 0) \<noteq> 0" "us_memLive (g_user g)"
    "a = gPhys ge (sk_data skb)" "len = unat (sk_len skb)" "max 60 len \<le> MaxEthernetFrameSize" "a + max 60 len < unat (us_memSize (g_user g))"
    "packet = peekBytes (us_mem (g_user g)) a len" "behind = peekBytes (us_mem (g_user g)) (a + len) (60 - len)"
    "os_write he (us_os (g_user g)) (us_fdTunTap (g_user g)) (packet @ behind) = (int (max 60 len), s')"
  shows "twp (snull_tx ge he skb 0) (\<lambda>r g'. r = 0 \<and> us_os (g_user g') = s' \<and> us_mem (g_user g') = us_mem (g_user g) \<and>
     g_log g' = g_log g @ [Free_skb (sk_data skb)] \<and> nv_priv (gn_dev g' 0) = Some (countTx skb (of_nat (max 60 len)) p)) g"
proof -
  have split: "peekBytes m b (i + j) = peekBytes m b i @ peekBytes m (b + i) j" for m b i j
    by (rule nth_equalityI) (auto simp: peekBytes_def nth_append not_less)
  have "max 60 len = len + (60 - len)" by simp
  then have "peekBytes (us_mem (g_user g)) a (max 60 len) = packet @ behind"
    unfolding assms(8,9) by (metis split)
  then show ?thesis using assms(1-7,10) by (intro frame_sent) simp_all
qed

text \<open>An operating system that keeps what is written to the network.\<close>

definition sample_wire :: "Bit8u list list halenv" where
  "sample_wire = \<lparr>os_open = (\<lambda>s path. (3, s)), os_close = (\<lambda>s fd. (0, s)), os_lseek = (\<lambda>s fd off. (- 1, s)),
     os_read = (\<lambda>s fd n. ((- 1, EAGAIN, []), s)), os_write = (\<lambda>s fd bs. (int (length bs), s @ [bs])),
     os_fstat = (\<lambda>s fd. ((- 1, 0), s)), os_ioctl = (\<lambda>s fd req. (0, s)),
     os_execute = (\<lambda>s fd cpu mem. ((0, 0, 0, cpu, mem), s)), os_script = (\<lambda>s path. ((True, True, 0), s))\<rparr>"

definition short_skb :: sk_buff where
  "short_skb = \<lparr>sk_data = 0xc0100000, sk_len = 42\<rparr>"

theorem guest_frame_sent_witness:
  "twp (snull_tx sample_ge sample_wire short_skb 0) (\<lambda>r g'. us_os (g_user g') = [replicate 42 7 @ replicate 18 9])
     (sample_guest ((sample_user [])\<lparr>us_mem := (\<lambda>i. if i < 0x10002a then 7 else 9)\<rparr>))"
proof -
  have sk: "gPhys sample_ge (sk_data short_skb) = 0x100000" "unat (sk_len short_skb) = 42"
    by (simp_all add: gPhys_def short_skb_def)
  have bytes: "peekBytes (\<lambda>i. if i < 0x10002a then 7 else 9) 0x100000 42 = replicate 42 7"
    "peekBytes (\<lambda>i. if i < 0x10002a then 7 else 9) 0x10002a 18 = replicate 18 9"
    by (auto simp: peekBytes_def intro!: nth_equalityI)
  show ?thesis
    by (rule twp_mono [OF guest_frame_sent [where p = zero_priv and a = "0x100000" and len = 42 and packet = "replicate 42 7" and
          behind = "replicate 18 9" and s' = "[replicate 42 7 @ replicate 18 9]"]])
      (use sk bytes in \<open>simp_all add: sample_netdev_def sample_wire_def\<close>)
qed

text \<open>When the module is unloaded the process keeps the address of the page that has been freed, and a frame that comes
  later is written there.\<close>

lemma net_unload_dangles:
  assumes "netReady ge g" "rxFull (g_user g) (gPhys ge (gn_rxArea g)) = 0" "readFits he"
    "os_read he (us_os (g_user g)) (us_fdTunTap (g_user g)) MaxEthernetFrameSize = ((r, err, bs), s')" "0 < r"
  shows "twp (thn snull_cleanup (onUser (halNetReadPacketToGuest he 0))) (\<lambda>_ g'. Free_page (gn_rxArea g) \<in> set (g_log g') \<and>
     peekBytes (us_mem (g_user g')) (gPhys ge (gn_rxArea g) + rx_rxBuffer) (length bs) = bs) g"
  by (rule twp_mono [OF cleanup_dangles [OF assms]]) simp

section \<open>Disk\<close>

text \<open>C24: A disk of the guest is an array of sectors: a queue of requests of the block layer, served by the driver through the
  user process and its image file, has the effect that the requests have on an array of sectors and the memory of
  the guest, whatever their number and order; each is ended once, in order, and reported as failed exactly
  when it reaches past its partition or is neither a read nor a write. The loop always ends.\<close>

theorem guest_disk_refines:
  assumes "servable ge he pos data unit g" "diskRel ge data unit g (S, M)"
  shows "twp (halDisk_request ge he) (\<lambda>_ g'. gd_queue g' = [] \<and> gd_rwArea g' = gd_rwArea g \<and> servable ge he pos data unit g' \<and>
     gd_done g' = gd_done g @ map (\<lambda>r. (r, \<not> reqRefused g r)) (gd_queue g) \<and>
     diskRel ge data unit g' (fold (specReq ge g) (gd_queue g) (S, M))) g"
  by (rule requests_refine [OF assms])

definition disk_request :: "rqCmd \<Rightarrow> Bit32u \<Rightarrow> Bit32u \<Rightarrow> request_t" where
  "disk_request cmd sector buf = \<lparr>rq_dev = 0x10, rq_cmd = cmd, rq_sector = sector, rq_current_nr_sectors = 1, rq_buffer = buf\<rparr>"

definition disk_guest :: "(nat \<times> Bit8u list, nat) guest_t" where
  "disk_guest = (sample_guest ((sample_user (0, replicate 2048 0))\<lparr>us_mem := putBytes 0x4014 (word_bytes 1) (\<lambda>i. of_nat i)\<rparr>))
     \<lparr>gd_queue := [disk_request RqWrite 2 0xc0010000, disk_request RqRead 4 0xc0030000, disk_request RqRead 2 0xc0020000]\<rparr>"

lemma disk_guest_servable: "servable sample_ge sample_fs fst snd 1 disk_guest"
proof -
  have "unitEnabled sample_ge disk_guest 1"
    by (simp add: unitEnabled_def disk_guest_def gPhys_def peek_putBytes)
  then show ?thesis
    using sample_file
    by (auto simp: servable_def diskReady_def disk_guest_def kernelPage_def gPhys_def memFits_def apart_def reqOK_def DEVICE_NR_def
        disk_request_def reqRefused_def reqFits_def bufferOK_def reqSector_def)
qed

theorem guest_disk_refines_witness:
  "twp (halDisk_request sample_ge sample_fs) (\<lambda>_ g'. gd_queue g' = [] \<and> map snd (gd_done g') = [True, False, True] \<and>
     peekBytes (us_mem (g_user g')) 0x20000 512 = peekBytes (\<lambda>i. of_nat i) 0x10000 512) disk_guest"
proof -
  let ?M = "us_mem (g_user disk_guest)" and ?S = "diskSector (replicate 2048 0)"
  let ?w = "disk_request RqWrite 2 0xc0010000" and ?e = "disk_request RqRead 4 0xc0030000" and ?r = "disk_request RqRead 2 0xc0020000"
  have rel: "diskRel sample_ge snd 1 disk_guest (?S, ?M)" by (simp add: diskRel_def disk_guest_def)
  have queue: "gd_queue disk_guest = [?w, ?e, ?r]" "gd_done disk_guest = []" by (simp_all add: disk_guest_def)
  have refused: "\<not> reqRefused disk_guest ?w" "reqRefused disk_guest ?e" "\<not> reqRefused disk_guest ?r"
    by (simp_all add: reqRefused_def disk_guest_def disk_request_def)
  have vals: "reqSector disk_guest ?w = 2" "reqSector disk_guest ?r = 2" "unat (rq_current_nr_sectors ?w) = 1"
    "unat (rq_current_nr_sectors ?r) = 1" "rq_cmd ?w = RqWrite" "rq_cmd ?r = RqRead"
    "gPhys sample_ge (rq_buffer ?w) = 0x10000" "gPhys sample_ge (rq_buffer ?r) = 0x20000"
    by (simp_all add: disk_request_def reqSector_def disk_guest_def gPhys_def)
  have spec: "fold (specReq sample_ge disk_guest) [?w, ?e, ?r] (?S, ?M) =
      (specWrite ?M 2 1 0x10000 ?S, specRead (specWrite ?M 2 1 0x10000 ?S) 2 1 0x20000 ?M)"
    using refused vals by (simp add: specReq_def Let_def)
  have M: "peekBytes ?M 0x10000 512 = peekBytes (\<lambda>i. of_nat i) 0x10000 512"
    by (simp add: disk_guest_def peek_putBytes)
  have read: "peekBytes (specRead (specWrite ?M 2 1 0x10000 ?S) 2 1 0x20000 ?M) 0x20000 512 = peekBytes ?M 0x10000 512"
    by (rule nth_equalityI) (auto simp: peekBytes_def specRead_def specWrite_def)
  have area: "gPhys sample_ge (gd_rwArea disk_guest 1) = 0x3000" by (simp add: gPhys_def disk_guest_def)
  have fin: "peekBytes (us_mem (g_user g')) 0x20000 512 = peekBytes (\<lambda>i. of_nat i) 0x10000 512"
    if rw: "gd_rwArea g' = gd_rwArea disk_guest"
      and dr: "diskRel sample_ge snd 1 g' (specWrite ?M 2 1 0x10000 ?S, specRead (specWrite ?M 2 1 0x10000 ?S) 2 1 0x20000 ?M)" for g'
  proof -
    have "us_mem (g_user g') (0x20000 + i) = specRead (specWrite ?M 2 1 0x10000 ?S) 2 1 0x20000 ?M (0x20000 + i)" if "i < 512" for i
      using dr rw area that by (simp add: diskRel_def apart_def)
    then show ?thesis using read M by (metis peek_outside)
  qed
  show ?thesis
    by (rule twp_mono [OF guest_disk_refines [OF disk_guest_servable rel]], unfold queue spec)
      (use fin refused in \<open>auto simp del: One_nat_def\<close>)
qed

text \<open>C37: With the timer, which stands for an interrupt of the disk, a failed request is reported to the guest's kernel as done:
  one past the end of its partition fails without the timer, and with it ends as if it had been transferred, though neither
  the disk nor the buffer has changed.\<close>

theorem irq_hides_errors:
  assumes "servable ge he pos data unit g" "gd_queue g = [r]" "reqRefused g r" "\<not> gd_busy g"
  shows "twp (halDisk_request ge he) (\<lambda>_ g'. gd_done g' = gd_done g @ [(r, False)]) g \<and>
    twp (thn (halDisk_irqdriven_request ge he) (halDisk_interrupt ge he)) (\<lambda>_ g'. gd_queue g' = [] \<and>
      gd_done g' = gd_done g @ [(r, True)] \<and> g_user g' = g_user g) g"
proof
  have "diskRel ge data unit g (diskSector (data (us_os (g_user g))), us_mem (g_user g))" by (simp add: diskRel_def)
  from requests_refine [OF assms(1) this] show "twp (halDisk_request ge he) (\<lambda>_ g'. gd_done g' = gd_done g @ [(r, False)]) g"
    by (rule twp_mono) (use assms(2,3) in simp)
  show "twp (thn (halDisk_irqdriven_request ge he) (halDisk_interrupt ge he)) (\<lambda>_ g'. gd_queue g' = [] \<and>
      gd_done g' = gd_done g @ [(r, True)] \<and> g_user g' = g_user g) g"
    using assms by (intro irq_reports_success) (auto simp: servable_def reqOK_def diskReady_def)
qed

definition irq_guest :: "(nat \<times> Bit8u list, nat) guest_t" where
  "irq_guest = disk_guest\<lparr>gd_queue := [disk_request RqRead 4 0xc0030000]\<rparr>"

theorem irq_hides_errors_witness:
  "twp (thn (halDisk_irqdriven_request sample_ge sample_fs) (halDisk_interrupt sample_ge sample_fs)) (\<lambda>_ g'.
     map snd (gd_done g') = [True] \<and> us_mem (g_user g') = us_mem (g_user disk_guest)) irq_guest"
proof -
  have sv: "servable sample_ge sample_fs fst snd 1 irq_guest" and queue: "gd_queue irq_guest = [disk_request RqRead 4 0xc0030000]"
    using disk_guest_servable
    by (auto simp: servable_def irq_guest_def diskReady_def unitEnabled_def reqOK_def reqRefused_def disk_guest_def reqFits_def
        bufferOK_def reqSector_def disk_request_def)
  have "reqRefused irq_guest (disk_request RqRead 4 0xc0030000)" "\<not> gd_busy irq_guest" "gd_done irq_guest = []"
    "g_user irq_guest = g_user disk_guest"
    by (simp_all add: reqRefused_def irq_guest_def disk_guest_def disk_request_def)
  then show ?thesis
    by (intro twp_mono [OF conjunct2 [OF irq_hides_errors [OF sv queue]]]) simp_all
qed

text \<open>C32: Loading the driver succeeds and leaves each disk that the user process has ready to be served: the process has opened
  its file and entered it in the table, the driver has a page for it apart from the table and the whole disk as its
  first partition. All that is needed is that the kernel has the pages and the files can be opened.\<close>

theorem guest_disk_starts:
  assumes "pagesFrom ge (g_user g) \<kappa> p" "g_kern g = \<kappa> 0" "filesOpen he (g_user g) F" "\<And>k. 0 \<le> fst (gk_register_blkdev ge k major)"
    "unit < HalDiskMaxDisks" "dk_enabled (us_disk (g_user g) unit) \<noteq> 0" "regularFile he (F unit) pos data" "gd_queue g = []"
  shows "twp (halDisk_init ge he major rahead irq) (\<lambda>r g'. r = 0 \<and> servable ge he pos data unit g' \<and>
     gd_parts g' (unit * 16) = \<lparr>hd_start_sect = 0, hd_nr_sects = dk_numSectors (us_disk (g_user g) unit)\<rparr>) g"
  by (rule twp_mono [OF halDisk_init_twp [OF assms(1-4)]])
    (use assms(5-8) in \<open>auto simp: diskStarted_def wholeDisk_def numSectorsOf_def intro!: diskStarted_serves\<close>)

lemma sample_pages_from: "pagesFrom sample_ge (sample_user s) (\<lambda>k. k) (\<lambda>k. 0xc0001000 + of_nat k * 0x1000)"
proof -
  have at: "gPhys sample_ge (0xc0001000 + of_nat k * 0x1000) = 0x1000 + k * 0x1000" if "k \<le> 4" for k
  proof -
    have "gPhys sample_ge (0xc0001000 + of_nat (k * 0x1000)) = gPhys sample_ge 0xc0001000 + k * 0x1000"
      using that by (intro gPhys_add) (simp add: gPhys_def)
    then show ?thesis by (simp add: gPhys_def)
  qed
  have "(0xc0001000 :: Bit32u) + of_nat k * 0x1000 \<noteq> 0" if "k \<le> 4" for k
  proof -
    have "k \<in> {0, 1, 2, 3, 4}" using that by auto
    then show ?thesis by auto
  qed
  then show ?thesis
    by (auto simp: pagesFrom_def kernelPage_def at sample_fits apart_def)
qed

theorem guest_disk_starts_witness:
  "twp (halDisk_init sample_ge sample_fs 0 2 0) (\<lambda>r g'. r = 0 \<and> servable sample_ge sample_fs fst snd 2 g' \<and>
     hd_nr_sects (gd_parts g' 32) = 4) (sample_guest (sample_user (0, replicate 2048 0)))"
proof -
  have open3: "filesOpen sample_fs (sample_user s) (\<lambda>_. 3)" for s
    by (simp add: filesOpen_def sample_fs_def)
  have "dk_enabled (us_disk (sample_user s) 2) \<noteq> 0" "dk_numSectors (us_disk (sample_user s) 2) = 4" for s :: "nat \<times> Bit8u list"
    by (simp_all add: sample_user_def)
  then show ?thesis
    using sample_pages_from open3 sample_file
    by (intro twp_mono [OF guest_disk_starts [where unit = 2 and F = "\<lambda>_. 3" and pos = fst and data = snd and \<kappa> = "\<lambda>k. k"]])
      (auto simp: sample_ge_def)
qed

end
