(* ===== verification/Spec2Isabelle.thy ===== *)
theory Spec2Isabelle
  imports Props_Devices Props_Emulation Props_Host Props_Hal Props_Boot Props_Guest
begin

text \<open>
  A model of plex86, a virtual machine monitor that runs a Linux guest at ring 3 of the host processor, and
  the theorems about it.

  \<^bold>\<open>The program and its parts.\<close> A user process (\<^verbatim>\<open>host-user/linuxvm.c\<close>) opens a device of the host
  kernel module (\<^verbatim>\<open>host-kernel/linux/linux2.4.c\<close>), registers the memory it has allocated for the guest and then
  asks the module to execute the guest. The module (\<^verbatim>\<open>vmm/host-space/monitor.c\<close>) allocates and maps a monitor, a
  small program with page tables, IDT and GDT of its own, and switches to it. In the monitor's address space
  (\<^verbatim>\<open>vmm/monitor-space\<close>) the guest, first its boot loader (\<^verbatim>\<open>guest-kernel/linux/setup32.c\<close>), then its kernel, runs under shadow page tables (\<^verbatim>\<open>paging.c\<close>); faults of the guest enter
  \<^verbatim>\<open>fault.c\<close>, which maps pages on demand or emulates the instruction (\<^verbatim>\<open>x86-emu.c\<close>) against a few virtual
  devices (\<^verbatim>\<open>io.c\<close>). What the monitor cannot do itself (pinning a page of the process in memory, printing,
  leaving to the process) it requests from the host by switching back.

  \<^bold>\<open>The state.\<close> \<^verbatim>\<open>Vm_State\<close> declares \<^typ>\<open>vm_t\<close>, the structure \<^verbatim>\<open>vm_t\<close> of \<^verbatim>\<open>include/monitor.h\<close> with its
  members under their names (prefixed by \<open>vm_\<close>, those of inner structures by a prefix of their own). Arrays are
  functions of the index, and each access checks the index first (\<open>inBounds\<close>). To it are added the guest's
  physical memory, the registers of the processor that the code loads (\<open>vm_hw\<close>) and a log of the effects on
  the host kernel (\<open>vm_os\<close>). An operation is a function from a state to an \<open>outcome\<close> (\<^verbatim>\<open>Plex86_Prelude\<close>):
  \<open>Ret\<close> a value and a state, \<open>Panic\<close> for a panic of the monitor or an exit, \<open>Undef\<close> where C leaves the behaviour undefined (an index
  out of bounds, a division by zero, a null pointer), \<open>Hang\<close> for a loop that does not end. \<open>wp\<close> is partial:
  it excludes \<open>Undef\<close> and says nothing of the other two; \<open>twp\<close> is total, a value is returned. \<open>pres\<close> and
  \<open>keeps\<close> are the two forms of frame: an invariant is kept, a projection of the state is unchanged.

  \<^bold>\<open>Theories and code.\<close>
  \<^item> \<^verbatim>\<open>X86_Types\<close>: descriptors, gates, selectors, page entries, EFLAGS (\<^verbatim>\<open>include/descriptor.h\<close>, \<^verbatim>\<open>descriptor2.h\<close>,
    \<^verbatim>\<open>eflags.h\<close>, \<^verbatim>\<open>paging.h\<close>). \<^verbatim>\<open>Vm_State\<close>: \<^verbatim>\<open>plex86.h\<close>, \<^verbatim>\<open>monitor.h\<close>, \<^verbatim>\<open>io.h\<close>, \<^verbatim>\<open>tss.h\<close>, \<^verbatim>\<open>guest_stack_context.h\<close>.
  \<^item> \<^verbatim>\<open>Nexus_Util\<close>: \<^verbatim>\<open>nexus-space/util-nexus.c\<close>, with the formatter of messages. \<^verbatim>\<open>Pin_Queue\<close>: the queue of
    pinned pages. \<^verbatim>\<open>Mon_Host\<close>: requests to the host, print and panic.
  \<^item> \<^verbatim>\<open>Io_Pic\<close>, \<^verbatim>\<open>Io_Pit\<close>, \<^verbatim>\<open>Io_Misc\<close>: \<^verbatim>\<open>io.c\<close>. \<^verbatim>\<open>Mon_Paging\<close>: \<^verbatim>\<open>paging.c\<close>.
  \<^item> \<^verbatim>\<open>Guest_Mem\<close>, \<^verbatim>\<open>Emu_Seg\<close>, \<^verbatim>\<open>Emu_Int\<close>, \<^verbatim>\<open>Emu_Instr\<close>: \<^verbatim>\<open>x86-emu.c\<close>, from the walk of the guest's page tables
    over segments and interrupts to the dispatch of instructions; \<^verbatim>\<open>Emu_Correct\<close> is what they compute.
    \<^verbatim>\<open>Mon_Fault\<close>: \<^verbatim>\<open>fault.c\<close>, the step relation \<open>mon_step\<close> of a running machine, and \<open>shadowXlate\<close>, the
    processor's lookup in the shadow tables.
  \<^item> \<^verbatim>\<open>Host_Alloc\<close>, \<^verbatim>\<open>Host_Init\<close>, \<^verbatim>\<open>Host_Exec\<close>: memory, set-up and ioctls of a machine (\<^verbatim>\<open>host-space/monitor.c\<close>,
    \<^verbatim>\<open>linux2.4.c\<close>); \<^verbatim>\<open>Host_Life\<close>: every sequence of them (\<open>plex_reach\<close>); \<^verbatim>\<open>Host_Start\<close>: the sequence that
    starts a guest. \<^verbatim>\<open>Host_Module\<close>: loading of the module and its status file.
  \<^item> \<^verbatim>\<open>Hal_State\<close>: the state \<open>user_t\<close> of the user process, the static variables of the files of \<^verbatim>\<open>host-user\<close>, and
    its tear-down. \<^verbatim>\<open>Hal_Console\<close>, \<^verbatim>\<open>Hal_Disk\<close>, \<^verbatim>\<open>Hal_Net\<close>: the devices it offers to the guest (\<^verbatim>\<open>halconsole.c\<close>,
    \<^verbatim>\<open>haldisk.c\<close>, \<^verbatim>\<open>halnet.c\<close>). \<^verbatim>\<open>Linux_Vm\<close>: \<^verbatim>\<open>linuxvm.c\<close> and \<^verbatim>\<open>hal-user.c\<close>, from the command line to the loop
    that executes the guest. \<^verbatim>\<open>Hal_Correct\<close>: what holds of the process as a whole.
  \<^item> \<^verbatim>\<open>Boot_Vga\<close>, \<^verbatim>\<open>Boot_Loader\<close>: \<^verbatim>\<open>guest-kernel/linux/setup32.c\<close>, on a state of its own, \<open>boot_t\<close>, the physical memory of the
    guest and the accesses to ports. \<^verbatim>\<open>Boot_Correct\<close>: the functions on strings that it computes.
  \<^item> \<^verbatim>\<open>Guest_Drv\<close>: the state \<open>guest_t\<close> of the guest's drivers, modules of its own Linux kernel, the calls of that kernel and
    \<open>halInt\<close>, the \<^verbatim>\<open>int $0xff\<close> that ends in \<open>halCall\<close> of the user process. \<open>guest_t\<close> contains the state of the
    process, so that driver and device run on one memory. \<^verbatim>\<open>Guest_Con\<close>, \<^verbatim>\<open>Guest_Net\<close>, \<^verbatim>\<open>Guest_Disk\<close>: \<^verbatim>\<open>halconsole.c\<close>,
    \<^verbatim>\<open>halnet.c\<close> and \<^verbatim>\<open>haldisk.c\<close> of \<^verbatim>\<open>guest-kernel/linux\<close>, whose calls have the same names as the files of
    \<^verbatim>\<open>host-user\<close> that answer them. \<^verbatim>\<open>Guest_Sectors\<close>: the disk driver as an array of sectors;
    \<^verbatim>\<open>Guest_Start\<close>: its loading.
  \<^item> \<^verbatim>\<open>Sample_Vm\<close>, \<^verbatim>\<open>Sample_Host\<close>: concrete machines for the witnesses. \<^verbatim>\<open>Props_Devices\<close>, \<^verbatim>\<open>Props_Emulation\<close>,
    \<^verbatim>\<open>Props_Host\<close>, \<^verbatim>\<open>Props_Hal\<close>, \<^verbatim>\<open>Props_Boot\<close>, \<^verbatim>\<open>Props_Guest\<close> and this theory: the properties.

  \<^bold>\<open>Interfaces.\<close> What each layer needs of an invariant to keep it is a locale: \<open>print_frame\<close> (printing and
  requests), \<open>dev_frame\<close> (devices), \<open>mem_frame\<close> (memory accesses), \<open>seg_frame\<close> and \<open>emu_frame\<close> (segments and the
  whole emulator), each extending the previous; the client's lemmas are proved once and interpreted for the
  isolation of the shadow tables, the monitor's invariant and the auxiliary invariants of an interrupt. The
  locale of bounded queues is what the pin code relies on, \<open>irq_controller\<close> what a kernel relies on in an
  interrupt controller; their interpretations are the code's own models.

  \<^bold>\<open>What is shown.\<close> Confinement: from opening the device, through every sequence of ioctls and every run of the
  guest, ring 3 code only reaches pages of the guest's own memory that are pinned, and read-only ones only for reading;
  the monitor's entries never index out of bounds. Life cycle: a registration the kernel can serve succeeds
  and the machine starts; one it cannot serve, and the release of the file, give back all memory; a refused guest state changes
  next to nothing. Emulation: interrupts, IRET, segment loads, CR3, INVLPG, the page walk and object reads refine
  what the architecture says. Devices: the interrupt controller serves every request once and in order, the
  timer refines a countdown, HLT ends when the timer runs. User process: the guest's calls stay inside its memory, the
  console and the disks implement a text and an array of sectors, frames are neither lost in the buffer nor overwritten,
  and the first state of the guest is one that the kernel module accepts. Boot loader: for every command line it ends, in the
  kernel with the setup page that the options ask for or in a stop, and it reads back what the user process has written.
  Drivers of the guest, each with the device behind it: lines of the guest's kernel are printed, frames reach it unchanged and
  leave it, and a queue of disk requests acts on an array of sectors. Where the code falls short the property says so
  on the model: the overrun of the nexus page table, the crash after a failed pin, the gate installed as
  a segment, the use of freed memory after a failed disk call, the guest without a RAM disk that never boots, the memory
  size cut to 16 bits, the memory of the guest's kernel that goes out behind a short packet, the disk requests that fail
  unnoticed; further ones are lemmas beside the properties.

  \<^bold>\<open>Bounds and recursion.\<close> Words have the width of the C types and wrap. Loops over arrays are \<open>forM\<close> over the index list.
  \<open>findIrq\<close> and the loops of the boot loader over its command line have a measure, for these the memory left above the pointer, and an
  access above all memory is undefined. The loops that need not end are each a \<open>partial_function\<close> whose not returning is \<open>Hang\<close>: \<open>hltLoop\<close>
  waits for the timer, \<open>drainLoop\<close> for an empty device, \<open>loadLoop\<close> for the end of a file, and \<open>executeLoop\<close> runs as
  long as the guest; that the first three end is stated and proved under what each waits for. \<open>requestLoop\<close> and \<open>irqLoop\<close> end with the
  queue of requests, each turn of the former taking one from it. The print of a number takes as many digits as
  the width needs (32 binary places bound it). No other fuel is used.

  \<^bold>\<open>Parameters.\<close> \<open>henv\<close> holds the processor's time stamp, the host's flags, uninitialised bytes, the host kernel's answer to a
  pin and the user process's answers; \<open>kenv\<close> the allocators, page tables and copy functions of the host kernel and
  the text of \<^verbatim>\<open>nexus.S\<close>; \<open>modenv\<close> its registration calls; \<open>halenv\<close> the files and devices of the user process; \<open>gkenv\<close> the
  answers of the guest's kernel to its drivers (pages, buffers, registrations, partition tables), \<open>kernCall\<close> the calls that answer nothing.
  Laws assumed of them are premises of the theorems: \<open>pageAligned\<close> (the allocators return page addresses, or pages in use
  once), \<open>kernelGrants\<close> (they succeed), \<open>tablesDistinct\<close> (frames in use are distinct); for the user process \<open>readFits\<close> (a read
  stores no more than it was asked for), \<open>regularFile\<close> and \<open>imageFile\<close> (POSIX files), \<open>frameQueue\<close> (a device with finitely many
  frames) and \<open>tearDownOK\<close> (ioctls and close succeed).

  \<^bold>\<open>Not modelled.\<close> The assembly of \<^verbatim>\<open>nexus.S\<close> (the context switch itself; its order of calls is \<open>guestFaultEntry\<close> and
  \<open>guestIntEntry\<close>); the accessed and dirty bits that the processor sets in the shadow tables and its TLB, whose
  flushes are logged; interrupts that arrive while monitor code runs, beyond their return path; the page of the guest's registers being
  changed by the process between two reads of one ioctl; a copy from the process that fails half way; the FreeBSD
  driver, a port without working code for its kernel calls, and the null driver, a template; the messages of the user process
  to its error stream; a signal that interrupts it in the middle of a call; the stack of the boot loader and the assembly that calls it;
  \<^verbatim>\<open>setup32-cmdline.c\<close>, a tool of the build; in the guest's drivers spin locks, messages and the tables of block sizes, which
  are constant. The monitor's work for an \<^verbatim>\<open>int $0xff\<close> of the guest is the part of \<^verbatim>\<open>fault.c\<close> and \<^verbatim>\<open>x86-emu.c\<close> that leaves to the process,
  modelled there and not run again by \<open>halInt\<close>.
\<close>

section \<open>The guest stays confined\<close>





text \<open>C40: The code has two copies of the reset of the shadow tables, the host's and the monitor's. Both succeed and leave
  the same state but for the load of \<^verbatim>\<open>CR3\<close> (and with it the TLB) that only the monitor's does: all 1024 directory
  entries are cleared but the monitor's own, no page table is in use any more, the time of the reset is noted, nothing else
  changes; no access outside the monitor's 4 MB range translates.\<close>

theorem shadow_reset_equiv:
  "\<exists>vm1. hostInitShadowPaging env vm = Ret () vm1 \<and>
     monInitShadowPaging env vm = Ret () (upd_hw (\<lambda>h. h\<lparr>hw_cr3 := nx_mon_cr3 (vm_nexus vm)\<rparr>) vm1) \<and>
     vm_page_dir vm1 = (\<lambda>i. if i < 1024 \<and> i \<noteq> unat (vm_mon_pdi vm) then 0 else vm_page_dir vm i) \<and>
     vm_page_tbl_laddr_map vm1 = (\<lambda>i. if i < 1024 then - 1 else vm_page_tbl_laddr_map vm i) \<and> vm_ptbl_laddr_map_i vm1 = 0 \<and>
     {lin. shadowXlate vm1 lin w \<noteq> None} \<subseteq> {lin. lin_pdi lin = unat (vm_mon_pdi vm)} \<and>
     vm1 = vm\<lparr>vm_page_dir := vm_page_dir vm1, vm_page_tbl_laddr_map := vm_page_tbl_laddr_map vm1, vm_ptbl_laddr_map_i := 0,
       vm_vpaging_tsc := he_rdtsc env (hw_tscReads (vm_hw vm)), vm_hw := (vm_hw vm)\<lparr>hw_tscReads := Suc (hw_tscReads (vm_hw vm))\<rparr>\<rparr>"
proof (intro exI conjI)
  show "hostInitShadowPaging env vm = Ret () (shadowReset env vm)" by (rule hostInitShadowPaging_eq)
  show "monInitShadowPaging env vm = Ret () (upd_hw (\<lambda>h. h\<lparr>hw_cr3 := nx_mon_cr3 (vm_nexus vm)\<rparr>) (shadowReset env vm))"
    by (simp add: monInitShadowPaging_eq thn_app(1) [OF hostInitShadowPaging_eq] loadCR3_def shadowReset_def)
  show "{lin. shadowXlate (shadowReset env vm) lin w \<noteq> None} \<subseteq> {lin. lin_pdi lin = unat (vm_mon_pdi vm)}"
    by (auto simp: shadowXlate_def Let_def userMay_def pe_P_def shadowReset_def)
qed (simp_all add: shadowReset_def)

text \<open>C7: Mapping a page, invalidating one and resetting the tables keep the shadow tables isolated, through
  every request to pin a page and every eviction they cause on the way.\<close>

theorem paging_isolated:
  assumes "isolated m c vm"
  shows "wp (mapGuestLinAddr env a us rw) (\<lambda>_. isolated m c) vm \<and>
     wp (invalidateGuestLinAddr env a) (\<lambda>_. isolated m c) vm \<and> wp (monInitShadowPaging env) (\<lambda>_. isolated m c) vm"
  using assms mapGuestLinAddr_pres invalidateGuestLinAddr_pres monInitShadowPaging_pres unfolding pres_def by blast

theorem paging_isolated_witness:
  "isolated 0x300 0x100007 mapped_vm \<and>
   wp (mapGuestLinAddr sample_env 0x3000 True True) (\<lambda>_. isolated 0x300 0x100007) mapped_vm"
  using paging_isolated [OF mapped_isolated] mapped_isolated by blast

end
